(* ===== verification/Float64.thy ===== *)
theory Float64
  imports Prelude "HOL-Library.Log_Nat"
begin

text \<open>
  Go's \<open>float64\<close>: IEEE 754 binary64 with rounding to nearest, ties to even.  A finite
  double is the rational number it stands for, so negative zero is identified with zero (the
  two compare equal, and the program never divides by one or prints one: \<open>settled\<close> of
  the timesheet service replaces it).  NaN and the infinities are values of their own, and every
  comparison with NaN is false.

  \<open>rnd\<close> is the rounding of a rational number to 53 significant bits (fewer below the
  normal range), \<open>fl\<close> adds the overflow to infinity.  The locale \<open>rounding\<close>
  collects what the program's arguments about sums need of a rounding function - it is
  monotone, exact on the numbers of the format, and its relative error is bounded - and proves
  the bound on the error of a running sum once; it is interpreted on \<open>rnd\<close>.
\<close>

section \<open>Binary exponent and rounding to an integer\<close>

definition ilog2 :: "rat \<Rightarrow> int" where
  "ilog2 x = (let (p, q) = quotient_of x; k = bitlen p - bitlen q
              in if 2 powi k \<le> x then k else k - 1)"

definition round_even :: "rat \<Rightarrow> int" where
  "round_even y = (let f = \<lfloor>y\<rfloor>; d = y - of_int f
                   in if d < 1 / 2 then f else if 1 / 2 < d then f + 1
                      else if even f then f else f + 1)"

lemma powi_2_pos [simp]: "0 < (2 :: rat) powi k"
  by (simp add: zero_less_power_int)

lemma powi_2_mono: "j \<le> k \<Longrightarrow> (2 :: rat) powi j \<le> 2 powi k"
  by (simp add: power_int_increasing)

lemma powi_2_less_iff: "(2 :: rat) powi j < 2 powi k \<longleftrightarrow> j < k"
proof (cases "j < k")
  case True
  then show ?thesis by (simp add: power_int_strict_increasing)
next
  case False
  then show ?thesis using powi_2_mono [of k j] by auto
qed

lemma powi_2_add: "(2 :: rat) powi (j + k) = 2 powi j * 2 powi k"
  by (simp add: power_int_add)

lemma bitlen_rat_bounds:
  assumes "0 < n"
  shows "(2 :: rat) powi (bitlen n - 1) \<le> of_int n" "(of_int n :: rat) < 2 powi (bitlen n)"
proof -
  have b: "2 ^ nat (bitlen n - 1) \<le> n" "n < 2 ^ nat (bitlen n)"
    using bitlen_bounds [of n] assms by auto
  have pos: "0 < bitlen n"
    using assms by (metis bitlen_eq_zero_iff bitlen_nonneg linorder_not_less order_le_less)
  have "(2 :: rat) powi (bitlen n - 1) = of_int (2 ^ nat (bitlen n - 1))"
    using pos by (simp add: power_int_def)
  also have "\<dots> \<le> of_int n"
    using b(1) by (simp only: of_int_le_iff)
  finally show "(2 :: rat) powi (bitlen n - 1) \<le> of_int n" .
  have "(of_int n :: rat) < of_int (2 ^ nat (bitlen n))"
    using b(2) by (simp only: of_int_less_iff)
  also have "\<dots> = 2 powi (bitlen n)"
    using pos by (simp add: power_int_def)
  finally show "(of_int n :: rat) < 2 powi (bitlen n)" .
qed

lemma ilog2_bounds:
  assumes "0 < x"
  shows "2 powi (ilog2 x) \<le> x \<and> x < 2 powi (ilog2 x + 1)"
proof -
  obtain p q where pq: "quotient_of x = (p, q)" by fastforce
  then have x: "x = of_int p / of_int q" and q: "0 < q"
    by (auto dest: quotient_of_div quotient_of_denom_pos)
  from assms x q have p: "0 < p"
    by (simp add: zero_less_divide_iff)
  let ?k = "bitlen p - bitlen q"
  have "x < 2 powi (bitlen p) / of_int q"
    using bitlen_rat_bounds(2) [OF p] q by (simp add: x divide_strict_right_mono)
  also have "\<dots> \<le> 2 powi (bitlen p) / 2 powi (bitlen q - 1)"
    using bitlen_rat_bounds(1) [OF q] q by (intro divide_left_mono) auto
  also have "\<dots> = 2 powi (?k + 1)"
    by (simp flip: power_int_diff add: algebra_simps)
  finally have upper: "x < 2 powi (?k + 1)" .
  have "2 powi (?k - 1) = 2 powi (bitlen p - 1) / (2 :: rat) powi (bitlen q)"
    by (simp flip: power_int_diff add: algebra_simps)
  also have "\<dots> \<le> of_int p / 2 powi (bitlen q)"
    using bitlen_rat_bounds(1) [OF p] by (intro divide_right_mono) auto
  also have "\<dots> \<le> of_int p / of_int q"
    using bitlen_rat_bounds(2) [OF q] p q by (intro divide_left_mono) auto
  finally have lower: "2 powi (?k - 1) \<le> x" using x by simp
  show ?thesis
    using upper lower by (auto simp: ilog2_def pq Let_def)
qed

lemma ilog2_unique:
  assumes "2 powi k \<le> x" and "x < 2 powi (k + 1)"
  shows "ilog2 x = k"
proof -
  have "0 < x" using assms(1) powi_2_pos [of k] by linarith
  note b = ilog2_bounds [OF this]
  have "2 powi k < (2 :: rat) powi (ilog2 x + 1)" "2 powi (ilog2 x) < (2 :: rat) powi (k + 1)"
    using assms b by (meson order_le_less_trans)+
  then show ?thesis by (simp add: powi_2_less_iff)
qed

lemma ilog2_mono: "0 < x \<Longrightarrow> x \<le> y \<Longrightarrow> ilog2 x \<le> ilog2 y"
proof -
  assume "0 < x" "x \<le> y"
  then have "2 powi (ilog2 x) < (2 :: rat) powi (ilog2 y + 1)"
    using ilog2_bounds [of x] ilog2_bounds [of y] by linarith
  then show ?thesis by (simp add: powi_2_less_iff)
qed

lemma ilog2_less: "0 < x \<Longrightarrow> x < 2 powi k \<Longrightarrow> ilog2 x < k"
  using ilog2_bounds [of x] powi_2_less_iff [of "ilog2 x" k] by auto

lemma round_even_of_int [simp]: "round_even (of_int n) = n"
  by (simp add: round_even_def Let_def)

lemma round_even_near: "\<bar>of_int (round_even y) - y\<bar> \<le> 1 / 2"
proof -
  obtain n where n: "\<lfloor>y\<rfloor> = n" "of_int n \<le> y" "y < of_int n + 1"
    using that [of "\<lfloor>y\<rfloor>"] floor_correct [of y] by simp
  define d where "d = y - of_int n"
  have r: "round_even y = (if d < 1 / 2 then n else if 1 / 2 < d then n + 1 else if even n then n else n + 1)"
    by (simp only: round_even_def Let_def n(1) d_def)
  have y: "y = of_int n + d" and d: "0 \<le> d" "d < 1"
    using n(2,3) by (simp_all add: d_def)
  consider "d < 1 / 2" | "1 / 2 < d" | "d = 1 / 2" by linarith
  then show ?thesis
  proof cases
    case 1
    have "of_int (round_even y) - y = - d" using 1 unfolding r by (simp add: y)
    then show ?thesis using 1 d by linarith
  next
    case 2
    have "of_int (round_even y) - y = 1 - d" using 2 unfolding r by (simp add: y)
    then show ?thesis using 2 d by linarith
  next
    case 3
    have "of_int (round_even y) - y = - d \<or> of_int (round_even y) - y = 1 - d"
      using 3 unfolding r by (simp add: y)
    then show ?thesis using 3 d by linarith
  qed
qed

lemma round_even_mono: "x \<le> y \<Longrightarrow> round_even x \<le> round_even y"
proof -
  assume xy: "x \<le> y"
  then have f: "\<lfloor>x\<rfloor> \<le> \<lfloor>y\<rfloor>" by (rule floor_mono)
  show ?thesis
  proof (cases "\<lfloor>x\<rfloor> = \<lfloor>y\<rfloor>")
    case True
    then show ?thesis using xy by (auto simp: round_even_def Let_def)
  next
    case False
    then have "\<lfloor>x\<rfloor> + 1 \<le> \<lfloor>y\<rfloor>" using f by simp
    moreover have "round_even x \<le> \<lfloor>x\<rfloor> + 1" "\<lfloor>y\<rfloor> \<le> round_even y"
      by (auto simp: round_even_def Let_def)
    ultimately show ?thesis by linarith
  qed
qed

lemma round_even_nonneg: "0 \<le> y \<Longrightarrow> 0 \<le> round_even y"
  using round_even_mono [of 0 y] round_even_of_int [of 0] by simp

section \<open>Rounding to a double\<close>

definition grid_exp :: "rat \<Rightarrow> int" where
  "grid_exp x = max (ilog2 \<bar>x\<bar> - 52) (- 1074)"

definition rnd :: "rat \<Rightarrow> rat" where
  "rnd x = (if x = 0 then 0
            else let e = grid_exp x; r = of_int (round_even (\<bar>x\<bar> / 2 powi e)) * 2 powi e
                 in if x < 0 then - r else r)"

text \<open>The numbers of the format: at most 53 bits of mantissa over a power of two.\<close>

definition is_double :: "rat \<Rightarrow> bool" where
  "is_double x \<longleftrightarrow> (\<exists>m e. x = of_int m * 2 powi e \<and> \<bar>m\<bar> \<le> 2 ^ 53 \<and> - 1074 \<le> e)"

lemma rnd_0 [simp]: "rnd 0 = 0"
  by (simp add: rnd_def)

lemma rnd_minus [simp]: "rnd (- x) = - rnd x"
  by (simp add: rnd_def grid_exp_def Let_def)

lemma rnd_pos: "0 < x \<Longrightarrow> rnd x = of_int (round_even (x / 2 powi (grid_exp x))) * 2 powi (grid_exp x)"
  by (simp add: rnd_def Let_def)

lemma rnd_nonneg: "0 \<le> x \<Longrightarrow> 0 \<le> rnd x"
  by (cases "x = 0") (auto simp: rnd_pos round_even_nonneg)

lemma scaled_bound:
  assumes "0 < x"
  shows "x / 2 powi (grid_exp x) < 2 ^ 53"
proof -
  have "x < 2 powi (ilog2 x + 1)" using ilog2_bounds [OF assms] by simp
  also have "\<dots> \<le> 2 powi (53 + grid_exp x)"
    using assms by (intro powi_2_mono) (simp add: grid_exp_def)
  also have "\<dots> = 2 ^ 53 * 2 powi (grid_exp x)"
    by (simp add: power_int_add)
  finally show ?thesis by (simp add: divide_less_eq)
qed

lemma is_double_minusI: "is_double x \<Longrightarrow> is_double (- x)"
proof -
  assume "is_double x"
  then obtain m e where "x = of_int m * 2 powi e" "\<bar>m\<bar> \<le> 2 ^ 53" "- 1074 \<le> e"
    by (auto simp: is_double_def)
  then show ?thesis
    unfolding is_double_def by (intro exI [of _ "- m"] exI [of _ e]) simp
qed

lemma is_double_minus: "is_double (- x) = is_double x"
  using is_double_minusI [of x] is_double_minusI [of "- x"] by auto

lemma rnd_is_double: "is_double (rnd x)"
proof -
  have pos: "is_double (rnd x)" if "0 < x" for x
  proof -
    let ?m = "round_even (x / 2 powi (grid_exp x))"
    have "x / 2 powi (grid_exp x) \<le> of_int (2 ^ 53)"
      using scaled_bound [OF that] by simp
    then have "?m \<le> round_even (of_int (2 ^ 53))" by (rule round_even_mono)
    then have "?m \<le> 2 ^ 53" by (simp only: round_even_of_int)
    moreover have "0 \<le> ?m" using that by (intro round_even_nonneg) simp
    moreover have "- 1074 \<le> grid_exp x" by (simp add: grid_exp_def)
    ultimately show ?thesis
      unfolding is_double_def rnd_pos [OF that] by (intro exI [of _ ?m] exI) auto
  qed
  have zero: "is_double 0"
    unfolding is_double_def by (rule exI [of _ 0], rule exI [of _ 0]) simp
  consider "x = 0" | "0 < x" | "0 < - x" by linarith
  then show ?thesis
    by cases (use zero pos [of x] pos [of "- x"] in \<open>auto simp: is_double_minus\<close>)
qed

lemma rnd_exact_pos:
  assumes "0 < x" and "is_double x"
  shows "rnd x = x"
proof -
  obtain m e where x: "x = of_int m * 2 powi e" and m: "\<bar>m\<bar> \<le> 2 ^ 53" and e: "- 1074 \<le> e"
    using assms(2) by (auto simp: is_double_def)
  have mpos: "0 < m"
    using assms(1) powi_2_pos [of e] unfolding x by (simp add: zero_less_mult_iff)
  obtain k where k: "x = of_int k * 2 powi (grid_exp x)"
  proof (cases "m < 2 ^ 53")
    case True
    have "(of_int m :: rat) < of_int (2 ^ 53)" using True by (simp only: of_int_less_iff)
    then have "x < 2 powi 53 * 2 powi e"
      unfolding x by (intro mult_strict_right_mono) auto
    then have "x < 2 powi (53 + e)" by (simp only: powi_2_add)
    then have "ilog2 x < 53 + e" using assms(1) by (rule ilog2_less [rotated])
    then have le: "grid_exp x \<le> e" using assms(1) e by (simp add: grid_exp_def)
    have "2 powi e = (2 :: rat) powi (int (nat (e - grid_exp x)) + grid_exp x)"
      using le by simp
    also have "\<dots> = of_int (2 ^ nat (e - grid_exp x)) * 2 powi (grid_exp x)"
      unfolding powi_2_add by (simp only: power_int_of_nat of_int_power of_int_numeral)
    finally have "x = of_int (m * 2 ^ nat (e - grid_exp x)) * 2 powi (grid_exp x)"
      by (simp add: x)
    then show ?thesis by (rule that)
  next
    case False
    then have m53: "m = 2 ^ 53" using m mpos by simp
    have xe: "x = 2 powi (53 + e)" by (simp add: x m53 powi_2_add)
    have "ilog2 x = 53 + e"
      by (rule ilog2_unique) (simp_all add: xe powi_2_less_iff)
    then have g: "grid_exp x = e + 1" using assms(1) e by (simp add: grid_exp_def)
    have "x = 2 powi (52 + grid_exp x)"
      unfolding g by (simp add: xe)
    then have "x = of_int (2 ^ 52) * 2 powi (grid_exp x)"
      by (simp only: powi_2_add) (simp only: of_int_power of_int_numeral power_int_numeral)
    then show ?thesis by (rule that)
  qed
  then have "x / 2 powi (grid_exp x) = of_int k"
    using k by (simp add: nonzero_divide_eq_eq)
  then show ?thesis using k by (simp add: rnd_pos [OF assms(1)])
qed

lemma rnd_exact: "is_double x \<Longrightarrow> rnd x = x"
proof -
  assume x: "is_double x"
  consider "x = 0" | "0 < x" | "0 < - x" by linarith
  then show ?thesis
    using x rnd_exact_pos [of x] rnd_exact_pos [of "- x"]
    by cases (auto simp: is_double_minus)
qed

lemma rnd_rnd [simp]: "rnd (rnd x) = rnd x"
  by (rule rnd_exact) (rule rnd_is_double)

lemma rnd_error_pos:
  assumes "0 < x"
  shows "\<bar>rnd x - x\<bar> \<le> 2 powi (grid_exp x - 1)"
proof -
  let ?g = "2 powi (grid_exp x) :: rat"
  have "x = (x / ?g) * ?g" by simp
  then have "rnd x - x = (of_int (round_even (x / ?g)) - x / ?g) * ?g"
    by (simp add: rnd_pos [OF assms] left_diff_distrib)
  also have "\<bar>\<dots>\<bar> \<le> 1 / 2 * ?g"
    using round_even_near [of "x / ?g"] unfolding abs_mult abs_of_pos [OF powi_2_pos]
    by (intro mult_right_mono less_imp_le [OF powi_2_pos])
  also have "\<dots> = 2 powi (grid_exp x - 1)"
    by (simp add: power_int_diff)
  finally show ?thesis .
qed

text \<open>Below two to the \<open>k\<close> a rounding moves a value by at most two to the \<open>k - 54\<close>.\<close>

lemma rnd_error:
  assumes "0 \<le> x" and "x < 2 powi k" and "- 1021 \<le> k"
  shows "\<bar>rnd x - x\<bar> \<le> 2 powi (k - 54)"
proof (cases "x = 0")
  case True
  then show ?thesis by (simp add: less_imp_le)
next
  case False
  then have pos: "0 < x" using assms(1) by simp
  have "ilog2 x < k" using pos assms(2) by (rule ilog2_less)
  then have "grid_exp x - 1 \<le> k - 54" using pos assms(3) by (simp add: grid_exp_def)
  then have "2 powi (grid_exp x - 1) \<le> (2 :: rat) powi (k - 54)" by (rule powi_2_mono)
  then show ?thesis using rnd_error_pos [OF pos] by linarith
qed

lemma rnd_mono_pos:
  assumes "0 < x" and "x \<le> y"
  shows "rnd x \<le> rnd y"
proof -
  have y: "0 < y" using assms by simp
  have g: "grid_exp x \<le> grid_exp y"
    using ilog2_mono [OF assms] assms y by (simp add: grid_exp_def)
  show ?thesis
  proof (cases "grid_exp x = grid_exp y")
    case True
    have "x / 2 powi (grid_exp y) \<le> y / 2 powi (grid_exp y)"
      using assms(2) by (intro divide_right_mono) (auto intro: less_imp_le)
    then show ?thesis
      by (simp add: rnd_pos [OF assms(1)] rnd_pos [OF y] True round_even_mono mult_right_mono less_imp_le)
  next
    case False
    then have less: "grid_exp x < grid_exp y" using g by simp
    then have iy: "grid_exp y = ilog2 y - 52"
      using y by (auto simp: grid_exp_def split: if_splits)
    have "x / 2 powi (grid_exp x) \<le> of_int (2 ^ 53)"
      using scaled_bound [OF assms(1)] by simp
    then have "round_even (x / 2 powi (grid_exp x)) \<le> 2 ^ 53"
      using round_even_mono round_even_of_int by metis
    then have "(of_int (round_even (x / 2 powi (grid_exp x))) :: rat) \<le> of_int (2 ^ 53)"
      by (simp only: of_int_le_iff)
    then have "rnd x \<le> of_int (2 ^ 53) * 2 powi (grid_exp x)"
      unfolding rnd_pos [OF assms(1)] by (intro mult_right_mono less_imp_le [OF powi_2_pos])
    also have "\<dots> = 2 powi (53 + grid_exp x)"
      by (simp only: powi_2_add) (simp only: of_int_power of_int_numeral power_int_numeral)
    also have "\<dots> \<le> 2 powi (52 + grid_exp y)"
      using less by (intro powi_2_mono) simp
    also have "\<dots> = of_int (2 ^ 52) * 2 powi (grid_exp y)"
      by (simp only: powi_2_add) (simp only: of_int_power of_int_numeral power_int_numeral)
    also have "\<dots> \<le> rnd y"
    proof -
      have "2 powi (52 + grid_exp y) \<le> y"
        using ilog2_bounds [OF y] by (simp add: iy)
      then have "of_int (2 ^ 52) \<le> y / 2 powi (grid_exp y)"
        by (simp only: powi_2_add pos_le_divide_eq [OF powi_2_pos])
          (simp only: of_int_power of_int_numeral power_int_numeral)
      then have "2 ^ 52 \<le> round_even (y / 2 powi (grid_exp y))"
        using round_even_mono round_even_of_int by metis
      then have "(of_int (2 ^ 52) :: rat) \<le> of_int (round_even (y / 2 powi (grid_exp y)))"
        by (simp only: of_int_le_iff)
      then show ?thesis
        unfolding rnd_pos [OF y] by (intro mult_right_mono less_imp_le [OF powi_2_pos])
    qed
    finally show ?thesis .
  qed
qed

lemma rnd_mono: "x \<le> y \<Longrightarrow> rnd x \<le> rnd y"
proof -
  assume xy: "x \<le> y"
  consider "0 < x" | "x \<le> 0" "0 \<le> y" | "y < 0" by linarith
  then show ?thesis
  proof cases
    case 1
    then show ?thesis using xy by (rule rnd_mono_pos)
  next
    case 2
    then show ?thesis using rnd_nonneg [of y] rnd_nonneg [of "- x"] by simp
  next
    case 3
    then show ?thesis using xy rnd_mono_pos [of "- y" "- x"] by simp
  qed
qed

lemma is_double_powi: "- 1074 \<le> k \<Longrightarrow> is_double (2 powi k)"
  unfolding is_double_def by (intro exI [of _ 1] exI [of _ k]) simp

lemma is_double_of_int: "\<bar>n\<bar> \<le> 2 ^ 53 \<Longrightarrow> is_double (of_int n)"
  unfolding is_double_def by (intro exI [of _ n] exI [of _ 0]) simp

lemma rnd_of_int: "\<bar>n\<bar> \<le> 2 ^ 53 \<Longrightarrow> rnd (of_int n) = of_int n"
  by (intro rnd_exact is_double_of_int)

lemma is_double_dyadic: "\<bar>m\<bar> \<le> 2 ^ 53 \<Longrightarrow> k \<le> 1074 \<Longrightarrow> is_double (of_int m / 2 ^ k)"
  unfolding is_double_def
  by (intro exI [of _ m] exI [of _ "- int k"]) (simp add: power_int_minus field_simps)

section \<open>Running sums under rounding\<close>

fun running_sum :: "(rat \<Rightarrow> rat) \<Rightarrow> rat \<Rightarrow> rat list \<Rightarrow> rat" where
  "running_sum r acc [] = acc"
| "running_sum r acc (x # xs) = running_sum r (r (acc + x)) xs"

locale rounding =
  fixes r :: "rat \<Rightarrow> rat" and format :: "rat \<Rightarrow> bool"
  assumes lands: "format (r x)"
    and exact: "format x \<Longrightarrow> r x = x"
    and monotone: "x \<le> y \<Longrightarrow> r x \<le> r y"
    and error: "0 \<le> x \<Longrightarrow> x < 2 powi k \<Longrightarrow> - 1021 \<le> k \<Longrightarrow> \<bar>r x - x\<bar> \<le> 2 powi (k - 54)"
    and powers: "- 1074 \<le> k \<Longrightarrow> format (2 powi k)"
begin

lemma grows: "format a \<Longrightarrow> 0 \<le> x \<Longrightarrow> a \<le> r (a + x)"
  using monotone [of a "a + x"] exact [of a] by simp

lemma sum_grows: "format a \<Longrightarrow> \<forall>x \<in> set xs. 0 \<le> x \<Longrightarrow> a \<le> running_sum r a xs"
proof (induction xs arbitrary: a)
  case (Cons x xs)
  then have "a \<le> r (a + x)" by (intro grows) auto
  also have "\<dots> \<le> running_sum r (r (a + x)) xs" using Cons lands by auto
  finally show ?case by simp
qed simp

lemma below_power: "r x < 2 powi k \<Longrightarrow> - 1074 \<le> k \<Longrightarrow> x < 2 powi k"
  using monotone [of "2 powi k" x] exact [OF powers [of k]] by (cases "x < 2 powi k") auto

text \<open>A running sum of nonnegative numbers that ends below two to the \<open>k\<close> is off by at
  most two to the \<open>k - 54\<close> per addition.\<close>

lemma sum_error:
  assumes "format a" "0 \<le> a" "\<forall>x \<in> set xs. 0 \<le> x"
    and "running_sum r a xs < 2 powi k" "- 1021 \<le> k"
  shows "\<bar>running_sum r a xs - (a + sum_list xs)\<bar> \<le> of_nat (length xs) * 2 powi (k - 54)"
  using assms(1-4)
proof (induction xs arbitrary: a)
  case (Cons x xs)
  let ?a = "r (a + x)" and ?d = "2 powi (k - 54) :: rat"
  have x: "0 \<le> x" and xs: "\<forall>x \<in> set xs. 0 \<le> x" using Cons.prems(3) by auto
  have end_: "running_sum r ?a xs < 2 powi k" using Cons.prems(4) by simp
  have "?a \<le> running_sum r ?a xs" by (rule sum_grows [OF lands xs])
  then have "?a < 2 powi k" using end_ by linarith
  then have "a + x < 2 powi k" by (rule below_power) (use assms(5) in simp)
  then have e1: "\<bar>?a - (a + x)\<bar> \<le> ?d"
    using Cons.prems(2) x assms(5) by (intro error) auto
  have "0 \<le> ?a" using grows [OF Cons.prems(1) x] Cons.prems(2) by simp
  then have e2: "\<bar>running_sum r ?a xs - (?a + sum_list xs)\<bar> \<le> of_nat (length xs) * ?d"
    by (rule Cons.IH [OF lands _ xs end_])
  have "\<bar>running_sum r ?a xs - (a + (x + sum_list xs))\<bar> \<le> ?d + of_nat (length xs) * ?d"
    using e1 e2 by linarith
  then show ?case by (simp add: algebra_simps)
qed (simp add: less_imp_le)

text \<open>The same bound from what the exact sum stays below.\<close>

lemma sum_error_exact:
  assumes "format a" "0 \<le> a" "\<forall>x \<in> set xs. 0 \<le> x"
    and "a + sum_list xs + of_nat (length xs) * 2 powi (k - 54) < 2 powi k" "- 1021 \<le> k"
  shows "\<bar>running_sum r a xs - (a + sum_list xs)\<bar> \<le> of_nat (length xs) * 2 powi (k - 54)"
  using assms(1-4)
proof (induction xs arbitrary: a)
  case (Cons x xs)
  let ?a = "r (a + x)" and ?d = "2 powi (k - 54) :: rat"
  have nonneg: "0 \<le> sum_list xs" using Cons.prems by (intro sum_list_nonneg_mono) auto
  have "0 \<le> of_nat (length (x # xs)) * ?d" by (intro mult_nonneg_nonneg) (simp_all add: less_imp_le)
  then have "a + x < 2 powi k" using Cons.prems(4) nonneg unfolding sum_list.Cons by linarith
  then have e1: "\<bar>?a - (a + x)\<bar> \<le> ?d"
    using Cons.prems assms(5) by (intro error) auto
  have "a \<le> ?a" using Cons.prems by (intro grows) auto
  moreover have "?a + sum_list xs + of_nat (length xs) * ?d < 2 powi k"
    using Cons.prems(4) e1 unfolding abs_le_iff by (simp add: algebra_simps)
  ultimately have "\<bar>running_sum r ?a xs - (?a + sum_list xs)\<bar> \<le> of_nat (length xs) * ?d"
    using Cons.prems(2,3) lands by (intro Cons.IH) auto
  then have "\<bar>running_sum r ?a xs - (a + (x + sum_list xs))\<bar> \<le> ?d + of_nat (length xs) * ?d"
    using e1 by linarith
  then show ?case by (simp add: algebra_simps)
qed simp

end

interpretation ieee: rounding rnd is_double
  by unfold_locales (auto intro: rnd_is_double rnd_exact rnd_mono rnd_error is_double_powi)

section \<open>The values and operations\<close>

datatype float64 = NaN | Inf bool | Fin rat

definition fl :: "rat \<Rightarrow> float64" where
  "fl x = (let r = rnd x in
           if 2 ^ 1024 \<le> r then Inf False else if r \<le> - (2 ^ 1024) then Inf True else Fin r)"

fun is_float :: "float64 \<Rightarrow> bool" where
  "is_float (Fin x) = (is_double x \<and> \<bar>x\<bar> < 2 ^ 1024)"
| "is_float _ = True"

fun fadd :: "float64 \<Rightarrow> float64 \<Rightarrow> float64" where
  "fadd (Fin x) (Fin y) = fl (x + y)"
| "fadd (Inf s) (Fin y) = Inf s"
| "fadd (Fin x) (Inf t) = Inf t"
| "fadd (Inf s) (Inf t) = (if s = t then Inf s else NaN)"
| "fadd _ _ = NaN"

fun fneg :: "float64 \<Rightarrow> float64" where
  "fneg (Fin x) = Fin (- x)"
| "fneg (Inf s) = Inf (\<not> s)"
| "fneg NaN = NaN"

definition fsub :: "float64 \<Rightarrow> float64 \<Rightarrow> float64" where
  "fsub x y = fadd x (fneg y)"

fun fmul :: "float64 \<Rightarrow> float64 \<Rightarrow> float64" where
  "fmul (Fin x) (Fin y) = fl (x * y)"
| "fmul (Inf s) (Fin y) = (if y = 0 then NaN else Inf (s \<noteq> (y < 0)))"
| "fmul (Fin x) (Inf t) = (if x = 0 then NaN else Inf (t \<noteq> (x < 0)))"
| "fmul (Inf s) (Inf t) = Inf (s \<noteq> t)"
| "fmul _ _ = NaN"

text \<open>Division; a zero divisor gives the infinity of the dividend's sign, as dividing by
  positive zero does, and the program divides by nonzero constants only.\<close>

fun fdiv :: "float64 \<Rightarrow> float64 \<Rightarrow> float64" where
  "fdiv (Fin x) (Fin y) = (if y = 0 then (if x = 0 then NaN else Inf (x < 0)) else fl (x / y))"
| "fdiv (Inf s) (Fin y) = Inf (s \<noteq> (y < 0))"
| "fdiv (Fin x) (Inf t) = Fin 0"
| "fdiv _ _ = NaN"

fun fless :: "float64 \<Rightarrow> float64 \<Rightarrow> bool" where
  "fless (Fin x) (Fin y) = (x < y)"
| "fless (Inf s) (Fin y) = s"
| "fless (Fin x) (Inf t) = (\<not> t)"
| "fless (Inf s) (Inf t) = (s \<and> \<not> t)"
| "fless _ _ = False"

fun feq :: "float64 \<Rightarrow> float64 \<Rightarrow> bool" where
  "feq NaN y = False"
| "feq x NaN = False"
| "feq x y = (x = y)"

definition fle :: "float64 \<Rightarrow> float64 \<Rightarrow> bool" where
  "fle x y \<longleftrightarrow> fless x y \<or> feq x y"

text \<open>\<^verbatim>\<open>math.Round\<close>: to the nearest integer, halves away from zero; exact on doubles.\<close>

definition round_away :: "rat \<Rightarrow> int" where
  "round_away x = (if x < 0 then - \<lfloor>- x + 1 / 2\<rfloor> else \<lfloor>x + 1 / 2\<rfloor>)"

fun fround :: "float64 \<Rightarrow> float64" where
  "fround (Fin x) = Fin (of_int (round_away x))"
| "fround x = x"

definition float_of_int :: "int \<Rightarrow> float64" where
  "float_of_int n = fl (of_int n)"

text \<open>Conversion to \<open>int64\<close> truncates; out of range the language leaves the value to the
  implementation, which is \<open>None\<close> here.\<close>

fun to_int64 :: "float64 \<Rightarrow> int option" where
  "to_int64 (Fin x) = (let t = (if x < 0 then \<lceil>x\<rceil> else \<lfloor>x\<rfloor>)
                       in if - (2 ^ 63) \<le> t \<and> t < 2 ^ 63 then Some t else None)"
| "to_int64 _ = None"

lemma fle_Fin [simp]: "fle (Fin x) (Fin y) \<longleftrightarrow> x \<le> y"
  by (auto simp: fle_def)

lemma fle_NaN [simp]: "\<not> fle NaN x" "\<not> fle x NaN"
  by (cases x; simp add: fle_def)+

lemma fle_Inf [simp]: "fle (Fin x) (Inf t) = (\<not> t)" "fle (Inf s) (Fin x) = s"
  by (auto simp: fle_def)

text \<open>What lies between two finite doubles is finite: the form every range check takes.\<close>

lemma between_finite:
  assumes "fle (Fin a) h" and "fle h (Fin b)"
  obtains x where "h = Fin x" "a \<le> x" "x \<le> b"
  using assms by (cases h) auto

lemma fl_small: "\<bar>rnd x\<bar> < 2 ^ 1024 \<Longrightarrow> fl x = Fin (rnd x)"
  by (auto simp: fl_def Let_def abs_less_iff)

lemma fl_double: "is_double x \<Longrightarrow> \<bar>x\<bar> < 2 ^ 1024 \<Longrightarrow> fl x = Fin x"
  using fl_small [of x] by (simp add: rnd_exact)

lemma fl_Fin: "fl x = Fin y \<Longrightarrow> y = rnd x"
  by (auto simp: fl_def Let_def split: if_splits)

lemma fl_not_NaN [simp]: "fl x \<noteq> NaN"
  by (auto simp: fl_def Let_def)

lemma fl_of_int: "\<bar>n\<bar> < 2 ^ 53 \<Longrightarrow> fl (of_int n) = Fin (of_int n)"
proof -
  assume n: "\<bar>n\<bar> < 2 ^ 53"
  have "\<bar>of_int n\<bar> < (2 :: rat) ^ 53" using n by (metis of_int_abs of_int_less_iff of_int_numeral of_int_power)
  also have "(2 :: rat) ^ 53 < 2 ^ 1024" by (rule power_strict_increasing) simp_all
  finally show ?thesis using n by (intro fl_double is_double_of_int) simp_all
qed

end
