(* ===== verification/GoTime.thy ===== *)
theory GoTime
  imports Float64
begin

text \<open>
  Go's \<open>time\<close> package as far as the program uses it.  An instant with a location is a
  record of the nanoseconds since the Unix epoch and the location; a location is its offset
  before the first transition and the list of its transitions (Unix second, offset from then
  on), which is the shape of the time-zone database the program embeds.  A calendar day - what
  every stored date is - is an integer counting days from 1 January 1970; \<open>midnight\<close> is
  the \<open>time.Time\<close> the program stores for it.

  From \<^verbatim>\<open>domain/model/date.go\<close>: \<open>CalendarDay\<close>, \<open>OnTheCalendar\<close> and its bounds;
  from the timesheet service \<open>startOfDay\<close>.  The rest is the standard library.
\<close>

type_synonym day = int

section \<open>The proleptic Gregorian calendar\<close>

definition leap_year :: "int \<Rightarrow> bool" where
  "leap_year y \<longleftrightarrow> y mod 4 = 0 \<and> (y mod 100 \<noteq> 0 \<or> y mod 400 = 0)"

definition year_start :: "int \<Rightarrow> day" where
  "year_start y = 365 * (y - 1) + (y - 1) div 4 - (y - 1) div 100 + (y - 1) div 400 - 719162"

definition year_of :: "day \<Rightarrow> int" where
  "year_of d =
     (let n = d + 719162;
          a = n div 146097; r = n mod 146097;
          b = min (r div 36524) 3; s = r - 36524 * b;
          c = s div 1461; t = s mod 1461;
          e = min (t div 365) 3
      in 400 * a + 100 * b + 4 * c + e + 1)"

definition month_start :: "bool \<Rightarrow> int \<Rightarrow> int" where
  "month_start leap m =
     [0, 31, 59, 90, 120, 151, 181, 212, 243, 273, 304, 334, 365] ! nat (m - 1)
     + (if leap \<and> 2 < m then 1 else 0)"

text \<open>\<^verbatim>\<open>time.Date(y, m, d, 0, 0, 0, 0, time.UTC)\<close>, months and days out of range carried
  over as Go carries them.\<close>

definition date :: "int \<Rightarrow> int \<Rightarrow> int \<Rightarrow> day" where
  "date y m d = (let y' = y + (m - 1) div 12; m' = (m - 1) mod 12 + 1
                 in year_start y' + month_start (leap_year y') m' + d - 1)"

definition year_day :: "day \<Rightarrow> int" where
  "year_day d = d - year_start (year_of d)"

definition month_of :: "day \<Rightarrow> int" where
  "month_of d = (let l = leap_year (year_of d); n = year_day d
     in 1 + int (length (filter (\<lambda>m. month_start l m \<le> n) [2..12])))"

definition month_day :: "day \<Rightarrow> int" where
  "month_day d = year_day d - month_start (leap_year (year_of d)) (month_of d) + 1"

text \<open>\<open>time.Weekday\<close>: Sunday is 0; the epoch was a Thursday.\<close>

definition weekday :: "day \<Rightarrow> int" where
  "weekday d = (d + 4) mod 7"

lemma weekday_range: "0 \<le> weekday d" "weekday d < 7"
  by (simp_all add: weekday_def)

lemma weekday_add [simp]: "weekday (d + 7) = weekday d" "weekday (d - 7) = weekday d"
proof -
  show up: "weekday (e + 7) = weekday e" for e
    unfolding weekday_def using mod_add_self2 [of "e + 4" 7] by (simp add: algebra_simps)
  show "weekday (d - 7) = weekday d" using up [of "d - 7"] by simp
qed

lemma year_start_parts:
  assumes "0 \<le> b" "b \<le> 3" "0 \<le> c" "c \<le> 24" "0 \<le> e" "e \<le> 3"
  shows "year_start (400 * a + 100 * b + 4 * c + e + 1)
         = 146097 * a + 36524 * b + 1461 * c + 365 * e - 719162"
proof -
  have "(400 * a + 100 * b + 4 * c + e) div 4 = 100 * a + 25 * b + c"
    using assms by (intro int_div_pos_eq [where r = e]) auto
  moreover have "(400 * a + 100 * b + 4 * c + e) div 100 = 4 * a + b"
    using assms by (intro int_div_pos_eq [where r = "4 * c + e"]) auto
  moreover have "(400 * a + 100 * b + 4 * c + e) div 400 = a"
    using assms by (intro int_div_pos_eq [where r = "100 * b + 4 * c + e"]) auto
  ultimately show ?thesis by (simp add: year_start_def)
qed

lemma weekday_step:
  "weekday (d + 1) = (weekday d + 1) mod 7" "weekday (d - 1) = (weekday d + 6) mod 7"
proof -
  show "weekday (d + 1) = (weekday d + 1) mod 7"
    unfolding weekday_def by (simp add: mod_simps algebra_simps)
  have "d - 1 + 4 = d + 10 - 7" by simp
  then have "weekday (d - 1) = (d + 10) mod 7"
    unfolding weekday_def by (metis minus_mod_self2)
  then show "weekday (d - 1) = (weekday d + 6) mod 7"
    unfolding weekday_def by (simp add: mod_simps algebra_simps)
qed

lemma div_pred:
  fixes y k :: int
  assumes "0 < k"
  shows "y div k = (y - 1) div k + (if y mod k = 0 then 1 else 0)"
proof (cases "y mod k = 0")
  case True
  then have "y = k * (y div k)" using mult_div_mod_eq [of k y] by simp
  then have "(y - 1) div k = y div k - 1"
    using assms by (intro int_div_pos_eq [where r = "k - 1"]) (auto simp: algebra_simps)
  then show ?thesis using True by simp
next
  case False
  then have "0 < y mod k" using pos_mod_sign [OF assms, of y] by simp
  then have "(y - 1) div k = y div k"
    using assms mult_div_mod_eq [of k y] pos_mod_bound [OF assms, of y]
    by (intro int_div_pos_eq [where r = "y mod k - 1"]) auto
  then show ?thesis using False by simp
qed

lemma year_start_Suc: "year_start (y + 1) = year_start y + (if leap_year y then 366 else 365)"
proof -
  define q where "q k = (y - 1) div k" for k
  define z where "z k \<longleftrightarrow> y mod k = 0" for k
  have m: "z 400 \<Longrightarrow> z 100" "z 100 \<Longrightarrow> z 4"
    unfolding z_def using mod_mod_cancel [of 100 400 y] mod_mod_cancel [of 4 100 y] by simp_all
  have d: "y div k = q k + (if z k then 1 else 0)" if "0 < k" for k
    unfolding q_def z_def using that by (rule div_pred)
  have "year_start (y + 1) = 365 * y + y div 4 - y div 100 + y div 400 - 719162"
    unfolding year_start_def add_diff_cancel_right' by (rule refl)
  then have s1: "year_start (y + 1) = 365 * y + (q 4 + (if z 4 then 1 else 0))
      - (q 100 + (if z 100 then 1 else 0)) + (q 400 + (if z 400 then 1 else 0)) - 719162"
    unfolding d [of 4, simplified] d [of 100, simplified] d [of 400, simplified] .
  have s0: "year_start y = 365 * (y - 1) + q 4 - q 100 + q 400 - 719162"
    unfolding year_start_def q_def by (rule refl)
  have l: "leap_year y \<longleftrightarrow> z 4 \<and> (\<not> z 100 \<or> z 400)"
    unfolding leap_year_def z_def by (rule refl)
  show ?thesis
    unfolding s0 s1 l using m by (cases "z 4"; cases "z 100"; cases "z 400") simp_all
qed

lemma year_start_less: "y < z \<Longrightarrow> year_start y < year_start z"
proof (induction "nat (z - y)" arbitrary: z)
  case (Suc n)
  show ?case
  proof (cases "y = z - 1")
    case True
    then show ?thesis using year_start_Suc [of y] by simp
  next
    case False
    then have "year_start y < year_start (z - 1)" using Suc by (intro Suc.hyps) auto
    then show ?thesis using year_start_Suc [of "z - 1"] by (auto split: if_splits)
  qed
qed simp

lemma year_of_spec: "year_start (year_of d) \<le> d \<and> d < year_start (year_of d + 1)"
proof -
  define n where "n = d + 719162"
  define a where "a = n div 146097"
  define r where "r = n mod 146097"
  define b where "b = min (r div 36524) 3"
  define s where "s = r - 36524 * b"
  define c where "c = s div 1461"
  define t where "t = s mod 1461"
  define e where "e = min (t div 365) 3"
  have n: "n = 146097 * a + r" by (simp add: a_def r_def)
  have r: "0 \<le> r" "r < 146097" by (simp_all add: r_def)
  have b: "0 \<le> b" "b \<le> 3" using r by (auto simp: b_def)
  have s: "0 \<le> s" "s \<le> 36524" "b < 3 \<Longrightarrow> s < 36524"
  proof -
    have q: "r = 36524 * (r div 36524) + r mod 36524" "0 \<le> r mod 36524" "r mod 36524 < 36524"
      by simp_all
    define k m where "k = r div 36524" and "m = r mod 36524"
    show "0 \<le> s" "s \<le> 36524" "b < 3 \<Longrightarrow> s < 36524"
      unfolding s_def b_def using q r unfolding k_def [symmetric] m_def [symmetric]
      by (cases "k \<le> 3"; auto simp: min_def)+
  qed
  have st: "s = 1461 * c + t" by (simp add: c_def t_def)
  have t: "0 \<le> t" "t < 1461" by (simp_all add: t_def)
  have c: "0 \<le> c" "c \<le> 24" using s st t by linarith+
  have e: "0 \<le> e" "e \<le> 3" using t by (auto simp: e_def)
  have et: "365 * e \<le> t" "e < 3 \<Longrightarrow> t < 365 * e + 365" "t \<le> 365 * e + 365"
  proof -
    have q: "t = 365 * (t div 365) + t mod 365" "0 \<le> t mod 365" "t mod 365 < 365"
      by simp_all
    define k m where "k = t div 365" and "m = t mod 365"
    show "365 * e \<le> t" "e < 3 \<Longrightarrow> t < 365 * e + 365" "t \<le> 365 * e + 365"
      unfolding e_def using q t unfolding k_def [symmetric] m_def [symmetric]
      by (cases "k \<le> 3"; auto simp: min_def)+
  qed
  have y: "year_of d = 400 * a + 100 * b + 4 * c + e + 1"
    by (simp only: year_of_def Let_def n_def a_def r_def b_def s_def c_def t_def e_def)
  have ys: "year_start (year_of d) = 146097 * a + 36524 * b + 1461 * c + 365 * e - 719162"
    unfolding y by (rule year_start_parts [OF b c e])
  have d: "d = 146097 * a + 36524 * b + s - 719162" using n s_def by (simp add: n_def)
  have upper: "t < 365 * e + 365 \<or> leap_year (year_of d)"
  proof (cases "t < 365 * e + 365")
    case False
    then have e3: "e = 3" using et(2) e by (cases "e < 3") auto
    then have t1460: "t = 1460" using False et t by auto
    have "c < 24 \<or> b = 3"
      using s st t1460 b(2) by (cases "b = 3") auto
    then have "leap_year (year_of d)"
    proof
      assume c24: "c < 24"
      have "(400 * a + 100 * b + 4 * c + 3 + 1) mod 4 = 0"
        by (rule int_mod_pos_eq [where q = "100 * a + 25 * b + c + 1"]) auto
      moreover have "(400 * a + 100 * b + 4 * c + 3 + 1) mod 100 = 4 * c + 4"
        using c c24 by (intro int_mod_pos_eq [where q = "4 * a + b"]) auto
      ultimately show ?thesis unfolding y e3 leap_year_def using c by simp
    next
      assume b3: "b = 3"
      show ?thesis
      proof (cases "c = 24")
        case True
        have "(400 * a + 100 * 3 + 4 * 24 + 3 + 1) mod 400 = 0"
          by (rule int_mod_pos_eq [where q = "a + 1"]) auto
        moreover have "(400 * a + 100 * 3 + 4 * 24 + 3 + 1) mod 4 = 0"
          by (rule int_mod_pos_eq [where q = "100 * a + 100"]) auto
        ultimately show ?thesis unfolding y e3 b3 True leap_year_def by simp
      next
        case False
        have "(400 * a + 100 * b + 4 * c + 3 + 1) mod 4 = 0"
          by (rule int_mod_pos_eq [where q = "100 * a + 25 * b + c + 1"]) auto
        moreover have "(400 * a + 100 * b + 4 * c + 3 + 1) mod 100 = 4 * c + 4"
          using c False by (intro int_mod_pos_eq [where q = "4 * a + b"]) auto
        ultimately show ?thesis unfolding y e3 leap_year_def using c by simp
      qed
    qed
    then show ?thesis by simp
  qed simp
  have "d < year_start (year_of d) + (if leap_year (year_of d) then 366 else 365)"
    using upper ys d st et t by (auto split: if_splits)
  moreover have "year_start (year_of d) \<le> d" using ys d st et by simp
  ultimately show ?thesis by (simp add: year_start_Suc)
qed

lemma year_of_unique: "year_start y \<le> d \<Longrightarrow> d < year_start (y + 1) \<Longrightarrow> year_of d = y"
proof -
  assume y: "year_start y \<le> d" "d < year_start (y + 1)"
  note s = year_of_spec [of d]
  have "\<not> year_of d < y"
    using year_start_less [of "year_of d + 1" y] s y by (cases "year_of d + 1 = y") auto
  moreover have "\<not> y < year_of d"
    using year_start_less [of "y + 1" "year_of d"] s y by (cases "y + 1 = year_of d") auto
  ultimately show ?thesis by simp
qed

lemma year_of_mono: "d \<le> d' \<Longrightarrow> year_of d \<le> year_of d'"
proof (rule ccontr)
  assume "d \<le> d'" "\<not> year_of d \<le> year_of d'"
  then have "year_start (year_of d' + 1) \<le> year_start (year_of d)"
    using year_start_less [of "year_of d' + 1" "year_of d"] by (cases "year_of d' + 1 = year_of d") auto
  then show False using \<open>d \<le> d'\<close> year_of_spec [of d] year_of_spec [of d'] by linarith
qed

section \<open>Instants and locations\<close>

record location =
  base_offset :: int
  transitions :: "(int \<times> int) list"

definition UTC :: location where
  "UTC = \<lparr>base_offset = 0, transitions = []\<rparr>"

record gotime =
  ns :: int
  loc :: location

text \<open>\<open>Location.lookup\<close>: the offset in force at a Unix second, with the second it started
  and the second it ends, where there are such.\<close>

fun lookup_from :: "int \<Rightarrow> int option \<Rightarrow> (int \<times> int) list \<Rightarrow> int \<Rightarrow> int \<times> int option \<times> int option" where
  "lookup_from off start [] sec = (off, start, None)"
| "lookup_from off start ((since, off') # rest) sec =
     (if sec < since then (off, start, Some since) else lookup_from off' (Some since) rest sec)"

definition lookup :: "location \<Rightarrow> int \<Rightarrow> int \<times> int option \<times> int option" where
  "lookup l sec = lookup_from (base_offset l) None (transitions l) sec"

definition offset_at :: "location \<Rightarrow> int \<Rightarrow> int" where
  "offset_at l sec = fst (lookup l sec)"

definition unix :: "gotime \<Rightarrow> int" where
  "unix t = ns t div 10 ^ 9"

text \<open>The calendar day an instant shows in its own location.\<close>

definition local_day :: "gotime \<Rightarrow> day" where
  "local_day t = (unix t + offset_at (loc t) (unix t)) div 86400"

definition midnight :: "day \<Rightarrow> gotime" where
  "midnight d = \<lparr>ns = d * 86400 * 10 ^ 9, loc = UTC\<rparr>"

text \<open>\<^verbatim>\<open>time.Date(..., 0, 0, 0, 0, loc)\<close>: the offset found at the wall-clock second read as
  UTC, corrected once where that lands outside the zone it was found in.\<close>

definition date_in :: "day \<Rightarrow> location \<Rightarrow> gotime" where
  "date_in d l =
     (let wall = d * 86400; (off, start, end) = lookup l wall; utc = wall - off;
          off' = (if off \<noteq> 0 \<and> ((case start of None \<Rightarrow> False | Some s \<Rightarrow> utc < s)
                               \<or> (case end of None \<Rightarrow> False | Some e \<Rightarrow> e \<le> utc))
                  then offset_at l utc else off)
      in \<lparr>ns = (wall - off') * 10 ^ 9, loc = l\<rparr>)"

definition CalendarDay :: "gotime \<Rightarrow> day" where
  "CalendarDay t = local_day t"

definition startOfDay :: "gotime \<Rightarrow> gotime" where
  "startOfDay t = date_in (local_day t) (loc t)"

definition in_zone :: "gotime \<Rightarrow> location \<Rightarrow> gotime" where
  "in_zone t l = t\<lparr>loc := l\<rparr>"

definition zero_time :: gotime where
  "zero_time = midnight (- 719162)"

definition is_zero_time :: "gotime \<Rightarrow> bool" where
  "is_zero_time t \<longleftrightarrow> ns t = ns zero_time"

definition firstCalendarDay :: day where
  "firstCalendarDay = date 1900 1 1"

definition afterLastCalendarDay :: day where
  "afterLastCalendarDay = date 10000 1 1"

definition OnTheCalendar :: "gotime \<Rightarrow> bool" where
  "OnTheCalendar t \<longleftrightarrow> ns (midnight firstCalendarDay) \<le> ns t \<and> ns t < ns (midnight afterLastCalendarDay)"

lemma lookup_UTC [simp]: "lookup UTC s = (0, None, None)"
  by (simp add: lookup_def UTC_def)

lemma offset_UTC [simp]: "offset_at UTC s = 0"
  by (simp add: offset_at_def)

lemma midnight_simps [simp]: "ns (midnight d) = d * 86400 * 10 ^ 9" "loc (midnight d) = UTC"
  by (simp_all add: midnight_def)

lemma local_day_midnight [simp]: "local_day (midnight d) = d"
proof -
  have "unix (midnight d) = d * 86400"
    unfolding unix_def midnight_simps by (subst nonzero_mult_div_cancel_right) simp_all
  then show ?thesis by (simp add: local_day_def)
qed

lemma CalendarDay_midnight [simp]: "CalendarDay (midnight d) = d"
  by (simp add: CalendarDay_def)

lemma CalendarDay_UTC: "loc t = UTC \<Longrightarrow> CalendarDay t = ns t div (86400 * 10 ^ 9)"
  by (simp add: CalendarDay_def local_day_def unix_def zdiv_zmult2_eq [symmetric] mult.commute)

lemma startOfDay_midnight [simp]: "startOfDay (midnight d) = midnight d"
proof -
  have "local_day (midnight d) = d" "loc (midnight d) = UTC" by simp_all
  then show ?thesis by (simp only: startOfDay_def date_in_def Let_def lookup_UTC prod.case) (simp add: midnight_def)
qed

lemma calendar_bounds [simp]: "firstCalendarDay = - 25567" "afterLastCalendarDay = 2932897"
  by (simp_all add: firstCalendarDay_def afterLastCalendarDay_def date_def year_start_def
      month_start_def Let_def)

lemma OnTheCalendar_midnight: "OnTheCalendar (midnight d) \<longleftrightarrow> - 25567 \<le> d \<and> d < 2932897"
  by (simp add: OnTheCalendar_def)

section \<open>Durations\<close>

definition min_duration :: int where "min_duration = - (2 ^ 63)"
definition max_duration :: int where "max_duration = 2 ^ 63 - 1"

text \<open>\<^verbatim>\<open>t.Sub(u)\<close> saturates at the ends of a 64-bit count of nanoseconds.\<close>

definition time_sub :: "gotime \<Rightarrow> gotime \<Rightarrow> int" where
  "time_sub t u = max min_duration (min max_duration (ns t - ns u))"

text \<open>Go's integer division truncates towards zero.\<close>

definition tdiv :: "int \<Rightarrow> int \<Rightarrow> int" where
  "tdiv a b = (if b = 0 then 0 else sgn a * sgn b * (\<bar>a\<bar> div \<bar>b\<bar>))"

definition tmod :: "int \<Rightarrow> int \<Rightarrow> int" where
  "tmod a b = a - b * tdiv a b"

definition hour_ns :: int where "hour_ns = 3600 * 10 ^ 9"

text \<open>\<^verbatim>\<open>Duration.Hours\<close>.\<close>

definition duration_hours :: "int \<Rightarrow> float64" where
  "duration_hours d = fadd (float_of_int (tdiv d hour_ns))
                           (fdiv (float_of_int (tmod d hour_ns)) (Fin (3600 * 10 ^ 9)))"

definition truncate_second :: "gotime \<Rightarrow> gotime" where
  "truncate_second t = t\<lparr>ns := ns t - ns t mod 10 ^ 9\<rparr>"

lemma tdiv_nonneg: "0 \<le> a \<Longrightarrow> 0 < b \<Longrightarrow> tdiv a b = a div b"
  by (cases "a = 0") (simp_all add: tdiv_def)

lemma tmod_nonneg: "0 \<le> a \<Longrightarrow> 0 < b \<Longrightarrow> tmod a b = a mod b"
  by (simp add: tmod_def tdiv_nonneg minus_mult_div_eq_mod)

end
