(* ===== verification/GoString.thy ===== *)
theory GoString
  imports Prelude
begin

text \<open>
  Go strings are byte sequences (\<open>string\<close>); what reads them character by character decodes
  UTF-8, an invalid byte counting as the replacement rune of width one.  This theory holds the
  functions of \<^verbatim>\<open>strings\<close>, \<^verbatim>\<open>strconv\<close> and \<^verbatim>\<open>unicode/utf8\<close> the program uses.
  Unicode's letter, digit and case tables are data outside the program: the functions that
  consult them take them as arguments.
\<close>

type_synonym rune = nat

definition byte :: "char \<Rightarrow> nat" where
  "byte c = of_char c"

definition continues :: "nat \<Rightarrow> bool" where
  "continues b \<longleftrightarrow> 128 \<le> b \<and> b < 192"

definition rune_error :: rune where
  "rune_error = 65533"

text \<open>\<^verbatim>\<open>utf8.DecodeRuneInString\<close>: the first rune and how many bytes it takes.\<close>

fun decode_rune :: "nat list \<Rightarrow> rune \<times> nat" where
  "decode_rune [] = (rune_error, 0)"
| "decode_rune (b0 # bs) =
     (if b0 < 128 then (b0, 1)
      else if 194 \<le> b0 \<and> b0 \<le> 223 then
        (case bs of
           b1 # _ \<Rightarrow> if continues b1 then ((b0 - 192) * 64 + (b1 - 128), 2) else (rune_error, 1)
         | _ \<Rightarrow> (rune_error, 1))
      else if 224 \<le> b0 \<and> b0 \<le> 239 then
        (case bs of
           b1 # b2 # _ \<Rightarrow>
             if continues b1 \<and> continues b2 \<and> (b0 = 224 \<longrightarrow> 160 \<le> b1) \<and> (b0 = 237 \<longrightarrow> b1 \<le> 159)
             then ((b0 - 224) * 4096 + (b1 - 128) * 64 + (b2 - 128), 3) else (rune_error, 1)
         | _ \<Rightarrow> (rune_error, 1))
      else if 240 \<le> b0 \<and> b0 \<le> 244 then
        (case bs of
           b1 # b2 # b3 # _ \<Rightarrow>
             if continues b1 \<and> continues b2 \<and> continues b3
                \<and> (b0 = 240 \<longrightarrow> 144 \<le> b1) \<and> (b0 = 244 \<longrightarrow> b1 \<le> 143)
             then ((b0 - 240) * 262144 + (b1 - 128) * 4096 + (b2 - 128) * 64 + (b3 - 128), 4)
             else (rune_error, 1)
         | _ \<Rightarrow> (rune_error, 1))
      else (rune_error, 1))"

lemma decode_width_pos: "bs \<noteq> [] \<Longrightarrow> 0 < snd (decode_rune bs)"
  by (cases bs) (auto split: list.splits)

text \<open>A string cut into its runes, each with the bytes it is written in.\<close>

function rune_chunks :: "gostring \<Rightarrow> (rune \<times> gostring) list" where
  "rune_chunks s =
     (if s = [] then []
      else let (r, w) = decode_rune (map byte s) in (r, take w s) # rune_chunks (drop w s))"
  by pat_completeness auto
termination
proof (relation "measure length", goal_cases)
  case (2 s x r w)
  then have "0 < w" using decode_width_pos [of "map byte s"] by (metis Nil_is_map_conv snd_conv)
  then show ?case using 2 by (simp add: length_greater_0_conv [symmetric] del: length_greater_0_conv)
qed simp

declare rune_chunks.simps [simp del]

text \<open>\<^verbatim>\<open>[]rune(s)\<close>.\<close>

definition runes :: "gostring \<Rightarrow> rune list" where
  "runes s = map fst (rune_chunks s)"

lemma rune_chunks_Nil [simp]: "rune_chunks [] = []"
  by (simp add: rune_chunks.simps)

lemma runes_Nil [simp]: "runes [] = []"
  by (simp add: runes_def)

lemma rune_chunks_concat: "concat (map snd (rune_chunks s)) = s"
proof (induction s rule: rune_chunks.induct)
  case (1 s)
  show ?case
    by (subst rune_chunks.simps) (use 1 in \<open>auto split: prod.splits\<close>)
qed

lemma rune_chunks_ascii: "byte c < 128 \<Longrightarrow> rune_chunks (c # s) = (byte c, [c]) # rune_chunks s"
  by (subst rune_chunks.simps) simp

lemma runes_ascii: "\<forall>c \<in> set s. byte c < 128 \<Longrightarrow> runes s = map byte s"
  by (induction s) (simp_all add: runes_def rune_chunks_ascii)

section \<open>White space\<close>

text \<open>\<^verbatim>\<open>unicode.IsSpace\<close>.\<close>

definition is_space :: "rune \<Rightarrow> bool" where
  "is_space r \<longleftrightarrow> (9 \<le> r \<and> r \<le> 13) \<or> r = 32 \<or> r = 133 \<or> r = 160 \<or> r = 5760
     \<or> (8192 \<le> r \<and> r \<le> 8202) \<or> r = 8232 \<or> r = 8233 \<or> r = 8239 \<or> r = 8287 \<or> r = 12288"

definition TrimSpace :: "gostring \<Rightarrow> gostring" where
  "TrimSpace s = concat (map snd (rev (dropWhile (\<lambda>c. is_space (fst c))
                   (rev (dropWhile (\<lambda>c. is_space (fst c)) (rune_chunks s))))))"

text \<open>\<^verbatim>\<open>strings.Fields\<close>: the stretches between white space, none of them empty.\<close>

fun fields_of :: "gostring \<Rightarrow> (rune \<times> gostring) list \<Rightarrow> gostring list" where
  "fields_of cur [] = (if cur = [] then [] else [cur])"
| "fields_of cur ((r, bs) # rest) =
     (if is_space r then (if cur = [] then [] else [cur]) @ fields_of [] rest
      else fields_of (cur @ bs) rest)"

definition Fields :: "gostring \<Rightarrow> gostring list" where
  "Fields s = fields_of [] (rune_chunks s)"

lemma TrimSpace_Nil [simp]: "TrimSpace [] = []"
  by (simp add: TrimSpace_def)

lemma dropWhile_none: "\<forall>x \<in> set xs. \<not> P x \<Longrightarrow> dropWhile P xs = xs"
  by (cases xs) simp_all

lemma TrimSpace_ascii_word:
  assumes "\<forall>c \<in> set s. byte c < 128 \<and> \<not> is_space (byte c)"
  shows "TrimSpace s = s"
proof -
  have "rune_chunks s = map (\<lambda>c. (byte c, [c])) s"
    using assms by (induction s) (simp_all add: rune_chunks_ascii)
  moreover from this have "concat (map (snd \<circ> (\<lambda>c. (byte c, [c]))) s) = s"
    using rune_chunks_concat [of s] by simp
  ultimately show ?thesis
    using assms by (simp add: TrimSpace_def dropWhile_none rev_map [symmetric])
qed

section \<open>Order and containment\<close>

text \<open>\<^verbatim>\<open>cmp.Compare\<close> on strings is the lexicographic order of their bytes.\<close>

fun string_le :: "gostring \<Rightarrow> gostring \<Rightarrow> bool" where
  "string_le [] ys = True"
| "string_le (x # xs) [] = False"
| "string_le (x # xs) (y # ys) = (byte x < byte y \<or> (byte x = byte y \<and> string_le xs ys))"

lemma string_le_total: "string_le xs ys \<or> string_le ys xs"
  by (induction xs ys rule: string_le.induct) auto

lemma string_le_trans: "string_le xs ys \<Longrightarrow> string_le ys zs \<Longrightarrow> string_le xs zs"
proof (induction xs ys arbitrary: zs rule: string_le.induct)
  case (3 x xs y ys)
  then show ?case by (cases zs) auto
qed auto

interpretation string_order: comparison string_le
  by unfold_locales (use string_le_total string_le_trans in blast)+

text \<open>\<^verbatim>\<open>strings.Contains\<close>.\<close>

fun contains_at :: "gostring \<Rightarrow> gostring \<Rightarrow> bool" where
  "contains_at [] p = (p = [])"
| "contains_at (c # cs) p = (take (length p) (c # cs) = p \<or> contains_at cs p)"

section \<open>Cutting and splitting at a character\<close>

text \<open>\<^verbatim>\<open>strings.Cut(s, sep)\<close> for a one-byte separator: before, after, and whether it was found.\<close>

fun cut_at :: "char \<Rightarrow> gostring \<Rightarrow> gostring \<times> gostring \<times> bool" where
  "cut_at c [] = ([], [], False)"
| "cut_at c (x # xs) =
     (if x = c then ([], xs, True) else (let (b, a, f) = cut_at c xs in (x # b, a, f)))"

text \<open>\<^verbatim>\<open>strings.Split(s, sep)\<close> for a one-byte separator: never an empty list.\<close>

fun split_at :: "char \<Rightarrow> gostring \<Rightarrow> gostring list" where
  "split_at c [] = [[]]"
| "split_at c (x # xs) =
     (if x = c then [] # split_at c xs
      else (case split_at c xs of [] \<Rightarrow> [[x]] | y # ys \<Rightarrow> (x # y) # ys))"

lemma cut_at_notin [simp]: "c \<notin> set s \<Longrightarrow> cut_at c s = (s, [], False)"
  by (induction s) auto

lemma cut_at_append: "c \<notin> set s \<Longrightarrow> cut_at c (s @ c # t) = (s, t, True)"
  by (induction s) auto

lemma cut_at_found: "cut_at c s = (b, a, True) \<Longrightarrow> s = b @ c # a \<and> c \<notin> set b"
  by (induction s arbitrary: b a) (auto split: if_splits prod.splits)

lemma cut_at_missing: "cut_at c s = (b, a, False) \<Longrightarrow> b = s \<and> a = [] \<and> c \<notin> set s"
  by (induction s arbitrary: b a) (auto split: if_splits prod.splits)

section \<open>Decimal numbers\<close>

definition is_digit_char :: "char \<Rightarrow> bool" where
  "is_digit_char c \<longleftrightarrow> 48 \<le> byte c \<and> byte c \<le> 57"

fun digits_value :: "nat \<Rightarrow> gostring \<Rightarrow> nat" where
  "digits_value acc [] = acc"
| "digits_value acc (c # cs) = digits_value (10 * acc + (byte c - 48)) cs"

text \<open>\<^verbatim>\<open>strconv.Atoi\<close>: an optional sign and at least one digit, within 64 bits.\<close>

definition Atoi :: "gostring \<Rightarrow> int option" where
  "Atoi s =
     (let neg = (case s of c # _ \<Rightarrow> c = CHR ''-'' | [] \<Rightarrow> False);
          body = (case s of c # cs \<Rightarrow> if c = CHR ''-'' \<or> c = CHR ''+'' then cs else s | [] \<Rightarrow> s)
      in if body = [] \<or> \<not> list_all is_digit_char body then None
         else let v = (if neg then - int (digits_value 0 body) else int (digits_value 0 body))
              in if - (2 ^ 63) \<le> v \<and> v < 2 ^ 63 then Some v else None)"

definition digit_char :: "nat \<Rightarrow> char" where
  "digit_char n = char_of (48 + n)"

text \<open>\<^verbatim>\<open>strconv.FormatUint(n, 10)\<close>.\<close>

fun format_uint :: "nat \<Rightarrow> gostring" where
  "format_uint n = (if n < 10 then [digit_char n] else format_uint (n div 10) @ [digit_char (n mod 10)])"

declare format_uint.simps [simp del]

lemma byte_digit_char: "n < 10 \<Longrightarrow> byte (digit_char n) = 48 + n"
  by (simp add: byte_def digit_char_def)

lemma digits_value_append: "digits_value acc (xs @ [c]) = 10 * digits_value acc xs + (byte c - 48)"
  by (induction xs arbitrary: acc) auto

lemma digits_value_format: "digits_value 0 (format_uint n) = n"
proof (induction n rule: format_uint.induct)
  case (1 n)
  then show ?case
    by (subst format_uint.simps) (auto simp: digits_value_append byte_digit_char)
qed

lemma format_uint_digits: "format_uint n \<noteq> [] \<and> list_all is_digit_char (format_uint n)"
proof (induction n rule: format_uint.induct)
  case (1 n)
  then show ?case
    by (subst (1 2) format_uint.simps) (auto simp: is_digit_char_def [abs_def] byte_digit_char)
qed

lemma format_uint_inject: "format_uint m = format_uint n \<Longrightarrow> m = n"
  by (metis digits_value_format)

end
