(* ===== verification/HolidayRules.thy ===== *)
theory HolidayRules
  imports GoTime GoString
begin

text \<open>
  The rules public holidays are worked out by, \<^verbatim>\<open>domain/model/holiday_model.go\<close> and the
  helpers of the country files: fixed dates, distances from Easter, weekdays counted in a month,
  and the two ways a country moves a holiday off a weekend.  Every loop of the source runs day by
  day until a weekday is met; each is a \<open>function\<close> with its termination proof, and the
  lemmas say which day it stops on.
\<close>

datatype week_day = Sunday | Monday | Tuesday | Wednesday | Thursday | Friday | Saturday

fun day_number :: "week_day \<Rightarrow> int" where
  "day_number Sunday = 0"
| "day_number Monday = 1"
| "day_number Tuesday = 2"
| "day_number Wednesday = 3"
| "day_number Thursday = 4"
| "day_number Friday = 5"
| "day_number Saturday = 6"

lemma day_number_range: "0 \<le> day_number w" "day_number w < 7"
  by (cases w; simp)+

definition is_weekday :: "day \<Rightarrow> week_day \<Rightarrow> bool" where
  "is_weekday d w \<longleftrightarrow> weekday d = day_number w"

definition weekend :: "day \<Rightarrow> bool" where
  "weekend d \<longleftrightarrow> is_weekday d Saturday \<or> is_weekday d Sunday"

section \<open>Walking to a weekday\<close>

text \<open>How many days lie before the next day of a weekday.\<close>

definition days_until :: "week_day \<Rightarrow> day \<Rightarrow> int" where
  "days_until w d = (day_number w - d - 4) mod 7"

lemma days_until_range: "0 \<le> days_until w d" "days_until w d < 7"
  by (simp_all add: days_until_def)

lemma mod7_step: "z mod 7 \<noteq> 0 \<Longrightarrow> (z - 1) mod 7 = z mod 7 - (1 :: int)"
proof -
  assume nz: "z mod 7 \<noteq> 0"
  have b: "0 \<le> z mod 7" "z mod 7 < 7" "z = 7 * (z div 7) + z mod 7" by simp_all
  define q r where "q = z div 7" and "r = z mod 7"
  have "0 \<le> r - 1" "r - 1 < 7" using nz b(1,2) unfolding r_def [symmetric] by linarith+
  moreover have "z - 1 = 7 * q + (r - 1)" using b(3) unfolding q_def [symmetric] r_def [symmetric] by linarith
  ultimately show ?thesis
    unfolding r_def [symmetric] by (intro int_mod_pos_eq [where q = q]) auto
qed

lemma days_until_zero: "days_until w d = 0 \<longleftrightarrow> is_weekday d w"
proof -
  have "days_until w d = (day_number w - (d + 4) mod 7) mod 7"
    unfolding days_until_def by (simp add: mod_simps algebra_simps)
  moreover have "(day_number w - weekday d) mod 7 = 0 \<longleftrightarrow> weekday d = day_number w"
  proof
    assume "(day_number w - weekday d) mod 7 = 0"
    then obtain k where k: "day_number w - weekday d = 7 * k" by (auto simp: mod_eq_0_iff_dvd)
    then have "-7 < 7 * k" "7 * k < 7"
      using day_number_range [of w] weekday_range [of d] by linarith+
    then show "weekday d = day_number w" using k by simp
  qed simp
  ultimately show ?thesis by (simp add: is_weekday_def weekday_def)
qed

lemma days_until_next: "\<not> is_weekday d w \<Longrightarrow> days_until w (d + 1) = days_until w d - 1"
proof -
  assume "\<not> is_weekday d w"
  then have "(day_number w - d - 4) mod 7 \<noteq> 0" using days_until_zero [of w d] by (simp add: days_until_def)
  from mod7_step [OF this] show ?thesis by (simp add: days_until_def algebra_simps)
qed

lemma is_weekday_add: "is_weekday (d + 7 * k) w = is_weekday d w"
proof -
  have "(d + 4 + 7 * k) mod 7 = (d + 4) mod 7" by (rule mod_mult_self2)
  then show ?thesis by (simp add: is_weekday_def weekday_def algebra_simps)
qed

text \<open>\<^verbatim>\<open>weekdayFrom\<close>: the first weekday on or after a day.\<close>

function weekdayFrom :: "week_day \<Rightarrow> day \<Rightarrow> day" where
  "weekdayFrom w d = (if is_weekday d w then d else weekdayFrom w (d + 1))"
  by pat_completeness auto
termination
proof (relation "measure (\<lambda>(w, d). nat (days_until w d))", goal_cases)
  case (2 w d)
  then show ?case using days_until_next [of d w] days_until_range(1) [of w "d + 1"] by simp
qed simp

declare weekdayFrom.simps [simp del]

lemma weekdayFrom_eq: "weekdayFrom w d = d + days_until w d"
proof (induction w d rule: weekdayFrom.induct)
  case (1 w d)
  show ?case
  proof (cases "is_weekday d w")
    case True
    then show ?thesis using days_until_zero [of w d] by (subst weekdayFrom.simps) simp
  next
    case False
    then show ?thesis using 1 days_until_next [OF False] by (subst weekdayFrom.simps) simp
  qed
qed

lemma weekdayFrom_spec:
  "is_weekday (weekdayFrom w d) w" "d \<le> weekdayFrom w d" "weekdayFrom w d < d + 7"
proof -
  have "days_until w (d + days_until w d) = (day_number w - d - 4 - (day_number w - d - 4) mod 7) mod 7"
    by (simp add: days_until_def algebra_simps)
  also have "\<dots> = 0" by (simp add: minus_mod_eq_mult_div)
  finally show "is_weekday (weekdayFrom w d) w" by (simp add: weekdayFrom_eq flip: days_until_zero)
  show "d \<le> weekdayFrom w d" "weekdayFrom w d < d + 7"
    using days_until_range [of w d] by (simp_all add: weekdayFrom_eq)
qed

text \<open>The loops that walk backwards, of \<^verbatim>\<open>lastWeekday\<close> and \<^verbatim>\<open>repentanceDay\<close>.\<close>

function weekdayBack :: "week_day \<Rightarrow> day \<Rightarrow> day" where
  "weekdayBack w d = (if is_weekday d w then d else weekdayBack w (d - 1))"
  by pat_completeness auto
termination
proof (relation "measure (\<lambda>(w, d). nat (if days_until w d = 0 then 0 else 7 - days_until w d))", goal_cases)
  case (2 w d)
  have u: "0 < days_until w d" "days_until w d < 7"
    using 2 days_until_zero [of w d] days_until_range [of w d] by auto
  have "days_until w (d - 1) = (days_until w d + 1) mod 7"
    unfolding days_until_def by (simp add: mod_simps algebra_simps)
  then show ?case using u by (cases "days_until w d = 6") simp_all
qed simp

declare weekdayBack.simps [simp del]

lemma weekdayBack_spec:
  "is_weekday (weekdayBack w d) w \<and> weekdayBack w d \<le> d \<and> d < weekdayBack w d + 7"
proof -
  have "is_weekday (weekdayBack w d) w \<and> weekdayBack w d \<le> d
        \<and> (\<forall>e. weekdayBack w d < e \<and> e \<le> d \<longrightarrow> \<not> is_weekday e w)"
  proof (induction w d rule: weekdayBack.induct)
    case (1 w d)
    show ?case
    proof (cases "is_weekday d w")
      case True
      then show ?thesis by (subst (1 2 3) weekdayBack.simps) auto
    next
      case False
      then have "weekdayBack w d = weekdayBack w (d - 1)" by (subst weekdayBack.simps) simp
      then show ?thesis using 1 False by (auto dest: zle_diff1_eq [THEN iffD2] simp: order_le_less)
    qed
  qed
  moreover have "is_weekday (weekdayBack w d + 7) w = is_weekday (weekdayBack w d) w"
    using is_weekday_add [of "weekdayBack w d" 1 w] by simp
  ultimately show ?thesis by (auto simp: not_le [symmetric])
qed

section \<open>The kinds of rule\<close>

definition fixed :: "int \<Rightarrow> int \<Rightarrow> int \<Rightarrow> day" where
  "fixed month d = (\<lambda>year. date year month d)"

text \<open>\<^verbatim>\<open>easterSunday\<close>, in Go's truncating division; \<open>easter_offset\<close> is the part of
  the computation that counts days, 114 being the 22nd of March.\<close>

definition easter_offset :: "int \<Rightarrow> int" where
  "easter_offset year =
     (let a = tmod year 19; b = tdiv year 100; c = tmod year 100;
          d = tdiv b 4; e = tmod b 4;
          f = tdiv (b + 8) 25; g = tdiv (b - f + 1) 3;
          h = tmod (19 * a + b - d - g + 15) 30;
          i = tdiv c 4; k = tmod c 4;
          l = tmod (32 + 2 * e + 2 * i - h - k) 7;
          m = tdiv (a + 11 * h + 22 * l) 451
      in h + l - 7 * m + 114)"

definition easterSunday :: "int \<Rightarrow> day" where
  "easterSunday year = date year (tdiv (easter_offset year) 31) (tmod (easter_offset year) 31 + 1)"

definition afterEaster :: "int \<Rightarrow> int \<Rightarrow> day" where
  "afterEaster days = (\<lambda>year. easterSunday year + days)"

definition nthWeekday :: "int \<Rightarrow> week_day \<Rightarrow> int \<Rightarrow> int \<Rightarrow> day" where
  "nthWeekday n w month = (\<lambda>year. weekdayFrom w (date year month 1) + 7 * (n - 1))"

definition lastWeekday :: "week_day \<Rightarrow> int \<Rightarrow> int \<Rightarrow> day" where
  "lastWeekday w month = (\<lambda>year. weekdayBack w (date year (month + 1) 0))"

definition weekdayAfter :: "week_day \<Rightarrow> int \<Rightarrow> int \<Rightarrow> int \<Rightarrow> day" where
  "weekdayAfter w month d = (\<lambda>year. weekdayFrom w (date year month d))"

definition repentanceDay :: "int \<Rightarrow> day" where
  "repentanceDay year = weekdayBack Wednesday (date year 11 22)"

definition saturdayForSunday :: "int \<Rightarrow> int \<Rightarrow> int \<Rightarrow> day" where
  "saturdayForSunday month d =
     (\<lambda>year. let t = date year month d in if is_weekday t Sunday then t - 1 else t)"

definition stBrigidsDay :: "int \<Rightarrow> day" where
  "stBrigidsDay year =
     (let first = date year 2 1 in if is_weekday first Friday then first else weekdayFrom Monday first)"

section \<open>Moving a holiday off a weekend\<close>

text \<open>The loop of \<open>nextFreeWeekday\<close> passes weekends and days already taken; each step
  leaves a taken day behind or comes closer to the Monday.\<close>

definition weekend_left :: "day \<Rightarrow> nat" where
  "weekend_left d = (if is_weekday d Saturday then 2 else if is_weekday d Sunday then 1 else 0)"

lemma saturday_then: "is_weekday d Saturday \<Longrightarrow> is_weekday (d + 1) Sunday"
  by (simp add: is_weekday_def weekday_step)

lemma sunday_then: "is_weekday d Sunday \<Longrightarrow> is_weekday (d + 1) Monday"
  by (simp add: is_weekday_def weekday_step)

lemma filter_from_le:
  "length (filter (\<lambda>t. d + 1 \<le> t) taken) \<le> length (filter (\<lambda>t. d \<le> t) taken)" for d :: int
  by (induction taken) auto

lemma filter_from_less:
  "d \<in> set taken \<Longrightarrow>
     length (filter (\<lambda>t. d + 1 \<le> t) taken) < length (filter (\<lambda>t. d \<le> t) taken)" for d :: int
proof (induction taken)
  case (Cons t ts)
  then show ?case using filter_from_le [of d ts] by auto
qed simp

function next_free :: "day list \<Rightarrow> day \<Rightarrow> day" where
  "next_free taken d = (if weekend d \<or> d \<in> set taken then next_free taken (d + 1) else d)"
  by pat_completeness auto
termination
proof (relation "measures [\<lambda>(taken, d). length (filter (\<lambda>t. d \<le> t) taken), \<lambda>(taken, d). weekend_left d]",
    goal_cases)
  case (2 taken d)
  show ?case
  proof (cases "d \<in> set taken")
    case True
    then show ?thesis using filter_from_less [of d taken] by simp
  next
    case False
    then have "weekend d" using 2 by simp
    then have "weekend_left (d + 1) < weekend_left d"
      using saturday_then [of d] sunday_then [of d]
      by (auto simp: weekend_left_def weekend_def is_weekday_def)
    then show ?thesis using filter_from_le [of d taken] by (simp add: order_le_less)
  qed
qed simp

declare next_free.simps [simp del]

lemma next_free_spec:
  "d \<le> next_free taken d \<and> \<not> weekend (next_free taken d) \<and> next_free taken d \<notin> set taken
   \<and> (\<forall>e. d \<le> e \<and> e < next_free taken d \<longrightarrow> weekend e \<or> e \<in> set taken)"
proof (induction taken d rule: next_free.induct)
  case (1 taken d)
  show ?case
  proof (cases "weekend d \<or> d \<in> set taken")
    case True
    then have "next_free taken d = next_free taken (d + 1)" by (subst next_free.simps) simp
    moreover have "d + 1 \<le> e \<or> e = d" if "d \<le> e" for e :: int using that by linarith
    ultimately show ?thesis using 1 True by (metis add_le_imp_le_left le_add_same_cancel1 order_trans zero_le_one)
  next
    case False
    then show ?thesis by (subst (1 2 3 4) next_free.simps) auto
  qed
qed

text \<open>The two substitutes: \<open>None\<close> keeps the holiday where it falls.\<close>

definition nextFreeWeekday :: "day \<Rightarrow> day list \<Rightarrow> day option" where
  "nextFreeWeekday d taken = (if \<not> weekend d then None else Some (next_free taken d))"

definition nearestWeekday :: "day \<Rightarrow> day list \<Rightarrow> day option" where
  "nearestWeekday d taken =
     (if is_weekday d Saturday then Some (d - 1)
      else if is_weekday d Sunday then Some (d + 1) else None)"

section \<open>Easter\<close>

lemma easter_parts:
  assumes "0 \<le> year"
  shows "\<exists>a d e i k h l m. year = 100 * (4 * d + e) + 4 * i + k
      \<and> 0 \<le> a \<and> a \<le> 18 \<and> 0 \<le> d \<and> 0 \<le> e \<and> e \<le> 3 \<and> 0 \<le> i \<and> i \<le> 24 \<and> 0 \<le> k \<and> k \<le> 3
      \<and> 0 \<le> h \<and> h \<le> 29 \<and> 0 \<le> l \<and> l \<le> 6 \<and> 7 dvd (32 + 2 * e + 2 * i - h - k - l)
      \<and> m = (a + 11 * h + 22 * l) div 451 \<and> easter_offset year = h + l - 7 * m + 114"
proof -
  define a b c where "a = year mod 19" and "b = year div 100" and "c = year mod 100"
  define d e i k where "d = b div 4" and "e = b mod 4" and "i = c div 4" and "k = c mod 4"
  define f where "f = (b + 8) div 25"
  define g where "g = (b - f + 1) div 3"
  define h where "h = (19 * a + b - d - g + 15) mod 30"
  define l where "l = (32 + 2 * e + 2 * i - h - k) mod 7"
  define m where "m = (a + 11 * h + 22 * l) div 451"
  have b: "0 \<le> b" and c: "0 \<le> c" "c < 100" and yr: "year = 100 * b + c"
    using assms by (simp_all add: b_def c_def pos_imp_zdiv_nonneg_iff)
  have a: "0 \<le> a" "a < 19" by (simp_all add: a_def)
  have be: "b = 4 * d + e" "0 \<le> d" "0 \<le> e" "e < 4"
    using b by (simp_all add: d_def e_def pos_imp_zdiv_nonneg_iff)
  have ci: "c = 4 * i + k" "0 \<le> i" "0 \<le> k" "k < 4"
    using c by (simp_all add: i_def k_def pos_imp_zdiv_nonneg_iff)
  have f: "0 \<le> f" "f \<le> b + 1"
    using b by (simp_all add: f_def pos_imp_zdiv_nonneg_iff)
  have g: "0 \<le> g" "3 * g \<le> b - f + 1"
    using f by (simp_all add: g_def pos_imp_zdiv_nonneg_iff)
  have hpos: "0 \<le> 19 * a + b - d - g + 15" using a be b f g by linarith
  have h: "0 \<le> h" "h < 30" by (simp_all add: h_def)
  have l: "0 \<le> l" "l < 7" by (simp_all add: l_def)
  have lpos: "0 \<le> 32 + 2 * e + 2 * i - h - k" using be ci h by linarith
  have dvd: "7 dvd (32 + 2 * e + 2 * i - h - k - l)" by (simp add: l_def)
  have t1: "tmod year 19 = a" "tdiv year 100 = b" "tmod year 100 = c"
    using assms by (simp_all add: tdiv_nonneg tmod_nonneg a_def b_def c_def)
  have t2: "tdiv b 4 = d" "tmod b 4 = e" "tdiv (b + 8) 25 = f" "tdiv c 4 = i" "tmod c 4 = k"
    using b c by (simp_all add: tdiv_nonneg tmod_nonneg d_def e_def f_def i_def k_def)
  have t3: "tdiv (b - f + 1) 3 = g" using f by (simp add: tdiv_nonneg g_def)
  have t4: "tmod (19 * a + b - d - g + 15) 30 = h" using hpos by (simp add: tmod_nonneg h_def)
  have t5: "tmod (32 + 2 * e + 2 * i - h - k) 7 = l" using lpos by (simp add: tmod_nonneg l_def)
  have t6: "tdiv (a + 11 * h + 22 * l) 451 = m" using a h l by (simp add: tdiv_nonneg m_def)
  have "easter_offset year = h + l - 7 * m + 114"
    by (simp only: easter_offset_def Let_def t1 t2 t3 t4 t5 t6)
  moreover have "year = 100 * (4 * d + e) + 4 * i + k" using yr be(1) ci(1) by simp
  moreover have "i \<le> 24" using ci(1,3) c(2) by simp
  moreover have "a \<le> 18" "e \<le> 3" "k \<le> 3" "h \<le> 29" "l \<le> 6"
    using a(2) be(4) ci(4) h(2) l(2) by simp_all
  ultimately show ?thesis
    using a(1) be(2,3) ci(2,3) h(1) l(1) dvd m_def
    by - (rule exI [of _ a], rule exI [of _ d], rule exI [of _ e], rule exI [of _ i], rule exI [of _ k],
        rule exI [of _ h], rule exI [of _ l], rule exI [of _ m], intro conjI)
qed

lemma easter_offset_range:
  assumes "0 \<le> year"
  shows "114 \<le> easter_offset year \<and> easter_offset year \<le> 148"
proof -
  obtain a h l m where b: "0 \<le> a" "a \<le> 18" "0 \<le> h" "h \<le> 29" "0 \<le> l" "l \<le> (6 :: int)"
    and m: "m = (a + 11 * h + 22 * l) div 451" and o: "easter_offset year = h + l - 7 * m + 114"
    using easter_parts [OF assms] by blast
  define s where "s = a + 11 * h + 22 * l"
  have "0 \<le> s" "s \<le> 469" using b by (simp_all add: s_def)
  then have "m = (if 451 \<le> s then 1 else 0)"
    unfolding m s_def [symmetric] by (auto intro: int_div_pos_eq [where r = "s - 451"])
  then show ?thesis using o b by (auto simp: s_def split: if_splits)
qed

lemma month_start_March: "month_start leap 3 = 59 + (if leap then 1 else 0)"
  by (simp add: month_start_def)

lemma month_start_April: "month_start leap 4 = 90 + (if leap then 1 else 0)"
  by (simp add: month_start_def)

text \<open>Easter Sunday counted from the first of March.\<close>

lemma easterSunday_from_March:
  assumes "0 \<le> year"
  shows "easterSunday year = date year 3 1 + (easter_offset year - 93)"
proof -
  define n where "n = easter_offset year"
  have n: "114 \<le> n" "n \<le> 148" using easter_offset_range [OF assms] by (simp_all add: n_def)
  have d: "tdiv n 31 = n div 31" "tmod n 31 = n mod 31" using n by (simp_all add: tdiv_nonneg tmod_nonneg)
  show ?thesis
  proof (cases "n \<le> 123")
    case True
    have "n div 31 = 3" by (rule int_div_pos_eq [where r = "n - 93"]) (use n True in auto)
    moreover have "n mod 31 = n - 93" by (rule int_mod_pos_eq [where q = 3]) (use n True in auto)
    ultimately show ?thesis
      unfolding easterSunday_def n_def [symmetric] d by (simp add: date_def Let_def)
  next
    case False
    have "n div 31 = 4" by (rule int_div_pos_eq [where r = "n - 124"]) (use n False in auto)
    moreover have "n mod 31 = n - 124" by (rule int_mod_pos_eq [where q = 4]) (use n False in auto)
    ultimately show ?thesis
      unfolding easterSunday_def n_def [symmetric] d
      by (simp add: date_def Let_def month_start_March month_start_April)
  qed
qed

text \<open>The days from the epoch to the first of March, modulo seven.\<close>

lemma first_of_March:
  assumes "year = 100 * (4 * d + e) + 4 * i + k"
    and "0 \<le> e" "e \<le> 3" "0 \<le> i" "i \<le> 24" "0 \<le> k" "k \<le> (3 :: int)"
  shows "date year 3 1 = 365 * (year - 1) + (25 * (4 * d + e) + i) - (4 * d + e) + d + 59 - 719162"
proof -
  have y: "year div 4 = 25 * (4 * d + e) + i" "year div 100 = 4 * d + e" "year div 400 = d"
  proof -
    show "year div 4 = 25 * (4 * d + e) + i"
      by (rule int_div_pos_eq [where r = k]) (use assms in auto)
    show "year div 100 = 4 * d + e"
      by (rule int_div_pos_eq [where r = "4 * i + k"]) (use assms in auto)
    show "year div 400 = d"
      by (rule int_div_pos_eq [where r = "100 * e + 4 * i + k"]) (use assms in auto)
  qed
  have "year_start (year + 1) = 365 * year + (25 * (4 * d + e) + i) - (4 * d + e) + d - 719162"
    unfolding year_start_def add_diff_cancel_right' y by (rule refl)
  then show ?thesis
    using year_start_Suc [of year]
    by (simp add: date_def Let_def month_start_March split: if_splits)
qed

lemma easterSunday_is_Sunday:
  assumes "0 \<le> year"
  shows "is_weekday (easterSunday year) Sunday"
proof -
  obtain d e i k h l m where p: "year = 100 * (4 * d + e) + 4 * i + k"
    "0 \<le> e" "e \<le> 3" "0 \<le> i" "i \<le> 24" "0 \<le> k" "k \<le> (3 :: int)"
    and dvd: "7 dvd (32 + 2 * e + 2 * i - h - k - l)"
    and o: "easter_offset year = h + l - 7 * m + 114"
    using easter_parts [OF assms] by blast
  obtain q where q: "32 + 2 * e + 2 * i - h - k - l = 7 * q" using dvd by (elim dvdE)
  have "easterSunday year + 4 = 365 * (year - 1) + 24 * (4 * d + e) + i + d + 59 - 719162
        + (h + l - 7 * m + 21) + 4"
    unfolding easterSunday_from_March [OF assms] first_of_March [OF p] o by simp
  also have "\<dots> = 146097 * d + 36524 * e + 1461 * i + 365 * k - 719443 + (h + l) - 7 * m"
    unfolding p(1) by (simp add: algebra_simps)
  also have "\<dots> = 7 * (20871 * d + 5218 * e + 209 * i + 52 * k - 102773 - q - m)"
    using q by (simp add: algebra_simps)
  finally have "7 dvd easterSunday year + 4" by (rule dvdI)
  then show ?thesis by (simp add: is_weekday_def weekday_def)
qed

section \<open>Every rule stays in its year\<close>

definition within_year :: "(int \<Rightarrow> day) \<Rightarrow> bool" where
  "within_year f \<longleftrightarrow> (\<forall>y \<ge> 1. year_start y \<le> f y \<and> f y < year_start (y + 1))"

lemma within_year_D: "within_year f \<Longrightarrow> 1 \<le> y \<Longrightarrow> year_of (f y) = y"
  by (auto simp: within_year_def intro: year_of_unique)

lemma date_simple: "1 \<le> m \<Longrightarrow> m \<le> 12 \<Longrightarrow> date y m d = year_start y + month_start (leap_year y) m + d - 1"
  by (simp add: date_def Let_def div_pos_pos_trivial mod_pos_pos_trivial)

text \<open>Without the leap day; a leap year is longer by the day it adds.\<close>

lemma date_bounds:
  assumes "1 \<le> m" "m \<le> 12"
  shows "year_start y + month_start False m + d - 1 \<le> date y m d"
    "date y m d \<le> year_start (y + 1) - 365 + month_start False m + d - 1"
  using assms by (auto simp: date_simple year_start_Suc month_start_def)

lemma month_start_range: "1 \<le> m \<Longrightarrow> m \<le> 12 \<Longrightarrow> 0 \<le> month_start False m"
proof -
  assume "1 \<le> m" "m \<le> 12"
  then have "nat (m - 1) < 13" by simp
  then show ?thesis
    unfolding month_start_def by (auto simp: less_Suc_eq numeral_eq_Suc)
qed

lemma within_fixed:
  assumes "1 \<le> m" "m \<le> 12" "1 \<le> d" "month_start False m + d \<le> 365"
  shows "within_year (fixed m d)"
  unfolding within_year_def fixed_def
  using date_bounds [OF assms(1,2)] month_start_range [OF assms(1,2)] assms(3,4)
  by (smt (verit))

lemma easter_in_year:
  assumes "0 \<le> y"
  shows "year_start y + 80 \<le> easterSunday y" "easterSunday y \<le> year_start (y + 1) - 251"
proof -
  have m: "month_start False 3 = 59" by (simp add: month_start_def)
  have "year_start y + 59 \<le> date y 3 1" "date y 3 1 \<le> year_start (y + 1) - 306"
    using date_bounds [of 3 y 1] unfolding m by simp_all
  then show "year_start y + 80 \<le> easterSunday y" "easterSunday y \<le> year_start (y + 1) - 251"
    using easter_offset_range [OF assms] by (simp_all add: easterSunday_from_March [OF assms])
qed

lemma within_afterEaster:
  assumes "- 80 \<le> n" "n \<le> 250"
  shows "within_year (afterEaster n)"
  unfolding within_year_def afterEaster_def using easter_in_year assms by (smt (verit))

lemma within_nthWeekday:
  assumes "1 \<le> m" "m \<le> 12" "1 \<le> n" "n \<le> 4" "month_start False m + 28 \<le> 365"
  shows "within_year (nthWeekday n w m)"
proof -
  have "year_start y \<le> nthWeekday n w m y \<and> nthWeekday n w m y < year_start (y + 1)" for y
  proof -
    define f where "f = weekdayFrom w (date y m 1)"
    have f: "date y m 1 \<le> f" "f \<le> date y m 1 + 6"
      using weekdayFrom_spec(2,3) [where d = "date y m 1" and w = w] by (simp_all add: f_def)
    have n: "0 \<le> 7 * (n - 1)" "7 * (n - 1) \<le> 21" using assms(3,4) by simp_all
    show ?thesis
      unfolding nthWeekday_def f_def [symmetric]
      using date_bounds [OF assms(1,2), of y 1] month_start_range [OF assms(1,2)] assms(5) f n
      by (intro conjI) linarith+
  qed
  then show ?thesis by (simp add: within_year_def)
qed

lemma within_weekdayAfter:
  assumes "1 \<le> m" "m \<le> 12" "1 \<le> d" "month_start False m + d + 6 \<le> 365"
  shows "within_year (weekdayAfter w m d)"
proof -
  have "year_start y \<le> weekdayAfter w m d y \<and> weekdayAfter w m d y < year_start (y + 1)" for y
    unfolding weekdayAfter_def
    using date_bounds [OF assms(1,2), of y d] month_start_range [OF assms(1,2)] assms(3,4)
      weekdayFrom_spec(2,3) [where d = "date y m d" and w = w] by linarith
  then show ?thesis by (simp add: within_year_def)
qed

lemma within_weekdayBack:
  assumes "1 \<le> m" "m \<le> 12" "7 \<le> month_start False m + d" "month_start False m + d \<le> 365"
  shows "within_year (\<lambda>y. weekdayBack w (date y m d))"
proof -
  have "year_start y \<le> weekdayBack w (date y m d) \<and> weekdayBack w (date y m d) < year_start (y + 1)" for y
    using date_bounds [OF assms(1,2), of y d] assms(3,4)
      weekdayBack_spec [where d = "date y m d" and w = w] by linarith
  then show ?thesis by (simp add: within_year_def)
qed

lemma within_lastWeekday:
  assumes "1 \<le> m" "m \<le> 11" "7 \<le> month_start False (m + 1)" "month_start False (m + 1) \<le> 365"
  shows "within_year (lastWeekday w m)"
  unfolding lastWeekday_def [abs_def] using assms by (intro within_weekdayBack) auto

lemma within_repentanceDay: "within_year repentanceDay"
  unfolding repentanceDay_def [abs_def] by (rule within_weekdayBack) (simp_all add: month_start_def)

lemma within_saturdayForSunday:
  assumes "1 \<le> m" "m \<le> 12" "2 \<le> d" "month_start False m + d \<le> 365"
  shows "within_year (saturdayForSunday m d)"
proof -
  have "year_start y \<le> saturdayForSunday m d y \<and> saturdayForSunday m d y < year_start (y + 1)" for y
    using date_bounds [OF assms(1,2), of y d] month_start_range [OF assms(1,2)] assms(3,4)
    by (simp add: saturdayForSunday_def Let_def)
  then show ?thesis by (simp add: within_year_def)
qed

lemma within_stBrigidsDay: "within_year stBrigidsDay"
proof -
  have m: "month_start False 2 = 31" by (simp add: month_start_def)
  have "year_start y \<le> stBrigidsDay y \<and> stBrigidsDay y < year_start (y + 1)" for y
    using date_bounds [of 2 y 1] weekdayFrom_spec(2,3) [where d = "date y 2 1" and w = Monday]
    unfolding m by (simp add: stBrigidsDay_def Let_def)
  then show ?thesis by (simp add: within_year_def)
qed

lemmas within_rules =
  within_fixed within_afterEaster within_nthWeekday within_weekdayAfter within_lastWeekday
  within_repentanceDay within_saturdayForSunday within_stBrigidsDay

end
