(* ===== verification/Holidays.thy ===== *)
theory Holidays
  imports HolidayRules
begin

text \<open>
  Public holidays, \<^verbatim>\<open>domain/model/holiday_model.go\<close> and one table per country,
  \<^verbatim>\<open>holiday_<code>.go\<close>: the rules that hold in a region and a year, the holidays of a
  year with their substitutes, the places a holiday choice can name, and how a choice is read and
  written for clients older than the countries.

  The lemmas show that a place's holidays of a year lie in that year, that no day is given twice,
  that a substitute never falls on a weekend or on a holiday, and which choices are refused.
\<close>

record holiday =
  h_day :: day
  h_name :: gostring
  h_substitute :: bool

record holiday_rule =
  hr_name :: gostring
  hr_on :: "int \<Rightarrow> day"
  hr_in :: gostring
  hr_from :: int
  hr_until :: int
  hr_only :: "int list option"
  hr_except :: "int list"

definition rule ::
  "gostring \<Rightarrow> (int \<Rightarrow> day) \<Rightarrow> gostring \<Rightarrow> int \<Rightarrow> int \<Rightarrow> int list option \<Rightarrow> int list \<Rightarrow> holiday_rule" where
  "rule n on regions from until only exc =
     \<lparr>hr_name = n, hr_on = on, hr_in = regions, hr_from = from, hr_until = until,
      hr_only = only, hr_except = exc\<rparr>"

record holiday_rules =
  hr_regions :: "gostring list"
  hr_region_required :: bool
  hr_rules :: "holiday_rule list"
  hr_substitute :: "(day \<Rightarrow> day list \<Rightarrow> day option) option"

record holiday_country =
  hc_code :: gostring
  hc_regions :: "gostring list"
  hc_region_required :: bool

section \<open>The countries\<close>

definition suspendedInPortugal :: "int list" where
  "suspendedInPortugal = [2013, 2014, 2015]"

definition holidaysAT :: holiday_rules where
  "holidaysAT = \<lparr>hr_regions = [],
    hr_region_required = False, hr_rules = [
     rule ''newYear'' (fixed 1 1) [] 0 0 None [],
     rule ''epiphany'' (fixed 1 6) [] 0 0 None [],
     rule ''easterSunday'' (afterEaster 0) [] 0 0 None [],
     rule ''easterMonday'' (afterEaster 1) [] 0 0 None [],
     rule ''labourDay'' (fixed 5 1) [] 0 0 None [],
     rule ''ascension'' (afterEaster 39) [] 0 0 None [],
     rule ''whitSunday'' (afterEaster 49) [] 0 0 None [],
     rule ''whitMonday'' (afterEaster 50) [] 0 0 None [],
     rule ''corpusChristi'' (afterEaster 60) [] 0 0 None [],
     rule ''assumption'' (fixed 8 15) [] 0 0 None [],
     rule ''nationalDay'' (fixed 10 26) [] 1967 0 None [],
     rule ''allSaints'' (fixed 11 1) [] 0 0 None [],
     rule ''immaculateConception'' (fixed 12 8) [] 0 0 None [],
     rule ''christmasDay'' (fixed 12 25) [] 0 0 None [],
     rule ''stStephensDay'' (fixed 12 26) [] 0 0 None []],
    hr_substitute = None\<rparr>"

definition holidaysBE :: holiday_rules where
  "holidaysBE = \<lparr>hr_regions = [],
    hr_region_required = False, hr_rules = [
     rule ''newYear'' (fixed 1 1) [] 0 0 None [],
     rule ''easterMonday'' (afterEaster 1) [] 0 0 None [],
     rule ''labourDay'' (fixed 5 1) [] 0 0 None [],
     rule ''ascension'' (afterEaster 39) [] 0 0 None [],
     rule ''whitMonday'' (afterEaster 50) [] 0 0 None [],
     rule ''nationalDay'' (fixed 7 21) [] 0 0 None [],
     rule ''assumption'' (fixed 8 15) [] 0 0 None [],
     rule ''allSaints'' (fixed 11 1) [] 0 0 None [],
     rule ''armisticeDay'' (fixed 11 11) [] 0 0 None [],
     rule ''christmasDay'' (fixed 12 25) [] 0 0 None []],
    hr_substitute = None\<rparr>"

definition holidaysCZ :: holiday_rules where
  "holidaysCZ = \<lparr>hr_regions = [],
    hr_region_required = False, hr_rules = [
     rule ''newYear'' (fixed 1 1) [] 0 0 None [],
     rule ''goodFriday'' (afterEaster (- 2)) [] 2016 0 None [],
     rule ''easterMonday'' (afterEaster 1) [] 0 0 None [],
     rule ''labourDay'' (fixed 5 1) [] 0 0 None [],
     rule ''liberationDay'' (fixed 5 8) [] 0 0 None [],
     rule ''cyrilAndMethodiusDay'' (fixed 7 5) [] 0 0 None [],
     rule ''janHusDay'' (fixed 7 6) [] 0 0 None [],
     rule ''statehoodDay'' (fixed 9 28) [] 0 0 None [],
     rule ''independenceDay'' (fixed 10 28) [] 0 0 None [],
     rule ''freedomAndDemocracyDay'' (fixed 11 17) [] 0 0 None [],
     rule ''christmasEve'' (fixed 12 24) [] 0 0 None [],
     rule ''christmasDay'' (fixed 12 25) [] 0 0 None [],
     rule ''stStephensDay'' (fixed 12 26) [] 0 0 None []],
    hr_substitute = None\<rparr>"

definition holidaysDE :: holiday_rules where
  "holidaysDE = \<lparr>hr_regions = [''BW'', ''BY'', ''BE'', ''BB'', ''HB'', ''HH'', ''HE'', ''MV'', ''NI'', ''NW'', ''RP'', ''SL'', ''SN'', ''ST'', ''SH'', ''TH''],
    hr_region_required = True, hr_rules = [
     rule ''newYear'' (fixed 1 1) [] 0 0 None [],
     rule ''epiphany'' (fixed 1 6) ''BW BY ST'' 0 0 None [],
     rule ''womensDay'' (fixed 3 8) ''BE'' 2019 0 None [],
     rule ''womensDay'' (fixed 3 8) ''MV'' 2023 0 None [],
     rule ''goodFriday'' (afterEaster (- 2)) [] 0 0 None [],
     rule ''easterSunday'' (afterEaster 0) ''BB'' 0 0 None [],
     rule ''easterMonday'' (afterEaster 1) [] 0 0 None [],
     rule ''labourDay'' (fixed 5 1) [] 0 0 None [],
     rule ''liberationDay'' (fixed 5 8) ''BE'' 0 0 (Some [2020, 2025]) [],
     rule ''ascension'' (afterEaster 39) [] 0 0 None [],
     rule ''whitSunday'' (afterEaster 49) ''BB'' 0 0 None [],
     rule ''whitMonday'' (afterEaster 50) [] 0 0 None [],
     rule ''corpusChristi'' (afterEaster 60) ''BW BY HE NW RP SL'' 0 0 None [],
     rule ''uprisingDay'' (fixed 6 17) ''BE'' 0 0 (Some [2028]) [],
     rule ''assumption'' (fixed 8 15) ''SL'' 0 0 None [],
     rule ''childrensDay'' (fixed 9 20) ''TH'' 2019 0 None [],
     rule ''germanUnity'' (fixed 10 3) [] 1990 0 None [],
     rule ''reformationDay'' (fixed 10 31) ''BB MV SN ST TH'' 0 0 None [],
     rule ''reformationDay'' (fixed 10 31) ''HB HH NI SH'' 2018 0 None [],
     rule ''reformationDay'' (fixed 10 31) [] 0 0 (Some [2017]) [],
     rule ''allSaints'' (fixed 11 1) ''BW BY NW RP SL'' 0 0 None [],
     rule ''repentanceDay'' (repentanceDay) ''SN'' 0 0 None [],
     rule ''repentanceDay'' (repentanceDay) [] 0 1994 None [],
     rule ''christmasDay'' (fixed 12 25) [] 0 0 None [],
     rule ''stStephensDay'' (fixed 12 26) [] 0 0 None []],
    hr_substitute = None\<rparr>"

definition holidaysDK :: holiday_rules where
  "holidaysDK = \<lparr>hr_regions = [],
    hr_region_required = False, hr_rules = [
     rule ''newYear'' (fixed 1 1) [] 0 0 None [],
     rule ''maundyThursday'' (afterEaster (- 3)) [] 0 0 None [],
     rule ''goodFriday'' (afterEaster (- 2)) [] 0 0 None [],
     rule ''easterSunday'' (afterEaster 0) [] 0 0 None [],
     rule ''easterMonday'' (afterEaster 1) [] 0 0 None [],
     rule ''greatPrayerDay'' (afterEaster 26) [] 0 2023 None [],
     rule ''ascension'' (afterEaster 39) [] 0 0 None [],
     rule ''whitSunday'' (afterEaster 49) [] 0 0 None [],
     rule ''whitMonday'' (afterEaster 50) [] 0 0 None [],
     rule ''christmasDay'' (fixed 12 25) [] 0 0 None [],
     rule ''stStephensDay'' (fixed 12 26) [] 0 0 None []],
    hr_substitute = None\<rparr>"

definition holidaysFI :: holiday_rules where
  "holidaysFI = \<lparr>hr_regions = [],
    hr_region_required = False, hr_rules = [
     rule ''newYear'' (fixed 1 1) [] 0 0 None [],
     rule ''epiphany'' (fixed 1 6) [] 0 0 None [],
     rule ''goodFriday'' (afterEaster (- 2)) [] 0 0 None [],
     rule ''easterSunday'' (afterEaster 0) [] 0 0 None [],
     rule ''easterMonday'' (afterEaster 1) [] 0 0 None [],
     rule ''labourDay'' (fixed 5 1) [] 0 0 None [],
     rule ''ascension'' (afterEaster 39) [] 0 0 None [],
     rule ''whitSunday'' (afterEaster 49) [] 0 0 None [],
     rule ''midsummerEve'' (weekdayAfter Friday 6 19) [] 0 0 None [],
     rule ''midsummerDay'' (weekdayAfter Saturday 6 20) [] 0 0 None [],
     rule ''allSaints'' (weekdayAfter Saturday 10 31) [] 0 0 None [],
     rule ''independenceDay'' (fixed 12 6) [] 0 0 None [],
     rule ''christmasEve'' (fixed 12 24) [] 0 0 None [],
     rule ''christmasDay'' (fixed 12 25) [] 0 0 None [],
     rule ''stStephensDay'' (fixed 12 26) [] 0 0 None []],
    hr_substitute = None\<rparr>"

definition holidaysFR :: holiday_rules where
  "holidaysFR = \<lparr>hr_regions = [''6AE'', ''57''],
    hr_region_required = False, hr_rules = [
     rule ''newYear'' (fixed 1 1) [] 0 0 None [],
     rule ''goodFriday'' (afterEaster (- 2)) ''6AE 57'' 0 0 None [],
     rule ''easterMonday'' (afterEaster 1) [] 0 0 None [],
     rule ''labourDay'' (fixed 5 1) [] 0 0 None [],
     rule ''victoryInEurope'' (fixed 5 8) [] 1982 0 None [],
     rule ''ascension'' (afterEaster 39) [] 0 0 None [],
     rule ''whitMonday'' (afterEaster 50) [] 0 0 None [],
     rule ''nationalDay'' (fixed 7 14) [] 0 0 None [],
     rule ''assumption'' (fixed 8 15) [] 0 0 None [],
     rule ''allSaints'' (fixed 11 1) [] 0 0 None [],
     rule ''armisticeDay'' (fixed 11 11) [] 0 0 None [],
     rule ''christmasDay'' (fixed 12 25) [] 0 0 None [],
     rule ''stStephensDay'' (fixed 12 26) ''6AE 57'' 0 0 None []],
    hr_substitute = None\<rparr>"

definition holidaysGB :: holiday_rules where
  "holidaysGB = \<lparr>hr_regions = [''ENG'', ''WLS'', ''SCT'', ''NIR''],
    hr_region_required = True, hr_rules = [
     rule ''newYear'' (fixed 1 1) [] 0 0 None [],
     rule ''secondJanuary'' (fixed 1 2) ''SCT'' 0 0 None [],
     rule ''stPatricksDay'' (fixed 3 17) ''NIR'' 0 0 None [],
     rule ''goodFriday'' (afterEaster (- 2)) [] 0 0 None [],
     rule ''easterMonday'' (afterEaster 1) ''ENG WLS NIR'' 0 0 None [],
     rule ''earlyMayBankHoliday'' (nthWeekday 1 Monday 5) [] 1978 0 None [2020],
     rule ''earlyMayBankHoliday'' (fixed 5 8) [] 0 0 (Some [2020]) [],
     rule ''springBankHoliday'' (lastWeekday Monday 5) [] 0 0 None [2012, 2022],
     rule ''springBankHoliday'' (fixed 6 4) [] 0 0 (Some [2012]) [],
     rule ''springBankHoliday'' (fixed 6 2) [] 0 0 (Some [2022]) [],
     rule ''battleOfTheBoyne'' (fixed 7 12) ''NIR'' 0 0 None [],
     rule ''summerBankHoliday'' (nthWeekday 1 Monday 8) ''SCT'' 0 0 None [],
     rule ''summerBankHoliday'' (lastWeekday Monday 8) ''ENG WLS NIR'' 0 0 None [],
     rule ''stAndrewsDay'' (fixed 11 30) ''SCT'' 2007 0 None [],
     rule ''christmasDay'' (fixed 12 25) [] 0 0 None [],
     rule ''stStephensDay'' (fixed 12 26) [] 0 0 None [],
     rule ''royalWedding'' (fixed 4 29) [] 0 0 (Some [2011]) [],
     rule ''diamondJubilee'' (fixed 6 5) [] 0 0 (Some [2012]) [],
     rule ''platinumJubilee'' (fixed 6 3) [] 0 0 (Some [2022]) [],
     rule ''stateFuneral'' (fixed 9 19) [] 0 0 (Some [2022]) [],
     rule ''coronation'' (fixed 5 8) [] 0 0 (Some [2023]) [],
     rule ''worldCup'' (fixed 6 15) ''SCT'' 0 0 (Some [2026]) []],
    hr_substitute = Some nextFreeWeekday\<rparr>"

definition holidaysIE :: holiday_rules where
  "holidaysIE = \<lparr>hr_regions = [],
    hr_region_required = False, hr_rules = [
     rule ''newYear'' (fixed 1 1) [] 0 0 None [],
     rule ''stBrigidsDay'' (stBrigidsDay) [] 2023 0 None [],
     rule ''stPatricksDay'' (fixed 3 17) [] 0 0 None [],
     rule ''dayOfRemembrance'' (fixed 3 18) [] 0 0 (Some [2022]) [],
     rule ''easterMonday'' (afterEaster 1) [] 0 0 None [],
     rule ''mayBankHoliday'' (nthWeekday 1 Monday 5) [] 1994 0 None [],
     rule ''juneBankHoliday'' (nthWeekday 1 Monday 6) [] 0 0 None [],
     rule ''augustBankHoliday'' (nthWeekday 1 Monday 8) [] 0 0 None [],
     rule ''octoberBankHoliday'' (lastWeekday Monday 10) [] 1977 0 None [],
     rule ''christmasDay'' (fixed 12 25) [] 0 0 None [],
     rule ''stStephensDay'' (fixed 12 26) [] 0 0 None []],
    hr_substitute = None\<rparr>"

definition holidaysIT :: holiday_rules where
  "holidaysIT = \<lparr>hr_regions = [''BZ''],
    hr_region_required = False, hr_rules = [
     rule ''newYear'' (fixed 1 1) [] 0 0 None [],
     rule ''epiphany'' (fixed 1 6) [] 0 0 None [],
     rule ''easterSunday'' (afterEaster 0) [] 0 0 None [],
     rule ''easterMonday'' (afterEaster 1) [] 0 0 None [],
     rule ''liberationDay'' (fixed 4 25) [] 0 0 None [],
     rule ''labourDay'' (fixed 5 1) [] 0 0 None [],
     rule ''whitMonday'' (afterEaster 50) ''BZ'' 0 0 None [],
     rule ''republicDay'' (fixed 6 2) [] 2001 0 None [],
     rule ''assumption'' (fixed 8 15) [] 0 0 None [],
     rule ''stFrancisDay'' (fixed 10 4) [] 2026 0 None [],
     rule ''allSaints'' (fixed 11 1) [] 0 0 None [],
     rule ''immaculateConception'' (fixed 12 8) [] 0 0 None [],
     rule ''christmasDay'' (fixed 12 25) [] 0 0 None [],
     rule ''stStephensDay'' (fixed 12 26) [] 0 0 None []],
    hr_substitute = None\<rparr>"

definition holidaysLU :: holiday_rules where
  "holidaysLU = \<lparr>hr_regions = [],
    hr_region_required = False, hr_rules = [
     rule ''newYear'' (fixed 1 1) [] 0 0 None [],
     rule ''easterMonday'' (afterEaster 1) [] 0 0 None [],
     rule ''labourDay'' (fixed 5 1) [] 0 0 None [],
     rule ''europeDay'' (fixed 5 9) [] 2019 0 None [],
     rule ''ascension'' (afterEaster 39) [] 0 0 None [],
     rule ''whitMonday'' (afterEaster 50) [] 0 0 None [],
     rule ''nationalDay'' (fixed 6 23) [] 0 0 None [],
     rule ''assumption'' (fixed 8 15) [] 0 0 None [],
     rule ''allSaints'' (fixed 11 1) [] 0 0 None [],
     rule ''christmasDay'' (fixed 12 25) [] 0 0 None [],
     rule ''stStephensDay'' (fixed 12 26) [] 0 0 None []],
    hr_substitute = None\<rparr>"

definition holidaysNL :: holiday_rules where
  "holidaysNL = \<lparr>hr_regions = [],
    hr_region_required = False, hr_rules = [
     rule ''newYear'' (fixed 1 1) [] 0 0 None [],
     rule ''easterSunday'' (afterEaster 0) [] 0 0 None [],
     rule ''easterMonday'' (afterEaster 1) [] 0 0 None [],
     rule ''queensDay'' (saturdayForSunday 4 30) [] 1980 2013 None [],
     rule ''kingsDay'' (saturdayForSunday 4 27) [] 2014 0 None [],
     rule ''ascension'' (afterEaster 39) [] 0 0 None [],
     rule ''whitSunday'' (afterEaster 49) [] 0 0 None [],
     rule ''whitMonday'' (afterEaster 50) [] 0 0 None [],
     rule ''christmasDay'' (fixed 12 25) [] 0 0 None [],
     rule ''stStephensDay'' (fixed 12 26) [] 0 0 None []],
    hr_substitute = None\<rparr>"

definition holidaysNO :: holiday_rules where
  "holidaysNO = \<lparr>hr_regions = [],
    hr_region_required = False, hr_rules = [
     rule ''newYear'' (fixed 1 1) [] 0 0 None [],
     rule ''maundyThursday'' (afterEaster (- 3)) [] 0 0 None [],
     rule ''goodFriday'' (afterEaster (- 2)) [] 0 0 None [],
     rule ''easterSunday'' (afterEaster 0) [] 0 0 None [],
     rule ''easterMonday'' (afterEaster 1) [] 0 0 None [],
     rule ''labourDay'' (fixed 5 1) [] 0 0 None [],
     rule ''constitutionDay'' (fixed 5 17) [] 0 0 None [],
     rule ''ascension'' (afterEaster 39) [] 0 0 None [],
     rule ''whitSunday'' (afterEaster 49) [] 0 0 None [],
     rule ''whitMonday'' (afterEaster 50) [] 0 0 None [],
     rule ''christmasDay'' (fixed 12 25) [] 0 0 None [],
     rule ''stStephensDay'' (fixed 12 26) [] 0 0 None []],
    hr_substitute = None\<rparr>"

definition holidaysPL :: holiday_rules where
  "holidaysPL = \<lparr>hr_regions = [],
    hr_region_required = False, hr_rules = [
     rule ''newYear'' (fixed 1 1) [] 0 0 None [],
     rule ''epiphany'' (fixed 1 6) [] 2011 0 None [],
     rule ''easterSunday'' (afterEaster 0) [] 0 0 None [],
     rule ''easterMonday'' (afterEaster 1) [] 0 0 None [],
     rule ''labourDay'' (fixed 5 1) [] 0 0 None [],
     rule ''constitutionDay'' (fixed 5 3) [] 0 0 None [],
     rule ''whitSunday'' (afterEaster 49) [] 0 0 None [],
     rule ''corpusChristi'' (afterEaster 60) [] 0 0 None [],
     rule ''assumption'' (fixed 8 15) [] 0 0 None [],
     rule ''allSaints'' (fixed 11 1) [] 0 0 None [],
     rule ''independenceDay'' (fixed 11 11) [] 0 0 None [],
     rule ''christmasEve'' (fixed 12 24) [] 2025 0 None [],
     rule ''christmasDay'' (fixed 12 25) [] 0 0 None [],
     rule ''stStephensDay'' (fixed 12 26) [] 0 0 None []],
    hr_substitute = None\<rparr>"

definition holidaysPT :: holiday_rules where
  "holidaysPT = \<lparr>hr_regions = [''20'', ''30''],
    hr_region_required = False, hr_rules = [
     rule ''newYear'' (fixed 1 1) [] 0 0 None [],
     rule ''goodFriday'' (afterEaster (- 2)) [] 0 0 None [],
     rule ''easterSunday'' (afterEaster 0) [] 0 0 None [],
     rule ''freedomDay'' (fixed 4 25) [] 0 0 None [],
     rule ''labourDay'' (fixed 5 1) [] 0 0 None [],
     rule ''azoresDay'' (afterEaster 50) ''20'' 0 0 None [],
     rule ''corpusChristi'' (afterEaster 60) [] 0 0 None suspendedInPortugal,
     rule ''nationalDay'' (fixed 6 10) [] 0 0 None [],
     rule ''madeiraDay'' (fixed 7 1) ''30'' 0 0 None [],
     rule ''assumption'' (fixed 8 15) [] 0 0 None [],
     rule ''republicDay'' (fixed 10 5) [] 0 0 None suspendedInPortugal,
     rule ''allSaints'' (fixed 11 1) [] 0 0 None suspendedInPortugal,
     rule ''restorationOfIndependence'' (fixed 12 1) [] 0 0 None suspendedInPortugal,
     rule ''immaculateConception'' (fixed 12 8) [] 0 0 None [],
     rule ''christmasDay'' (fixed 12 25) [] 0 0 None [],
     rule ''stStephensDay'' (fixed 12 26) ''30'' 0 0 None []],
    hr_substitute = None\<rparr>"

definition holidaysSE :: holiday_rules where
  "holidaysSE = \<lparr>hr_regions = [],
    hr_region_required = False, hr_rules = [
     rule ''newYear'' (fixed 1 1) [] 0 0 None [],
     rule ''epiphany'' (fixed 1 6) [] 0 0 None [],
     rule ''goodFriday'' (afterEaster (- 2)) [] 0 0 None [],
     rule ''easterSunday'' (afterEaster 0) [] 0 0 None [],
     rule ''easterMonday'' (afterEaster 1) [] 0 0 None [],
     rule ''labourDay'' (fixed 5 1) [] 0 0 None [],
     rule ''ascension'' (afterEaster 39) [] 0 0 None [],
     rule ''whitSunday'' (afterEaster 49) [] 0 0 None [],
     rule ''whitMonday'' (afterEaster 50) [] 0 2004 None [],
     rule ''nationalDay'' (fixed 6 6) [] 2005 0 None [],
     rule ''midsummerEve'' (weekdayAfter Friday 6 19) [] 0 0 None [],
     rule ''midsummerDay'' (weekdayAfter Saturday 6 20) [] 0 0 None [],
     rule ''allSaints'' (weekdayAfter Saturday 10 31) [] 0 0 None [],
     rule ''christmasEve'' (fixed 12 24) [] 0 0 None [],
     rule ''christmasDay'' (fixed 12 25) [] 0 0 None [],
     rule ''stStephensDay'' (fixed 12 26) [] 0 0 None [],
     rule ''newYearsEve'' (fixed 12 31) [] 0 0 None []],
    hr_substitute = None\<rparr>"

definition holidaysUS :: holiday_rules where
  "holidaysUS = \<lparr>hr_regions = [],
    hr_region_required = False, hr_rules = [
     rule ''newYear'' (fixed 1 1) [] 0 0 None [],
     rule ''martinLutherKingDay'' (nthWeekday 3 Monday 1) [] 1986 0 None [],
     rule ''washingtonsBirthday'' (nthWeekday 3 Monday 2) [] 0 0 None [],
     rule ''memorialDay'' (lastWeekday Monday 5) [] 0 0 None [],
     rule ''juneteenth'' (fixed 6 19) [] 2021 0 None [],
     rule ''independenceDay'' (fixed 7 4) [] 0 0 None [],
     rule ''labourDay'' (nthWeekday 1 Monday 9) [] 0 0 None [],
     rule ''columbusDay'' (nthWeekday 2 Monday 10) [] 0 0 None [],
     rule ''veteransDay'' (fixed 11 11) [] 0 0 None [],
     rule ''thanksgiving'' (nthWeekday 4 Thursday 11) [] 0 0 None [],
     rule ''christmasDay'' (fixed 12 25) [] 0 0 None []],
    hr_substitute = Some nearestWeekday\<rparr>"


definition holidaysByCountry :: "(gostring \<times> holiday_rules) list" where
  "holidaysByCountry =
     [(''AT'', holidaysAT), (''BE'', holidaysBE), (''CZ'', holidaysCZ), (''DE'', holidaysDE),
      (''DK'', holidaysDK), (''FI'', holidaysFI), (''FR'', holidaysFR), (''GB'', holidaysGB),
      (''IE'', holidaysIE), (''IT'', holidaysIT), (''LU'', holidaysLU), (''NL'', holidaysNL),
      (''NO'', holidaysNO), (''PL'', holidaysPL), (''PT'', holidaysPT), (''SE'', holidaysSE),
      (''US'', holidaysUS)]"

text \<open>\<^verbatim>\<open>HolidayCountries\<close>, ordered by code.\<close>

definition HolidayCountries :: "holiday_country list" where
  "HolidayCountries =
     map (\<lambda>code. case map_of holidaysByCountry code of
            Some rules \<Rightarrow> \<lparr>hc_code = code, hc_regions = hr_regions rules, hc_region_required = hr_region_required rules\<rparr>
          | None \<Rightarrow> \<lparr>hc_code = code, hc_regions = [], hc_region_required = False\<rparr>)
       (sort_by string_le (map fst holidaysByCountry))"

section \<open>Places and choices\<close>

definition HolidayPlace :: "gostring \<Rightarrow> gostring \<Rightarrow> gostring" where
  "HolidayPlace country region = (if region = [] then country else country @ ''-'' @ region)"

definition SplitHolidayPlace :: "gostring \<Rightarrow> gostring \<times> gostring" where
  "SplitHolidayPlace place = (let (country, region, _) = cut_at (CHR ''-'') place in (country, region))"

definition LegacyHolidayPlace :: "gostring \<Rightarrow> gostring" where
  "LegacyHolidayPlace written =
     (if written \<in> set (hr_regions holidaysDE) then HolidayPlace ''DE'' written else written)"

definition LegacyHolidayRegion :: "gostring \<Rightarrow> gostring" where
  "LegacyHolidayRegion choice =
     (let (country, region) = SplitHolidayPlace choice
      in if country = ''DE'' \<and> region \<noteq> [] then region else choice)"

definition ValidHolidayPlace :: "gostring \<Rightarrow> bool" where
  "ValidHolidayPlace place =
     (let (country, region) = SplitHolidayPlace place
      in case map_of holidaysByCountry country of
           None \<Rightarrow> False
         | Some rules \<Rightarrow>
             if region = [] then \<not> hr_region_required rules \<and> CHR ''-'' \<notin> set place
             else region \<in> set (hr_regions rules))"

definition NoHolidays :: gostring where
  "NoHolidays = ''none''"

datatype HolidayChoiceFault = NoHolidayChoiceFault | UnknownHolidayCountry | UnknownHolidayRegion

definition HolidayChoiceFaultOf :: "gostring \<Rightarrow> HolidayChoiceFault" where
  "HolidayChoiceFaultOf choice =
     (if choice = [] \<or> choice = NoHolidays \<or> ValidHolidayPlace choice then NoHolidayChoiceFault
      else if map_of holidaysByCountry (fst (SplitHolidayPlace choice)) = None
           then UnknownHolidayCountry else UnknownHolidayRegion)"

definition ValidHolidayChoice :: "gostring \<Rightarrow> bool" where
  "ValidHolidayChoice choice \<longleftrightarrow> HolidayChoiceFaultOf choice = NoHolidayChoiceFault"

text \<open>\<^verbatim>\<open>User.HolidayPlaceOf\<close>: a person's own choice, or the installation's.\<close>

definition HolidayPlaceOf :: "gostring \<Rightarrow> gostring \<Rightarrow> gostring" where
  "HolidayPlaceOf own installation =
     (let choice = (if own = [] then installation else own)
      in if choice = NoHolidays then [] else choice)"

section \<open>A year of holidays\<close>

definition holdsIn :: "holiday_rule \<Rightarrow> gostring \<Rightarrow> int \<Rightarrow> bool" where
  "holdsIn r region year =
     (if hr_in r \<noteq> [] \<and> region \<notin> set (Fields (hr_in r)) then False
      else case hr_only r of
             Some years \<Rightarrow> year \<in> set years
           | None \<Rightarrow>
               if year \<in> set (hr_except r) then False
               else (hr_from r = 0 \<or> hr_from r \<le> year) \<and> (hr_until r = 0 \<or> year \<le> hr_until r))"

text \<open>The loop over the rules, with the days taken so far.\<close>

fun gather :: "gostring \<Rightarrow> int \<Rightarrow> holiday_rule list \<Rightarrow> day list \<Rightarrow> holiday list \<Rightarrow> day list \<times> holiday list" where
  "gather region year [] taken hs = (taken, hs)"
| "gather region year (r # rs) taken hs =
     (if \<not> holdsIn r region year then gather region year rs taken hs
      else let d = hr_on r year
           in if d \<in> set taken then gather region year rs taken hs
              else gather region year rs (d # taken)
                     (hs @ [\<lparr>h_day = d, h_name = hr_name r, h_substitute = False\<rparr>]))"

text \<open>The loop that adds the substitutes, in the order the holidays fall.\<close>

fun substitutes :: "(day \<Rightarrow> day list \<Rightarrow> day option) \<Rightarrow> holiday list \<Rightarrow> day list \<Rightarrow> holiday list \<Rightarrow> holiday list" where
  "substitutes sub [] taken hs = hs"
| "substitutes sub (h # rest) taken hs =
     (case sub (h_day h) taken of
        None \<Rightarrow> substitutes sub rest taken hs
      | Some d \<Rightarrow> substitutes sub rest (d # taken)
                    (hs @ [\<lparr>h_day = d, h_name = h_name h, h_substitute = True\<rparr>]))"

definition rules_year :: "holiday_rules \<Rightarrow> gostring \<Rightarrow> int \<Rightarrow> holiday list" where
  "rules_year c region year =
     (let (taken, found) = gather region year (hr_rules c) [] [];
          hs = sort_by (by_key h_day) found
      in case hr_substitute c of
           None \<Rightarrow> hs
         | Some sub \<Rightarrow> sort_by (by_key h_day) (substitutes sub hs taken hs))"

definition HolidaysIn :: "gostring \<Rightarrow> int \<Rightarrow> holiday list" where
  "HolidaysIn place year =
     (if \<not> ValidHolidayPlace place then []
      else let (country, region) = SplitHolidayPlace place
           in case map_of holidaysByCountry country of
                None \<Rightarrow> []
              | Some rules \<Rightarrow>
                  filter (\<lambda>h. year_of (h_day h) = year)
                    (concat (map (rules_year rules region) [year - 1..year + 1])))"

text \<open>\<^verbatim>\<open>HolidaysBetween\<close>: the map from days to holidays, a later write replacing an earlier.\<close>

definition HolidaysBetween :: "gostring \<Rightarrow> day \<Rightarrow> day \<Rightarrow> day \<rightharpoonup> holiday" where
  "HolidaysBetween place from to =
     foldl (\<lambda>found h. if from \<le> h_day h \<and> h_day h \<le> to then found(h_day h \<mapsto> h) else found)
       Map.empty (concat (map (HolidaysIn place) [year_of from..year_of to]))"

section \<open>No day is given twice\<close>

lemma gather_induct:
  assumes "gather region year rs taken hs = (taken', hs')" and "P taken hs"
    and "\<And>d n taken hs. P taken hs \<Longrightarrow> d \<notin> set taken \<Longrightarrow>
           P (d # taken) (hs @ [\<lparr>h_day = d, h_name = n, h_substitute = False\<rparr>])"
  shows "P taken' hs'"
  using assms(1,2)
proof (induction rs arbitrary: taken hs)
  case (Cons r rs)
  show ?case
  proof (cases "holdsIn r region year \<and> hr_on r year \<notin> set taken")
    case True
    then have fresh: "hr_on r year \<notin> set taken" and "holdsIn r region year" by auto
    then have "gather region year rs (hr_on r year # taken)
        (hs @ [\<lparr>h_day = hr_on r year, h_name = hr_name r, h_substitute = False\<rparr>]) = (taken', hs')"
      using Cons.prems(1) by (simp add: Let_def)
    then show ?thesis by (rule Cons.IH) (rule assms(3) [OF Cons.prems(2) fresh])
  next
    case False
    then show ?thesis using Cons.prems by (intro Cons.IH) (auto simp: Let_def split: if_splits)
  qed
qed simp

lemma gather_invariant:
  assumes "gather region year rs [] [] = (taken, hs)"
  shows "set taken = h_day ` set hs \<and> distinct (map h_day hs)"
  by (rule gather_induct [OF assms, of "\<lambda>taken hs. set taken = h_day ` set hs \<and> distinct (map h_day hs)"])
    auto

lemma gather_not_substitute:
  assumes "gather region year rs [] [] = (taken, hs)"
  shows "\<forall>h \<in> set hs. \<not> h_substitute h"
  by (rule gather_induct [OF assms, of "\<lambda>taken hs. \<forall>h \<in> set hs. \<not> h_substitute h"]) auto

text \<open>A way of substituting is free when the day it gives is none taken yet.\<close>

definition gives_free :: "(day \<Rightarrow> day list \<Rightarrow> day option) \<Rightarrow> bool" where
  "gives_free sub \<longleftrightarrow> (\<forall>d taken i. sub d taken = Some i \<longrightarrow> i \<notin> set taken)"

lemma substitutes_invariant:
  assumes "gives_free sub" and "set taken = h_day ` set hs" and "distinct (map h_day hs)"
  shows "distinct (map h_day (substitutes sub todo taken hs))"
  using assms(2,3)
proof (induction todo arbitrary: taken hs)
  case (Cons h rest)
  show ?case
  proof (cases "sub (h_day h) taken")
    case (Some d)
    then have "d \<notin> set taken" using assms(1) by (simp add: gives_free_def)
    then show ?thesis using Cons Some by simp
  qed (use Cons in simp)
qed simp

lemma substitutes_weekdays:
  assumes "\<And>d taken i. sub d taken = Some i \<Longrightarrow> \<not> weekend i"
    and "\<forall>h \<in> set hs. h_substitute h \<longrightarrow> \<not> weekend (h_day h)"
    and "h \<in> set (substitutes sub todo taken hs)" and "h_substitute h"
  shows "\<not> weekend (h_day h)"
  using assms(2-4)
proof (induction todo arbitrary: taken hs)
  case (Cons g rest)
  show ?case
  proof (cases "sub (h_day g) taken")
    case None
    then show ?thesis using Cons by auto
  next
    case (Some d)
    then have "\<not> weekend d" by (rule assms(1))
    then show ?thesis using Cons.prems Some
      by (intro Cons.IH [of "hs @ [\<lparr>h_day = d, h_name = h_name g, h_substitute = True\<rparr>]" "d # taken"]) auto
  qed
qed auto

lemma nextFreeWeekday_free: "gives_free nextFreeWeekday"
  using next_free_spec by (auto simp: gives_free_def nextFreeWeekday_def)

lemma nextFreeWeekday_weekday: "nextFreeWeekday d taken = Some i \<Longrightarrow> \<not> weekend i"
  using next_free_spec [of d taken] by (auto simp: nextFreeWeekday_def split: if_splits)

lemma nearestWeekday_weekday: "nearestWeekday d taken = Some i \<Longrightarrow> \<not> weekend i"
  by (auto simp: nearestWeekday_def weekend_def is_weekday_def weekday_step split: if_splits)

lemma distinct_map_sort_by: "distinct (map f (sort_by le xs)) = distinct (map f xs)"
  by (metis distinct_map distinct_sort_by set_sort_by)

lemma rules_year_distinct:
  assumes "\<And>sub. hr_substitute c = Some sub \<Longrightarrow> gives_free sub"
  shows "distinct (map h_day (rules_year c region year))"
proof -
  obtain taken found where g: "gather region year (hr_rules c) [] [] = (taken, found)" by fastforce
  note inv = gather_invariant [OF g]
  have "distinct (map h_day (substitutes sub (sort_by (by_key h_day) found) taken (sort_by (by_key h_day) found)))"
    if "hr_substitute c = Some sub" for sub
    by (rule substitutes_invariant) (use that assms inv in \<open>auto simp: distinct_map_sort_by\<close>)
  then show ?thesis
    using inv by (simp add: rules_year_def g Let_def distinct_map_sort_by split: option.split)
qed

lemma rules_year_sorted: "sorted (map h_day (rules_year c region year))"
  by (auto simp: rules_year_def Let_def sort_by_key_sorted split: prod.split option.split)

section \<open>The holidays of a year lie in it\<close>

definition rules_within :: "holiday_rules \<Rightarrow> bool" where
  "rules_within c \<longleftrightarrow> (\<forall>r \<in> set (hr_rules c). within_year (hr_on r))"

lemma tables_within:
  "rules_within holidaysAT" "rules_within holidaysBE" "rules_within holidaysCZ" "rules_within holidaysDE"
  "rules_within holidaysDK" "rules_within holidaysFI" "rules_within holidaysFR" "rules_within holidaysGB"
  "rules_within holidaysIE" "rules_within holidaysIT" "rules_within holidaysLU" "rules_within holidaysNL"
  "rules_within holidaysNO" "rules_within holidaysPL" "rules_within holidaysPT" "rules_within holidaysSE"
  "rules_within holidaysUS"
  unfolding rules_within_def holidaysAT_def holidaysBE_def holidaysCZ_def holidaysDE_def holidaysDK_def
    holidaysFI_def holidaysFR_def holidaysGB_def holidaysIE_def holidaysIT_def holidaysLU_def
    holidaysNL_def holidaysNO_def holidaysPL_def holidaysPT_def holidaysSE_def holidaysUS_def
    rule_def holiday_rules.simps list.set ball_simps holiday_rule.simps
  by (intro conjI within_rules TrueI; simp add: month_start_def)+

lemma country_within: "map_of holidaysByCountry country = Some c \<Longrightarrow> rules_within c"
  by (drule map_of_SomeD) (auto simp: holidaysByCountry_def intro: tables_within)

lemma gather_within:
  assumes "\<forall>r \<in> set rs. within_year (hr_on r)" and "1 \<le> year"
    and "\<forall>h \<in> set hs. year_of (h_day h) = year"
    and "gather region year rs taken hs = (taken', hs')"
  shows "\<forall>h \<in> set hs'. year_of (h_day h) = year"
  using assms(1,3,4)
proof (induction rs arbitrary: taken hs)
  case (Cons r rs)
  then have r: "year_of (hr_on r year) = year" using assms(2) by (simp add: within_year_D)
  show ?case
  proof (cases "holdsIn r region year \<and> hr_on r year \<notin> set taken")
    case True
    then have "gather region year rs (hr_on r year # taken)
        (hs @ [\<lparr>h_day = hr_on r year, h_name = hr_name r, h_substitute = False\<rparr>]) = (taken', hs')"
      using Cons.prems(3) by (simp add: Let_def)
    then show ?thesis by (rule Cons.IH [rotated 2]) (use Cons.prems r in auto)
  next
    case False
    then have "gather region year rs taken hs = (taken', hs')"
      using Cons.prems(3) by (auto simp: Let_def split: if_splits)
    then show ?thesis by (rule Cons.IH [rotated 2]) (use Cons.prems in auto)
  qed
qed simp

lemma rules_year_within:
  assumes "rules_within c" "hr_substitute c = None" "1 \<le> year" "h \<in> set (rules_year c region year)"
  shows "year_of (h_day h) = year"
proof -
  obtain taken found where g: "gather region year (hr_rules c) [] [] = (taken, found)" by fastforce
  from gather_within [OF _ assms(3) _ g] assms show ?thesis
    by (auto simp: rules_year_def g rules_within_def)
qed

lemma three_years: "[year - 1..year + 1] = [year - 1, year, year + 1 :: int]"
  by (simp add: upto.simps)

lemma HolidaysIn_of_year:
  assumes "ValidHolidayPlace place" "SplitHolidayPlace place = (country, region)"
    "map_of holidaysByCountry country = Some c" "hr_substitute c = None" "2 \<le> year"
  shows "HolidaysIn place year = rules_year c region year"
proof -
  have other: "filter (\<lambda>h. year_of (h_day h) = year) (rules_year c region y) =
      (if y = year then rules_year c region y else [])" if "1 \<le> y" for y
    using rules_year_within [OF country_within [OF assms(3)] assms(4) that]
    by (auto simp: filter_empty_conv filter_id_conv)
  show ?thesis
    using assms other [of "year - 1"] other [of year] other [of "year + 1"]
    by (simp add: HolidaysIn_def three_years)
qed

lemma ValidHolidayPlace_country:
  "ValidHolidayPlace place \<Longrightarrow> \<exists>c. map_of holidaysByCountry (fst (SplitHolidayPlace place)) = Some c"
  by (auto simp: ValidHolidayPlace_def split: prod.splits option.splits)

lemma in_dates_between:
  assumes "from \<le> d" "d \<le> to"
  shows "year_of d \<in> set [year_of from..year_of to]"
  using assms by (simp add: year_of_mono)

lemma HolidaysIn_year: "h \<in> set (HolidaysIn place y) \<Longrightarrow> year_of (h_day h) = y"
  by (auto simp: HolidaysIn_def Let_def split: prod.splits option.splits if_splits)

lemma foldl_upd:
  "foldl (\<lambda>found h. if P h then found(k h \<mapsto> h) else found) m hs
     = (\<lambda>d. case map_of (rev (map (\<lambda>h. (k h, h)) (filter P hs))) d of Some h \<Rightarrow> Some h | None \<Rightarrow> m d)"
proof (induction hs arbitrary: m)
  case (Cons h hs)
  show ?case by (rule ext) (simp add: Cons map_add_def split: option.split)
qed simp

lemma map_of_rev_filter:
  "map_of (rev (map (\<lambda>h. (k h, h)) (filter P hs))) d
     = map_of (rev (map (\<lambda>h. (k h, h)) (filter (\<lambda>h. k h = d \<and> P h) hs))) d"
  by (induction hs) (auto simp: map_add_def split: option.splits)

lemma concat_one_year:
  assumes "distinct ys" "\<And>y h. h \<in> set (f y) \<Longrightarrow> g h = (y :: int)"
  shows "filter (\<lambda>h. g h = y0 \<and> Q h) (concat (map f ys))
     = (if y0 \<in> set ys then filter Q (f y0) else [])"
  using assms(1)
proof (induction ys)
  case (Cons y ys)
  have "filter (\<lambda>h. g h = y0 \<and> Q h) (f y) = (if y = y0 then filter Q (f y) else [])"
    using assms(2) [of _ y] by (auto simp: filter_empty_conv intro!: filter_cong)
  then show ?case using Cons by auto
qed simp

lemma HolidaysBetween_list:
  "HolidaysBetween place from to d =
     (if from \<le> d \<and> d \<le> to
      then map_of (rev (map (\<lambda>h. (h_day h, h)) (HolidaysIn place (year_of d)))) d else None)"
proof -
  let ?P = "\<lambda>h. from \<le> h_day h \<and> h_day h \<le> to"
  let ?hs = "concat (map (HolidaysIn place) [year_of from..year_of to])"
  have "HolidaysBetween place from to d = map_of (rev (map (\<lambda>h. (h_day h, h)) (filter ?P ?hs))) d"
    unfolding HolidaysBetween_def foldl_upd by (simp split: option.split)
  also have "filter (\<lambda>h. h_day h = d \<and> ?P h) ?hs
      = filter (\<lambda>h. year_of (h_day h) = year_of d \<and> (h_day h = d \<and> ?P h)) ?hs"
    by (rule filter_cong) auto
  then have "map_of (rev (map (\<lambda>h. (h_day h, h)) (filter ?P ?hs))) d
      = map_of (rev (map (\<lambda>h. (h_day h, h))
          (if year_of d \<in> set [year_of from..year_of to]
           then filter (\<lambda>h. h_day h = d \<and> ?P h) (HolidaysIn place (year_of d)) else []))) d"
    unfolding map_of_rev_filter [of _ ?P]
    by (simp only: concat_one_year [OF distinct_upto HolidaysIn_year])
  also have "\<dots> = (if from \<le> d \<and> d \<le> to
      then map_of (rev (map (\<lambda>h. (h_day h, h)) (HolidaysIn place (year_of d)))) d else None)"
  proof (cases "from \<le> d \<and> d \<le> to")
    case True
    have "map_of (rev (map (\<lambda>h. (h_day h, h)) (HolidaysIn place (year_of d)))) d
       = map_of (rev (map (\<lambda>h. (h_day h, h)) (filter (\<lambda>h. h_day h = d) (HolidaysIn place (year_of d))))) d"
      using map_of_rev_filter [of h_day "\<lambda>_. True"] by simp
    moreover have "filter (\<lambda>h. h_day h = d \<and> ?P h) hs = filter (\<lambda>h. h_day h = d) hs" for hs :: "holiday list"
      using True by (intro filter_cong) auto
    moreover have "year_of d \<in> set [year_of from..year_of to]"
      using True by (intro in_dates_between) auto
    ultimately show ?thesis using True by (simp only: simp_thms if_True)
  next
    case False
    then have "filter (\<lambda>h. h_day h = d \<and> ?P h) hs = []" for hs :: "holiday list" by (auto simp: filter_empty_conv)
    then show ?thesis using False by (simp only: if_False if_cancel list.map rev.simps map_of.simps)
  qed
  finally show ?thesis .
qed

text \<open>\<open>HolidaysBetween\<close> gives a day exactly what the list of its year gives it: days
  outside the stretch have no entry, and a day named by two holidays keeps the later one.\<close>

lemma HolidaysBetween_eq:
  "HolidaysBetween place from to d =
     (if from \<le> d \<and> d \<le> to
      then map_of (rev (map (\<lambda>h. (h_day h, h)) (HolidaysIn place (year_of d)))) d else None)"
  by (rule HolidaysBetween_list)

lemma tables_substitute:
  "hr_substitute holidaysAT = None" "hr_substitute holidaysBE = None" "hr_substitute holidaysCZ = None"
  "hr_substitute holidaysDE = None" "hr_substitute holidaysDK = None" "hr_substitute holidaysFI = None"
  "hr_substitute holidaysFR = None" "hr_substitute holidaysIE = None" "hr_substitute holidaysIT = None"
  "hr_substitute holidaysLU = None" "hr_substitute holidaysNL = None" "hr_substitute holidaysNO = None"
  "hr_substitute holidaysPL = None" "hr_substitute holidaysPT = None" "hr_substitute holidaysSE = None"
  "hr_substitute holidaysGB = Some nextFreeWeekday" "hr_substitute holidaysUS = Some nearestWeekday"
  by (simp_all only: holidaysAT_def holidaysBE_def holidaysCZ_def holidaysDE_def holidaysDK_def
    holidaysFI_def holidaysFR_def holidaysGB_def holidaysIE_def holidaysIT_def holidaysLU_def
    holidaysNL_def holidaysNO_def holidaysPL_def holidaysPT_def holidaysSE_def holidaysUS_def
    holiday_rules.simps)

lemma no_substitute:
  assumes "map_of holidaysByCountry country = Some c" "country \<noteq> ''GB''" "country \<noteq> ''US''"
  shows "hr_substitute c = None"
proof -
  have "(country, c) \<in> set holidaysByCountry" using assms(1) by (rule map_of_SomeD)
  then show ?thesis
    using assms(2,3) unfolding holidaysByCountry_def by (auto simp: tables_substitute)
qed



section \<open>Substitutes\<close>

lemma rules_year_substitute_weekday:
  assumes "\<And>sub d taken i. hr_substitute c = Some sub \<Longrightarrow> sub d taken = Some i \<Longrightarrow> \<not> weekend i"
    and "h \<in> set (rules_year c region year)" "h_substitute h"
  shows "\<not> weekend (h_day h)"
proof -
  obtain taken found where g: "gather region year (hr_rules c) [] [] = (taken, found)" by fastforce
  note own = gather_not_substitute [OF g]
  show ?thesis
  proof (cases "hr_substitute c")
    case None
    then show ?thesis using assms(2,3) own by (auto simp: rules_year_def g)
  next
    case (Some sub)
    show ?thesis
      by (rule substitutes_weekdays [of sub "sort_by (by_key h_day) found" _ _ taken])
        (use assms own Some in \<open>auto simp: rules_year_def g Let_def\<close>)
  qed
qed

lemma substitute_weekday:
  assumes h: "h \<in> set (HolidaysIn place year)" "h_substitute h"
  shows "\<not> weekend (h_day h)"
proof -
  from h obtain c y where c: "map_of holidaysByCountry (fst (SplitHolidayPlace place)) = Some c"
    and y: "h \<in> set (rules_year c (snd (SplitHolidayPlace place)) y)"
    by (cases "SplitHolidayPlace place")
      (force simp: HolidaysIn_def Let_def split: if_splits option.splits)
  have "\<not> weekend i" if "hr_substitute c = Some sub" "sub d taken = Some i" for sub d taken i
  proof -
    have "fst (SplitHolidayPlace place) = ''GB'' \<or> fst (SplitHolidayPlace place) = ''US''"
      using no_substitute [OF c] that(1) by auto
    then have "sub = nextFreeWeekday \<or> sub = nearestWeekday"
      using c that(1) by (elim disjE) (simp_all add: holidaysByCountry_def tables_substitute)
    then show ?thesis using that(2) nextFreeWeekday_weekday nearestWeekday_weekday by blast
  qed
  then show ?thesis by (rule rules_year_substitute_weekday [OF _ y h(2)]) 
qed

text \<open>Within a year of Britain's rules no day is given twice, so that Christmas on a
  Saturday and Boxing Day on the Sunday after it are kept on two days.\<close>

lemma britain_distinct:
  "distinct (map h_day (rules_year holidaysGB region year))"
  by (rule rules_year_distinct) (simp add: tables_substitute nextFreeWeekday_free)

lemma substitutes_keeps: "set hs \<subseteq> set (substitutes sub todo taken hs)"
proof (induction todo arbitrary: taken hs)
  case (Cons h rest)
  show ?case
  proof (cases "sub (h_day h) taken")
    case (Some d)
    show ?thesis
      using Cons [of "hs @ [\<lparr>h_day = d, h_name = h_name h, h_substitute = True\<rparr>]" "d # taken"] Some
      by simp
  qed (simp add: Cons)
qed simp

lemma nearestWeekday_given:
  "h \<in> set todo \<Longrightarrow> nearestWeekday (h_day h) [] = Some d \<Longrightarrow>
     \<lparr>h_day = d, h_name = h_name h, h_substitute = True\<rparr> \<in> set (substitutes nearestWeekday todo taken hs)"
proof (induction todo arbitrary: taken hs)
  case (Cons g rest)
  show ?case
  proof (cases "g = h")
    case True
    then have "nearestWeekday (h_day g) taken = Some d" using Cons.prems by (simp add: nearestWeekday_def)
    then show ?thesis using True substitutes_keeps [of "hs @ [\<lparr>h_day = d, h_name = h_name h, h_substitute = True\<rparr>]"]
      by auto
  next
    case False
    then show ?thesis using Cons by (auto split: option.split)
  qed
qed simp

lemma gather_keeps: "set hs \<subseteq> set (snd (gather region year rs taken hs))"
proof (induction rs arbitrary: taken hs)
  case (Cons r rs)
  show ?case
  proof (cases "holdsIn r region year \<and> hr_on r year \<notin> set taken")
    case True
    then show ?thesis
      using Cons [of "hs @ [\<lparr>h_day = hr_on r year, h_name = hr_name r, h_substitute = False\<rparr>]"
          "hr_on r year # taken"]
      by (simp add: Let_def)
  next
    case False
    then have "gather region year (r # rs) taken hs = gather region year rs taken hs"
      by (auto simp: Let_def)
    then show ?thesis by (simp only: Cons)
  qed
qed simp

lemma us_new_year:
  "\<lparr>h_day = date y 1 1, h_name = ''newYear'', h_substitute = False\<rparr>
     \<in> set (snd (gather [] y (hr_rules holidaysUS) [] []))"
proof -
  obtain rest where r: "hr_rules holidaysUS = rule ''newYear'' (fixed 1 1) [] 0 0 None [] # rest"
    by (simp add: holidaysUS_def)
  have "holdsIn (rule ''newYear'' (fixed 1 1) [] 0 0 None []) [] y"
    by (simp add: holdsIn_def rule_def)
  then show ?thesis
    unfolding r using gather_keeps [of "[\<lparr>h_day = date y 1 1, h_name = ''newYear'', h_substitute = False\<rparr>]"
        "[]" y rest "[date y 1 1]"]
    by (simp add: rule_def fixed_def Let_def)
qed

lemma new_year_listed:
  assumes "is_weekday (date (y + 1) 1 1) Saturday"
  shows "\<lparr>h_day = date (y + 1) 1 1 - 1, h_name = ''newYear'', h_substitute = True\<rparr>
    \<in> set (HolidaysIn ''US'' y)"
proof -
  let ?h = "\<lparr>h_day = date (y + 1) 1 1, h_name = ''newYear'', h_substitute = False\<rparr>"
  have s: "SplitHolidayPlace ''US'' = (''US'', [])" by (simp add: SplitHolidayPlace_def)
  have c: "map_of holidaysByCountry ''US'' = Some holidaysUS" by (simp add: holidaysByCountry_def)
  have v: "ValidHolidayPlace ''US''"
    by (simp add: ValidHolidayPlace_def s c) (simp add: holidaysUS_def)
  have n: "nearestWeekday (h_day ?h) [] = Some (date (y + 1) 1 1 - 1)"
    using assms by (simp add: nearestWeekday_def)
  have "\<lparr>h_day = date (y + 1) 1 1 - 1, h_name = ''newYear'', h_substitute = True\<rparr>
      \<in> set (rules_year holidaysUS [] (y + 1))"
  proof -
    obtain taken found where g: "gather [] (y + 1) (hr_rules holidaysUS) [] [] = (taken, found)" by fastforce
    then have "?h \<in> set (sort_by (by_key h_day) found)" using us_new_year [of "y + 1"] by simp
    from nearestWeekday_given [OF this n, of taken "sort_by (by_key h_day) found"] show ?thesis
      by (simp add: rules_year_def g tables_substitute Let_def)
  qed
  moreover have "year_of (date (y + 1) 1 1 - 1) = y"
    using year_start_less [of y "y + 1"]
    by (intro year_of_unique) (simp_all add: date_simple month_start_def)
  ultimately show ?thesis by (simp add: HolidaysIn_def v s c three_years)
qed

text \<open>The United States keep a New Year's Day on a Saturday on the day before it, and the list
  of the year that day is in has it, although another year's rules give it.\<close>

lemma new_year_kept_before:
  assumes "is_weekday (date (y + 1) 1 1) Saturday"
  shows "\<lparr>h_day = date (y + 1) 1 1 - 1, h_name = ''newYear'', h_substitute = True\<rparr>
    \<in> set (HolidaysIn ''US'' y)"
  by (rule new_year_listed [OF assms])

lemma new_year_2022: "is_weekday (date 2022 1 1) Saturday" "date 2022 1 1 = 18993"
  by (simp_all add: is_weekday_def weekday_def date_def year_start_def month_start_def Let_def)

theorem new_year_kept_before_witness:
  "\<lparr>h_day = 18992, h_name = ''newYear'', h_substitute = True\<rparr> \<in> set (HolidaysIn ''US'' 2021)"
  using new_year_kept_before [of 2021] new_year_2022 by simp

text \<open>A substitute is kept on a working day: no holiday of any place and year that stands in
  for another falls on a weekend.\<close>

lemma substitute_on_weekday:
  assumes "h \<in> set (HolidaysIn place year)" "h_substitute h"
  shows "\<not> weekend (h_day h)"
  by (rule substitute_weekday [OF assms])

theorem substitute_on_weekday_witness:
  "\<not> weekend (h_day \<lparr>h_day = 18992, h_name = ''newYear'', h_substitute = True\<rparr>)"
  by (rule substitute_on_weekday [of _ "''US''" 2021])
    (use new_year_listed [of 2021] new_year_2022 in simp_all)

section \<open>Choices of clients older than the countries\<close>

lemma german_regions:
  "hr_regions holidaysDE = [''BW'', ''BY'', ''BE'', ''BB'', ''HB'', ''HH'', ''HE'', ''MV'', ''NI'', ''NW'',
     ''RP'', ''SL'', ''SN'', ''ST'', ''SH'', ''TH'']"
  by (simp only: holidaysDE_def holiday_rules.simps)

lemma country_codes:
  "map fst holidaysByCountry = [''AT'', ''BE'', ''CZ'', ''DE'', ''DK'', ''FI'', ''FR'', ''GB'', ''IE'',
     ''IT'', ''LU'', ''NL'', ''NO'', ''PL'', ''PT'', ''SE'', ''US'']"
  by (simp only: holidaysByCountry_def list.map fst_conv)

lemma country_known: "map_of holidaysByCountry country = None \<longleftrightarrow> country \<notin> set (map fst holidaysByCountry)"
  by (simp add: map_of_eq_None_iff)

lemma old_region_codes:
  assumes "region \<in> set (hr_regions holidaysDE)"
  shows "region \<noteq> []" "CHR ''-'' \<notin> set region" "region \<noteq> NoHolidays"
    "region \<noteq> ''BE'' \<Longrightarrow> map_of holidaysByCountry region = None"
  using assms unfolding country_known country_codes german_regions NoHolidays_def
  by (simp_all only: list.set insert_iff empty_iff) (elim disjE; simp)+

text \<open>What an older client is shown of a stored choice comes back as the same choice when it
  posts it unchanged, for every choice that may be stored but Belgium's, whose code is also the
  one Berlin had.\<close>

lemma legacy_choice_roundtrip:
  assumes "ValidHolidayChoice choice" "choice \<noteq> ''BE''"
  shows "LegacyHolidayPlace (LegacyHolidayRegion choice) = choice"
proof -
  obtain country region where s: "SplitHolidayPlace choice = (country, region)" by fastforce
  then obtain f where cut: "cut_at (CHR ''-'') choice = (country, region, f)"
    by (auto simp: SplitHolidayPlace_def split: prod.splits)
  have valid: "choice = [] \<or> choice = NoHolidays \<or> ValidHolidayPlace choice"
    using assms(1) by (auto simp: ValidHolidayChoice_def HolidayChoiceFaultOf_def split: if_splits)
  have whole: "country = choice" if "region = []" "ValidHolidayPlace choice"
    using that s cut cut_at_missing [of "CHR ''-''" choice country region] cut_at_found [of "CHR ''-''" choice country region]
    by (cases f) (auto simp: ValidHolidayPlace_def split: option.splits)
  have not_old: "choice \<notin> set (hr_regions holidaysDE)"
  proof
    assume old: "choice \<in> set (hr_regions holidaysDE)"
    then have "SplitHolidayPlace choice = (choice, [])" by (simp add: SplitHolidayPlace_def old_region_codes)
    moreover have "ValidHolidayPlace choice" using valid old old_region_codes by auto
    ultimately show False
      using old_region_codes [OF old] assms(2) by (simp add: ValidHolidayPlace_def)
  qed
  show ?thesis
  proof (cases "country = ''DE'' \<and> region \<noteq> []")
    case True
    then have f: "f" using cut cut_at_missing [of "CHR ''-''" choice country region] by (cases f) auto
    have place: "choice = ''DE'' @ ''-'' @ region" using cut_at_found [of "CHR ''-''" choice country region] cut f True by auto
    then have "ValidHolidayPlace choice" using valid by (auto simp: NoHolidays_def)
    then have "region \<in> set (hr_regions holidaysDE)"
      using True s by (simp add: ValidHolidayPlace_def holidaysByCountry_def)
    then show ?thesis using True s place by (simp add: LegacyHolidayPlace_def LegacyHolidayRegion_def HolidayPlace_def)
  next
    case False
    then show ?thesis using s not_old by (auto simp: LegacyHolidayPlace_def LegacyHolidayRegion_def)
  qed
qed

theorem legacy_choice_roundtrip_witness:
  "LegacyHolidayPlace (LegacyHolidayRegion ''DE-BE'') = ''DE-BE''"
  using legacy_choice_roundtrip [of "''DE-BE''"]
  by (simp add: ValidHolidayChoice_def HolidayChoiceFaultOf_def ValidHolidayPlace_def SplitHolidayPlace_def
      holidaysByCountry_def holidaysDE_def)

text \<open>Belgium's stored choice, read back from such a client, becomes Berlin.\<close>

lemma belgium_becomes_berlin:
  "ValidHolidayChoice ''BE'' \<and> LegacyHolidayPlace (LegacyHolidayRegion ''BE'') = ''DE-BE''"
  by (simp add: ValidHolidayChoice_def HolidayChoiceFaultOf_def ValidHolidayPlace_def SplitHolidayPlace_def
      holidaysByCountry_def holidaysDE_def holidaysBE_def LegacyHolidayPlace_def LegacyHolidayRegion_def
      HolidayPlace_def)

end
