(* ===== verification/AppError.thy ===== *)
theory AppError
  imports Float64 GoString
begin

text \<open>
  The closed catalogue of refusals, \<^verbatim>\<open>support/apperror/apperror.go\<close>: an error carries a
  kind, the entity and identifier it is about or the fields that failed validation, and the code
  with the values its message interpolates.  The English sentence is left out: it is derived from
  code and values, nothing in the program reads it back, and the interface translates the code.
\<close>

datatype kind = KindInternal | KindNotFound | KindInvalid | KindConflict

datatype err_value = VString gostring | VUint uint | VInt int | VFloat float64 | VDay int

record app_error =
  err_kind :: kind
  err_entity :: gostring
  err_id :: gostring
  err_fields :: "gostring list"
  err_code :: gostring
  err_values :: "err_value list"

type_synonym 'a result = "app_error + 'a"

definition blank_error :: "kind \<Rightarrow> app_error" where
  "blank_error k = \<lparr>err_kind = k, err_entity = [], err_id = [], err_fields = [], err_code = [], err_values = []\<rparr>"

definition NotFound :: "gostring \<Rightarrow> gostring \<Rightarrow> app_error" where
  "NotFound entity ident = (blank_error KindNotFound)\<lparr>err_entity := entity, err_id := ident\<rparr>"

definition Invalidf :: app_error where
  "Invalidf = blank_error KindInvalid"

definition InvalidFields :: "gostring list \<Rightarrow> app_error" where
  "InvalidFields fs = (blank_error KindInvalid)\<lparr>err_fields := fs\<rparr>"

definition Conflictf :: app_error where
  "Conflictf = blank_error KindConflict"

definition Internal :: app_error where
  "Internal = blank_error KindInternal"

definition WithCode :: "app_error \<Rightarrow> gostring \<Rightarrow> err_value list \<Rightarrow> app_error" where
  "WithCode e code vs = e\<lparr>err_code := code, err_values := vs\<rparr>"

text \<open>The errors the model returns are all of this type, so the search through an error chain
  finds the error itself; \<open>None\<close> is Go's nil error, which has no kind of its own.\<close>

definition KindOf :: "app_error option \<Rightarrow> kind" where
  "KindOf e = (case e of None \<Rightarrow> KindInternal | Some x \<Rightarrow> err_kind x)"

text \<open>A list of invalid field names is refused unless it is empty: the shape every validation
  of a form ends in.\<close>

definition refuse_fields :: "gostring list \<Rightarrow> unit result" where
  "refuse_fields invalid = (if invalid = [] then Inr () else Inl (InvalidFields invalid))"

definition field_if :: "bool \<Rightarrow> gostring \<Rightarrow> gostring list" where
  "field_if bad name = (if bad then [name] else [])"

lemma err_kind_simps [simp]:
  "err_kind (NotFound en i) = KindNotFound"
  "err_kind Invalidf = KindInvalid"
  "err_kind (InvalidFields fs) = KindInvalid"
  "err_kind Conflictf = KindConflict"
  "err_kind Internal = KindInternal"
  "err_kind (WithCode e c vs) = err_kind e"
  by (simp_all add: NotFound_def Invalidf_def InvalidFields_def Conflictf_def Internal_def
      WithCode_def blank_error_def)

lemma err_code_WithCode [simp]: "err_code (WithCode e c vs) = c"
  by (simp add: WithCode_def)

lemma refuse_fields_Inr [simp]: "refuse_fields fs = Inr u \<longleftrightarrow> fs = []"
  by (simp add: refuse_fields_def)

lemma refuse_fields_Inl [simp]: "refuse_fields fs = Inl e \<longleftrightarrow> fs \<noteq> [] \<and> e = InvalidFields fs"
  by (auto simp: refuse_fields_def)

lemma field_if_Nil [simp]: "field_if bad name = [] \<longleftrightarrow> \<not> bad"
  by (simp add: field_if_def)

lemma field_if_simps [simp]: "field_if True n = [n]" "field_if False n = []"
  by (simp_all add: field_if_def)

end
