(* ===== verification/Operational.thy ===== *)
theory Operational
  imports AppError
begin

text \<open>
  \<^verbatim>\<open>domain/model/field_limit.go\<close> and \<^verbatim>\<open>operational_model.go\<close>: the lengths of the columns, the
  operational limits an administrator may override, how overrides are layered over the
  environment's values, and which values are refused.
\<close>

definition MaxNameLength :: nat where "MaxNameLength = 255"
definition MaxEmailLength :: nat where "MaxEmailLength = 255"
definition MaxRoleNameLength :: nat where "MaxRoleNameLength = 64"
definition MaxTokenLabelLength :: nat where "MaxTokenLabelLength = 120"
definition MaxDescriptionLength :: nat where "MaxDescriptionLength = 2000"

definition TooLong :: "gostring \<Rightarrow> nat \<Rightarrow> bool" where
  "TooLong value limit \<longleftrightarrow> length (runes (TrimSpace value)) > limit"

lemmas length_limits [guard_simps] =
  MaxNameLength_def MaxEmailLength_def MaxRoleNameLength_def MaxTokenLabelLength_def
  MaxDescriptionLength_def

section \<open>The operational limits\<close>

record operational =
  op_SessionLifetimeHours :: "float64 option"
  op_SessionIdleMinutes :: "float64 option"
  op_MaxDailyHours :: "float64 option"
  op_RateLimit :: "int option"
  op_RateLimitWindowSeconds :: "int option"
  op_LDAPSyncMaxDeleteRatio :: "float64 option"

record limits =
  SessionLifetimeHours :: float64
  SessionIdleMinutes :: float64
  MaxDailyHours :: float64
  RateLimit :: int
  RateLimitWindowSeconds :: int
  LDAPSyncMaxDeleteRatio :: float64

definition MinSessionLifetimeHours :: float64 where "MinSessionLifetimeHours = Fin (1 / 4)"
definition MaxSessionLifetimeHours :: float64 where "MaxSessionLifetimeHours = Fin 336"
definition MinSessionIdleMinutes :: float64 where "MinSessionIdleMinutes = Fin 5"
definition MaxSessionIdleMinutes :: float64 where "MaxSessionIdleMinutes = Fin 1440"
definition HoursPerDay :: float64 where "HoursPerDay = Fin 24"
definition MinBookableHours :: float64 where "MinBookableHours = fl (1 / 100)"
definition MinRateLimit :: int where "MinRateLimit = 5"
definition MaxRateWindowSeconds :: int where "MaxRateWindowSeconds = 3600"

lemmas limit_values =
  MinSessionLifetimeHours_def MaxSessionLifetimeHours_def MinSessionIdleMinutes_def
  MaxSessionIdleMinutes_def HoursPerDay_def MinRateLimit_def MaxRateWindowSeconds_def

definition override :: "'a option \<Rightarrow> 'a \<Rightarrow> 'a" where
  "override o' v = (case o' of None \<Rightarrow> v | Some w \<Rightarrow> w)"

definition Resolve :: "operational \<Rightarrow> limits \<Rightarrow> limits" where
  "Resolve o' fallback =
     \<lparr>SessionLifetimeHours = override (op_SessionLifetimeHours o') (SessionLifetimeHours fallback),
      SessionIdleMinutes = override (op_SessionIdleMinutes o') (SessionIdleMinutes fallback),
      MaxDailyHours = override (op_MaxDailyHours o') (MaxDailyHours fallback),
      RateLimit = override (op_RateLimit o') (RateLimit fallback),
      RateLimitWindowSeconds = override (op_RateLimitWindowSeconds o') (RateLimitWindowSeconds fallback),
      LDAPSyncMaxDeleteRatio = override (op_LDAPSyncMaxDeleteRatio o') (LDAPSyncMaxDeleteRatio fallback)\<rparr>"

definition set_and :: "('a \<Rightarrow> bool) \<Rightarrow> 'a option \<Rightarrow> bool" where
  "set_and bad v = (case v of None \<Rightarrow> False | Some x \<Rightarrow> bad x)"

definition InvalidOperationalFields :: "operational \<Rightarrow> gostring list" where
  "InvalidOperationalFields o' =
     field_if (set_and (\<lambda>h. fless h MinSessionLifetimeHours \<or> fless MaxSessionLifetimeHours h)
       (op_SessionLifetimeHours o')) ''sessionLifetimeHours''
     @ field_if (set_and (\<lambda>m. \<not> feq m (Fin 0) \<and>
           (fless m MinSessionIdleMinutes \<or> fless MaxSessionIdleMinutes m))
         (op_SessionIdleMinutes o')) ''sessionIdleMinutes''
     @ field_if (set_and (\<lambda>h. fle h (Fin 0) \<or> fless HoursPerDay h) (op_MaxDailyHours o')) ''maxDailyHours''
     @ field_if (set_and (\<lambda>n. n < MinRateLimit) (op_RateLimit o')) ''rateLimit''
     @ field_if (set_and (\<lambda>n. n < 1 \<or> MaxRateWindowSeconds < n) (op_RateLimitWindowSeconds o'))
         ''rateLimitWindowSeconds''
     @ field_if (set_and (\<lambda>r. fless r (Fin 0) \<or> fless (Fin 1) r) (op_LDAPSyncMaxDeleteRatio o'))
         ''ldapSyncMaxDeleteRatio''"

lemma override_simps [simp]: "override None v = v" "override (Some w) v = w"
  by (simp_all add: override_def)

lemma set_and_simps [simp]: "\<not> set_and bad None" "set_and bad (Some x) = bad x"
  by (simp_all add: set_and_def)

text \<open>Where an installation stands whose every limit is usable: no refusal by the form.\<close>

definition usable :: "limits \<Rightarrow> bool" where
  "usable l \<longleftrightarrow> (\<exists>s i d r. SessionLifetimeHours l = Fin s \<and> 1 / 4 \<le> s \<and> s \<le> 336
     \<and> SessionIdleMinutes l = Fin i \<and> (i = 0 \<or> 5 \<le> i \<and> i \<le> 1440)
     \<and> MaxDailyHours l = Fin d \<and> 0 < d \<and> d \<le> 24
     \<and> 5 \<le> RateLimit l \<and> 1 \<le> RateLimitWindowSeconds l \<and> RateLimitWindowSeconds l \<le> 3600
     \<and> LDAPSyncMaxDeleteRatio l = Fin r \<and> 0 \<le> r \<and> r \<le> 1)"

definition numbers :: "operational \<Rightarrow> bool" where
  "numbers o' \<longleftrightarrow> op_SessionLifetimeHours o' \<noteq> Some NaN \<and> op_SessionIdleMinutes o' \<noteq> Some NaN
     \<and> op_MaxDailyHours o' \<noteq> Some NaN \<and> op_LDAPSyncMaxDeleteRatio o' \<noteq> Some NaN"

lemma in_range:
  assumes "\<not> set_and (\<lambda>h. fless h (Fin a) \<or> fless (Fin b) h) v" "v \<noteq> Some NaN" "w = override v d"
    "\<exists>x. d = Fin x \<and> a \<le> x \<and> x \<le> b"
  shows "\<exists>x. w = Fin x \<and> a \<le> x \<and> x \<le> b"
proof (cases v)
  case (Some h)
  then show ?thesis using assms(1-3) by (cases h) auto
qed (use assms in auto)

text \<open>Overrides the settings form lets through keep the installation usable: whatever an
  administrator changes from a usable state leaves every limit inside its bounds, so that nobody
  is locked out of the screen that could correct it.  No override is a NaN, which no request can
  carry.\<close>

lemma Resolve_usable:
  assumes "InvalidOperationalFields o' = []" "numbers o'" "usable fallback"
  shows "usable (Resolve o' fallback)"
proof -
  note ok = assms(1)[unfolded InvalidOperationalFields_def append_is_Nil_conv field_if_Nil limit_values]
  note n = assms(2)[unfolded numbers_def]
  obtain i where i: "SessionIdleMinutes fallback = Fin i" "i = 0 \<or> 5 \<le> i \<and> i \<le> 1440"
    using assms(3) by (auto simp: usable_def)
  have 1: "\<exists>s. override (op_SessionLifetimeHours o') (SessionLifetimeHours fallback) = Fin s \<and> 1 / 4 \<le> s \<and> s \<le> 336"
    by (rule in_range [OF _ _ refl]) (use ok n assms(3) in \<open>auto simp: usable_def\<close>)
  have 2: "\<exists>r. override (op_LDAPSyncMaxDeleteRatio o') (LDAPSyncMaxDeleteRatio fallback) = Fin r \<and> 0 \<le> r \<and> r \<le> 1"
    by (rule in_range [OF _ _ refl]) (use ok n assms(3) in \<open>auto simp: usable_def\<close>)
  have 3: "\<exists>j. override (op_SessionIdleMinutes o') (SessionIdleMinutes fallback) = Fin j \<and> (j = 0 \<or> 5 \<le> j \<and> j \<le> 1440)"
  proof (cases "op_SessionIdleMinutes o'")
    case (Some m)
    then show ?thesis using ok n by (cases m) auto
  qed (use i in auto)
  have 4: "\<exists>d. override (op_MaxDailyHours o') (MaxDailyHours fallback) = Fin d \<and> 0 < d \<and> d \<le> 24"
  proof (cases "op_MaxDailyHours o'")
    case (Some m)
    then show ?thesis using ok n by (cases m) auto
  qed (use assms(3) in \<open>auto simp: usable_def\<close>)
  have 5: "5 \<le> override (op_RateLimit o') (RateLimit fallback)"
    using ok assms(3) by (cases "op_RateLimit o'") (auto simp: usable_def)
  have 6: "1 \<le> override (op_RateLimitWindowSeconds o') (RateLimitWindowSeconds fallback)
      \<and> override (op_RateLimitWindowSeconds o') (RateLimitWindowSeconds fallback) \<le> 3600"
    using ok assms(3) by (cases "op_RateLimitWindowSeconds o'") (auto simp: usable_def)
  show ?thesis using 1 2 3 4 5 6 by (auto simp: usable_def Resolve_def)
qed

theorem Resolve_usable_witness:
  "usable (Resolve
     \<lparr>op_SessionLifetimeHours = None, op_SessionIdleMinutes = Some (Fin 0), op_MaxDailyHours = Some (Fin 10),
      op_RateLimit = None, op_RateLimitWindowSeconds = None, op_LDAPSyncMaxDeleteRatio = None\<rparr>
     \<lparr>SessionLifetimeHours = Fin 12, SessionIdleMinutes = Fin 30, MaxDailyHours = Fin 24,
      RateLimit = 20, RateLimitWindowSeconds = 60, LDAPSyncMaxDeleteRatio = Fin 1\<rparr>)"
  by (rule Resolve_usable)
    (simp_all add: InvalidOperationalFields_def numbers_def usable_def limit_values)

end
