(* ===== verification/WorkWeek.thy ===== *)
theory WorkWeek
  imports Operational GoTime
begin

text \<open>
  What a day asks of somebody: the planned week and the schedules in force
  (\<^verbatim>\<open>domain/model/workweek_model.go\<close>), the kinds of absence and what they take off a day
  (\<^verbatim>\<open>absence_model.go\<close>) and the days of leave a year gives (\<^verbatim>\<open>vacation_model.go\<close>).
\<close>

section \<open>The planned week\<close>

text \<open>\<^verbatim>\<open>type WeekHours [7]float64\<close>, Monday first.\<close>

type_synonym week_hours = "float64 list"

definition On :: "week_hours \<Rightarrow> day \<Rightarrow> float64" where
  "On w d = w ! nat ((weekday d + 6) mod 7)"

definition Valid :: "week_hours \<Rightarrow> bool" where
  "Valid w \<longleftrightarrow> list_all (\<lambda>hours. fle (Fin 0) hours \<and> fle hours HoursPerDay) w"

definition DefaultWeek :: "float64 \<Rightarrow> week_hours" where
  "DefaultWeek target = [target, target, target, target, target, Fin 0, Fin 0]"

record work_schedule =
  ws_user :: uint
  ws_from :: day
  ws_hours :: week_hours

text \<open>The loop stops at the first schedule that is not in force yet.\<close>

fun week_on :: "day \<Rightarrow> work_schedule list \<Rightarrow> week_hours \<Rightarrow> week_hours" where
  "week_on d [] week = week"
| "week_on d (s # rest) week = (if ws_from s > d then week else week_on d rest (ws_hours s))"

definition TargetOn :: "day \<Rightarrow> work_schedule list \<Rightarrow> week_hours \<Rightarrow> float64" where
  "TargetOn d schedules before = On (week_on d schedules before) d"

lemma week_on_latest:
  assumes "sorted (map ws_from schedules)"
  shows "week_on d schedules before =
    (case rev (filter (\<lambda>s. ws_from s \<le> d) schedules) of [] \<Rightarrow> before | s # _ \<Rightarrow> ws_hours s)"
  using assms
proof (induction schedules arbitrary: before)
  case (Cons s rest)
  show ?case
  proof (cases "ws_from s > d")
    case True
    then have "filter (\<lambda>s. ws_from s \<le> d) rest = []" using Cons.prems by (auto simp: filter_empty_conv)
    then show ?thesis using True by simp
  next
    case False
    then show ?thesis using Cons by (auto split: list.splits)
  qed
qed simp

text \<open>A day asks what the latest schedule in force on it plans, or what was asked before any
  schedule; in particular a schedule that starts later changes nothing about the day.\<close>

lemma TargetOn_latest:
  assumes "sorted (map ws_from schedules)"
  shows "TargetOn d schedules before =
      On (case rev (filter (\<lambda>s. ws_from s \<le> d) schedules) of [] \<Rightarrow> before | s # _ \<Rightarrow> ws_hours s) d
    \<and> TargetOn d (filter (\<lambda>s. ws_from s \<le> d) schedules) before = TargetOn d schedules before"
proof -
  have "sorted (map ws_from (filter (\<lambda>s. ws_from s \<le> d) schedules))"
    using assms by (rule sorted_filter)
  then show ?thesis using assms by (simp add: TargetOn_def week_on_latest)
qed

theorem TargetOn_latest_witness:
  "TargetOn 5 [\<lparr>ws_user = 1, ws_from = 3, ws_hours = DefaultWeek (Fin 6)\<rparr>,
               \<lparr>ws_user = 1, ws_from = 9, ws_hours = DefaultWeek (Fin 4)\<rparr>] (DefaultWeek (Fin 8)) = Fin 6"
  using TargetOn_latest [of "[\<lparr>ws_user = 1, ws_from = 3, ws_hours = DefaultWeek (Fin 6)\<rparr>,
               \<lparr>ws_user = 1, ws_from = 9, ws_hours = DefaultWeek (Fin 4)\<rparr>]" 5 "DefaultWeek (Fin 8)"]
  by (simp add: On_def weekday_def DefaultWeek_def)

lemma weekday_index: "0 \<le> (weekday d + 6) mod 7" "(weekday d + 6) mod 7 < 7"
  by simp_all

lemma Valid_On: "Valid w \<Longrightarrow> length w = 7 \<Longrightarrow> \<exists>h. On w d = Fin h \<and> 0 \<le> h \<and> h \<le> 24"
proof -
  assume "Valid w" "length w = 7"
  then have "fle (Fin 0) (On w d)" "fle (On w d) HoursPerDay"
    using weekday_index [of d] by (auto simp: Valid_def On_def list_all_length nat_less_iff)
  then show ?thesis unfolding HoursPerDay_def by (elim between_finite) auto
qed

lemma DefaultWeek_weekend:
  "weekday d = 0 \<or> weekday d = 6 \<Longrightarrow> On (DefaultWeek t) d = Fin 0"
  by (auto simp: On_def DefaultWeek_def)

section \<open>Absences\<close>

record absence =
  ab_user :: uint
  ab_day :: day
  ab_kind :: gostring

definition AbsenceVacation :: gostring where "AbsenceVacation = ''vacation''"
definition AbsenceHalfVacation :: gostring where "AbsenceHalfVacation = ''halfVacation''"
definition AbsenceSick :: gostring where "AbsenceSick = ''sick''"
definition AbsenceFlexDay :: gostring where "AbsenceFlexDay = ''flexDay''"
definition AbsenceLocalHoliday :: gostring where "AbsenceLocalHoliday = ''localHoliday''"
definition AbsenceUndisclosed :: gostring where "AbsenceUndisclosed = ''away''"

lemmas absence_names = AbsenceVacation_def AbsenceHalfVacation_def AbsenceSick_def AbsenceFlexDay_def
  AbsenceLocalHoliday_def AbsenceUndisclosed_def

definition absenceKinds :: "gostring list" where
  "absenceKinds = [AbsenceVacation, AbsenceHalfVacation, AbsenceSick, AbsenceFlexDay, AbsenceLocalHoliday]"

definition ValidAbsenceKind :: "gostring \<Rightarrow> bool" where
  "ValidAbsenceKind kind \<longleftrightarrow> kind \<in> set absenceKinds"

definition Absence_Target :: "absence \<Rightarrow> float64 \<Rightarrow> float64" where
  "Absence_Target a planned =
     (if ab_kind a = AbsenceHalfVacation then fdiv planned (Fin 2)
      else if ab_kind a = AbsenceFlexDay then planned
      else Fin 0)"

section \<open>Leave\<close>

record vacation_entitlement =
  ve_user :: uint
  ve_from_year :: int
  ve_days :: float64

definition MaxEntitlementDays :: int where "MaxEntitlementDays = 366"

definition VacationDays :: "absence \<Rightarrow> float64" where
  "VacationDays a =
     (if ab_kind a = AbsenceVacation then Fin 1
      else if ab_kind a = AbsenceHalfVacation then Fin (1 / 2)
      else Fin 0)"

fun entitlement_scan ::
  "int \<Rightarrow> vacation_entitlement list \<Rightarrow> float64 \<times> bool \<times> int \<Rightarrow> float64 \<times> bool \<times> int" where
  "entitlement_scan year [] acc = acc"
| "entitlement_scan year (e # es) (days, found, from) =
     (if ve_from_year e \<le> year \<and> (\<not> found \<or> ve_from_year e > from)
      then entitlement_scan year es (ve_days e, True, ve_from_year e)
      else entitlement_scan year es (days, found, from))"

definition EntitlementIn :: "int \<Rightarrow> vacation_entitlement list \<Rightarrow> float64 \<times> bool" where
  "EntitlementIn year es = (let (days, found, _) = entitlement_scan year es (Fin 0, False, 0) in (days, found))"

record vacation_year =
  vy_Year :: int
  vy_Entitlement :: float64
  vy_CarriedOver :: float64
  vy_Taken :: float64
  vy_Planned :: float64

definition Remaining :: "vacation_year \<Rightarrow> float64" where
  "Remaining y = fsub (fsub (fadd (vy_Entitlement y) (vy_CarriedOver y)) (vy_Taken y)) (vy_Planned y)"

lemma entitlement_scan_spec:
  "entitlement_scan year es (days, found, from) = (days', found', from') \<Longrightarrow>
     (found' \<longleftrightarrow> found \<or> (\<exists>e \<in> set es. ve_from_year e \<le> year))
   \<and> (found' \<longrightarrow> (found \<and> days' = days \<and> from' = from
          \<or> (\<exists>e \<in> set es. ve_from_year e \<le> year \<and> ve_days e = days' \<and> ve_from_year e = from'))
        \<and> (found \<longrightarrow> from \<le> from') \<and> (\<forall>e \<in> set es. ve_from_year e \<le> year \<longrightarrow> ve_from_year e \<le> from'))
   \<and> (\<not> found' \<longrightarrow> days' = days)"
proof (induction es arbitrary: days found "from")
  case (Cons e es)
  show ?case
  proof (cases "ve_from_year e \<le> year \<and> (\<not> found \<or> ve_from_year e > from)")
    case True
    then have "entitlement_scan year es (ve_days e, True, ve_from_year e) = (days', found', from')"
      using Cons.prems by simp
    from Cons.IH [OF this] show ?thesis using True by auto
  next
    case False
    then have "entitlement_scan year es (days, found, from) = (days', found', from')"
      using Cons.prems by auto
    from Cons.IH [OF this] show ?thesis using False by auto
  qed
qed auto

text \<open>A year gives the leave of the latest entitlement from that year or before; before the
  first one there is none and the answer says so.\<close>

lemma EntitlementIn_latest:
  "EntitlementIn year es = (days, found) \<longleftrightarrow>
     (if \<exists>e \<in> set es. ve_from_year e \<le> year
      then found \<and> days = ve_days (hd (filter (\<lambda>e. ve_from_year e \<le> year
              \<and> (\<forall>e' \<in> set es. ve_from_year e' \<le> year \<longrightarrow> ve_from_year e' \<le> ve_from_year e)) es))
      else \<not> found \<and> days = Fin 0)" if "distinct (map ve_from_year es)"
proof -
  let ?best = "\<lambda>e. ve_from_year e \<le> year
              \<and> (\<forall>e' \<in> set es. ve_from_year e' \<le> year \<longrightarrow> ve_from_year e' \<le> ve_from_year e)"
  obtain d f y where s: "entitlement_scan year es (Fin 0, False, 0) = (d, f, y)"
    by (cases "entitlement_scan year es (Fin 0, False, 0)") auto
  note spec = entitlement_scan_spec [OF s]
  have "d = ve_days (hd (filter ?best es))" if found_one: f
  proof -
    obtain e where e: "e \<in> set es" "?best e" "ve_days e = d" using spec found_one by auto
    have "filter ?best es \<noteq> []" using e by (auto simp: filter_empty_conv)
    then have "hd (filter ?best es) \<in> set (filter ?best es)" by (rule hd_in_set)
    then have "hd (filter ?best es) \<in> set es" "ve_from_year (hd (filter ?best es)) = ve_from_year e"
      using e by (auto intro: order_antisym)
    then have "hd (filter ?best es) = e"
      using \<open>distinct (map ve_from_year es)\<close> e(1) by (meson distinct_map inj_onD)
    then show ?thesis using e(3) by simp
  qed
  then show ?thesis using spec by (auto simp: EntitlementIn_def s)
qed

theorem EntitlementIn_latest_witness:
  "EntitlementIn 2024 [\<lparr>ve_user = 1, ve_from_year = 2025, ve_days = Fin 28\<rparr>,
     \<lparr>ve_user = 1, ve_from_year = 2020, ve_days = Fin 25\<rparr>] = (Fin 25, True)"
  by (subst EntitlementIn_latest) simp_all

end
