(* ===== verification/WorkDay.thy ===== *)
theory WorkDay
  imports GoTime
begin

text \<open>
  \<^verbatim>\<open>domain/model/workday_model.go\<close>: recorded working days, how they join into shifts at
  midnight, and what the Working Hours Act says about each shift.

  The lemmas show that joining loses no minute, that no two neighbouring shifts could still be
  joined, and when each notice is given.
\<close>

definition MinutesPerDay :: int where "MinutesPerDay = 1440"

record work_day =
  wd_user :: uint
  wd_day :: day
  wd_start :: int
  wd_end :: int
  wd_break :: int

definition WorkedMinutes :: "work_day \<Rightarrow> int" where
  "WorkedMinutes w = wd_end w - wd_start w - wd_break w"

definition NoticeLongDay :: gostring where "NoticeLongDay = ''longDay''"
definition NoticeShortBreak :: gostring where "NoticeShortBreak = ''shortBreak''"
definition NoticeShortRest :: gostring where "NoticeShortRest = ''shortRest''"
definition longestShiftMinutes :: int where "longestShiftMinutes = 600"
definition shortestRestMinutes :: int where "shortestRestMinutes = 660"

lemmas notice_names = NoticeLongDay_def NoticeShortBreak_def NoticeShortRest_def

record notice =
  no_rule :: gostring
  no_minutes :: int

record shift =
  sh_start_day :: day
  sh_end_day :: day
  sh_start :: int
  sh_end :: int
  sh_worked :: int
  sh_breaks :: int

definition breakNeeded :: "int \<Rightarrow> int" where
  "breakNeeded worked = (if worked > 9 * 60 then 45 else if worked > 6 * 60 then 30 else 0)"

section \<open>Shifts\<close>

definition joins :: "shift \<Rightarrow> work_day \<Rightarrow> bool" where
  "joins s d \<longleftrightarrow> sh_end s = MinutesPerDay \<and> wd_start d = 0 \<and> wd_day d = sh_end_day s + 1"

definition extend :: "shift \<Rightarrow> work_day \<Rightarrow> shift" where
  "extend s d = s\<lparr>sh_end_day := wd_day d, sh_end := wd_end d,
     sh_worked := sh_worked s + WorkedMinutes d, sh_breaks := sh_breaks s + wd_break d\<rparr>"

definition shift_of :: "work_day \<Rightarrow> shift" where
  "shift_of d = \<lparr>sh_start_day = wd_day d, sh_end_day = wd_day d, sh_start = wd_start d, sh_end = wd_end d,
     sh_worked = WorkedMinutes d, sh_breaks = wd_break d\<rparr>"

fun join_days :: "shift list \<Rightarrow> work_day list \<Rightarrow> shift list" where
  "join_days shifts [] = shifts"
| "join_days shifts (d # ds) =
     (if shifts \<noteq> [] \<and> joins (last shifts) d
      then join_days (butlast shifts @ [extend (last shifts) d]) ds
      else join_days (shifts @ [shift_of d]) ds)"

definition shiftsOf :: "work_day list \<Rightarrow> shift list" where
  "shiftsOf days = join_days [] (sort_by (by_key wd_day) days)"

section \<open>Notices\<close>

text \<open>\<^verbatim>\<open>int(d.Hours())\<close> of the distance of two midnights, whose fraction is zero (or, where
  \<^verbatim>\<open>Sub\<close> saturates, far from the next hour).\<close>

definition whole_hours :: "day \<Rightarrow> day \<Rightarrow> int" where
  "whole_hours to from = tdiv (time_sub (midnight to) (midnight from)) hour_ns"

definition rest_before :: "shift \<Rightarrow> shift \<Rightarrow> int" where
  "rest_before before current =
     tdiv (whole_hours (sh_start_day current) (sh_end_day before)) 24 * MinutesPerDay
     + sh_start current - sh_end before"

definition notices_of :: "shift option \<Rightarrow> shift \<Rightarrow> notice list" where
  "notices_of before current =
     (if sh_worked current > longestShiftMinutes
      then [\<lparr>no_rule = NoticeLongDay, no_minutes = sh_worked current\<rparr>] else [])
     @ (let needed = breakNeeded (sh_worked current)
        in if sh_breaks current < needed then [\<lparr>no_rule = NoticeShortBreak, no_minutes = needed\<rparr>] else [])
     @ (case before of
          None \<Rightarrow> []
        | Some b \<Rightarrow>
            (let rest = rest_before b current
             in if rest < shortestRestMinutes
                then [\<lparr>no_rule = NoticeShortRest, no_minutes = rest\<rparr>] else []))"

fun read_shifts ::
  "shift option \<Rightarrow> shift list \<Rightarrow> (day \<times> notice list) list \<Rightarrow> (day \<times> notice list) list" where
  "read_shifts before [] notices = notices"
| "read_shifts before (s # rest) notices =
     (let said = notices_of before s
      in read_shifts (Some s) rest
           (if said \<noteq> [] then AList.update (sh_start_day s) said notices else notices))"

definition WorkingTimeNotices :: "work_day list \<Rightarrow> (day \<times> notice list) list" where
  "WorkingTimeNotices days = read_shifts None (shiftsOf days) []"

section \<open>Joining loses nothing and joins everything it can\<close>

lemma sum_butlast_last:
  "xs \<noteq> [] \<Longrightarrow> sum_list (map f (butlast xs)) + f (last xs) = (sum_list (map f xs) :: int)"
  by (cases xs rule: rev_cases) auto

lemma join_days_sum:
  assumes "\<And>s d. g (extend s d) = g s + f d" "\<And>d. g (shift_of d) = f d"
  shows "sum_list (map g (join_days shifts ds)) = sum_list (map g shifts) + (sum_list (map f ds) :: int)"
proof (induction ds arbitrary: shifts)
  case (Cons d ds)
  show ?case
  proof (cases "shifts \<noteq> [] \<and> joins (last shifts) d")
    case True
    then have "sum_list (map g (butlast shifts)) + g (last shifts) = sum_list (map g shifts)"
      by (intro sum_butlast_last) simp
    then show ?thesis using True by (simp add: Cons assms)
  next
    case False
    then have "join_days shifts (d # ds) = join_days (shifts @ [shift_of d]) ds" by auto
    then show ?thesis by (simp add: Cons assms)
  qed
qed simp

lemma sum_insert_by: "sum_list (map f (insert_by le x xs)) = f x + (sum_list (map f xs) :: int)"
  by (induction xs) auto

lemma sum_sort_by: "sum_list (map f (sort_by le xs)) = (sum_list (map f xs) :: int)"
  by (induction xs) (auto simp: sum_insert_by)

definition apart :: "shift \<Rightarrow> shift \<Rightarrow> bool" where
  "apart s t \<longleftrightarrow> sh_end_day s < sh_start_day t
     \<and> \<not> (sh_end s = MinutesPerDay \<and> sh_start t = 0 \<and> sh_start_day t = sh_end_day s + 1)"

definition joined :: "shift list \<Rightarrow> day \<Rightarrow> bool" where
  "joined shifts d \<longleftrightarrow> successively apart shifts \<and> (\<forall>s \<in> set shifts. sh_start_day s \<le> sh_end_day s)
     \<and> (shifts \<noteq> [] \<longrightarrow> sh_end_day (last shifts) < d)"

lemma extend_simps [simp]:
  "sh_start_day (extend s d) = sh_start_day s" "sh_start (extend s d) = sh_start s"
  "sh_end_day (extend s d) = wd_day d" "sh_end (extend s d) = wd_end d"
  "sh_worked (extend s d) = sh_worked s + WorkedMinutes d" "sh_breaks (extend s d) = sh_breaks s + wd_break d"
  by (simp_all add: extend_def)

lemma shift_of_simps [simp]:
  "sh_start_day (shift_of d) = wd_day d" "sh_start (shift_of d) = wd_start d"
  "sh_end_day (shift_of d) = wd_day d" "sh_end (shift_of d) = wd_end d"
  "sh_worked (shift_of d) = WorkedMinutes d" "sh_breaks (shift_of d) = wd_break d"
  by (simp_all add: shift_of_def)

lemma joined_extend:
  assumes "joined shifts (wd_day d)" "shifts \<noteq> []" "joins (last shifts) d"
  shows "joined (butlast shifts @ [extend (last shifts) d]) (wd_day d + 1)"
proof -
  obtain ys s where s: "shifts = ys @ [s]" using assms(2) by (cases shifts rule: rev_cases) auto
  show ?thesis using assms
    by (auto simp: s joined_def successively_append_iff apart_def joins_def)
qed

lemma joined_append:
  assumes "joined shifts (wd_day d)" "\<not> (shifts \<noteq> [] \<and> joins (last shifts) d)"
  shows "joined (shifts @ [shift_of d]) (wd_day d + 1)"
  using assms by (auto simp: joined_def successively_append_iff apart_def joins_def)

lemma joined_join_days:
  assumes "joined shifts d0" "sorted_wrt (<) (map wd_day ds)" "\<forall>d \<in> set ds. d0 \<le> wd_day d"
  shows "\<exists>d1. joined (join_days shifts ds) d1"
  using assms
proof (induction ds arbitrary: shifts d0)
  case (Cons d ds)
  have now: "joined shifts (wd_day d)" using Cons.prems by (auto simp: joined_def)
  have later: "\<forall>e \<in> set ds. wd_day d + 1 \<le> wd_day e" "sorted_wrt (<) (map wd_day ds)"
    using Cons.prems(2) by auto
  show ?case
  proof (cases "shifts \<noteq> [] \<and> joins (last shifts) d")
    case True
    then show ?thesis using Cons.IH [OF joined_extend later(2,1)] now by simp
  next
    case False
    then have "join_days shifts (d # ds) = join_days (shifts @ [shift_of d]) ds" by auto
    then show ?thesis using Cons.IH [OF joined_append later(2,1)] now False by (simp only: not_False_eq_True)
  qed
qed auto

lemma shiftsOf_joined:
  assumes "distinct (map wd_day days)"
  shows "\<exists>d. joined (shiftsOf days) d"
proof -
  have "sorted_wrt (<) (map wd_day (sort_by (by_key wd_day) days))"
    using sort_by_key_sorted [of wd_day days] assms
    by (simp add: strict_sorted_iff distinct_map) 
  then show ?thesis
    unfolding shiftsOf_def
    by (rule joined_join_days [of _ "Min (insert 0 (wd_day ` set days))", rotated])
      (auto simp: joined_def)
qed

text \<open>Joining recorded days into shifts keeps every minute worked and every minute of break,
  puts the shifts in the order of the calendar with no two on one day, and leaves no two
  neighbouring shifts that meet at a midnight.\<close>

lemma shiftsOf_joins:
  assumes "distinct (map wd_day days)"
  shows "sum_list (map sh_worked (shiftsOf days)) = sum_list (map WorkedMinutes days)
    \<and> sum_list (map sh_breaks (shiftsOf days)) = sum_list (map wd_break days)
    \<and> successively apart (shiftsOf days)"
proof -
  have "sum_list (map sh_worked (shiftsOf days)) = sum_list (map WorkedMinutes days)"
    by (simp add: shiftsOf_def join_days_sum [of sh_worked WorkedMinutes] sum_sort_by)
  moreover have "sum_list (map sh_breaks (shiftsOf days)) = sum_list (map wd_break days)"
    by (simp add: shiftsOf_def join_days_sum [of sh_breaks wd_break] sum_sort_by)
  ultimately show ?thesis using shiftsOf_joined [OF assms] by (auto simp: joined_def)
qed

theorem shiftsOf_joins_witness:
  "successively apart (shiftsOf
     [\<lparr>wd_user = 1, wd_day = 11, wd_start = 0, wd_end = 360, wd_break = 0\<rparr>,
      \<lparr>wd_user = 1, wd_day = 10, wd_start = 1320, wd_end = 1440, wd_break = 0\<rparr>])"
  using shiftsOf_joins [of "[\<lparr>wd_user = 1, wd_day = 11, wd_start = 0, wd_end = 360, wd_break = 0\<rparr>,
      \<lparr>wd_user = 1, wd_day = 10, wd_start = 1320, wd_end = 1440, wd_break = 0\<rparr>]"] by simp

section \<open>When a notice is given\<close>

lemma apart_starts:
  assumes "joined shifts d"
  shows "distinct (map sh_start_day shifts)"
proof -
  have "successively (\<lambda>s t. sh_start_day s < sh_start_day t) shifts"
    using assms unfolding joined_def
    by (auto simp: apart_def intro: successively_mono [of apart])
       (metis (no_types, lifting) apart_def order_le_less_trans successively_mono)
  then have "sorted_wrt (\<lambda>s t. sh_start_day s < sh_start_day t) shifts"
    by (simp add: successively_conv_sorted_wrt transp_def)
  then have "sorted_wrt (<) (map sh_start_day shifts)" by (simp add: sorted_wrt_map)
  then show ?thesis by (simp add: strict_sorted_iff)
qed

text \<open>The shift before each one.\<close>

fun with_before :: "shift option \<Rightarrow> shift list \<Rightarrow> (shift option \<times> shift) list" where
  "with_before b [] = []"
| "with_before b (s # rest) = (b, s) # with_before (Some s) rest"

lemma map_snd_with_before [simp]: "map snd (with_before b shifts) = shifts"
  by (induction shifts arbitrary: b) auto

lemma read_shifts_other: "d \<notin> sh_start_day ` set shifts \<Longrightarrow> map_of (read_shifts b shifts m) d = map_of m d"
  by (induction shifts arbitrary: b m) (auto simp: Let_def map_of_update)

lemma read_shifts_at:
  assumes "distinct (map sh_start_day shifts)" "map_of m (sh_start_day s) = None" "(b', s) \<in> set (with_before b shifts)"
  shows "map_of (read_shifts b shifts m) (sh_start_day s) = (if notices_of b' s = [] then None else Some (notices_of b' s))"
  using assms
proof (induction shifts arbitrary: b m)
  case (Cons t rest)
  show ?case
  proof (cases "s = t \<and> b' = b")
    case True
    then show ?thesis using Cons.prems by (simp add: Let_def read_shifts_other map_of_update)
  next
    case False
    then have in_rest: "(b', s) \<in> set (with_before (Some t) rest)" using Cons.prems by auto
    then have "s \<in> set rest"
      by (metis map_snd_with_before image_eqI list.set_map snd_conv)
    then have "sh_start_day s \<noteq> sh_start_day t" using Cons.prems(1)
      by (metis distinct.simps(2) image_eqI list.set_map list.simps(9))
    then have "map_of (if notices_of b t \<noteq> [] then AList.update (sh_start_day t) (notices_of b t) m else m)
        (sh_start_day s) = None"
      using Cons.prems(2) by (simp add: map_of_update)
    from Cons.IH [OF _ this in_rest] show ?thesis using Cons.prems(1) by (simp add: Let_def)
  qed
qed simp

lemma with_before_exists: "s \<in> set shifts \<Longrightarrow> \<exists>b'. (b', s) \<in> set (with_before b shifts)"
  by (induction shifts arbitrary: b) auto

lemma WorkingTimeNotices_at:
  assumes "distinct (map wd_day days)" "s \<in> set (shiftsOf days)"
  obtains b where "map_of (WorkingTimeNotices days) (sh_start_day s)
      = (if notices_of b s = [] then None else Some (notices_of b s))"
proof -
  obtain b where b: "(b, s) \<in> set (with_before None (shiftsOf days))"
    using with_before_exists [OF assms(2)] by blast
  obtain d where "joined (shiftsOf days) d" using shiftsOf_joined [OF assms(1)] by blast
  from read_shifts_at [OF apart_starts [OF this] _ b, of "[]"] that show ?thesis
    by (simp add: WorkingTimeNotices_def)
qed

definition noticed :: "work_day list \<Rightarrow> day \<Rightarrow> gostring \<Rightarrow> int \<Rightarrow> bool" where
  "noticed days d r m \<longleftrightarrow>
     (case map_of (WorkingTimeNotices days) d of
        None \<Rightarrow> False | Some said \<Rightarrow> \<lparr>no_rule = r, no_minutes = m\<rparr> \<in> set said)"



end
