(* ===== verification/CronSchedule.thy ===== *)
theory CronSchedule
  imports GoString
begin

text \<open>
  \<^verbatim>\<open>domain/model/schedule_model.go\<close>: which cron expressions may be stored for the directory
  synchronisation.  The lemmas give the exact set of items a field accepts and show that an
  accepted expression is five non-empty fields whose every item describes at least one moment
  inside the field's bounds.
\<close>

definition ScheduleFields :: nat where "ScheduleFields = 5"

definition scheduleBounds :: "(int \<times> int) list" where
  "scheduleBounds = [(0, 59), (0, 23), (1, 31), (1, 12), (0, 6)]"

definition validScheduleNumber :: "gostring \<Rightarrow> int \<Rightarrow> int \<Rightarrow> bool" where
  "validScheduleNumber item minimum maximum =
     (case Atoi item of None \<Rightarrow> False | Some v \<Rightarrow> minimum \<le> v \<and> v \<le> maximum)"

definition validScheduleRange :: "gostring \<Rightarrow> int \<Rightarrow> int \<Rightarrow> bool" where
  "validScheduleRange item minimum maximum =
     (let (from, to, found) = cut_at (CHR ''-'') item
      in if \<not> found then validScheduleNumber item minimum maximum
         else case Atoi from of
                None \<Rightarrow> False
              | Some low \<Rightarrow>
                  (case Atoi to of
                     None \<Rightarrow> False
                   | Some high \<Rightarrow> low \<ge> minimum \<and> high \<le> maximum \<and> low \<le> high))"

definition validScheduleItem :: "gostring \<Rightarrow> int \<Rightarrow> int \<Rightarrow> bool" where
  "validScheduleItem item minimum maximum =
     (let (base, step, found) = cut_at (CHR ''/'') item
      in if found then
           (case Atoi step of
              None \<Rightarrow> False
            | Some count \<Rightarrow>
                if count < 1 \<or> count > maximum then False
                else base = ''*'' \<or> validScheduleRange base minimum maximum)
         else if item = ''*'' then True
         else if CHR ''-'' \<in> set item then validScheduleRange item minimum maximum
         else validScheduleNumber item minimum maximum)"

definition validScheduleField :: "gostring \<Rightarrow> int \<Rightarrow> int \<Rightarrow> bool" where
  "validScheduleField field minimum maximum =
     (field \<noteq> [] \<and> list_all (\<lambda>item. validScheduleItem item minimum maximum) (split_at (CHR '','') field))"

definition ValidSchedule :: "gostring \<Rightarrow> bool" where
  "ValidSchedule expression =
     (let e = TrimSpace expression
      in if e = [] then True
         else let fields = Fields e
              in if length fields \<noteq> ScheduleFields then False
                 else list_all (\<lambda>(field, minimum, maximum). validScheduleField field minimum maximum)
                        (zip fields scheduleBounds))"

section \<open>Which items are accepted\<close>

text \<open>An item as it is written: a star, a number or a stretch, each with a step where there is one.\<close>

datatype cron_base = Every | At nat | Stretch nat nat

datatype cron_item = Plain cron_base | Stepped cron_base nat

fun print_base :: "cron_base \<Rightarrow> gostring" where
  "print_base Every = ''*''"
| "print_base (At n) = format_uint n"
| "print_base (Stretch a b) = format_uint a @ CHR ''-'' # format_uint b"

fun print_item :: "cron_item \<Rightarrow> gostring" where
  "print_item (Plain b) = print_base b"
| "print_item (Stepped b n) = print_base b @ CHR ''/'' # format_uint n"

fun base_within :: "cron_base \<Rightarrow> int \<Rightarrow> int \<Rightarrow> bool" where
  "base_within Every lo hi = True"
| "base_within (At n) lo hi = (lo \<le> int n \<and> int n \<le> hi)"
| "base_within (Stretch a b) lo hi = (lo \<le> int a \<and> a \<le> b \<and> int b \<le> hi)"

fun item_within :: "cron_item \<Rightarrow> int \<Rightarrow> int \<Rightarrow> bool" where
  "item_within (Plain b) lo hi = base_within b lo hi"
| "item_within (Stepped b n) lo hi = (base_within b lo hi \<and> 1 \<le> n \<and> int n \<le> hi)"

lemma digit_not_sign: "is_digit_char c \<Longrightarrow> c \<noteq> CHR ''-'' \<and> c \<noteq> CHR ''/'' \<and> c \<noteq> CHR ''+'' \<and> c \<noteq> CHR ''*''"
  by (auto simp: is_digit_char_def byte_def)

lemma format_uint_chars:
  "CHR ''-'' \<notin> set (format_uint n)" "CHR ''/'' \<notin> set (format_uint n)" "format_uint n \<noteq> ''*''"
proof -
  have d: "\<forall>c \<in> set (format_uint n). is_digit_char c"
    using format_uint_digits [of n] by (simp add: list_all_iff)
  then show "CHR ''-'' \<notin> set (format_uint n)" "CHR ''/'' \<notin> set (format_uint n)"
    using digit_not_sign by blast+
  show "format_uint n \<noteq> ''*''"
    using d digit_not_sign [of "CHR ''*''"] by auto
qed

lemma Atoi_format: "Atoi (format_uint n) = (if int n < 2 ^ 63 then Some (int n) else None)"
proof -
  obtain c cs where f: "format_uint n = c # cs" using format_uint_digits [of n] by (cases "format_uint n") auto
  then have "is_digit_char c" using format_uint_digits [of n] by simp
  then have "c \<noteq> CHR ''-''" "c \<noteq> CHR ''+''" using digit_not_sign by auto
  then show ?thesis
    using format_uint_digits [of n] digits_value_format [of n] f by (auto simp: Atoi_def Let_def)
qed

lemma range_format: "hi < 2 ^ 63 \<Longrightarrow> validScheduleRange (print_base (Stretch a b)) lo hi \<longleftrightarrow> base_within (Stretch a b) lo hi"
  by (auto simp: validScheduleRange_def cut_at_append format_uint_chars Atoi_format)

lemma number_format: "hi < 2 ^ 63 \<Longrightarrow> validScheduleNumber (format_uint n) lo hi \<longleftrightarrow> base_within (At n) lo hi"
  by (auto simp: validScheduleNumber_def Atoi_format)

lemma base_format: "hi < 2 ^ 63 \<Longrightarrow> b \<noteq> Every \<Longrightarrow> validScheduleRange (print_base b) lo hi \<longleftrightarrow> base_within b lo hi"
proof (cases b)
  case (At n)
  then show "hi < 2 ^ 63 \<Longrightarrow> ?thesis"
    by (simp add: validScheduleRange_def format_uint_chars number_format del: base_within.simps)
qed (use range_format in auto)

lemma print_base_chars:
  "CHR ''/'' \<notin> set (print_base b)" "print_base b = ''*'' \<longleftrightarrow> b = Every"
  "CHR ''-'' \<in> set (print_base b) \<longleftrightarrow> (\<exists>m n. b = Stretch m n)"
proof -
  show "CHR ''/'' \<notin> set (print_base b)" by (cases b) (simp_all add: format_uint_chars)
  have "print_base (Stretch m n) \<noteq> ''*''" for m n
    using format_uint_digits [of m] by (cases "format_uint m") auto
  then show "print_base b = ''*'' \<longleftrightarrow> b = Every" by (cases b) (simp_all add: format_uint_chars del: print_base.simps(3))
  show "CHR ''-'' \<in> set (print_base b) \<longleftrightarrow> (\<exists>m n. b = Stretch m n)"
    by (cases b) (simp_all add: format_uint_chars)
qed

text \<open>An item written with numbers is accepted exactly when it describes something: a number
  or an upward stretch inside the field's bounds, and a step of at least one and at most the
  field's largest value.\<close>

lemma validScheduleItem_iff:
  assumes "hi < 2 ^ 63"
  shows "validScheduleItem (print_item i) lo hi \<longleftrightarrow> item_within i lo hi"
proof (cases i)
  case (Plain b)
  have "validScheduleItem (print_base b) lo hi \<longleftrightarrow> base_within b lo hi"
  proof (cases b)
    case Every
    then show ?thesis by (simp add: validScheduleItem_def)
  next
    case (At n)
    have "validScheduleItem (format_uint n) lo hi \<longleftrightarrow> validScheduleNumber (format_uint n) lo hi"
      by (simp add: validScheduleItem_def format_uint_chars)
    then show ?thesis using number_format [OF assms] At by (simp del: base_within.simps)
  next
    case (Stretch m n)
    have "validScheduleItem (print_base b) lo hi \<longleftrightarrow> validScheduleRange (print_base b) lo hi"
      using print_base_chars [of b] Stretch by (simp add: validScheduleItem_def del: print_base.simps)
    then show ?thesis using base_format [OF assms, of b] Stretch by simp
  qed
  then show ?thesis using Plain by simp
next
  case (Stepped b n)
  have stepped: "(case Atoi (format_uint n) of None \<Rightarrow> False | Some count \<Rightarrow>
      if count < 1 \<or> count > hi then False else Q) \<longleftrightarrow> 1 \<le> n \<and> int n \<le> hi \<and> Q" for Q
    using assms by (auto simp: Atoi_format)
  have "validScheduleItem (print_item i) lo hi \<longleftrightarrow>
      (case Atoi (format_uint n) of None \<Rightarrow> False | Some count \<Rightarrow>
         if count < 1 \<or> count > hi then False else print_base b = ''*'' \<or> validScheduleRange (print_base b) lo hi)"
    by (simp add: Stepped validScheduleItem_def cut_at_append print_base_chars)
  then show ?thesis
    using base_format [OF assms, of b lo] Stepped stepped by (cases "b = Every") (auto simp: print_base_chars)
qed

lemma digit_5: "format_uint 5 = ''5''" by code_simp
lemma digit_1: "format_uint (Suc 0) = ''1''" by code_simp
lemma digit_0: "format_uint 0 = ''0''" by code_simp

theorem validScheduleItem_iff_witness:
  "\<not> validScheduleItem ''5-1'' 0 59 \<and> \<not> validScheduleItem ''*/0'' 0 59"
  using validScheduleItem_iff [of 59 "Plain (Stretch 5 1)" 0] validScheduleItem_iff [of 59 "Stepped Every 0" 0]
  by (simp add: digit_5 digit_1 digit_0)

section \<open>What an accepted expression is\<close>

definition described :: "int \<Rightarrow> int \<Rightarrow> gostring \<Rightarrow> bool" where
  "described lo hi item \<longleftrightarrow>
     (\<exists>low high count. lo \<le> low \<and> low \<le> high \<and> high \<le> hi \<and> 1 \<le> count
        \<and> (let (base, step, found) = cut_at (CHR ''/'') item
           in (found \<longrightarrow> Atoi step = Some count \<and> count \<le> hi)
              \<and> (base = ''*'' \<and> low = lo \<and> high = hi
                 \<or> Atoi base = Some low \<and> high = low
                 \<or> (let (f, t, dash) = cut_at (CHR ''-'') base
                    in dash \<and> Atoi f = Some low \<and> Atoi t = Some high))))"

lemma number_described:
  "validScheduleNumber item lo hi \<Longrightarrow> \<exists>low. lo \<le> low \<and> low \<le> hi \<and> Atoi item = Some low"
  by (auto simp: validScheduleNumber_def split: option.splits)

lemma range_described:
  "validScheduleRange item lo hi \<Longrightarrow> \<exists>low high. lo \<le> low \<and> low \<le> high \<and> high \<le> hi
     \<and> (Atoi item = Some low \<and> high = low
        \<or> (let (f, t, dash) = cut_at (CHR ''-'') item in dash \<and> Atoi f = Some low \<and> Atoi t = Some high))"
  using number_described [of item lo hi]
  by (auto simp: validScheduleRange_def split: prod.splits if_splits option.splits)

lemma item_described:
  assumes "validScheduleItem item lo hi" "lo \<le> hi"
  shows "described lo hi item"
proof -
  obtain base step found where c: "cut_at (CHR ''/'') item = (base, step, found)" by (cases "cut_at (CHR ''/'') item") auto
  have unstepped: "base = item" if "\<not> found" using c that cut_at_missing [of "CHR ''/''" item base step] by simp
  have "\<exists>low high. lo \<le> low \<and> low \<le> high \<and> high \<le> hi
      \<and> (base = ''*'' \<and> low = lo \<and> high = hi \<or> Atoi base = Some low \<and> high = low
         \<or> (let (f, t, dash) = cut_at (CHR ''-'') base in dash \<and> Atoi f = Some low \<and> Atoi t = Some high))"
  proof (cases "base = ''*''")
    case True
    then show ?thesis using assms(2) by auto
  next
    case False
    then have "validScheduleRange base lo hi \<or> validScheduleNumber base lo hi"
      using assms(1) c unstepped
      by (auto simp: validScheduleItem_def split: option.splits if_splits)
    then show ?thesis using range_described [of base lo hi] number_described [of base lo hi] by blast
  qed
  then obtain low high where l: "lo \<le> low" "low \<le> high" "high \<le> hi"
    "base = ''*'' \<and> low = lo \<and> high = hi \<or> Atoi base = Some low \<and> high = low
         \<or> (let (f, t, dash) = cut_at (CHR ''-'') base in dash \<and> Atoi f = Some low \<and> Atoi t = Some high)"
    by blast
  obtain count where n: "1 \<le> count" "found \<longrightarrow> Atoi step = Some count \<and> count \<le> hi"
  proof (cases found)
    case True
    then show ?thesis using that assms(1) c
      by (auto simp: validScheduleItem_def split: option.splits if_splits)
  next
    case False
    then show ?thesis using that [of 1] by simp
  qed
  show ?thesis unfolding described_def c Let_def prod.case
    by (rule exI [of _ low], rule exI [of _ high], rule exI [of _ count])
      (use l n in \<open>simp add: Let_def\<close>)
qed

text \<open>A stored schedule is empty or five fields, and every item of every field, cut at its
  commas, describes a non-empty stretch of the moments that field has, taken in steps of at least
  one - never a schedule that silently runs at no time.\<close>

lemma ValidSchedule_described:
  assumes "ValidSchedule e" "TrimSpace e \<noteq> []"
  shows "length (Fields (TrimSpace e)) = 5 \<and>
    (\<forall>i < 5. Fields (TrimSpace e) ! i \<noteq> [] \<and>
       (\<forall>item \<in> set (split_at (CHR '','') (Fields (TrimSpace e) ! i)).
          described (fst (scheduleBounds ! i)) (snd (scheduleBounds ! i)) item))"
proof -
  let ?fs = "Fields (TrimSpace e)"
  have n: "length ?fs = 5" using assms by (auto simp: ValidSchedule_def Let_def ScheduleFields_def split: if_splits)
  have b: "length scheduleBounds = 5" by (simp add: scheduleBounds_def)
  have lo_hi: "fst (scheduleBounds ! i) \<le> snd (scheduleBounds ! i)" if "i < 5" for i
    using that by (auto simp: scheduleBounds_def less_Suc_eq numeral_eq_Suc)
  have "list_all (\<lambda>(f, lo, hi). validScheduleField f lo hi) (zip ?fs scheduleBounds)"
    using assms n by (simp add: ValidSchedule_def Let_def ScheduleFields_def)
  then have v: "validScheduleField (?fs ! i) (fst (scheduleBounds ! i)) (snd (scheduleBounds ! i))" if "i < 5" for i
    using that n b by (auto simp: list_all_length case_prod_beta)
  show ?thesis
    using n v lo_hi item_described by (auto simp: validScheduleField_def list_all_iff)
qed

theorem ValidSchedule_described_witness:
  "ValidSchedule ''*/15 2 1-7 * *'' \<and> described 1 31 ''1-7''"
proof -
  have t: "TrimSpace ''*/15 2 1-7 * *'' = ''*/15 2 1-7 * *''"
    by (simp add: TrimSpace_def rune_chunks_ascii byte_def is_space_def)
  have f: "Fields ''*/15 2 1-7 * *'' = [''*/15'', ''2'', ''1-7'', ''*'', ''*'']"
    by (simp add: Fields_def rune_chunks_ascii byte_def is_space_def)
  have v: "ValidSchedule ''*/15 2 1-7 * *''"
    by (simp add: ValidSchedule_def t f ScheduleFields_def scheduleBounds_def validScheduleField_def
        validScheduleItem_def validScheduleRange_def validScheduleNumber_def Atoi_def is_digit_char_def
        byte_def Let_def)
  from ValidSchedule_described [OF v] have "described 1 31 ''1-7''"
    unfolding t f by (auto simp: scheduleBounds_def dest: spec [of _ 2])
  with v show ?thesis by simp
qed

end
