(* ===== verification/Tags.thy ===== *)
theory Tags
  imports GoString
begin

text \<open>
  \<^verbatim>\<open>domain/model/tag_model.go\<close>: the activities a description names.  A tag is held as its runes;
  which runes are letters or digits and what their lower case is are Unicode's tables, arguments
  of every definition here.
\<close>

record unicode_tables =
  IsLetter :: "rune \<Rightarrow> bool"
  IsDigit :: "rune \<Rightarrow> bool"
  ToLower :: "rune \<Rightarrow> rune"

definition wordRune :: "unicode_tables \<Rightarrow> rune \<Rightarrow> bool" where
  "wordRune u r \<longleftrightarrow> IsLetter u r \<or> IsDigit u r"

definition tag_rune :: "unicode_tables \<Rightarrow> rune \<Rightarrow> bool" where
  "tag_rune u r \<longleftrightarrow> wordRune u r \<or> r = 45 \<or> r = 95"

text \<open>The scan: the rune before the position, where there is one, and the runes from it on.  A
  rune 35 is the number sign; after a tag the scan goes on behind it, whose last rune is then the
  one before.\<close>

function scan_tags :: "unicode_tables \<Rightarrow> rune option \<Rightarrow> rune list \<Rightarrow> rune list list \<Rightarrow> rune list list" where
  "scan_tags u before [] tags = tags"
| "scan_tags u before (r # rs) tags =
     (if r \<noteq> 35 \<or> (case before of None \<Rightarrow> False | Some b \<Rightarrow> wordRune u b)
      then scan_tags u (Some r) rs tags
      else let written = takeWhile (tag_rune u) rs;
               tag = map (ToLower u) written;
               tags' = (if (\<exists>c \<in> set tag. \<not> IsDigit u c) \<and> tag \<notin> set tags then tags @ [tag] else tags)
           in scan_tags u (Some (last (r # written))) (dropWhile (tag_rune u) rs) tags')"
  by pat_completeness auto
termination
  by (relation "measure (\<lambda>(u, b, rs, ts). length rs)") (auto simp: length_dropWhile_le le_imp_less_Suc)

definition Tags :: "unicode_tables \<Rightarrow> gostring \<Rightarrow> rune list list" where
  "Tags u description = scan_tags u None (runes description) []"

section \<open>What a tag is\<close>

definition tag_at :: "unicode_tables \<Rightarrow> rune option \<Rightarrow> rune list \<Rightarrow> rune list \<Rightarrow> bool" where
  "tag_at u before text tag \<longleftrightarrow>
     (\<exists>pre rest. text = pre @ 35 # rest
        \<and> (case (if pre = [] then before else Some (last pre)) of None \<Rightarrow> True | Some b \<Rightarrow> \<not> wordRune u b)
        \<and> tag = map (ToLower u) (takeWhile (tag_rune u) rest)
        \<and> (\<exists>c \<in> set tag. \<not> IsDigit u c))"

lemma tag_at_Nil [simp]: "\<not> tag_at u b [] tag" "Collect (tag_at u b []) = {}"
  by (simp_all add: tag_at_def)

lemma tag_at_Cons:
  "tag_at u before (r # rs) tag \<longleftrightarrow>
     (r = 35 \<and> (case before of None \<Rightarrow> True | Some b \<Rightarrow> \<not> wordRune u b)
        \<and> tag = map (ToLower u) (takeWhile (tag_rune u) rs) \<and> (\<exists>c \<in> set tag. \<not> IsDigit u c))
     \<or> tag_at u (Some r) rs tag"
proof
  assume "tag_at u before (r # rs) tag"
  then obtain pre rest where p: "r # rs = pre @ 35 # rest"
    and q: "case (if pre = [] then before else Some (last pre)) of None \<Rightarrow> True | Some b \<Rightarrow> \<not> wordRune u b"
    and t: "tag = map (ToLower u) (takeWhile (tag_rune u) rest)" "\<exists>c \<in> set tag. \<not> IsDigit u c"
    unfolding tag_at_def by blast
  show "(r = 35 \<and> (case before of None \<Rightarrow> True | Some b \<Rightarrow> \<not> wordRune u b)
        \<and> tag = map (ToLower u) (takeWhile (tag_rune u) rs) \<and> (\<exists>c \<in> set tag. \<not> IsDigit u c))
     \<or> tag_at u (Some r) rs tag"
  proof (cases pre)
    case Nil
    then show ?thesis using p q t by simp
  next
    case (Cons x xs)
    then have "tag_at u (Some r) rs tag"
      unfolding tag_at_def using p q t by (intro exI [of _ xs] exI [of _ rest]) (auto split: if_splits)
    then show ?thesis ..
  qed
next
  assume "(r = 35 \<and> (case before of None \<Rightarrow> True | Some b \<Rightarrow> \<not> wordRune u b)
        \<and> tag = map (ToLower u) (takeWhile (tag_rune u) rs) \<and> (\<exists>c \<in> set tag. \<not> IsDigit u c))
     \<or> tag_at u (Some r) rs tag"
  then show "tag_at u before (r # rs) tag"
  proof
    assume "tag_at u (Some r) rs tag"
    then obtain pre rest where "rs = pre @ 35 # rest"
      "case (if pre = [] then Some r else Some (last pre)) of None \<Rightarrow> True | Some b \<Rightarrow> \<not> wordRune u b"
      "tag = map (ToLower u) (takeWhile (tag_rune u) rest)" "\<exists>c \<in> set tag. \<not> IsDigit u c"
      unfolding tag_at_def by blast
    then show ?thesis unfolding tag_at_def
      by (intro exI [of _ "r # pre"] exI [of _ rest]) (auto split: if_splits)
  next
    assume "r = 35 \<and> (case before of None \<Rightarrow> True | Some b \<Rightarrow> \<not> wordRune u b)
        \<and> tag = map (ToLower u) (takeWhile (tag_rune u) rs) \<and> (\<exists>c \<in> set tag. \<not> IsDigit u c)"
    then show ?thesis unfolding tag_at_def by - (rule exI [of _ "[]"], rule exI [of _ rs], auto)
  qed
qed

text \<open>No tag starts inside a stretch of tag runes: a number sign is none of them.\<close>

lemma tag_at_skip:
  assumes "\<forall>r \<in> set xs. tag_rune u r" "\<not> tag_rune u 35"
  shows "tag_at u before (xs @ rs) tag \<longleftrightarrow> tag_at u (if xs = [] then before else Some (last xs)) rs tag"
  using assms
proof (induction xs arbitrary: before)
  case (Cons x xs)
  then have "x \<noteq> 35" by auto
  then show ?case using Cons by (simp add: tag_at_Cons)
qed simp

lemma scan_tags_spec:
  assumes "\<not> wordRune u 35" "distinct tags"
  shows "distinct (scan_tags u before rs tags)
    \<and> set (scan_tags u before rs tags) = set tags \<union> {tag. tag_at u before rs tag}"
  using assms
proof (induction u before rs tags rule: scan_tags.induct)
  case (2 u before r rs tags)
  let ?word = "case before of None \<Rightarrow> False | Some b \<Rightarrow> wordRune u b"
  let ?written = "takeWhile (tag_rune u) rs"
  let ?tag = "map (ToLower u) ?written"
  have 35: "\<not> tag_rune u 35" using "2.prems"(1) by (simp add: tag_rune_def)
  show ?case
  proof (cases "r \<noteq> 35 \<or> ?word")
    case True
    then have "{tag. tag_at u before (r # rs) tag} = {tag. tag_at u (Some r) rs tag}"
      by (auto simp: tag_at_Cons split: option.splits)
    then show ?thesis using "2.IH"(1) [OF True "2.prems"] True by simp
  next
    case False
    let ?tags = "if (\<exists>c \<in> set ?tag. \<not> IsDigit u c) \<and> ?tag \<notin> set tags then tags @ [?tag] else tags"
    have e: "scan_tags u before (r # rs) tags
        = scan_tags u (Some (last (r # ?written))) (dropWhile (tag_rune u) rs) ?tags"
      using False by (simp add: Let_def)
    have d: "distinct ?tags" using "2.prems"(2) by simp
    have "tag_at u (Some r) (?written @ dropWhile (tag_rune u) rs) t
        \<longleftrightarrow> tag_at u (if ?written = [] then Some r else Some (last ?written)) (dropWhile (tag_rune u) rs) t" for t
      by (rule tag_at_skip) (use 35 set_takeWhileD in fast)+
    then have skip: "tag_at u (Some r) rs t
        \<longleftrightarrow> tag_at u (Some (last (r # ?written))) (dropWhile (tag_rune u) rs) t" for t
      by simp
    have "r = 35" "\<not> ?word" using False by auto
    then have "{tag. tag_at u before (r # rs) tag} =
        (if \<exists>c \<in> set ?tag. \<not> IsDigit u c then {?tag} else {}) \<union> {t. tag_at u (Some r) rs t}"
      by (auto simp: tag_at_Cons split: option.splits)
    then show ?thesis
      unfolding e using "2.IH"(2) [OF False refl refl refl "2.prems"(1) d] skip by auto
  qed
qed simp

text \<open>A description's activities are each listed once and are exactly the words that follow a
  number sign standing at the beginning or after neither a letter nor a digit, lower-cased, those
  of digits alone left out - whatever Unicode calls a letter, as long as the number sign is none.\<close>

lemma Tags_exact:
  assumes "\<not> wordRune u 35"
  shows "distinct (Tags u description) \<and> set (Tags u description) = {tag. tag_at u None (runes description) tag}"
  using scan_tags_spec [OF assms, of "[]" None "runes description"] by (simp add: Tags_def)

definition ascii_tables :: unicode_tables where
  "ascii_tables = \<lparr>IsLetter = (\<lambda>r. 65 \<le> r \<and> r \<le> 90 \<or> 97 \<le> r \<and> r \<le> 122), IsDigit = (\<lambda>r. 48 \<le> r \<and> r \<le> 57),
     ToLower = (\<lambda>r. if 65 \<le> r \<and> r \<le> 90 then r + 32 else r)\<rparr>"

theorem Tags_exact_witness:
  "Tags ascii_tables ''#Ab abc#12 #9 #ab'' = [[97, 98]]
   \<and> {tag. tag_at ascii_tables None (runes ''#Ab abc#12 #9 #ab'') tag} = {[97, 98]}"
proof -
  have r: "runes ''#Ab abc#12 #9 #ab'' = map byte ''#Ab abc#12 #9 #ab''"
    by (rule runes_ascii) (simp add: byte_def)
  have t: "Tags ascii_tables ''#Ab abc#12 #9 #ab'' = [[97, 98]]"
    unfolding Tags_def r by (simp add: byte_def wordRune_def tag_rune_def ascii_tables_def)
  have "\<not> wordRune ascii_tables 35" by (simp add: wordRune_def ascii_tables_def)
  from Tags_exact [OF this, of "''#Ab abc#12 #9 #ab''"] t show ?thesis by simp
qed

end
