(* ===== verification/Store.thy ===== *)
theory Store
  imports AppError
begin

text \<open>
  The bookkeeping shared by the in-memory repositories, \<^verbatim>\<open>persistence/memory/memory.go\<close>: the
  store of records with ids, and the list of records keyed by a person and a day (absences, working
  days, planned weeks, leave entitlements).  The mutexes make each operation one step; the model is
  the sequence of those steps.

  \<open>id_store\<close> and \<open>dated_store\<close> are the contracts the repositories rely on.  Their
  lemmas are proved once from the laws; the interpretations discharge the laws for the program's
  stores.
\<close>

section \<open>Records with ids\<close>

record 'a store =
  st_items :: "(uint \<times> 'a) list"
  st_nextID :: uint
  st_entity :: gostring

definition newStore :: "gostring \<Rightarrow> 'a store" where
  "newStore entity = \<lparr>st_items = [], st_nextID = 1, st_entity = entity\<rparr>"

definition store_add :: "(uint \<Rightarrow> 'a \<Rightarrow> 'a) \<Rightarrow> 'a \<Rightarrow> 'a store \<Rightarrow> 'a \<times> 'a store" where
  "store_add setID item s =
     (let stored = setID (st_nextID s) item
      in (stored, s\<lparr>st_items := AList.update (st_nextID s) stored (st_items s),
                    st_nextID := uint_succ (st_nextID s)\<rparr>))"

definition store_find :: "uint \<Rightarrow> 'a store \<Rightarrow> 'a option" where
  "store_find i s = map_of (st_items s) i"

definition store_get :: "uint \<Rightarrow> 'a store \<Rightarrow> 'a result" where
  "store_get i s = (case store_find i s of
     None \<Rightarrow> Inl (NotFound (st_entity s) (format_uint i)) | Some item \<Rightarrow> Inr item)"

definition store_all :: "'a store \<Rightarrow> 'a list" where
  "store_all s = List.map_filter (\<lambda>i. store_find i s) [1..<st_nextID s]"

definition store_update :: "uint \<Rightarrow> 'a \<Rightarrow> 'a store \<Rightarrow> 'a result \<times> 'a store" where
  "store_update i item s = (case store_find i s of
     None \<Rightarrow> (Inl (NotFound (st_entity s) (format_uint i)), s)
   | Some _ \<Rightarrow> (Inr item, s\<lparr>st_items := AList.update i item (st_items s)\<rparr>))"

definition store_delete :: "uint \<Rightarrow> 'a store \<Rightarrow> unit result \<times> 'a store" where
  "store_delete i s = (case store_find i s of
     None \<Rightarrow> (Inl (NotFound (st_entity s) (format_uint i)), s)
   | Some _ \<Rightarrow> (Inr (), s\<lparr>st_items := AList.delete i (st_items s)\<rparr>))"

text \<open>Every key is an id handed out, every id is used once, and none is used up.\<close>

definition store_valid :: "'a store \<Rightarrow> bool" where
  "store_valid s \<longleftrightarrow> distinct (map fst (st_items s)) \<and> 1 \<le> st_nextID s
     \<and> (\<forall>i x. store_find i s = Some x \<longrightarrow> 1 \<le> i \<and> i < st_nextID s)"

definition store_room :: "'a store \<Rightarrow> bool" where
  "store_room s \<longleftrightarrow> st_nextID s < uint_max"

locale id_store =
  fixes find :: "uint \<Rightarrow> 's \<Rightarrow> 'a option"
    and all :: "'s \<Rightarrow> 'a list"
    and add :: "'a \<Rightarrow> 's \<Rightarrow> 'a \<times> 's"
    and update :: "uint \<Rightarrow> 'a \<Rightarrow> 's \<Rightarrow> 'a result \<times> 's"
    and delete :: "uint \<Rightarrow> 's \<Rightarrow> unit result \<times> 's"
    and valid :: "'s \<Rightarrow> bool"
    and room :: "'s \<Rightarrow> bool"
    and next_id :: "'s \<Rightarrow> uint"
    and set_id :: "uint \<Rightarrow> 'a \<Rightarrow> 'a"
  assumes fresh: "valid s \<Longrightarrow> find (next_id s) s = None"
    and add_gives: "fst (add x s) = set_id (next_id s) x"
    and find_add: "find i (snd (add x s)) = (if i = next_id s then Some (set_id i x) else find i s)"
    and valid_add: "valid s \<Longrightarrow> room s \<Longrightarrow> valid (snd (add x s))"
    and find_update: "find i (snd (update j x s)) =
          (if i = j \<and> find j s \<noteq> None then Some x else find i s)"
    and update_gives: "fst (update j x s) = Inr y \<longleftrightarrow> find j s \<noteq> None \<and> y = x"
    and valid_update: "valid s \<Longrightarrow> valid (snd (update j x s))"
    and find_delete: "valid s \<Longrightarrow> find i (snd (delete j s)) = (if i = j then None else find i s)"
    and delete_gives: "fst (delete j s) = Inr () \<longleftrightarrow> find j s \<noteq> None"
    and valid_delete: "valid s \<Longrightarrow> valid (snd (delete j s))"
    and set_all: "valid s \<Longrightarrow> set (all s) = {x. \<exists>i. find i s = Some x}"
begin

lemma all_add: "valid s \<Longrightarrow> room s \<Longrightarrow> set (all (snd (add x s))) = insert (set_id (next_id s) x) (set (all s))"
proof -
  assume v: "valid s" "room s"
  have "(\<exists>i. find i (snd (add x s)) = Some y) \<longleftrightarrow> y = set_id (next_id s) x \<or> (\<exists>i. find i s = Some y)" for y
    unfolding find_add using fresh [OF v(1)] by (metis option.distinct(1) option.inject)
  then show ?thesis using v by (auto simp: set_all valid_add)
qed

lemma add_keeps: "valid s \<Longrightarrow> find i s = Some y \<Longrightarrow> find i (snd (add x s)) = Some y"
  using fresh [of s] by (auto simp: find_add)

lemma all_update: "valid s \<Longrightarrow> find j s \<noteq> None \<Longrightarrow>
    set (all (snd (update j x s))) = insert x {y. \<exists>i. i \<noteq> j \<and> find i s = Some y}"
  by (auto simp: set_all valid_update find_update split: if_splits)

lemma all_delete: "valid s \<Longrightarrow>
    set (all (snd (delete j s))) = {y. \<exists>i. i \<noteq> j \<and> find i s = Some y}"
  by (auto simp: set_all valid_delete find_delete split: if_splits)

lemma in_all: "valid s \<Longrightarrow> find i s = Some x \<Longrightarrow> x \<in> set (all s)"
  by (auto simp: set_all)

lemma update_keeps_others: "i \<noteq> j \<Longrightarrow> find i (snd (update j x s)) = find i s"
  by (simp add: find_update)

end

text \<open>A store whose records carry the id they are kept under.\<close>

locale keyed_store = id_store +
  fixes ident :: "'a \<Rightarrow> uint" and keyed :: "'s \<Rightarrow> bool"
  assumes ident_set: "ident (set_id i x) = i"
    and keyed_iff: "keyed s \<longleftrightarrow> (\<forall>i x. find i s = Some x \<longrightarrow> ident x = i)"
begin

lemma keyed_add: "keyed s \<Longrightarrow> keyed (snd (add x s))"
  by (simp add: keyed_iff find_add ident_set)

lemma keyed_update: "keyed s \<Longrightarrow> ident x = j \<Longrightarrow> keyed (snd (update j x s))"
  by (auto simp: keyed_iff find_update)

lemma keyed_delete: "valid s \<Longrightarrow> keyed s \<Longrightarrow> keyed (snd (delete j s))"
  by (simp add: keyed_iff find_delete)

lemma all_keyed: "valid s \<Longrightarrow> keyed s \<Longrightarrow> x \<in> set (all s) \<longleftrightarrow> find (ident x) s = Some x"
  by (auto simp: set_all keyed_iff)

end

lemma store_find_after:
  "store_find i (snd (store_add setID x s)) = (if i = st_nextID s then Some (setID i x) else store_find i s)"
  "store_find i (snd (store_update j x s)) = (if i = j \<and> store_find j s \<noteq> None then Some x else store_find i s)"
  "store_find i (snd (store_delete j s)) = (if i = j then None else store_find i s)"
  by (auto simp: store_add_def store_update_def store_delete_def store_find_def map_of_update map_of_delete Let_def
      split: option.splits)

lemma store_keys_after:
  "distinct (map fst (st_items s)) \<Longrightarrow> distinct (map fst (st_items (snd (store_add setID x s))))"
  "distinct (map fst (st_items s)) \<Longrightarrow> distinct (map fst (st_items (snd (store_update j x s))))"
  "distinct (map fst (st_items s)) \<Longrightarrow> distinct (map fst (st_items (snd (store_delete j s))))"
  by (auto simp: store_add_def store_update_def store_delete_def Let_def split: option.splits)

lemma store_next_after [simp]:
  "st_nextID (snd (store_add setID x s)) = uint_succ (st_nextID s)"
  "st_nextID (snd (store_update j x s)) = st_nextID s"
  "st_nextID (snd (store_delete j s)) = st_nextID s"
  by (auto simp: store_add_def store_update_def store_delete_def Let_def split: option.splits)

lemma in_map_filter: "set (List.map_filter f xs) = {y. \<exists>x \<in> set xs. f x = Some y}"
  by (induction xs) (auto simp: List.map_filter_def split: option.splits)

lemma map_filter_ident:
  assumes "\<And>i x. f i = Some x \<Longrightarrow> ident x = i" "distinct ids"
  shows "distinct (map ident (List.map_filter f ids))"
  using assms(2)
proof (induction ids)
  case (Cons i ids)
  then have "i \<notin> ident ` set (List.map_filter f ids)"
    using assms(1) by (auto simp: in_map_filter)
  then show ?case using Cons assms(1) [of i] by (auto simp: List.map_filter_def split: option.split)
qed (simp add: List.map_filter_def)

lemma store_find_below: "store_valid s \<Longrightarrow> store_find i s = Some x \<Longrightarrow> 1 \<le> i \<and> i < st_nextID s"
  by (auto simp: store_valid_def)

interpretation mem: id_store store_find store_all "store_add setID" store_update store_delete
  store_valid store_room st_nextID setID
  for setID :: "uint \<Rightarrow> 'a \<Rightarrow> 'a"
proof (unfold_locales, goal_cases)
  case (1 s)
  show ?case using store_find_below [OF 1, of "st_nextID s"] by (cases "store_find (st_nextID s) s") auto
next
  case (4 s x)
  then have "st_nextID s < uint_max" by (simp add: store_room_def)
  then show ?case using 4(1) by (auto simp: store_valid_def store_keys_after store_find_after less_Suc_eq split: if_splits)
next
  case (7 s j x)
  then show ?case by (auto simp: store_valid_def store_keys_after store_find_after split: if_splits)
next
  case (10 s j)
  then show ?case by (auto simp: store_valid_def store_keys_after store_find_after split: if_splits)
next
  case (11 s)
  have "i \<in> set [1..<st_nextID s]" if "store_find i s = Some x" for i x
    using store_find_below [OF 11 that] by simp
  then show ?case unfolding store_all_def in_map_filter by blast
next
  case (2 x s)
  show ?case by (simp add: store_add_def Let_def)
next
  case (6 j x s y)
  show ?case by (auto simp: store_update_def split: option.split)
next
  case (9 j s)
  show ?case by (auto simp: store_delete_def split: option.split)
qed (simp_all only: store_find_after)

lemma store_get_Inr [simp]: "store_get i s = Inr x \<longleftrightarrow> store_find i s = Some x"
  by (simp add: store_get_def split: option.split)

lemma store_get_Inl: "store_get i s = Inl e \<longleftrightarrow>
    store_find i s = None \<and> e = NotFound (st_entity s) (format_uint i)"
  by (auto simp: store_get_def split: option.split)

lemma newStore_valid [simp]: "store_valid (newStore entity)" "store_find i (newStore entity) = None"
  by (simp_all add: newStore_def store_valid_def store_find_def)

section \<open>The listing after a write\<close>

lemma map_filter_append: "List.map_filter f (xs @ ys) = List.map_filter f xs @ List.map_filter f ys"
  by (simp add: List.map_filter_def)

lemma map_filter_cong: "(\<And>x. x \<in> set xs \<Longrightarrow> f x = g x) \<Longrightarrow> List.map_filter f xs = List.map_filter g xs"
  by (induction xs) (auto simp: List.map_filter_def)

lemma store_all_add:
  assumes "store_valid s" "store_room s"
  shows "store_all (snd (store_add setID x s)) = store_all s @ [setID (st_nextID s) x]"
proof -
  have n: "1 \<le> st_nextID s" "uint_succ (st_nextID s) = Suc (st_nextID s)"
    using assms by (simp_all add: store_valid_def store_room_def)
  have "List.map_filter (\<lambda>i. store_find i (snd (store_add setID x s))) [1..<st_nextID s]
      = List.map_filter (\<lambda>i. store_find i s) [1..<st_nextID s]"
    by (rule map_filter_cong) (auto simp: store_find_after)
  then show ?thesis
    using n by (simp add: store_all_def map_filter_append store_find_after List.map_filter_def)
qed

lemma store_all_update:
  assumes "\<And>i y. store_find i s = Some y \<Longrightarrow> ident y = i" "store_find j s \<noteq> None"
  shows "store_all (snd (store_update j x s)) = map (\<lambda>y. if ident y = j then x else y) (store_all s)"
proof -
  have "List.map_filter (\<lambda>i. store_find i (snd (store_update j x s))) ids
      = map (\<lambda>y. if ident y = j then x else y) (List.map_filter (\<lambda>i. store_find i s) ids)" for ids
    using assms by (induction ids) (auto simp: List.map_filter_def store_find_after split: option.splits)
  then show ?thesis by (simp add: store_all_def)
qed

lemma store_all_delete:
  assumes "\<And>i y. store_find i s = Some y \<Longrightarrow> ident y = i"
  shows "store_all (snd (store_delete j s)) = filter (\<lambda>y. ident y \<noteq> j) (store_all s)"
proof -
  have "List.map_filter (\<lambda>i. store_find i (snd (store_delete j s))) ids
      = filter (\<lambda>y. ident y \<noteq> j) (List.map_filter (\<lambda>i. store_find i s) ids)" for ids
    using assms by (induction ids) (auto simp: List.map_filter_def store_find_after split: option.splits)
  then show ?thesis by (simp add: store_all_def)
qed

section \<open>Records of a person and a day\<close>

text \<open>The lists behind absences, working days, planned weeks and leave: a save replaces the
  record of the same person and key where it stands or appends, a delete removes it, and a read
  gives a person's own, earliest first.\<close>

fun dated_save :: "('a \<Rightarrow> uint \<times> int) \<Rightarrow> 'a \<Rightarrow> 'a list \<Rightarrow> 'a list" where
  "dated_save key x [] = [x]"
| "dated_save key x (y # ys) = (if key y = key x then x # ys else y # dated_save key x ys)"

fun dated_delete :: "('a \<Rightarrow> uint \<times> int) \<Rightarrow> uint \<Rightarrow> int \<Rightarrow> 'a list \<Rightarrow> bool \<times> 'a list" where
  "dated_delete key u d [] = (False, [])"
| "dated_delete key u d (y # ys) =
     (if key y = (u, d) then (True, ys)
      else let (found, rest) = dated_delete key u d ys in (found, y # rest))"

definition dated_for :: "('a \<Rightarrow> uint \<times> int) \<Rightarrow> uint \<Rightarrow> 'a list \<Rightarrow> 'a list" where
  "dated_for key u xs = sort_by (by_key (\<lambda>x. snd (key x))) (filter (\<lambda>x. fst (key x) = u) xs)"

definition dated_between :: "('a \<Rightarrow> uint \<times> int) \<Rightarrow> uint \<Rightarrow> int \<Rightarrow> int \<Rightarrow> 'a list \<Rightarrow> 'a list" where
  "dated_between key u from to xs =
     sort_by (by_key (\<lambda>x. snd (key x)))
       (filter (\<lambda>x. fst (key x) = u \<and> \<not> snd (key x) < from \<and> \<not> snd (key x) > to) xs)"

definition dated_find :: "('a \<Rightarrow> uint \<times> int) \<Rightarrow> uint \<Rightarrow> int \<Rightarrow> 'a list \<Rightarrow> 'a option" where
  "dated_find key u d xs = List.find (\<lambda>x. key x = (u, d)) xs"

definition dated_valid :: "('a \<Rightarrow> uint \<times> int) \<Rightarrow> 'a list \<Rightarrow> bool" where
  "dated_valid key xs \<longleftrightarrow> distinct (map key xs)"

locale dated_store =
  fixes key :: "'a \<Rightarrow> uint \<times> int"
    and find :: "uint \<Rightarrow> int \<Rightarrow> 's \<Rightarrow> 'a option"
    and own :: "uint \<Rightarrow> 's \<Rightarrow> 'a list"
    and between :: "uint \<Rightarrow> int \<Rightarrow> int \<Rightarrow> 's \<Rightarrow> 'a list"
    and save :: "'a \<Rightarrow> 's \<Rightarrow> 's"
    and delete :: "uint \<Rightarrow> int \<Rightarrow> 's \<Rightarrow> bool \<times> 's"
    and valid :: "'s \<Rightarrow> bool"
  assumes find_save: "find u d (save x s) = (if key x = (u, d) then Some x else find u d s)"
    and valid_save: "valid s \<Longrightarrow> valid (save x s)"
    and delete_found: "fst (delete u d s) \<longleftrightarrow> find u d s \<noteq> None"
    and find_delete: "valid s \<Longrightarrow> find u' d' (snd (delete u d s)) = (if (u', d') = (u, d) then None else find u' d' s)"
    and valid_delete: "valid s \<Longrightarrow> valid (snd (delete u d s))"
    and in_own: "valid s \<Longrightarrow> x \<in> set (own u s) \<longleftrightarrow> fst (key x) = u \<and> find u (snd (key x)) s = Some x"
    and in_between: "valid s \<Longrightarrow> x \<in> set (between u from to s) \<longleftrightarrow>
          x \<in> set (own u s) \<and> from \<le> snd (key x) \<and> snd (key x) \<le> to"
    and own_ordered: "valid s \<Longrightarrow> sorted_wrt (<) (map (\<lambda>x. snd (key x)) (own u s))"
    and between_ordered: "valid s \<Longrightarrow> sorted_wrt (<) (map (\<lambda>x. snd (key x)) (between u from to s))"
begin

lemma own_save: "valid s \<Longrightarrow> x \<in> set (own u (save y s)) \<longleftrightarrow>
    fst (key x) = u \<and> (if key x = key y then x = y else x \<in> set (own u s))"
  by (cases "key x") (auto simp: in_own valid_save find_save)

lemma others_untouched: "valid s \<Longrightarrow> fst (key y) \<noteq> u \<Longrightarrow> set (own u (save y s)) = set (own u s)"
  by (auto simp: own_save in_own split: if_splits)

lemma delete_others: "valid s \<Longrightarrow> u' \<noteq> u \<Longrightarrow> set (own u' (snd (delete u d s))) = set (own u' s)"
  by (auto simp: in_own valid_delete find_delete)

lemma own_delete: "valid s \<Longrightarrow> x \<in> set (own u (snd (delete u d s))) \<longleftrightarrow> x \<in> set (own u s) \<and> snd (key x) \<noteq> d"
  by (auto simp: in_own valid_delete find_delete split: if_splits)

lemma between_whole: "valid s \<Longrightarrow> \<forall>x \<in> set (own u s). from \<le> snd (key x) \<and> snd (key x) \<le> to \<Longrightarrow>
    set (between u from to s) = set (own u s)"
  by (auto simp: in_between)

end

lemma dated_valid_simps [simp]:
  "dated_valid key []"
  "dated_valid key (y # ys) \<longleftrightarrow> (\<forall>z \<in> set ys. key z \<noteq> key y) \<and> dated_valid key ys"
proof -
  show "dated_valid key (y # ys) \<longleftrightarrow> (\<forall>z \<in> set ys. key z \<noteq> key y) \<and> dated_valid key ys"
    unfolding dated_valid_def list.map distinct.simps by (simp add: image_iff) metis
qed (simp add: dated_valid_def)

lemma dated_find_in: "dated_valid key xs \<Longrightarrow> dated_find key u d xs = Some x \<longleftrightarrow> x \<in> set xs \<and> key x = (u, d)"
proof (induction xs)
  case (Cons y ys)
  then have "y \<notin> set ys" "\<forall>z \<in> set ys. key z \<noteq> key y" "dated_valid key ys"
    using Cons.prems by auto
  then show ?case using Cons.IH by (auto simp: dated_find_def)
qed (simp add: dated_find_def)

lemma keys_dated_save: "set (map key (dated_save key x xs)) = insert (key x) (set (map key xs))"
  by (induction xs) auto

lemma dated_valid_save: "dated_valid key xs \<Longrightarrow> dated_valid key (dated_save key x xs)"
  unfolding dated_valid_def
  by (induction xs) (use keys_dated_save [of key x] in auto)

lemma dated_find_save:
  "dated_find key u d (dated_save key x xs) = (if key x = (u, d) then Some x else dated_find key u d xs)"
  unfolding dated_find_def by (induction xs) auto

lemma dated_delete_found: "fst (dated_delete key u d xs) \<longleftrightarrow> dated_find key u d xs \<noteq> None"
  unfolding dated_find_def by (induction xs) (auto split: prod.splits)

lemma dated_delete_filter:
  "dated_valid key xs \<Longrightarrow> snd (dated_delete key u d xs) = filter (\<lambda>x. key x \<noteq> (u, d)) xs"
proof (induction xs)
  case (Cons y ys)
  then have ys: "dated_valid key ys" "\<forall>z \<in> set ys. key z \<noteq> key y" using Cons.prems by auto
  then have "filter (\<lambda>x. key x \<noteq> key y) ys = ys" by simp
  then show ?case using Cons.IH ys by (auto simp: case_prod_beta)
qed simp

lemma dated_ordered:
  assumes "dated_valid key xs" "\<forall>x \<in> set xs. P x \<longrightarrow> fst (key x) = u"
  shows "sorted_wrt (<) (map (\<lambda>x. snd (key x)) (sort_by (by_key (\<lambda>x. snd (key x))) (filter P xs)))"
proof -
  have "inj_on (\<lambda>x. snd (key x)) {x \<in> set xs. P x}"
  proof (rule inj_onI)
    fix x y assume "x \<in> {x \<in> set xs. P x}" "y \<in> {x \<in> set xs. P x}" "snd (key x) = snd (key y)"
    then have "x \<in> set xs" "y \<in> set xs" "key x = key y" using assms(2) by (auto intro: prod_eqI)
    then show "x = y" using assms(1) by (auto simp: dated_valid_def distinct_map inj_on_def)
  qed
  moreover have "distinct xs" using assms(1) by (simp add: dated_valid_def distinct_map)
  ultimately show ?thesis by (simp add: strict_sorted_iff sort_by_key_sorted distinct_map)
qed

interpretation dated: dated_store key "dated_find key" "dated_for key" "dated_between key"
  "dated_save key" "dated_delete key" "dated_valid key"
  for key :: "'a \<Rightarrow> uint \<times> int"
proof (unfold_locales, goal_cases)
  case (4 s u' d' u d)
  then have "dated_valid key (filter (\<lambda>x. key x \<noteq> (u, d)) s)"
    by (simp add: dated_valid_def distinct_map inj_on_def)
  then have "dated_find key u' d' (filter (\<lambda>x. key x \<noteq> (u, d)) s) = Some x \<longleftrightarrow>
      (if (u', d') = (u, d) then None else dated_find key u' d' s) = Some x" for x
    using 4 by (auto simp: dated_find_in)
  then show ?case using 4 by (simp only: dated_delete_filter) (metis not_None_eq)
next
  case (6 s x u)
  then show ?case by (cases "key x") (auto simp: dated_for_def dated_find_in)
next
  case (8 s u)
  then show ?case unfolding dated_for_def by (rule dated_ordered [where u = u]) simp_all
next
  case (9 s u "from" to)
  then show ?case unfolding dated_between_def by (rule dated_ordered [where u = u]) simp_all
next
  case (5 s u d)
  then show ?case by (simp add: dated_delete_filter) (simp add: dated_valid_def distinct_map inj_on_def)
qed (auto simp: dated_find_save dated_valid_save dated_delete_found dated_for_def dated_between_def)

end
