(* ===== verification/Timesheets.thy ===== *)
theory Timesheets
  imports Store Operational GoTime
begin

text \<open>
  Time entries: \<^verbatim>\<open>domain/model/timesheet_model.go\<close> and \<^verbatim>\<open>revision_model.go\<close>, the filter of
  \<^verbatim>\<open>domain/repository/timesheet_repository.go\<close> and the in-memory repository
  \<^verbatim>\<open>persistence/memory/timesheet.go\<close> with its revisions.

  The repository's operations take the moment they run at; the case folding of a search is
  Unicode's and an argument.  A slice taken out of its bounds, which ends a request with an
  internal error, is the error \<open>Internal\<close>.
\<close>

record timesheet =
  ts_ID :: uint
  ts_UserID :: uint
  ts_ProjectID :: "uint option"
  ts_Date :: gotime
  ts_DurationHours :: float64
  ts_Description :: "gostring option"
  ts_CreatedAt :: gotime
  ts_UpdatedAt :: gotime
  ts_RecordedBy :: "uint option"
  ts_UpdatedBy :: "uint option"

definition HasProject :: "timesheet \<Rightarrow> bool" where
  "HasProject t = (case ts_ProjectID t of None \<Rightarrow> False | Some p \<Rightarrow> p \<noteq> 0)"

record revision =
  rv_ID :: uint
  rv_TimesheetID :: uint
  rv_UserID :: uint
  rv_Date :: gotime
  rv_DurationHours :: float64
  rv_ProjectID :: "uint option"
  rv_Description :: "gostring option"
  rv_ReplacedAt :: gotime
  rv_ReplacedBy :: "uint option"

definition RevisionOf :: "timesheet \<Rightarrow> gotime \<Rightarrow> revision" where
  "RevisionOf entry replacedAt =
     \<lparr>rv_ID = 0, rv_TimesheetID = ts_ID entry, rv_UserID = ts_UserID entry, rv_Date = ts_Date entry,
      rv_DurationHours = ts_DurationHours entry, rv_ProjectID = ts_ProjectID entry,
      rv_Description = ts_Description entry, rv_ReplacedAt = replacedAt, rv_ReplacedBy = None\<rparr>"

definition Says :: "timesheet \<Rightarrow> timesheet \<Rightarrow> bool" where
  "Says t other \<longleftrightarrow> CalendarDay (ts_Date t) = CalendarDay (ts_Date other)
     \<and> feq (ts_DurationHours t) (ts_DurationHours other) \<and> ts_UserID t = ts_UserID other
     \<and> ts_ProjectID t = ts_ProjectID other \<and> ts_Description t = ts_Description other"

section \<open>The filter\<close>

record filter =
  fi_UserID :: uint
  fi_ProjectID :: uint
  fi_StartDate :: "gotime option"
  fi_EndDate :: "gotime option"
  fi_WithoutProject :: bool
  fi_Search :: gostring
  fi_Limit :: uint
  fi_Offset :: uint

definition all_of :: "uint \<Rightarrow> filter" where
  "all_of user = \<lparr>fi_UserID = user, fi_ProjectID = 0, fi_StartDate = None, fi_EndDate = None,
     fi_WithoutProject = False, fi_Search = [], fi_Limit = 0, fi_Offset = 0\<rparr>"

definition over_days :: "uint \<Rightarrow> gotime \<Rightarrow> gotime \<Rightarrow> filter" where
  "over_days user from to = (all_of user)\<lparr>fi_StartDate := Some from, fi_EndDate := Some to\<rparr>"

definition OverWholeDays :: "filter \<Rightarrow> filter" where
  "OverWholeDays f = f
     \<lparr>fi_StartDate := map_option (\<lambda>t. midnight (CalendarDay t)) (fi_StartDate f),
      fi_EndDate := map_option (\<lambda>t. (midnight (CalendarDay t + 1))\<lparr>ns := ns (midnight (CalendarDay t + 1)) - 10 ^ 9\<rparr>)
        (fi_EndDate f)\<rparr>"

definition matchesFilter :: "(gostring \<Rightarrow> gostring) \<Rightarrow> timesheet \<Rightarrow> filter \<Rightarrow> bool" where
  "matchesFilter lower ts f =
     (if fi_UserID f \<noteq> 0 \<and> ts_UserID ts \<noteq> fi_UserID f then False
      else if fi_ProjectID f \<noteq> 0 \<and> (\<not> HasProject ts \<or> ts_ProjectID ts \<noteq> Some (fi_ProjectID f)) then False
      else if fi_WithoutProject f \<and> HasProject ts then False
      else if (case fi_StartDate f of None \<Rightarrow> False | Some s \<Rightarrow> ns (ts_Date ts) < ns s) then False
      else if (case fi_EndDate f of None \<Rightarrow> False | Some e \<Rightarrow> ns (ts_Date ts) > ns e) then False
      else if fi_Search f \<noteq> [] \<and> (case ts_Description ts of None \<Rightarrow> True
              | Some d \<Rightarrow> \<not> contains_at (lower d) (lower (fi_Search f))) then False
      else True)"

section \<open>The repository\<close>

record timesheet_repo =
  tr_store :: "timesheet store"
  tr_revisions :: "revision list"
  tr_nextRevision :: uint

definition new_timesheets :: timesheet_repo where
  "new_timesheets = \<lparr>tr_store = newStore ''timesheet'', tr_revisions = [], tr_nextRevision = 0\<rparr>"

definition ts_with_id :: "gotime \<Rightarrow> uint \<Rightarrow> timesheet \<Rightarrow> timesheet" where
  "ts_with_id now i t = t\<lparr>ts_ID := i, ts_CreatedAt := now, ts_UpdatedAt := now\<rparr>"

definition stamp :: "gotime \<Rightarrow> gotime" where
  "stamp now = truncate_second (in_zone now UTC)"

definition ts_Save :: "gotime \<Rightarrow> timesheet \<Rightarrow> timesheet_repo \<Rightarrow> timesheet \<times> timesheet_repo" where
  "ts_Save now t r =
     (let (stored, s) = store_add (ts_with_id (stamp now)) t (tr_store r) in (stored, r\<lparr>tr_store := s\<rparr>))"

definition ts_GetByID :: "uint \<Rightarrow> timesheet_repo \<Rightarrow> timesheet result" where
  "ts_GetByID i r = store_get i (tr_store r)"

text \<open>Newest day first, and within a day the entry booked later first.\<close>

definition newest_first :: "timesheet \<Rightarrow> timesheet \<Rightarrow> bool" where
  "newest_first a b \<longleftrightarrow> ns (ts_Date b) < ns (ts_Date a)
     \<or> ns (ts_Date a) = ns (ts_Date b) \<and> \<not> ts_ID b > ts_ID a"

definition page :: "'a list \<Rightarrow> uint \<Rightarrow> uint \<Rightarrow> 'a list result" where
  "page xs limit offset =
     (if limit = 0 then Inr xs
      else if offset \<ge> length xs then Inr []
      else let end = min ((offset + limit) mod 2 ^ 64) (length xs)
           in if offset \<le> end then Inr (take (end - offset) (drop offset xs)) else Inl Internal)"

definition matching :: "(gostring \<Rightarrow> gostring) \<Rightarrow> filter \<Rightarrow> timesheet_repo \<Rightarrow> timesheet list" where
  "matching lower f r =
     (let f' = OverWholeDays f in List.filter (\<lambda>t. matchesFilter lower t f') (store_all (tr_store r)))"

definition ts_GetByFilter :: "(gostring \<Rightarrow> gostring) \<Rightarrow> filter \<Rightarrow> timesheet_repo \<Rightarrow> timesheet list result" where
  "ts_GetByFilter lower f r =
     page (sort_by newest_first (matching lower f r)) (fi_Limit f) (fi_Offset f)"

definition ts_CountByFilter :: "(gostring \<Rightarrow> gostring) \<Rightarrow> filter \<Rightarrow> timesheet_repo \<Rightarrow> uint" where
  "ts_CountByFilter lower f r = length (matching lower f r)"

fun add_hours :: "timesheet list \<Rightarrow> uint \<Rightarrow> (uint \<times> float64) list \<Rightarrow> (uint \<times> float64) list" where
  "add_hours [] user totals = totals"
| "add_hours (t # ts) user totals =
     (case ts_ProjectID t of
        Some p \<Rightarrow>
          if user = 0 \<or> ts_UserID t = user
          then add_hours ts user
                 (AList.update p (fadd (case map_of totals p of None \<Rightarrow> Fin 0 | Some h \<Rightarrow> h) (ts_DurationHours t)) totals)
          else add_hours ts user totals
      | None \<Rightarrow> add_hours ts user totals)"

definition ts_HoursByProject :: "uint \<Rightarrow> timesheet_repo \<Rightarrow> (uint \<times> float64) list" where
  "ts_HoursByProject user r = add_hours (store_all (tr_store r)) user []"

fun first_date :: "uint \<Rightarrow> timesheet list \<Rightarrow> gotime \<Rightarrow> gotime" where
  "first_date user [] first = first"
| "first_date user (t # ts) first =
     first_date user ts
       (if ts_UserID t = user \<and> (is_zero_time first \<or> ns (ts_Date t) < ns first) then ts_Date t else first)"

definition ts_FirstDay :: "uint \<Rightarrow> timesheet_repo \<Rightarrow> day \<times> bool" where
  "ts_FirstDay user r =
     (let first = first_date user (store_all (tr_store r)) zero_time in (CalendarDay first, \<not> is_zero_time first))"

definition ts_Update :: "gotime \<Rightarrow> timesheet \<Rightarrow> timesheet_repo \<Rightarrow> timesheet result \<times> timesheet_repo" where
  "ts_Update now t r =
     (let corrected = t\<lparr>ts_UpdatedAt := stamp now\<rparr>
      in case store_find (ts_ID t) (tr_store r) of
           None \<Rightarrow> (Inl (NotFound (st_entity (tr_store r)) (format_uint (ts_ID t))), r)
         | Some before \<Rightarrow>
             let kept = corrected\<lparr>ts_CreatedAt := ts_CreatedAt before, ts_RecordedBy := ts_RecordedBy before\<rparr>;
                 stored = (if Says before t then kept\<lparr>ts_UpdatedBy := ts_UpdatedBy before\<rparr> else kept);
                 (updated, s) = store_update (ts_ID t) stored (tr_store r)
             in if Says before t then (updated, r\<lparr>tr_store := s\<rparr>)
                else let n = uint_succ (tr_nextRevision r)
                     in (updated, r\<lparr>tr_store := s, tr_nextRevision := n,
                           tr_revisions := tr_revisions r @
                             [(RevisionOf before (stamp now))\<lparr>rv_ID := n, rv_ReplacedBy := ts_UpdatedBy t\<rparr>]\<rparr>))"

definition ts_Delete :: "uint \<Rightarrow> timesheet_repo \<Rightarrow> unit result \<times> timesheet_repo" where
  "ts_Delete i r =
     (case store_delete i (tr_store r) of
        (Inl e, s) \<Rightarrow> (Inl e, r\<lparr>tr_store := s\<rparr>)
      | (Inr u, s) \<Rightarrow>
          (Inr u, r\<lparr>tr_store := s,
                    tr_revisions := List.filter (\<lambda>v. rv_TimesheetID v \<noteq> i) (tr_revisions r)\<rparr>))"

definition latest_first :: "revision \<Rightarrow> revision \<Rightarrow> bool" where
  "latest_first a b \<longleftrightarrow> ns (rv_ReplacedAt b) < ns (rv_ReplacedAt a)
     \<or> ns (rv_ReplacedAt a) = ns (rv_ReplacedAt b) \<and> int (rv_ID b) - int (rv_ID a) \<le> 0"

definition ts_Revisions :: "uint \<Rightarrow> timesheet_repo \<Rightarrow> revision list" where
  "ts_Revisions i r = sort_by latest_first (List.filter (\<lambda>v. rv_TimesheetID v = i) (tr_revisions r))"

fun ts_SaveMany :: "gotime \<Rightarrow> timesheet list \<Rightarrow> timesheet_repo \<Rightarrow> timesheet_repo" where
  "ts_SaveMany now [] r = r"
| "ts_SaveMany now (t # ts) r = ts_SaveMany now ts (snd (ts_Save now t r))"

section \<open>The store's laws for entries\<close>

definition ts_keyed :: "timesheet store \<Rightarrow> bool" where
  "ts_keyed s \<longleftrightarrow> (\<forall>i x. store_find i s = Some x \<longrightarrow> ts_ID x = i)"

interpretation entries: keyed_store store_find store_all "store_add (ts_with_id now)" store_update store_delete
  store_valid store_room st_nextID "ts_with_id now" ts_ID ts_keyed
  for now :: gotime
  by unfold_locales (simp_all add: ts_with_id_def ts_keyed_def)

interpretation newest: comparison newest_first
  by unfold_locales (auto simp: newest_first_def)

interpretation latest: comparison latest_first
  by unfold_locales (auto simp: latest_first_def)

text \<open>Every entry is kept under its id, every revision belongs to an entry there is and has an id
  of its own, and there is room for another.\<close>

definition repo_valid :: "timesheet_repo \<Rightarrow> bool" where
  "repo_valid r \<longleftrightarrow> store_valid (tr_store r) \<and> ts_keyed (tr_store r)
     \<and> (\<forall>v \<in> set (tr_revisions r). store_find (rv_TimesheetID v) (tr_store r) \<noteq> None \<and> rv_ID v \<le> tr_nextRevision r)
     \<and> distinct (map rv_ID (tr_revisions r))"

definition repo_room :: "timesheet_repo \<Rightarrow> bool" where
  "repo_room r \<longleftrightarrow> store_room (tr_store r) \<and> tr_nextRevision r < uint_max"

lemma ts_Save_store: "tr_store (snd (ts_Save now t r)) = snd (store_add (ts_with_id (stamp now)) t (tr_store r))"
  by (simp add: ts_Save_def case_prod_beta)

lemma ts_Save_simps [simp]:
  "tr_revisions (snd (ts_Save now t r)) = tr_revisions r"
  "tr_nextRevision (snd (ts_Save now t r)) = tr_nextRevision r"
  "fst (ts_Save now t r) = ts_with_id (stamp now) (st_nextID (tr_store r)) t"
  by (simp_all add: ts_Save_def case_prod_beta store_add_def Let_def)

lemma ts_Save_valid:
  assumes "repo_valid r" "repo_room r"
  shows "repo_valid (snd (ts_Save now t r))"
  using assms
  by (auto simp: repo_valid_def repo_room_def ts_Save_store mem.valid_add entries.keyed_add store_find_after)

lemma ts_Update_found:
  assumes "store_find (ts_ID t) (tr_store r) = Some before"
  obtains stored where
    "ts_Update now t r = (Inr stored,
       r\<lparr>tr_store := snd (store_update (ts_ID t) stored (tr_store r)),
         tr_nextRevision := (if Says before t then tr_nextRevision r else uint_succ (tr_nextRevision r)),
         tr_revisions := tr_revisions r @ (if Says before t then [] else
           [(RevisionOf before (stamp now))\<lparr>rv_ID := uint_succ (tr_nextRevision r), rv_ReplacedBy := ts_UpdatedBy t\<rparr>])\<rparr>)"
    "stored = t\<lparr>ts_UpdatedAt := stamp now, ts_CreatedAt := ts_CreatedAt before, ts_RecordedBy := ts_RecordedBy before,
        ts_UpdatedBy := (if Says before t then ts_UpdatedBy before else ts_UpdatedBy t)\<rparr>"
  using assms by (auto simp: ts_Update_def Let_def store_update_def intro!: that)

lemma ts_Update_missing:
  "store_find (ts_ID t) (tr_store r) = None \<Longrightarrow>
     ts_Update now t r = (Inl (NotFound (st_entity (tr_store r)) (format_uint (ts_ID t))), r)"
  by (simp add: ts_Update_def)

lemma ts_Update_keeps:
  "store_find i (tr_store r) \<noteq> None \<Longrightarrow> store_find i (tr_store (snd (ts_Update now t r))) \<noteq> None"
  by (auto simp: ts_Update_def Let_def case_prod_beta store_find_after split: option.split)

lemma ts_Update_valid:
  assumes "repo_valid r" "repo_room r"
  shows "repo_valid (snd (ts_Update now t r))"
proof (cases "store_find (ts_ID t) (tr_store r)")
  case None
  then show ?thesis using assms by (simp add: ts_Update_missing)
next
  case (Some before)
  obtain stored where u: "snd (ts_Update now t r) =
       r\<lparr>tr_store := snd (store_update (ts_ID t) stored (tr_store r)),
         tr_nextRevision := (if Says before t then tr_nextRevision r else uint_succ (tr_nextRevision r)),
         tr_revisions := tr_revisions r @ (if Says before t then [] else
           [(RevisionOf before (stamp now))\<lparr>rv_ID := uint_succ (tr_nextRevision r), rv_ReplacedBy := ts_UpdatedBy t\<rparr>])\<rparr>"
    and i: "ts_ID stored = ts_ID t"
    by (rule ts_Update_found [OF Some, of now]) simp
  have b: "ts_ID before = ts_ID t" using assms(1) Some by (auto simp: repo_valid_def ts_keyed_def)
  show ?thesis
    using assms b Some i unfolding u
    by (auto simp: repo_valid_def repo_room_def mem.valid_update entries.keyed_update store_find_after RevisionOf_def)
qed

lemma ts_Delete_valid: "repo_valid r \<Longrightarrow> repo_valid (snd (ts_Delete i r))"
proof -
  assume r: "repo_valid r"
  show "repo_valid (snd (ts_Delete i r))"
  proof (cases "store_find i (tr_store r)")
    case None
    then show ?thesis using r by (simp add: ts_Delete_def store_delete_def)
  next
    case (Some x)
    then have d: "snd (ts_Delete i r) = r\<lparr>tr_store := snd (store_delete i (tr_store r)),
        tr_revisions := List.filter (\<lambda>v. rv_TimesheetID v \<noteq> i) (tr_revisions r)\<rparr>"
      by (simp add: ts_Delete_def store_delete_def)
    show ?thesis unfolding d using r
      by (auto simp: repo_valid_def mem.valid_delete entries.keyed_delete store_find_after distinct_map_filter)
  qed
qed

section \<open>Ranges of days\<close>

text \<open>A range asks for calendar days: of the entries stored under a day, a range gives exactly
  those of the days from the one its start shows on its own clock to the one its end shows,
  whatever the two instants' zones and times of day.\<close>

lemma range_is_days:
  assumes "ts_Date t = midnight d"
  shows "matchesFilter lower t (OverWholeDays (over_days user from to)) \<longleftrightarrow>
    (user = 0 \<or> ts_UserID t = user) \<and> CalendarDay from \<le> d \<and> d \<le> CalendarDay to"
proof -
  have "(d * 86400 * 10 ^ 9 < CalendarDay from * 86400 * 10 ^ 9) \<longleftrightarrow> d < CalendarDay from" by simp
  moreover have "(d * 86400 * 10 ^ 9 > (CalendarDay to + 1) * 86400 * 10 ^ 9 - 10 ^ 9) \<longleftrightarrow> d > CalendarDay to"
    by auto
  ultimately show ?thesis
    using assms by (auto simp: matchesFilter_def OverWholeDays_def over_days_def all_of_def)
qed

definition example_zone :: location where
  "example_zone = \<lparr>base_offset = - 25200, transitions = []\<rparr>"

definition example_entry :: timesheet where
  "example_entry = \<lparr>ts_ID = 1, ts_UserID = 7, ts_ProjectID = Some 3, ts_Date = midnight 20000,
     ts_DurationHours = Fin 2, ts_Description = None, ts_CreatedAt = midnight 20000,
     ts_UpdatedAt = midnight 20000, ts_RecordedBy = None, ts_UpdatedBy = None\<rparr>"

theorem range_is_days_witness:
  "matchesFilter (\<lambda>s. s) example_entry
     (OverWholeDays (over_days 7 \<lparr>ns = (20000 * 86400 + 25200) * 10 ^ 9, loc = example_zone\<rparr>
                                 \<lparr>ns = (20001 * 86400 + 3600) * 10 ^ 9, loc = example_zone\<rparr>))"
  by (subst range_is_days [where d = 20000])
    (simp_all add: example_entry_def CalendarDay_def local_day_def unix_def offset_at_def lookup_def example_zone_def)

section \<open>Pages\<close>

lemma page_within: "0 < limit \<Longrightarrow> offset + limit < 2 ^ 64 \<Longrightarrow> page xs limit offset = Inr (take limit (drop offset xs))"
  by (auto simp: page_def Let_def min_def)

lemma pages_prefix:
  assumes "0 < limit" "n * limit < 2 ^ 64"
  shows "concat (map (\<lambda>k. projr (page xs limit (k * limit))) [0..<n]) = take (n * limit) xs"
  using assms
proof (induction n)
  case (Suc n)
  then have "page xs limit (n * limit) = Inr (take limit (drop (n * limit) xs))"
    by (intro page_within) (simp_all add: add.commute)
  then show ?case using Suc by (simp add: take_add add.commute [of limit])
qed simp

lemma filter_paging [simp]:
  "OverWholeDays (f\<lparr>fi_Limit := l\<rparr>) = (OverWholeDays f)\<lparr>fi_Limit := l\<rparr>"
  "OverWholeDays (f\<lparr>fi_Offset := l\<rparr>) = (OverWholeDays f)\<lparr>fi_Offset := l\<rparr>"
  "matchesFilter lower t (f\<lparr>fi_Limit := l\<rparr>) = matchesFilter lower t f"
  "matchesFilter lower t (f\<lparr>fi_Offset := l\<rparr>) = matchesFilter lower t f"
  by (simp_all add: OverWholeDays_def matchesFilter_def split: option.split)

text \<open>C28: paging shows every matching entry exactly once: the pages of a listing, read one after
  the other until their number covers the count, put together give the whole listing in order,
  which holds as many entries as the count says - newest day first, none twice.\<close>

theorem pages_cover:
  assumes "repo_valid r" "0 < limit" "ts_CountByFilter lower f r \<le> n * limit" "n * limit < 2 ^ 64"
  shows "concat (map (\<lambda>k. projr (ts_GetByFilter lower (f\<lparr>fi_Limit := limit, fi_Offset := k * limit\<rparr>) r)) [0..<n])
      = projr (ts_GetByFilter lower (f\<lparr>fi_Limit := 0\<rparr>) r)
    \<and> length (projr (ts_GetByFilter lower (f\<lparr>fi_Limit := 0\<rparr>) r)) = ts_CountByFilter lower f r
    \<and> sorted_wrt newest_first (projr (ts_GetByFilter lower (f\<lparr>fi_Limit := 0\<rparr>) r))
    \<and> distinct (map ts_ID (projr (ts_GetByFilter lower (f\<lparr>fi_Limit := 0\<rparr>) r)))"
proof -
  have m: "matching lower (f\<lparr>fi_Limit := l, fi_Offset := o'\<rparr>) r = matching lower f r"
    "matching lower (f\<lparr>fi_Limit := l\<rparr>) r = matching lower f r" for l o'
    by (simp_all add: matching_def)
  let ?all = "sort_by newest_first (matching lower f r)"
  have "concat (map (\<lambda>k. projr (page ?all limit (k * limit))) [0..<n]) = ?all"
    unfolding pages_prefix [OF assms(2,4)] using assms(3) by (simp add: ts_CountByFilter_def)
  moreover have "distinct (map ts_ID ?all)"
  proof -
    have "distinct (map ts_ID (store_all (tr_store r)))"
      using assms(1) unfolding repo_valid_def store_all_def
      by (intro map_filter_ident) (auto simp: ts_keyed_def)
    then have "distinct (map ts_ID (matching lower f r))"
      by (simp add: matching_def Let_def distinct_map_filter)
    then show ?thesis
      by (metis distinct_map distinct_sort_by set_sort_by)
  qed
  ultimately show ?thesis
    by (simp add: ts_GetByFilter_def m page_def ts_CountByFilter_def newest.sorted_sort)
qed

definition example_repo :: timesheet_repo where
  "example_repo = snd (ts_Save (midnight 20000) (example_entry\<lparr>ts_Date := midnight 19999\<rparr>)
     (snd (ts_Save (midnight 20000) example_entry new_timesheets)))"

lemma new_timesheets_valid: "repo_valid new_timesheets" "repo_room new_timesheets"
  by (simp_all add: new_timesheets_def repo_valid_def repo_room_def ts_keyed_def store_room_def newStore_def uint_max_def store_valid_def store_find_def)

lemma example_repo_valid: "repo_valid example_repo"
proof -
  have "repo_room (snd (ts_Save (midnight 20000) example_entry new_timesheets))"
    by (simp add: repo_room_def ts_Save_store store_room_def)
      (simp add: new_timesheets_def newStore_def uint_max_def uint_succ_def)
  then show ?thesis
    unfolding example_repo_def by (intro ts_Save_valid new_timesheets_valid)
qed

lemma example_entries:
  "store_all (tr_store example_repo) =
     [ts_with_id (stamp (midnight 20000)) 1 example_entry,
      ts_with_id (stamp (midnight 20000)) 2 (example_entry\<lparr>ts_Date := midnight 19999\<rparr>)]"
  by (simp only: example_repo_def ts_Save_store store_all_def store_next_after new_timesheets_def
      timesheet_repo.simps, simp add: newStore_def, simp add: uint_succ_def, simp add: upt_rec,
      simp add: List.map_filter_def store_find_after, simp add: newStore_def uint_succ_def, simp only: numeral_2_eq_2)

theorem pages_cover_witness:
  "length (projr (ts_GetByFilter (\<lambda>s. s) ((all_of 7)\<lparr>fi_Limit := 0\<rparr>) example_repo)) = 2"
proof -
  have c: "ts_CountByFilter (\<lambda>s. s) (all_of 7) example_repo = 2"
    by (simp add: ts_CountByFilter_def matching_def example_entries matchesFilter_def all_of_def OverWholeDays_def
        ts_with_id_def example_entry_def)
  show ?thesis
    using pages_cover [OF example_repo_valid, of 1 "\<lambda>s. s" "all_of 7" 2] c by simp
qed

section \<open>Corrections\<close>

text \<open>A correction replaces what an entry says and keeps when and by whom it was booked; what it
  said before is kept as a revision, at the moment of the correction and with the name of who made
  it, exactly when it says something else now - and then nothing else about the repository moves.\<close>

lemma correction_keeps_history:
  assumes "repo_valid r" "store_find (ts_ID t) (tr_store r) = Some before" "ts_Update now t r = (res, r')"
  shows "\<exists>after. res = Inr after \<and> store_find (ts_ID t) (tr_store r') = Some after
    \<and> ts_Date after = ts_Date t \<and> ts_DurationHours after = ts_DurationHours t
    \<and> ts_ProjectID after = ts_ProjectID t \<and> ts_Description after = ts_Description t
    \<and> ts_CreatedAt after = ts_CreatedAt before \<and> ts_RecordedBy after = ts_RecordedBy before
    \<and> ts_UpdatedBy after = (if Says before t then ts_UpdatedBy before else ts_UpdatedBy t)
    \<and> (\<forall>i. i \<noteq> ts_ID t \<longrightarrow> store_find i (tr_store r') = store_find i (tr_store r))
    \<and> tr_revisions r' = tr_revisions r @ (if Says before t then [] else
        [\<lparr>rv_ID = uint_succ (tr_nextRevision r), rv_TimesheetID = ts_ID t, rv_UserID = ts_UserID before,
          rv_Date = ts_Date before, rv_DurationHours = ts_DurationHours before,
          rv_ProjectID = ts_ProjectID before, rv_Description = ts_Description before,
          rv_ReplacedAt = stamp now, rv_ReplacedBy = ts_UpdatedBy t\<rparr>])"
proof -
  have "ts_ID before = ts_ID t" using assms(1,2) by (auto simp: repo_valid_def ts_keyed_def)
  then show ?thesis
    using assms(2,3) by (elim ts_Update_found [of t r before now]) (auto simp: assms(2) store_find_after RevisionOf_def)
qed

definition corrected_entry :: timesheet where
  "corrected_entry = example_entry\<lparr>ts_DurationHours := Fin 3\<rparr>"

theorem correction_keeps_history_witness:
  "map rv_DurationHours (tr_revisions (snd (ts_Update (midnight 20005) corrected_entry example_repo))) = [Fin 2]"
proof -
  have f: "store_find (ts_ID corrected_entry) (tr_store example_repo) = Some (ts_with_id (stamp (midnight 20000)) 1 example_entry)"
    by (simp add: corrected_entry_def example_entry_def example_repo_def ts_Save_store store_find_after
        new_timesheets_def newStore_def uint_succ_def)
  have n: "tr_revisions example_repo = []" by (simp add: example_repo_def new_timesheets_def)
  have s: "\<not> Says (ts_with_id (stamp (midnight 20000)) 1 example_entry) corrected_entry"
    by (simp add: Says_def corrected_entry_def example_entry_def ts_with_id_def)
  from correction_keeps_history [OF example_repo_valid f, of "midnight 20005"] s n show ?thesis
    by (cases "ts_Update (midnight 20005) corrected_entry example_repo")
      (auto simp: ts_with_id_def example_entry_def)
qed

text \<open>Deleting an entry takes its history with it and nothing else: no revision outlives its
  entry and every other entry keeps its own.\<close>

lemma delete_takes_history:
  assumes "repo_valid r" "ts_Delete i r = (Inr (), r')"
  shows "store_find i (tr_store r') = None \<and> ts_Revisions i r' = []
    \<and> (\<forall>j. j \<noteq> i \<longrightarrow> store_find j (tr_store r') = store_find j (tr_store r) \<and> ts_Revisions j r' = ts_Revisions j r)"
proof -
  obtain x where "store_find i (tr_store r) = Some x"
    using assms(2) by (auto simp: ts_Delete_def store_delete_def split: option.splits)
  then have r': "r' = r\<lparr>tr_store := snd (store_delete i (tr_store r)),
        tr_revisions := List.filter (\<lambda>v. rv_TimesheetID v \<noteq> i) (tr_revisions r)\<rparr>"
    using assms(2) by (auto simp: ts_Delete_def store_delete_def)
  have "List.filter (\<lambda>v. rv_TimesheetID v = j) (List.filter (\<lambda>v. rv_TimesheetID v \<noteq> i) vs)
      = (if j = i then [] else List.filter (\<lambda>v. rv_TimesheetID v = j) vs)" for j and vs :: "revision list"
    by (induction vs) auto
  then show ?thesis by (simp add: r' store_find_after ts_Revisions_def)
qed

theorem delete_takes_history_witness:
  "ts_Revisions 1 (snd (ts_Delete 1 (snd (ts_Update (midnight 20005) corrected_entry example_repo)))) = []"
proof -
  let ?r = "snd (ts_Update (midnight 20005) corrected_entry example_repo)"
  have "repo_room example_repo"
    by (simp add: example_repo_def repo_room_def ts_Save_store store_room_def)
      (simp add: new_timesheets_def newStore_def uint_max_def uint_succ_def)
  then have v: "repo_valid ?r" by (intro ts_Update_valid example_repo_valid)
  have "store_find 1 (tr_store ?r) \<noteq> None"
    by (intro ts_Update_keeps)
      (simp add: example_repo_def ts_Save_store store_find_after new_timesheets_def newStore_def uint_succ_def)
  then have "fst (ts_Delete 1 ?r) = Inr ()"
    by (auto simp: ts_Delete_def store_delete_def)
  then show ?thesis using delete_takes_history [OF v, of 1] by (cases "ts_Delete 1 ?r") simp
qed

end
