(* ===== verification/Accounts.thy ===== *)
theory Accounts
  imports Store WorkWeek
begin

text \<open>
  Accounts, rights and roles: \<^verbatim>\<open>domain/model/user_model.go\<close>, \<^verbatim>\<open>permission_model.go\<close>,
  \<^verbatim>\<open>role_model.go\<close> and the in-memory repositories of users and roles in
  \<^verbatim>\<open>persistence/memory/memory.go\<close>.  Comparing two strings without their case
  (\<^verbatim>\<open>strings.EqualFold\<close>) is Unicode's and an argument.
\<close>

section \<open>Users\<close>

record user =
  us_ID :: uint
  us_Name :: gostring
  us_Email :: gostring
  us_RoleID :: uint
  us_RoleName :: gostring
  us_PasswordHash :: gostring
  us_MustChangePassword :: bool
  us_IsSystem :: bool
  us_DailyTargetHours :: float64
  us_MaxDailyHours :: float64
  us_TOTPSecret :: gostring
  us_TOTPEnabled :: bool
  us_Language :: gostring
  us_Theme :: gostring
  us_TourSeen :: bool
  us_Timezone :: gostring
  us_HolidayPlace :: gostring
  us_EveryDayCountsFrom :: "day option"
  us_BalanceUpperLimit :: "float64 option"
  us_BalanceLowerLimit :: "float64 option"
  us_SkipUnbookedReminder :: bool
  us_TimerAlertHours :: "int option"
  us_IsExternal :: bool
  us_ExternalID :: gostring

text \<open>\<^verbatim>\<open>&model.User{}\<close>, every field its zero value.\<close>

definition blank_user :: user where
  "blank_user = \<lparr>us_ID = 0, us_Name = [], us_Email = [], us_RoleID = 0, us_RoleName = [],
     us_PasswordHash = [], us_MustChangePassword = False, us_IsSystem = False,
     us_DailyTargetHours = Fin 0, us_MaxDailyHours = Fin 0, us_TOTPSecret = [], us_TOTPEnabled = False,
     us_Language = [], us_Theme = [], us_TourSeen = False, us_Timezone = [], us_HolidayPlace = [],
     us_EveryDayCountsFrom = None, us_BalanceUpperLimit = None, us_BalanceLowerLimit = None,
     us_SkipUnbookedReminder = False, us_TimerAlertHours = None, us_IsExternal = False, us_ExternalID = []\<rparr>"

definition DefaultDailyTargetHours :: float64 where "DefaultDailyTargetHours = Fin 8"
definition DefaultLanguage :: gostring where "DefaultLanguage = ''en''"
definition ThemeLight :: gostring where "ThemeLight = ''light''"
definition ThemeDark :: gostring where "ThemeDark = ''dark''"
definition SupportedLanguages :: "gostring list" where "SupportedLanguages = [''en'', ''de'']"
definition BalanceAbove :: gostring where "BalanceAbove = ''above''"
definition BalanceBelow :: gostring where "BalanceBelow = ''below''"
definition DefaultTimerAlertHours :: int where "DefaultTimerAlertHours = 10"
definition MaxTimerAlertHours :: int where "MaxTimerAlertHours = 24"

definition IsSupportedTheme :: "gostring \<Rightarrow> bool" where
  "IsSupportedTheme theme \<longleftrightarrow> theme = [] \<or> theme = ThemeLight \<or> theme = ThemeDark"

definition IsSupportedLanguage :: "gostring \<Rightarrow> bool" where
  "IsSupportedLanguage language \<longleftrightarrow> language \<in> set SupportedLanguages"

definition EffectiveLanguage :: "user \<Rightarrow> gostring" where
  "EffectiveLanguage u = (if \<not> IsSupportedLanguage (us_Language u) then DefaultLanguage else us_Language u)"

definition EffectiveDailyTarget :: "user \<Rightarrow> float64" where
  "EffectiveDailyTarget u =
     (if fle (us_DailyTargetHours u) (Fin 0) then DefaultDailyTargetHours else us_DailyTargetHours u)"

definition BalanceOutside :: "user \<Rightarrow> float64 \<Rightarrow> gostring" where
  "BalanceOutside u balance =
     (if (case us_BalanceUpperLimit u of None \<Rightarrow> False | Some l \<Rightarrow> fless l balance) then BalanceAbove
      else if (case us_BalanceLowerLimit u of None \<Rightarrow> False | Some l \<Rightarrow> fless balance l) then BalanceBelow
      else [])"

definition EffectiveTimerAlertHours :: "user \<Rightarrow> int" where
  "EffectiveTimerAlertHours u =
     (case us_TimerAlertHours u of None \<Rightarrow> DefaultTimerAlertHours | Some h \<Rightarrow> h)"

section \<open>Rights\<close>

definition PermUserRead :: gostring where "PermUserRead = ''users:read''"
definition PermUserWrite :: gostring where "PermUserWrite = ''users:write''"
definition PermUserDelete :: gostring where "PermUserDelete = ''users:delete''"
definition PermRoleRead :: gostring where "PermRoleRead = ''roles:read''"
definition PermRoleWrite :: gostring where "PermRoleWrite = ''roles:write''"
definition PermSettingsManage :: gostring where "PermSettingsManage = ''settings:manage''"
definition PermProjectRead :: gostring where "PermProjectRead = ''projects:read''"
definition PermProjectWrite :: gostring where "PermProjectWrite = ''projects:write''"
definition PermProjectDelete :: gostring where "PermProjectDelete = ''projects:delete''"
definition PermProjectArchive :: gostring where "PermProjectArchive = ''projects:archive''"
definition PermTimesheetReadOwn :: gostring where "PermTimesheetReadOwn = ''timesheets:read:own''"
definition PermTimesheetWriteOwn :: gostring where "PermTimesheetWriteOwn = ''timesheets:write:own''"
definition PermTimesheetTransfer :: gostring where "PermTimesheetTransfer = ''timesheets:transfer''"
definition PermReportReadOwn :: gostring where "PermReportReadOwn = ''reports:read:own''"
definition PermSettingsWriteOwn :: gostring where "PermSettingsWriteOwn = ''settings:write:own''"
definition PermTimesheetReadTeam :: gostring where "PermTimesheetReadTeam = ''timesheets:read:team''"
definition PermTimesheetWriteTeam :: gostring where "PermTimesheetWriteTeam = ''timesheets:write:team''"
definition PermProjectWriteTeam :: gostring where "PermProjectWriteTeam = ''projects:write:team''"

lemmas permission_names =
  PermUserRead_def PermUserWrite_def PermUserDelete_def PermRoleRead_def PermRoleWrite_def
  PermSettingsManage_def PermProjectRead_def PermProjectWrite_def PermProjectDelete_def
  PermProjectArchive_def PermTimesheetReadOwn_def PermTimesheetWriteOwn_def PermTimesheetTransfer_def
  PermReportReadOwn_def PermSettingsWriteOwn_def PermTimesheetReadTeam_def PermTimesheetWriteTeam_def
  PermProjectWriteTeam_def

definition TeamPermissions :: "gostring list" where
  "TeamPermissions = [PermTimesheetReadTeam, PermTimesheetWriteTeam, PermProjectWriteTeam]"

definition AllPermissions :: "gostring list" where
  "AllPermissions =
     [PermUserRead, PermUserWrite, PermUserDelete, PermRoleRead, PermRoleWrite, PermSettingsManage,
      PermProjectRead, PermProjectWrite, PermProjectDelete, PermProjectArchive,
      PermTimesheetReadOwn, PermTimesheetWriteOwn, PermTimesheetTransfer, PermReportReadOwn,
      PermSettingsWriteOwn, PermTimesheetReadTeam, PermTimesheetWriteTeam, PermProjectWriteTeam]"

definition SystemAdminPermissions :: "gostring list" where
  "SystemAdminPermissions =
     [PermUserRead, PermUserWrite, PermUserDelete, PermRoleRead, PermRoleWrite, PermSettingsManage]"

definition UserPermissions :: "gostring list" where
  "UserPermissions =
     [PermProjectRead, PermProjectWrite, PermProjectArchive, PermProjectDelete,
      PermTimesheetReadOwn, PermTimesheetWriteOwn, PermTimesheetTransfer,
      PermReportReadOwn, PermSettingsWriteOwn]"

definition UserAdminPermissions :: "gostring list" where
  "UserAdminPermissions = UserPermissions @ SystemAdminPermissions"

definition ManagerPermissions :: "gostring list" where
  "ManagerPermissions = UserPermissions @ TeamPermissions"

definition IsPermission :: "gostring \<Rightarrow> bool" where
  "IsPermission name \<longleftrightarrow> name \<in> set AllPermissions"

section \<open>Roles\<close>

record role =
  ro_ID :: uint
  ro_Name :: gostring
  ro_Description :: gostring
  ro_IsSystem :: bool
  ro_Permissions :: "gostring list"

definition Has :: "role \<Rightarrow> gostring \<Rightarrow> bool" where
  "Has r permission \<longleftrightarrow> permission \<in> set (ro_Permissions r)"

definition RoleAdmin :: gostring where "RoleAdmin = ''admin''"
definition RoleUser :: gostring where "RoleUser = ''user''"
definition RoleUserAdmin :: gostring where "RoleUserAdmin = ''user-admin''"
definition RoleManager :: gostring where "RoleManager = ''manager''"

definition DefaultRoles :: "role list" where
  "DefaultRoles =
     [\<lparr>ro_ID = 0, ro_Name = RoleAdmin,
       ro_Description = ''Administers the installation, its users and their roles'',
       ro_IsSystem = True, ro_Permissions = SystemAdminPermissions\<rparr>,
      \<lparr>ro_ID = 0, ro_Name = RoleUser,
       ro_Description = ''Keeps their own time, projects and calendar'',
       ro_IsSystem = False, ro_Permissions = UserPermissions\<rparr>,
      \<lparr>ro_ID = 0, ro_Name = RoleUserAdmin,
       ro_Description = ''Keeps their own time and projects, and administers the installation'',
       ro_IsSystem = False, ro_Permissions = UserAdminPermissions\<rparr>,
      \<lparr>ro_ID = 0, ro_Name = RoleManager,
       ro_Description = ''Keeps their own time, and the time and projects of the accounts assigned to them'',
       ro_IsSystem = False, ro_Permissions = ManagerPermissions\<rparr>]"

definition IsDefault :: "role \<Rightarrow> bool" where
  "IsDefault r \<longleftrightarrow> list_ex (\<lambda>shipped. ro_Name shipped = ro_Name r) DefaultRoles"

section \<open>The repositories\<close>

type_synonym user_store = "user store"
type_synonym role_store = "role store"

definition user_with_id :: "uint \<Rightarrow> user \<Rightarrow> user" where "user_with_id i u = u\<lparr>us_ID := i\<rparr>"
definition role_with_id :: "uint \<Rightarrow> role \<Rightarrow> role" where "role_with_id i r = r\<lparr>ro_ID := i\<rparr>"

definition withRoleName :: "role_store \<Rightarrow> user \<Rightarrow> user" where
  "withRoleName roles u =
     (if us_RoleID u = 0 then u
      else case store_find (us_RoleID u) roles of None \<Rightarrow> u | Some r \<Rightarrow> u\<lparr>us_RoleName := ro_Name r\<rparr>)"

definition user_Save :: "role_store \<Rightarrow> user \<Rightarrow> user_store \<Rightarrow> user result \<times> user_store" where
  "user_Save roles u s =
     (if \<exists>existing \<in> set (store_all s). us_Email existing = us_Email u
      then (Inl (WithCode Conflictf ''emailTaken'' [VString (us_Email u)]), s)
      else let (stored, s') = store_add user_with_id u s in (Inr (withRoleName roles stored), s'))"

definition user_GetByID :: "role_store \<Rightarrow> uint \<Rightarrow> user_store \<Rightarrow> user result" where
  "user_GetByID roles i s = bind_res (store_get i s) (\<lambda>u. Inr (withRoleName roles u))"

definition user_GetByEmail ::
  "(gostring \<Rightarrow> gostring \<Rightarrow> bool) \<Rightarrow> role_store \<Rightarrow> gostring \<Rightarrow> user_store \<Rightarrow> user result" where
  "user_GetByEmail equal_fold roles email s =
     (case List.find (\<lambda>u. equal_fold (us_Email u) email) (store_all s) of
        Some u \<Rightarrow> Inr (withRoleName roles u)
      | None \<Rightarrow> Inl (NotFound ''user'' email))"

definition user_GetByExternalID :: "role_store \<Rightarrow> gostring \<Rightarrow> user_store \<Rightarrow> user result" where
  "user_GetByExternalID roles externalID s =
     (if externalID = [] then Inl (NotFound ''user'' [])
      else case List.find (\<lambda>u. us_ExternalID u = externalID) (store_all s) of
        Some u \<Rightarrow> Inr (withRoleName roles u)
      | None \<Rightarrow> Inl (NotFound ''user'' externalID))"

definition user_ForgetExternalIDs :: "user_store \<Rightarrow> user_store" where
  "user_ForgetExternalIDs s = s\<lparr>st_items := map (\<lambda>(i, u). (i, u\<lparr>us_ExternalID := []\<rparr>)) (st_items s)\<rparr>"

definition user_GetAll :: "role_store \<Rightarrow> user_store \<Rightarrow> user list" where
  "user_GetAll roles s = map (withRoleName roles) (store_all s)"

definition user_Update :: "role_store \<Rightarrow> user \<Rightarrow> user_store \<Rightarrow> user result \<times> user_store" where
  "user_Update roles u s =
     (case store_update (us_ID u) u s of
        (Inl e, s') \<Rightarrow> (Inl e, s') | (Inr updated, s') \<Rightarrow> (Inr (withRoleName roles updated), s'))"

definition user_Delete :: "uint \<Rightarrow> user_store \<Rightarrow> unit result \<times> user_store" where
  "user_Delete = store_delete"

datatype preference =
  PreferenceTourSeen | PreferenceLanguage | PreferenceTimezone | PreferenceTheme | PreferenceHolidayPlace

text \<open>One field of the record as it is stored, read without the role's name.\<close>

definition change_user :: "uint \<Rightarrow> (user \<Rightarrow> user result) \<Rightarrow> user_store \<Rightarrow> unit result \<times> user_store" where
  "change_user i f s =
     (case store_get i s of
        Inl e \<Rightarrow> (Inl e, s)
      | Inr current \<Rightarrow>
          (case f current of
             Inl e \<Rightarrow> (Inl e, s)
           | Inr changed \<Rightarrow>
               (case store_update i changed s of (Inl e, s') \<Rightarrow> (Inl e, s') | (Inr _, s') \<Rightarrow> (Inr (), s'))))"

definition SetPreference :: "uint \<Rightarrow> preference \<Rightarrow> gostring \<Rightarrow> user_store \<Rightarrow> unit result \<times> user_store" where
  "SetPreference i field value = change_user i (\<lambda>u. case field of
       PreferenceTourSeen \<Rightarrow> Inr (u\<lparr>us_TourSeen := (value = ''true'')\<rparr>)
     | PreferenceLanguage \<Rightarrow> Inr (u\<lparr>us_Language := value\<rparr>)
     | PreferenceTimezone \<Rightarrow> Inr (u\<lparr>us_Timezone := value\<rparr>)
     | PreferenceHolidayPlace \<Rightarrow> Inr (u\<lparr>us_HolidayPlace := value\<rparr>)
     | PreferenceTheme \<Rightarrow> Inl Internal)"

definition SetTOTP :: "uint \<Rightarrow> gostring \<Rightarrow> bool \<Rightarrow> user_store \<Rightarrow> unit result \<times> user_store" where
  "SetTOTP i secret enabled = change_user i (\<lambda>u. Inr (u\<lparr>us_TOTPSecret := secret, us_TOTPEnabled := enabled\<rparr>))"

definition user_SetBalanceLimits ::
  "uint \<Rightarrow> float64 option \<Rightarrow> float64 option \<Rightarrow> user_store \<Rightarrow> unit result \<times> user_store" where
  "user_SetBalanceLimits i upper lower =
     change_user i (\<lambda>u. Inr (u\<lparr>us_BalanceUpperLimit := upper, us_BalanceLowerLimit := lower\<rparr>))"

definition SetReminders :: "uint \<Rightarrow> bool \<Rightarrow> int option \<Rightarrow> user_store \<Rightarrow> unit result \<times> user_store" where
  "SetReminders i skip hours =
     change_user i (\<lambda>u. Inr (u\<lparr>us_SkipUnbookedReminder := skip, us_TimerAlertHours := hours\<rparr>))"

fun seed_roles :: "role list \<Rightarrow> role_store \<Rightarrow> role_store" where
  "seed_roles [] s = s"
| "seed_roles (r # rs) s = seed_roles rs (snd (store_add role_with_id r s))"

definition NewRoleRepository :: role_store where
  "NewRoleRepository = seed_roles DefaultRoles (newStore ''role'')"

definition role_Save :: "role \<Rightarrow> role_store \<Rightarrow> role \<times> role_store" where
  "role_Save = store_add role_with_id"

definition role_GetByName :: "(gostring \<Rightarrow> gostring \<Rightarrow> bool) \<Rightarrow> gostring \<Rightarrow> role_store \<Rightarrow> role result" where
  "role_GetByName equal_fold name s =
     (case List.find (\<lambda>r. equal_fold (ro_Name r) name) (store_all s) of
        Some r \<Rightarrow> Inr r | None \<Rightarrow> Inl (NotFound ''role'' name))"

definition role_Update :: "role \<Rightarrow> role_store \<Rightarrow> role result \<times> role_store" where
  "role_Update r s = store_update (ro_ID r) r s"

definition role_Delete :: "uint \<Rightarrow> role_store \<Rightarrow> unit result \<times> role_store" where
  "role_Delete = store_delete"

definition CountUsers :: "role_store \<Rightarrow> user_store \<Rightarrow> uint \<Rightarrow> nat" where
  "CountUsers roles users roleID = length (filter (\<lambda>u. us_RoleID u = roleID) (user_GetAll roles users))"

section \<open>Laws\<close>

definition users_keyed :: "user_store \<Rightarrow> bool" where
  "users_keyed s \<longleftrightarrow> (\<forall>i x. store_find i s = Some x \<longrightarrow> us_ID x = i)"

definition roles_keyed :: "role_store \<Rightarrow> bool" where
  "roles_keyed s \<longleftrightarrow> (\<forall>i x. store_find i s = Some x \<longrightarrow> ro_ID x = i)"

interpretation users: keyed_store store_find store_all "store_add user_with_id" store_update store_delete
  store_valid store_room st_nextID user_with_id us_ID users_keyed
  by unfold_locales (simp_all add: user_with_id_def users_keyed_def)

interpretation roles: keyed_store store_find store_all "store_add role_with_id" store_update store_delete
  store_valid store_room st_nextID role_with_id ro_ID roles_keyed
  by unfold_locales (simp_all add: role_with_id_def roles_keyed_def)

lemma withRoleName_keeps [simp]:
  "us_ID (withRoleName roles u) = us_ID u" "us_RoleID (withRoleName roles u) = us_RoleID u"
  "us_Email (withRoleName roles u) = us_Email u" "us_IsSystem (withRoleName roles u) = us_IsSystem u"
  "us_MaxDailyHours (withRoleName roles u) = us_MaxDailyHours u"
  "us_DailyTargetHours (withRoleName roles u) = us_DailyTargetHours u"
  "us_EveryDayCountsFrom (withRoleName roles u) = us_EveryDayCountsFrom u"
  "us_HolidayPlace (withRoleName roles u) = us_HolidayPlace u"
  "us_Name (withRoleName roles u) = us_Name u"
  by (simp_all add: withRoleName_def split: option.split)

lemma user_GetByID_Inr: "user_GetByID roles i s = Inr u \<longleftrightarrow>
    (\<exists>v. store_find i s = Some v \<and> u = withRoleName roles v)"
  by (auto simp: user_GetByID_def bind_res_Inr)

lemma user_GetByID_Inl: "user_GetByID roles i s = Inl e \<longleftrightarrow>
    store_find i s = None \<and> e = NotFound (st_entity s) (format_uint i)"
  by (auto simp: user_GetByID_def bind_res_Inl store_get_Inl)

text \<open>The administrative and the personal rights share none, and no shipped role but the manager's
  reaches another account.\<close>

lemma permissions_apart: "set SystemAdminPermissions \<inter> set UserPermissions = {}"
  by (simp add: SystemAdminPermissions_def UserPermissions_def permission_names)

lemma shipped_permissions_known: "r \<in> set DefaultRoles \<Longrightarrow> set (ro_Permissions r) \<subseteq> set AllPermissions"
  by (auto simp: DefaultRoles_def AllPermissions_def SystemAdminPermissions_def UserPermissions_def
      UserAdminPermissions_def ManagerPermissions_def TeamPermissions_def)

lemma team_rights_of_manager_only:
  "r \<in> set DefaultRoles \<Longrightarrow> set (ro_Permissions r) \<inter> set TeamPermissions \<noteq> {} \<Longrightarrow> ro_Name r = RoleManager"
  by (auto simp: DefaultRoles_def SystemAdminPermissions_def UserPermissions_def UserAdminPermissions_def
      ManagerPermissions_def TeamPermissions_def permission_names)

end
