(* ===== verification/Projects.thy ===== *)
theory Projects
  imports Store Operational GoTime
begin

text \<open>
  Projects and running clocks: \<^verbatim>\<open>domain/model/project_model.go\<close>, \<^verbatim>\<open>timer_model.go\<close>, the
  in-memory repositories of both in \<^verbatim>\<open>persistence/memory/memory.go\<close>, and the visibility rule
  of \<^verbatim>\<open>domain/service/visibility.go\<close>.
\<close>

section \<open>Projects\<close>

definition ProjectStatusActive :: gostring where "ProjectStatusActive = ''active''"
definition ProjectStatusArchived :: gostring where "ProjectStatusArchived = ''archived''"
definition ProjectStatusCompleted :: gostring where "ProjectStatusCompleted = ''completed''"

lemmas status_names = ProjectStatusActive_def ProjectStatusArchived_def ProjectStatusCompleted_def

record project =
  pr_ID :: uint
  pr_Name :: gostring
  pr_Description :: "gostring option"
  pr_StartDate :: gotime
  pr_EndDate :: "gotime option"
  pr_Status :: gostring
  pr_OwnerID :: "uint option"
  pr_BudgetHours :: "float64 option"
  pr_Billable :: bool
  pr_HourlyRate :: "int option"
  pr_Currency :: gostring

definition MaxBudgetHours :: float64 where "MaxBudgetHours = Fin 100000"
definition MaxHourlyRate :: int where "MaxHourlyRate = 100000"
definition DefaultCurrency :: gostring where "DefaultCurrency = ''EUR''"

text \<open>\<^verbatim>\<open>int64(math.Round(hours * float64(*p.HourlyRate)))\<close>; the conversion of a value an int64
  does not hold is \<open>None\<close>, which Go leaves to the implementation.\<close>

definition Charge :: "project \<Rightarrow> float64 \<Rightarrow> int option \<times> bool" where
  "Charge p hours =
     (case pr_HourlyRate p of
        None \<Rightarrow> (Some 0, False)
      | Some rate \<Rightarrow>
          if \<not> pr_Billable p then (Some 0, False)
          else (to_int64 (fround (fmul hours (float_of_int rate))), True))"

definition VisibleTo :: "project \<Rightarrow> uint \<Rightarrow> bool" where
  "VisibleTo p userID \<longleftrightarrow> pr_OwnerID p = Some userID"

definition RequireVisible :: "project \<Rightarrow> uint \<Rightarrow> unit result" where
  "RequireVisible p viewer =
     (if viewer = 0 \<or> VisibleTo p viewer then Inr ()
      else Inl (NotFound ''project'' (format_uint (pr_ID p))))"

type_synonym project_store = "project store"

definition project_with_id :: "uint \<Rightarrow> project \<Rightarrow> project" where
  "project_with_id i p = p\<lparr>pr_ID := i\<rparr>"

definition project_Save :: "project \<Rightarrow> project_store \<Rightarrow> project \<times> project_store" where
  "project_Save = store_add project_with_id"

definition project_Update :: "project \<Rightarrow> project_store \<Rightarrow> project result \<times> project_store" where
  "project_Update p s = store_update (pr_ID p) p s"

definition project_Delete :: "uint \<Rightarrow> project_store \<Rightarrow> unit result \<times> project_store" where
  "project_Delete = store_delete"

definition projects_keyed :: "project_store \<Rightarrow> bool" where
  "projects_keyed s \<longleftrightarrow> (\<forall>i x. store_find i s = Some x \<longrightarrow> pr_ID x = i)"

interpretation projects: keyed_store store_find store_all "store_add project_with_id" store_update store_delete
  store_valid store_room st_nextID project_with_id pr_ID projects_keyed
  by unfold_locales (simp_all add: project_with_id_def projects_keyed_def)

lemma RequireVisible_Inr [simp]: "RequireVisible p v = Inr u \<longleftrightarrow> v = 0 \<or> pr_OwnerID p = Some v"
  by (auto simp: RequireVisible_def VisibleTo_def)

lemma RequireVisible_Inl: "RequireVisible p v = Inl e \<longleftrightarrow>
    v \<noteq> 0 \<and> pr_OwnerID p \<noteq> Some v \<and> e = NotFound ''project'' (format_uint (pr_ID p))"
  by (auto simp: RequireVisible_def VisibleTo_def)

section \<open>Running clocks\<close>

record running_timer =
  ti_UserID :: uint
  ti_ProjectID :: "uint option"
  ti_Description :: "gostring option"
  ti_StartedAt :: gotime

definition Elapsed :: "running_timer \<Rightarrow> gotime \<Rightarrow> int" where
  "Elapsed r now = time_sub now (ti_StartedAt r)"

definition HoursElapsed :: "running_timer \<Rightarrow> gotime \<Rightarrow> float64" where
  "HoursElapsed r now = duration_hours (Elapsed r now)"

definition BookingDay :: "running_timer \<Rightarrow> location option \<Rightarrow> day" where
  "BookingDay r zone =
     CalendarDay (in_zone (ti_StartedAt r) (case zone of None \<Rightarrow> UTC | Some z \<Rightarrow> z))"

definition TimerTooShort :: "running_timer \<Rightarrow> gotime \<Rightarrow> bool" where
  "TimerTooShort r now = fless (HoursElapsed r now) MinBookableHours"

definition TimerTooLong :: "running_timer \<Rightarrow> gotime \<Rightarrow> bool" where
  "TimerTooLong r now = fless HoursPerDay (HoursElapsed r now)"

text \<open>The repository: one clock per person.\<close>

type_synonym timer_repo = "(uint \<times> running_timer) list"

definition timer_Get :: "uint \<Rightarrow> timer_repo \<Rightarrow> running_timer option" where
  "timer_Get user r = map_of r user"

definition timer_Start :: "running_timer \<Rightarrow> timer_repo \<Rightarrow> timer_repo" where
  "timer_Start t r = AList.update (ti_UserID t) t r"

definition timer_MoveStart :: "uint \<Rightarrow> gotime \<Rightarrow> timer_repo \<Rightarrow> timer_repo" where
  "timer_MoveStart user at' r =
     (case map_of r user of None \<Rightarrow> r | Some t \<Rightarrow> AList.update user (t\<lparr>ti_StartedAt := at'\<rparr>) r)"

definition timer_Clear :: "uint \<Rightarrow> timer_repo \<Rightarrow> timer_repo" where
  "timer_Clear user r = AList.delete user r"

definition timer_CountByProject :: "uint \<Rightarrow> timer_repo \<Rightarrow> nat" where
  "timer_CountByProject p r = length (filter (\<lambda>(_, t). ti_ProjectID t = Some p) r)"

definition timers_keyed :: "timer_repo \<Rightarrow> bool" where
  "timers_keyed r \<longleftrightarrow> distinct (map fst r) \<and> (\<forall>u t. timer_Get u r = Some t \<longrightarrow> ti_UserID t = u)"

lemma timer_Get_after [simp]:
  "timer_Get u (timer_Start t r) = (if u = ti_UserID t then Some t else timer_Get u r)"
  "timer_Get u (timer_Clear v r) = (if u = v then None else timer_Get u r)"
  "timer_Get u (timer_MoveStart v a r) =
     (if u = v then map_option (\<lambda>t. t\<lparr>ti_StartedAt := a\<rparr>) (timer_Get v r) else timer_Get u r)"
  by (auto simp: timer_Get_def timer_Start_def timer_Clear_def timer_MoveStart_def map_of_update map_of_delete
      split: option.split)

lemma timers_keyed_after:
  "timers_keyed r \<Longrightarrow> timers_keyed (timer_Start t r)"
  "timers_keyed r \<Longrightarrow> timers_keyed (timer_Clear u r)"
  "timers_keyed r \<Longrightarrow> timers_keyed (timer_MoveStart u a r)"
proof -
  have d: "distinct (map fst r) \<Longrightarrow> distinct (map fst (timer_Start t r))"
    "distinct (map fst r) \<Longrightarrow> distinct (map fst (timer_Clear u r))"
    "distinct (map fst r) \<Longrightarrow> distinct (map fst (timer_MoveStart u a r))"
    by (auto simp: timer_Start_def timer_Clear_def timer_MoveStart_def split: option.split)
  show "timers_keyed r \<Longrightarrow> timers_keyed (timer_Start t r)" "timers_keyed r \<Longrightarrow> timers_keyed (timer_Clear u r)"
    "timers_keyed r \<Longrightarrow> timers_keyed (timer_MoveStart u a r)"
    using d by (auto simp: timers_keyed_def split: if_splits)
qed

end
