(* ===== verification/Database.thy ===== *)
theory Database
  imports Timesheets Accounts Projects WorkDay
begin

text \<open>
  What the services work on: the repositories together (\<open>db\<close>) and the surroundings of one
  request (\<open>env\<close>): the clock, the limits in force, and Unicode's case tables.  A service
  operation takes both and gives its result with the repositories as it leaves them, on the error
  paths too.

  \<open>day_key\<close> names the key each dated repository is kept by; the four interpretations of
  \<open>dated_store\<close> are \<^verbatim>\<open>persistence/memory/absence.go\<close>, \<^verbatim>\<open>workday.go\<close>,
  \<^verbatim>\<open>workschedule.go\<close> and \<^verbatim>\<open>vacation.go\<close>.
\<close>

record env =
  now :: gotime
  maxDailyHours :: float64
  the_limits :: "limits option"
  lower :: "gostring \<Rightarrow> gostring"
  equal_fold :: "gostring \<Rightarrow> gostring \<Rightarrow> bool"
  upper :: "gostring \<Rightarrow> gostring"

record db =
  db_users :: user_store
  db_roles :: role_store
  db_projects :: project_store
  db_timesheets :: timesheet_repo
  db_timers :: timer_repo
  db_absences :: "absence list"
  db_workdays :: "work_day list"
  db_schedules :: "work_schedule list"
  db_entitlements :: "vacation_entitlement list"
  db_managers :: "(uint \<times> uint list) list"

definition new_db :: db where
  "new_db = \<lparr>db_users = newStore ''user'', db_roles = NewRoleRepository, db_projects = newStore ''project'',
     db_timesheets = new_timesheets, db_timers = [], db_absences = [], db_workdays = [],
     db_schedules = [], db_entitlements = [], db_managers = []\<rparr>"

definition absence_key :: "absence \<Rightarrow> uint \<times> int" where "absence_key a = (ab_user a, ab_day a)"
definition workday_key :: "work_day \<Rightarrow> uint \<times> int" where "workday_key w = (wd_user w, wd_day w)"
definition schedule_key :: "work_schedule \<Rightarrow> uint \<times> int" where "schedule_key s = (ws_user s, ws_from s)"
definition entitlement_key :: "vacation_entitlement \<Rightarrow> uint \<times> int" where
  "entitlement_key e = (ve_user e, ve_from_year e)"

fun absence_Save :: "absence list \<Rightarrow> absence list \<Rightarrow> absence list" where
  "absence_Save [] r = r"
| "absence_Save (a # as) r = absence_Save as (dated_save absence_key a r)"

definition absence_Between :: "uint \<Rightarrow> day \<Rightarrow> day \<Rightarrow> absence list \<Rightarrow> absence list" where
  "absence_Between = dated_between absence_key"

definition absence_Delete :: "uint \<Rightarrow> day \<Rightarrow> absence list \<Rightarrow> bool \<times> absence list" where
  "absence_Delete = dated_delete absence_key"

definition workday_Between :: "uint \<Rightarrow> day \<Rightarrow> day \<Rightarrow> work_day list \<Rightarrow> work_day list" where
  "workday_Between = dated_between workday_key"

definition workday_Save :: "work_day \<Rightarrow> work_day list \<Rightarrow> work_day list" where
  "workday_Save = dated_save workday_key"

definition workday_Delete :: "uint \<Rightarrow> day \<Rightarrow> work_day list \<Rightarrow> bool \<times> work_day list" where
  "workday_Delete = dated_delete workday_key"

definition schedule_ForUser :: "uint \<Rightarrow> work_schedule list \<Rightarrow> work_schedule list" where
  "schedule_ForUser = dated_for schedule_key"

definition schedule_Save :: "work_schedule \<Rightarrow> work_schedule list \<Rightarrow> work_schedule list" where
  "schedule_Save = dated_save schedule_key"

definition schedule_Delete :: "uint \<Rightarrow> day \<Rightarrow> work_schedule list \<Rightarrow> bool \<times> work_schedule list" where
  "schedule_Delete = dated_delete schedule_key"

definition entitlement_ForUser :: "uint \<Rightarrow> vacation_entitlement list \<Rightarrow> vacation_entitlement list" where
  "entitlement_ForUser = dated_for entitlement_key"

definition entitlement_Save :: "vacation_entitlement \<Rightarrow> vacation_entitlement list \<Rightarrow> vacation_entitlement list" where
  "entitlement_Save = dated_save entitlement_key"

definition entitlement_Delete :: "uint \<Rightarrow> int \<Rightarrow> vacation_entitlement list \<Rightarrow> bool \<times> vacation_entitlement list" where
  "entitlement_Delete = dated_delete entitlement_key"

lemma absence_Save_valid: "dated_valid absence_key r \<Longrightarrow> dated_valid absence_key (absence_Save as r)"
  by (induction as r rule: absence_Save.induct) (auto intro: dated.valid_save)

section \<open>Managers\<close>

text \<open>\<^verbatim>\<open>persistence/memory/managed.go\<close>; the accounts a manager looks after come sorted.\<close>

definition ManagersOf :: "uint \<Rightarrow> (uint \<times> uint list) list \<Rightarrow> uint list" where
  "ManagersOf user r = (case map_of r user of None \<Rightarrow> [] | Some ms \<Rightarrow> ms)"

definition MembersOf :: "uint \<Rightarrow> (uint \<times> uint list) list \<Rightarrow> uint list" where
  "MembersOf manager r = sort (map fst (filter (\<lambda>(_, ms). manager \<in> set ms) r))"

definition managed_SetManagers :: "uint \<Rightarrow> uint list \<Rightarrow> (uint \<times> uint list) list \<Rightarrow> (uint \<times> uint list) list" where
  "managed_SetManagers user ids r =
     (let kept = sort ids in if kept = [] then AList.delete user r else AList.update user kept r)"

lemma ManagersOf_after [simp]:
  "ManagersOf u (managed_SetManagers v ids r) = (if u = v then sort ids else ManagersOf u r)"
  by (auto simp: ManagersOf_def managed_SetManagers_def map_of_update map_of_delete Let_def)

lemma MembersOf_iff:
  "distinct (map fst r) \<Longrightarrow> u \<in> set (MembersOf m r) \<longleftrightarrow> m \<in> set (ManagersOf u r)"
  by (force simp: MembersOf_def ManagersOf_def split: option.split dest: map_of_SomeD)

lemma managers_distinct: "distinct (map fst r) \<Longrightarrow> distinct (map fst (managed_SetManagers v ids r))"
  by (simp add: managed_SetManagers_def Let_def)

section \<open>The state of the repositories\<close>

definition db_valid :: "db \<Rightarrow> bool" where
  "db_valid d \<longleftrightarrow> store_valid (db_users d) \<and> users_keyed (db_users d)
     \<and> store_valid (db_roles d) \<and> roles_keyed (db_roles d)
     \<and> store_valid (db_projects d) \<and> projects_keyed (db_projects d)
     \<and> repo_valid (db_timesheets d) \<and> timers_keyed (db_timers d)
     \<and> dated_valid absence_key (db_absences d) \<and> dated_valid workday_key (db_workdays d)
     \<and> dated_valid schedule_key (db_schedules d) \<and> dated_valid entitlement_key (db_entitlements d)
     \<and> distinct (map fst (db_managers d))"

definition db_room :: "db \<Rightarrow> bool" where
  "db_room d \<longleftrightarrow> store_room (db_users d) \<and> store_room (db_roles d) \<and> store_room (db_projects d)
     \<and> repo_room (db_timesheets d)"

abbreviation entry_at :: "db \<Rightarrow> uint \<Rightarrow> timesheet option" where
  "entry_at d i \<equiv> store_find i (tr_store (db_timesheets d))"

abbreviation user_at :: "db \<Rightarrow> uint \<Rightarrow> user option" where
  "user_at d i \<equiv> store_find i (db_users d)"

abbreviation project_at :: "db \<Rightarrow> uint \<Rightarrow> project option" where
  "project_at d i \<equiv> store_find i (db_projects d)"

lemma seed_roles_valid:
  "store_valid s \<Longrightarrow> roles_keyed s \<Longrightarrow> st_nextID s + length rs < uint_max \<Longrightarrow>
     store_valid (seed_roles rs s) \<and> roles_keyed (seed_roles rs s)"
proof (induction rs s rule: seed_roles.induct)
  case (2 r rs s)
  then have room: "store_room s" by (simp add: store_room_def)
  then show ?case using 2 by (simp add: mem.valid_add roles.keyed_add store_room_def)
qed simp

lemma new_db_valid: "db_valid new_db"
proof -
  have "store_valid NewRoleRepository \<and> roles_keyed NewRoleRepository"
    unfolding NewRoleRepository_def
    by (rule seed_roles_valid) (simp_all add: roles_keyed_def newStore_def DefaultRoles_def uint_max_def
        store_valid_def store_find_def)
  then show ?thesis
    by (simp add: db_valid_def new_db_def new_timesheets_valid users_keyed_def projects_keyed_def timers_keyed_def
        timer_Get_def)
qed

end
