(* ===== verification/Booking.thy ===== *)
theory Booking
  imports Database
begin

text \<open>
  Booking time: \<^verbatim>\<open>application/v1/service/timesheet_application_service.go\<close> - the rules every
  booking is held to, creating, reading, listing, correcting and deleting entries, their history,
  and the names of the managers who acted.
\<close>

section \<open>Commands and results\<close>

record create_timesheet =
  ct_UserID :: uint
  ct_ProjectID :: uint
  ct_Date :: gotime
  ct_DurationHours :: float64
  ct_Description :: "gostring option"
  ct_RecordedBy :: uint

record update_timesheet =
  ut_ID :: uint
  ut_UserID :: "uint option"
  ut_ProjectID :: "uint option"
  ut_Date :: "gotime option"
  ut_DurationHours :: "float64 option"
  ut_Description :: "gostring option"
  ut_UpdatedBy :: uint

record acted_by =
  act_ID :: uint
  act_Name :: gostring

record timesheet_result =
  tr_ID :: uint
  tr_UserID :: uint
  tr_ProjectID :: "uint option"
  tr_Date :: gotime
  tr_DurationHours :: float64
  tr_Description :: "gostring option"
  tr_CreatedAt :: gotime
  tr_UpdatedAt :: gotime
  tr_RecordedBy :: "acted_by option"
  tr_UpdatedBy :: "acted_by option"

definition actedBy :: "uint option \<Rightarrow> acted_by option" where
  "actedBy i = map_option (\<lambda>i. \<lparr>act_ID = i, act_Name = []\<rparr>) i"

definition NewTimesheetResultFromModel :: "timesheet \<Rightarrow> timesheet_result" where
  "NewTimesheetResultFromModel t =
     \<lparr>tr_ID = ts_ID t, tr_UserID = ts_UserID t, tr_ProjectID = ts_ProjectID t, tr_Date = ts_Date t,
      tr_DurationHours = ts_DurationHours t, tr_Description = ts_Description t,
      tr_CreatedAt = ts_CreatedAt t, tr_UpdatedAt = ts_UpdatedAt t,
      tr_RecordedBy = actedBy (ts_RecordedBy t), tr_UpdatedBy = actedBy (ts_UpdatedBy t)\<rparr>"

section \<open>The rules a booking is held to\<close>

definition validateTimesheet :: "gotime \<Rightarrow> float64 \<Rightarrow> gostring option \<Rightarrow> unit result" where
  "validateTimesheet on_day hours description = refuse_fields
     (field_if (\<not> OnTheCalendar on_day) ''date''
      @ field_if (\<not> (fle MinBookableHours hours \<and> fle hours HoursPerDay)) ''durationHours''
      @ field_if (case description of None \<Rightarrow> False | Some d \<Rightarrow> TooLong d MaxDescriptionLength) ''description'')"

definition requireUserAndProject :: "db \<Rightarrow> uint \<Rightarrow> uint \<Rightarrow> unit result" where
  "requireUserAndProject d userID projectID =
     bind_res (user_GetByID (db_roles d) userID (db_users d)) (\<lambda>_.
       if projectID = 0 then Inr ()
       else bind_res (store_get projectID (db_projects d)) (\<lambda>project.
         if \<not> VisibleTo project userID then Inl (NotFound ''project'' (format_uint projectID))
         else if pr_Status project \<noteq> ProjectStatusActive
         then Inl (WithCode Conflictf ''projectClosedForBooking''
                [VString (pr_Name project), VString (pr_Status project)])
         else Inr ()))"

definition normalizeProjectID :: "uint \<Rightarrow> uint option" where
  "normalizeProjectID projectID = (if projectID = 0 then None else Some projectID)"

definition sameProject :: "uint option \<Rightarrow> uint option \<Rightarrow> bool" where
  "sameProject a b =
     (case a of None \<Rightarrow> b = None | Some p \<Rightarrow> (case b of None \<Rightarrow> False | Some q \<Rightarrow> p = q))"

definition otherThan :: "uint \<Rightarrow> uint \<Rightarrow> uint option" where
  "otherThan actor owner = (if actor = 0 \<or> actor = owner then None else Some actor)"

definition dailyCap :: "env \<Rightarrow> float64" where
  "dailyCap e = (case the_limits e of None \<Rightarrow> maxDailyHours e | Some l \<Rightarrow> MaxDailyHours l)"

definition dailyLimitFor :: "env \<Rightarrow> db \<Rightarrow> uint \<Rightarrow> float64 result" where
  "dailyLimitFor e d userID =
     (let instance = dailyCap e
      in bind_res (user_GetByID (db_roles d) userID (db_users d)) (\<lambda>user.
           let personal = us_MaxDailyHours user
           in if fle personal (Fin 0) then Inr instance
              else if fle instance (Fin 0) \<or> fless personal instance then Inr personal
              else Inr instance))"

definition roundingSlack :: float64 where
  "roundingSlack = fl (1 / 10 ^ 9)"

fun total_hours :: "uint \<Rightarrow> timesheet list \<Rightarrow> float64 \<Rightarrow> float64" where
  "total_hours excludeID [] acc = acc"
| "total_hours excludeID (entry # rest) acc =
     (if ts_ID entry = excludeID then total_hours excludeID rest acc
      else total_hours excludeID rest (fadd acc (ts_DurationHours entry)))"

definition checkDailyBudget :: "env \<Rightarrow> db \<Rightarrow> uint \<Rightarrow> gotime \<Rightarrow> float64 \<Rightarrow> uint \<Rightarrow> unit result" where
  "checkDailyBudget e d userID on_day hours excludeID =
     bind_res (dailyLimitFor e d userID) (\<lambda>limit.
       if fle limit (Fin 0) then Inr ()
       else let from = startOfDay on_day
            in bind_res (ts_GetByFilter (lower e) (over_days userID from from) (db_timesheets d)) (\<lambda>sameDay.
                 let total = total_hours excludeID sameDay hours
                 in if fless (fadd limit roundingSlack) total
                    then Inl (WithCode Conflictf ''overDailyLimit''
                           [VFloat hours, VFloat total, VDay (CalendarDay from), VFloat limit])
                    else Inr ()))"

definition settled :: "float64 \<Rightarrow> float64" where
  "settled hours =
     (let value = fdiv (fround (fmul hours (Fin (10 ^ 9)))) (Fin (10 ^ 9))
      in if feq value (Fin 0) then Fin 0 else value)"

section \<open>Names\<close>

fun namesOf :: "db \<Rightarrow> uint list \<Rightarrow> (uint \<times> gostring) list \<Rightarrow> (uint \<times> gostring) list result" where
  "namesOf d [] names = Inr names"
| "namesOf d (i # ids) names =
     (if map_of names i \<noteq> None then namesOf d ids names
      else case user_GetByID (db_roles d) i (db_users d) of
             Inr user \<Rightarrow> namesOf d ids (AList.update i (us_Name user) names)
           | Inl err \<Rightarrow>
               if err_kind err \<noteq> KindNotFound then Inl err
               else namesOf d ids (AList.update i (us_Name blank_user) names))"

definition actors_of :: "timesheet_result \<Rightarrow> uint list" where
  "actors_of r = (case tr_RecordedBy r of None \<Rightarrow> [] | Some a \<Rightarrow> [act_ID a])
     @ (case tr_UpdatedBy r of None \<Rightarrow> [] | Some a \<Rightarrow> [act_ID a])"

definition name_in :: "(uint \<times> gostring) list \<Rightarrow> acted_by option \<Rightarrow> acted_by option" where
  "name_in names a = map_option (\<lambda>a. a\<lparr>act_Name := (case map_of names (act_ID a) of None \<Rightarrow> [] | Some n \<Rightarrow> n)\<rparr>) a"

definition nameWhoActed :: "db \<Rightarrow> timesheet_result list \<Rightarrow> timesheet_result list result" where
  "nameWhoActed d results =
     bind_res (namesOf d (concat (map actors_of results)) []) (\<lambda>names.
       Inr (map (\<lambda>r. r\<lparr>tr_RecordedBy := name_in names (tr_RecordedBy r),
                       tr_UpdatedBy := name_in names (tr_UpdatedBy r)\<rparr>) results))"

definition named :: "db \<Rightarrow> timesheet \<Rightarrow> timesheet_result result" where
  "named d t = bind_res (nameWhoActed d [NewTimesheetResultFromModel t]) (\<lambda>rs. Inr (hd rs))"

section \<open>The operations\<close>

definition new_entry :: "create_timesheet \<Rightarrow> timesheet" where
  "new_entry cmd =
     \<lparr>ts_ID = 0, ts_UserID = ct_UserID cmd, ts_ProjectID = normalizeProjectID (ct_ProjectID cmd),
      ts_Date = ct_Date cmd, ts_DurationHours = ct_DurationHours cmd, ts_Description = ct_Description cmd,
      ts_CreatedAt = zero_time, ts_UpdatedAt = zero_time,
      ts_RecordedBy = otherThan (ct_RecordedBy cmd) (ct_UserID cmd), ts_UpdatedBy = None\<rparr>"

definition CreateTimesheet :: "env \<Rightarrow> create_timesheet \<Rightarrow> db \<Rightarrow> timesheet_result result \<times> db" where
  "CreateTimesheet e cmd d =
     (case bind_res (validateTimesheet (ct_Date cmd) (ct_DurationHours cmd) (ct_Description cmd)) (\<lambda>_.
           bind_res (requireUserAndProject d (ct_UserID cmd) (ct_ProjectID cmd)) (\<lambda>_.
           checkDailyBudget e d (ct_UserID cmd) (ct_Date cmd) (ct_DurationHours cmd) 0)) of
        Inl err \<Rightarrow> (Inl err, d)
      | Inr _ \<Rightarrow>
          let (stored, repo) = ts_Save (now e) (new_entry cmd) (db_timesheets d);
              d' = d\<lparr>db_timesheets := repo\<rparr>
          in (named d' stored, d'))"

definition GetTimesheet :: "uint \<Rightarrow> db \<Rightarrow> timesheet_result result" where
  "GetTimesheet i d =
     (if i = 0 then Inl (InvalidFields [''id''])
      else bind_res (ts_GetByID i (db_timesheets d)) (named d))"

definition ListTimesheets :: "env \<Rightarrow> filter \<Rightarrow> db \<Rightarrow> (timesheet_result list \<times> uint) result" where
  "ListTimesheets e f d =
     bind_res (ts_GetByFilter (lower e) f (db_timesheets d)) (\<lambda>entries.
       let total = ts_CountByFilter (lower e) f (db_timesheets d)
       in bind_res (nameWhoActed d (map NewTimesheetResultFromModel entries)) (\<lambda>rs. Inr (rs, total)))"

text \<open>The entry with the new owner and project the command names, before the checks on them.\<close>

definition moved_entry :: "update_timesheet \<Rightarrow> timesheet \<Rightarrow> timesheet" where
  "moved_entry cmd t =
     t\<lparr>ts_UserID := (case ut_UserID cmd of None \<Rightarrow> ts_UserID t | Some u \<Rightarrow> u),
       ts_ProjectID := (case ut_ProjectID cmd of None \<Rightarrow> ts_ProjectID t | Some p \<Rightarrow> normalizeProjectID p)\<rparr>"

definition edited_entry :: "update_timesheet \<Rightarrow> timesheet \<Rightarrow> timesheet" where
  "edited_entry cmd t =
     (moved_entry cmd t)
     \<lparr>ts_Date := (case ut_Date cmd of None \<Rightarrow> ts_Date t | Some x \<Rightarrow> x),
      ts_DurationHours := (case ut_DurationHours cmd of None \<Rightarrow> ts_DurationHours t | Some h \<Rightarrow> h),
      ts_Description := (case ut_Description cmd of None \<Rightarrow> ts_Description t | Some x \<Rightarrow> Some x)\<rparr>"

definition moves :: "update_timesheet \<Rightarrow> timesheet \<Rightarrow> bool" where
  "moves cmd t \<longleftrightarrow>
     (case ut_UserID cmd of None \<Rightarrow> False | Some u \<Rightarrow> u \<noteq> ts_UserID t)
     \<or> (case ut_ProjectID cmd of None \<Rightarrow> False
         | Some _ \<Rightarrow> \<not> sameProject (ts_ProjectID (moved_entry cmd t)) (ts_ProjectID t))"

text \<open>Everything \<^verbatim>\<open>UpdateTimesheet\<close> does before it writes: the entry to write, or the refusal.\<close>

definition checked_update :: "env \<Rightarrow> update_timesheet \<Rightarrow> db \<Rightarrow> timesheet result" where
  "checked_update e cmd d =
     (if ut_ID cmd = 0 then Inl (InvalidFields [''id''])
      else bind_res (ts_GetByID (ut_ID cmd) (db_timesheets d)) (\<lambda>existing.
             bind_res (case ut_UserID cmd of
                         None \<Rightarrow> Inr ()
                       | Some u \<Rightarrow> bind_res (user_GetByID (db_roles d) u (db_users d)) (\<lambda>_. Inr ())) (\<lambda>_.
             let moved = moved_entry cmd existing; edited = edited_entry cmd existing
             in bind_res (if moves cmd existing \<and> HasProject moved
                          then requireUserAndProject d (ts_UserID moved) (the (ts_ProjectID moved))
                          else Inr ()) (\<lambda>_.
                bind_res (validateTimesheet (ts_Date edited) (ts_DurationHours edited) (ts_Description edited)) (\<lambda>_.
                bind_res (checkDailyBudget e d (ts_UserID edited) (ts_Date edited) (ts_DurationHours edited)
                            (ts_ID edited)) (\<lambda>_.
                Inr (edited\<lparr>ts_UpdatedBy := otherThan (ut_UpdatedBy cmd) (ts_UserID edited)\<rparr>)))))))"

definition UpdateTimesheet :: "env \<Rightarrow> update_timesheet \<Rightarrow> db \<Rightarrow> timesheet_result result \<times> db" where
  "UpdateTimesheet e cmd d =
     (case checked_update e cmd d of
        Inl err \<Rightarrow> (Inl err, d)
      | Inr changed \<Rightarrow>
          (case ts_Update (now e) changed (db_timesheets d) of
             (Inl err, repo) \<Rightarrow> (Inl err, d\<lparr>db_timesheets := repo\<rparr>)
           | (Inr updated, repo) \<Rightarrow>
               let d' = d\<lparr>db_timesheets := repo\<rparr> in (named d' updated, d')))"

definition DeleteTimesheet :: "uint \<Rightarrow> db \<Rightarrow> unit result \<times> db" where
  "DeleteTimesheet i d =
     (if i = 0 then (Inl (InvalidFields [''id'']), d)
      else case ts_GetByID i (db_timesheets d) of
             Inl err \<Rightarrow> (Inl err, d)
           | Inr _ \<Rightarrow> let (res, repo) = ts_Delete i (db_timesheets d) in (res, d\<lparr>db_timesheets := repo\<rparr>))"

record entry_history =
  eh_OwnerID :: uint
  eh_Revisions :: "revision list"
  eh_Names :: "(uint \<times> gostring) list"

definition Revisions :: "uint \<Rightarrow> db \<Rightarrow> entry_history result" where
  "Revisions i d =
     bind_res (ts_GetByID i (db_timesheets d)) (\<lambda>entry.
       let revisions = ts_Revisions i (db_timesheets d)
       in bind_res (namesOf d (List.map_filter rv_ReplacedBy revisions) []) (\<lambda>names.
            Inr \<lparr>eh_OwnerID = ts_UserID entry, eh_Revisions = revisions, eh_Names = names\<rparr>))"

end
