(* ===== verification/TimeMoves.thy ===== *)
theory TimeMoves
  imports Booking
begin

text \<open>
  Moving an entry to another project and totalling hours: \<^verbatim>\<open>domain/service/timesheet_service.go\<close>
  with the scope check of \<^verbatim>\<open>visibility.go\<close>; copying a week:
  \<^verbatim>\<open>application/v1/service/timesheet_week_copy.go\<close>; and the stopwatch:
  \<^verbatim>\<open>timer_application_service.go\<close>.
\<close>

section \<open>Moving an entry\<close>

definition transferred :: "uint \<Rightarrow> uint \<Rightarrow> uint \<Rightarrow> db \<Rightarrow> timesheet result" where
  "transferred timesheetID newProjectID actorID d =
     bind_res (ts_GetByID timesheetID (db_timesheets d)) (\<lambda>t.
     bind_res (store_get newProjectID (db_projects d)) (\<lambda>p.
     let viewer = (if actorID \<noteq> 0 then ts_UserID t else actorID)
     in bind_res (RequireVisible p viewer) (\<lambda>_.
        if HasProject t \<and> ts_ProjectID t = Some (pr_ID p)
        then Inl (WithCode Conflictf ''entryAlreadyOnProject'' [VString (pr_Name p)])
        else if pr_Status p \<noteq> ProjectStatusActive
        then Inl (WithCode Conflictf ''projectClosedForBooking'' [VString (pr_Name p), VString (pr_Status p)])
        else Inr (t\<lparr>ts_ProjectID := Some (pr_ID p),
                    ts_UpdatedBy := (if actorID \<noteq> 0 \<and> actorID \<noteq> ts_UserID t then Some actorID else None)\<rparr>))))"

definition TransferTimesheetToProject :: "env \<Rightarrow> uint \<Rightarrow> uint \<Rightarrow> uint \<Rightarrow> db \<Rightarrow> timesheet result \<times> db" where
  "TransferTimesheetToProject e timesheetID newProjectID actorID d =
     (case transferred timesheetID newProjectID actorID d of
        Inl err \<Rightarrow> (Inl err, d)
      | Inr t \<Rightarrow> let (res, repo) = ts_Update (now e) t (db_timesheets d) in (res, d\<lparr>db_timesheets := repo\<rparr>))"

section \<open>Reports\<close>

record project_scope =
  sc_ProjectID :: uint
  sc_Unassigned :: bool

definition scope_RequireVisible :: "project_scope \<Rightarrow> uint \<Rightarrow> db \<Rightarrow> unit result" where
  "scope_RequireVisible scope viewerID d =
     (if sc_ProjectID scope = 0 then Inr ()
      else bind_res (store_get (sc_ProjectID scope) (db_projects d)) (\<lambda>p. RequireVisible p viewerID))"

fun sum_hours :: "timesheet list \<Rightarrow> float64 \<Rightarrow> float64" where
  "sum_hours [] acc = acc"
| "sum_hours (t # ts) acc = sum_hours ts (fadd acc (ts_DurationHours t))"

definition GenerateOwnTimeReport ::
  "env \<Rightarrow> project_scope \<Rightarrow> gotime \<Rightarrow> gotime \<Rightarrow> uint \<Rightarrow> db \<Rightarrow> float64 result" where
  "GenerateOwnTimeReport e scope startDate endDate userID d =
     bind_res (scope_RequireVisible scope userID d) (\<lambda>_.
     bind_res (ts_GetByFilter (lower e)
        ((over_days userID startDate endDate)
           \<lparr>fi_ProjectID := sc_ProjectID scope,
            fi_WithoutProject := (sc_ProjectID scope = 0 \<and> sc_Unassigned scope)\<rparr>) (db_timesheets d)) (\<lambda>entries.
     Inr (sum_hours entries (Fin 0))))"

fun hours_by_user :: "timesheet list \<Rightarrow> (uint \<times> float64) list \<Rightarrow> (uint \<times> float64) list" where
  "hours_by_user [] report = report"
| "hours_by_user (t # ts) report =
     hours_by_user ts (AList.update (ts_UserID t)
       (fadd (case map_of report (ts_UserID t) of None \<Rightarrow> Fin 0 | Some h \<Rightarrow> h) (ts_DurationHours t)) report)"

definition GenerateProjectTimeReport ::
  "env \<Rightarrow> uint \<Rightarrow> gotime \<Rightarrow> gotime \<Rightarrow> uint \<Rightarrow> uint \<Rightarrow> db \<Rightarrow> (uint \<times> float64) list result" where
  "GenerateProjectTimeReport e projectID startDate endDate viewerID onlyUserID d =
     bind_res (store_get projectID (db_projects d)) (\<lambda>p.
     bind_res (RequireVisible p viewerID) (\<lambda>_.
     bind_res (ts_GetByFilter (lower e)
        ((over_days onlyUserID startDate endDate)\<lparr>fi_ProjectID := projectID\<rparr>) (db_timesheets d)) (\<lambda>entries.
     Inr (hours_by_user entries []))))"

section \<open>Copying a week\<close>

record week_copy =
  wc_Copied :: nat
  wc_Hours :: float64
  wc_Kept :: nat
  wc_Closed :: nat

definition weekOf :: "env \<Rightarrow> db \<Rightarrow> uint \<Rightarrow> day \<Rightarrow> timesheet list result" where
  "weekOf e d userID monday =
     ts_GetByFilter (lower e) (over_days userID (midnight monday) (midnight (monday + 6))) (db_timesheets d)"

text \<open>Asking twice gives the same answer, the repository not changing in between, so the memory
  of what was asked is left out.\<close>

definition stillOpen :: "db \<Rightarrow> uint \<Rightarrow> uint \<Rightarrow> bool" where
  "stillOpen d userID projectID =
     (case store_get projectID (db_projects d) of
        Inl _ \<Rightarrow> False
      | Inr p \<Rightarrow> RequireVisible p userID = Inr () \<and> pr_Status p = ProjectStatusActive)"

definition worked_order :: "timesheet \<Rightarrow> timesheet \<Rightarrow> bool" where
  "worked_order a b \<longleftrightarrow> ns (ts_Date a) < ns (ts_Date b) \<or> ns (ts_Date a) = ns (ts_Date b) \<and> ts_ID a \<le> ts_ID b"

text \<open>The loop: the copies so far, the days kept, the hours planned on each day, how many entries
  were left out.\<close>

record copying =
  co_copies :: "timesheet list"
  co_kept :: "day list"
  co_planned :: "(day \<times> float64) list"
  co_closed :: nat

definition copied_entry :: "uint \<Rightarrow> day \<Rightarrow> timesheet \<Rightarrow> timesheet" where
  "copied_entry userID day t =
     \<lparr>ts_ID = 0, ts_UserID = userID, ts_ProjectID = ts_ProjectID t, ts_Date = midnight day,
      ts_DurationHours = ts_DurationHours t, ts_Description = ts_Description t,
      ts_CreatedAt = zero_time, ts_UpdatedAt = zero_time, ts_RecordedBy = None, ts_UpdatedBy = None\<rparr>"

definition planned_on :: "copying \<Rightarrow> day \<Rightarrow> float64" where
  "planned_on c day = (case map_of (co_planned c) day of None \<Rightarrow> Fin 0 | Some h \<Rightarrow> h)"

fun copy_entries :: "env \<Rightarrow> db \<Rightarrow> uint \<Rightarrow> day list \<Rightarrow> int \<Rightarrow> timesheet list \<Rightarrow> copying \<Rightarrow> copying result" where
  "copy_entries e d userID taken shift [] c = Inr c"
| "copy_entries e d userID taken shift (t # ts) c =
     (let day = CalendarDay (ts_Date t) + shift
      in if day \<in> set taken
         then copy_entries e d userID taken shift ts (c\<lparr>co_kept := List.insert day (co_kept c)\<rparr>)
         else if (case ts_ProjectID t of None \<Rightarrow> False | Some p \<Rightarrow> \<not> stillOpen d userID p)
         then copy_entries e d userID taken shift ts (c\<lparr>co_closed := co_closed c + 1\<rparr>)
         else bind_res (validateTimesheet (midnight day) (ts_DurationHours t) (ts_Description t)) (\<lambda>_.
              bind_res (checkDailyBudget e d userID (midnight day)
                          (fadd (ts_DurationHours t) (planned_on c day)) 0) (\<lambda>_.
              copy_entries e d userID taken shift ts
                (c\<lparr>co_planned := AList.update day (fadd (planned_on c day) (ts_DurationHours t)) (co_planned c),
                   co_copies := co_copies c @ [copied_entry userID day t]\<rparr>))))"

definition is_monday :: "gotime \<Rightarrow> bool" where
  "is_monday t \<longleftrightarrow> weekday (local_day t) = 1"

text \<open>Everything before the write: what would be written, and what the copy would answer.\<close>

definition planned_copy :: "env \<Rightarrow> uint \<Rightarrow> gotime \<Rightarrow> gotime \<Rightarrow> db \<Rightarrow> copying result" where
  "planned_copy e userID from to d =
     bind_res (refuse_fields
       (field_if (\<not> OnTheCalendar from \<or> \<not> is_monday from) ''from''
        @ field_if (\<not> OnTheCalendar to \<or> \<not> is_monday to \<or> CalendarDay to = CalendarDay from) ''to'')) (\<lambda>_.
     bind_res (user_GetByID (db_roles d) userID (db_users d)) (\<lambda>_.
     let from = CalendarDay from; to = CalendarDay to
     in bind_res (weekOf e d userID from) (\<lambda>source.
        if source = [] then Inl (WithCode Invalidf ''nothingToCopy'' [])
        else bind_res (weekOf e d userID to) (\<lambda>target.
             copy_entries e d userID (map (\<lambda>t. CalendarDay (ts_Date t)) target) (to - from)
               (sort_by worked_order source)
               \<lparr>co_copies = [], co_kept = [], co_planned = [], co_closed = 0\<rparr>))))"

definition CopyWeek :: "env \<Rightarrow> uint \<Rightarrow> gotime \<Rightarrow> gotime \<Rightarrow> db \<Rightarrow> week_copy result \<times> db" where
  "CopyWeek e userID from to d =
     (case planned_copy e userID from to d of
        Inl err \<Rightarrow> (Inl err, d)
      | Inr c \<Rightarrow>
          (Inr \<lparr>wc_Copied = length (co_copies c), wc_Hours = settled (sum_hours (co_copies c) (Fin 0)),
                wc_Kept = length (co_kept c), wc_Closed = co_closed c\<rparr>,
           d\<lparr>db_timesheets := ts_SaveMany (now e) (co_copies c) (db_timesheets d)\<rparr>))"

section \<open>The stopwatch\<close>

definition Running :: "uint \<Rightarrow> db \<Rightarrow> running_timer option" where
  "Running userID d = timer_Get userID (db_timers d)"

definition requireStartable :: "db \<Rightarrow> uint \<Rightarrow> uint option \<Rightarrow> gostring option \<Rightarrow> unit result" where
  "requireStartable d userID projectID description =
     (if userID = 0 then Inl (InvalidFields [''userId''])
      else if (case description of None \<Rightarrow> False | Some x \<Rightarrow> TooLong x MaxDescriptionLength)
      then Inl (InvalidFields [''description''])
      else case projectID of None \<Rightarrow> Inr () | Some p \<Rightarrow> requireUserAndProject d userID p)"

definition startAt ::
  "uint \<Rightarrow> uint option \<Rightarrow> gostring option \<Rightarrow> gotime \<Rightarrow> db \<Rightarrow> running_timer \<times> db" where
  "startAt userID projectID description startedAt d =
     (let timer = \<lparr>ti_UserID = userID, ti_ProjectID = projectID, ti_Description = description, ti_StartedAt = startedAt\<rparr>
      in (timer, d\<lparr>db_timers := timer_Start timer (db_timers d)\<rparr>))"

definition readClock :: "env \<Rightarrow> gotime" where
  "readClock e = truncate_second (in_zone (now e) UTC)"

definition timer_service_Start ::
  "env \<Rightarrow> uint \<Rightarrow> uint option \<Rightarrow> gostring option \<Rightarrow> db \<Rightarrow> running_timer result \<times> db" where
  "timer_service_Start e userID projectID description d =
     (case requireStartable d userID projectID description of
        Inl err \<Rightarrow> (Inl err, d)
      | Inr _ \<Rightarrow> let (t, d') = startAt userID projectID description (readClock e) d in (Inr t, d'))"

definition Discard :: "uint \<Rightarrow> db \<Rightarrow> db" where
  "Discard userID d = d\<lparr>db_timers := timer_Clear userID (db_timers d)\<rparr>"

definition running :: "db \<Rightarrow> uint \<Rightarrow> running_timer result" where
  "running d userID =
     (case timer_Get userID (db_timers d) of
        None \<Rightarrow> Inl (WithCode Conflictf ''noTimerRunning'' [])
      | Some t \<Rightarrow> Inr t)"

definition AdjustStart :: "env \<Rightarrow> uint \<Rightarrow> gotime \<Rightarrow> db \<Rightarrow> running_timer result \<times> db" where
  "AdjustStart e userID startedAt d =
     (case running d userID of
        Inl err \<Rightarrow> (Inl err, d)
      | Inr t \<Rightarrow>
          let startedAt = truncate_second (in_zone startedAt UTC)
          in if ns (readClock e) < ns startedAt then (Inl (WithCode Invalidf ''timerStartInFuture'' []), d)
             else (Inr (t\<lparr>ti_StartedAt := startedAt\<rparr>),
                   d\<lparr>db_timers := timer_MoveStart userID startedAt (db_timers d)\<rparr>))"

definition booking_of :: "running_timer \<Rightarrow> location option \<Rightarrow> gotime \<Rightarrow> create_timesheet" where
  "booking_of timer zone end =
     \<lparr>ct_UserID = ti_UserID timer, ct_ProjectID = (case ti_ProjectID timer of None \<Rightarrow> 0 | Some p \<Rightarrow> p),
      ct_Date = midnight (BookingDay timer zone), ct_DurationHours = HoursElapsed timer end,
      ct_Description = ti_Description timer, ct_RecordedBy = 0\<rparr>"

definition book :: "env \<Rightarrow> running_timer \<Rightarrow> location option \<Rightarrow> gotime \<Rightarrow> db \<Rightarrow> timesheet_result result \<times> db" where
  "book e timer zone end d =
     (if TimerTooShort timer end then (Inl (WithCode Invalidf ''timerTooShort'' []), d)
      else if TimerTooLong timer end
      then (Inl (WithCode Invalidf ''timerTooLong'' [VFloat (HoursElapsed timer end)]), d)
      else case CreateTimesheet e (booking_of timer zone end) d of
             (Inl err, d') \<Rightarrow> (Inl err, d')
           | (Inr created, d') \<Rightarrow>
               (Inr created, d'\<lparr>db_timers := timer_Clear (ti_UserID timer) (db_timers d')\<rparr>))"

definition Switch ::
  "env \<Rightarrow> uint \<Rightarrow> location option \<Rightarrow> uint option \<Rightarrow> gostring option \<Rightarrow> db
     \<Rightarrow> (timesheet_result \<times> running_timer) result \<times> db" where
  "Switch e userID zone projectID description d =
     (case bind_res (running d userID) (\<lambda>t.
           bind_res (requireStartable d userID projectID description) (\<lambda>_. Inr t)) of
        Inl err \<Rightarrow> (Inl err, d)
      | Inr timer \<Rightarrow>
          (case book e timer zone (readClock e) d of
             (Inl err, d') \<Rightarrow> (Inl err, d')
           | (Inr booked, d') \<Rightarrow>
               let (t, d'') = startAt userID projectID description (readClock e) d' in (Inr (booked, t), d'')))"

definition stop_at :: "env \<Rightarrow> running_timer \<Rightarrow> gotime option \<Rightarrow> gotime result" where
  "stop_at e timer endedAt =
     (let end = readClock e
      in case endedAt of
           None \<Rightarrow> Inr end
         | Some t \<Rightarrow>
             let ended = truncate_second (in_zone t UTC)
             in if ns end < ns ended then Inl (WithCode Invalidf ''timerEndInFuture'' [])
                else if \<not> ns (ti_StartedAt timer) < ns ended then Inl (WithCode Invalidf ''timerEndBeforeStart'' [])
                else Inr ended)"

definition Stop :: "env \<Rightarrow> uint \<Rightarrow> location option \<Rightarrow> gotime option \<Rightarrow> db \<Rightarrow> timesheet_result result \<times> db" where
  "Stop e userID zone endedAt d =
     (case bind_res (running d userID) (\<lambda>timer. bind_res (stop_at e timer endedAt) (\<lambda>end. Inr (timer, end))) of
        Inl err \<Rightarrow> (Inl err, d)
      | Inr (timer, end) \<Rightarrow> book e timer zone end d)"

end
