(* ===== verification/ProjectService.thy ===== *)
theory ProjectService
  imports Booking
begin

text \<open>
  Creating, reading, listing, changing, archiving and deleting projects:
  \<^verbatim>\<open>application/v1/service/project_application_service.go\<close> and
  \<^verbatim>\<open>domain/service/project_service.go\<close>.  \<open>upper\<close> in the surroundings is Unicode's
  upper case; what it gives is checked before it is stored, so nothing is assumed of it.
\<close>

record create_project =
  cp_Name :: gostring
  cp_Description :: "gostring option"
  cp_StartDate :: gotime
  cp_EndDate :: "gotime option"
  cp_Status :: gostring
  cp_OwnerID :: "uint option"
  cp_Today :: gotime
  cp_BudgetHours :: "float64 option"
  cp_Billable :: bool
  cp_HourlyRate :: "float64 option"
  cp_Currency :: gostring

record update_project =
  up_ID :: uint
  up_Name :: "gostring option"
  up_Description :: "gostring option"
  up_StartDate :: "gotime option"
  up_EndDate :: "gotime option"
  up_Status :: "gostring option"
  up_BudgetHours :: "float64 option"
  up_Billable :: "bool option"
  up_HourlyRate :: "float64 option"
  up_Currency :: "gostring option"
  up_ClearEndDate :: bool
  up_ActorID :: uint

record project_result =
  prr_ID :: uint
  prr_Name :: gostring
  prr_Description :: "gostring option"
  prr_StartDate :: gotime
  prr_EndDate :: "gotime option"
  prr_Status :: gostring
  prr_OwnerID :: "uint option"
  prr_BudgetHours :: "float64 option"
  prr_BookedHours :: float64
  prr_Billable :: bool
  prr_HourlyRate :: "float64 option"
  prr_Currency :: gostring

definition UnitsOf :: "int option \<Rightarrow> float64 option" where
  "UnitsOf hundredths = map_option (\<lambda>h. fdiv (float_of_int h) (Fin 100)) hundredths"

definition NewProjectResultFromModel :: "project \<Rightarrow> project_result" where
  "NewProjectResultFromModel p =
     \<lparr>prr_ID = pr_ID p, prr_Name = pr_Name p, prr_Description = pr_Description p,
      prr_StartDate = pr_StartDate p, prr_EndDate = pr_EndDate p, prr_Status = pr_Status p,
      prr_OwnerID = pr_OwnerID p, prr_BudgetHours = pr_BudgetHours p, prr_BookedHours = Fin 0,
      prr_Billable = pr_Billable p, prr_HourlyRate = UnitsOf (pr_HourlyRate p), prr_Currency = pr_Currency p\<rparr>"

section \<open>Validation\<close>

definition validateBudget :: "float64 option \<Rightarrow> unit result" where
  "validateBudget hours =
     (if (case hours of None \<Rightarrow> False | Some h \<Rightarrow> \<not> (fle (Fin 0) h \<and> fle h MaxBudgetHours))
      then Inl (InvalidFields [''budgetHours'']) else Inr ())"

definition validateRate :: "float64 option \<Rightarrow> unit result" where
  "validateRate rate =
     (if (case rate of None \<Rightarrow> False | Some r \<Rightarrow> \<not> (fle (Fin 0) r \<and> fle r (Fin (of_int MaxHourlyRate))))
      then Inl (InvalidFields [''hourlyRate'']) else Inr ())"

text \<open>The conversion of a value an int64 does not hold gives the most negative one on the
  platforms the program is built for; a rate that passed \<open>validateRate\<close> never gets there.\<close>

definition hundredths :: "float64 option \<Rightarrow> int option" where
  "hundredths rate =
     (case rate of
        None \<Rightarrow> None
      | Some r \<Rightarrow>
          let value = (case to_int64 (fround (fmul r (Fin 100))) of Some v \<Rightarrow> v | None \<Rightarrow> - (2 ^ 63))
          in if value = 0 then None else Some value)"

definition is_capital :: "char \<Rightarrow> bool" where
  "is_capital c \<longleftrightarrow> 65 \<le> byte c \<and> byte c \<le> 90"

text \<open>\<^verbatim>\<open>strings.Trim\<close> with a set of ASCII characters.\<close>

definition trim_chars :: "(char \<Rightarrow> bool) \<Rightarrow> gostring \<Rightarrow> gostring" where
  "trim_chars P s = rev (dropWhile P (rev (dropWhile P s)))"

definition currencyCode :: "(gostring \<Rightarrow> gostring) \<Rightarrow> gostring \<Rightarrow> gostring result" where
  "currencyCode up code =
     (let code = up (TrimSpace code)
      in if code = [] then Inr DefaultCurrency
         else if length code \<noteq> 3 \<or> trim_chars is_capital code \<noteq> [] then Inl (InvalidFields [''currency''])
         else Inr code)"

definition budgetOrNone :: "float64 option \<Rightarrow> float64 option" where
  "budgetOrNone hours =
     (case hours of None \<Rightarrow> None | Some h \<Rightarrow> if feq h (Fin 0) then None else Some h)"

definition validateProject ::
  "gostring \<Rightarrow> gostring \<Rightarrow> gostring option \<Rightarrow> gotime \<Rightarrow> gotime option \<Rightarrow> unit result" where
  "validateProject name status description startDate endDate = refuse_fields
     (field_if (name = [] \<or> TooLong name MaxNameLength) ''name''
      @ field_if (case description of None \<Rightarrow> False | Some d \<Rightarrow> TooLong d MaxDescriptionLength) ''description''
      @ field_if (\<not> OnTheCalendar startDate) ''startDate''
      @ field_if (case endDate of None \<Rightarrow> False
          | Some e \<Rightarrow> \<not> OnTheCalendar e \<or> (\<not> is_zero_time startDate \<and> ns e < ns startDate)) ''endDate''
      @ field_if (\<not> (status = ProjectStatusActive \<or> status = ProjectStatusCompleted \<or> status = ProjectStatusArchived))
          ''status'')"

definition validateStatusTransition :: "project \<Rightarrow> gostring \<Rightarrow> unit result" where
  "validateStatusTransition p newStatus =
     (if newStatus \<noteq> ProjectStatusArchived then Inr ()
      else if pr_Status p \<noteq> ProjectStatusCompleted
      then Inl (WithCode Conflictf ''archiveNeedsCompleted'' [VString ProjectStatusCompleted])
      else Inr ())"

definition withBookedHours :: "db \<Rightarrow> uint \<Rightarrow> project_result list \<Rightarrow> project_result list" where
  "withBookedHours d viewerID results =
     (let totals = ts_HoursByProject viewerID (db_timesheets d)
      in map (\<lambda>r. r\<lparr>prr_BookedHours :=
           settled (case map_of totals (prr_ID r) of None \<Rightarrow> Fin 0 | Some h \<Rightarrow> h)\<rparr>) results)"

section \<open>The operations\<close>

definition checked_project :: "env \<Rightarrow> create_project \<Rightarrow> project result" where
  "checked_project e cmd =
     (let status = (if cp_Status cmd = [] then ProjectStatusActive else cp_Status cmd)
      in bind_res (if is_zero_time (cp_StartDate cmd)
                   then if is_zero_time (cp_Today cmd) then Inl Internal
                        else Inr (midnight (CalendarDay (cp_Today cmd)))
                   else Inr (cp_StartDate cmd)) (\<lambda>startDate.
         bind_res (validateProject (cp_Name cmd) status (cp_Description cmd) startDate (cp_EndDate cmd)) (\<lambda>_.
         bind_res (validateBudget (cp_BudgetHours cmd)) (\<lambda>_.
         bind_res (validateRate (cp_HourlyRate cmd)) (\<lambda>_.
         bind_res (currencyCode (upper e) (cp_Currency cmd)) (\<lambda>currency.
         Inr \<lparr>pr_ID = 0, pr_Name = cp_Name cmd, pr_Description = cp_Description cmd, pr_StartDate = startDate,
              pr_EndDate = cp_EndDate cmd, pr_Status = status, pr_OwnerID = cp_OwnerID cmd,
              pr_BudgetHours = budgetOrNone (cp_BudgetHours cmd), pr_Billable = cp_Billable cmd,
              pr_HourlyRate = hundredths (cp_HourlyRate cmd), pr_Currency = currency\<rparr>))))))"

definition CreateProject :: "env \<Rightarrow> create_project \<Rightarrow> db \<Rightarrow> project_result result \<times> db" where
  "CreateProject e cmd d =
     (case checked_project e cmd of
        Inl err \<Rightarrow> (Inl err, d)
      | Inr p \<Rightarrow> let (created, s) = project_Save p (db_projects d)
                 in (Inr (NewProjectResultFromModel created), d\<lparr>db_projects := s\<rparr>))"

definition GetProject :: "uint \<Rightarrow> uint \<Rightarrow> db \<Rightarrow> project_result result" where
  "GetProject i viewerID d =
     (if i = 0 then Inl (InvalidFields [''id''])
      else bind_res (store_get i (db_projects d)) (\<lambda>p.
           bind_res (RequireVisible p viewerID) (\<lambda>_.
           Inr (hd (withBookedHours d viewerID [NewProjectResultFromModel p])))))"

definition ListProjects :: "gostring \<Rightarrow> uint \<Rightarrow> db \<Rightarrow> project_result list \<times> uint" where
  "ListProjects status viewerID d =
     (let matching = filter (\<lambda>p. \<not> (viewerID \<noteq> 0 \<and> \<not> VisibleTo p viewerID)
                                \<and> \<not> (status \<noteq> [] \<and> pr_Status p \<noteq> status)) (store_all (db_projects d))
      in (withBookedHours d viewerID (map NewProjectResultFromModel matching), length matching))"

text \<open>The fields set before the status is looked at, and those after it.\<close>

definition renamed_project :: "update_project \<Rightarrow> project \<Rightarrow> project" where
  "renamed_project cmd p = p
     \<lparr>pr_Name := (case up_Name cmd of None \<Rightarrow> pr_Name p | Some n \<Rightarrow> n),
      pr_Description := (case up_Description cmd of None \<Rightarrow> pr_Description p
                           | Some x \<Rightarrow> if x = [] then None else Some x),
      pr_StartDate := (case up_StartDate cmd of None \<Rightarrow> pr_StartDate p | Some t \<Rightarrow> t),
      pr_EndDate := (if up_ClearEndDate cmd then None
                     else case up_EndDate cmd of None \<Rightarrow> pr_EndDate p | Some t \<Rightarrow> Some t)\<rparr>"

definition edited_project :: "env \<Rightarrow> update_project \<Rightarrow> project \<Rightarrow> project result" where
  "edited_project e cmd p =
     (let p = renamed_project cmd p
      in bind_res (case up_Status cmd of None \<Rightarrow> Inr p
             | Some st \<Rightarrow> bind_res (validateStatusTransition p st) (\<lambda>_. Inr (p\<lparr>pr_Status := st\<rparr>))) (\<lambda>p.
         bind_res (case up_BudgetHours cmd of None \<Rightarrow> Inr p
             | Some h \<Rightarrow> bind_res (validateBudget (Some h)) (\<lambda>_. Inr (p\<lparr>pr_BudgetHours := budgetOrNone (Some h)\<rparr>))) (\<lambda>p.
         let p = (case up_Billable cmd of None \<Rightarrow> p | Some b \<Rightarrow> p\<lparr>pr_Billable := b\<rparr>)
         in bind_res (case up_HourlyRate cmd of None \<Rightarrow> Inr p
             | Some r \<Rightarrow> bind_res (validateRate (Some r)) (\<lambda>_. Inr (p\<lparr>pr_HourlyRate := hundredths (Some r)\<rparr>))) (\<lambda>p.
         bind_res (case up_Currency cmd of None \<Rightarrow> Inr p
             | Some c \<Rightarrow> bind_res (currencyCode (upper e) c) (\<lambda>c. Inr (p\<lparr>pr_Currency := c\<rparr>))) (\<lambda>p.
         bind_res (validateProject (pr_Name p) (pr_Status p) (pr_Description p) (pr_StartDate p) (pr_EndDate p))
           (\<lambda>_. Inr p))))))"

definition UpdateProject :: "env \<Rightarrow> update_project \<Rightarrow> db \<Rightarrow> project_result result \<times> db" where
  "UpdateProject e cmd d =
     (case (if up_ID cmd = 0 then Inl (InvalidFields [''id''])
            else bind_res (store_get (up_ID cmd) (db_projects d)) (\<lambda>p.
                 bind_res (RequireVisible p (up_ActorID cmd)) (\<lambda>_. edited_project e cmd p))) of
        Inl err \<Rightarrow> (Inl err, d)
      | Inr p \<Rightarrow>
          (case project_Update p (db_projects d) of
             (Inl err, s) \<Rightarrow> (Inl err, d\<lparr>db_projects := s\<rparr>)
           | (Inr updated, s) \<Rightarrow>
               let d' = d\<lparr>db_projects := s\<rparr>
               in (Inr (hd (withBookedHours d' (up_ActorID cmd) [NewProjectResultFromModel updated])), d')))"

definition ArchiveProject :: "uint \<Rightarrow> uint \<Rightarrow> db \<Rightarrow> project result \<times> db" where
  "ArchiveProject i viewerID d =
     (case bind_res (store_get i (db_projects d)) (\<lambda>p.
           bind_res (RequireVisible p viewerID) (\<lambda>_.
           if pr_Status p \<noteq> ProjectStatusCompleted
           then Inl (WithCode Conflictf ''archiveNeedsCompleted'' [VString ProjectStatusCompleted])
           else Inr (p\<lparr>pr_Status := ProjectStatusArchived\<rparr>))) of
        Inl err \<Rightarrow> (Inl err, d)
      | Inr p \<Rightarrow> let (res, s) = project_Update p (db_projects d) in (res, d\<lparr>db_projects := s\<rparr>))"

definition DeleteProject :: "env \<Rightarrow> uint \<Rightarrow> uint \<Rightarrow> db \<Rightarrow> unit result \<times> db" where
  "DeleteProject e i actorID d =
     (case (if i = 0 then Inl (InvalidFields [''id''])
            else bind_res (store_get i (db_projects d)) (\<lambda>p.
                 bind_res (RequireVisible p actorID) (\<lambda>_.
                 let entries = ts_CountByFilter (lower e) ((all_of 0)\<lparr>fi_ProjectID := i\<rparr>) (db_timesheets d)
                 in if 0 < entries then Inl (WithCode Conflictf ''projectHasEntries'' [VUint entries])
                    else let timing = timer_CountByProject i (db_timers d)
                         in if 0 < timing then Inl (WithCode Conflictf ''projectIsBeingTimed'' [VInt (int timing)])
                            else Inr ()))) of
        Inl err \<Rightarrow> (Inl err, d)
      | Inr _ \<Rightarrow> let (res, s) = project_Delete i (db_projects d) in (res, d\<lparr>db_projects := s\<rparr>))"

end
