(* ===== verification/BookingRules.thy ===== *)
theory BookingRules
  imports Booking
begin

text \<open>
  The daily budget in exact terms: how the floating-point sum of a day relates to the exact one,
  and which bookings the cap accepts and refuses.
\<close>

section \<open>Sums of hours\<close>

definition hours_of :: "timesheet \<Rightarrow> rat" where
  "hours_of t = (case ts_DurationHours t of Fin h \<Rightarrow> h | _ \<Rightarrow> 0)"

lemma total_hours_sum:
  assumes "is_double a" "0 \<le> a" "a < 2 ^ 1024"
    and "\<forall>t \<in> set ts. \<exists>h. ts_DurationHours t = Fin h \<and> 0 \<le> h"
  shows "total_hours x ts (Fin a) =
    (let s = running_sum rnd a (map hours_of (filter (\<lambda>t. ts_ID t \<noteq> x) ts))
     in if s < 2 ^ 1024 then Fin s else Inf False)"
  using assms
proof (induction ts arbitrary: a)
  case (Cons t ts)
  obtain h where h: "ts_DurationHours t = Fin h" "0 \<le> h" using Cons.prems(4) by auto
  have ts: "\<forall>t \<in> set ts. \<exists>h. ts_DurationHours t = Fin h \<and> 0 \<le> h" using Cons.prems(4) by simp
  let ?xs = "map hours_of (filter (\<lambda>t. ts_ID t \<noteq> x) ts)"
  have xs: "\<forall>y \<in> set ?xs. 0 \<le> y" using ts by (auto simp: hours_of_def split: float64.split)
  show ?case
  proof (cases "ts_ID t = x")
    case True
    then show ?thesis using Cons.IH [OF Cons.prems(1-3) ts] by simp
  next
    case False
    have up: "a \<le> rnd (a + h)" using Cons.prems(1) h(2) by (rule ieee.grows)
    have e: "hours_of t = h" by (simp add: hours_of_def h)
    show ?thesis
    proof (cases "rnd (a + h) < 2 ^ 1024")
      case True
      then have "fadd (Fin a) (Fin h) = Fin (rnd (a + h))" using up Cons.prems(2) by (simp add: fl_small)
      then show ?thesis
        using Cons.IH [OF rnd_is_double _ True ts] up Cons.prems(2) False by (simp add: h e)
    next
      case big: False
      then have i: "fadd (Fin a) (Fin h) = Inf False" by (simp add: fl_def)
      have "rnd (a + h) \<le> running_sum rnd (rnd (a + h)) ?xs"
        by (rule ieee.sum_grows [OF rnd_is_double xs])
      moreover have "total_hours x ts (Inf False) = Inf False"
        using ts by (induction ts) auto
      ultimately show ?thesis using big False by (simp add: h e i [unfolded fadd.simps])
    qed
  qed
qed (simp add: Let_def)

definition least_hours :: rat where "least_hours = rnd (1 / 100)"

lemma least_hours_bounds: "99 / 10000 \<le> least_hours" "least_hours \<le> 101 / 10000"
proof -
  have "\<bar>rnd (1 / 100) - 1 / 100\<bar> \<le> 2 powi (- 6 - 54)"
    by (rule rnd_error) (simp_all add: power_int_minus)
  also have "(2 :: rat) powi (- 6 - 54) \<le> 1 / 10000" by (simp add: power_int_minus)
  finally have "\<bar>rnd (1 / 100) - 1 / 100\<bar> \<le> (1 / 10000 :: rat)" .
  then show "99 / 10000 \<le> least_hours" "least_hours \<le> 101 / 10000"
    unfolding least_hours_def abs_le_iff by linarith+
qed

lemma MinBookableHours_Fin: "MinBookableHours = Fin least_hours"
proof -
  have "\<bar>rnd (1 / 100)\<bar> < 2 ^ 1024"
  proof -
    have "\<bar>rnd (1 / 100)\<bar> < 1"
      using least_hours_bounds unfolding least_hours_def by linarith
    also have "(1 :: rat) < 2 ^ 1024" by (rule one_less_power) simp_all
    finally show ?thesis .
  qed
  then show ?thesis by (simp add: MinBookableHours_def least_hours_def fl_small)
qed

lemma roundingSlack_Fin:
  obtains s where "roundingSlack = Fin s" "1 / 1000000000 - 1 / 1000000000000 \<le> s" "s \<le> 1 / 1000000000 + 1 / 1000000000000"
proof -
  have "\<bar>rnd (1 / 1000000000) - 1 / 1000000000\<bar> \<le> 2 powi (- 29 - 54)"
    by (rule rnd_error) (simp_all add: power_int_minus)
  also have "(2 :: rat) powi (- 29 - 54) \<le> 1 / 1000000000000" by (simp add: power_int_minus)
  finally have e: "\<bar>rnd (1 / 1000000000) - 1 / 1000000000\<bar> \<le> (1 / 1000000000000 :: rat)" .
  then have "\<bar>rnd (1 / 1000000000)\<bar> < (1 :: rat)" unfolding abs_le_iff abs_less_iff by linarith
  also have "(1 :: rat) < 2 ^ 1024" by (rule one_less_power) simp_all
  finally have "roundingSlack = Fin (rnd (1 / 1000000000))" by (simp add: roundingSlack_def fl_small)
  from that [OF this] show thesis using e unfolding abs_le_iff by linarith
qed

text \<open>How far a day's sum can be off: its entries are at least the smallest bookable each, so a
  sum below a little over a day has few of them.\<close>

lemma day_sum_error:
  assumes "is_double a" "0 \<le> a" "\<forall>x \<in> set xs. least_hours \<le> x"
    and "running_sum rnd a xs < 26 \<or> a + sum_list xs < 26"
  shows "\<bar>running_sum rnd a xs - (a + sum_list xs)\<bar> \<le> 1 / 100000000000"
proof -
  have xs: "\<forall>x \<in> set xs. 0 \<le> x" using assms(3) least_hours_bounds(1) by force
  have many: "of_nat (length xs) * (99 / 10000) \<le> sum_list xs"
    using assms(3)
  proof (induction xs)
    case (Cons x xs)
    then show ?case using least_hours_bounds(1) by (simp add: algebra_simps)
  qed simp
  have p: "(2 :: rat) powi (5 - 54) = 1 / 562949953421312" by (simp add: power_int_minus)
  have e: "\<bar>running_sum rnd a xs - (a + sum_list xs)\<bar> \<le> of_nat (length xs) * 2 powi (5 - 54)"
    using assms(4)
  proof
    assume "running_sum rnd a xs < 26"
    then show ?thesis by (intro ieee.sum_error assms(1,2) xs) simp_all
  next
    assume s: "a + sum_list xs < 26"
    then have "of_nat (length xs) * (99 / 10000) < (26 :: rat)" using many assms(2) by linarith
    then have "a + sum_list xs + of_nat (length xs) * (1 / 562949953421312) < 32" using s by linarith
    then show ?thesis by (intro ieee.sum_error_exact assms(1,2) xs) (simp_all add: p)
  qed
  have "of_nat (length xs) \<le> (2700 :: rat)"
    using assms(4) e many assms(2) unfolding p abs_le_iff by linarith
  then have "of_nat (length xs) * (1 / 562949953421312) \<le> (1 / 100000000000 :: rat)" by simp
  then show ?thesis using e unfolding p by linarith
qed

section \<open>What the repository holds\<close>

definition entry_sane :: "timesheet \<Rightarrow> bool" where
  "entry_sane t \<longleftrightarrow>
     (\<exists>h. ts_DurationHours t = Fin h \<and> is_double h \<and> least_hours \<le> h \<and> h \<le> 24)
     \<and> (\<exists>x. ts_Date t = midnight x \<and> firstCalendarDay \<le> x \<and> x < afterLastCalendarDay)"

definition entries_sane :: "db \<Rightarrow> bool" where
  "entries_sane d \<longleftrightarrow> (\<forall>t \<in> set (store_all (tr_store (db_timesheets d))). entry_sane t)"

definition day_entries :: "db \<Rightarrow> uint \<Rightarrow> day \<Rightarrow> timesheet list" where
  "day_entries d user x = filter (\<lambda>t. ts_UserID t = user \<and> CalendarDay (ts_Date t) = x)
     (store_all (tr_store (db_timesheets d)))"

text \<open>What a person has booked on a day, added exactly.\<close>

definition booked :: "db \<Rightarrow> uint \<Rightarrow> day \<Rightarrow> uint \<Rightarrow> rat" where
  "booked d user x excluded = sum_list (map hours_of (filter (\<lambda>t. ts_ID t \<noteq> excluded) (day_entries d user x)))"

lemma sum_filter_insert_by:
  "sum_list (map f (filter P (insert_by le x xs))) = (if P x then f x else 0) + (sum_list (map f (filter P xs)) :: rat)"
  by (induction xs) auto

lemma sum_filter_sort_by: "sum_list (map f (filter P (sort_by le xs))) = (sum_list (map f (filter P xs)) :: rat)"
  by (induction xs) (auto simp: sum_filter_insert_by)

text \<open>The entries a budget check reads are those of the day.\<close>

lemma same_day:
  assumes "entries_sane d" "user \<noteq> 0"
  shows "ts_GetByFilter low (over_days user (midnight x) (midnight x)) (db_timesheets d)
    = Inr (sort_by newest_first (day_entries d user x))"
proof -
  have "matchesFilter low t (OverWholeDays (over_days user (midnight x) (midnight x)))
      \<longleftrightarrow> ts_UserID t = user \<and> CalendarDay (ts_Date t) = x" if sane: "entry_sane t" for t
  proof -
    obtain y where y: "ts_Date t = midnight y" using sane by (auto simp: entry_sane_def)
    have "(y * 86400 * 10 ^ 9 < x * 86400 * 10 ^ 9) \<longleftrightarrow> y < x" by simp
    moreover have "(y * 86400 * 10 ^ 9 > (x + 1) * 86400 * 10 ^ 9 - 10 ^ 9) \<longleftrightarrow> y > x" by auto
    ultimately show ?thesis
      using assms(2) y by (auto simp: matchesFilter_def OverWholeDays_def over_days_def all_of_def)
  qed
  then have "matching low (over_days user (midnight x) (midnight x)) (db_timesheets d) = day_entries d user x"
    using assms(1) by (auto simp: matching_def day_entries_def entries_sane_def intro!: filter_cong)
  then show ?thesis by (simp add: ts_GetByFilter_def page_def over_days_def all_of_def)
qed

lemma dailyLimitFor_user: "dailyLimitFor e d user = Inr l \<Longrightarrow> user_at d user \<noteq> None"
  by (auto simp: dailyLimitFor_def Let_def bind_res_Inr user_GetByID_Inr)

lemma known_user: "db_valid d \<Longrightarrow> user_at d user \<noteq> None \<Longrightarrow> user \<noteq> 0"
  by (metis db_valid_def store_find_below not_one_le_zero option.exhaust)

text \<open>The sum a budget check compares with the limit.\<close>

lemma budget_total:
  assumes "entries_sane d" "is_double h" "0 \<le> h" "h < 2 ^ 1024"
  shows "total_hours excl (sort_by newest_first (day_entries d user x)) (Fin h) =
    (let xs = map hours_of (filter (\<lambda>t. ts_ID t \<noteq> excl) (sort_by newest_first (day_entries d user x)));
         s = running_sum rnd h xs
     in if s < 2 ^ 1024 then Fin s else Inf False)"
  unfolding Let_def
  using assms least_hours_bounds(1)
  by (subst total_hours_sum) (force simp: Let_def day_entries_def entries_sane_def entry_sane_def)+

lemma day_hours_least:
  assumes "entries_sane d"
  shows "\<forall>y \<in> set (map hours_of (filter P (sort_by newest_first (day_entries d user x)))). least_hours \<le> y"
  using assms by (force simp: day_entries_def entries_sane_def entry_sane_def hours_of_def)

lemma small_sum: "s < 26 \<Longrightarrow> s < (2 :: rat) ^ 1024"
proof -
  assume "s < 26"
  also have "(26 :: rat) < 2 ^ 1024" by (rule less_le_trans [of _ "2 ^ 5"]) (simp, intro power_increasing, simp_all)
  finally show ?thesis .
qed

text \<open>The limit with its slack.\<close>

lemma slack_limit:
  assumes "0 < l" "l \<le> 24"
  obtains m where "fadd (Fin l) roundingSlack = Fin m"
    "l + 1 / 1000000000 - 1 / 100000000000 \<le> m" "m \<le> l + 1 / 1000000000 + 1 / 100000000000"
proof -
  obtain s where s: "roundingSlack = Fin s" "1 / 1000000000 - 1 / 1000000000000 \<le> s" "s \<le> 1 / 1000000000 + 1 / 1000000000000"
    by (rule roundingSlack_Fin)
  have s': "0 \<le> s" "s \<le> 1" using s(2,3) by linarith+
  have "\<bar>rnd (l + s) - (l + s)\<bar> \<le> 2 powi (5 - 54)"
    using assms s' by (intro rnd_error) simp_all
  also have "(2 :: rat) powi (5 - 54) \<le> 1 / 1000000000000" by (simp add: power_int_minus)
  finally have e: "\<bar>rnd (l + s) - (l + s)\<bar> \<le> 1 / 1000000000000" .
  have "\<bar>rnd (l + s)\<bar> < 2 ^ 1024"
    by (rule small_sum) (use e assms s' in \<open>unfold abs_le_iff abs_less_iff, linarith\<close>)
  then have "fadd (Fin l) roundingSlack = Fin (rnd (l + s))" by (simp add: s(1) fl_small)
  from that [OF this] show thesis using e s(2,3) unfolding abs_le_iff by linarith
qed

lemma budget_exact:
  assumes "db_valid d" "entries_sane d" "is_double h" "least_hours \<le> h" "h < 2 ^ 1024"
    and "dailyLimitFor e d user = Inr (Fin l)" "0 < l" "l \<le> 24"
  shows "(checkDailyBudget e d user (midnight x) (Fin h) excl = Inr () \<longrightarrow>
        h + booked d user x excl \<le> l + 1 / 1000000000 + 1 / 50000000000)
    \<and> (h + booked d user x excl \<le> l \<longrightarrow> checkDailyBudget e d user (midnight x) (Fin h) excl = Inr ())"
proof -
  let ?xs = "map hours_of (filter (\<lambda>t. ts_ID t \<noteq> excl) (sort_by newest_first (day_entries d user x)))"
  have user: "user \<noteq> 0" using known_user [OF assms(1) dailyLimitFor_user [OF assms(6)]] .
  have h: "0 \<le> h" using assms(4) least_hours_bounds(1) by linarith
  have b: "booked d user x excl = sum_list ?xs" by (simp add: booked_def sum_filter_sort_by)
  note hb = assms(5)
  obtain m where m: "fadd (Fin l) roundingSlack = Fin m" "l + 1 / 1000000000 - 1 / 100000000000 \<le> m"
    "m \<le> l + 1 / 1000000000 + 1 / 100000000000" by (rule slack_limit [OF assms(7,8)])
  have check: "checkDailyBudget e d user (midnight x) (Fin h) excl = Inr () \<longleftrightarrow> running_sum rnd h ?xs \<le> m"
  proof -
    have "m < 26" using m(3) assms(8) by linarith
    then show ?thesis
      using assms(7) small_sum [of "running_sum rnd h ?xs"]
      by (auto simp: checkDailyBudget_def assms(6) same_day [OF assms(2) user] m(1)
        budget_total [OF assms(2,3) h hb] Let_def)
  qed
  show ?thesis unfolding check b
    using day_sum_error [OF assms(3) h day_hours_least [OF assms(2)], of "\<lambda>t. ts_ID t \<noteq> excl" user x] m assms(8)
    unfolding abs_le_iff by (intro conjI impI; linarith)
qed

section \<open>What a day holds after a write\<close>

definition on_day :: "uint \<Rightarrow> day \<Rightarrow> timesheet \<Rightarrow> bool" where
  "on_day user x t \<longleftrightarrow> ts_UserID t = user \<and> CalendarDay (ts_Date t) = x"

lemma booked_all:
  "booked d user x excl = sum_list (map hours_of (filter (\<lambda>t. ts_ID t \<noteq> excl \<and> on_day user x t)
     (store_all (tr_store (db_timesheets d)))))"
  by (simp add: booked_def day_entries_def on_day_def conj_commute)

lemma entry_ids: "db_valid d \<Longrightarrow> t \<in> set (store_all (tr_store (db_timesheets d))) \<longleftrightarrow> entry_at d (ts_ID t) = Some t"
  unfolding db_valid_def repo_valid_def by (intro entries.all_keyed) auto

lemma entry_at_id: "db_valid d \<Longrightarrow> entry_at d i = Some t \<Longrightarrow> ts_ID t = i"
  by (simp add: db_valid_def repo_valid_def ts_keyed_def)

lemma entry_id_pos: "db_valid d \<Longrightarrow> entry_at d i = Some t \<Longrightarrow> i \<noteq> 0"
  unfolding db_valid_def repo_valid_def by (metis store_find_below not_one_le_zero)

lemma entries_sane_iff: "db_valid d \<Longrightarrow> entries_sane d \<longleftrightarrow> (\<forall>i t. entry_at d i = Some t \<longrightarrow> entry_sane t)"
  unfolding entries_sane_def by (metis entry_ids entry_at_id)

lemma booked_no_exclusion:
  assumes "db_valid d" "\<forall>t. entry_at d excl = Some t \<longrightarrow> \<not> on_day user x t"
  shows "booked d user x excl = booked d user x 0"
proof -
  have "filter (\<lambda>t. ts_ID t \<noteq> excl \<and> on_day user x t) (store_all (tr_store (db_timesheets d)))
      = filter (\<lambda>t. ts_ID t \<noteq> 0 \<and> on_day user x t) (store_all (tr_store (db_timesheets d)))"
    using assms entry_ids [OF assms(1)] entry_id_pos [OF assms(1)] by (intro filter_cong refl) metis
  then show ?thesis by (simp add: booked_all)
qed

lemma booked_exclusion_less:
  assumes "db_valid d" "entries_sane d"
  shows "booked d user x excl \<le> booked d user x 0"
proof -
  have "sum_list (map hours_of (filter (\<lambda>t. ts_ID t \<noteq> excl \<and> on_day user x t) ts))
      \<le> sum_list (map hours_of (filter (\<lambda>t. ts_ID t \<noteq> 0 \<and> on_day user x t) ts))"
    if "\<forall>t \<in> set ts. 0 \<le> hours_of t \<and> ts_ID t \<noteq> 0" for ts
    using that by (induction ts) auto
  moreover have "\<forall>t \<in> set (store_all (tr_store (db_timesheets d))). 0 \<le> hours_of t \<and> ts_ID t \<noteq> 0"
    using assms(2) entry_ids [OF assms(1)] entry_id_pos [OF assms(1)] least_hours_bounds(1)
    by (force simp: entries_sane_def entry_sane_def hours_of_def)
  ultimately show ?thesis by (simp add: booked_all)
qed

lemma booked_save:
  assumes "db_valid d" "db_room d"
  shows "booked (d\<lparr>db_timesheets := snd (ts_Save n t (db_timesheets d))\<rparr>) user x 0
    = booked d user x 0 + (if on_day user x t then hours_of t else 0)"
proof -
  have v: "store_valid (tr_store (db_timesheets d))" "store_room (tr_store (db_timesheets d))"
    using assms by (simp_all add: db_valid_def repo_valid_def db_room_def repo_room_def)
  have "st_nextID (tr_store (db_timesheets d)) \<noteq> 0" using v(1) by (simp add: store_valid_def)
  then show ?thesis
    using v by (simp add: booked_all ts_Save_store store_all_add)
      (auto simp: ts_with_id_def on_day_def hours_of_def)
qed

lemma booked_update:
  assumes "db_valid d" "entry_at d (ts_ID t) = Some before"
    and "stored = t\<lparr>ts_UpdatedAt := a, ts_CreatedAt := b, ts_RecordedBy := c, ts_UpdatedBy := f\<rparr>"
    and "tr_store (db_timesheets d') = snd (store_update (ts_ID t) stored (tr_store (db_timesheets d)))"
  shows "booked d' user x 0 = booked d user x (ts_ID t) + (if on_day user x t then hours_of t else 0)"
proof -
  let ?all = "store_all (tr_store (db_timesheets d))"
  have keyed: "store_find i (tr_store (db_timesheets d)) = Some y \<Longrightarrow> ts_ID y = i" for i y
    using entry_at_id [OF assms(1)] by blast
  have all': "store_all (tr_store (db_timesheets d')) = map (\<lambda>y. if ts_ID y = ts_ID t then stored else y) ?all"
    unfolding assms(4) using assms(2) by (intro store_all_update) (auto dest: keyed)
  have s: "ts_ID stored = ts_ID t" "on_day user x stored = on_day user x t" "hours_of stored = hours_of t"
    by (simp_all add: assms(3) on_day_def hours_of_def)
  have "sum_list (map hours_of (filter (\<lambda>t. ts_ID t \<noteq> 0 \<and> on_day user x t)
        (map (\<lambda>y. if ts_ID y = ts_ID t then stored else y) ts)))
      = sum_list (map hours_of (filter (\<lambda>y. ts_ID y \<noteq> ts_ID t \<and> on_day user x y) ts))
        + (if ts_ID t \<in> ts_ID ` set ts then (if on_day user x t then hours_of t else 0) else 0)"
    if "distinct (map ts_ID ts)" "\<forall>y \<in> set ts. ts_ID y \<noteq> 0" "ts_ID t \<noteq> 0" for ts
    using that by (induction ts) (auto simp: s image_iff)
  moreover have "distinct (map ts_ID ?all)"
    unfolding store_all_def by (rule map_filter_ident) (auto dest: keyed)
  moreover have "\<forall>y \<in> set ?all. ts_ID y \<noteq> 0" "ts_ID t \<noteq> 0"
    using entry_ids [OF assms(1)] entry_id_pos [OF assms(1)] assms(2) by blast+
  moreover have "ts_ID t \<in> ts_ID ` set ?all"
    using assms(2) entry_at_id [OF assms(1)] entry_ids [OF assms(1)] by (metis image_eqI)
  ultimately show ?thesis by (simp add: booked_all all')
qed

lemma booked_delete:
  assumes "db_valid d" "tr_store (db_timesheets d') = snd (store_delete i (tr_store (db_timesheets d)))"
  shows "booked d' user x 0 = booked d user x i"
proof -
  have keyed: "store_find i (tr_store (db_timesheets d)) = Some y \<Longrightarrow> ts_ID y = i" for i y
    using entry_at_id [OF assms(1)] by blast
  have "store_all (tr_store (db_timesheets d')) = filter (\<lambda>y. ts_ID y \<noteq> i) (store_all (tr_store (db_timesheets d)))"
    unfolding assms(2) by (rule store_all_delete) (rule keyed)
  moreover have "\<forall>y \<in> set (store_all (tr_store (db_timesheets d))). ts_ID y \<noteq> 0"
    using entry_ids [OF assms(1)] entry_id_pos [OF assms(1)] by blast
  then have "filter (\<lambda>t. ts_ID t \<noteq> 0 \<and> on_day user x t) (filter (\<lambda>y. ts_ID y \<noteq> i) (store_all (tr_store (db_timesheets d))))
      = filter (\<lambda>t. ts_ID t \<noteq> i \<and> on_day user x t) (store_all (tr_store (db_timesheets d)))"
    by (auto intro!: filter_cong)
  ultimately show ?thesis by (simp add: booked_all)
qed

end
