(* ===== verification/Sample.thy ===== *)
theory Sample
  imports BookingRules
begin

text \<open>
  A small installation the examples of the other theories run on: one account with one active
  project, a cap of ten hours, no entry booked.
\<close>

definition sample_user :: user where
  "sample_user = blank_user\<lparr>us_ID := 1, us_Name := ''Ada'', us_Email := ''ada@example.org''\<rparr>"

definition sample_project :: project where
  "sample_project = \<lparr>pr_ID = 1, pr_Name = ''Engine'', pr_Description = None, pr_StartDate = midnight 19000,
     pr_EndDate = None, pr_Status = ProjectStatusActive, pr_OwnerID = Some 1, pr_BudgetHours = None,
     pr_Billable = False, pr_HourlyRate = None, pr_Currency = DefaultCurrency\<rparr>"

definition sample_db :: db where
  "sample_db = new_db
     \<lparr>db_users := \<lparr>st_items = [(1, sample_user)], st_nextID = 2, st_entity = ''user''\<rparr>,
      db_projects := \<lparr>st_items = [(1, sample_project)], st_nextID = 2, st_entity = ''project''\<rparr>\<rparr>"

definition sample_env :: env where
  "sample_env = \<lparr>now = midnight 20000, maxDailyHours = Fin 10, the_limits = None, lower = (\<lambda>s. s), equal_fold = (=), upper = (\<lambda>s. s)\<rparr>"

definition sample_booking :: create_timesheet where
  "sample_booking = \<lparr>ct_UserID = 1, ct_ProjectID = 1, ct_Date = midnight 20000, ct_DurationHours = Fin 8,
     ct_Description = None, ct_RecordedBy = 0\<rparr>"

lemma sample_user_at: "user_at sample_db i = (if i = 1 then Some sample_user else None)"
  by (simp add: sample_db_def store_find_def)

lemma sample_project_at: "project_at sample_db i = (if i = 1 then Some sample_project else None)"
  by (simp add: sample_db_def store_find_def)

lemma sample_entries: "db_timesheets sample_db = new_timesheets" "store_find i (tr_store new_timesheets) = None"
  by (simp_all add: sample_db_def new_db_def new_timesheets_def newStore_def store_find_def)

lemma sample_valid: "db_valid sample_db"
proof -
  have "us_ID sample_user = 1" "pr_ID sample_project = 1" by (simp_all add: sample_user_def sample_project_def)
  then have "store_valid (db_users sample_db)" "users_keyed (db_users sample_db)"
    "store_valid (db_projects sample_db)" "projects_keyed (db_projects sample_db)"
    by (simp_all add: store_valid_def users_keyed_def projects_keyed_def sample_user_at sample_project_at)
      (simp_all add: sample_db_def)
  then show ?thesis using new_db_valid by (simp add: db_valid_def) (simp add: sample_db_def)
qed

lemma sample_room: "db_room sample_db"
  by (simp add: sample_db_def db_room_def store_room_def new_db_def new_timesheets_def repo_room_def newStore_def
      NewRoleRepository_def DefaultRoles_def store_add_def Let_def uint_max_def uint_succ_def)

lemma sample_sane: "entries_sane sample_db"
  using sample_valid by (simp add: entries_sane_iff sample_entries)

lemma sample_limit: "dailyLimitFor sample_env sample_db 1 = Inr (Fin 10)"
  by (simp add: dailyLimitFor_def dailyCap_def sample_env_def user_GetByID_def store_get_def sample_user_at
      sample_user_def blank_user_def)

lemma sample_booked: "booked sample_db u x i = 0"
  by (simp add: booked_def day_entries_def sample_entries(1) new_timesheets_def newStore_def store_all_def)

lemma double_nat: "n < 2 ^ 53 \<Longrightarrow> is_double (of_nat n)"
  unfolding is_double_def by (intro exI [of _ "int n"] exI [of _ 0]) (auto simp: nat_less_real_le of_nat_less_iff [symmetric] simp del: of_nat_less_iff)

lemma sample_budget:
  "0 < n \<Longrightarrow> n \<le> 10 \<Longrightarrow> checkDailyBudget sample_env sample_db 1 (midnight x) (Fin (of_nat n)) 0 = Inr ()"
proof -
  assume n: "0 < n" "n \<le> 10"
  have "is_double (of_nat n)" using n by (intro double_nat) simp
  moreover have "least_hours \<le> of_nat n" using n least_hours_bounds(2) by (simp add: order_trans [of _ 1])
  moreover have "(of_nat n :: rat) < 2 ^ 1024" using n by (intro small_sum) simp
  ultimately show ?thesis
    using budget_exact [OF sample_valid sample_sane _ _ _ sample_limit, of "of_nat n" x 0] n by (simp add: sample_booked)
qed

end
