(* ===== verification/BookingSafety.thy ===== *)
theory BookingSafety
  imports Sample
begin

text \<open>
  What creating, correcting and deleting an entry do on every branch: a refusal changes nothing, an
  accepted change touches one entry and obeys every rule.
\<close>

section \<open>Names are always found\<close>

lemma namesOf_total: "\<exists>names'. namesOf d ids names = Inr names'"
proof (induction ids arbitrary: names)
  case (Cons i ids)
  show ?case
  proof (cases "user_GetByID (db_roles d) i (db_users d)")
    case (Inl err)
    then have "err_kind err = KindNotFound" by (auto simp: user_GetByID_Inl)
    then show ?thesis using Cons Inl by simp
  next
    case (Inr u)
    then show ?thesis using Cons by simp
  qed
qed simp

lemma nameWhoActed_total:
  "\<exists>names. nameWhoActed d rs = Inr (map (\<lambda>r. r\<lparr>tr_RecordedBy := name_in names (tr_RecordedBy r),
                       tr_UpdatedBy := name_in names (tr_UpdatedBy r)\<rparr>) rs)"
  using namesOf_total [of d "concat (map actors_of rs)" "[]"] by (auto simp: nameWhoActed_def)

lemma named_total:
  obtains names where "named d t = Inr ((NewTimesheetResultFromModel t)
     \<lparr>tr_RecordedBy := name_in names (actedBy (ts_RecordedBy t)), tr_UpdatedBy := name_in names (actedBy (ts_UpdatedBy t))\<rparr>)"
  using nameWhoActed_total [of d "[NewTimesheetResultFromModel t]"]
  by (auto simp: named_def NewTimesheetResultFromModel_def)

definition shows_entry :: "timesheet_result \<Rightarrow> timesheet \<Rightarrow> bool" where
  "shows_entry r t \<longleftrightarrow> tr_ID r = ts_ID t \<and> tr_UserID r = ts_UserID t \<and> tr_ProjectID r = ts_ProjectID t
     \<and> tr_Date r = ts_Date t \<and> tr_DurationHours r = ts_DurationHours t \<and> tr_Description r = ts_Description t
     \<and> map_option act_ID (tr_RecordedBy r) = ts_RecordedBy t \<and> map_option act_ID (tr_UpdatedBy r) = ts_UpdatedBy t"

lemma named_shows: "\<exists>r. named d t = Inr r \<and> shows_entry r t"
  by (rule named_total [of d t])
    (auto simp: shows_entry_def NewTimesheetResultFromModel_def name_in_def actedBy_def option.map_comp
      comp_def option.map_id0 [unfolded id_def])

lemma named_Inl [simp]: "named d t \<noteq> Inl err"
  using named_shows [of d t] by auto

section \<open>Validation\<close>

lemma validateTimesheet_Inr:
  "validateTimesheet x h desc = Inr u \<longleftrightarrow> OnTheCalendar x \<and> fle MinBookableHours h \<and> fle h HoursPerDay
     \<and> (case desc of None \<Rightarrow> True | Some s \<Rightarrow> \<not> TooLong s MaxDescriptionLength)"
  by (auto simp: validateTimesheet_def split: option.split)

lemma validated_hours:
  assumes "validateTimesheet x h desc = Inr ()"
  obtains r where "h = Fin r" "least_hours \<le> r" "r \<le> 24"
  using assms unfolding validateTimesheet_Inr MinBookableHours_Fin HoursPerDay_def
  by (elim conjE between_finite) auto

definition bookable :: "db \<Rightarrow> uint \<Rightarrow> uint option \<Rightarrow> bool" where
  "bookable d user project \<longleftrightarrow> user_at d user \<noteq> None
     \<and> (\<forall>p. project = Some p \<longrightarrow> (\<exists>pr. project_at d p = Some pr \<and> pr_OwnerID pr = Some user
          \<and> pr_Status pr = ProjectStatusActive))"

lemma requireUserAndProject_Inr:
  "requireUserAndProject d user project = Inr () \<longleftrightarrow> bookable d user (normalizeProjectID project)"
  by (auto simp: requireUserAndProject_def bookable_def normalizeProjectID_def bind_res_Inr user_GetByID_Inr VisibleTo_def
      split: if_splits)

lemma requireUserAndProject_unit: "requireUserAndProject d user project = Inr u \<longleftrightarrow> bookable d user (normalizeProjectID project)"
  using requireUserAndProject_Inr by simp

section \<open>Creating\<close>

lemma Create_accepted:
  assumes "CreateTimesheet e cmd d = (Inr r, d')"
  shows "validateTimesheet (ct_Date cmd) (ct_DurationHours cmd) (ct_Description cmd) = Inr ()"
    "bookable d (ct_UserID cmd) (normalizeProjectID (ct_ProjectID cmd))"
    "checkDailyBudget e d (ct_UserID cmd) (ct_Date cmd) (ct_DurationHours cmd) 0 = Inr ()"
    "d' = d\<lparr>db_timesheets := snd (ts_Save (now e) (new_entry cmd) (db_timesheets d))\<rparr>"
    "shows_entry r (fst (ts_Save (now e) (new_entry cmd) (db_timesheets d)))"
proof -
  let ?checks = "bind_res (validateTimesheet (ct_Date cmd) (ct_DurationHours cmd) (ct_Description cmd)) (\<lambda>_.
           bind_res (requireUserAndProject d (ct_UserID cmd) (ct_ProjectID cmd)) (\<lambda>_.
           checkDailyBudget e d (ct_UserID cmd) (ct_Date cmd) (ct_DurationHours cmd) 0))"
  have c: "?checks = Inr ()"
    using assms unfolding CreateTimesheet_def by (auto split: sum.splits)
  then show "validateTimesheet (ct_Date cmd) (ct_DurationHours cmd) (ct_Description cmd) = Inr ()"
    "bookable d (ct_UserID cmd) (normalizeProjectID (ct_ProjectID cmd))"
    "checkDailyBudget e d (ct_UserID cmd) (ct_Date cmd) (ct_DurationHours cmd) 0 = Inr ()"
    by (auto simp: bind_res_Inr requireUserAndProject_unit)
  let ?d = "d\<lparr>db_timesheets := snd (ts_Save (now e) (new_entry cmd) (db_timesheets d))\<rparr>"
  obtain r' where r': "named ?d (fst (ts_Save (now e) (new_entry cmd) (db_timesheets d))) = Inr r'"
    "shows_entry r' (fst (ts_Save (now e) (new_entry cmd) (db_timesheets d)))" using named_shows by blast
  have "CreateTimesheet e cmd d = (Inr r', ?d)"
    unfolding CreateTimesheet_def c sum.case Let_def case_prod_beta r'(1) ..
  then show "d' = ?d" "shows_entry r (fst (ts_Save (now e) (new_entry cmd) (db_timesheets d)))"
    using assms r'(2) by auto
qed

lemma Create_refused: "CreateTimesheet e cmd d = (Inl err, d') \<Longrightarrow> d' = d"
  unfolding CreateTimesheet_def by (auto simp: Let_def case_prod_beta split: sum.splits)

lemma Create_complete:
  assumes "validateTimesheet (ct_Date cmd) (ct_DurationHours cmd) (ct_Description cmd) = Inr ()"
    "bookable d (ct_UserID cmd) (normalizeProjectID (ct_ProjectID cmd))"
    "checkDailyBudget e d (ct_UserID cmd) (ct_Date cmd) (ct_DurationHours cmd) 0 = Inr ()"
  shows "\<exists>r. fst (CreateTimesheet e cmd d) = Inr r"
proof -
  have c: "bind_res (validateTimesheet (ct_Date cmd) (ct_DurationHours cmd) (ct_Description cmd)) (\<lambda>_.
           bind_res (requireUserAndProject d (ct_UserID cmd) (ct_ProjectID cmd)) (\<lambda>_.
           checkDailyBudget e d (ct_UserID cmd) (ct_Date cmd) (ct_DurationHours cmd) 0)) = Inr ()"
    using assms(1,3) assms(2) [folded requireUserAndProject_Inr] by simp
  show ?thesis
    unfolding CreateTimesheet_def c sum.case Let_def case_prod_beta fst_conv using named_shows by blast
qed

lemma Create_stored:
  assumes "db_valid d" "CreateTimesheet e cmd d = (Inr r, d')"
  shows "entry_at d (tr_ID r) = None"
    "entry_at d' j = (if j = tr_ID r then Some (ts_with_id (stamp (now e)) j (new_entry cmd)) else entry_at d j)"
proof -
  note a = Create_accepted(4,5) [OF assms(2)]
  have i: "tr_ID r = st_nextID (tr_store (db_timesheets d))"
    using a(2) by (simp add: shows_entry_def ts_with_id_def)
  show "entry_at d (tr_ID r) = None" unfolding i
    using assms(1) by (intro mem.fresh) (simp add: db_valid_def repo_valid_def)
  show "entry_at d' j = (if j = tr_ID r then Some (ts_with_id (stamp (now e)) j (new_entry cmd)) else entry_at d j)"
    by (simp add: a(1) ts_Save_store store_find_after i)
qed

text \<open>C18: creating an entry either refuses it and changes nothing, or stores exactly it under an id
  of its own: by somebody there is, on no project or an active one of theirs, on a day of the
  calendar and for hours between the smallest bookable and a day - never a NaN - and no other
  entry, account, project or clock moves.\<close>

theorem create_entry:
  assumes "db_valid d" "CreateTimesheet e cmd d = (res, d')"
  shows "case res of
      Inl err \<Rightarrow> d' = d
    | Inr r \<Rightarrow>
        bookable d (ct_UserID cmd) (normalizeProjectID (ct_ProjectID cmd))
        \<and> OnTheCalendar (ct_Date cmd) \<and> (\<exists>h. ct_DurationHours cmd = Fin h \<and> 99 / 10000 \<le> h \<and> h \<le> 24)
        \<and> (\<exists>t. entry_at d' (tr_ID r) = Some t \<and> shows_entry r t \<and> ts_UserID t = ct_UserID cmd
             \<and> ts_ProjectID t = normalizeProjectID (ct_ProjectID cmd) \<and> ts_Date t = ct_Date cmd
             \<and> ts_DurationHours t = ct_DurationHours cmd \<and> ts_Description t = ct_Description cmd
             \<and> ts_RecordedBy t = otherThan (ct_RecordedBy cmd) (ct_UserID cmd))
        \<and> entry_at d (tr_ID r) = None \<and> (\<forall>i. i \<noteq> tr_ID r \<longrightarrow> entry_at d' i = entry_at d i)
        \<and> d' = d\<lparr>db_timesheets := db_timesheets d'\<rparr>"
proof (cases res)
  case (Inl err)
  then show ?thesis using Create_refused assms(2) by simp
next
  case (Inr r)
  note a = Create_accepted [OF assms(2) [unfolded Inr]]
  have v: "OnTheCalendar (ct_Date cmd)" using a(1) by (simp add: validateTimesheet_Inr)
  obtain h where h: "ct_DurationHours cmd = Fin h" "least_hours \<le> h" "h \<le> 24"
    using a(1) by (rule validated_hours)
  note stored = Create_stored [OF assms(1) assms(2) [unfolded Inr]]
  show ?thesis
    using a(2,4,5) v h stored least_hours_bounds(1)
    by (auto simp: Inr shows_entry_def ts_with_id_def new_entry_def)
qed

lemma sample_bookable: "bookable sample_db 1 (Some 1)"
  by (simp add: bookable_def sample_user_at sample_project_at sample_project_def)

lemma sample_accepted: "\<exists>r. fst (CreateTimesheet sample_env sample_booking sample_db) = Inr r"
proof (rule Create_complete)
  show "validateTimesheet (ct_Date sample_booking) (ct_DurationHours sample_booking) (ct_Description sample_booking) = Inr ()"
    using least_hours_bounds(2)
    by (simp add: validateTimesheet_Inr sample_booking_def OnTheCalendar_midnight MinBookableHours_Fin HoursPerDay_def)
  show "bookable sample_db (ct_UserID sample_booking) (normalizeProjectID (ct_ProjectID sample_booking))"
    using sample_bookable by (simp add: sample_booking_def normalizeProjectID_def)
  show "checkDailyBudget sample_env sample_db (ct_UserID sample_booking) (ct_Date sample_booking)
      (ct_DurationHours sample_booking) 0 = Inr ()"
    using sample_budget [of 8 20000] by (simp add: sample_booking_def)
qed

theorem create_entry_witness:
  "\<exists>r d'. CreateTimesheet sample_env sample_booking sample_db = (Inr r, d') \<and> entry_at d' (tr_ID r) \<noteq> None"
proof -
  obtain r d' where c: "CreateTimesheet sample_env sample_booking sample_db = (Inr r, d')"
    using sample_accepted by (cases "CreateTimesheet sample_env sample_booking sample_db") auto
  then show ?thesis using create_entry [OF sample_valid c] by auto
qed

section \<open>The state every operation keeps\<close>

text \<open>Every entry is somebody's, and its project, where it has one, is there and belongs to them.\<close>

definition own_projects :: "db \<Rightarrow> bool" where
  "own_projects d \<longleftrightarrow> (\<forall>i t. entry_at d i = Some t \<longrightarrow> ts_UserID t \<noteq> 0 \<and>
     (\<forall>p. ts_ProjectID t = Some p \<longrightarrow> (\<exists>pr. project_at d p = Some pr \<and> pr_OwnerID pr = Some (ts_UserID t))))"

text \<open>No day of anybody's holds more than the cap, but for what the sums round.\<close>

definition capped :: "rat \<Rightarrow> db \<Rightarrow> bool" where
  "capped cap d \<longleftrightarrow> (\<forall>user x. booked d user x 0 \<le> cap + 1 / 1000000000 + 1 / 10000000000)"

definition booking_inv :: "rat \<Rightarrow> db \<Rightarrow> bool" where
  "booking_inv cap d \<longleftrightarrow> db_valid d \<and> entries_sane d \<and> own_projects d \<and> capped cap d"

lemma project_pos: "db_valid d \<Longrightarrow> project_at d p = Some pr \<Longrightarrow> p \<noteq> 0"
  unfolding db_valid_def by (metis store_find_below not_one_le_zero)

lemma booking_invI:
  "db_valid d \<Longrightarrow> entries_sane d \<Longrightarrow> own_projects d \<Longrightarrow> capped cap d \<Longrightarrow> booking_inv cap d"
  by (simp add: booking_inv_def)

lemma limit_below_cap:
  assumes "dailyCap e = Fin cap" "0 < cap" "dailyLimitFor e d user = Inr l"
  obtains l' where "l = Fin l'" "0 < l'" "l' \<le> cap"
proof -
  obtain p where "(if fle p (Fin 0) then Inr (Fin cap)
      else if fle (Fin cap) (Fin 0) \<or> fless p (Fin cap) then Inr p else Inr (Fin cap)) = (Inr l :: float64 result)"
    using assms(3) unfolding dailyLimitFor_def Let_def assms(1) bind_res_Inr by blast
  then show thesis using assms(2) that by (cases p) (auto split: if_splits)
qed

lemma budget_within_tight:
  assumes "db_valid d" "entries_sane d" "is_double h" "least_hours \<le> h" "h < 2 ^ 1024"
    and "dailyCap e = Fin cap" "0 < cap" "cap \<le> 24"
    and "checkDailyBudget e d user (midnight x) (Fin h) excl = Inr ()"
  shows "h + booked d user x excl \<le> cap + 1 / 1000000000 + 1 / 50000000000"
proof -
  obtain l where l: "dailyLimitFor e d user = Inr l"
    using assms(9) by (auto simp: checkDailyBudget_def bind_res_Inr)
  obtain l' where l': "l = Fin l'" "0 < l'" "l' \<le> cap" using limit_below_cap [OF assms(6,7) l] .
  have "h + booked d user x excl \<le> l' + 1 / 1000000000 + 1 / 50000000000"
    using budget_exact [OF assms(1-5) l [unfolded l'(1)] l'(2)] l'(3) assms(8,9) by auto
  then show ?thesis using l'(3) by linarith
qed

lemma budget_within:
  assumes "db_valid d" "entries_sane d" "is_double h" "least_hours \<le> h" "h < 2 ^ 1024"
    and "dailyCap e = Fin cap" "0 < cap" "cap \<le> 24"
    and "checkDailyBudget e d user (midnight x) (Fin h) excl = Inr ()"
  shows "h + booked d user x excl \<le> cap + 1 / 1000000000 + 1 / 10000000000"
  using budget_within_tight [OF assms] by linarith

lemma sane_entryI:
  assumes "validateTimesheet (ts_Date t) (ts_DurationHours t) desc = Inr ()"
    "is_float (ts_DurationHours t)" "ts_Date t = midnight x"
  shows "entry_sane t"
proof -
  obtain h where "ts_DurationHours t = Fin h" "least_hours \<le> h" "h \<le> 24" using assms(1) by (rule validated_hours)
  then show ?thesis using assms by (auto simp: entry_sane_def validateTimesheet_Inr OnTheCalendar_midnight)
qed

lemma entry_sane_cong:
  "ts_DurationHours t = ts_DurationHours t' \<Longrightarrow> ts_Date t = ts_Date t' \<Longrightarrow> entry_sane t = entry_sane t'"
  by (simp add: entry_sane_def)

lemma save_inv:
  assumes "booking_inv cap d" "db_room d" "entry_sane t" "bookable d (ts_UserID t) (ts_ProjectID t)"
    and "\<And>x. ts_Date t = midnight x \<Longrightarrow> hours_of t + booked d (ts_UserID t) x 0 \<le> cap + 1 / 1000000000 + 1 / 10000000000"
  shows "booking_inv cap (d\<lparr>db_timesheets := snd (ts_Save n t (db_timesheets d))\<rparr>)" (is "booking_inv cap ?d")
proof -
  have d: "db_valid d" "entries_sane d" "own_projects d" "capped cap d" using assms(1) by (auto simp: booking_inv_def)
  have v: "db_valid ?d" using d(1) assms(2) by (simp add: db_valid_def db_room_def ts_Save_valid)
  have at_: "entry_at ?d i = (if i = st_nextID (tr_store (db_timesheets d))
      then Some (ts_with_id (stamp n) i t) else entry_at d i)" for i
    by (simp add: ts_Save_store store_find_after)
  have sane: "entry_sane (ts_with_id (stamp n) i t)" for i
    using assms(3) by (simp add: ts_with_id_def entry_sane_def)
  show ?thesis
  proof (rule booking_invI [OF v])
    show "entries_sane ?d"
      unfolding entries_sane_iff [OF v] at_ using sane d(2) [unfolded entries_sane_iff [OF d(1)]] by (auto split: if_splits)
    show "own_projects ?d"
      using assms(4) d(3) known_user [OF d(1)] unfolding own_projects_def at_
      by (auto simp: bookable_def ts_with_id_def split: if_splits)
    show "capped cap ?d"
      unfolding capped_def booked_save [OF d(1) assms(2)]
    proof (intro allI)
      fix user x
      obtain y where y: "ts_Date t = midnight y" using assms(3) by (auto simp: entry_sane_def)
      show "booked d user x 0 + (if on_day user x t then hours_of t else 0) \<le> cap + 1 / 1000000000 + 1 / 10000000000"
        using assms(5) [OF y] d(4) y by (auto simp: capped_def on_day_def add.commute)
    qed
  qed
qed

lemma Create_inv:
  assumes "booking_inv cap d" "db_room d" "CreateTimesheet e cmd d = (res, d')"
    and "is_float (ct_DurationHours cmd)" "ct_Date cmd = midnight x"
    and "dailyCap e = Fin cap" "0 < cap" "cap \<le> 24"
  shows "booking_inv cap d'"
proof (cases res)
  case (Inl err)
  then show ?thesis using Create_refused [of e cmd d err d'] assms(1,3) by simp
next
  case (Inr r)
  note a = Create_accepted [OF assms(3) [unfolded Inr]]
  have d: "db_valid d" "entries_sane d" using assms(1) by (auto simp: booking_inv_def)
  obtain h where h: "ct_DurationHours cmd = Fin h" "least_hours \<le> h" "h \<le> 24" using a(1) by (rule validated_hours)
  have h2: "h < 2 ^ 1024" using h(3) by (intro small_sum) simp
  have b: "h + booked d (ct_UserID cmd) x 0 \<le> cap + 1 / 1000000000 + 1 / 10000000000"
    using a(3) assms(4) h(1) unfolding assms(5)
    by (intro budget_within [OF d _ h(2) h2 assms(6-8)]) auto
  show ?thesis
    unfolding a(4)
  proof (rule save_inv [OF assms(1,2)])
    show "entry_sane (new_entry cmd)"
      using a(1) assms(4,5) by (intro sane_entryI) (simp_all add: new_entry_def)
    show "bookable d (ts_UserID (new_entry cmd)) (ts_ProjectID (new_entry cmd))"
      using a(2) by (simp add: new_entry_def)
    show "hours_of (new_entry cmd) + booked d (ts_UserID (new_entry cmd)) y 0 \<le> cap + 1 / 1000000000 + 1 / 10000000000"
      if "ts_Date (new_entry cmd) = midnight y" for y
    proof -
      have "midnight y = midnight x" using that assms(5) by (simp add: new_entry_def)
      then have "y = x" by (metis local_day_midnight)
      then show ?thesis using b by (simp add: new_entry_def hours_of_def h(1))
    qed
  qed
qed

section \<open>Correcting\<close>

lemma moved_simps [simp]:
  "ts_ID (moved_entry cmd t) = ts_ID t" "ts_ID (edited_entry cmd t) = ts_ID t"
  "ts_UserID (edited_entry cmd t) = ts_UserID (moved_entry cmd t)"
  "ts_ProjectID (edited_entry cmd t) = ts_ProjectID (moved_entry cmd t)"
  by (simp_all add: moved_entry_def edited_entry_def)

lemma sameProject_iff: "sameProject a b \<longleftrightarrow> a = b"
  by (auto simp: sameProject_def split: option.splits)

abbreviation written_entry :: "update_timesheet \<Rightarrow> timesheet \<Rightarrow> timesheet" where
  "written_entry cmd t \<equiv>
     (edited_entry cmd t)\<lparr>ts_UpdatedBy := otherThan (ut_UpdatedBy cmd) (ts_UserID (edited_entry cmd t))\<rparr>"

text \<open>What an accepted correction has passed.\<close>

definition correctable :: "env \<Rightarrow> update_timesheet \<Rightarrow> db \<Rightarrow> timesheet \<Rightarrow> bool" where
  "correctable e cmd d before \<longleftrightarrow>
     (\<forall>u. ut_UserID cmd = Some u \<longrightarrow> user_at d u \<noteq> None)
     \<and> (moves cmd before \<and> HasProject (moved_entry cmd before) \<longrightarrow>
          bookable d (ts_UserID (moved_entry cmd before)) (normalizeProjectID (the (ts_ProjectID (moved_entry cmd before)))))
     \<and> validateTimesheet (ts_Date (edited_entry cmd before)) (ts_DurationHours (edited_entry cmd before))
          (ts_Description (edited_entry cmd before)) = Inr ()
     \<and> checkDailyBudget e d (ts_UserID (edited_entry cmd before)) (ts_Date (edited_entry cmd before))
          (ts_DurationHours (edited_entry cmd before)) (ts_ID before) = Inr ()"

lemma known_or_same:
  "(case u of None \<Rightarrow> Inr () | Some u \<Rightarrow> bind_res (user_GetByID (db_roles d) u (db_users d)) (\<lambda>_. Inr ())) = Inr ()
     \<longleftrightarrow> (\<forall>v. u = Some v \<longrightarrow> user_at d v \<noteq> None)"
  by (cases u) (auto simp: bind_res_Inr user_GetByID_Inr)

lemma if_checked: "(if b then r else Inr ()) = Inr () \<longleftrightarrow> (b \<longrightarrow> r = Inr ())"
  by simp

lemma ts_ID_edited: "ts_ID (edited_entry cmd t) = ts_ID t"
  by simp

lemma checked_update_found:
  assumes "ts_GetByID (ut_ID cmd) (db_timesheets d) = Inr before" "ut_ID cmd \<noteq> 0"
  shows "checked_update e cmd d = Inr changed \<longleftrightarrow> correctable e cmd d before \<and> written_entry cmd before = changed"
  unfolding checked_update_def assms(1) if_not_P [OF assms(2)] bind_res_simps Let_def
    bind_res_unit known_or_same if_checked requireUserAndProject_Inr sum.inject ts_ID_edited
    correctable_def conj_assoc
  by (rule refl)

lemma checked_update_Inr:
  "checked_update e cmd d = Inr changed \<longleftrightarrow>
     (\<exists>before. ut_ID cmd \<noteq> 0 \<and> entry_at d (ut_ID cmd) = Some before \<and> correctable e cmd d before
        \<and> written_entry cmd before = changed)"
proof (cases "ut_ID cmd = 0")
  case False
  show ?thesis
  proof (cases "entry_at d (ut_ID cmd)")
    case None
    then show ?thesis using False by (simp add: checked_update_def ts_GetByID_def store_get_def)
  next
    case (Some before)
    then have "ts_GetByID (ut_ID cmd) (db_timesheets d) = Inr before" by (simp add: ts_GetByID_def store_get_def)
    from checked_update_found [OF this False] show ?thesis using Some False by simp
  qed
qed (simp add: checked_update_def)

lemma Update_accepted:
  assumes "UpdateTimesheet e cmd d = (Inr r, d')"
  shows "\<exists>before updated. entry_at d (ut_ID cmd) = Some before \<and> correctable e cmd d before
    \<and> ts_Update (now e) (written_entry cmd before) (db_timesheets d) = (Inr updated, db_timesheets d')
    \<and> shows_entry r updated
    \<and> d' = d\<lparr>db_timesheets := snd (ts_Update (now e) (written_entry cmd before) (db_timesheets d))\<rparr>"
proof -
  obtain changed where c: "checked_update e cmd d = Inr changed"
    using assms unfolding UpdateTimesheet_def by (cases "checked_update e cmd d") auto
  then obtain before where b: "entry_at d (ut_ID cmd) = Some before" "correctable e cmd d before"
    "written_entry cmd before = changed" unfolding checked_update_Inr by blast
  from c have w: "(case ts_Update (now e) changed (db_timesheets d) of
             (Inl err, repo) \<Rightarrow> (Inl err, d\<lparr>db_timesheets := repo\<rparr>)
           | (Inr updated, repo) \<Rightarrow>
               let d' = d\<lparr>db_timesheets := repo\<rparr> in (named d' updated, d')) = (Inr r, d')"
    using assms by (simp add: UpdateTimesheet_def)
  obtain wr repo where wr: "ts_Update (now e) changed (db_timesheets d) = (wr, repo)" by (rule prod.exhaust)
  obtain updated where u: "wr = Inr updated" "named (d\<lparr>db_timesheets := repo\<rparr>) updated = Inr r"
    "d\<lparr>db_timesheets := repo\<rparr> = d'"
  proof (cases wr)
    case (Inr updated)
    have "named (d\<lparr>db_timesheets := repo\<rparr>) updated = Inr r \<and> d\<lparr>db_timesheets := repo\<rparr> = d'"
      using w unfolding wr Inr prod.case sum.case Let_def prod.inject .
    then show thesis using that Inr by blast
  qed (use w in \<open>simp add: wr\<close>)
  obtain r' where r': "named (d\<lparr>db_timesheets := repo\<rparr>) updated = Inr r'" "shows_entry r' updated"
    using named_shows by blast
  show ?thesis
  proof (rule exI [of _ before], rule exI [of _ updated], intro conjI)
    show "shows_entry r updated" using r' u(2) by simp
    show "ts_Update (now e) (written_entry cmd before) (db_timesheets d) = (Inr updated, db_timesheets d')"
      unfolding b(3) wr u(1) u(3) [symmetric] by simp
    show "d' = d\<lparr>db_timesheets := snd (ts_Update (now e) (written_entry cmd before) (db_timesheets d))\<rparr>"
      unfolding b(3) wr u(3) [symmetric] by simp
  qed (rule b(1,2))+
qed

lemma Update_refused: 
  assumes "UpdateTimesheet e cmd d = (Inl err, d')" "db_valid d"
  shows "d' = d"
proof -
  have keep: "d\<lparr>db_timesheets := repo\<rparr> = d" if "ts_Update (now e) t (db_timesheets d) = (Inl err', repo)" for t err' repo
  proof -
    have "store_find (ts_ID t) (tr_store (db_timesheets d)) = None"
      using that by (cases "store_find (ts_ID t) (tr_store (db_timesheets d))")
        (auto elim: ts_Update_found [of t "db_timesheets d" _ "now e"])
    then show ?thesis using that by (simp add: ts_Update_missing)
  qed
  show ?thesis using assms(1) keep unfolding UpdateTimesheet_def
    by (cases "checked_update e cmd d") (auto simp: Let_def split: sum.splits prod.splits)
qed

lemma write_back_inv:
  assumes "booking_inv cap d" "db_room d" "entry_at d (ts_ID t) = Some before" "entry_sane t" "ts_UserID t \<noteq> 0"
    and "\<And>p. ts_ProjectID t = Some p \<Longrightarrow> \<exists>pr. project_at d p = Some pr \<and> pr_OwnerID pr = Some (ts_UserID t)"
    and "\<And>x. ts_Date t = midnight x \<Longrightarrow>
           hours_of t + booked d (ts_UserID t) x (ts_ID t) \<le> cap + 1 / 1000000000 + 1 / 10000000000"
  shows "booking_inv cap (d\<lparr>db_timesheets := snd (ts_Update n t (db_timesheets d))\<rparr>)" (is "booking_inv cap ?d")
proof -
  have d: "db_valid d" "entries_sane d" "own_projects d" "capped cap d" using assms(1) by (auto simp: booking_inv_def)
  have v: "db_valid ?d" using d(1) assms(2) by (simp add: db_valid_def db_room_def ts_Update_valid)
  obtain stored where s: "tr_store (db_timesheets ?d) = snd (store_update (ts_ID t) stored (tr_store (db_timesheets d)))"
    "stored = t\<lparr>ts_UpdatedAt := stamp n, ts_CreatedAt := ts_CreatedAt before, ts_RecordedBy := ts_RecordedBy before,
        ts_UpdatedBy := (if Says before t then ts_UpdatedBy before else ts_UpdatedBy t)\<rparr>"
    by (rule ts_Update_found [OF assms(3), of n]) simp
  have at_: "entry_at ?d i = (if i = ts_ID t then Some stored else entry_at d i)" for i
    unfolding s(1) store_find_after using assms(3) by simp
  have sane: "entry_sane stored" using assms(4) by (simp add: s(2) entry_sane_def)
  show ?thesis
  proof (rule booking_invI [OF v])
    show "entries_sane ?d"
      unfolding entries_sane_iff [OF v] at_ using sane d(2) [unfolded entries_sane_iff [OF d(1)]] by (auto split: if_splits)
    show "own_projects ?d"
      using assms(5,6) d(3) unfolding own_projects_def at_ by (auto simp: s(2) split: if_splits)
    show "capped cap ?d"
      unfolding capped_def booked_update [OF d(1) assms(3) s(2,1)]
    proof (intro allI)
      fix user x
      obtain y where y: "ts_Date t = midnight y" using assms(4) by (auto simp: entry_sane_def)
      have less: "booked d user x (ts_ID t) \<le> cap + 1 / 1000000000 + 1 / 10000000000"
        by (rule order_trans [OF booked_exclusion_less [OF d(1,2)]]) (use d(4) capped_def in blast)
      show "booked d user x (ts_ID t) + (if on_day user x t then hours_of t else 0) \<le> cap + 1 / 1000000000 + 1 / 10000000000"
        using assms(7) [OF y] less y by (auto simp: on_day_def add.commute)
    qed
  qed
qed

lemma Update_inv:
  assumes "booking_inv cap d" "db_room d" "UpdateTimesheet e cmd d = (res, d')"
    and "\<And>h. ut_DurationHours cmd = Some h \<Longrightarrow> is_float h" "\<And>t. ut_Date cmd = Some t \<Longrightarrow> \<exists>x. t = midnight x"
    and "dailyCap e = Fin cap" "0 < cap" "cap \<le> 24"
  shows "booking_inv cap d'"
proof (cases res)
  case (Inl err)
  then show ?thesis using Update_refused [of e cmd d err d'] assms(1,3) by (simp add: booking_inv_def)
next
  case (Inr r)
  have d: "db_valid d" "entries_sane d" "own_projects d" using assms(1) by (auto simp: booking_inv_def)
  obtain before where ab: "entry_at d (ut_ID cmd) = Some before" "correctable e cmd d before"
    "d' = d\<lparr>db_timesheets := snd (ts_Update (now e) (written_entry cmd before) (db_timesheets d))\<rparr>"
    using Update_accepted [OF assms(3) [unfolded Inr]] by blast
  have a: "entry_at d (ut_ID cmd) = Some before"
    "moves cmd before \<Longrightarrow> HasProject (moved_entry cmd before) \<Longrightarrow>
       bookable d (ts_UserID (moved_entry cmd before)) (normalizeProjectID (the (ts_ProjectID (moved_entry cmd before))))"
    "validateTimesheet (ts_Date (edited_entry cmd before)) (ts_DurationHours (edited_entry cmd before))
       (ts_Description (edited_entry cmd before)) = Inr ()"
    "checkDailyBudget e d (ts_UserID (edited_entry cmd before)) (ts_Date (edited_entry cmd before))
       (ts_DurationHours (edited_entry cmd before)) (ts_ID before) = Inr ()"
    "d' = d\<lparr>db_timesheets := snd (ts_Update (now e) (written_entry cmd before) (db_timesheets d))\<rparr>"
    using ab by (simp_all add: correctable_def)
  let ?t = "written_entry cmd before"
  have id: "ts_ID before = ut_ID cmd" using entry_at_id [OF d(1) a(1)] .
  have old: "entry_sane before" using d(2) a(1) entries_sane_iff [OF d(1)] by blast
  obtain x where x: "ts_Date ?t = midnight x"
    using assms(5) old by (cases "ut_Date cmd") (auto simp: edited_entry_def entry_sane_def)
  have fl: "is_float (ts_DurationHours ?t)"
    using assms(4) old small_sum by (cases "ut_DurationHours cmd")
      (force simp: edited_entry_def moved_entry_def entry_sane_def abs_less_iff dest: order_trans [OF least_hours_bounds(1)])+
  obtain h where h: "ts_DurationHours ?t = Fin h" "least_hours \<le> h" "h \<le> 24"
    using a(3) by (rule validated_hours) simp
  have h2: "h < 2 ^ 1024" using h(3) by (intro small_sum) simp
  have b: "h + booked d (ts_UserID ?t) x (ts_ID ?t) \<le> cap + 1 / 1000000000 + 1 / 10000000000"
    using a(4) fl h(1) x
    by (intro budget_within [OF d(1,2) _ h(2) h2 assms(6-8)]) auto
  show ?thesis
    unfolding a(5)
  proof (rule write_back_inv [OF assms(1,2)])
    show "entry_at d (ts_ID ?t) = Some before" using a(1) id by simp
    show "entry_sane ?t" using a(3) fl x by (intro sane_entryI) simp_all
    show "ts_UserID ?t \<noteq> 0"
      using ab(2) known_user [OF d(1)] d(3) a(1)
      by (cases "ut_UserID cmd") (auto simp: moved_entry_def correctable_def own_projects_def)
    show "hours_of ?t + booked d (ts_UserID ?t) y (ts_ID ?t) \<le> cap + 1 / 1000000000 + 1 / 10000000000"
      if "ts_Date ?t = midnight y" for y
    proof -
      have "midnight y = midnight x" using that x by simp
      then have "y = x" by (metis local_day_midnight)
      then show ?thesis using b unfolding hours_of_def h(1) by simp
    qed
    show "\<exists>pr. project_at d p = Some pr \<and> pr_OwnerID pr = Some (ts_UserID ?t)" if p: "ts_ProjectID ?t = Some p" for p
    proof (cases "moves cmd before")
      case True
      have "p \<noteq> 0"
      proof (cases "ut_ProjectID cmd")
        case None
        then have "ts_ProjectID before = Some p" using p by (simp add: moved_entry_def)
        then obtain pr where "project_at d p = Some pr" using d(3) a(1) unfolding own_projects_def by blast
        then show ?thesis by (rule project_pos [OF d(1)])
      next
        case (Some q)
        then show ?thesis using p by (auto simp: moved_entry_def normalizeProjectID_def split: if_splits)
      qed
      then show ?thesis
        using a(2) [OF True] p by (auto simp: HasProject_def bookable_def normalizeProjectID_def)
    next
      case False
      then have "ts_UserID ?t = ts_UserID before" "ts_ProjectID ?t = ts_ProjectID before"
        by (auto simp: moves_def moved_entry_def sameProject_iff split: option.splits)
      then show ?thesis using d(3) a(1) p by (auto simp: own_projects_def)
    qed
  qed
qed

section \<open>Deleting\<close>

lemma Delete_inv:
  assumes "booking_inv cap d" "DeleteTimesheet i d = (res, d')"
  shows "booking_inv cap d'"
proof (cases "i = 0 \<or> entry_at d i = None")
  case True
  then have "DeleteTimesheet i d = (fst (DeleteTimesheet i d), d)"
    by (cases "i = 0") (simp_all add: DeleteTimesheet_def ts_GetByID_def store_get_def)
  then have "d' = d" using assms(2) by simp
  then show ?thesis using assms(1) by simp
next
  case False
  then obtain t where t: "i \<noteq> 0" "entry_at d i = Some t" by auto
  have d: "db_valid d" "entries_sane d" "own_projects d" "capped cap d" using assms(1) by (auto simp: booking_inv_def)
  have d': "d' = d\<lparr>db_timesheets := snd (ts_Delete i (db_timesheets d))\<rparr>"
    using assms(2) t by (auto simp: DeleteTimesheet_def ts_GetByID_def store_get_def split: prod.splits)
  have s: "tr_store (db_timesheets d') = snd (store_delete i (tr_store (db_timesheets d)))"
    by (simp add: d' ts_Delete_def split: prod.split sum.split)
  have v: "db_valid d'" using d(1) by (simp add: d' db_valid_def ts_Delete_valid)
  have at_: "entry_at d' j = (if j = i then None else entry_at d j)" for j by (simp add: s store_find_after)
  show ?thesis
  proof (rule booking_invI [OF v])
    show "entries_sane d'" unfolding entries_sane_iff [OF v] at_ using d(2) [unfolded entries_sane_iff [OF d(1)]] by (auto split: if_splits)
    show "own_projects d'" using d(3) unfolding own_projects_def at_ by (auto simp: d' split: if_splits)
    show "capped cap d'"
      unfolding capped_def booked_delete [OF d(1) s]
      by (rule allI, rule allI, rule order_trans [OF booked_exclusion_less [OF d(1,2)]]) (use d(4) capped_def in blast)
  qed
qed

end
