(* ===== verification/ProjectRules.thy ===== *)
theory ProjectRules
  imports ProjectService BookingSafety
begin

text \<open>
  What holds of projects whatever is asked of the service: the rules every stored project keeps,
  how one comes to be archived, when one may be deleted, and that a project is no more there for
  anybody but its owner than one that does not exist.
\<close>

section \<open>Validation\<close>

definition currency_ok :: "gostring \<Rightarrow> bool" where
  "currency_ok c \<longleftrightarrow> length c = 3 \<and> list_all is_capital c"

lemma trim_all: "trim_chars P s = [] \<longleftrightarrow> list_all P s"
proof (cases "dropWhile P s")
  case Nil
  then show ?thesis by (auto simp: trim_chars_def list_all_iff dest: set_dropWhileD)
next
  case (Cons c cs)
  then have "\<not> P c" "s = takeWhile P s @ c # cs" by (auto simp: dropWhile_eq_Cons_conv)
  moreover from this(2) have "c \<in> set s" by (metis in_set_conv_decomp)
  ultimately show ?thesis using Cons by (auto simp: trim_chars_def list_all_iff)
qed

lemma currencyCode_ok: "currencyCode up c = Inr c' \<Longrightarrow> currency_ok c'"
  by (auto simp: currencyCode_def Let_def currency_ok_def trim_all DefaultCurrency_def is_capital_def byte_def
      split: if_splits)

lemma validateRate_Inr: "validateRate (Some r) = Inr u \<longleftrightarrow> (\<exists>x. r = Fin x \<and> 0 \<le> x \<and> x \<le> 100000)"
  by (cases r) (auto simp: validateRate_def MaxHourlyRate_def fle_def)

lemma validateBudget_Inr: "validateBudget (Some h) = Inr u \<longleftrightarrow> (\<exists>x. h = Fin x \<and> 0 \<le> x \<and> x \<le> 100000)"
  by (cases h) (auto simp: validateBudget_def MaxBudgetHours_def fle_def)

lemma to_int64_whole: "\<bar>n\<bar> < 2 ^ 63 \<Longrightarrow> to_int64 (Fin (of_int n)) = Some n"
  by (auto simp: Let_def abs_less_iff)

lemma hundredths_bounds:
  assumes "validateRate (Some r) = Inr ()" "hundredths (Some r) = Some v"
  shows "0 < v \<and> v \<le> 10000000"
proof -
  obtain x where x: "r = Fin x" "0 \<le> x" "x \<le> 100000" using assms(1) unfolding validateRate_Inr by blast
  have "rnd (x * 100) \<le> rnd (of_int 10000000)" by (rule rnd_mono) (use x in simp)
  also have "rnd (of_int 10000000) = 10000000" by (subst rnd_of_int) simp_all
  finally have b: "0 \<le> rnd (x * 100)" "rnd (x * 100) \<le> 10000000" using x by (simp_all add: rnd_nonneg)
  have "rnd (x * 100) < 2 ^ 1024"
    using b(2) by (rule le_less_trans) (rule less_le_trans [of _ "2 ^ 24"], simp, intro power_increasing, simp_all)
  then have f: "fmul r (Fin 100) = Fin (rnd (x * 100))" using b(1) by (simp add: x fl_small)
  define n where "n = round_away (rnd (x * 100))"
  have n: "0 \<le> n" "n \<le> 10000000" using b by (simp_all add: n_def round_away_def floor_le_iff)
  then have "to_int64 (fround (fmul r (Fin 100))) = Some n"
    unfolding f by (simp only: fround.simps n_def [symmetric]) (rule to_int64_whole, simp)
  then show ?thesis using assms(2) n by (auto simp: hundredths_def Let_def split: if_splits)
qed

section \<open>The rules of a project\<close>

definition project_ok :: "project \<Rightarrow> bool" where
  "project_ok p \<longleftrightarrow> validateProject (pr_Name p) (pr_Status p) (pr_Description p) (pr_StartDate p) (pr_EndDate p) = Inr ()
     \<and> (\<forall>h. pr_BudgetHours p = Some h \<longrightarrow> (\<exists>x. h = Fin x \<and> 0 < x \<and> x \<le> 100000))
     \<and> (\<forall>r. pr_HourlyRate p = Some r \<longrightarrow> 0 < r \<and> r \<le> 10000000)
     \<and> currency_ok (pr_Currency p)"

definition projects_ok :: "db \<Rightarrow> bool" where
  "projects_ok d \<longleftrightarrow> (\<forall>i p. project_at d i = Some p \<longrightarrow> project_ok p)"

lemma validateProject_Inr:
  "validateProject name status description start finish = Inr u \<longleftrightarrow>
     name \<noteq> [] \<and> \<not> TooLong name MaxNameLength \<and> (\<forall>x. description = Some x \<longrightarrow> \<not> TooLong x MaxDescriptionLength)
     \<and> OnTheCalendar start \<and> (\<forall>t. finish = Some t \<longrightarrow> OnTheCalendar t \<and> (is_zero_time start \<or> ns start \<le> ns t))
     \<and> status \<in> {ProjectStatusActive, ProjectStatusCompleted, ProjectStatusArchived}"
  by (cases description; cases finish) (auto simp: validateProject_def)

lemma budget_kept:
  "validateBudget h = Inr () \<Longrightarrow> budgetOrNone h = Some b \<Longrightarrow> \<exists>x. b = Fin x \<and> 0 < x \<and> x \<le> 100000"
  by (cases h) (auto simp: validateBudget_Inr budgetOrNone_def split: if_splits)

lemma rate_kept: "validateRate r = Inr () \<Longrightarrow> hundredths r = Some v \<Longrightarrow> 0 < v \<and> v \<le> 10000000"
  by (cases r) (use hundredths_bounds in \<open>auto simp: hundredths_def\<close>)

lemma checked_project_ok: "checked_project e cmd = Inr p \<Longrightarrow> project_ok p"
  unfolding checked_project_def Let_def bind_res_Inr
  by (elim exE conjE) (auto simp: project_ok_def bind_res_unit dest: budget_kept rate_kept currencyCode_ok)

text \<open>A change keeps whose project it is and its id, archives only what was completed, and leaves
  a project that keeps the rules.\<close>

lemma renamed_keeps [simp]:
  "pr_ID (renamed_project cmd p) = pr_ID p" "pr_OwnerID (renamed_project cmd p) = pr_OwnerID p"
  "pr_Status (renamed_project cmd p) = pr_Status p" "pr_BudgetHours (renamed_project cmd p) = pr_BudgetHours p"
  "pr_HourlyRate (renamed_project cmd p) = pr_HourlyRate p" "pr_Currency (renamed_project cmd p) = pr_Currency p"
  by (simp_all add: renamed_project_def)

definition status_step :: "gostring \<Rightarrow> gostring \<Rightarrow> bool" where
  "status_step st st' \<longleftrightarrow> st' = st \<or> st' \<noteq> ProjectStatusArchived \<or> st = ProjectStatusCompleted"

lemma status_set:
  assumes "(case st of None \<Rightarrow> Inr p | Some st \<Rightarrow> bind_res (validateStatusTransition p st) (\<lambda>_. Inr (p\<lparr>pr_Status := st\<rparr>))) = Inr q"
  shows "\<exists>s. q = p\<lparr>pr_Status := s\<rparr> \<and> status_step (pr_Status p) s"
proof (cases st)
  case None
  then have "q = p" using assms by simp
  then show ?thesis by (intro exI [of _ "pr_Status p"]) (simp add: status_step_def)
next
  case (Some x)
  then show ?thesis using assms by (auto simp: validateStatusTransition_def bind_res_Inr status_step_def split: if_splits)
qed

lemma budget_set:
  assumes "(case h of None \<Rightarrow> Inr p | Some h \<Rightarrow> bind_res (validateBudget (Some h)) (\<lambda>_. Inr (p\<lparr>pr_BudgetHours := budgetOrNone (Some h)\<rparr>))) = Inr q"
  shows "\<exists>b. q = p\<lparr>pr_BudgetHours := b\<rparr> \<and> (b = pr_BudgetHours p \<or> (\<forall>h. b = Some h \<longrightarrow> (\<exists>x. h = Fin x \<and> 0 < x \<and> x \<le> 100000)))"
proof (cases h)
  case None
  then have "q = p" using assms by simp
  then show ?thesis by (intro exI [of _ "pr_BudgetHours p"]) (simp)
next
  case (Some x)
  then show ?thesis using assms by (auto simp: bind_res_unit dest: budget_kept)
qed

lemma rate_set:
  assumes "(case r of None \<Rightarrow> Inr p | Some r \<Rightarrow> bind_res (validateRate (Some r)) (\<lambda>_. Inr (p\<lparr>pr_HourlyRate := hundredths (Some r)\<rparr>))) = Inr q"
  shows "\<exists>v. q = p\<lparr>pr_HourlyRate := v\<rparr> \<and> (v = pr_HourlyRate p \<or> (\<forall>r. v = Some r \<longrightarrow> 0 < r \<and> r \<le> 10000000))"
proof (cases r)
  case None
  then have "q = p" using assms by simp
  then show ?thesis by (intro exI [of _ "pr_HourlyRate p"]) (simp)
next
  case (Some x)
  then show ?thesis using assms by (auto simp: bind_res_unit dest: rate_kept)
qed

lemma currency_set:
  assumes "(case c of None \<Rightarrow> Inr p | Some c \<Rightarrow> bind_res (currencyCode up c) (\<lambda>c. Inr (p\<lparr>pr_Currency := c\<rparr>))) = Inr q"
  shows "\<exists>v. q = p\<lparr>pr_Currency := v\<rparr> \<and> (v = pr_Currency p \<or> currency_ok v)"
proof (cases c)
  case None
  then have "q = p" using assms by simp
  then show ?thesis by (intro exI [of _ "pr_Currency p"]) (simp)
next
  case (Some x)
  then show ?thesis using assms by (auto simp: bind_res_Inr dest: currencyCode_ok)
qed

lemma edited_project_keeps:
  assumes "edited_project e cmd p = Inr q"
  shows "pr_ID q = pr_ID p \<and> pr_OwnerID q = pr_OwnerID p \<and> status_step (pr_Status p) (pr_Status q)
    \<and> (project_ok p \<longrightarrow> project_ok q)"
proof -
  let ?bill = "\<lambda>p. case up_Billable cmd of None \<Rightarrow> p | Some b \<Rightarrow> p\<lparr>pr_Billable := b\<rparr>"
  obtain p1 p2 p4 where
    s: "(case up_Status cmd of None \<Rightarrow> Inr (renamed_project cmd p)
       | Some st \<Rightarrow> bind_res (validateStatusTransition (renamed_project cmd p) st)
           (\<lambda>_. Inr ((renamed_project cmd p)\<lparr>pr_Status := st\<rparr>))) = Inr p1"
    and b: "(case up_BudgetHours cmd of None \<Rightarrow> Inr p1
       | Some h \<Rightarrow> bind_res (validateBudget (Some h)) (\<lambda>_. Inr (p1\<lparr>pr_BudgetHours := budgetOrNone (Some h)\<rparr>))) = Inr p2"
    and r: "(case up_HourlyRate cmd of None \<Rightarrow> Inr (?bill p2)
       | Some r \<Rightarrow> bind_res (validateRate (Some r)) (\<lambda>_. Inr ((?bill p2)\<lparr>pr_HourlyRate := hundredths (Some r)\<rparr>))) = Inr p4"
    and c: "(case up_Currency cmd of None \<Rightarrow> Inr p4
       | Some c \<Rightarrow> bind_res (currencyCode (upper e) c) (\<lambda>c. Inr (p4\<lparr>pr_Currency := c\<rparr>))) = Inr q"
    and v: "validateProject (pr_Name q) (pr_Status q) (pr_Description q) (pr_StartDate q) (pr_EndDate q) = Inr ()"
    using assms unfolding edited_project_def Let_def bind_res_Inr [where b = q] by (auto simp: bind_res_Inr)
  obtain st where s': "p1 = (renamed_project cmd p)\<lparr>pr_Status := st\<rparr>" "status_step (pr_Status p) st"
    using status_set [OF s] by auto
  obtain bu where b': "p2 = p1\<lparr>pr_BudgetHours := bu\<rparr>"
    "bu = pr_BudgetHours p1 \<or> (\<forall>h. bu = Some h \<longrightarrow> (\<exists>x. h = Fin x \<and> 0 < x \<and> x \<le> 100000))" using budget_set [OF b] by auto
  obtain ra where r': "p4 = (?bill p2)\<lparr>pr_HourlyRate := ra\<rparr>"
    "ra = pr_HourlyRate (?bill p2) \<or> (\<forall>r. ra = Some r \<longrightarrow> 0 < r \<and> r \<le> 10000000)" using rate_set [OF r] by blast
  obtain cu where c': "q = p4\<lparr>pr_Currency := cu\<rparr>" "cu = pr_Currency p4 \<or> currency_ok cu" using currency_set [OF c] by auto
  have bill: "pr_ID (?bill p2) = pr_ID p2" "pr_OwnerID (?bill p2) = pr_OwnerID p2" "pr_Status (?bill p2) = pr_Status p2"
    "pr_BudgetHours (?bill p2) = pr_BudgetHours p2" "pr_HourlyRate (?bill p2) = pr_HourlyRate p2"
    "pr_Currency (?bill p2) = pr_Currency p2" by (simp_all split: option.split)
  have q: "pr_ID q = pr_ID p" "pr_OwnerID q = pr_OwnerID p" "pr_Status q = st" "pr_BudgetHours q = bu" "pr_HourlyRate q = ra"
    "pr_Currency q = cu" using bill by (simp_all add: c'(1) r'(1) b'(1) s'(1))
  have old: "pr_BudgetHours p1 = pr_BudgetHours p" "pr_HourlyRate (?bill p2) = pr_HourlyRate p" "pr_Currency p4 = pr_Currency p"
    using bill by (simp_all add: r'(1) b'(1) s'(1))
  show ?thesis
    using s'(2) b'(2) r'(2) c'(2) v unfolding old by (auto simp: project_ok_def q)
qed

section \<open>What the operations do to the store\<close>

lemma Create_project:
  "CreateProject e cmd d = (res, d') \<Longrightarrow> (\<exists>err. res = Inl err \<and> d' = d)
     \<or> (\<exists>p. checked_project e cmd = Inr p \<and> res = Inr (NewProjectResultFromModel (project_with_id (st_nextID (db_projects d)) p))
          \<and> d' = d\<lparr>db_projects := snd (store_add project_with_id p (db_projects d))\<rparr>)"
  by (cases "checked_project e cmd")
    (auto simp: CreateProject_def project_Save_def store_add_def Let_def)

lemma Update_project:
  assumes "UpdateProject e cmd d = (res, d')" "db_valid d"
  shows "(\<exists>err. res = Inl err \<and> d' = d)
     \<or> (\<exists>p q. project_at d (up_ID cmd) = Some p \<and> (up_ActorID cmd = 0 \<or> pr_OwnerID p = Some (up_ActorID cmd))
          \<and> edited_project e cmd p = Inr q
          \<and> d' = d\<lparr>db_projects := snd (store_update (up_ID cmd) q (db_projects d))\<rparr>)"
proof -
  let ?c = "if up_ID cmd = 0 then Inl (InvalidFields [''id''])
      else bind_res (store_get (up_ID cmd) (db_projects d)) (\<lambda>p.
           bind_res (RequireVisible p (up_ActorID cmd)) (\<lambda>_. edited_project e cmd p))"
  show ?thesis
  proof (cases ?c)
    case (Inl err)
    then have "Inl err = res \<and> d = d'" using assms(1) unfolding UpdateProject_def Inl by simp
    then show ?thesis by blast
  next
    case (Inr q)
    then have "up_ID cmd \<noteq> 0" by (cases "up_ID cmd = 0") simp_all
    then obtain p where p: "project_at d (up_ID cmd) = Some p"
      "up_ActorID cmd = 0 \<or> pr_OwnerID p = Some (up_ActorID cmd)" "edited_project e cmd p = Inr q"
      using Inr by (auto simp: bind_res_unit bind_res_Inr)
    have "pr_ID q = up_ID cmd"
      using edited_project_keeps [OF p(3)] p(1) assms(2) by (simp add: db_valid_def projects_keyed_def)
    then have "d\<lparr>db_projects := snd (store_update (up_ID cmd) q (db_projects d))\<rparr> = d'"
      using assms(1) p(1) unfolding UpdateProject_def Inr
      by (simp add: project_Update_def store_update_def Let_def)
    then show ?thesis using p by blast
  qed
qed

lemma Archive_project:
  assumes "ArchiveProject i viewer d = (res, d')" "db_valid d"
  shows "(\<exists>err. res = Inl err \<and> d' = d)
     \<or> (\<exists>p. project_at d i = Some p \<and> (viewer = 0 \<or> pr_OwnerID p = Some viewer) \<and> pr_Status p = ProjectStatusCompleted
          \<and> d' = d\<lparr>db_projects := snd (store_update i (p\<lparr>pr_Status := ProjectStatusArchived\<rparr>) (db_projects d))\<rparr>)"
proof -
  let ?c = "bind_res (store_get i (db_projects d)) (\<lambda>p.
           bind_res (RequireVisible p viewer) (\<lambda>_.
           if pr_Status p \<noteq> ProjectStatusCompleted
           then Inl (WithCode Conflictf ''archiveNeedsCompleted'' [VString ProjectStatusCompleted])
           else Inr (p\<lparr>pr_Status := ProjectStatusArchived\<rparr>)))"
  show ?thesis
  proof (cases ?c)
    case (Inl err)
    then have "Inl err = res \<and> d = d'" using assms(1) unfolding ArchiveProject_def Inl by simp
    then show ?thesis by blast
  next
    case (Inr q)
    then obtain p where p: "project_at d i = Some p" "viewer = 0 \<or> pr_OwnerID p = Some viewer"
      "pr_Status p = ProjectStatusCompleted" "q = p\<lparr>pr_Status := ProjectStatusArchived\<rparr>"
      by (auto simp: bind_res_unit bind_res_Inr split: if_splits)
    have "pr_ID q = i" using p(1,4) assms(2) by (simp add: db_valid_def projects_keyed_def)
    then have "d\<lparr>db_projects := snd (store_update i q (db_projects d))\<rparr> = d'"
      using assms(1) p(1) unfolding ArchiveProject_def Inr by (simp add: project_Update_def store_update_def)
    then show ?thesis using p by blast
  qed
qed

lemma no_entries:
  assumes "db_valid d" "i \<noteq> 0"
  shows "ts_CountByFilter low ((all_of 0)\<lparr>fi_ProjectID := i\<rparr>) (db_timesheets d) = 0 \<longleftrightarrow>
    (\<forall>j t. entry_at d j = Some t \<longrightarrow> ts_ProjectID t \<noteq> Some i)"
proof -
  have m: "matchesFilter low t (OverWholeDays ((all_of 0)\<lparr>fi_ProjectID := i\<rparr>)) \<longleftrightarrow> ts_ProjectID t = Some i" for t
    using assms(2) by (auto simp: matchesFilter_def OverWholeDays_def all_of_def HasProject_def)
  show ?thesis
    unfolding ts_CountByFilter_def matching_def Let_def m length_0_conv filter_empty_conv
    using entry_ids [OF assms(1)] entry_at_id [OF assms(1)] by metis
qed

lemma no_clocks:
  assumes "timers_keyed r"
  shows "timer_CountByProject i r = 0 \<longleftrightarrow> (\<forall>u t. timer_Get u r = Some t \<longrightarrow> ti_ProjectID t \<noteq> Some i)"
proof -
  have "(u, t) \<in> set r \<longleftrightarrow> timer_Get u r = Some t" for u t
    using assms by (simp add: timers_keyed_def timer_Get_def)
  then show ?thesis by (auto simp: timer_CountByProject_def filter_empty_conv)
qed

definition unused :: "db \<Rightarrow> uint \<Rightarrow> bool" where
  "unused d i \<longleftrightarrow> (\<forall>j t. entry_at d j = Some t \<longrightarrow> ts_ProjectID t \<noteq> Some i)
     \<and> (\<forall>u t. timer_Get u (db_timers d) = Some t \<longrightarrow> ti_ProjectID t \<noteq> Some i)"

lemma Delete_project:
  assumes "db_valid d" "DeleteProject e i actor d = (res, d')"
  shows "(res = Inr () \<longleftrightarrow> (\<exists>p. project_at d i = Some p \<and> (actor = 0 \<or> pr_OwnerID p = Some actor)) \<and> unused d i)
    \<and> (res \<noteq> Inr () \<longrightarrow> d' = d)
    \<and> (res = Inr () \<longrightarrow> d' = d\<lparr>db_projects := snd (store_delete i (db_projects d))\<rparr>)"
proof -
  let ?c = "if i = 0 then Inl (InvalidFields [''id''])
            else bind_res (store_get i (db_projects d)) (\<lambda>p.
                 bind_res (RequireVisible p actor) (\<lambda>_.
                 let entries = ts_CountByFilter (lower e) ((all_of 0)\<lparr>fi_ProjectID := i\<rparr>) (db_timesheets d)
                 in if 0 < entries then Inl (WithCode Conflictf ''projectHasEntries'' [VUint entries])
                    else let timing = timer_CountByProject i (db_timers d)
                         in if 0 < timing then Inl (WithCode Conflictf ''projectIsBeingTimed'' [VInt (int timing)])
                            else Inr ()))"
  have tk: "timers_keyed (db_timers d)" using assms(1) by (simp add: db_valid_def)
  have c: "?c = Inr () \<longleftrightarrow> (\<exists>p. project_at d i = Some p \<and> (actor = 0 \<or> pr_OwnerID p = Some actor)) \<and> unused d i"
  proof (cases "i = 0")
    case True
    then show ?thesis using project_pos [OF assms(1)] by auto
  next
    case False
    show ?thesis
      using no_entries [OF assms(1) False] no_clocks [OF tk, of i] False
      by (auto simp: bind_res_unit bind_res_Inr Let_def unused_def split: if_splits)
  qed
  show ?thesis
  proof (cases ?c)
    case (Inl err)
    then have "(res, d') = (Inl err, d)" using assms(2) unfolding DeleteProject_def Inl by simp
    then show ?thesis using c [unfolded Inl] by simp
  next
    case (Inr u)
    then have ok: "?c = Inr ()" by simp
    then obtain p where p: "project_at d i = Some p" using c by blast
    have "(res, d') = (Inr (), d\<lparr>db_projects := snd (store_delete i (db_projects d))\<rparr>)"
      using assms(2) p unfolding DeleteProject_def ok by (simp add: project_Delete_def store_delete_def)
    then show ?thesis using c [unfolded ok] by simp
  qed
qed

lemma projects_ok_store:
  "projects_ok d \<Longrightarrow> (\<And>i p. store_find i s = Some p \<Longrightarrow> project_at d i = Some p \<or> project_ok p)
     \<Longrightarrow> projects_ok (d\<lparr>db_projects := s\<rparr>)"
  by (auto simp: projects_ok_def)

section \<open>Invariants\<close>

inductive project_step :: "env \<Rightarrow> db \<Rightarrow> db \<Rightarrow> bool" for e :: env where
  created: "CreateProject e cmd d = (res, d') \<Longrightarrow> db_room d \<Longrightarrow> project_step e d d'"
| changed: "UpdateProject e cmd' d = (res, d') \<Longrightarrow> project_step e d d'"
| archived: "ArchiveProject i viewer d = (res', d') \<Longrightarrow> project_step e d d'"
| deleted: "DeleteProject e i actor d = (res'', d') \<Longrightarrow> project_step e d d'"

text \<open>Every step replaces, adds or removes one project, or does nothing.\<close>

definition project_write :: "env \<Rightarrow> db \<Rightarrow> project store \<Rightarrow> bool" where
  "project_write e d s \<longleftrightarrow> s = db_projects d
     \<or> (\<exists>p. project_ok p \<and> db_room d \<and> s = snd (store_add project_with_id p (db_projects d)))
     \<or> (\<exists>i p q. project_at d i = Some p \<and> pr_ID q = i \<and> pr_OwnerID q = pr_OwnerID p
          \<and> status_step (pr_Status p) (pr_Status q) \<and> (project_ok p \<longrightarrow> project_ok q)
          \<and> s = snd (store_update i q (db_projects d)))
     \<or> (\<exists>i. unused d i \<and> s = snd (store_delete i (db_projects d)))"

lemma project_write_same [simp]: "project_write e d (db_projects d)"
  by (simp add: project_write_def)

lemma archive_ok: "project_ok p \<Longrightarrow> project_ok (p\<lparr>pr_Status := ProjectStatusArchived\<rparr>)"
  by (auto simp: project_ok_def validateProject_Inr)

lemma project_step_write:
  assumes "project_step e d d'" "db_valid d"
  shows "\<exists>s. d\<lparr>db_projects := s\<rparr> = d' \<and> project_write e d s"
  using assms
proof cases
  case (created cmd res)
  from Create_project [OF this(1)] show ?thesis
  proof (elim disjE exE conjE)
    show ?thesis if "d' = d" by (rule exI [of _ "db_projects d"]) (use that in simp)
    show ?thesis if "checked_project e cmd = Inr p"
      "d' = d\<lparr>db_projects := snd (store_add project_with_id p (db_projects d))\<rparr>" for p
      by (rule exI [of _ "snd (store_add project_with_id p (db_projects d))"])
        (use that(2) created(2) checked_project_ok [OF that(1)] in \<open>unfold project_write_def, blast\<close>)
  qed
next
  case (changed cmd res)
  then consider (same) "d = d'"
    | (one) p q where "project_at d (up_ID cmd) = Some p" "edited_project e cmd p = Inr q"
        "d\<lparr>db_projects := snd (store_update (up_ID cmd) q (db_projects d))\<rparr> = d'"
    using Update_project [OF changed assms(2)] by blast
  then show ?thesis
  proof cases
    case same
    then show ?thesis by - (rule exI [of _ "db_projects d"], simp)
  next
    case one
    have "pr_ID q = up_ID cmd"
      using edited_project_keeps [OF one(2)] one(1) assms(2) by (simp add: db_valid_def projects_keyed_def)
    then have "project_write e d (snd (store_update (up_ID cmd) q (db_projects d)))"
      using edited_project_keeps [OF one(2)] one(1) unfolding project_write_def by blast
    then show ?thesis using one(3) by blast
  qed
next
  case (archived i viewer res)
  then consider (same) "d = d'"
    | (one) p where "project_at d i = Some p" "pr_Status p = ProjectStatusCompleted"
        "d\<lparr>db_projects := snd (store_update i (p\<lparr>pr_Status := ProjectStatusArchived\<rparr>) (db_projects d))\<rparr> = d'"
    using Archive_project [OF archived assms(2)] by blast
  then show ?thesis
  proof cases
    case same
    then show ?thesis by - (rule exI [of _ "db_projects d"], simp)
  next
    case one
    let ?q = "p\<lparr>pr_Status := ProjectStatusArchived\<rparr>"
    have "pr_ID ?q = i" using one(1) assms(2) by (simp add: db_valid_def projects_keyed_def)
    moreover have "status_step (pr_Status p) (pr_Status ?q)" using one(2) by (simp add: status_step_def)
    moreover have "pr_OwnerID ?q = pr_OwnerID p" by simp
    ultimately have "project_write e d (snd (store_update i ?q (db_projects d)))"
      using one(1) archive_ok unfolding project_write_def by blast
    then show ?thesis using one(3) by blast
  qed
next
  case (deleted i actor res)
  note del = Delete_project [OF assms(2) this]
  show ?thesis
  proof (cases "res = Inr ()")
    case True
    then have u: "unused d i" and w: "d\<lparr>db_projects := snd (store_delete i (db_projects d))\<rparr> = d'" using del by auto
    show ?thesis by (rule exI, rule conjI, rule w) (use u in \<open>auto simp: project_write_def\<close>)
  next
    case False
    then have "d' = d" using del by blast
    then show ?thesis by - (rule exI [of _ "db_projects d"], simp)
  qed
qed

lemma project_write_ok: "project_write e d s \<Longrightarrow> projects_ok d \<Longrightarrow> projects_ok (d\<lparr>db_projects := s\<rparr>)"
  unfolding project_write_def
proof (elim disjE exE conjE)
  show "projects_ok d \<Longrightarrow> project_ok p \<Longrightarrow> db_room d \<Longrightarrow> s = snd (store_add project_with_id p (db_projects d))
      \<Longrightarrow> projects_ok (d\<lparr>db_projects := s\<rparr>)" for p
    by (auto simp: projects_ok_def store_find_after project_with_id_def project_ok_def)
  show "projects_ok d \<Longrightarrow> project_at d i = Some p \<Longrightarrow> project_ok p \<longrightarrow> project_ok q
      \<Longrightarrow> s = snd (store_update i q (db_projects d)) \<Longrightarrow> projects_ok (d\<lparr>db_projects := s\<rparr>)" for i p q
    by (auto simp: projects_ok_def store_find_after)
  show "projects_ok d \<Longrightarrow> s = snd (store_delete i (db_projects d)) \<Longrightarrow> projects_ok (d\<lparr>db_projects := s\<rparr>)" for i
    by (auto simp: projects_ok_def store_find_after split: if_splits)
qed simp

lemma project_write_valid:
  assumes "project_write e d s" "db_valid d"
  shows "db_valid (d\<lparr>db_projects := s\<rparr>)"
proof -
  have v: "store_valid (db_projects d)" "projects_keyed (db_projects d)"
    using assms by (simp_all add: db_valid_def)
  have r: "db_room d \<Longrightarrow> store_room (db_projects d)" by (simp add: db_room_def)
  have "store_valid s \<and> projects_keyed s"
    using assms(1) v r unfolding project_write_def
    by (auto intro: mem.valid_add mem.valid_update mem.valid_delete projects.keyed_add projects.keyed_update projects.keyed_delete)
  then show ?thesis using assms(2) by (simp add: db_valid_def)
qed

lemma project_write_own:
  assumes "project_write e d s" "db_valid d" "own_projects d"
  shows "own_projects (d\<lparr>db_projects := s\<rparr>)"
proof -
  have f: "store_find (st_nextID (db_projects d)) (db_projects d) = None"
    using assms(2) by (intro mem.fresh) (simp add: db_valid_def)
  show ?thesis
    using assms(1,3) f unfolding project_write_def own_projects_def
    by (elim disjE exE conjE) (force simp: store_find_after unused_def)+
qed

text \<open>Whatever sequence of creations, changes, archivings and deletions led to it, every stored
  project has a name of a length the columns hold, a known status, dates on the calendar in order,
  a budget and a rate that are positive and within what is charged, or none, and a currency of
  three capital letters - whatever the requests carried, NaN included, and whatever the upper
  case of a currency comes out as.\<close>

lemma project_rules:
  assumes "(project_step e)\<^sup>*\<^sup>* d d'" "db_valid d" "projects_ok d"
  shows "db_valid d' \<and> projects_ok d'"
  using assms
proof (induction rule: rtranclp_induct)
  case (step x y)
  then have x: "projects_ok x" "db_valid x" by simp_all
  obtain s where s: "x\<lparr>db_projects := s\<rparr> = y" "project_write e x s"
    using project_step_write [OF step.hyps(2) x(2)] by blast
  then show ?case using project_write_ok [OF s(2) x(1)] project_write_valid [OF s(2) x(2)] by simp
qed simp

definition sample_create_project :: create_project where
  "sample_create_project = \<lparr>cp_Name = ''Engine'', cp_Description = None, cp_StartDate = midnight 19000,
     cp_EndDate = None, cp_Status = [], cp_OwnerID = Some 1, cp_Today = midnight 19000, cp_BudgetHours = Some (Fin 40),
     cp_Billable = True, cp_HourlyRate = None, cp_Currency = []\<rparr>"

lemma short_name: "\<not> TooLong ''Engine'' MaxNameLength"
  by (subst TooLong_def, subst TrimSpace_ascii_word)
    (simp_all add: runes_ascii byte_def MaxNameLength_def is_space_def)

lemma sample_project_ok: "project_ok sample_project"
  by (simp add: project_ok_def validateProject_Inr sample_project_def short_name OnTheCalendar_midnight currency_ok_def
      DefaultCurrency_def is_capital_def byte_def)

lemma sample_projects_ok: "projects_ok sample_db"
  using sample_project_ok by (simp add: projects_ok_def sample_project_at)

theorem project_rules_witness:
  "projects_ok (snd (CreateProject sample_env sample_create_project sample_db))
     \<and> db_valid (snd (CreateProject sample_env sample_create_project sample_db))"
proof -
  obtain res d' where c: "CreateProject sample_env sample_create_project sample_db = (res, d')" by (rule prod.exhaust)
  then have "(project_step sample_env)\<^sup>*\<^sup>* sample_db d'"
    using project_step.created sample_room by blast
  from project_rules [OF this sample_valid sample_projects_ok] c show ?thesis by simp
qed

text \<open>A project comes to be archived only from being completed: across any one step a project
  there was before keeps its owner, and where its status turns into archived it was completed.\<close>

lemma archived_after_completed:
  assumes "project_step e d d'" "db_valid d" "project_at d i = Some p" "project_at d' i = Some q"
  shows "pr_OwnerID q = pr_OwnerID p
    \<and> (pr_Status q = ProjectStatusArchived \<longrightarrow> pr_Status p \<in> {ProjectStatusArchived, ProjectStatusCompleted})"
proof -
  obtain s where s: "d\<lparr>db_projects := s\<rparr> = d'" "project_write e d s" using project_step_write [OF assms(1,2)] by blast
  have q: "store_find i s = Some q" using assms(4) s(1) by auto
  have f: "st_nextID (db_projects d) \<noteq> i"
    using assms(2,3) mem.fresh [of "db_projects d"] by (auto simp: db_valid_def)
  show ?thesis
    using s(2) q assms(3) f unfolding project_write_def
    by (elim disjE exE conjE) (auto simp: store_find_after status_step_def split: if_splits)
qed

theorem archived_after_completed_witness:
  "\<not> (\<exists>q. project_at (snd (ArchiveProject 1 1 sample_db)) 1 = Some q \<and> pr_Status q = ProjectStatusArchived)"
proof
  assume "\<exists>q. project_at (snd (ArchiveProject 1 1 sample_db)) 1 = Some q \<and> pr_Status q = ProjectStatusArchived"
  then obtain q where q: "project_at (snd (ArchiveProject 1 1 sample_db)) 1 = Some q" "pr_Status q = ProjectStatusArchived" by blast
  have "project_step sample_env sample_db (snd (ArchiveProject 1 1 sample_db))"
    by (rule project_step.archived) (rule prod.collapse [symmetric])
  from archived_after_completed [OF this sample_valid _ q(1)] q(2) show False
    by (simp add: sample_project_at sample_project_def status_names)
qed

text \<open>A project is deleted exactly when whoever asks may see it and neither an entry nor a
  running clock is on it - everything else is refused and changes nothing - so no entry and no
  clock is ever left on a project that is gone.\<close>

lemma delete_project_iff:
  assumes "db_valid d" "DeleteProject e i actor d = (res, d')"
  shows "(res = Inr () \<longleftrightarrow>
        (\<exists>p. project_at d i = Some p \<and> (actor = 0 \<or> pr_OwnerID p = Some actor))
        \<and> (\<forall>j t. entry_at d j = Some t \<longrightarrow> ts_ProjectID t \<noteq> Some i)
        \<and> (\<forall>u t. timer_Get u (db_timers d) = Some t \<longrightarrow> ti_ProjectID t \<noteq> Some i))
    \<and> (res \<noteq> Inr () \<longrightarrow> d' = d)
    \<and> (res = Inr () \<longrightarrow> project_at d' i = None \<and> (\<forall>j. j \<noteq> i \<longrightarrow> project_at d' j = project_at d j)
         \<and> d' = d\<lparr>db_projects := db_projects d'\<rparr>)"
  using Delete_project [OF assms] by (auto simp: unused_def store_find_after)

theorem delete_project_iff_witness: "project_at (snd (DeleteProject sample_env 1 1 sample_db)) 1 = None"
proof -
  obtain res d' where del: "DeleteProject sample_env 1 1 sample_db = (res, d')" by (rule prod.exhaust)
  have "timer_Get u (db_timers sample_db) = None" for u by (simp add: sample_db_def new_db_def timer_Get_def)
  then have "res = Inr ()"
    using delete_project_iff [OF sample_valid del]
    by (simp add: sample_project_at sample_project_def sample_entries)
  then show ?thesis using delete_project_iff [OF sample_valid del] del by simp
qed

section \<open>Privacy\<close>

abbreviation without_project :: "db \<Rightarrow> uint \<Rightarrow> db" where
  "without_project d i \<equiv> d\<lparr>db_projects := snd (store_delete i (db_projects d))\<rparr>"

lemma store_delete_entity [simp]: "st_entity (snd (store_delete i s)) = st_entity s"
  by (simp add: store_delete_def split: option.split)

lemma gone_project:
  assumes "project_at d i = Some p"
  shows "store_get i (snd (store_delete i (db_projects d))) = Inl (NotFound (st_entity (db_projects d)) (format_uint i))"
  by (simp add: store_get_Inl store_find_after)

text \<open>C22: a project is no more there for anybody but its owner than one that does not exist: asked
  for by somebody else, reading, listing, changing, archiving and deleting answer exactly as they
  would were the project not stored at all - the same refusal with the same words in it - and
  change nothing.\<close>

theorem foreign_project_hidden:
  assumes "db_valid d" "st_entity (db_projects d) = ''project''" "project_at d i = Some p"
    and "viewer \<noteq> 0" "pr_OwnerID p \<noteq> Some viewer" "up_ID cmd = i" "up_ActorID cmd = viewer"
  shows "GetProject i viewer d = GetProject i viewer (without_project d i)
    \<and> ListProjects st viewer d = ListProjects st viewer (without_project d i)
    \<and> fst (UpdateProject e cmd d) = fst (UpdateProject e cmd (without_project d i)) \<and> snd (UpdateProject e cmd d) = d
    \<and> fst (ArchiveProject i viewer d) = fst (ArchiveProject i viewer (without_project d i)) \<and> snd (ArchiveProject i viewer d) = d
    \<and> fst (DeleteProject e i viewer d) = fst (DeleteProject e i viewer (without_project d i)) \<and> snd (DeleteProject e i viewer d) = d"
proof -
  have i: "pr_ID p = i" "i \<noteq> 0" using assms(1,3) project_pos by (auto simp: db_valid_def projects_keyed_def)
  have g: "store_get i (db_projects d) = Inr p" using assms(3) by simp
  have r: "RequireVisible p viewer = Inl (NotFound ''project'' (format_uint i))"
    using assms(4,5) i by (simp add: RequireVisible_Inl)
  note z = gone_project [OF assms(3)]
  have keyed: "store_find j (db_projects d) = Some q \<Longrightarrow> pr_ID q = j" for j q
    using assms(1) by (simp add: db_valid_def projects_keyed_def)
  have all': "store_all (snd (store_delete i (db_projects d))) = filter (\<lambda>q. pr_ID q \<noteq> i) (store_all (db_projects d))"
    by (rule store_all_delete) (rule keyed)
  have "pr_ID q \<noteq> i \<or> \<not> VisibleTo q viewer" if "q \<in> set (store_all (db_projects d))" for q
  proof -
    have "project_at d (pr_ID q) = Some q"
      using that assms(1) by (intro projects.all_keyed [THEN iffD1]) (auto simp: db_valid_def)
    then show ?thesis using assms(3,5) by (auto simp: VisibleTo_def)
  qed
  then have "filter (\<lambda>q. \<not> (viewer \<noteq> 0 \<and> \<not> VisibleTo q viewer) \<and> \<not> (st \<noteq> [] \<and> pr_Status q \<noteq> st)) (store_all (db_projects d))
      = filter (\<lambda>q. \<not> (viewer \<noteq> 0 \<and> \<not> VisibleTo q viewer) \<and> \<not> (st \<noteq> [] \<and> pr_Status q \<noteq> st))
          (store_all (snd (store_delete i (db_projects d))))"
    unfolding all' filter_filter using assms(4) by (intro filter_cong) auto
  then have l: "ListProjects st viewer d = ListProjects st viewer (without_project d i)"
    by (simp add: ListProjects_def withBookedHours_def Let_def)
  show ?thesis
    using l i(2) assms(2)
    by (simp add: GetProject_def UpdateProject_def ArchiveProject_def DeleteProject_def assms(6,7) g r z)
qed

theorem foreign_project_hidden_witness:
  "GetProject 1 2 sample_db = GetProject 1 2 (without_project sample_db 1)"
proof -
  have e: "st_entity (db_projects sample_db) = ''project''" by (simp add: sample_db_def)
  let ?cmd = "\<lparr>up_ID = 1, up_Name = None, up_Description = None, up_StartDate = None, up_EndDate = None, up_Status = None,
     up_BudgetHours = None, up_Billable = None, up_HourlyRate = None, up_Currency = None, up_ClearEndDate = False,
     up_ActorID = 2\<rparr>"
  from foreign_project_hidden [OF sample_valid e, of 1 sample_project 2 ?cmd] show ?thesis
    by (simp add: sample_project_at sample_project_def)
qed

end
