(* ===== verification/TimeRules.thy ===== *)
theory TimeRules
  imports TimeMoves ProjectRules
begin

text \<open>
  Moving entries, copying weeks and the stopwatch keep the rules a typed booking is held to.
\<close>

section \<open>Moving an entry\<close>

lemma alist_update_same: "map_of xs k = Some v \<Longrightarrow> AList.update k v xs = xs"
  by (induction xs) (auto split: if_splits)

lemma store_update_same: "store_find i s = Some x \<Longrightarrow> snd (store_update i x s) = s"
  by (simp add: store_update_def store_find_def alist_update_same)

text \<open>A day's hours are an entry's own and the others'.\<close>

lemma booked_split:
  assumes "db_valid d" "entry_at d i = Some t"
  shows "booked d user x 0 = booked d user x i + (if on_day user x t then hours_of t else 0)"
proof -
  have i: "ts_ID t = i" using entry_at_id [OF assms] .
  have "t = t\<lparr>ts_UpdatedAt := ts_UpdatedAt t, ts_CreatedAt := ts_CreatedAt t, ts_RecordedBy := ts_RecordedBy t,
      ts_UpdatedBy := ts_UpdatedBy t\<rparr>" by simp
  moreover have "tr_store (db_timesheets d) = snd (store_update (ts_ID t) t (tr_store (db_timesheets d)))"
    using assms(2) by (simp add: i store_update_same)
  ultimately show ?thesis using booked_update [of d t t t] assms i by blast
qed

lemma transferred_Inr:
  assumes "transferred i p actor d = Inr t" "db_valid d"
  shows "\<exists>before pr. entry_at d i = Some before \<and> project_at d p = Some pr
    \<and> (actor = 0 \<or> ts_UserID before = 0 \<or> pr_OwnerID pr = Some (ts_UserID before)) \<and> pr_Status pr = ProjectStatusActive
    \<and> ts_ProjectID before \<noteq> Some p
    \<and> t = before\<lparr>ts_ProjectID := Some p, ts_UpdatedBy := otherThan actor (ts_UserID before)\<rparr>"
proof -
  obtain before where b: "entry_at d i = Some before"
    using assms(1) by (cases "entry_at d i") (simp_all add: transferred_def ts_GetByID_def store_get_def)
  then have gb: "ts_GetByID i (db_timesheets d) = Inr before" by (simp add: ts_GetByID_def)
  obtain pr where pr: "project_at d p = Some pr"
    using assms(1) by (cases "project_at d p") (simp_all add: transferred_def gb store_get_def)
  then have gp: "store_get p (db_projects d) = Inr pr" by simp
  have id: "pr_ID pr = p" using pr assms(2) by (simp add: db_valid_def projects_keyed_def)
  have pos: "p \<noteq> 0" using project_pos [OF assms(2) pr] .
  let ?v = "if actor \<noteq> 0 then ts_UserID before else actor"
  have r: "RequireVisible pr ?v = Inr ()" "\<not> (HasProject before \<and> ts_ProjectID before = Some p)"
    "pr_Status pr = ProjectStatusActive"
    "before\<lparr>ts_ProjectID := Some p, ts_UpdatedBy := (if actor \<noteq> 0 \<and> actor \<noteq> ts_UserID before then Some actor else None)\<rparr> = t"
    using assms(1) unfolding transferred_def gb gp bind_res_simps Let_def bind_res_unit id
    by (simp_all only: split: if_splits) (simp_all only: sum.inject sum.distinct simp_thms)
  show ?thesis
    using b pr r(1-3) pos unfolding r(4) [symmetric]
    by (auto simp: HasProject_def otherThan_def split: if_splits)
qed

lemma ts_Update_writes:
  assumes "entry_at d (ts_ID t) = Some before" "ts_Update n t (db_timesheets d) = (res, repo)"
  shows "\<exists>stored. res = Inr stored \<and> store_find (ts_ID t) (tr_store repo) = Some stored
    \<and> ts_UserID stored = ts_UserID t \<and> ts_ProjectID stored = ts_ProjectID t \<and> ts_Date stored = ts_Date t
    \<and> ts_DurationHours stored = ts_DurationHours t \<and> ts_Description stored = ts_Description t"
proof -
  obtain stored where s: "ts_Update n t (db_timesheets d) = (Inr stored,
       (db_timesheets d)\<lparr>tr_store := snd (store_update (ts_ID t) stored (tr_store (db_timesheets d))),
         tr_nextRevision := (if Says before t then tr_nextRevision (db_timesheets d) else uint_succ (tr_nextRevision (db_timesheets d))),
         tr_revisions := tr_revisions (db_timesheets d) @ (if Says before t then [] else
           [(RevisionOf before (stamp n))\<lparr>rv_ID := uint_succ (tr_nextRevision (db_timesheets d)), rv_ReplacedBy := ts_UpdatedBy t\<rparr>])\<rparr>)"
    "stored = t\<lparr>ts_UpdatedAt := stamp n, ts_CreatedAt := ts_CreatedAt before, ts_RecordedBy := ts_RecordedBy before,
        ts_UpdatedBy := (if Says before t then ts_UpdatedBy before else ts_UpdatedBy t)\<rparr>"
    by (rule ts_Update_found [OF assms(1), of n])
  show ?thesis using assms s(1) by (auto simp: store_find_after) (simp_all add: s(2))
qed

lemma Transfer_cases:
  assumes "TransferTimesheetToProject e i p actor d = (res, d')"
  shows "(\<exists>err. res = Inl err \<and> d' = d) \<or> (\<exists>t. transferred i p actor d = Inr t
     \<and> d\<lparr>db_timesheets := snd (ts_Update (now e) t (db_timesheets d))\<rparr> = d'
     \<and> fst (ts_Update (now e) t (db_timesheets d)) = res)"
proof (cases "transferred i p actor d")
  case (Inl err)
  then have "Inl err = res \<and> d' = d" using assms by (simp add: TransferTimesheetToProject_def)
  then show ?thesis by blast
next
  case (Inr t)
  then have "d\<lparr>db_timesheets := snd (ts_Update (now e) t (db_timesheets d))\<rparr> = d'
     \<and> fst (ts_Update (now e) t (db_timesheets d)) = res"
    using assms by (simp add: TransferTimesheetToProject_def case_prod_beta)
  then show ?thesis using Inr by blast
qed

lemma Transfer_inv:
  assumes "booking_inv cap d" "db_room d" "TransferTimesheetToProject e i p actor d = (res, d')" "actor \<noteq> 0"
  shows "booking_inv cap d'"
  using Transfer_cases [OF assms(3)]
proof (elim disjE exE conjE)
  show "booking_inv cap d'" if "d' = d" using that assms(1) by simp
  fix t assume t: "transferred i p actor d = Inr t"
    and w: "d\<lparr>db_timesheets := snd (ts_Update (now e) t (db_timesheets d))\<rparr> = d'"
  have d: "db_valid d" "entries_sane d" "own_projects d" "capped cap d" using assms(1) by (auto simp: booking_inv_def)
  obtain before pr where b: "entry_at d i = Some before" "project_at d p = Some pr"
    "pr_OwnerID pr = Some (ts_UserID before)"
    "t = before\<lparr>ts_ProjectID := Some p, ts_UpdatedBy := otherThan actor (ts_UserID before)\<rparr>"
    using transferred_Inr [OF t d(1)] assms(4) d(3) unfolding own_projects_def by blast
  have i: "ts_ID t = i" using entry_at_id [OF d(1) b(1)] b(4) by simp
  have sane: "entry_sane before" using d(2) b(1) unfolding entries_sane_iff [OF d(1)] by blast
  show "booking_inv cap d'" unfolding w [symmetric]
  proof (rule write_back_inv [OF assms(1,2)])
    show "entry_at d (ts_ID t) = Some before" using b(1) i by simp
    show "entry_sane t" using sane by (simp add: b(4) entry_sane_def)
    show "ts_UserID t \<noteq> 0" using d(3) b(1,4) by (simp add: own_projects_def)
    show "\<exists>pr. project_at d q = Some pr \<and> pr_OwnerID pr = Some (ts_UserID t)" if "ts_ProjectID t = Some q" for q
      using that b by simp
    show "hours_of t + booked d (ts_UserID t) x (ts_ID t) \<le> cap + 1 / 1000000000 + 1 / 10000000000"
      if x: "ts_Date t = midnight x" for x
    proof -
      have "on_day (ts_UserID t) x before" using x by (simp add: on_day_def b(4))
      then have "hours_of t + booked d (ts_UserID t) x i = booked d (ts_UserID t) x 0"
        using booked_split [OF d(1) b(1), of "ts_UserID t" x] by (simp add: hours_of_def b(4))
      then show ?thesis using d(4) unfolding i capped_def by simp
    qed
  qed
qed

section \<open>Copying a week\<close>

definition days_entries :: "db \<Rightarrow> uint \<Rightarrow> day \<Rightarrow> day \<Rightarrow> timesheet list" where
  "days_entries d user a b = filter (\<lambda>t. ts_UserID t = user \<and> a \<le> CalendarDay (ts_Date t) \<and> CalendarDay (ts_Date t) \<le> b)
     (store_all (tr_store (db_timesheets d)))"

lemma range_entries:
  assumes "entries_sane d" "user \<noteq> 0"
  shows "ts_GetByFilter low (over_days user (midnight a) (midnight b)) (db_timesheets d)
    = Inr (sort_by newest_first (days_entries d user a b))"
proof -
  have "matchesFilter low t (OverWholeDays (over_days user (midnight a) (midnight b)))
      \<longleftrightarrow> ts_UserID t = user \<and> a \<le> CalendarDay (ts_Date t) \<and> CalendarDay (ts_Date t) \<le> b" if sane: "entry_sane t" for t
  proof -
    obtain y where y: "ts_Date t = midnight y" using sane by (auto simp: entry_sane_def)
    have "(y * 86400 * 10 ^ 9 < a * 86400 * 10 ^ 9) \<longleftrightarrow> y < a" by simp
    moreover have "(y * 86400 * 10 ^ 9 > (b + 1) * 86400 * 10 ^ 9 - 10 ^ 9) \<longleftrightarrow> y > b" by auto
    ultimately show ?thesis
      using assms(2) y by (auto simp: matchesFilter_def OverWholeDays_def over_days_def all_of_def)
  qed
  then have "matching low (over_days user (midnight a) (midnight b)) (db_timesheets d) = days_entries d user a b"
    using assms(1) by (auto simp: matching_def days_entries_def entries_sane_def intro!: filter_cong)
  then show ?thesis by (simp add: ts_GetByFilter_def page_def over_days_def all_of_def)
qed

definition target_day :: "int \<Rightarrow> timesheet \<Rightarrow> day" where
  "target_day shift t = CalendarDay (ts_Date t) + shift"

definition copyable :: "db \<Rightarrow> uint \<Rightarrow> timesheet \<Rightarrow> bool" where
  "copyable d user t \<longleftrightarrow> (\<forall>p. ts_ProjectID t = Some p \<longrightarrow> stillOpen d user p)"

text \<open>What the loop gives: the copies, in order, of the entries whose day is free and whose project
  takes bookings; what it leaves out, it counts.\<close>

lemma copy_entries_Inr:
  "copy_entries e d u taken shift ts c = Inr c' \<Longrightarrow>
     co_copies c' = co_copies c @ map (\<lambda>t. copied_entry u (target_day shift t) t)
       (filter (\<lambda>t. target_day shift t \<notin> set taken \<and> copyable d u t) ts)
     \<and> co_closed c' = co_closed c + length (filter (\<lambda>t. target_day shift t \<notin> set taken \<and> \<not> copyable d u t) ts)
     \<and> set (co_kept c') = set (co_kept c) \<union> {x \<in> set taken. x \<in> target_day shift ` set ts}
     \<and> (distinct (co_kept c) \<longrightarrow> distinct (co_kept c'))"
proof (induction ts arbitrary: c)
  case (Cons t ts)
  have open_iff: "(case ts_ProjectID t of None \<Rightarrow> False | Some p \<Rightarrow> \<not> stillOpen d u p) \<longleftrightarrow> \<not> copyable d u t"
    by (auto simp: copyable_def split: option.split)
  show ?case
  proof (cases "target_day shift t \<in> set taken")
    case True
    then have "copy_entries e d u taken shift ts (c\<lparr>co_kept := List.insert (target_day shift t) (co_kept c)\<rparr>) = Inr c'"
      using Cons.prems by (simp add: target_day_def)
    from Cons.IH [OF this] True show ?thesis by auto
  next
    case free: False
    show ?thesis
    proof (cases "copyable d u t")
      case False
      then have "copy_entries e d u taken shift ts (c\<lparr>co_closed := co_closed c + 1\<rparr>) = Inr c'"
        using Cons.prems free by (simp add: target_day_def open_iff)
      from Cons.IH [OF this] free False show ?thesis by auto
    next
      case True
      then have "copy_entries e d u taken shift ts
          (c\<lparr>co_planned := AList.update (target_day shift t) (fadd (planned_on c (target_day shift t)) (ts_DurationHours t)) (co_planned c),
             co_copies := co_copies c @ [copied_entry u (target_day shift t) t]\<rparr>) = Inr c'"
        using Cons.prems free by (auto simp: target_day_def open_iff bind_res_unit Let_def)
      from Cons.IH [OF this] free True show ?thesis by auto
    qed
  qed
qed auto

lemma running_sum_snoc: "running_sum r a (xs @ [x]) = r (running_sum r a xs + x)"
  by (induction xs arbitrary: a) simp_all

lemma booked_nonneg: "entries_sane d \<Longrightarrow> 0 \<le> booked d user x excl"
  unfolding booked_def
  by (rule sum_list_nonneg_mono)
    (use least_hours_bounds(1) in \<open>force simp: day_entries_def entries_sane_def entry_sane_def hours_of_def\<close>)

definition day_limit :: "rat \<Rightarrow> rat" where
  "day_limit cap = cap + 1 / 1000000000 + 1 / 50000000000"

definition plan_ok :: "db \<Rightarrow> uint \<Rightarrow> rat \<Rightarrow> copying \<Rightarrow> bool" where
  "plan_ok d u cap c \<longleftrightarrow>
     (\<forall>t \<in> set (co_copies c). entry_sane t \<and> ts_UserID t = u \<and> bookable d u (ts_ProjectID t))
     \<and> (\<forall>x. planned_on c x = Fin (running_sum rnd 0 (map hours_of (filter (on_day u x) (co_copies c))))
          \<and> (filter (on_day u x) (co_copies c) \<noteq> [] \<longrightarrow>
               running_sum rnd 0 (map hours_of (filter (on_day u x) (co_copies c))) + booked d u x 0 \<le> day_limit cap))"

lemma copyable_bookable:
  "copyable d u t \<Longrightarrow> user_at d u \<noteq> None \<Longrightarrow> u \<noteq> 0 \<Longrightarrow> bookable d u (ts_ProjectID t)"
  by (auto simp: copyable_def bookable_def stillOpen_def store_get_def split: option.splits)

lemma plan_ok_hours:
  assumes "plan_ok d u cap c" "entries_sane d" "cap \<le> 24"
  obtains p where "planned_on c x = Fin p" "0 \<le> p" "p \<le> 25"
    "p = running_sum rnd 0 (map hours_of (filter (on_day u x) (co_copies c)))"
proof -
  let ?xs = "map hours_of (filter (on_day u x) (co_copies c))"
  have xs: "\<forall>y \<in> set ?xs. 0 \<le> y"
    using assms(1) least_hours_bounds(1) by (force simp: plan_ok_def entry_sane_def hours_of_def)
  have "(0 :: rat) = of_int 0" by simp
  then have "is_double 0" using is_double_of_int [of 0] by simp
  then have "0 \<le> running_sum rnd 0 ?xs" by (rule ieee.sum_grows [OF _ xs])
  moreover have "running_sum rnd 0 ?xs \<le> 25"
  proof (cases "?xs = []")
    case False
    then have "running_sum rnd 0 ?xs + booked d u x 0 \<le> day_limit cap" using assms(1) unfolding plan_ok_def by simp
    then show ?thesis using booked_nonneg [OF assms(2), of u x 0] assms(3) unfolding day_limit_def by linarith
  qed simp
  ultimately show thesis using that assms(1) unfolding plan_ok_def by blast
qed

lemma plan_step:
  assumes d: "db_valid d" "entries_sane d" and cap: "dailyCap e = Fin cap" "0 < cap" "cap \<le> 24"
    and c: "plan_ok d u cap c" and t: "entry_sane t" "copyable d u t" and u: "user_at d u \<noteq> None"
    and v: "validateTimesheet (midnight x) (ts_DurationHours t) (ts_Description t) = Inr ()"
    and b: "checkDailyBudget e d u (midnight x) (fadd (ts_DurationHours t) (planned_on c x)) 0 = Inr ()"
  shows "plan_ok d u cap (c\<lparr>co_planned := AList.update x (fadd (planned_on c x) (ts_DurationHours t)) (co_planned c),
             co_copies := co_copies c @ [copied_entry u x t]\<rparr>)" (is "plan_ok d u cap ?c")
proof -
  obtain h where h: "ts_DurationHours t = Fin h" "is_double h" "least_hours \<le> h" "h \<le> 24"
    using t(1) by (auto simp: entry_sane_def)
  obtain p where p: "planned_on c x = Fin p" "0 \<le> p" "p \<le> 25"
    "p = running_sum rnd 0 (map hours_of (filter (on_day u x) (co_copies c)))" using plan_ok_hours [OF c d(2) cap(3)] .
  have "h + p \<le> of_int 64" using h(4) p(3) by simp
  then have "rnd (h + p) \<le> rnd (of_int 64)" by (rule rnd_mono)
  then have up: "rnd (h + p) \<le> 64" by (simp add: rnd_of_int del: of_int_numeral) 
  have low: "h \<le> rnd (h + p)" using h(2) p(2) by (rule ieee.grows)
  have big: "rnd (h + p) < 2 ^ 1024"
    using up by (rule le_less_trans) (rule less_le_trans [of _ "2 ^ 7"], simp, intro power_increasing, simp_all)
  have "0 \<le> h" using h(3) least_hours_bounds(1) by linarith
  then have s: "fl (h + p) = Fin (rnd (h + p))" using low big by (intro fl_small) simp
  have within: "rnd (h + p) + booked d u x 0 \<le> day_limit cap"
    unfolding day_limit_def
    by (rule budget_within_tight [OF d rnd_is_double order_trans [OF h(3) low] big cap]) (use b in \<open>simp add: h(1) p(1) s\<close>)
  let ?n = "copied_entry u x t"
  have n: "on_day u y ?n \<longleftrightarrow> y = x" "hours_of ?n = h" "ts_UserID ?n = u" "ts_ProjectID ?n = ts_ProjectID t" for y
    by (auto simp: copied_entry_def on_day_def hours_of_def h(1))
  have sane: "entry_sane ?n"
    using v h by (auto simp: copied_entry_def entry_sane_def validateTimesheet_Inr OnTheCalendar_midnight)
  have planned: "planned_on ?c y = (if y = x then Fin (rnd (h + p)) else planned_on c y)" for y
    by (simp add: planned_on_def map_of_update) (simp add: p(1) [unfolded planned_on_def] h(1) s add.commute)
  have "bookable d u (ts_ProjectID t)" using copyable_bookable [OF t(2) u known_user [OF d(1) u]] .
  then show ?thesis
    using c sane within unfolding plan_ok_def planned
    by (auto simp: n running_sum_snoc p(4) [symmetric] add.commute)
qed

lemma copy_entries_plan:
  assumes d: "db_valid d" "entries_sane d" and cap: "dailyCap e = Fin cap" "0 < cap" "cap \<le> 24" and u: "user_at d u \<noteq> None"
  shows "\<forall>t \<in> set ts. entry_sane t \<Longrightarrow> plan_ok d u cap c \<Longrightarrow> copy_entries e d u taken shift ts c = Inr c' \<Longrightarrow> plan_ok d u cap c'"
proof (induction ts arbitrary: c)
  case (Cons t ts)
  have ts: "\<forall>t \<in> set ts. entry_sane t" "entry_sane t" using Cons.prems(1) by auto
  have open_iff: "(case ts_ProjectID t of None \<Rightarrow> False | Some p \<Rightarrow> \<not> stillOpen d u p) \<longleftrightarrow> \<not> copyable d u t"
    by (auto simp: copyable_def split: option.split)
  let ?x = "target_day shift t"
  consider (kept) "?x \<in> set taken" | (closed) "?x \<notin> set taken" "\<not> copyable d u t" | (copied) "?x \<notin> set taken" "copyable d u t"
    by blast
  then show ?case
  proof cases
    case kept
    then have r: "copy_entries e d u taken shift ts (c\<lparr>co_kept := List.insert ?x (co_kept c)\<rparr>) = Inr c'"
      using Cons.prems(3) by (simp add: target_day_def)
    have "plan_ok d u cap (c\<lparr>co_kept := List.insert ?x (co_kept c)\<rparr>)"
      using Cons.prems(2) by (simp add: plan_ok_def planned_on_def)
    from Cons.IH [OF ts(1) this r] show ?thesis .
  next
    case closed
    then have r: "copy_entries e d u taken shift ts (c\<lparr>co_closed := co_closed c + 1\<rparr>) = Inr c'"
      using Cons.prems(3) by (simp add: target_day_def open_iff)
    have "plan_ok d u cap (c\<lparr>co_closed := co_closed c + 1\<rparr>)"
      using Cons.prems(2) by (simp add: plan_ok_def planned_on_def)
    from Cons.IH [OF ts(1) this r] show ?thesis .
  next
    case copied
    then have r: "validateTimesheet (midnight ?x) (ts_DurationHours t) (ts_Description t) = Inr ()"
      "checkDailyBudget e d u (midnight ?x) (fadd (ts_DurationHours t) (planned_on c ?x)) 0 = Inr ()"
      "copy_entries e d u taken shift ts
          (c\<lparr>co_planned := AList.update ?x (fadd (planned_on c ?x) (ts_DurationHours t)) (co_planned c),
             co_copies := co_copies c @ [copied_entry u ?x t]\<rparr>) = Inr c'"
      using Cons.prems(3) by (auto simp: target_day_def open_iff bind_res_unit Let_def)
    from Cons.IH [OF ts(1) plan_step [OF d cap Cons.prems(2) ts(2) copied(2) u r(1,2)] r(3)] show ?thesis .
  qed
qed simp

definition room_for :: "nat \<Rightarrow> db \<Rightarrow> bool" where
  "room_for n d \<longleftrightarrow> store_room (db_users d) \<and> store_room (db_roles d) \<and> store_room (db_projects d)
     \<and> st_nextID (tr_store (db_timesheets d)) + n \<le> uint_max \<and> tr_nextRevision (db_timesheets d) < uint_max"

lemma room_for_Suc: "room_for (Suc n) d \<Longrightarrow> db_room d"
  by (simp add: room_for_def db_room_def repo_room_def store_room_def)

lemma hours_nonneg: "entry_sane t \<Longrightarrow> 0 \<le> hours_of t"
  using least_hours_bounds(1) by (force simp: entry_sane_def hours_of_def)

lemma save_many_inv:
  "booking_inv cap d \<Longrightarrow> room_for (length cs) d
     \<Longrightarrow> \<forall>t \<in> set cs. entry_sane t \<and> ts_UserID t = u \<and> bookable d u (ts_ProjectID t)
     \<Longrightarrow> \<forall>x. filter (on_day u x) cs \<noteq> [] \<longrightarrow> sum_list (map hours_of (filter (on_day u x) cs)) + booked d u x 0
            \<le> cap + 1 / 1000000000 + 1 / 10000000000
     \<Longrightarrow> booking_inv cap (d\<lparr>db_timesheets := ts_SaveMany n cs (db_timesheets d)\<rparr>)"
proof (induction cs arbitrary: d)
  case (Cons t cs)
  let ?d = "d\<lparr>db_timesheets := snd (ts_Save n t (db_timesheets d))\<rparr>"
  have room: "db_room d" using Cons.prems(2) by (intro room_for_Suc) simp
  have valid: "db_valid d" using Cons.prems(1) by (simp add: booking_inv_def)
  have t: "entry_sane t" "ts_UserID t = u" "bookable d u (ts_ProjectID t)" using Cons.prems(3) by auto
  have rest: "0 \<le> sum_list (map hours_of (filter (on_day u x) cs))" for x
    by (rule sum_list_nonneg_mono) (use Cons.prems(3) hours_nonneg in auto)
  have inv: "booking_inv cap ?d"
  proof (rule save_inv [OF Cons.prems(1) room t(1)])
    show "bookable d (ts_UserID t) (ts_ProjectID t)" using t by simp
    fix x assume "ts_Date t = midnight x"
    then have on: "on_day u x t" using t(2) by (simp add: on_day_def)
    then have "hours_of t + sum_list (map hours_of (filter (on_day u x) cs)) + booked d u x 0
        \<le> cap + 1 / 1000000000 + 1 / 10000000000"
      using Cons.prems(4) by (auto dest!: spec [of _ x])
    then show "hours_of t + booked d (ts_UserID t) x 0 \<le> cap + 1 / 1000000000 + 1 / 10000000000"
      using rest [of x] unfolding t(2) by linarith
  qed
  have nxt: "st_nextID (tr_store (db_timesheets ?d)) = Suc (st_nextID (tr_store (db_timesheets d)))"
    using room by (simp add: ts_Save_store db_room_def repo_room_def store_room_def)
  have "booking_inv cap (?d\<lparr>db_timesheets := ts_SaveMany n cs (db_timesheets ?d)\<rparr>)"
  proof (rule Cons.IH [OF inv])
    show "room_for (length cs) ?d"
      using Cons.prems(2) nxt by (simp add: room_for_def)
    show "\<forall>t \<in> set cs. entry_sane t \<and> ts_UserID t = u \<and> bookable ?d u (ts_ProjectID t)"
      using Cons.prems(3) by (simp add: bookable_def)
    show "\<forall>x. filter (on_day u x) cs \<noteq> [] \<longrightarrow> sum_list (map hours_of (filter (on_day u x) cs)) + booked ?d u x 0
        \<le> cap + 1 / 1000000000 + 1 / 10000000000"
      unfolding booked_save [OF valid room]
    proof (intro allI impI)
      fix x assume "filter (on_day u x) cs \<noteq> []"
      then show "sum_list (map hours_of (filter (on_day u x) cs)) + (booked d u x 0 + (if on_day u x t then hours_of t else 0))
          \<le> cap + 1 / 1000000000 + 1 / 10000000000"
        using Cons.prems(4) [rule_format, of x] by (auto split: if_splits)
    qed
  qed
  then show ?case by simp
qed simp

lemma planned_copy_Inr:
  assumes "planned_copy e u from to d = Inr c" "entries_sane d" "db_valid d"
  shows "user_at d u \<noteq> None \<and> is_monday from \<and> is_monday to \<and> CalendarDay to \<noteq> CalendarDay from
    \<and> days_entries d u (CalendarDay from) (CalendarDay from + 6) \<noteq> []
    \<and> copy_entries e d u (map (\<lambda>t. CalendarDay (ts_Date t)) (sort_by newest_first
          (days_entries d u (CalendarDay to) (CalendarDay to + 6)))) (CalendarDay to - CalendarDay from)
        (sort_by worked_order (sort_by newest_first (days_entries d u (CalendarDay from) (CalendarDay from + 6))))
        \<lparr>co_copies = [], co_kept = [], co_planned = [], co_closed = 0\<rparr> = Inr c"
proof -
  obtain user where user: "user_GetByID (db_roles d) u (db_users d) = Inr user"
    using assms(1) by (cases "user_GetByID (db_roles d) u (db_users d)") (simp_all add: planned_copy_def bind_res_unit)
  then have known: "user_at d u \<noteq> None" by (auto simp: user_GetByID_Inr)
  have ne: "sort_by newest_first xs = [] \<longleftrightarrow> xs = []" for xs by (metis length_0_conv length_sort_by)
  have days: "OnTheCalendar from \<and> is_monday from \<and> OnTheCalendar to \<and> is_monday to \<and> CalendarDay to \<noteq> CalendarDay from"
    using assms(1) unfolding planned_copy_def bind_res_unit by simp
  let ?week = "\<lambda>a. sort_by newest_first (days_entries d u a (a + 6))"
  have rest: "(if ?week (CalendarDay from) = [] then Inl (WithCode Invalidf ''nothingToCopy'' [])
     else copy_entries e d u (map (\<lambda>t. CalendarDay (ts_Date t)) (?week (CalendarDay to)))
             (CalendarDay to - CalendarDay from) (sort_by worked_order (?week (CalendarDay from)))
               \<lparr>co_copies = [], co_kept = [], co_planned = [], co_closed = 0\<rparr>) = Inr c"
    using assms(1) unfolding planned_copy_def bind_res_unit user bind_res_simps Let_def weekOf_def
      range_entries [OF assms(2) known_user [OF assms(3) known]]
    by (rule conjunct2)
  show ?thesis
    using rest known days unfolding ne by (cases "days_entries d u (CalendarDay from) (CalendarDay from + 6) = []") simp_all
qed

text \<open>What a plan puts on a day, added exactly.\<close>

lemma plan_exact:
  assumes ok: "plan_ok d u cap c" and d: "entries_sane d" and cap: "cap \<le> 24"
    and ne: "filter (on_day u x) (co_copies c) \<noteq> []"
  shows "sum_list (map hours_of (filter (on_day u x) (co_copies c))) + booked d u x 0
      \<le> cap + 1 / 1000000000 + 1 / 10000000000"
proof -
  let ?xs = "map hours_of (filter (on_day u x) (co_copies c))"
  have l: "\<forall>y \<in> set ?xs. least_hours \<le> y"
    using ok by (force simp: plan_ok_def entry_sane_def hours_of_def)
  have s: "running_sum rnd 0 ?xs + booked d u x 0 \<le> day_limit cap" using ok ne unfolding plan_ok_def by blast
  have z: "is_double 0" using is_double_of_int [of 0] by simp
  have "running_sum rnd 0 ?xs < 26"
    using s booked_nonneg [OF d, of u x 0] cap unfolding day_limit_def by linarith
  then have "\<bar>running_sum rnd 0 ?xs - (0 + sum_list ?xs)\<bar> \<le> 1 / 100000000000"
    by (intro day_sum_error [OF z _ l]) simp_all
  then show ?thesis using s unfolding day_limit_def abs_le_iff by linarith
qed

lemma Copy_inv:
  assumes inv: "booking_inv cap d" and cap: "dailyCap e = Fin cap" "0 < cap" "cap \<le> 24"
    and copy: "CopyWeek e u from to d = (res, d')"
    and room: "\<And>c. planned_copy e u from to d = Inr c \<Longrightarrow> room_for (length (co_copies c)) d"
  shows "booking_inv cap d'"
proof (cases "planned_copy e u from to d")
  case (Inl err)
  then show ?thesis using copy inv by (simp add: CopyWeek_def)
next
  case (Inr c)
  have d: "db_valid d" "entries_sane d" using inv by (auto simp: booking_inv_def)
  let ?start = "\<lparr>co_copies = [], co_kept = [], co_planned = [], co_closed = 0\<rparr>"
  let ?source = "sort_by worked_order (sort_by newest_first (days_entries d u (CalendarDay from) (CalendarDay from + 6)))"
  obtain taken shift where p: "user_at d u \<noteq> None" "copy_entries e d u taken shift ?source ?start = Inr c"
    using planned_copy_Inr [OF Inr d(2,1)] by blast
  have source: "\<forall>t \<in> set ?source. entry_sane t"
    using d(2) by (simp add: days_entries_def entries_sane_def)
  have start: "plan_ok d u cap ?start" by (simp add: plan_ok_def planned_on_def)
  have ok: "plan_ok d u cap c" by (rule copy_entries_plan [OF d cap p(1) source start p(2)])
  have saved: "booking_inv cap (d\<lparr>db_timesheets := ts_SaveMany (now e) (co_copies c) (db_timesheets d)\<rparr>)"
  proof (rule save_many_inv [OF inv room [OF Inr]])
    show "\<forall>t \<in> set (co_copies c). entry_sane t \<and> ts_UserID t = u \<and> bookable d u (ts_ProjectID t)"
      using ok by (simp add: plan_ok_def)
    show "\<forall>x. filter (on_day u x) (co_copies c) \<noteq> [] \<longrightarrow>
        sum_list (map hours_of (filter (on_day u x) (co_copies c))) + booked d u x 0 \<le> cap + 1 / 1000000000 + 1 / 10000000000"
      using plan_exact [OF ok d(2) cap(3)] by (intro allI impI)
  qed
  have "d\<lparr>db_timesheets := ts_SaveMany (now e) (co_copies c) (db_timesheets d)\<rparr> = d'"
    using copy unfolding CopyWeek_def Inr sum.case prod.inject by (rule conjunct2)
  then show ?thesis using saved by (rule subst)
qed

section \<open>The stopwatch\<close>

lemma is_float_fl [simp]: "is_float (fl x)"
  by (auto simp: fl_def Let_def abs_less_iff rnd_is_double)

lemma is_float_fadd [simp]: "is_float (fadd x y)"
  by (cases x; cases y) auto

text \<open>Every clock is somebody's, and its project, where it names one, is there and theirs.\<close>

definition own_clocks :: "db \<Rightarrow> bool" where
  "own_clocks d \<longleftrightarrow> (\<forall>u t. timer_Get u (db_timers d) = Some t \<longrightarrow> u \<noteq> 0 \<and>
     (\<forall>p. ti_ProjectID t = Some p \<longrightarrow> p \<noteq> 0 \<longrightarrow> (\<exists>pr. project_at d p = Some pr \<and> pr_OwnerID pr = Some u)))"

definition time_inv :: "rat \<Rightarrow> db \<Rightarrow> bool" where
  "time_inv cap d \<longleftrightarrow> booking_inv cap d \<and> own_clocks d \<and> projects_ok d"

lemma booking_inv_timers:
  assumes "booking_inv cap d" "timers_keyed r"
  shows "booking_inv cap (d\<lparr>db_timers := r\<rparr>)"
proof -
  have b: "booked (d\<lparr>db_timers := r\<rparr>) u x 0 = booked d u x 0" for u x by (simp add: booked_def day_entries_def)
  show ?thesis
    using assms by (simp add: booking_inv_def db_valid_def entries_sane_def own_projects_def capped_def b)
qed

lemma clock_facts:
  assumes "booking_inv cap d"
  shows "timers_keyed (db_timers d)" "timer_Get u (db_timers d) = Some t \<Longrightarrow> ti_UserID t = u"
  using assms by (auto simp: booking_inv_def db_valid_def timers_keyed_def)

lemma requireStartable_Inr:
  "requireStartable d u p desc = Inr () \<longleftrightarrow> u \<noteq> 0 \<and> (\<forall>x. desc = Some x \<longrightarrow> \<not> TooLong x MaxDescriptionLength)
     \<and> (\<forall>q. p = Some q \<longrightarrow> bookable d u (normalizeProjectID q))"
  by (cases p; cases desc) (auto simp: requireStartable_def requireUserAndProject_Inr)

lemma startAt_inv:
  assumes "time_inv cap d" "requireStartable d u p desc = Inr ()" "startAt u p desc at' d = (t, d')"
  shows "time_inv cap d'"
proof -
  let ?t = "\<lparr>ti_UserID = u, ti_ProjectID = p, ti_Description = desc, ti_StartedAt = at'\<rparr>"
  have e: "d\<lparr>db_timers := timer_Start ?t (db_timers d)\<rparr> = d'" using assms(3) unfolding startAt_def Let_def prod.inject by (rule conjunct2)
  have b: "booking_inv cap d" using assms(1) by (simp add: time_inv_def)
  have "own_clocks (d\<lparr>db_timers := timer_Start ?t (db_timers d)\<rparr>)"
    using assms(1,2) unfolding requireStartable_Inr
    by (auto simp: own_clocks_def time_inv_def bookable_def normalizeProjectID_def)
  moreover have "booking_inv cap (d\<lparr>db_timers := timer_Start ?t (db_timers d)\<rparr>)"
    by (rule booking_inv_timers [OF b]) (rule timers_keyed_after(1) [OF clock_facts(1) [OF b]])
  ultimately show ?thesis using assms(1) unfolding e [symmetric] by (simp add: time_inv_def projects_ok_def)
qed

lemma clear_inv: "time_inv cap d \<Longrightarrow> time_inv cap (d\<lparr>db_timers := timer_Clear u (db_timers d)\<rparr>)"
  using booking_inv_timers [OF _ timers_keyed_after(2) [OF clock_facts(1)]]
  by (auto simp: time_inv_def own_clocks_def projects_ok_def)

text \<open>What an entry written leaves alone.\<close>

lemma time_inv_entries:
  "time_inv cap d \<Longrightarrow> booking_inv cap (d\<lparr>db_timesheets := r\<rparr>) \<Longrightarrow> time_inv cap (d\<lparr>db_timesheets := r\<rparr>)"
  by (simp add: time_inv_def own_clocks_def projects_ok_def)

lemma Create_writes: "CreateTimesheet e cmd d = (res, d') \<Longrightarrow> \<exists>r. d\<lparr>db_timesheets := r\<rparr> = d'"
proof (cases res)
  case (Inl err)
  assume "CreateTimesheet e cmd d = (res, d')"
  then have "d' = d" using Inl by (intro Create_refused) simp
  then show ?thesis by - (rule exI [of _ "db_timesheets d"], simp)
next
  case (Inr r)
  assume "CreateTimesheet e cmd d = (res, d')"
  then have "d' = d\<lparr>db_timesheets := snd (ts_Save (now e) (new_entry cmd) (db_timesheets d))\<rparr>"
    using Inr by (intro Create_accepted(4)) simp
  then show ?thesis by - (rule exI, rule sym)
qed

lemma book_cases:
  assumes "book e timer zone end d = (res, d')"
  shows "(\<exists>err. res = Inl err \<and> d' = d)
     \<or> (\<exists>r d1. CreateTimesheet e (booking_of timer zone end) d = (Inr r, d1) \<and> res = Inr r
          \<and> d1\<lparr>db_timers := timer_Clear (ti_UserID timer) (db_timers d1)\<rparr> = d'
          \<and> \<not> TimerTooShort timer end \<and> \<not> TimerTooLong timer end)"
proof (cases "TimerTooShort timer end \<or> TimerTooLong timer end")
  case True
  then have "fst (book e timer zone end d) \<noteq> Inr r" "snd (book e timer zone end d) = d" for r
    by (auto simp: book_def)
  then show ?thesis using assms by (cases res) auto
next
  case False
  obtain w d1 where w: "CreateTimesheet e (booking_of timer zone end) d = (w, d1)" by (rule prod.exhaust)
  show ?thesis
  proof (cases w)
    case (Inl err)
    then have "d1 = d" using w by (intro Create_refused) simp
    moreover have "Inl err = res \<and> d1 = d'" using assms False w Inl by (simp add: book_def)
    ultimately show ?thesis by blast
  next
    case (Inr r)
    then have "Inr r = res \<and> d1\<lparr>db_timers := timer_Clear (ti_UserID timer) (db_timers d1)\<rparr> = d'"
      using assms False w by (simp add: book_def)
    then show ?thesis using w False unfolding Inr by blast
  qed
qed

lemma book_inv:
  assumes "time_inv cap d" "db_room d" "book e timer zone end d = (res, d')"
    and "dailyCap e = Fin cap" "0 < cap" "cap \<le> 24"
  shows "time_inv cap d'"
  using book_cases [OF assms(3)]
proof (elim disjE exE conjE)
  show "time_inv cap d'" if "d' = d" using that assms(1) by simp
  fix r d1 assume c: "CreateTimesheet e (booking_of timer zone end) d = (Inr r, d1)"
    and e: "d1\<lparr>db_timers := timer_Clear (ti_UserID timer) (db_timers d1)\<rparr> = d'"
  have "booking_inv cap d1"
  proof (rule Create_inv [OF _ assms(2) c _ _ assms(4-6)])
    show "booking_inv cap d" using assms(1) by (simp add: time_inv_def)
  qed (simp_all add: booking_of_def HoursElapsed_def duration_hours_def)
  moreover obtain repo where "d\<lparr>db_timesheets := repo\<rparr> = d1" using Create_writes [OF c] by blast
  ultimately have "time_inv cap d1" using time_inv_entries [OF assms(1)] by blast
  then show "time_inv cap d'" unfolding e [symmetric] by (rule clear_inv)
qed

lemma adjust_inv: "time_inv cap d \<Longrightarrow> time_inv cap (d\<lparr>db_timers := timer_MoveStart u at' (db_timers d)\<rparr>)"
  using booking_inv_timers [OF _ timers_keyed_after(3) [OF clock_facts(1)]]
  by (auto simp: time_inv_def own_clocks_def projects_ok_def)

lemma Start_cases:
  assumes "timer_service_Start e u p desc d = (res, d')"
  shows "d' = d \<or> (requireStartable d u p desc = Inr () \<and> (\<exists>t. startAt u p desc (readClock e) d = (t, d')))"
  using assms by (cases "requireStartable d u p desc") (auto simp: timer_service_Start_def case_prod_beta prod_eq_iff)

lemma Adjust_cases:
  assumes "AdjustStart e u at' d = (res, d')"
  shows "d' = d \<or> d\<lparr>db_timers := timer_MoveStart u (truncate_second (in_zone at' UTC)) (db_timers d)\<rparr> = d'"
  using assms by (cases "running d u") (auto simp: AdjustStart_def Let_def split: if_splits)

lemma Switch_cases:
  assumes "Switch e u zone p desc d = (res, d')"
  shows "(\<exists>err. res = Inl err \<and> d' = d)
     \<or> (\<exists>timer r d1 t. timer_Get u (db_timers d) = Some timer \<and> requireStartable d u p desc = Inr ()
          \<and> book e timer zone (readClock e) d = (Inr r, d1) \<and> startAt u p desc (readClock e) d1 = (t, d')
          \<and> res = Inr (r, t))"
proof -
  let ?c = "bind_res (running d u) (\<lambda>t. bind_res (requireStartable d u p desc) (\<lambda>_. Inr t))"
  show ?thesis
  proof (cases ?c)
    case (Inl err)
    then have "Inl err = res \<and> d' = d" using assms unfolding Switch_def Inl by simp
    then show ?thesis by blast
  next
    case (Inr timer)
    then have t: "timer_Get u (db_timers d) = Some timer" "requireStartable d u p desc = Inr ()"
      by (auto simp: bind_res_Inr running_def split: option.splits)
    obtain w d1 where w: "book e timer zone (readClock e) d = (w, d1)" by (rule prod.exhaust)
    show ?thesis
    proof (cases w)
      case (Inl err)
      then have "d1 = d" using book_cases [OF w] by auto
      moreover have "Inl err = res \<and> d1 = d'" using assms unfolding Switch_def \<open>?c = Inr timer\<close> by (simp add: w Inl)
      ultimately show ?thesis by blast
    next
      case (Inr r)
      obtain t' d2 where s: "startAt u p desc (readClock e) d1 = (t', d2)" by (rule prod.exhaust)
      have "Inr (r, t') = res \<and> d2 = d'" using assms unfolding Switch_def \<open>?c = Inr timer\<close> by (simp add: w Inr s)
      then show ?thesis using t w s unfolding Inr by blast
    qed
  qed
qed

lemma Stop_cases:
  assumes "Stop e u zone endedAt d = (res, d')"
  shows "(\<exists>err. res = Inl err \<and> d' = d)
     \<or> (\<exists>timer end. timer_Get u (db_timers d) = Some timer \<and> stop_at e timer endedAt = Inr end
          \<and> book e timer zone end d = (res, d'))"
proof -
  let ?c = "bind_res (running d u) (\<lambda>timer. bind_res (stop_at e timer endedAt) (\<lambda>end. Inr (timer, end)))"
  show ?thesis
  proof (cases ?c)
    case (Inl err)
    then have "Inl err = res \<and> d' = d" using assms unfolding Stop_def Inl by simp
    then show ?thesis by blast
  next
    case (Inr p)
    then obtain timer "end" where p: "p = (timer, end)" "timer_Get u (db_timers d) = Some timer" "stop_at e timer endedAt = Inr end"
      by (auto simp: bind_res_Inr running_def split: option.splits)
    have "book e timer zone end d = (res, d')" using assms unfolding Stop_def Inr p(1) by simp
    then show ?thesis using p by blast
  qed
qed

lemma requireStartable_cong:
  "db_users d1 = db_users d \<Longrightarrow> db_projects d1 = db_projects d \<Longrightarrow>
     requireStartable d1 u p desc = Inr () \<longleftrightarrow> requireStartable d u p desc = Inr ()"
  by (simp add: requireStartable_Inr bookable_def)

lemma Switch_inv:
  assumes "time_inv cap d" "db_room d" "Switch e u zone p desc d = (res, d')"
    and "dailyCap e = Fin cap" "0 < cap" "cap \<le> 24"
  shows "time_inv cap d'"
  using Switch_cases [OF assms(3)]
proof (elim disjE exE conjE)
  show "time_inv cap d'" if "d' = d" using that assms(1) by simp
  fix timer r d1 t
  assume s: "requireStartable d u p desc = Inr ()" and b: "book e timer zone (readClock e) d = (Inr r, d1)"
    and n: "startAt u p desc (readClock e) d1 = (t, d')"
  have inv: "time_inv cap d1" by (rule book_inv [OF assms(1,2) b assms(4-6)])
  obtain r1 d0 where c: "CreateTimesheet e (booking_of timer zone (readClock e)) d = (Inr r1, d0)"
    "d0\<lparr>db_timers := timer_Clear (ti_UserID timer) (db_timers d0)\<rparr> = d1" using book_cases [OF b] by blast
  obtain repo where "d\<lparr>db_timesheets := repo\<rparr> = d0" using Create_writes [OF c(1)] by blast
  then have "db_users d1 = db_users d" "db_projects d1 = db_projects d" using c(2) by auto
  then have "requireStartable d1 u p desc = Inr ()" using s requireStartable_cong by blast
  from startAt_inv [OF inv this n] show "time_inv cap d'" .
qed

section \<open>Everything together\<close>

text \<open>What the handlers hand over: hours that are a double, days as the midnight they are parsed to,
  an actor where authentication is on.  The clock and the limits of the surroundings may differ
  from step to step, the cap being the installation's.\<close>

inductive time_step :: "rat \<Rightarrow> db \<Rightarrow> db \<Rightarrow> bool" for cap :: rat where
  books: "CreateTimesheet e cmd d = (res, d') \<Longrightarrow> dailyCap e = Fin cap \<Longrightarrow> db_room d
     \<Longrightarrow> is_float (ct_DurationHours cmd) \<Longrightarrow> ct_Date cmd = midnight x \<Longrightarrow> time_step cap d d'"
| corrects: "UpdateTimesheet e ucmd d = (res, d') \<Longrightarrow> dailyCap e = Fin cap \<Longrightarrow> db_room d
     \<Longrightarrow> (\<And>h. ut_DurationHours ucmd = Some h \<Longrightarrow> is_float h) \<Longrightarrow> (\<And>t. ut_Date ucmd = Some t \<Longrightarrow> \<exists>x. t = midnight x)
     \<Longrightarrow> time_step cap d d'"
| deletes: "DeleteTimesheet i d = (ures, d') \<Longrightarrow> time_step cap d d'"
| moves: "TransferTimesheetToProject e i p actor d = (tres, d') \<Longrightarrow> db_room d \<Longrightarrow> actor \<noteq> 0 \<Longrightarrow> time_step cap d d'"
| copies: "CopyWeek e u from to d = (wres, d') \<Longrightarrow> dailyCap e = Fin cap
     \<Longrightarrow> (\<And>c. planned_copy e u from to d = Inr c \<Longrightarrow> room_for (length (co_copies c)) d) \<Longrightarrow> time_step cap d d'"
| starts: "timer_service_Start e u q desc d = (cres, d') \<Longrightarrow> time_step cap d d'"
| discards: "Discard u d = d' \<Longrightarrow> time_step cap d d'"
| adjusts: "AdjustStart e u at' d = (cres, d') \<Longrightarrow> time_step cap d d'"
| switches: "Switch e u zone q desc d = (sres, d') \<Longrightarrow> dailyCap e = Fin cap \<Longrightarrow> db_room d \<Longrightarrow> time_step cap d d'"
| stops: "Stop e u zone endedAt d = (res, d') \<Longrightarrow> dailyCap e = Fin cap \<Longrightarrow> db_room d \<Longrightarrow> time_step cap d d'"
| manages: "project_step e d d' \<Longrightarrow> time_step cap d d'"

lemma project_step_inv:
  assumes "time_inv cap d" "project_step e d d'"
  shows "time_inv cap d'"
proof -
  have d: "db_valid d" "entries_sane d" "own_projects d" "capped cap d" "own_clocks d" "projects_ok d"
    using assms(1) by (auto simp: time_inv_def booking_inv_def)
  obtain s where s: "d\<lparr>db_projects := s\<rparr> = d'" "project_write e d s" using project_step_write [OF assms(2) d(1)] by blast
  have f: "store_find (st_nextID (db_projects d)) (db_projects d) = None"
    using d(1) by (intro mem.fresh) (simp add: db_valid_def)
  have "own_clocks (d\<lparr>db_projects := s\<rparr>)"
    using s(2) d(5) f unfolding project_write_def own_clocks_def
    by (elim disjE exE conjE) (force simp: store_find_after unused_def)+
  moreover have "booked (d\<lparr>db_projects := s\<rparr>) u x 0 = booked d u x 0" for u x by (simp add: booked_def day_entries_def)
  then have "capped cap (d\<lparr>db_projects := s\<rparr>)" using d(4) by (simp add: capped_def)
  ultimately show ?thesis
    unfolding s(1) [symmetric] time_inv_def booking_inv_def
    using project_write_valid [OF s(2) d(1)] project_write_own [OF s(2) d(1,3)] project_write_ok [OF s(2) d(6)] d(2)
    by (simp add: entries_sane_def)
qed

lemma time_inv_booking: "time_inv cap d \<Longrightarrow> booking_inv cap d"
  by (simp add: time_inv_def)

lemma entries_only:
  assumes "time_inv cap d" "booking_inv cap d'" "d\<lparr>db_timesheets := r\<rparr> = d'"
  shows "time_inv cap d'"
  using time_inv_entries [OF assms(1), of r] assms(2,3) by simp

lemma Update_writes: "db_valid d \<Longrightarrow> UpdateTimesheet e cmd d = (res, d') \<Longrightarrow> \<exists>r. d\<lparr>db_timesheets := r\<rparr> = d'"
proof (cases res)
  case (Inl err)
  assume "db_valid d" "UpdateTimesheet e cmd d = (res, d')"
  then have "d' = d" using Inl Update_refused by blast
  then show ?thesis by - (rule exI [of _ "db_timesheets d"], simp)
next
  case (Inr r)
  assume "UpdateTimesheet e cmd d = (res, d')"
  from Update_accepted [OF this [unfolded Inr]] show ?thesis by (metis sym)
qed

lemma Delete_writes: "DeleteTimesheet i d = (res, d') \<Longrightarrow> \<exists>r. d\<lparr>db_timesheets := r\<rparr> = d'"
proof (cases "i = 0 \<or> entry_at d i = None")
  case True
  assume "DeleteTimesheet i d = (res, d')"
  then have "d' = d" using True
    by (cases "i = 0") (simp_all add: DeleteTimesheet_def ts_GetByID_def store_get_def)
  then show ?thesis by - (rule exI [of _ "db_timesheets d"], simp)
next
  case False
  assume del: "DeleteTimesheet i d = (res, d')"
  obtain t where "i \<noteq> 0" "entry_at d i = Some t" using False by auto
  then have "d\<lparr>db_timesheets := snd (ts_Delete i (db_timesheets d))\<rparr> = d'"
    using del by (simp add: DeleteTimesheet_def ts_GetByID_def store_get_def case_prod_beta)
  then show ?thesis by blast
qed

lemma time_step_inv:
  assumes "time_step cap d d'" "time_inv cap d" "0 < cap" "cap \<le> 24"
  shows "time_inv cap d'"
  using assms(1)
proof cases
  case (books e cmd res x)
  have "booking_inv cap d'"
    by (rule Create_inv [OF time_inv_booking [OF assms(2)] books(3,1,4,5,2) assms(3,4)])
  then show ?thesis using Create_writes [OF books(1)] entries_only [OF assms(2)] by blast
next
  case (corrects e cmd res)
  have b: "booking_inv cap d'"
    by (rule Update_inv [OF time_inv_booking [OF assms(2)] corrects(3,1,4,5,2) assms(3,4)])
  have "db_valid d" using assms(2) by (simp add: time_inv_def booking_inv_def)
  from Update_writes [OF this corrects(1)] show ?thesis using b entries_only [OF assms(2)] by blast
next
  case (deletes i res)
  have "booking_inv cap d'" by (rule Delete_inv [OF time_inv_booking [OF assms(2)] deletes])
  then show ?thesis using Delete_writes [OF deletes] entries_only [OF assms(2)] by blast
next
  case (moves e i p actor res)
  have b: "booking_inv cap d'" by (rule Transfer_inv [OF time_inv_booking [OF assms(2)] moves(2,1,3)])
  from Transfer_cases [OF moves(1)] have "d' = d \<or> (\<exists>r. d\<lparr>db_timesheets := r\<rparr> = d')" by blast
  then show ?thesis using b assms(2) entries_only [OF assms(2)] by blast
next
  case (copies e u a b res)
  have b: "booking_inv cap d'"
    by (rule Copy_inv [OF time_inv_booking [OF assms(2)] copies(2) assms(3,4) copies(1) copies(3)])
  have "d = d' \<or> (\<exists>r. d\<lparr>db_timesheets := r\<rparr> = d')"
    using copies(1) by (cases "planned_copy e u a b d") (auto simp: CopyWeek_def)
  then show ?thesis using b assms(2) entries_only [OF assms(2)] by blast
next
  case (starts e u q desc res)
  from Start_cases [OF this] show ?thesis using assms(2) startAt_inv [OF assms(2)] by blast
next
  case (discards u)
  then show ?thesis using clear_inv [OF assms(2), of u] by (simp add: Discard_def)
next
  case (adjusts e u at' res)
  from Adjust_cases [OF this] show ?thesis using assms(2) adjust_inv [OF assms(2)] by (metis (no_types))
next
  case (switches e u zone q desc res)
  show ?thesis by (rule Switch_inv [OF assms(2) switches(3,1,2) assms(3,4)])
next
  case (stops e u zone endedAt res)
  from Stop_cases [OF this(1)] show ?thesis
    using assms(2) book_inv [OF assms(2) stops(3) _ stops(2) assms(3,4)] by blast
next
  case (manages e)
  then show ?thesis by (rule project_step_inv [OF assms(2)])
qed


lemma sample_inv: "time_inv 10 sample_db"
proof -
  have "timer_Get u (db_timers sample_db) = None" for u by (simp add: sample_db_def new_db_def timer_Get_def)
  then show ?thesis
    using sample_valid sample_sane sample_projects_ok
    by (simp add: time_inv_def booking_inv_def own_projects_def capped_def own_clocks_def sample_booked sample_entries)
qed


end
