(* ===== verification/ClockRules.thy ===== *)
theory ClockRules
  imports TimeRules
begin

text \<open>
  What a typed booking, a stopped clock, a switch, a move and a copied week do, each in full, and
  how exactly a clock measures.
\<close>

section \<open>The daily cap\<close>



section \<open>How a clock measures\<close>

lemma hours_between:
  assumes "0 \<le> n" "n \<le> 30 * hour_ns"
  shows "\<exists>h. duration_hours n = Fin h \<and> is_double h \<and> \<bar>h - of_int n / of_int hour_ns\<bar> \<le> 1 / 100000000000000
    \<and> (n \<le> 24 * hour_ns \<longrightarrow> h \<le> 24)"
proof -
  define q r where "q = n div hour_ns" and "r = n mod hour_ns"
  have hn: "hour_ns = 3600000000000" by (simp add: hour_ns_def)
  have q: "0 \<le> q" "q \<le> 30" using assms by (auto simp: q_def hn)
  have r: "0 \<le> r" "r < hour_ns" by (simp_all add: r_def hn)
  have n: "of_int n = (of_int q * of_int hour_ns + of_int r :: rat)"
    unfolding of_int_mult [symmetric] of_int_add [symmetric] q_def r_def by simp
  have big: "x < 2 ^ 1024" if "x \<le> 2 ^ 52" for x :: rat
    using that by (rule le_less_trans) (rule power_strict_increasing, simp_all)
  have fq: "float_of_int q = Fin (of_int q)" and fr: "float_of_int r = Fin (of_int r)"
    unfolding float_of_int_def
    by (rule fl_double; use q r big in \<open>simp add: is_double_of_int hn\<close>)+
  define f where "f = rnd (of_int r / of_int hour_ns)"
  have ef: "\<bar>f - of_int r / of_int hour_ns\<bar> \<le> 2 powi (0 - 54)"
    unfolding f_def by (rule rnd_error) (use r in \<open>simp_all add: hn\<close>)
  have f1: "0 \<le> f" "f \<le> 1"
  proof -
    show "0 \<le> f" unfolding f_def by (rule rnd_nonneg) (use r in \<open>simp add: hn\<close>)
    have "f \<le> rnd (of_int 1)" unfolding f_def by (rule rnd_mono) (use r in \<open>simp add: hn\<close>)
    then show "f \<le> 1" by (simp add: rnd_of_int del: of_int_1)
  qed
  have ff: "fl (of_int r / 3600000000000) = Fin f"
    using f1 big [of f] unfolding f_def by (simp add: hn fl_small)
  define h where "h = rnd (of_int q + f)"
  have eh: "\<bar>h - (of_int q + f)\<bar> \<le> 2 powi (5 - 54)"
    unfolding h_def by (rule rnd_error) (use q f1 in simp_all)
  have "h \<le> rnd (of_int 31)" unfolding h_def by (rule rnd_mono) (use q f1 in simp)
  then have h31: "h \<le> 31" by (simp add: rnd_of_int del: of_int_numeral)
  have h0: "0 \<le> h" unfolding h_def by (rule rnd_nonneg) (use q f1 in simp)
  have fs: "fl (of_int q + f) = Fin h" using h0 h31 big [of h] unfolding h_def by (simp add: fl_small)
  then have d: "duration_hours n = Fin h"
    using assms(1) by (simp add: duration_hours_def tdiv_nonneg tmod_nonneg hn fq [unfolded q_def hn] fr [unfolded r_def hn]
        ff [unfolded r_def hn] fs [unfolded q_def hn])
  have p: "(2 :: rat) powi (5 - 54) = 1 / 562949953421312" "(2 :: rat) powi (0 - 54) = 1 / 18014398509481984"
    by (simp_all add: power_int_minus)
  have "of_int n / of_int hour_ns = of_int q + (of_int r / of_int hour_ns :: rat)"
    by (simp add: n hn add_divide_distrib)
  then have "\<bar>h - of_int n / of_int hour_ns\<bar> \<le> 1 / 100000000000000"
    using eh ef unfolding p abs_le_iff by linarith
  moreover have "h \<le> 24" if "n \<le> 24 * hour_ns"
  proof -
    have "q = 24 \<and> r = 0 \<or> q \<le> 23"
    proof (cases "n = 24 * hour_ns")
      case False
      then have "n div 3600000000000 \<le> 86399999999999 div 3600000000000"
        using that by (intro zdiv_mono1) (simp_all add: hn)
      then show ?thesis by (simp add: q_def hn)
    qed (simp add: q_def r_def hn)
    then have "of_int q + f \<le> of_int 24" using f1 by (auto simp: f_def)
    then have "h \<le> rnd (of_int 24)" unfolding h_def by (rule rnd_mono)
    then show ?thesis by (simp add: rnd_of_int del: of_int_numeral)
  qed
  ultimately show ?thesis using d rnd_is_double unfolding h_def by blast
qed

text \<open>For any clock that can become an entry, the hours booked are those between its start and
  its stop to within a hundred-trillionth of an hour, and whether it is too short or too long to
  book is decided by the time itself: less than half a minute never books, a minute always does,
  and the ceiling is exactly a day.\<close>

lemma clock_measures:
  assumes "ns (ti_StartedAt t) \<le> ns stop" "ns stop - ns (ti_StartedAt t) \<le> 30 * hour_ns"
  shows "\<exists>h. HoursElapsed t stop = Fin h
    \<and> \<bar>h - of_int (ns stop - ns (ti_StartedAt t)) / of_int hour_ns\<bar> \<le> 1 / 100000000000000
    \<and> (ns stop - ns (ti_StartedAt t) \<le> 30 * 10 ^ 9 \<longrightarrow> TimerTooShort t stop)
    \<and> (60 * 10 ^ 9 \<le> ns stop - ns (ti_StartedAt t) \<longrightarrow> \<not> TimerTooShort t stop)
    \<and> (ns stop - ns (ti_StartedAt t) \<le> 24 * hour_ns \<longrightarrow> \<not> TimerTooLong t stop)
    \<and> (24 * hour_ns + 10 ^ 9 \<le> ns stop - ns (ti_StartedAt t) \<longrightarrow> TimerTooLong t stop)"
proof -
  define n where "n = ns stop - ns (ti_StartedAt t)"
  have hn: "hour_ns = 3600000000000" by (simp add: hour_ns_def)
  have n: "0 \<le> n" "n \<le> 30 * hour_ns" using assms by (simp_all add: n_def)
  then have "time_sub stop (ti_StartedAt t) = n"
    by (simp add: time_sub_def n_def [symmetric] hn min_duration_def max_duration_def)
  then have e: "HoursElapsed t stop = duration_hours n" by (simp add: HoursElapsed_def Elapsed_def)
  obtain h where h: "duration_hours n = Fin h" "\<bar>h - of_int n / of_int hour_ns\<bar> \<le> 1 / 100000000000000"
    and day: "n \<le> 24 * hour_ns \<longrightarrow> h \<le> 24"
    using hours_between [OF n] by blast
  note b = least_hours_bounds
  have up: "n \<le> k \<Longrightarrow> of_int n \<le> (of_int k :: rat)" and down: "k \<le> n \<Longrightarrow> of_int k \<le> (of_int n :: rat)" for k
    by simp_all
  have near: "h \<le> of_int n / 3600000000000 + 1 / 100000000000000" "of_int n / 3600000000000 - 1 / 100000000000000 \<le> h"
    using h(2) unfolding hn abs_le_iff by simp_all
  have "h < least_hours" if "n \<le> 30000000000" using near(1) up [OF that] b(1) by simp
  moreover have "\<not> h < least_hours" if "60000000000 \<le> n" using near(2) down [OF that] b(2) by simp
  moreover have "24 < h" if "86401000000000 \<le> n" using near(2) down [OF that] by simp
  ultimately show ?thesis
    unfolding n_def [symmetric] e TimerTooShort_def TimerTooLong_def h(1) MinBookableHours_Fin HoursPerDay_def
    using h(2) day [unfolded not_less [symmetric]] by (intro exI [of _ h]) (simp add: hn)
qed

definition sample_clock :: running_timer where
  "sample_clock = \<lparr>ti_UserID = 1, ti_ProjectID = Some 1, ti_Description = None,
     ti_StartedAt = \<lparr>ns = (20000 * 86400 - 28800) * 10 ^ 9, loc = UTC\<rparr>\<rparr>"

theorem clock_measures_witness: "\<not> TimerTooShort sample_clock (midnight 20000) \<and> \<not> TimerTooLong sample_clock (midnight 20000)"
  using clock_measures [of sample_clock "midnight 20000"] by (auto simp: sample_clock_def hour_ns_def)

section \<open>Stopping and switching\<close>

text \<open>The entry a clock is booked as.\<close>

definition booked_as :: "running_timer \<Rightarrow> location option \<Rightarrow> gotime \<Rightarrow> timesheet \<Rightarrow> bool" where
  "booked_as timer zone stop t \<longleftrightarrow> ts_UserID t = ti_UserID timer
     \<and> ts_ProjectID t = (case ti_ProjectID timer of None \<Rightarrow> None | Some p \<Rightarrow> normalizeProjectID p)
     \<and> ts_Date t = midnight (BookingDay timer zone) \<and> ts_DurationHours t = HoursElapsed timer stop
     \<and> ts_Description t = ti_Description timer \<and> ts_RecordedBy t = None"

lemma book_stored:
  assumes "db_valid d" "book e timer zone end d = (Inr r, d')"
  shows "entry_at d (tr_ID r) = None \<and> (\<exists>t. entry_at d' (tr_ID r) = Some t \<and> booked_as timer zone end t)
    \<and> (\<forall>j. j \<noteq> tr_ID r \<longrightarrow> entry_at d' j = entry_at d j)
    \<and> timer_Get (ti_UserID timer) (db_timers d') = None
    \<and> (\<forall>v. v \<noteq> ti_UserID timer \<longrightarrow> timer_Get v (db_timers d') = timer_Get v (db_timers d))
    \<and> \<not> TimerTooShort timer end \<and> \<not> TimerTooLong timer end"
proof -
  obtain r1 d1 where c: "CreateTimesheet e (booking_of timer zone end) d = (Inr r1, d1)" "r1 = r"
    "d1\<lparr>db_timers := timer_Clear (ti_UserID timer) (db_timers d1)\<rparr> = d'"
    "\<not> TimerTooShort timer end" "\<not> TimerTooLong timer end"
    using book_cases [OF assms(2)] by blast
  note c1 = c(1) [unfolded c(2)]
  obtain repo where "d\<lparr>db_timesheets := repo\<rparr> = d1" using Create_writes [OF c1] by blast
  then have "db_timers d1 = db_timers d" by auto
  moreover have "entry_at d' j = entry_at d1 j" for j unfolding c(3) [symmetric] by simp
  moreover have "booked_as timer zone end (ts_with_id n j (new_entry (booking_of timer zone end)))" for n j
    by (auto simp: booked_as_def ts_with_id_def new_entry_def booking_of_def normalizeProjectID_def otherThan_def
        split: option.split)
  moreover have "db_timers d' = timer_Clear (ti_UserID timer) (db_timers d1)" unfolding c(3) [symmetric] by simp
  ultimately show ?thesis using Create_stored [OF assms(1) c1] c(4,5) by simp
qed

lemma stop_at_bounds:
  "stop_at e timer endedAt = Inr end \<Longrightarrow> ns end \<le> ns (readClock e)
     \<and> (endedAt \<noteq> None \<longrightarrow> ns (ti_StartedAt timer) < ns end)"
  by (auto simp: stop_at_def Let_def split: option.splits if_splits)


definition sample_running :: db where
  "sample_running = sample_db\<lparr>db_timers := [(1, sample_clock)]\<rparr>"

lemma sample_running_inv: "time_inv 10 sample_running"
proof -
  have k: "timers_keyed [(1, sample_clock)]" by (simp add: timers_keyed_def timer_Get_def sample_clock_def)
  have "own_clocks sample_running"
    by (simp add: own_clocks_def sample_running_def timer_Get_def sample_clock_def sample_project_at sample_project_def)
  then show ?thesis
    using sample_inv booking_inv_timers [OF time_inv_booking [OF sample_inv] k]
    by (simp add: time_inv_def sample_running_def projects_ok_def)
qed

lemma sample_running_valid: "db_valid sample_running"
  using sample_running_inv by (simp add: time_inv_def booking_inv_def)

lemma sample_hours: "HoursElapsed sample_clock (midnight 20000) = Fin 8"
  using small_sum [of 8] small_sum [of 0] is_double_of_int [of 8] is_double_of_int [of 0]
  by (simp add: HoursElapsed_def Elapsed_def sample_clock_def time_sub_def min_duration_def max_duration_def
      duration_hours_def tdiv_nonneg tmod_nonneg hour_ns_def float_of_int_def fl_double)

lemma sample_read: "readClock sample_env = midnight 20000"
  by (simp add: readClock_def sample_env_def truncate_second_def in_zone_def midnight_def)

lemma sample_day: "BookingDay sample_clock None = 19999"
  by (simp add: BookingDay_def sample_clock_def in_zone_def CalendarDay_UTC)

lemma timers_irrelevant: "checkDailyBudget e (d\<lparr>db_timers := r\<rparr>) u t h x = checkDailyBudget e d u t h x"
  by (simp add: checkDailyBudget_def dailyLimitFor_def cong: if_cong)

lemma sample_book: "\<exists>r d'. book sample_env sample_clock None (midnight 20000) sample_running = (Inr r, d')"
proof -
  let ?b = "booking_of sample_clock None (midnight 20000)"
  have b: "ct_UserID ?b = 1" "ct_ProjectID ?b = 1" "ct_Date ?b = midnight 19999" "ct_DurationHours ?b = Fin 8" "ct_Description ?b = None"
    by (simp_all add: booking_of_def sample_hours sample_day) (simp_all add: sample_clock_def)
  have "\<exists>r. fst (CreateTimesheet sample_env ?b sample_running) = Inr r"
  proof (rule Create_complete, unfold b)
    show "validateTimesheet (midnight 19999) (Fin 8) None = Inr ()"
      using least_hours_bounds(2) by (simp add: validateTimesheet_Inr OnTheCalendar_midnight MinBookableHours_Fin HoursPerDay_def)
    show "bookable sample_running 1 (normalizeProjectID 1)"
      using sample_bookable by (simp add: bookable_def normalizeProjectID_def sample_running_def)
    show "checkDailyBudget sample_env sample_running 1 (midnight 19999) (Fin 8) 0 = Inr ()"
      using sample_budget [of 8 19999] by (simp add: sample_running_def timers_irrelevant)
  qed
  then obtain r d1 where "CreateTimesheet sample_env ?b sample_running = (Inr r, d1)"
    by (cases "CreateTimesheet sample_env ?b sample_running") auto
  moreover have "\<not> TimerTooShort sample_clock (midnight 20000)" "\<not> TimerTooLong sample_clock (midnight 20000)"
    using least_hours_bounds(2) by (simp_all add: TimerTooShort_def TimerTooLong_def sample_hours MinBookableHours_Fin HoursPerDay_def)
  ultimately show ?thesis by (simp add: book_def)
qed


text \<open>A switch books the running clock up to the very second the next one starts at, so that
  the two entries meet without a gap or an overlap - or is refused as a whole, and then the old
  clock runs on and nothing has changed.\<close>

lemma switch_meets:
  assumes "db_valid d" "Switch e u zone p desc d = (res, d')"
  shows "case res of
      Inl err \<Rightarrow> d' = d
    | Inr (r, next_timer) \<Rightarrow> \<exists>timer t. timer_Get u (db_timers d) = Some timer
        \<and> entry_at d (tr_ID r) = None \<and> entry_at d' (tr_ID r) = Some t
        \<and> booked_as timer zone (ti_StartedAt next_timer) t
        \<and> timer_Get u (db_timers d') = Some next_timer \<and> ti_UserID next_timer = u
        \<and> ti_ProjectID next_timer = p \<and> ti_Description next_timer = desc
        \<and> (\<forall>v. v \<noteq> u \<longrightarrow> timer_Get v (db_timers d') = timer_Get v (db_timers d))
        \<and> (\<forall>j. j \<noteq> tr_ID r \<longrightarrow> entry_at d' j = entry_at d j)"
proof (cases res)
  case (Inl err)
  have "d' = d" using Switch_cases [OF assms(2)] Inl by auto
  then show ?thesis using Inl by simp
next
  case (Inr rt)
  obtain timer r d1 n where s: "timer_Get u (db_timers d) = Some timer" "book e timer zone (readClock e) d = (Inr r, d1)"
    "startAt u p desc (readClock e) d1 = (n, d')" "rt = (r, n)"
    using Switch_cases [OF assms(2)] Inr by blast
  have n: "ti_UserID n = u" "ti_ProjectID n = p" "ti_Description n = desc" "ti_StartedAt n = readClock e"
    and w: "d1\<lparr>db_timers := timer_Start n (db_timers d1)\<rparr> = d'"
    using s(3) unfolding startAt_def Let_def prod.inject by auto
  have "entry_at d' j = entry_at d1 j" "timer_Get v (db_timers d') = (if v = u then Some n else timer_Get v (db_timers d1))" for j v
    unfolding w [symmetric] by (simp_all add: n)
  moreover have "ti_UserID timer = u" using s(1) assms(1) by (simp add: db_valid_def timers_keyed_def)
  ultimately show ?thesis
    using book_stored [OF assms(1) s(2)] s(1) n unfolding Inr sum.case s(4) prod.case by auto
qed

theorem switch_meets_witness:
  "\<exists>r n d'. Switch sample_env 1 None None None sample_running = (Inr (r, n), d') \<and> timer_Get 1 (db_timers d') = Some n
     \<and> ti_StartedAt n = midnight 20000"
proof -
  obtain r d1 where b: "book sample_env sample_clock None (midnight 20000) sample_running = (Inr r, d1)" using sample_book by blast
  have g: "timer_Get 1 (db_timers sample_running) = Some sample_clock" by (simp add: sample_running_def timer_Get_def)
  have ok: "requireStartable sample_running 1 None None = Inr ()" by (simp add: requireStartable_Inr)
  obtain n d' where n: "startAt 1 None None (midnight 20000) d1 = (n, d')" by (rule prod.exhaust)
  have s: "Switch sample_env 1 None None None sample_running = (Inr (r, n), d')"
    by (simp add: Switch_def running_def g [simplified] ok [simplified] sample_read b n [simplified])
  have "n = \<lparr>ti_UserID = 1, ti_ProjectID = None, ti_Description = None, ti_StartedAt = midnight 20000\<rparr>"
    using n unfolding startAt_def Let_def prod.inject by (rule conjunct1 [THEN sym])
  then have "ti_StartedAt n = midnight 20000" by simp
  then show ?thesis using switch_meets [OF sample_running_valid s] s by auto
qed

section \<open>Moving an entry\<close>

text \<open>Moving an entry either refuses and changes nothing, or puts it on an active project it was
  not on already - one of its own owner's, whoever moves it while authentication is on - names the
  mover where it is not the owner, and leaves its day, hours, owner and description and every
  other entry as they were.\<close>

lemma transfer_moves:
  assumes "db_valid d" "TransferTimesheetToProject e i p actor d = (res, d')"
  shows "case res of
      Inl err \<Rightarrow> d' = d
    | Inr t \<Rightarrow> \<exists>before pr. entry_at d i = Some before \<and> project_at d p = Some pr \<and> pr_Status pr = ProjectStatusActive
        \<and> (actor = 0 \<or> ts_UserID before = 0 \<or> pr_OwnerID pr = Some (ts_UserID before))
        \<and> ts_ProjectID before \<noteq> Some p \<and> entry_at d' i = Some t \<and> ts_ProjectID t = Some p
        \<and> ts_UserID t = ts_UserID before \<and> ts_Date t = ts_Date before \<and> ts_DurationHours t = ts_DurationHours before
        \<and> ts_Description t = ts_Description before \<and> ts_UpdatedBy t = otherThan actor (ts_UserID before)
        \<and> (\<forall>j. j \<noteq> i \<longrightarrow> entry_at d' j = entry_at d j)"
proof (cases "\<exists>err. res = Inl err \<and> d' = d")
  case True
  then show ?thesis by auto
next
  case False
  then obtain t where t: "transferred i p actor d = Inr t"
    "d\<lparr>db_timesheets := snd (ts_Update (now e) t (db_timesheets d))\<rparr> = d'" "fst (ts_Update (now e) t (db_timesheets d)) = res"
    using Transfer_cases [OF assms(2)] by blast
  obtain before pr where b: "entry_at d i = Some before" "project_at d p = Some pr"
    "actor = 0 \<or> ts_UserID before = 0 \<or> pr_OwnerID pr = Some (ts_UserID before)" "pr_Status pr = ProjectStatusActive"
    "ts_ProjectID before \<noteq> Some p" "t = before\<lparr>ts_ProjectID := Some p, ts_UpdatedBy := otherThan actor (ts_UserID before)\<rparr>"
    using transferred_Inr [OF t(1) assms(1)] by blast
  have i: "ts_ID t = i" using entry_at_id [OF assms(1) b(1)] by (simp add: b(6))
  have f: "store_find (ts_ID t) (tr_store (db_timesheets d)) = Some before" using b(1) i by simp
  have says: "\<not> Says before t" using b(5) by (simp add: Says_def b(6))
  obtain stored where s: "fst (ts_Update (now e) t (db_timesheets d)) = Inr stored"
    "tr_store (snd (ts_Update (now e) t (db_timesheets d))) = snd (store_update i stored (tr_store (db_timesheets d)))"
    "stored = t\<lparr>ts_UpdatedAt := stamp (now e), ts_CreatedAt := ts_CreatedAt before, ts_RecordedBy := ts_RecordedBy before,
        ts_UpdatedBy := ts_UpdatedBy t\<rparr>"
    by (rule ts_Update_found [OF f, of "now e"]) (use says i in simp)
  have at': "entry_at d' j = (if j = i then Some stored else entry_at d j)" for j
    unfolding t(2) [symmetric] using b(1) by (simp add: s(2) store_find_after)
  have "res = Inr stored" using s(1) t(3) by simp
  then show ?thesis using b at' by (simp add: s(3) b(6))
qed

definition sample_second :: project where
  "sample_second = sample_project\<lparr>pr_ID := 2, pr_Name := ''Hull''\<rparr>"

definition sample_booked_db :: db where
  "sample_booked_db = sample_db
     \<lparr>db_projects := \<lparr>st_items = [(1, sample_project), (2, sample_second)], st_nextID = 3, st_entity = ''project''\<rparr>,
      db_timesheets := snd (ts_Save (midnight 20000) (new_entry sample_booking) new_timesheets)\<rparr>"

lemma sample_booked_at: "entry_at sample_booked_db i =
    (if i = 1 then Some (ts_with_id (stamp (midnight 20000)) 1 (new_entry sample_booking)) else None)"
  by (simp add: sample_booked_db_def ts_Save_store store_find_after sample_entries)
    (simp add: new_timesheets_def newStore_def)

lemma sample_booked_valid: "db_valid sample_booked_db"
proof -
  have p: "project_at sample_booked_db j = (if j = 1 then Some sample_project else if j = 2 then Some sample_second else None)" for j
    by (simp add: sample_booked_db_def store_find_def)
  have "pr_ID sample_project = 1" "pr_ID sample_second = 2" by (simp_all add: sample_project_def sample_second_def)
  then have "store_valid (db_projects sample_booked_db)" "projects_keyed (db_projects sample_booked_db)"
    by (simp_all add: store_valid_def projects_keyed_def p) (simp_all add: sample_booked_db_def)
  moreover have "repo_valid (db_timesheets sample_booked_db)"
    using sample_valid sample_room ts_Save_valid [of new_timesheets]
    by (simp add: sample_booked_db_def db_valid_def db_room_def sample_entries(1))
  ultimately show ?thesis using sample_valid by (simp add: db_valid_def) (simp add: sample_booked_db_def)
qed

theorem transfer_moves_witness:
  "\<exists>t d'. TransferTimesheetToProject sample_env 1 2 1 sample_booked_db = (Inr t, d') \<and> entry_at d' 1 = Some t
     \<and> ts_ProjectID t = Some 2"
proof -
  have p: "project_at sample_booked_db 2 = Some sample_second" by (simp add: sample_booked_db_def store_find_def)
  have g: "ts_GetByID 1 (db_timesheets sample_booked_db) = Inr (ts_with_id (stamp (midnight 20000)) 1 (new_entry sample_booking))"
    using sample_booked_at [of 1] by (simp add: ts_GetByID_def)
  have s: "pr_Status sample_second = ProjectStatusActive" "pr_OwnerID sample_second = Some 1" "pr_ID sample_second = 2"
    by (simp_all add: sample_second_def sample_project_def)
  have n: "ts_UserID (new_entry sample_booking) = 1" "ts_ProjectID (new_entry sample_booking) = Some 1"
    by (simp_all add: new_entry_def sample_booking_def normalizeProjectID_def)
  have "\<exists>t. transferred 1 2 1 sample_booked_db = Inr t"
    using p by (simp add: transferred_def g [simplified] store_get_def s n [simplified] ts_with_id_def Let_def RequireVisible_def VisibleTo_def)
  then obtain t where t: "transferred 1 2 1 sample_booked_db = Inr t" by blast
  obtain res d' where r: "TransferTimesheetToProject sample_env 1 2 1 sample_booked_db = (res, d')" by (rule prod.exhaust)
  obtain w repo where w: "ts_Update (now sample_env) t (db_timesheets sample_booked_db) = (w, repo)" by (rule prod.exhaust)
  have "ts_ID t = 1" using transferred_Inr [OF t sample_booked_valid] entry_at_id [OF sample_booked_valid] by auto
  then have "entry_at sample_booked_db (ts_ID t) = Some (ts_with_id (stamp (midnight 20000)) 1 (new_entry sample_booking))"
    using sample_booked_at [of 1] by simp
  from ts_Update_writes [OF this w] obtain t' where "w = Inr t'" by blast
  moreover have "w = res" using r unfolding TransferTimesheetToProject_def t sum.case w by simp
  ultimately have "res = Inr t'" by simp
  then show ?thesis using transfer_moves [OF sample_booked_valid r] r by auto
qed

section \<open>Copying a week\<close>

interpretation worked: comparison worked_order
  by unfold_locales (auto simp: worked_order_def)

lemma distinct_entries: "db_valid d \<Longrightarrow> distinct (store_all (tr_store (db_timesheets d)))"
  unfolding store_all_def
  by (rule distinct_map [of ts_ID, THEN iffD1, THEN conjunct1], rule map_filter_ident) (auto dest: entry_at_id)

text \<open>The day of a copied entry is free exactly when nothing of its owner's is booked on it.\<close>

lemma taken_iff:
  assumes "t \<in> set (days_entries d u a (a + 6))"
  shows "target_day (b - a) t \<in> set (map (\<lambda>t. CalendarDay (ts_Date t)) (sort_by newest_first (days_entries d u b (b + 6))))
    \<longleftrightarrow> day_entries d u (target_day (b - a) t) \<noteq> []"
  using assms by (auto simp: days_entries_def day_entries_def target_day_def filter_empty_conv image_iff)


declare One_nat_def [simp del]

definition sample_entry :: timesheet where
  "sample_entry = ts_with_id (stamp (midnight 20000)) 1 (new_entry sample_booking)"

lemma sample_entry_simps [simp]:
  "ts_UserID sample_entry = 1" "ts_Date sample_entry = midnight 20000" "ts_DurationHours sample_entry = Fin 8"
  "ts_ProjectID sample_entry = Some 1" "ts_Description sample_entry = None"
  by (simp_all add: sample_entry_def ts_with_id_def new_entry_def sample_booking_def normalizeProjectID_def)

lemma sample_booked_all: "store_all (tr_store (db_timesheets sample_booked_db)) = [sample_entry]"
proof -
  have "store_all (tr_store new_timesheets) = []" "st_nextID (tr_store new_timesheets) = 1"
    by (simp_all add: new_timesheets_def newStore_def store_all_def List.map_filter_def)
  moreover have "store_valid (tr_store new_timesheets)" "store_room (tr_store new_timesheets)"
    by (simp_all add: new_timesheets_def) (simp add: newStore_def store_room_def uint_max_def)
  ultimately show ?thesis by (simp add: sample_booked_db_def ts_Save_store store_all_add sample_entry_def)
qed

lemma sample_booked_sane: "entries_sane sample_booked_db"
proof -
  have "\<exists>x. midnight 20000 = midnight x \<and> - 25567 \<le> x \<and> x < 2932897" by (rule exI [of _ 20000]) simp
  then show ?thesis
    using least_hours_bounds(2) double_nat [of 8] by (simp add: entries_sane_def sample_booked_all entry_sane_def)
qed

lemma sample_copy: "\<exists>c. planned_copy sample_env 1 (midnight 19996) (midnight 20003) sample_booked_db = Inr c"
proof -
  have u: "user_at sample_booked_db 1 = Some sample_user"
    using sample_user_at [of 1] by (simp add: sample_booked_db_def)
  have g: "user_GetByID (db_roles sample_booked_db) 1 (db_users sample_booked_db) = Inr sample_user"
    unfolding user_GetByID_Inr
    by (rule exI [of _ sample_user]) (use u in \<open>simp add: withRoleName_def sample_user_def blank_user_def\<close>)
  have w: "days_entries sample_booked_db 1 19996 20002 = [sample_entry]" "days_entries sample_booked_db 1 20003 20009 = []"
    by (simp_all add: days_entries_def sample_booked_all)
  have l: "dailyLimitFor sample_env sample_booked_db 1 = Inr (Fin 10)"
    using sample_limit by (simp add: dailyLimitFor_def sample_booked_db_def cong: if_cong)
  have o: "stillOpen sample_booked_db 1 1"
    by (simp add: stillOpen_def store_get_def sample_booked_db_def store_find_def sample_project_def RequireVisible_def VisibleTo_def)
  have b: "booked sample_booked_db 1 20007 0 = 0"
    by (simp add: booked_def day_entries_def sample_booked_all)
  have v: "validateTimesheet (midnight 20007) (Fin 8) None = Inr ()"
    using least_hours_bounds(2) by (simp add: validateTimesheet_Inr OnTheCalendar_midnight MinBookableHours_Fin HoursPerDay_def)
  have eight: "is_double 8" "least_hours \<le> 8" "(8 :: rat) < 2 ^ 1024"
    using double_nat [of 8] least_hours_bounds(2) small_sum [of 8] by simp_all
  have k: "checkDailyBudget sample_env sample_booked_db 1 (midnight 20007) (Fin 8) 0 = Inr ()"
    using budget_exact [OF sample_booked_valid sample_booked_sane eight l, of 20007 0] by (simp add: b)
  have s: "fadd (Fin 8) (Fin 0) = Fin 8" using eight by (simp add: fl_double)
  have d: "\<not> TooLong [] n" for n by (simp add: TooLong_def)
  have run: "\<exists>c'. copy_entries sample_env sample_booked_db 1 [] 7 [sample_entry] c = Inr c'"
    if "co_planned c = []" for c
  proof -
    have p: "planned_on c x = Fin 0" for x by (simp add: planned_on_def that)
    show ?thesis unfolding copy_entries.simps Let_def sample_entry_simps CalendarDay_midnight p s
      using v k o by simp
  qed
  have m: "is_monday (midnight 19996)" "is_monday (midnight 20003)" by (simp_all add: is_monday_def weekday_def)
  show ?thesis
    unfolding planned_copy_def g bind_res_simps Let_def weekOf_def CalendarDay_midnight
      range_entries [OF sample_booked_sane one_neq_zero] 
    using m run [of "\<lparr>co_copies = [], co_kept = [], co_planned = [], co_closed = 0\<rparr>"] w
    by (simp add: OnTheCalendar_midnight refuse_fields_def del: copy_entries.simps)
qed


end
