(* ===== verification/Leave.thy ===== *)
theory Leave
  imports Holidays Booking
begin

text \<open>
  What somebody records about their days: the days away
  (\<^verbatim>\<open>application/v1/service/absence_application_service.go\<close>), the leave a year gives and what is
  left of it (\<^verbatim>\<open>vacation_application_service.go\<close>), the weeks they plan
  (\<^verbatim>\<open>workschedule_application_service.go\<close>) and when they worked
  (\<^verbatim>\<open>workday_application_service.go\<close>), with the holidays of \<^verbatim>\<open>holiday.go\<close> and the day
  ranges and clock of \<^verbatim>\<open>overtime_application_service.go\<close> they share.

  The two function values the services are built with are the fields of \<open>calendar\<close>:
  \<^verbatim>\<open>PlaceSource\<close>, the installation's choice of holidays, and \<^verbatim>\<open>Today\<close>, the day it is in
  somebody's zone; a nil one is \<open>None\<close>.
\<close>

record calendar =
  cal_place :: "gostring result option"
  cal_today :: "(user \<Rightarrow> gotime) option"

section \<open>Printing\<close>

definition padded :: "nat \<Rightarrow> int \<Rightarrow> gostring" where
  "padded width n =
     (let digits = format_uint (nat \<bar>n\<bar>)
      in (if n < 0 then ''-'' else []) @ replicate (width - length digits) (CHR ''0'') @ digits)"

definition format_int :: "int \<Rightarrow> gostring" where
  "format_int n = padded 0 n"

text \<open>\<^verbatim>\<open>Format(time.DateOnly)\<close>.\<close>

definition format_day :: "day \<Rightarrow> gostring" where
  "format_day d = padded 4 (year_of d) @ ''-'' @ padded 2 (month_of d) @ ''-'' @ padded 2 (month_day d)"

section \<open>Ranges of days, holidays, today\<close>

definition MaxDays :: int where "MaxDays = 371"

text \<open>\<^verbatim>\<open>int(last.Sub(first).Hours()/24) + 1\<close>: the distance saturates after some 292 years.\<close>

definition day_span :: "day \<Rightarrow> day \<Rightarrow> int" where
  "day_span from to =
     (case to_int64 (fdiv (duration_hours (time_sub (midnight to) (midnight from))) (Fin 24)) of
        None \<Rightarrow> - (2 ^ 63) | Some n \<Rightarrow> n) + 1"

definition rangeInverted :: app_error where
  "rangeInverted = WithCode Invalidf ''rangeInverted'' []"

definition dayRange :: "gotime \<Rightarrow> gotime \<Rightarrow> (day \<times> day) result" where
  "dayRange from to =
     (let first = CalendarDay from; until = CalendarDay to
      in if until < first then Inl rangeInverted
         else if day_span first until > MaxDays
         then Inl (WithCode Invalidf ''rangeTooLong'' [VInt MaxDays])
         else Inr (first, until))"

definition holidaysOf :: "calendar \<Rightarrow> user \<Rightarrow> day \<Rightarrow> day \<Rightarrow> (day \<rightharpoonup> holiday) result" where
  "holidaysOf cal user from to =
     bind_res (case cal_place cal of None \<Rightarrow> Inr [] | Some place \<Rightarrow> place) (\<lambda>installation.
       Inr (HolidaysBetween (HolidayPlaceOf (us_HolidayPlace user) installation) from to))"

definition todayOf :: "env \<Rightarrow> calendar \<Rightarrow> user \<Rightarrow> day" where
  "todayOf e cal user =
     (case cal_today cal of None \<Rightarrow> CalendarDay (in_zone (now e) UTC) | Some clock \<Rightarrow> CalendarDay (clock user))"

section \<open>Days away\<close>

definition Absences :: "uint \<Rightarrow> gotime \<Rightarrow> gotime \<Rightarrow> db \<Rightarrow> absence list result" where
  "Absences userID from to d =
     bind_res (dayRange from to) (\<lambda>(first, until). Inr (absence_Between userID first until (db_absences d)))"

definition week_before :: "user \<Rightarrow> week_hours" where
  "week_before user = DefaultWeek (EffectiveDailyTarget user)"

text \<open>The days of a range that would otherwise be worked.\<close>

definition working_days :: "(day \<rightharpoonup> holiday) \<Rightarrow> work_schedule list \<Rightarrow> week_hours \<Rightarrow> day \<Rightarrow> day \<Rightarrow> day list" where
  "working_days holidays schedules before begins ends =
     filter (\<lambda>x. \<not> (holidays x \<noteq> None \<or> fle (TargetOn x schedules before) (Fin 0))) [begins..ends]"

definition recorded_absences ::
  "calendar \<Rightarrow> uint \<Rightarrow> gotime \<Rightarrow> gotime \<Rightarrow> gostring \<Rightarrow> db \<Rightarrow> absence list result" where
  "recorded_absences cal userID from to kind d =
     bind_res (refuse_fields
       (field_if (\<not> OnTheCalendar from) ''from'' @ field_if (\<not> OnTheCalendar to) ''to''
        @ field_if (\<not> ValidAbsenceKind kind) ''kind'')) (\<lambda>_.
     bind_res (dayRange from to) (\<lambda>(first, until).
     bind_res (user_GetByID (db_roles d) userID (db_users d)) (\<lambda>user.
     let schedules = schedule_ForUser userID (db_schedules d)
     in bind_res (holidaysOf cal user first until) (\<lambda>holidays.
     let absences = map (\<lambda>x. \<lparr>ab_user = userID, ab_day = x, ab_kind = kind\<rparr>)
           (working_days holidays schedules (week_before user) first until)
     in if absences = [] then Inl (WithCode Invalidf ''noWorkingDays'' []) else Inr absences))))"

definition RecordAbsence ::
  "calendar \<Rightarrow> uint \<Rightarrow> gotime \<Rightarrow> gotime \<Rightarrow> gostring \<Rightarrow> db \<Rightarrow> absence list result \<times> db" where
  "RecordAbsence cal userID from to kind d =
     (case recorded_absences cal userID from to kind d of
        Inl err \<Rightarrow> (Inl err, d)
      | Inr absences \<Rightarrow> (Inr absences, d\<lparr>db_absences := absence_Save absences (db_absences d)\<rparr>))"

definition RemoveAbsence :: "uint \<Rightarrow> gotime \<Rightarrow> db \<Rightarrow> unit result \<times> db" where
  "RemoveAbsence userID day d =
     (let (found, kept) = absence_Delete userID (CalendarDay day) (db_absences d); d' = d\<lparr>db_absences := kept\<rparr>
      in if \<not> found then (Inl (NotFound ''absence'' (format_day (CalendarDay day))), d') else (Inr (), d'))"

section \<open>Leave\<close>

record vacation_account =
  va_Year :: vacation_year
  va_Entitlements :: "vacation_entitlement list"

definition blank_year :: "int \<Rightarrow> vacation_year" where
  "blank_year year = \<lparr>vy_Year = year, vy_Entitlement = Fin 0, vy_CarriedOver = Fin 0, vy_Taken = Fin 0, vy_Planned = Fin 0\<rparr>"

type_synonym by_year = "int \<Rightarrow> float64"

text \<open>The leave counted by year: what was taken up to today and what is planned after it.\<close>

fun count_leave ::
  "(day \<Rightarrow> bool) \<Rightarrow> day \<Rightarrow> absence list \<Rightarrow> by_year \<times> by_year \<Rightarrow> by_year \<times> by_year" where
  "count_leave works today [] counted = counted"
| "count_leave works today (a # as) (taken, planned) =
     (let days = VacationDays a; y = year_of (ab_day a)
      in if feq days (Fin 0) then count_leave works today as (taken, planned)
         else if \<not> works (ab_day a) then count_leave works today as (taken, planned)
         else if ab_day a > today then count_leave works today as (taken, planned(y := fadd (planned y) days))
         else count_leave works today as (taken(y := fadd (taken y) days), planned))"

fun carry_over :: "vacation_entitlement list \<Rightarrow> by_year \<Rightarrow> by_year \<Rightarrow> int list \<Rightarrow> float64 \<Rightarrow> float64" where
  "carry_over es taken planned [] carried = carried"
| "carry_over es taken planned (y # ys) carried =
     carry_over es taken planned ys
       (fsub (fsub (fadd (fst (EntitlementIn y es)) carried) (taken y)) (planned y))"

definition Year :: "env \<Rightarrow> calendar \<Rightarrow> uint \<Rightarrow> int \<Rightarrow> db \<Rightarrow> vacation_account result" where
  "Year e cal userID year d =
     (if year < 1900 \<or> year > 9999 then Inl (InvalidFields [''year''])
      else bind_res (user_GetByID (db_roles d) userID (db_users d)) (\<lambda>user.
        let entitlements = entitlement_ForUser userID (db_entitlements d);
            account = \<lparr>va_Year = blank_year year, va_Entitlements = entitlements\<rparr>
        in if entitlements = [] \<or> year < ve_from_year (hd entitlements) then Inr account
           else
             let first = ve_from_year (hd entitlements);
                 from = date first 1 1; to = date year 12 31;
                 away = absence_Between userID from to (db_absences d);
                 schedules = schedule_ForUser userID (db_schedules d)
             in bind_res (holidaysOf cal user from to) (\<lambda>holidays.
                  let works = (\<lambda>x. \<not> (holidays x \<noteq> None \<or> fle (TargetOn x schedules (week_before user)) (Fin 0)));
                      (taken, planned) = count_leave works (todayOf e cal user) away (\<lambda>_. Fin 0, \<lambda>_. Fin 0);
                      carried = carry_over entitlements taken planned [first..year - 1] (Fin 0)
                  in Inr (account\<lparr>va_Year :=
                       \<lparr>vy_Year = year, vy_Entitlement = fst (EntitlementIn year entitlements),
                        vy_CarriedOver = settled carried, vy_Taken = settled (taken year),
                        vy_Planned = settled (planned year)\<rparr>\<rparr>))))"

definition Entitle :: "uint \<Rightarrow> int \<Rightarrow> float64 \<Rightarrow> db \<Rightarrow> unit result \<times> db" where
  "Entitle userID fromYear days d =
     (case bind_res (refuse_fields
             (field_if (fromYear < 1900 \<or> fromYear > 9999) ''fromYear''
              @ field_if (\<not> (fle (Fin 0) days \<and> fle days (float_of_int MaxEntitlementDays))) ''days'')) (\<lambda>_.
           user_GetByID (db_roles d) userID (db_users d)) of
        Inl err \<Rightarrow> (Inl err, d)
      | Inr _ \<Rightarrow> (Inr (), d\<lparr>db_entitlements :=
          entitlement_Save \<lparr>ve_user = userID, ve_from_year = fromYear, ve_days = days\<rparr> (db_entitlements d)\<rparr>))"

definition Withdraw :: "uint \<Rightarrow> int \<Rightarrow> db \<Rightarrow> unit result \<times> db" where
  "Withdraw userID fromYear d =
     (let (found, kept) = entitlement_Delete userID fromYear (db_entitlements d); d' = d\<lparr>db_entitlements := kept\<rparr>
      in if \<not> found then (Inl (NotFound ''entitlement'' (format_int fromYear)), d') else (Inr (), d'))"

section \<open>Planned weeks\<close>

record planned_weeks =
  pw_Schedules :: "work_schedule list"
  pw_Before :: week_hours

definition Planned :: "uint \<Rightarrow> db \<Rightarrow> planned_weeks result" where
  "Planned userID d =
     bind_res (user_GetByID (db_roles d) userID (db_users d)) (\<lambda>user.
       Inr \<lparr>pw_Schedules = schedule_ForUser userID (db_schedules d), pw_Before = week_before user\<rparr>)"

definition within_maximum :: "float64 \<Rightarrow> week_hours \<Rightarrow> unit result" where
  "within_maximum most hours =
     (if fless (Fin 0) most
      then each_res (\<lambda>planned. if fless most planned
             then Inl (WithCode Invalidf ''targetOverMaximum'' [VFloat planned, VFloat most]) else Inr ()) hours
      else Inr ())"

definition Plan :: "uint \<Rightarrow> gotime \<Rightarrow> week_hours \<Rightarrow> db \<Rightarrow> work_schedule result \<times> db" where
  "Plan userID validFrom hours d =
     (case bind_res (refuse_fields
             (field_if (\<not> OnTheCalendar validFrom) ''validFrom'' @ field_if (\<not> Valid hours) ''hours'')) (\<lambda>_.
           bind_res (user_GetByID (db_roles d) userID (db_users d)) (\<lambda>user.
           within_maximum (us_MaxDailyHours user) hours)) of
        Inl err \<Rightarrow> (Inl err, d)
      | Inr _ \<Rightarrow>
          let schedule = \<lparr>ws_user = userID, ws_from = CalendarDay validFrom, ws_hours = hours\<rparr>
          in (Inr schedule, d\<lparr>db_schedules := schedule_Save schedule (db_schedules d)\<rparr>))"

definition RemovePlan :: "uint \<Rightarrow> gotime \<Rightarrow> db \<Rightarrow> unit result \<times> db" where
  "RemovePlan userID validFrom d =
     (let (found, kept) = schedule_Delete userID (CalendarDay validFrom) (db_schedules d); d' = d\<lparr>db_schedules := kept\<rparr>
      in if \<not> found then (Inl (NotFound ''schedule'' (format_day (local_day validFrom))), d') else (Inr (), d'))"

section \<open>Recorded working days\<close>

record work_day_record =
  wr_day :: work_day
  wr_Recorded :: bool
  wr_BookedHours :: float64
  wr_Notices :: "notice list"

fun recorded_days ::
  "(day \<times> notice list) list \<Rightarrow> day \<Rightarrow> work_day list \<Rightarrow> (day \<times> work_day_record) list \<Rightarrow> (day \<times> work_day_record) list" where
  "recorded_days notices first [] byDay = byDay"
| "recorded_days notices first (w # ws) byDay =
     (if wd_day w < first then recorded_days notices first ws byDay
      else recorded_days notices first ws (AList.update (wd_day w)
             \<lparr>wr_day = w, wr_Recorded = True, wr_BookedHours = Fin 0,
              wr_Notices = (case map_of notices (wd_day w) of None \<Rightarrow> [] | Some said \<Rightarrow> said)\<rparr> byDay))"

definition unrecorded :: "uint \<Rightarrow> day \<Rightarrow> work_day_record" where
  "unrecorded userID x =
     \<lparr>wr_day = \<lparr>wd_user = userID, wd_day = x, wd_start = 0, wd_end = 0, wd_break = 0\<rparr>,
      wr_Recorded = False, wr_BookedHours = Fin 0, wr_Notices = []\<rparr>"

fun add_booked :: "uint \<Rightarrow> timesheet list \<Rightarrow> (day \<times> work_day_record) list \<Rightarrow> (day \<times> work_day_record) list" where
  "add_booked userID [] byDay = byDay"
| "add_booked userID (t # ts) byDay =
     (let x = CalendarDay (ts_Date t);
          r = (case map_of byDay x of None \<Rightarrow> unrecorded userID x | Some r \<Rightarrow> r)
      in add_booked userID ts
           (AList.update x (r\<lparr>wr_BookedHours := fadd (wr_BookedHours r) (ts_DurationHours t)\<rparr>) byDay))"

definition WorkDaysBetween :: "env \<Rightarrow> uint \<Rightarrow> gotime \<Rightarrow> gotime \<Rightarrow> db \<Rightarrow> work_day_record list result" where
  "WorkDaysBetween e userID from to d =
     bind_res (dayRange from to) (\<lambda>(first, until).
       let recorded = workday_Between userID (first - 1) until (db_workdays d);
           notices = WorkingTimeNotices recorded
       in bind_res (ts_GetByFilter (lower e) (over_days userID (midnight first) (midnight until)) (db_timesheets d)) (\<lambda>entries.
            let byDay = add_booked userID entries (recorded_days notices first recorded [])
            in Inr (sort_by (by_key (\<lambda>r. wd_day (wr_day r)))
                 (map (\<lambda>(_, r). r\<lparr>wr_BookedHours := settled (wr_BookedHours r)\<rparr>) byDay))))"

text \<open>The day comes as the instant the caller gave; what is kept is its calendar day.\<close>

definition RecordWorkDay :: "gotime \<Rightarrow> work_day \<Rightarrow> db \<Rightarrow> unit result \<times> db" where
  "RecordWorkDay day w d =
     (if is_zero_time day \<or> \<not> OnTheCalendar day then (Inl (InvalidFields [''date'']), d)
      else if wd_start w < 0 \<or> wd_start w \<ge> MinutesPerDay then (Inl (InvalidFields [''start'']), d)
      else if wd_end w \<le> wd_start w \<or> wd_end w > MinutesPerDay then (Inl (InvalidFields [''end'']), d)
      else if wd_break w < 0 \<or> wd_break w \<ge> wd_end w - wd_start w then (Inl (InvalidFields [''breakMinutes'']), d)
      else (Inr (), d\<lparr>db_workdays := workday_Save (w\<lparr>wd_day := CalendarDay day\<rparr>) (db_workdays d)\<rparr>))"

definition RemoveWorkDay :: "uint \<Rightarrow> gotime \<Rightarrow> db \<Rightarrow> unit result \<times> db" where
  "RemoveWorkDay userID day d =
     (let (removed, kept) = workday_Delete userID (CalendarDay day) (db_workdays d); d' = d\<lparr>db_workdays := kept\<rparr>
      in if \<not> removed then (Inl (NotFound ''workday'' (format_day (CalendarDay day))), d') else (Inr (), d'))"

end
