(* ===== verification/Overtime.thy ===== *)
theory Overtime
  imports Leave
begin

text \<open>
  The balance of somebody's hours: \<^verbatim>\<open>application/v1/service/overtime_application_service.go\<close>.
  \<open>rules_of\<close> decides a day - what it asks and whether it counts; \<open>Balance\<close> and
  \<open>Days\<close> apply it to a stretch, \<open>Notices\<close> answers what deserves a banner, and
  \<open>SeenBy\<close> and \<open>DaysSeenBy\<close> are what anybody but the owner is shown.
\<close>

section \<open>Results\<close>

record overtime_day =
  od_Date :: day
  od_Booked :: float64
  od_Target :: float64
  od_Balance :: float64
  od_Absence :: gostring
  od_Holiday :: gostring
  od_HolidaySubstitute :: bool

record overtime_balance =
  ob_UserID :: uint
  ob_UserName :: gostring
  ob_From :: gotime
  ob_To :: gotime
  ob_DailyTarget :: float64
  ob_Days :: "overtime_day list"
  ob_EveryDayCountsFrom :: "day option"
  ob_TotalBooked :: float64
  ob_TotalTarget :: float64
  ob_TotalBalance :: float64

record day_view =
  dv_Date :: day
  dv_Booked :: float64
  dv_Target :: float64
  dv_Absence :: gostring
  dv_Holiday :: gostring
  dv_HolidaySubstitute :: bool
  dv_Counts :: bool

section \<open>What others are shown\<close>

text \<open>\<^verbatim>\<open>Principal\<close>, of \<^verbatim>\<open>auth_application_service.go\<close>.\<close>

record principal =
  pp_User :: "user option"
  pp_Role :: "role option"
  pp_Permissions :: "gostring list"

definition reasonsHiddenFrom :: "principal option \<Rightarrow> uint \<Rightarrow> bool" where
  "reasonsHiddenFrom viewer ownerID =
     (case viewer of None \<Rightarrow> False
      | Some p \<Rightarrow> (case pp_User p of None \<Rightarrow> False | Some u \<Rightarrow> us_ID u \<noteq> 0 \<and> us_ID u \<noteq> ownerID))"

definition undisclosed :: "gostring \<Rightarrow> gostring" where
  "undisclosed kind = (if kind = [] then [] else AbsenceUndisclosed)"

definition SeenBy :: "overtime_balance \<Rightarrow> principal option \<Rightarrow> overtime_balance" where
  "SeenBy b viewer =
     (if \<not> reasonsHiddenFrom viewer (ob_UserID b) then b
      else b\<lparr>ob_Days := map (\<lambda>x. x\<lparr>od_Absence := undisclosed (od_Absence x)\<rparr>) (ob_Days b)\<rparr>)"

definition DaysSeenBy :: "day_view list \<Rightarrow> user \<Rightarrow> principal option \<Rightarrow> day_view list" where
  "DaysSeenBy days owner viewer =
     (if \<not> reasonsHiddenFrom viewer (us_ID owner) then days
      else map (\<lambda>x. x\<lparr>dv_Absence := undisclosed (dv_Absence x)\<rparr>) days)"

section \<open>The rules of a day\<close>

record day_rules =
  dr_from :: "day option"
  dr_today :: day
  dr_schedules :: "work_schedule list"
  dr_before :: week_hours
  dr_holidays :: "day \<rightharpoonup> holiday"
  dr_absent :: "day \<rightharpoonup> absence"

definition rules_of :: "day_rules \<Rightarrow> day \<Rightarrow> float64 \<Rightarrow> float64 \<times> bool" where
  "rules_of r x booked =
     (let planned = TargetOn x (dr_schedules r) (dr_before r)
      in if (case dr_from r of None \<Rightarrow> True | Some from \<Rightarrow> x < from) then (planned, fless (Fin 0) booked)
         else
           let target = (if dr_holidays r x \<noteq> None then Fin 0
                         else case dr_absent r x of None \<Rightarrow> planned | Some a \<Rightarrow> Absence_Target a planned)
           in (target, fless (Fin 0) booked \<or> fless (Fin 0) target \<and> \<not> x > dr_today r))"

definition expectsWork :: "day_rules \<Rightarrow> day \<Rightarrow> bool" where
  "expectsWork r x =
     (if fle (TargetOn x (dr_schedules r) (dr_before r)) (Fin 0) then False
      else if dr_holidays r x \<noteq> None then False
      else case dr_absent r x of Some a \<Rightarrow> ab_kind a = AbsenceHalfVacation | None \<Rightarrow> True)"

definition absent_map :: "absence list \<Rightarrow> day \<rightharpoonup> absence" where
  "absent_map away = foldl (\<lambda>absent a. absent(ab_day a \<mapsto> a)) Map.empty away"

definition rulesFor :: "env \<Rightarrow> calendar \<Rightarrow> user \<Rightarrow> day \<Rightarrow> day \<Rightarrow> db \<Rightarrow> day_rules result" where
  "rulesFor e cal user first until d =
     (let schedules = schedule_ForUser (us_ID user) (db_schedules d);
          away = absence_Between (us_ID user) first until (db_absences d)
      in bind_res (holidaysOf cal user first until) (\<lambda>holidays.
           Inr \<lparr>dr_from = us_EveryDayCountsFrom user, dr_today = todayOf e cal user, dr_schedules = schedules,
                dr_before = week_before user, dr_holidays = holidays, dr_absent = absent_map away\<rparr>))"

section \<open>The balance of a stretch\<close>

text \<open>A missing key of a Go map reads as zero, a missing absence or holiday as one without a
  name.\<close>

definition booked_on :: "(day \<times> float64) list \<Rightarrow> day \<Rightarrow> float64" where
  "booked_on m x = (case map_of m x of None \<Rightarrow> Fin 0 | Some h \<Rightarrow> h)"

definition kind_on :: "day_rules \<Rightarrow> day \<Rightarrow> gostring" where
  "kind_on r x = (case dr_absent r x of None \<Rightarrow> [] | Some a \<Rightarrow> ab_kind a)"

definition holiday_on :: "day_rules \<Rightarrow> day \<Rightarrow> gostring \<times> bool" where
  "holiday_on r x = (case dr_holidays r x of None \<Rightarrow> ([], False) | Some h \<Rightarrow> (h_name h, h_substitute h))"

fun per_day :: "timesheet list \<Rightarrow> (day \<times> float64) list \<Rightarrow> (day \<times> float64) list" where
  "per_day [] m = m"
| "per_day (t # ts) m =
     (let x = CalendarDay (ts_Date t)
      in per_day ts (AList.update x (fadd (booked_on m x) (ts_DurationHours t)) m))"

definition latest :: "day \<Rightarrow> day \<Rightarrow> day" where "latest a b = (if a > b then a else b)"
definition earliest :: "day \<Rightarrow> day \<Rightarrow> day" where "earliest a b = (if a < b then a else b)"

definition candidates :: "day_rules \<Rightarrow> (day \<times> float64) list \<Rightarrow> day \<Rightarrow> day \<Rightarrow> day list" where
  "candidates r m first until = remdups (map fst m @
     (case dr_from r of None \<Rightarrow> [] | Some from \<Rightarrow> [latest first from..earliest until (dr_today r)]))"

definition overtime_day_of :: "day_rules \<Rightarrow> (day \<times> float64) list \<Rightarrow> day \<Rightarrow> overtime_day" where
  "overtime_day_of r m x =
     (let booked = booked_on m x; target = fst (rules_of r x booked)
      in \<lparr>od_Date = x, od_Booked = settled booked, od_Target = target, od_Balance = settled (fsub booked target),
          od_Absence = kind_on r x, od_Holiday = fst (holiday_on r x), od_HolidaySubstitute = snd (holiday_on r x)\<rparr>)"

definition counted_days :: "day_rules \<Rightarrow> (day \<times> float64) list \<Rightarrow> day \<Rightarrow> day \<Rightarrow> overtime_day list" where
  "counted_days r m first until =
     sort_by (by_key od_Date) (map (overtime_day_of r m)
       (filter (\<lambda>x. snd (rules_of r x (booked_on m x))) (candidates r m first until)))"

definition total_of :: "(overtime_day \<Rightarrow> float64) \<Rightarrow> overtime_day list \<Rightarrow> float64" where
  "total_of f days = settled (foldl (\<lambda>acc x. fadd acc (f x)) (Fin 0) days)"

definition Balance :: "env \<Rightarrow> calendar \<Rightarrow> uint \<Rightarrow> gotime \<Rightarrow> gotime \<Rightarrow> db \<Rightarrow> overtime_balance result" where
  "Balance e cal userID from to d =
     (if userID = 0 then Inl (InvalidFields [''userId''])
      else if ns to < ns from then Inl rangeInverted
      else bind_res (user_GetByID (db_roles d) userID (db_users d)) (\<lambda>user.
           bind_res (ts_GetByFilter (lower e) (over_days userID (startOfDay from) (startOfDay to)) (db_timesheets d)) (\<lambda>entries.
           let m = per_day entries []; first = CalendarDay from; until = CalendarDay to
           in bind_res (rulesFor e cal user first until d) (\<lambda>rules.
                let days = counted_days rules m first until
                in Inr \<lparr>ob_UserID = us_ID user, ob_UserName = us_Name user, ob_From = startOfDay from,
                        ob_To = startOfDay to, ob_DailyTarget = EffectiveDailyTarget user, ob_Days = days,
                        ob_EveryDayCountsFrom = us_EveryDayCountsFrom user,
                        ob_TotalBooked = total_of od_Booked days, ob_TotalTarget = total_of od_Target days,
                        ob_TotalBalance = total_of od_Balance days\<rparr>))))"

definition day_view_of :: "day_rules \<Rightarrow> (day \<times> float64) list \<Rightarrow> day \<Rightarrow> day_view" where
  "day_view_of r m x =
     (let booked = booked_on m x; (target, counts) = rules_of r x booked
      in \<lparr>dv_Date = x, dv_Booked = settled booked, dv_Target = target, dv_Absence = kind_on r x,
          dv_Holiday = fst (holiday_on r x), dv_HolidaySubstitute = snd (holiday_on r x), dv_Counts = counts\<rparr>)"

definition Days :: "env \<Rightarrow> calendar \<Rightarrow> uint \<Rightarrow> gotime \<Rightarrow> gotime \<Rightarrow> db \<Rightarrow> day_view list result" where
  "Days e cal userID from to d =
     (if userID = 0 then Inl (InvalidFields [''userId''])
      else bind_res (dayRange from to) (\<lambda>(first, until).
           bind_res (user_GetByID (db_roles d) userID (db_users d)) (\<lambda>user.
           bind_res (ts_GetByFilter (lower e) (over_days userID (midnight first) (midnight until)) (db_timesheets d)) (\<lambda>entries.
           bind_res (rulesFor e cal user first until d) (\<lambda>rules.
             Inr (map (day_view_of rules (per_day entries [])) [first..until]))))))"

section \<open>Banners\<close>

record running_balance =
  rb_Hours :: float64
  rb_Since :: "day option"
  rb_Upper :: "float64 option"
  rb_Lower :: "float64 option"
  rb_Outside :: gostring

record notices =
  nt_Balance :: running_balance
  nt_UnbookedDay :: "day option"

definition beginning :: "user \<Rightarrow> db \<Rightarrow> day \<times> bool" where
  "beginning user d =
     (let (first, found) = ts_FirstDay (us_ID user) (db_timesheets d)
      in case us_EveryDayCountsFrom user of
           Some from \<Rightarrow> if \<not> found \<or> from < first then (from, True) else (first, found)
         | None \<Rightarrow> (first, found))"

definition reminderLookBack :: int where "reminderLookBack = 14"

text \<open>The first of the days that was expected to be worked decides.\<close>

fun look_back :: "(day \<Rightarrow> bool) \<Rightarrow> (day \<Rightarrow> uint) \<Rightarrow> day list \<Rightarrow> day option" where
  "look_back expects bookings [] = None"
| "look_back expects bookings (x # xs) =
     (if \<not> expects x then look_back expects bookings xs
      else if bookings x > 0 then None else Some x)"

definition unbookedDay :: "env \<Rightarrow> calendar \<Rightarrow> user \<Rightarrow> db \<Rightarrow> day option result" where
  "unbookedDay e cal user d =
     (if us_SkipUnbookedReminder user then Inr None
      else let (begins, found) = beginning user d
           in if \<not> found then Inr None
              else let today = todayOf e cal user; until = today - 1; first = today - reminderLookBack
                   in bind_res (rulesFor e cal user first until d) (\<lambda>rules.
                        Inr (look_back (expectsWork rules)
                          (\<lambda>x. ts_CountByFilter (lower e) (over_days (us_ID user) (midnight x) (midnight x)) (db_timesheets d))
                          (rev [latest first begins..until]))))"

definition running_balance_of :: "env \<Rightarrow> calendar \<Rightarrow> user \<Rightarrow> db \<Rightarrow> running_balance result" where
  "running_balance_of e cal user d =
     (let nothing = \<lparr>rb_Hours = Fin 0, rb_Since = None, rb_Upper = us_BalanceUpperLimit user,
                     rb_Lower = us_BalanceLowerLimit user, rb_Outside = []\<rparr>;
          (first, found) = beginning user d; today = todayOf e cal user
      in if \<not> found \<or> first > today then Inr nothing
         else bind_res (Balance e cal (us_ID user) (midnight first) (midnight today) d) (\<lambda>balance.
                Inr (nothing\<lparr>rb_Hours := ob_TotalBalance balance, rb_Since := Some first,
                             rb_Outside := BalanceOutside user (ob_TotalBalance balance)\<rparr>)))"

definition Notices :: "env \<Rightarrow> calendar \<Rightarrow> uint \<Rightarrow> db \<Rightarrow> notices result" where
  "Notices e cal userID d =
     bind_res (user_GetByID (db_roles d) userID (db_users d)) (\<lambda>user.
     bind_res (running_balance_of e cal user d) (\<lambda>balance.
     bind_res (unbookedDay e cal user d) (\<lambda>unbooked.
     Inr \<lparr>nt_Balance = balance, nt_UnbookedDay = unbooked\<rparr>)))"

definition maxBalanceBound :: float64 where "maxBalanceBound = Fin 10000"

definition SetBalanceLimits :: "uint \<Rightarrow> float64 option \<Rightarrow> float64 option \<Rightarrow> db \<Rightarrow> unit result \<times> db" where
  "SetBalanceLimits userID highest lowest d =
     (if (case highest of None \<Rightarrow> False | Some u \<Rightarrow> fless u (Fin 0) \<or> fless maxBalanceBound u)
      then (Inl (InvalidFields [''upperBound'']), d)
      else if (case lowest of None \<Rightarrow> False | Some l \<Rightarrow> fless (Fin 0) l \<or> fless l (fneg maxBalanceBound))
      then (Inl (InvalidFields [''lowerBound'']), d)
      else let (res, users) = user_SetBalanceLimits userID highest lowest (db_users d)
           in (res, d\<lparr>db_users := users\<rparr>))"

end
