(* ===== verification/Diary.thy ===== *)
theory Diary
  imports Overtime Sample
begin

text \<open>
  Days away, leave, planned weeks and working days are kept in order: a range of days is at most 371
  long, recording days away writes exactly the days that would have been worked, and whatever is
  recorded and taken back, every record stays within its rules (\<open>diary_ok\<close>) while nothing else
  of the repositories changes.
\<close>

section \<open>Ranges\<close>

lemma fl_0 [simp]: "fl 0 = Fin 0"
  using fl_of_int [of 0] by simp

lemma fl_between:
  assumes "of_int a \<le> x" "x \<le> of_int b" "\<bar>a\<bar> < 2 ^ 53" "\<bar>b\<bar> < 2 ^ 53"
  obtains y where "fl x = Fin y" "of_int a \<le> y" "y \<le> of_int b"
proof -
  have r: "of_int a \<le> rnd x" "rnd x \<le> of_int b"
    using rnd_mono [OF assms(1)] rnd_mono [OF assms(2)] rnd_of_int [of a] rnd_of_int [of b] assms(3,4) by simp_all
  have "\<bar>of_int a\<bar> < (2 :: rat) ^ 53" "\<bar>of_int b\<bar> < (2 :: rat) ^ 53"
    using assms(3,4) by (metis of_int_abs of_int_less_iff of_int_numeral of_int_power)+
  then have "\<bar>rnd x\<bar> < 2 ^ 53" using r by linarith
  also have "(2 :: rat) ^ 53 < 2 ^ 1024" by (rule power_strict_increasing) simp_all
  finally show thesis using that [OF fl_small] r by simp
qed

lemma whole_hours_exact: "\<bar>n\<bar> < 2 ^ 53 \<Longrightarrow> 0 \<le> n \<Longrightarrow> duration_hours (n * hour_ns) = Fin (of_int n)"
  by (simp add: duration_hours_def tdiv_nonneg tmod_nonneg hour_ns_def float_of_int_def fl_of_int)

lemma day_span_short:
  assumes "from \<le> to" "to - from \<le> 106751"
  shows "day_span from to = to - from + 1"
proof -
  let ?n = "to - from"
  have "time_sub (midnight to) (midnight from) = 24 * ?n * hour_ns"
    using assms by (simp add: time_sub_def min_duration_def max_duration_def hour_ns_def algebra_simps)
  then have "duration_hours (time_sub (midnight to) (midnight from)) = Fin (of_int (24 * ?n))"
    using assms by (simp only:) (rule whole_hours_exact, simp_all)
  moreover have "fdiv (Fin (of_int (24 * ?n))) (Fin 24) = Fin (of_int ?n)"
  proof -
    have "(of_int (24 * ?n) :: rat) / 24 = of_int ?n" by simp
    then show ?thesis using assms fl_of_int [of ?n] by (simp only: fdiv.simps) simp
  qed
  ultimately show ?thesis
    using assms unfolding day_span_def by (simp only: to_int64.simps) (simp add: Let_def)
qed

lemma day_span_long:
  assumes "b - a > 106751"
  shows "day_span a b > 371"
proof -
  have "time_sub (midnight b) (midnight a) = max_duration"
    using assms by (simp add: time_sub_def min_duration_def max_duration_def algebra_simps)
  moreover have "tdiv max_duration hour_ns = 2562047" "tmod max_duration hour_ns = 2836854775807"
    by (simp_all add: max_duration_def hour_ns_def tdiv_nonneg tmod_nonneg)
  ultimately have "duration_hours (time_sub (midnight b) (midnight a)) = 
     fadd (fl (of_int 2562047)) (fdiv (fl (of_int 2836854775807)) (Fin (3600 * 10 ^ 9)))"
    by (simp only: duration_hours_def float_of_int_def)
  also have "\<dots> = fadd (Fin 2562047) (fl (2836854775807 / 3600000000000))"
    using fl_of_int [of 2562047] fl_of_int [of 2836854775807] by simp
  finally have h: "duration_hours (time_sub (midnight b) (midnight a)) = fadd (Fin 2562047) (fl (2836854775807 / 3600000000000))" .
  obtain x where x: "fl (2836854775807 / 3600000000000) = Fin x" "0 \<le> x" "x \<le> 1"
    by (rule fl_between [of 0 "2836854775807 / 3600000000000" 1]) simp_all
  obtain y where y: "fl (2562047 + x) = Fin y" "2562047 \<le> y" "y \<le> 2562048"
    by (rule fl_between [of 2562047 "2562047 + x" 2562048]) (use x in simp_all)
  obtain z where z: "fl (y / 24) = Fin z" "106751 \<le> z" "z \<le> 106752"
    by (rule fl_between [of 106751 "y / 24" 106752]) (use y in simp_all)
  define n where "n = \<lfloor>z\<rfloor>"
  have f: "\<not> z < 0" "106751 \<le> n" "n \<le> 106752" unfolding n_def using z by linarith+
  then have "- (2 ^ 63) \<le> n" "n < 2 ^ 63" by simp_all
  then have "to_int64 (Fin z) = Some n" using f(1) by (simp only: to_int64.simps Let_def n_def [symmetric] if_False if_True simp_thms)
  then show ?thesis using f(2) by (simp only: day_span_def h x(1) y(1) z(1) fadd.simps fdiv.simps) simp
qed

lemma dayRange_Inr: "dayRange from to = Inr (a, b) \<longleftrightarrow>
    a = CalendarDay from \<and> b = CalendarDay to \<and> a \<le> b \<and> b - a \<le> 370"
proof -
  have "day_span (CalendarDay from) (CalendarDay to) \<le> 371 \<longleftrightarrow> CalendarDay to - CalendarDay from \<le> 370"
    if "CalendarDay from \<le> CalendarDay to"
    using that day_span_short [of "CalendarDay from" "CalendarDay to"] day_span_long [of "CalendarDay to" "CalendarDay from"]
    by linarith
  then show ?thesis by (auto simp: dayRange_def Let_def MaxDays_def)
qed


lemma dayRange_Inl: "dayRange from to = Inl err \<Longrightarrow> err_kind err = KindInvalid"
  by (auto simp: dayRange_def Let_def rangeInverted_def split: if_splits)

section \<open>Lists sorted by a key\<close>

lemma filter_insert_by:
  assumes "sorted_wrt (by_key f) ys"
  shows "filter P (insert_by (by_key f) x ys) = (if P x then insert_by (by_key f) x (filter P ys) else filter P ys)"
  using assms
proof (induction ys)
  case (Cons y ys)
  have "insert_by (by_key f) x zs = x # zs" if "by_key f x y" "\<forall>z \<in> set zs. by_key f y z" for zs
    using that by (cases zs) (auto simp: by_key_def)
  moreover have "\<forall>z \<in> set (filter P ys). by_key f y z" using Cons.prems by simp
  ultimately show ?case using Cons by auto
qed simp

lemma filter_sort_by: "filter P (sort_by (by_key f) xs) = sort_by (by_key f) (filter P xs)"
  by (induction xs) (auto simp: filter_insert_by key_order.sorted_sort)

lemma sorted_map_unique:
  fixes f :: "'a \<Rightarrow> int"
  assumes "sorted_wrt (<) (map f xs)" "sorted_wrt (<) (map f ys)" "set xs = set ys"
  shows "xs = ys"
proof -
  have "map f xs = map f ys"
    using assms by (intro sorted_distinct_set_unique) (auto simp: strict_sorted_iff)
  moreover have "inj_on f (set xs \<union> set ys)"
    using assms by (simp add: strict_sorted_iff distinct_map)
  ultimately show ?thesis by (simp add: map_inj_on)
qed

section \<open>Working days\<close>

text \<open>The installation's choice of holidays, and whether somebody would work on a day.\<close>

definition installation_place :: "calendar \<Rightarrow> gostring result" where
  "installation_place cal = (case cal_place cal of None \<Rightarrow> Inr [] | Some place \<Rightarrow> place)"

definition would_work :: "gostring \<Rightarrow> db \<Rightarrow> user \<Rightarrow> day \<Rightarrow> bool" where
  "would_work place d user x \<longleftrightarrow>
     HolidaysBetween (HolidayPlaceOf (us_HolidayPlace user) place) x x x = None
     \<and> \<not> fle (TargetOn x (schedule_ForUser (us_ID user) (db_schedules d)) (week_before user)) (Fin 0)"

lemma HolidaysBetween_local: "a \<le> x \<Longrightarrow> x \<le> b \<Longrightarrow> HolidaysBetween place a b x = HolidaysBetween place x x x"
  unfolding HolidaysBetween_list by simp

lemma holidaysOf_Inr: "holidaysOf cal user a b = Inr h \<longleftrightarrow>
    (\<exists>place. installation_place cal = Inr place \<and> h = HolidaysBetween (HolidayPlaceOf (us_HolidayPlace user) place) a b)"
  by (auto simp: holidaysOf_def installation_place_def bind_res_Inr)

lemma account_at:
  assumes "db_valid d" "user_GetByID (db_roles d) u (db_users d) = Inr user"
  shows "us_ID user = u" "u \<noteq> 0" "user_at d u \<noteq> None"
  using assms known_user [OF assms(1), of u]
  by (auto simp: user_GetByID_Inr db_valid_def users_keyed_def)

section \<open>Recording days away\<close>

abbreviation absence_on :: "db \<Rightarrow> uint \<Rightarrow> day \<Rightarrow> absence option" where
  "absence_on d u x \<equiv> dated_find absence_key u x (db_absences d)"

lemma find_absence_Save:
  assumes "distinct (map absence_key as)"
  shows "dated_find absence_key u x (absence_Save as r) =
    (case List.find (\<lambda>a. absence_key a = (u, x)) as of None \<Rightarrow> dated_find absence_key u x r | Some a \<Rightarrow> Some a)"
  using assms
proof (induction as arbitrary: r)
  case (Cons a as)
  have "List.find (\<lambda>b. absence_key b = (u, x)) as = None" if "absence_key a = (u, x)"
    using Cons.prems that by (auto simp: find_None_iff image_iff)
  then show ?case using Cons by (auto simp: dated.find_save split: option.split)
qed simp

lemma recorded_absences_Inr:
  assumes "recorded_absences cal u from to kind d = Inr as" "db_valid d"
  shows "\<exists>user place. user_GetByID (db_roles d) u (db_users d) = Inr user \<and> installation_place cal = Inr place
    \<and> ValidAbsenceKind kind \<and> OnTheCalendar from \<and> OnTheCalendar to
    \<and> CalendarDay to - CalendarDay from \<le> 370 \<and> as \<noteq> []
    \<and> as = map (\<lambda>x. \<lparr>ab_user = u, ab_day = x, ab_kind = kind\<rparr>)
        (filter (would_work place d user) [CalendarDay from..CalendarDay to])"
proof -
  let ?f = "CalendarDay from" and ?t = "CalendarDay to"
  have refused: "refuse_fields (field_if (\<not> OnTheCalendar from) ''from'' @ field_if (\<not> OnTheCalendar to) ''to''
      @ field_if (\<not> ValidAbsenceKind kind) ''kind'') = Inr ()"
    using assms(1) unfolding recorded_absences_def bind_res_unit by (rule conjunct1)
  then have checks: "OnTheCalendar from" "OnTheCalendar to" "ValidAbsenceKind kind" by auto
  note g = assms(1) [unfolded recorded_absences_def refused bind_res_simps]
  have r: "dayRange from to = Inr (?f, ?t)" "?t - ?f \<le> 370"
    using g by (cases "dayRange from to"; force simp: dayRange_Inr)+
  note g = g [unfolded r(1) bind_res_simps prod.case]
  obtain user where u: "user_GetByID (db_roles d) u (db_users d) = Inr user"
    using g by (cases "user_GetByID (db_roles d) u (db_users d)") simp_all
  note g = g [unfolded u bind_res_simps Let_def]
  obtain h where h: "holidaysOf cal user ?f ?t = Inr h"
    using g by (cases "holidaysOf cal user ?f ?t") simp_all
  note g = g [unfolded h bind_res_simps]
  obtain place where p: "installation_place cal = Inr place" "h = HolidaysBetween (HolidayPlaceOf (us_HolidayPlace user) place) ?f ?t"
    using h by (auto simp: holidaysOf_Inr)
  have w: "working_days h (schedule_ForUser u (db_schedules d)) (week_before user) ?f ?t
      = filter (would_work place d user) [?f..?t]"
    unfolding working_days_def would_work_def account_at(1) [OF assms(2) u] p(2)
    by (rule filter_cong) (simp_all add: HolidaysBetween_local [of ?f _ ?t])
  have "as = map (\<lambda>x. \<lparr>ab_user = u, ab_day = x, ab_kind = kind\<rparr>) (filter (would_work place d user) [?f..?t]) \<and> as \<noteq> []"
    using g unfolding w by (auto split: if_splits)
  then show ?thesis using checks u p(1) r(2) by blast
qed

text \<open>Recording days away writes exactly the days of the range somebody would have worked - their
  week asks hours of them and they are no holiday where they work - with the kind given, in place of
  whatever stood there; every other day and everybody else's keep what they had, nothing but the
  absences changes, and a refusal changes nothing at all.\<close>

lemma record_absences:
  assumes "db_valid d" "RecordAbsence cal u from to kind d = (res, d')"
  shows "case res of
      Inl err \<Rightarrow> d' = d
    | Inr as \<Rightarrow> \<exists>user place. user_GetByID (db_roles d) u (db_users d) = Inr user
        \<and> installation_place cal = Inr place \<and> ValidAbsenceKind kind \<and> as \<noteq> []
        \<and> map ab_day as = filter (would_work place d user) [CalendarDay from..CalendarDay to]
        \<and> (\<forall>v x. absence_on d' v x =
             (if v = u \<and> x \<in> set (map ab_day as) then Some \<lparr>ab_user = u, ab_day = x, ab_kind = kind\<rparr>
              else absence_on d v x))
        \<and> d'\<lparr>db_absences := db_absences d\<rparr> = d"
proof (cases res)
  case (Inl err)
  then show ?thesis using assms(2) by (auto simp: RecordAbsence_def split: sum.splits)
next
  case (Inr as)
  let ?mk = "\<lambda>x. \<lparr>ab_user = u, ab_day = x, ab_kind = kind\<rparr>"
  have r: "recorded_absences cal u from to kind d = Inr as" "d\<lparr>db_absences := absence_Save as (db_absences d)\<rparr> = d'"
    using assms(2) Inr by (auto simp: RecordAbsence_def split: sum.splits)
  obtain user place where f: "user_GetByID (db_roles d) u (db_users d) = Inr user" "installation_place cal = Inr place"
    "ValidAbsenceKind kind" "as \<noteq> []" "as = map ?mk (filter (would_work place d user) [CalendarDay from..CalendarDay to])"
    using recorded_absences_Inr [OF r(1) assms(1)] by blast
  let ?xs = "filter (would_work place d user) [CalendarDay from..CalendarDay to]"
  have days: "map ab_day as = ?xs" using f(5) by (simp add: comp_def)
  have keys: "distinct (map absence_key as)"
    unfolding f(5) by (simp add: distinct_map inj_on_def absence_key_def)
  have found: "List.find (\<lambda>a. absence_key a = (v, x)) (map ?mk xs) = (if v = u \<and> x \<in> set xs then Some (?mk x) else None)" for v x xs
    by (induction xs) (auto simp: absence_key_def)
  have "absence_on d' v x = (if v = u \<and> x \<in> set ?xs then Some (?mk x) else absence_on d v x)" for v x
    unfolding r(2) [symmetric] by (simp add: find_absence_Save [OF keys]) (simp add: f(5) found)
  moreover have "d'\<lparr>db_absences := db_absences d\<rparr> = d" unfolding r(2) [symmetric] by simp
  ultimately show ?thesis unfolding Inr sum.case days using f(1-4) days by (auto intro!: exI)
qed

section \<open>What every diary holds\<close>

definition workday_ok :: "work_day \<Rightarrow> bool" where
  "workday_ok w \<longleftrightarrow> 0 \<le> wd_start w \<and> wd_start w < wd_end w \<and> wd_end w \<le> 1440
     \<and> 0 \<le> wd_break w \<and> wd_break w < wd_end w - wd_start w"

definition absence_ok :: "absence \<Rightarrow> bool" where
  "absence_ok a \<longleftrightarrow> ValidAbsenceKind (ab_kind a)"

definition schedule_ok :: "work_schedule \<Rightarrow> bool" where
  "schedule_ok s \<longleftrightarrow> length (ws_hours s) = 7
     \<and> (\<forall>h \<in> set (ws_hours s). \<exists>x. h = Fin x \<and> 0 \<le> x \<and> x \<le> 24)"

definition entitlement_ok :: "vacation_entitlement \<Rightarrow> bool" where
  "entitlement_ok e \<longleftrightarrow> 1900 \<le> ve_from_year e \<and> ve_from_year e \<le> 9999
     \<and> (\<exists>x. ve_days e = Fin x \<and> 0 \<le> x \<and> x \<le> 366)"

definition diary_ok :: "db \<Rightarrow> bool" where
  "diary_ok d \<longleftrightarrow> (\<forall>w \<in> set (db_workdays d). workday_ok w) \<and> (\<forall>a \<in> set (db_absences d). absence_ok a)
     \<and> (\<forall>s \<in> set (db_schedules d). schedule_ok s) \<and> (\<forall>e \<in> set (db_entitlements d). entitlement_ok e)"

text \<open>A week is an array of seven hours.\<close>

inductive diary_step :: "db \<Rightarrow> db \<Rightarrow> bool" where
  Away: "RecordAbsence cal u from to kind d = (res, d') \<Longrightarrow> diary_step d d'"
| Back: "RemoveAbsence u x d = (res, d') \<Longrightarrow> diary_step d d'"
| Given: "Entitle u year days d = (res, d') \<Longrightarrow> diary_step d d'"
| Withdrawn: "Withdraw u year d = (res, d') \<Longrightarrow> diary_step d d'"
| Planned: "Plan u t hours d = (res, d') \<Longrightarrow> length hours = 7 \<Longrightarrow> diary_step d d'"
| Unplanned: "RemovePlan u t d = (res, d') \<Longrightarrow> diary_step d d'"
| Worked: "RecordWorkDay t w d = (res, d') \<Longrightarrow> diary_step d d'"
| Unworked: "RemoveWorkDay u t d = (res, d') \<Longrightarrow> diary_step d d'"

lemma set_dated_save: "set (dated_save key x xs) \<subseteq> insert x (set xs)"
  by (induction xs) auto

lemma set_dated_delete: "set (snd (dated_delete key u i xs)) \<subseteq> set xs"
  by (induction xs) (auto split: prod.splits)

lemma set_absence_Save: "set (absence_Save as r) \<subseteq> set as \<union> set r"
  using set_dated_save [of absence_key] by (induction as r rule: absence_Save.induct) fastforce+

text \<open>The four lists, and everything else of the repositories.\<close>

definition elsewhere_same :: "db \<Rightarrow> db \<Rightarrow> bool" where
  "elsewhere_same d d' \<longleftrightarrow>
     d'\<lparr>db_absences := db_absences d, db_workdays := db_workdays d, db_schedules := db_schedules d,
       db_entitlements := db_entitlements d\<rparr> = d"

definition diary_valid :: "db \<Rightarrow> bool" where
  "diary_valid d \<longleftrightarrow> dated_valid absence_key (db_absences d) \<and> dated_valid workday_key (db_workdays d)
     \<and> dated_valid schedule_key (db_schedules d) \<and> dated_valid entitlement_key (db_entitlements d)"

lemma dated_keeps:
  assumes "dated_valid key xs"
  shows "dated_valid key (snd (dated_delete key u i xs))"
  using dated.valid_delete [OF assms] .

lemma diary_okI:
  assumes "diary_valid d" "diary_ok d"
    and "diary_step d d'"
  shows "diary_valid d' \<and> diary_ok d' \<and> elsewhere_same d d'"
  using assms(3,1,2)
proof (cases rule: diary_step.cases)
  case (Away cal u "from" to kind res)
  then show ?thesis
  proof (cases "recorded_absences cal u from to kind d")
    case (Inr as)
    have "\<forall>a \<in> set as. absence_ok a"
      using Inr unfolding recorded_absences_def Let_def
      by (auto simp: bind_res_Inr absence_ok_def split: if_splits)
    then show ?thesis using Away Inr assms(1,2) set_absence_Save [of as "db_absences d"]
      by (auto simp: RecordAbsence_def diary_valid_def diary_ok_def elsewhere_same_def absence_Save_valid)
  qed (use assms in \<open>simp add: RecordAbsence_def elsewhere_same_def\<close>)
next
  case (Back u x res)
  then show ?thesis using assms(1,2) set_dated_delete [of absence_key u "CalendarDay x" "db_absences d"]
    by (auto simp: RemoveAbsence_def Let_def absence_Delete_def diary_valid_def diary_ok_def elsewhere_same_def
        dated_keeps case_prod_beta split: if_splits)
next
  case (Given u year days res)
  have m: "float_of_int MaxEntitlementDays = Fin 366"
    using fl_of_int [of 366] by (simp add: MaxEntitlementDays_def float_of_int_def)
  show ?thesis
  proof (cases "d' = d")
    case False
    then have w: "d' = d\<lparr>db_entitlements := entitlement_Save \<lparr>ve_user = u, ve_from_year = year, ve_days = days\<rparr> (db_entitlements d)\<rparr>"
      "1900 \<le> year" "year \<le> 9999" "fle (Fin 0) days" "fle days (Fin 366)"
      using Given unfolding Entitle_def m by (auto simp: bind_res_Inr split: sum.splits)
    from w(4,5) obtain x where "days = Fin x" "0 \<le> x" "x \<le> 366" by (rule between_finite)
    then have "entitlement_ok \<lparr>ve_user = u, ve_from_year = year, ve_days = days\<rparr>"
      using w(2,3) by (simp add: entitlement_ok_def)
    then show ?thesis
      using assms(1,2) set_dated_save [of entitlement_key "\<lparr>ve_user = u, ve_from_year = year, ve_days = days\<rparr>" "db_entitlements d"]
      unfolding w(1) by (auto simp: entitlement_Save_def diary_valid_def diary_ok_def elsewhere_same_def dated_valid_save)
  qed (use assms in \<open>simp add: elsewhere_same_def\<close>)
next
  case (Withdrawn u year res)
  then show ?thesis using assms(1,2) set_dated_delete [of entitlement_key u year "db_entitlements d"]
    by (auto simp: Withdraw_def Let_def entitlement_Delete_def diary_valid_def diary_ok_def elsewhere_same_def
        dated_keeps case_prod_beta split: if_splits)
next
  case (Planned u t hours res)
  let ?s = "\<lparr>ws_user = u, ws_from = CalendarDay t, ws_hours = hours\<rparr>"
  show ?thesis
  proof (cases "d' = d")
    case False
    then have w: "d' = d\<lparr>db_schedules := schedule_Save ?s (db_schedules d)\<rparr>" "Valid hours"
      using Planned(1) unfolding Plan_def by (auto simp: bind_res_Inr Let_def split: sum.splits)
    have "\<exists>x. h = Fin x \<and> 0 \<le> x \<and> x \<le> 24" if "h \<in> set hours" for h
    proof -
      have "fle (Fin 0) h" "fle h (Fin 24)" using w(2) that by (auto simp: Valid_def list_all_iff HoursPerDay_def)
      then show ?thesis by (rule between_finite) blast
    qed
    then have "schedule_ok ?s" using Planned(2) by (simp add: schedule_ok_def)
    then show ?thesis using assms(1,2) set_dated_save [of schedule_key ?s "db_schedules d"]
      unfolding w(1) by (auto simp: schedule_Save_def diary_valid_def diary_ok_def elsewhere_same_def dated_valid_save)
  qed (use assms in \<open>simp add: elsewhere_same_def\<close>)
next
  case (Unplanned u t res)
  then show ?thesis using assms(1,2) set_dated_delete [of schedule_key u "CalendarDay t" "db_schedules d"]
    by (auto simp: RemovePlan_def Let_def schedule_Delete_def diary_valid_def diary_ok_def elsewhere_same_def
        dated_keeps case_prod_beta split: if_splits)
next
  case (Worked t w res)
  then show ?thesis using assms(1,2) set_dated_save [of workday_key "w\<lparr>wd_day := CalendarDay t\<rparr>" "db_workdays d"]
    by (auto simp: RecordWorkDay_def workday_Save_def diary_valid_def diary_ok_def elsewhere_same_def
        dated_valid_save workday_ok_def MinutesPerDay_def split: if_splits)
next
  case (Unworked u t res)
  then show ?thesis using assms(1,2) set_dated_delete [of workday_key u "CalendarDay t" "db_workdays d"]
    by (auto simp: RemoveWorkDay_def Let_def workday_Delete_def diary_valid_def diary_ok_def elsewhere_same_def
        dated_keeps case_prod_beta split: if_splits)
qed

lemma diary_run:
  assumes "diary_valid d" "diary_ok d" "diary_step\<^sup>*\<^sup>* d d'"
  shows "diary_valid d' \<and> diary_ok d' \<and> elsewhere_same d d'"
  using assms(3)
proof (induction rule: rtranclp_induct)
  case (step y z)
  then have "diary_valid z \<and> diary_ok z \<and> elsewhere_same y z" using diary_okI by blast
  moreover have "elsewhere_same d z" if "elsewhere_same d y" "elsewhere_same y z"
    using that unfolding elsewhere_same_def by (cases d, cases y, cases z) simp
  ultimately show ?case using step.IH by blast
qed (use assms in \<open>simp add: elsewhere_same_def\<close>)

lemma diary_db_valid: "db_valid d \<Longrightarrow> diary_valid d' \<Longrightarrow> elsewhere_same d d' \<Longrightarrow> db_valid d'"
  unfolding elsewhere_same_def by (cases d, cases d') (simp add: db_valid_def diary_valid_def)

text \<open>C26: however days away, leave, planned weeks and working days are recorded and taken back, every
  recorded day begins before it finishes inside its day with a break shorter than the time between -
  so its worked time is positive and at most a day - every absence has a kind the program knows,
  every planned week asks between 0 and 24 hours of each of its seven days, and every entitlement
  lies between 0 and 366 days of a year from 1900 to 9999; accounts, projects and booked time are
  never touched.\<close>

theorem diary_kept:
  assumes "db_valid d" "diary_ok d" "diary_step\<^sup>*\<^sup>* d d'"
  shows "db_valid d' \<and> diary_ok d' \<and> elsewhere_same d d'
    \<and> (\<forall>w \<in> set (db_workdays d'). 0 < WorkedMinutes w \<and> WorkedMinutes w \<le> 1440)
    \<and> (\<forall>s \<in> set (db_schedules d'). \<forall>x. fle (Fin 0) (On (ws_hours s) x) \<and> fle (On (ws_hours s) x) HoursPerDay)"
proof -
  have "diary_valid d" using assms(1) by (simp add: db_valid_def diary_valid_def)
  from diary_run [OF this assms(2,3)]
  have r: "diary_valid d'" "diary_ok d'" "elsewhere_same d d'" by blast+
  moreover have "fle (Fin 0) (On (ws_hours s) x) \<and> fle (On (ws_hours s) x) HoursPerDay"
    if "s \<in> set (db_schedules d')" for s x
  proof -
    have "On (ws_hours s) x \<in> set (ws_hours s)" "schedule_ok s"
      using r(2) that weekday_index [of x] by (auto simp: diary_ok_def schedule_ok_def On_def nat_less_iff)
    then show ?thesis by (auto simp: schedule_ok_def HoursPerDay_def)
  qed
  ultimately show ?thesis
    using diary_db_valid [OF assms(1)] by (auto simp: diary_ok_def workday_ok_def WorkedMinutes_def)
qed

definition sample_workday :: work_day where
  "sample_workday = \<lparr>wd_user = 1, wd_day = 20000, wd_start = 480, wd_end = 1020, wd_break = 60\<rparr>"

theorem diary_kept_witness:
  "WorkedMinutes sample_workday = 480 \<and> db_valid (sample_db\<lparr>db_workdays := [sample_workday]\<rparr>)"
proof -
  have "RecordWorkDay (midnight 20000) sample_workday sample_db
      = (Inr (), sample_db\<lparr>db_workdays := [sample_workday]\<rparr>)"
    by (simp add: RecordWorkDay_def sample_workday_def is_zero_time_def zero_time_def OnTheCalendar_midnight
        MinutesPerDay_def workday_Save_def sample_db_def new_db_def)
  then have "diary_step\<^sup>*\<^sup>* sample_db (sample_db\<lparr>db_workdays := [sample_workday]\<rparr>)"
    by (intro r_into_rtranclp Worked)
  moreover have "diary_ok sample_db" by (simp add: diary_ok_def sample_db_def new_db_def)
  ultimately show ?thesis using diary_kept [OF sample_valid] by (simp add: WorkedMinutes_def sample_workday_def)
qed

declare One_nat_def [simp del]

definition sample_calendar :: calendar where
  "sample_calendar = \<lparr>cal_place = None, cal_today = None\<rparr>"

lemma no_place: "HolidaysBetween [] a b = Map.empty"
  by (rule ext) (simp add: HolidaysBetween_list HolidaysIn_def SplitHolidayPlace_def holidaysByCountry_def)

lemma sample_week: "weekday 20000 = 5" "weekday 20001 = 6" "weekday 20002 = 0"
  by (simp_all add: weekday_def)

lemma sample_recorded: "RecordAbsence sample_calendar 1 (midnight 20000) (midnight 20002) AbsenceVacation sample_db
   = (Inr [\<lparr>ab_user = 1, ab_day = 20000, ab_kind = AbsenceVacation\<rparr>],
      sample_db\<lparr>db_absences := [\<lparr>ab_user = 1, ab_day = 20000, ab_kind = AbsenceVacation\<rparr>]\<rparr>)"
proof -
  have r: "dayRange (midnight 20000) (midnight 20002) = Inr (20000, 20002)" by (simp add: dayRange_Inr)
  have u: "user_GetByID (db_roles sample_db) 1 (db_users sample_db) = Inr sample_user"
    by (simp add: user_GetByID_Inr sample_user_at withRoleName_def sample_user_def blank_user_def)
  have h: "holidaysOf sample_calendar sample_user 20000 20002 = Inr Map.empty"
    by (simp add: holidaysOf_def sample_calendar_def sample_user_def blank_user_def HolidayPlaceOf_def no_place NoHolidays_def)
  have s: "schedule_ForUser 1 (db_schedules sample_db) = []" "db_absences sample_db = []"
    by (simp_all add: schedule_ForUser_def dated_for_def sample_db_def new_db_def)
  have w: "working_days Map.empty [] (week_before sample_user) 20000 20002 = [20000]"
    by (simp add: working_days_def upto.simps TargetOn_def On_def sample_week week_before_def DefaultWeek_def
        EffectiveDailyTarget_def sample_user_def blank_user_def DefaultDailyTargetHours_def)
  have "recorded_absences sample_calendar 1 (midnight 20000) (midnight 20002) AbsenceVacation sample_db
      = Inr [\<lparr>ab_user = 1, ab_day = 20000, ab_kind = AbsenceVacation\<rparr>]"
    by (simp add: recorded_absences_def r u h s w OnTheCalendar_midnight ValidAbsenceKind_def absenceKinds_def refuse_fields_def)
  then show ?thesis by (simp add: RecordAbsence_def s)
qed

theorem record_absences_witness:
  "absence_on (snd (RecordAbsence sample_calendar 1 (midnight 20000) (midnight 20002) AbsenceVacation sample_db)) 1 20000
     = Some \<lparr>ab_user = 1, ab_day = 20000, ab_kind = AbsenceVacation\<rparr>"
proof -
  let ?a = "\<lparr>ab_user = 1, ab_day = 20000, ab_kind = AbsenceVacation\<rparr>"
  have "\<forall>v x. absence_on (sample_db\<lparr>db_absences := [?a]\<rparr>) v x =
      (if v = 1 \<and> x \<in> set (map ab_day [?a]) then Some \<lparr>ab_user = 1, ab_day = x, ab_kind = AbsenceVacation\<rparr>
       else absence_on sample_db v x)"
    using record_absences [OF sample_valid sample_recorded] unfolding sum.case by (elim exE conjE)
  then have "absence_on (sample_db\<lparr>db_absences := [?a]\<rparr>) 1 20000 = Some ?a" by simp
  then show ?thesis unfolding sample_recorded snd_conv .
qed

end
