(* ===== verification/OvertimeRules.thy ===== *)
theory OvertimeRules
  imports Diary
begin

text \<open>
  What the balance shows: why somebody was away stays with them, the days of a picture add up to the
  balance, and the reminder names the one day it should.
\<close>

section \<open>Why somebody was away\<close>

text \<open>Two kinds of absence that ask the same of a day.\<close>

definition same_effect :: "gostring \<Rightarrow> gostring \<Rightarrow> bool" where
  "same_effect k l \<longleftrightarrow> (k = AbsenceHalfVacation \<longleftrightarrow> l = AbsenceHalfVacation)
     \<and> (k = AbsenceFlexDay \<longleftrightarrow> l = AbsenceFlexDay) \<and> (k = [] \<longleftrightarrow> l = [])"

definition absence_alike :: "absence \<Rightarrow> absence \<Rightarrow> bool" where
  "absence_alike a b \<longleftrightarrow> absence_key a = absence_key b \<and> same_effect (ab_kind a) (ab_kind b)"

definition alike :: "db \<Rightarrow> db \<Rightarrow> bool" where
  "alike d d' \<longleftrightarrow> list_all2 absence_alike (db_absences d) (db_absences d')
     \<and> d'\<lparr>db_absences := db_absences d\<rparr> = d"

lemma alike_same:
  assumes "alike d d'"
  shows "db_schedules d' = db_schedules d" "db_users d' = db_users d" "db_roles d' = db_roles d"
    "db_timesheets d' = db_timesheets d"
proof -
  have "d'\<lparr>db_absences := db_absences d\<rparr> = d" using assms by (simp add: alike_def)
  from this [symmetric] show "db_schedules d' = db_schedules d" "db_users d' = db_users d" "db_roles d' = db_roles d"
    "db_timesheets d' = db_timesheets d" by (metis db.ext_inject db.surjective db.update_convs(6))+
qed

lemma insert_alike:
  assumes "list_all2 absence_alike xs ys" "absence_alike x y"
  shows "list_all2 absence_alike (insert_by (by_key (\<lambda>a. snd (absence_key a))) x xs)
           (insert_by (by_key (\<lambda>a. snd (absence_key a))) y ys)"
  using assms by (induction rule: list_all2_induct) (auto simp: by_key_def absence_alike_def)

lemma between_alike:
  assumes "list_all2 absence_alike xs ys"
  shows "list_all2 absence_alike (absence_Between u a b xs) (absence_Between u a b ys)"
  unfolding absence_Between_def dated_between_def using assms
proof (induction rule: list_all2_induct)
  case (Cons a as b bs)
  have "absence_key a = absence_key b" using Cons.hyps(1) by (simp add: absence_alike_def)
  then show ?case using Cons by (simp add: insert_alike)
qed simp

lemma absent_alike:
  assumes "list_all2 absence_alike xs ys"
  shows "rel_option absence_alike (absent_map xs x) (absent_map ys x)"
proof -
  have "rel_option absence_alike (foldl (\<lambda>m a. m(ab_day a \<mapsto> a)) m xs x) (foldl (\<lambda>m a. m(ab_day a \<mapsto> a)) n ys x)"
    if "\<And>x. rel_option absence_alike (m x) (n x)" for m n
    using assms that
  proof (induction arbitrary: m n rule: list_all2_induct)
    case (Cons a as b bs)
    have "ab_day a = ab_day b" using Cons.hyps(1) by (simp add: absence_alike_def absence_key_def)
    then show ?case using Cons by simp
  qed simp
  then show ?thesis by (simp add: absent_map_def)
qed

lemma rules_alike:
  assumes "rel_option absence_alike (dr_absent r x) (dr_absent r' x)" "r' = r\<lparr>dr_absent := m\<rparr>"
  shows "rules_of r' x h = rules_of r x h" "undisclosed (kind_on r' x) = undisclosed (kind_on r x)"
    "holiday_on r' x = holiday_on r x"
proof -
  have "Absence_Target a p = Absence_Target b p" if "absence_alike a b" for a b p
    using that by (auto simp: absence_alike_def same_effect_def Absence_Target_def)
  then show "rules_of r' x h = rules_of r x h"
    using assms by (auto simp: rules_of_def Let_def option_rel_Some1 option_rel_Some2 split: option.split)
  show "undisclosed (kind_on r' x) = undisclosed (kind_on r x)"
    using assms(1) by (auto simp: kind_on_def undisclosed_def absence_alike_def same_effect_def split: option.splits)
  show "holiday_on r' x = holiday_on r x" using assms(2) by (simp add: holiday_on_def)
qed


lemma rulesFor_alike:
  assumes "alike d d'"
  shows "rulesFor e cal user a b d' = map_sum id (\<lambda>r. r\<lparr>dr_absent := absent_map (absence_Between (us_ID user) a b (db_absences d'))\<rparr>)
           (rulesFor e cal user a b d)"
    "rulesFor e cal user a b d = Inr r \<Longrightarrow> rel_option absence_alike (dr_absent r x)
        (absent_map (absence_Between (us_ID user) a b (db_absences d')) x)"
proof -
  note s = alike_same(1) [OF assms]
  show "rulesFor e cal user a b d' = map_sum id (\<lambda>r. r\<lparr>dr_absent := absent_map (absence_Between (us_ID user) a b (db_absences d'))\<rparr>)
           (rulesFor e cal user a b d)"
    unfolding rulesFor_def s Let_def by (cases "holidaysOf cal user a b") simp_all
  show "rel_option absence_alike (dr_absent r x)
        (absent_map (absence_Between (us_ID user) a b (db_absences d')) x)" if "rulesFor e cal user a b d = Inr r"
    using that assms absent_alike [OF between_alike]
    by (auto simp: rulesFor_def Let_def bind_res_Inr alike_def)
qed

definition masked_day :: "day_view \<Rightarrow> day_view" where
  "masked_day v = v\<lparr>dv_Absence := undisclosed (dv_Absence v)\<rparr>"

definition masked_overtime :: "overtime_day \<Rightarrow> overtime_day" where
  "masked_overtime v = v\<lparr>od_Absence := undisclosed (od_Absence v)\<rparr>"

lemma day_alike:
  assumes "\<And>x. rel_option absence_alike (dr_absent r x) (dr_absent (r\<lparr>dr_absent := m\<rparr>) x)"
  shows "masked_day (day_view_of (r\<lparr>dr_absent := m\<rparr>) h x) = masked_day (day_view_of r h x)"
    "masked_overtime (overtime_day_of (r\<lparr>dr_absent := m\<rparr>) h x) = masked_overtime (overtime_day_of r h x)"
    "snd (rules_of (r\<lparr>dr_absent := m\<rparr>) x b) = snd (rules_of r x b)"
    "candidates (r\<lparr>dr_absent := m\<rparr>) h f t = candidates r h f t"
  using rules_alike [OF assms refl, of x] 
  by (simp_all add: masked_day_def masked_overtime_def day_view_of_def overtime_day_of_def Let_def candidates_def
      case_prod_beta split: option.split)

lemma map_insert_by:
  assumes "\<And>x. f (g x) = f x"
  shows "map g (insert_by (by_key f) x xs) = insert_by (by_key f) (g x) (map g xs)"
  by (induction xs) (auto simp: by_key_def assms)

lemma map_sort_by:
  assumes "\<And>x. f (g x) = f x"
  shows "map g (sort_by (by_key f) xs) = sort_by (by_key f) (map g xs)"
  by (induction xs) (simp_all add: map_insert_by assms)

lemma counted_alike:
  assumes "\<And>x. rel_option absence_alike (dr_absent r x) (dr_absent (r\<lparr>dr_absent := m\<rparr>) x)"
  shows "map masked_overtime (counted_days (r\<lparr>dr_absent := m\<rparr>) h f t) = map masked_overtime (counted_days r h f t)"
proof -
  have k: "od_Date (masked_overtime x) = od_Date x" for x by (simp add: masked_overtime_def)
  show ?thesis
    unfolding counted_days_def map_sort_by [of od_Date masked_overtime, OF k] map_map comp_def
      day_alike(2-4) [OF assms] by (rule refl)
qed

lemma total_masked:
  assumes "\<And>x. f (masked_overtime x) = f x" "map masked_overtime xs = map masked_overtime ys"
  shows "total_of f xs = total_of f ys"
proof -
  have "foldl (\<lambda>acc x. fadd acc (f x)) a xs = foldl fadd a (map f (map masked_overtime xs))" for xs a
    by (induction xs arbitrary: a) (simp_all add: assms(1))
  then show ?thesis by (simp only: total_of_def assms(2))
qed

lemma hidden_views:
  "reasonsHiddenFrom viewer (us_ID owner) \<Longrightarrow> DaysSeenBy days owner viewer = map masked_day days"
  "reasonsHiddenFrom viewer (ob_UserID b) \<Longrightarrow> SeenBy b viewer = b\<lparr>ob_Days := map masked_overtime (ob_Days b)\<rparr>"
  by (simp_all add: DaysSeenBy_def SeenBy_def masked_day_def [abs_def] masked_overtime_def [abs_def])

lemma balance_private:
  assumes "alike d d'" "reasonsHiddenFrom viewer u" "user_GetByID (db_roles d) u (db_users d) = Inr user" "us_ID user = u"
  shows "map_sum id (\<lambda>b. SeenBy b viewer) (Balance e cal u from to d)
           = map_sum id (\<lambda>b. SeenBy b viewer) (Balance e cal u from to d')"
proof (cases "rulesFor e cal user (CalendarDay from) (CalendarDay to) d")
  case (Inr r)
  let ?m = "absent_map (absence_Between (us_ID user) (CalendarDay from) (CalendarDay to) (db_absences d'))"
  have rel: "rel_option absence_alike (dr_absent r x) (dr_absent (r\<lparr>dr_absent := ?m\<rparr>) x)" for x
    using rulesFor_alike(2) [OF assms(1) Inr] by simp
  note c = counted_alike [OF rel]
  note t = total_masked [OF _ c]
  show ?thesis
    unfolding Balance_def alike_same [OF assms(1)] assms(3) bind_res_simps rulesFor_alike(1) [OF assms(1)] Inr
      Let_def map_sum.simps
    using assms(2,4) c t [of od_Booked] t [of od_Target] t [of od_Balance]
    by (cases "ts_GetByFilter (lower e) (over_days u (startOfDay from) (startOfDay to)) (db_timesheets d)")
      (simp_all add: hidden_views masked_overtime_def)
next
  case (Inl err)
  show ?thesis
    unfolding Balance_def alike_same [OF assms(1)] assms(3) bind_res_simps rulesFor_alike(1) [OF assms(1)] Inl
      Let_def map_sum.simps by simp
qed

lemma days_private:
  assumes "alike d d'" "reasonsHiddenFrom viewer u" "user_GetByID (db_roles d) u (db_users d) = Inr user"
    "us_ID owner = u"
  shows "map_sum id (\<lambda>days. DaysSeenBy days owner viewer) (Days e cal u from to d)
           = map_sum id (\<lambda>days. DaysSeenBy days owner viewer) (Days e cal u from to d')"
proof (cases "dayRange from to")
  case (Inr range)
  then obtain f t where ft: "dayRange from to = Inr (f, t)" by (cases range) simp
  note g = Days_def alike_same [OF assms(1)] assms(3) ft prod.case bind_res_simps rulesFor_alike(1) [OF assms(1)]
  show ?thesis
  proof (cases "rulesFor e cal user f t d")
    case (Inr r)
    let ?m = "absent_map (absence_Between (us_ID user) f t (db_absences d'))"
    have rel: "rel_option absence_alike (dr_absent r x) (dr_absent (r\<lparr>dr_absent := ?m\<rparr>) x)" for x
      using rulesFor_alike(2) [OF assms(1) Inr] by simp
    show ?thesis
      unfolding g Inr map_sum.simps using assms(2,4)
      by (cases "ts_GetByFilter (lower e) (over_days u (midnight f) (midnight t)) (db_timesheets d)")
        (simp_all add: hidden_views day_alike(1) [OF rel])
  qed (unfold g map_sum.simps, simp)
qed (simp add: Days_def)

text \<open>C24: nobody but the owner learns why somebody was away: two installations that differ only in the
  kinds of somebody's absences, each kind replaced by one that asks the same of a day - sickness by
  leave, leave by a local holiday - show a manager the very same days and the very same balance,
  figure for figure, refusals included.\<close>

theorem reasons_stay_private:
  assumes "db_valid d" "alike d d'" "reasonsHiddenFrom viewer u" "us_ID owner = u"
  shows "map_sum id (\<lambda>b. SeenBy b viewer) (Balance e cal u from to d)
           = map_sum id (\<lambda>b. SeenBy b viewer) (Balance e cal u from to d')
    \<and> map_sum id (\<lambda>days. DaysSeenBy days owner viewer) (Days e cal u from to d)
           = map_sum id (\<lambda>days. DaysSeenBy days owner viewer) (Days e cal u from to d')"
proof (cases "user_GetByID (db_roles d) u (db_users d)")
  case (Inl err)
  then show ?thesis
    unfolding Balance_def Days_def alike_same [OF assms(2)] Inl by (cases "dayRange from to") simp_all
next
  case (Inr user)
  then show ?thesis
    using balance_private [OF assms(2,3) Inr account_at(1) [OF assms(1) Inr]] days_private [OF assms(2,3) Inr assms(4)]
    by blast
qed

definition sample_away :: "gostring \<Rightarrow> db" where
  "sample_away kind = sample_db\<lparr>db_absences := [\<lparr>ab_user = 1, ab_day = 20000, ab_kind = kind\<rparr>]\<rparr>"

definition sample_manager :: principal where
  "sample_manager = \<lparr>pp_User = Some (sample_user\<lparr>us_ID := 2\<rparr>), pp_Role = None, pp_Permissions = []\<rparr>"

theorem reasons_stay_private_witness:
  "map_sum id (\<lambda>days. DaysSeenBy days sample_user (Some sample_manager))
     (Days sample_env sample_calendar 1 (midnight 20000) (midnight 20001) (sample_away AbsenceSick))
   = map_sum id (\<lambda>days. DaysSeenBy days sample_user (Some sample_manager))
     (Days sample_env sample_calendar 1 (midnight 20000) (midnight 20001) (sample_away AbsenceVacation))"
proof -
  have "db_valid (sample_away AbsenceSick)"
    using sample_valid by (simp add: db_valid_def sample_away_def)
  moreover have "alike (sample_away AbsenceSick) (sample_away AbsenceVacation)"
    by (simp add: alike_def sample_away_def absence_alike_def absence_key_def same_effect_def absence_names)
  moreover have "reasonsHiddenFrom (Some sample_manager) 1" "us_ID sample_user = 1"
    by (simp_all add: reasonsHiddenFrom_def sample_manager_def sample_user_def)
  ultimately show ?thesis using reasons_stay_private by blast
qed

section \<open>The picture and the balance\<close>

lemma CalendarDay_startOfDay_UTC: "loc t = UTC \<Longrightarrow> startOfDay t = midnight (CalendarDay t)"
  unfolding startOfDay_def CalendarDay_def by (simp add: date_in_def midnight_def)

text \<open>Which days the entries of a stretch lie on.\<close>

lemma stretch_entries:
  assumes "entries_sane d"
    and "ts_GetByFilter low (over_days u (midnight a) (midnight b)) (db_timesheets d) = Inr entries"
  shows "\<forall>t \<in> set entries. a \<le> CalendarDay (ts_Date t) \<and> CalendarDay (ts_Date t) \<le> b"
proof
  fix t assume "t \<in> set entries"
  then have t: "matchesFilter low t (OverWholeDays (over_days u (midnight a) (midnight b)))"
    "t \<in> set (store_all (tr_store (db_timesheets d)))"
    using assms(2) by (auto simp: ts_GetByFilter_def page_def over_days_def all_of_def matching_def)
  then obtain y where y: "ts_Date t = midnight y" using assms(1) by (auto simp: entries_sane_def entry_sane_def)
  have "(y * 86400 * 10 ^ 9 < a * 86400 * 10 ^ 9) \<longleftrightarrow> y < a"
    "(y * 86400 * 10 ^ 9 > (b + 1) * 86400 * 10 ^ 9 - 10 ^ 9) \<longleftrightarrow> y > b" by auto
  then show "a \<le> CalendarDay (ts_Date t) \<and> CalendarDay (ts_Date t) \<le> b"
    using t(1) y by (auto simp: matchesFilter_def OverWholeDays_def over_days_def all_of_def split: if_splits)
qed

lemma booked_on_update: "booked_on (AList.update x v m) y = (if y = x then v else booked_on m y)"
  by (simp add: booked_on_def map_of_update)

lemma per_day_keys: "fst ` set (per_day ts m) = fst ` set m \<union> (\<lambda>t. CalendarDay (ts_Date t)) ` set ts"
  by (induction ts m rule: per_day.induct) (auto simp: Let_def keys_update)

lemma booked_on_missing: "x \<notin> fst ` set m \<Longrightarrow> booked_on m x = Fin 0"
  by (simp add: booked_on_def map_of_eq_None_iff [THEN iffD2])

lemma counted_spec:
  assumes "\<forall>x \<in> fst ` set m. a \<le> x \<and> x \<le> b"
  shows "counted_days r m a b = map (overtime_day_of r m) (filter (\<lambda>x. snd (rules_of r x (booked_on m x))) [a..b])"
proof -
  let ?P = "\<lambda>x. snd (rules_of r x (booked_on m x))"
  have "x \<in> set (candidates r m a b) \<longleftrightarrow> x \<in> set [a..b]" if c: "?P x" for x
  proof (cases "x \<in> fst ` set m")
    case True
    then show ?thesis using bspec [OF assms True] by (simp add: candidates_def)
  next
    case False
    then have "booked_on m x = Fin 0" by (rule booked_on_missing)
    then obtain f where "dr_from r = Some f" "f \<le> x" "x \<le> dr_today r"
      using c by (cases "dr_from r") (simp_all add: rules_of_def Let_def split: if_splits)
    then show ?thesis using False by (auto simp: candidates_def latest_def earliest_def)
  qed
  then have "set (filter ?P (candidates r m a b)) = set (filter ?P [a..b])" by auto
  then have same: "set (counted_days r m a b) = set (map (overtime_day_of r m) (filter ?P [a..b]))"
    by (simp add: counted_days_def)
  have k: "od_Date (overtime_day_of r m x) = x" for x by (simp add: overtime_day_of_def Let_def)
  have "distinct (map od_Date (map (overtime_day_of r m) (filter ?P (candidates r m a b))))"
    by (simp add: comp_def k candidates_def)
  then have "distinct (map od_Date (counted_days r m a b))"
    unfolding counted_days_def by (simp only: distinct_map distinct_sort_by set_sort_by)
  then have "sorted_wrt (<) (map od_Date (counted_days r m a b))"
    by (simp add: strict_sorted_iff counted_days_def sort_by_key_sorted)
  moreover have "sorted_wrt (<) (map od_Date (map (overtime_day_of r m) (filter ?P [a..b])))"
    by (simp add: comp_def k sorted_wrt_filter sorted_wrt_upto)
  ultimately show ?thesis using same by (rule sorted_map_unique)
qed

text \<open>One line of the picture, read as one line of the balance would.\<close>

definition overtime_line :: "overtime_day \<Rightarrow> day \<times> float64 \<times> float64 \<times> gostring \<times> gostring \<times> bool" where
  "overtime_line o' = (od_Date o', od_Booked o', od_Target o', od_Absence o', od_Holiday o', od_HolidaySubstitute o')"

definition picture_line :: "day_view \<Rightarrow> day \<times> float64 \<times> float64 \<times> gostring \<times> gostring \<times> bool" where
  "picture_line v = (dv_Date v, dv_Booked v, dv_Target v, dv_Absence v, dv_Holiday v, dv_HolidaySubstitute v)"

lemma lines_agree:
  "map overtime_line (map (overtime_day_of r m) (filter (\<lambda>x. snd (rules_of r x (booked_on m x))) xs))
     = map picture_line (filter dv_Counts (map (day_view_of r m) xs))"
  by (induction xs)
    (auto simp: overtime_line_def picture_line_def overtime_day_of_def day_view_of_def Let_def case_prod_beta)

lemma picture_parts:
  assumes "entries_sane d" "loc from = UTC" "loc to = UTC"
    and "Days e cal u from to d = Inr days" "Balance e cal u from to d = Inr balance"
  shows "\<exists>r m. days = map (day_view_of r m) [CalendarDay from..CalendarDay to]
    \<and> counted_days r m (CalendarDay from) (CalendarDay to) = ob_Days balance
    \<and> (\<forall>x \<in> fst ` set m. CalendarDay from \<le> x \<and> x \<le> CalendarDay to)
    \<and> ob_TotalBooked balance = total_of od_Booked (ob_Days balance)
    \<and> ob_TotalTarget balance = total_of od_Target (ob_Days balance)"
proof -
  let ?a = "CalendarDay from" and ?b = "CalendarDay to"
  note g = assms(4) [unfolded Days_def] and h = assms(5) [unfolded Balance_def CalendarDay_startOfDay_UTC [OF assms(2)]
      CalendarDay_startOfDay_UTC [OF assms(3)]]
  have zero: "u \<noteq> 0" "\<not> ns to < ns from" using h by (auto split: if_splits)
  obtain user where user: "user_GetByID (db_roles d) u (db_users d) = Inr user"
    using h zero by (cases "user_GetByID (db_roles d) u (db_users d)") simp_all
  obtain entries where entries: "ts_GetByFilter (lower e) (over_days u (midnight ?a) (midnight ?b)) (db_timesheets d) = Inr entries"
    using h zero user by (cases "ts_GetByFilter (lower e) (over_days u (midnight ?a) (midnight ?b)) (db_timesheets d)") simp_all
  obtain r where r: "rulesFor e cal user ?a ?b d = Inr r"
    using h zero user entries by (cases "rulesFor e cal user ?a ?b d") (simp_all add: Let_def)
  have range: "dayRange from to = Inr (?a, ?b)"
    using g zero by (cases "dayRange from to"; force simp: dayRange_Inr)
  have "days = map (day_view_of r (per_day entries [])) [?a..?b]"
    using g zero by (simp add: range user entries r)
  moreover have "counted_days r (per_day entries []) ?a ?b = ob_Days balance
    \<and> ob_TotalBooked balance = total_of od_Booked (ob_Days balance)
    \<and> ob_TotalTarget balance = total_of od_Target (ob_Days balance)"
    using h zero by (auto simp add: user entries r Let_def)
  moreover have "\<forall>x \<in> fst ` set (per_day entries []). ?a \<le> x \<and> x \<le> ?b"
    using stretch_entries [OF assms(1) entries] by (auto simp: per_day_keys)
  ultimately show ?thesis by blast
qed

text \<open>C23: over a stretch a picture can show, the balance lists exactly the days the picture says
  count, in the same order and with the same hours, target, absence and holiday on each, and its
  totals are the sums of the days the picture counts.\<close>

theorem picture_adds_up:
  assumes "entries_sane d" "loc from = UTC" "loc to = UTC"
    and "Days e cal u from to d = Inr days" "Balance e cal u from to d = Inr balance"
  shows "map dv_Date days = [CalendarDay from..CalendarDay to]
    \<and> map overtime_line (ob_Days balance) = map picture_line (filter dv_Counts days)
    \<and> ob_TotalBooked balance = settled (foldl fadd (Fin 0) (map dv_Booked (filter dv_Counts days)))
    \<and> ob_TotalTarget balance = settled (foldl fadd (Fin 0) (map dv_Target (filter dv_Counts days)))"
proof -
  let ?a = "CalendarDay from" and ?b = "CalendarDay to"
  obtain r m where p: "days = map (day_view_of r m) [?a..?b]" "counted_days r m ?a ?b = ob_Days balance"
    "\<forall>x \<in> fst ` set m. ?a \<le> x \<and> x \<le> ?b"
    "ob_TotalBooked balance = total_of od_Booked (ob_Days balance)"
    "ob_TotalTarget balance = total_of od_Target (ob_Days balance)"
    using picture_parts [OF assms] by blast
  have dates: "map dv_Date days = [?a..?b]"
    unfolding p(1) by (simp add: comp_def day_view_of_def Let_def case_prod_beta)
  have lines: "map overtime_line (ob_Days balance) = map picture_line (filter dv_Counts days)"
    unfolding p(1) p(2) [symmetric] counted_spec [OF p(3)] by (rule lines_agree)
  have total: "total_of f (ob_Days balance) = settled (foldl fadd (Fin 0) (map g (filter dv_Counts days)))"
    if "\<And>x. f x = h (overtime_line x)" "\<And>v. g v = h (picture_line v)" for f g h
  proof -
    have "map f (ob_Days balance) = map h (map overtime_line (ob_Days balance))" by (simp add: that(1))
    also have "\<dots> = map g (filter dv_Counts days)" by (simp add: lines that(2))
    finally have "map f (ob_Days balance) = map g (filter dv_Counts days)" .
    moreover have "total_of f xs = settled (foldl fadd (Fin 0) (map f xs))" for xs
      by (simp add: total_of_def foldl_map)
    ultimately show ?thesis by simp
  qed
  show ?thesis
    using dates lines p(4,5) total [of od_Booked "\<lambda>(_, b, _). b" dv_Booked] total [of od_Target "\<lambda>(_, _, t, _). t" dv_Target]
    by (simp add: overtime_line_def picture_line_def)
qed

lemma sample_at: "user_GetByID (db_roles sample_db) 1 (db_users sample_db) = Inr sample_user"
  by (simp add: user_GetByID_Inr sample_user_at withRoleName_def sample_user_def blank_user_def)

lemma sample_holidays: "holidaysOf sample_calendar sample_user a b = Inr Map.empty"
  by (simp add: holidaysOf_def sample_calendar_def sample_user_def blank_user_def HolidayPlaceOf_def no_place NoHolidays_def)

lemma sample_none: "ts_GetByFilter low (over_days u a b) (db_timesheets sample_db) = Inr []"
  by (simp add: ts_GetByFilter_def page_def over_days_def all_of_def matching_def sample_entries(1) new_timesheets_def
      newStore_def store_all_def Let_def)

theorem picture_adds_up_witness:
  "map dv_Date (projr (Days sample_env sample_calendar 1 (midnight 20000) (midnight 20001) sample_db)) = [20000, 20001]
   \<and> ob_TotalBooked (projr (Balance sample_env sample_calendar 1 (midnight 20000) (midnight 20001) sample_db))
      = settled (foldl fadd (Fin 0) (map dv_Booked (filter dv_Counts
          (projr (Days sample_env sample_calendar 1 (midnight 20000) (midnight 20001) sample_db)))))"
proof -
  have r: "dayRange (midnight 20000) (midnight 20001) = Inr (20000, 20001)" by (simp add: dayRange_Inr)
  obtain days where days: "Days sample_env sample_calendar 1 (midnight 20000) (midnight 20001) sample_db = Inr days"
    by (simp add: Days_def r sample_at sample_none rulesFor_def sample_holidays)
  obtain b where b: "Balance sample_env sample_calendar 1 (midnight 20000) (midnight 20001) sample_db = Inr b"
    by (simp add: Balance_def sample_at sample_none rulesFor_def sample_holidays Let_def)
  show ?thesis using picture_adds_up [OF sample_sane _ _ days b] unfolding days b by (simp add: upto.simps)
qed

section \<open>The reminder\<close>

lemma look_back_Some:
  fixes x :: day
  assumes "sorted_wrt (>) xs"
  shows "look_back expects bookings xs = Some x \<longleftrightarrow>
    x \<in> set xs \<and> expects x \<and> bookings x = 0 \<and> (\<forall>y \<in> set xs. x < y \<longrightarrow> \<not> expects y)"
  using assms
proof (induction xs)
  case (Cons a xs)
  then have less: "\<forall>y \<in> set xs. y < a" by simp
  show ?case
  proof (cases "expects a")
    case True
    then show ?thesis using less by auto
  next
    case False
    then show ?thesis using Cons by auto
  qed
qed simp

text \<open>C27: the reminder names a day exactly when it is the last day before today the person was
  expected to work - not switched off, not before the balance begins, at most fourteen days back -
  and nothing at all is booked on it; a booked last working day silences it, earlier gaps or not.\<close>

theorem reminder_exact:
  assumes "rulesFor e cal user (todayOf e cal user - 14) (todayOf e cal user - 1) d = Inr rules"
  shows "unbookedDay e cal user d = Inr (Some x) \<longleftrightarrow>
      \<not> us_SkipUnbookedReminder user \<and> snd (beginning user d)
    \<and> fst (beginning user d) \<le> x \<and> todayOf e cal user - 14 \<le> x \<and> x < todayOf e cal user
    \<and> expectsWork rules x
    \<and> ts_CountByFilter (lower e) (over_days (us_ID user) (midnight x) (midnight x)) (db_timesheets d) = 0
    \<and> (\<forall>y \<in> {x<..<todayOf e cal user}. \<not> expectsWork rules y)"
proof -
  obtain b found where b: "beginning user d = (b, found)" by (cases "beginning user d")
  let ?t = "todayOf e cal user"
  have s: "sorted_wrt (>) (rev [latest (?t - 14) b..?t - 1])"
    using sorted_wrt_upto by (simp add: sorted_wrt_rev)
  show ?thesis
    using assms by (simp add: unbookedDay_def b Let_def reminderLookBack_def look_back_Some [OF s])
      (auto simp: latest_def)
qed

definition sample_counting :: user where
  "sample_counting = sample_user\<lparr>us_EveryDayCountsFrom := Some 19990\<rparr>"

theorem reminder_exact_witness:
  "unbookedDay sample_env sample_calendar sample_counting sample_db = Inr (Some 19999)"
proof -
  have t: "todayOf sample_env sample_calendar sample_counting = 20000"
    by (simp add: todayOf_def sample_calendar_def sample_env_def in_zone_def CalendarDay_UTC)
  have h: "holidaysOf sample_calendar sample_counting a b = Inr Map.empty" for a b
    by (simp add: sample_counting_def holidaysOf_def sample_calendar_def sample_user_def blank_user_def
        HolidayPlaceOf_def no_place NoHolidays_def)
  have r: "rulesFor sample_env sample_calendar sample_counting (todayOf sample_env sample_calendar sample_counting - 14)
      (todayOf sample_env sample_calendar sample_counting - 1) sample_db =
    Inr \<lparr>dr_from = Some 19990, dr_today = 20000, dr_schedules = [], dr_before = DefaultWeek (Fin 8),
         dr_holidays = Map.empty, dr_absent = Map.empty\<rparr>"
    by (simp add: rulesFor_def h t Let_def absent_map_def absence_Between_def dated_between_def schedule_ForUser_def
        dated_for_def week_before_def EffectiveDailyTarget_def DefaultDailyTargetHours_def)
      (simp add: sample_counting_def sample_user_def blank_user_def DefaultDailyTargetHours_def sample_db_def new_db_def)
  have b: "beginning sample_counting sample_db = (19990, True)"
    by (simp add: beginning_def ts_FirstDay_def sample_entries(1) new_timesheets_def newStore_def store_all_def
        is_zero_time_def sample_counting_def Let_def)
  have c: "ts_CountByFilter low (over_days u a b) (db_timesheets sample_db) = 0" for low u a b
    by (simp add: ts_CountByFilter_def matching_def sample_entries(1) new_timesheets_def newStore_def store_all_def Let_def)
  have "\<not> us_SkipUnbookedReminder sample_counting" by (simp add: sample_counting_def sample_user_def blank_user_def)
  moreover have "weekday 19999 = 4" by (simp add: weekday_def)
  ultimately show ?thesis
    unfolding reminder_exact [OF r] unfolding t
    by (auto simp: b c expectsWork_def TargetOn_def On_def DefaultWeek_def)
qed

end
