(* ===== verification/LeaveRules.thy ===== *)
theory LeaveRules
  imports Diary
begin

text \<open>
  The leave account, counted exactly: where every entitlement is a whole number of half days, every
  figure of every year is, and what a year leaves over is what the next one starts with.
\<close>

section \<open>Half days\<close>

definition half :: "int \<Rightarrow> float64" where
  "half k = Fin (of_int k / 2)"

lemma fl_half: "\<bar>k\<bar> < 2 ^ 53 \<Longrightarrow> fl (of_int k / 2) = half k"
proof -
  assume k: "\<bar>k\<bar> < 2 ^ 53"
  have "\<bar>of_int k\<bar> < (2 :: rat) ^ 53" using k by (metis of_int_abs of_int_less_iff of_int_numeral of_int_power)
  then have "\<bar>of_int k / 2\<bar> < (2 :: rat) ^ 53" by (simp add: abs_divide)
  also have "(2 :: rat) ^ 53 < 2 ^ 1024" by (rule power_strict_increasing) simp_all
  finally show ?thesis using k is_double_dyadic [of k 1] by (simp add: fl_double half_def)
qed

lemma half_arith:
  "\<bar>j + k\<bar> < 2 ^ 53 \<Longrightarrow> fadd (half j) (half k) = half (j + k)"
  "\<bar>j - k\<bar> < 2 ^ 53 \<Longrightarrow> fsub (half j) (half k) = half (j - k)"
  using fl_half [of "j + k"] fl_half [of "j - k"]
  by (simp_all add: half_def fsub_def add_divide_distrib diff_divide_distrib)

lemma settled_half: "\<bar>k\<bar> \<le> 18014398 \<Longrightarrow> settled (half k) = half k"
proof -
  assume k: "\<bar>k\<bar> \<le> 18014398"
  have "fmul (half k) (Fin (10 ^ 9)) = fl (of_int (k * 500000000))" by (simp add: half_def mult.commute)
  also have "\<dots> = Fin (of_int (k * 500000000))" using k by (intro fl_of_int) (simp add: abs_le_iff abs_less_iff)
  finally have m: "fmul (half k) (Fin (10 ^ 9)) = Fin (of_int (k * 500000000))" .
  have "round_away (of_int n) = n" for n by (simp add: round_away_def) linarith
  then have "fdiv (fround (Fin (of_int (k * 500000000)))) (Fin (10 ^ 9)) = fl (of_int (k * 500000000) / 10 ^ 9)"
    by (simp only: fround.simps fdiv.simps) simp
  also have "\<dots> = half k" using fl_half [of k] k by (simp add: abs_le_iff abs_less_iff)
  finally show ?thesis unfolding settled_def m Let_def by (simp add: half_def)
qed

definition half_days :: "absence \<Rightarrow> int" where
  "half_days a = (if ab_kind a = AbsenceVacation then 2 else if ab_kind a = AbsenceHalfVacation then 1 else 0)"

lemma VacationDays_half: "VacationDays a = half (half_days a)"
  by (simp add: VacationDays_def half_days_def half_def)

section \<open>Counting\<close>

definition sum_leave :: "(day \<Rightarrow> bool) \<Rightarrow> int \<Rightarrow> absence list \<Rightarrow> int" where
  "sum_leave P y as = sum_list (map half_days (filter (\<lambda>a. year_of (ab_day a) = y \<and> P (ab_day a)) as))"

lemma sum_leave_simps [simp]:
  "sum_leave P y [] = 0"
  "sum_leave P y (a # as) = (if year_of (ab_day a) = y \<and> P (ab_day a) then half_days a else 0) + sum_leave P y as"
  by (simp_all add: sum_leave_def)

lemma half_days_bounds: "0 \<le> half_days a" "half_days a \<le> 2"
  by (simp_all add: half_days_def)

lemma room_after:
  assumes "\<And>y. 0 \<le> f y \<and> f y + 2 * int (length (a # as)) < 2 ^ 53" "0 \<le> v" "v \<le> 2"
  shows "0 \<le> (f(z := f z + v)) y \<and> (f(z := f z + v)) y + 2 * int (length as) < 2 ^ 53"
    "0 \<le> f y \<and> f y + 2 * int (length as) < 2 ^ 53"
  using assms(1) [of y] assms(1) [of z] assms(2,3) by auto

lemma count_leave_exact:
  assumes "\<And>y. 0 \<le> t y \<and> t y + 2 * int (length as) < 2 ^ 53" "\<And>y. 0 \<le> p y \<and> p y + 2 * int (length as) < 2 ^ 53"
  shows "count_leave works today as (\<lambda>y. half (t y), \<lambda>y. half (p y)) =
    (\<lambda>y. half (t y + sum_leave (\<lambda>x. works x \<and> x \<le> today) y as),
     \<lambda>y. half (p y + sum_leave (\<lambda>x. works x \<and> x > today) y as))"
  using assms
proof (induction as arbitrary: t p)
  case (Cons a as)
  let ?y = "year_of (ab_day a)" and ?v = "half_days a"
  note v = half_days_bounds [of a]
  have up: "(\<lambda>y. half (f y))(?y := fadd (half (f ?y)) (half ?v)) = (\<lambda>y. half ((f(?y := f ?y + ?v)) y))"
    if "0 \<le> f ?y" "f ?y + 2 * int (length (a # as)) < 2 ^ 53" for f
    using that v by (auto simp: half_arith fun_eq_iff)
  have z: "feq (VacationDays a) (Fin 0) \<longleftrightarrow> ?v = 0" by (simp add: VacationDays_half half_def)
  have shorter: "\<And>y. 0 \<le> t y \<and> t y + 2 * int (length as) < 2 ^ 53" "\<And>y. 0 \<le> p y \<and> p y + 2 * int (length as) < 2 ^ 53"
    by (rule room_after(2) [OF Cons.prems(1) v], rule room_after(2) [OF Cons.prems(2) v])
  note step = Cons.prems [of ?y]
  show ?case
  proof (cases "?v = 0 \<or> \<not> works (ab_day a)")
    case True
    then show ?thesis using Cons.IH [OF shorter] by (auto simp: z Let_def fun_eq_iff)
  next
    case False
    then have nz: "?v \<noteq> 0" "works (ab_day a)" by simp_all
    show ?thesis
    proof (cases "ab_day a > today")
      case True
      have "\<And>y. 0 \<le> (p(?y := p ?y + ?v)) y \<and> (p(?y := p ?y + ?v)) y + 2 * int (length as) < 2 ^ 53"
        by (rule room_after(1) [OF Cons.prems(2) v])
      then have ih: "count_leave works today as (\<lambda>y. half (t y), \<lambda>y. half ((p(?y := p ?y + ?v)) y)) = 
         (\<lambda>y. half (t y + sum_leave (\<lambda>x. works x \<and> x \<le> today) y as),
          \<lambda>y. half ((p(?y := p ?y + ?v)) y + sum_leave (\<lambda>x. works x \<and> x > today) y as))"
        by (rule Cons.IH [OF shorter(1)])
      have "count_leave works today (a # as) (\<lambda>y. half (t y), \<lambda>y. half (p y)) =
          count_leave works today as (\<lambda>y. half (t y), (\<lambda>y. half (p y))(?y := fadd (half (p ?y)) (half ?v)))"
        unfolding count_leave.simps Let_def z using nz True by (simp only: VacationDays_half if_True if_False not_True_eq_False)
      note first = this
      show ?thesis
        unfolding first up [of p, OF conjunct1 [OF step(2)] conjunct2 [OF step(2)]] ih using nz True
        by (auto simp: fun_eq_iff add.assoc)
    next
      case False
      have "\<And>y. 0 \<le> (t(?y := t ?y + ?v)) y \<and> (t(?y := t ?y + ?v)) y + 2 * int (length as) < 2 ^ 53"
        by (rule room_after(1) [OF Cons.prems(1) v])
      then have ih: "count_leave works today as (\<lambda>y. half ((t(?y := t ?y + ?v)) y), \<lambda>y. half (p y)) = 
         (\<lambda>y. half ((t(?y := t ?y + ?v)) y + sum_leave (\<lambda>x. works x \<and> x \<le> today) y as),
          \<lambda>y. half (p y + sum_leave (\<lambda>x. works x \<and> x > today) y as))"
        by (rule Cons.IH [OF _ shorter(2)])
      have "count_leave works today (a # as) (\<lambda>y. half (t y), \<lambda>y. half (p y)) =
          count_leave works today as ((\<lambda>y. half (t y))(?y := fadd (half (t ?y)) (half ?v)), \<lambda>y. half (p y))"
        unfolding count_leave.simps Let_def z using nz False by (simp only: VacationDays_half if_True if_False not_True_eq_False)
      note first = this
      show ?thesis
        unfolding first up [of t, OF conjunct1 [OF step(1)] conjunct2 [OF step(1)]] ih using nz False
        by (auto simp: fun_eq_iff add.assoc)
    qed
  qed
qed simp

text \<open>What is carried from year to year.\<close>

lemma carry_exact:
  assumes "\<forall>y \<in> set ys. fst (EntitlementIn y es) = half (g y) \<and> 0 \<le> g y \<and> g y \<le> 732
      \<and> 0 \<le> t y \<and> 0 \<le> p y \<and> t y + p y \<le> 732"
    and "\<bar>c\<bar> + 732 * int (length ys) \<le> 18014398"
  shows "carry_over es (\<lambda>y. half (t y)) (\<lambda>y. half (p y)) ys (half c) = half (c + (\<Sum>y\<leftarrow>ys. g y - t y - p y))
    \<and> \<bar>c + (\<Sum>y\<leftarrow>ys. g y - t y - p y)\<bar> \<le> 18014398"
  using assms
proof (induction ys arbitrary: c)
  case (Cons y ys)
  then have b: "fst (EntitlementIn y es) = half (g y)" "0 \<le> g y" "g y \<le> 732" "0 \<le> t y" "0 \<le> p y" "t y + p y \<le> 732"
    "\<bar>c\<bar> + 732 * int (length ys) + 732 \<le> 18014398" by simp_all
  let ?c = "g y + c - t y - p y"
  have "\<bar>?c\<bar> + 732 * int (length ys) \<le> 18014398" using b by linarith
  moreover have "fsub (fsub (fadd (half (g y)) (half c)) (half (t y))) (half (p y)) = half ?c"
  proof -
    have small: "\<bar>x\<bar> < 2 ^ 53" if "\<bar>x\<bar> \<le> 20000000" for x :: int using that by simp
    have "\<bar>g y + c\<bar> \<le> 20000000" "\<bar>g y + c - t y\<bar> \<le> 20000000" "\<bar>g y + c - t y - p y\<bar> \<le> 20000000"
      using b by linarith+
    then show ?thesis using small by (simp add: half_arith)
  qed
  ultimately show ?case
    using Cons.IH [of ?c] Cons.prems(1) by (simp add: b(1) algebra_simps)
qed simp

section \<open>A year of leave\<close>

lemma in_years:
  assumes "a \<le> b"
  shows "date a 1 1 \<le> x \<and> x \<le> date b 12 31 \<longleftrightarrow> a \<le> year_of x \<and> year_of x \<le> b"
proof -
  have e: "date a 1 1 = year_start a" "date b 12 31 = year_start (b + 1) - 1"
    by (simp_all add: date_simple year_start_Suc month_start_def)
  have mono: "y < z \<Longrightarrow> year_start y < year_start z" for y z by (rule year_start_less)
  have "year_start y \<le> x \<longleftrightarrow> y \<le> year_of x" for y
    using year_of_spec [of x] mono [of y "year_of x"] mono [of "year_of x + 1" y]
    by (cases "y = year_of x"; cases "y = year_of x + 1"; cases "y < year_of x") auto
  from this [of a] this [of "b + 1"] show ?thesis unfolding e by linarith
qed

lemma days_of_a_year:
  assumes "distinct (map ab_day as)" "\<forall>a \<in> set as. year_of (ab_day a) = y"
  shows "length as \<le> 366"
proof -
  have "set (map ab_day as) \<subseteq> {year_start y..<year_start (y + 1)}" using assms(2) year_of_spec by auto
  then have "card (set (map ab_day as)) \<le> card {year_start y..<year_start (y + 1)}" by (intro card_mono) auto
  also have "\<dots> \<le> 366" by (simp add: year_start_Suc)
  finally show ?thesis using assms(1) distinct_card [of "map ab_day as"] by simp
qed

lemma sum_away:
  assumes "a \<le> y" "y \<le> b" "\<And>x. year_of x = y \<Longrightarrow> P x = Q x"
  shows "sum_leave P y (absence_Between u (date a 1 1) (date b 12 31) xs)
       = sum_leave Q y (filter (\<lambda>a. ab_user a = u) xs)"
proof -
  have r: "\<not> x < date a 1 1 \<and> \<not> x > date b 12 31" if "year_of x = y" for x
    using in_years [of a b x] assms(1,2) that by auto
  have "filter (\<lambda>c. (fst (absence_key c) = u \<and> \<not> snd (absence_key c) < date a 1 1 \<and> \<not> snd (absence_key c) > date b 12 31)
          \<and> (year_of (ab_day c) = y \<and> P (ab_day c))) xs
      = filter (\<lambda>c. ab_user c = u \<and> (year_of (ab_day c) = y \<and> Q (ab_day c))) xs"
    using r assms(3) by (intro filter_cong) (auto simp: absence_key_def)
  then show ?thesis
    unfolding sum_leave_def absence_Between_def dated_between_def filter_sort_by sum_sort_by filter_filter by (simp only:)
qed

lemma sum_leave_split:
  "sum_leave (\<lambda>x. W x \<and> x \<le> n) y as + sum_leave (\<lambda>x. W x \<and> x > n) y as = sum_leave W y as" for n :: day
  by (induction as) auto

lemma sum_leave_bounds: "0 \<le> sum_leave P y as"
  "sum_leave P y as \<le> 2 * int (length (filter (\<lambda>a. year_of (ab_day a) = y) as))"
proof -
  show "0 \<le> sum_leave P y as" using half_days_bounds by (induction as) (auto intro: add_nonneg_nonneg)
  show "sum_leave P y as \<le> 2 * int (length (filter (\<lambda>a. year_of (ab_day a) = y) as))"
  proof (induction as)
    case (Cons a as)
    then show ?case using half_days_bounds [of a] by auto
  qed simp
qed

lemma between_distinct: "dated_valid absence_key xs \<Longrightarrow> distinct (map ab_day (absence_Between u a b xs))"
  using dated.between_ordered [of absence_key xs u a b]
  by (simp add: absence_Between_def absence_key_def strict_sorted_iff)

lemma between_few:
  assumes "dated_valid absence_key xs" "1900 \<le> a" "a \<le> b" "b \<le> 9999"
  shows "length (absence_Between u (date a 1 1) (date b 12 31) xs) \<le> 2958464"
proof -
  have "set (map ab_day (absence_Between u (date a 1 1) (date b 12 31) xs)) \<subseteq> {year_start 1900..<year_start 10000}"
  proof -
    have "year_start 1900 \<le> x \<and> x < year_start 10000" if "date a 1 1 \<le> x" "x \<le> date b 12 31" for x
    proof -
      have "date 1900 1 1 \<le> x \<and> x \<le> date 9999 12 31"
        using in_years [OF assms(3), of x] in_years [of 1900 9999 x] that assms(2,4) by linarith
      then show ?thesis by (simp add: date_simple month_start_def leap_year_def year_start_def)
    qed
    then show ?thesis by (auto simp: absence_Between_def dated_between_def absence_key_def)
  qed
  then have "card (set (map ab_day (absence_Between u (date a 1 1) (date b 12 31) xs))) \<le> card {year_start 1900..<year_start 10000}"
    by (intro card_mono) auto
  also have "\<dots> = 2958464" by (simp add: year_start_def)
  finally show ?thesis using distinct_card [OF between_distinct [OF assms(1)], of u "date a 1 1" "date b 12 31"] by simp
qed

text \<open>What a year is given, what is recorded in it on days that are worked, and what came before -
  in half days.\<close>

definition halves_of :: "float64 \<Rightarrow> int" where
  "halves_of x = (case x of Fin r \<Rightarrow> \<lfloor>2 * r\<rfloor> | _ \<Rightarrow> 0)"

definition given_in :: "db \<Rightarrow> user \<Rightarrow> int \<Rightarrow> int" where
  "given_in d user y = halves_of (fst (EntitlementIn y (entitlement_ForUser (us_ID user) (db_entitlements d))))"

definition leave_in :: "db \<Rightarrow> user \<Rightarrow> gostring \<Rightarrow> (day \<Rightarrow> bool) \<Rightarrow> int \<Rightarrow> int" where
  "leave_in d user place P y =
     sum_leave (\<lambda>x. would_work place d user x \<and> P x) y (filter (\<lambda>a. ab_user a = us_ID user) (db_absences d))"

definition carried_into :: "db \<Rightarrow> user \<Rightarrow> gostring \<Rightarrow> int \<Rightarrow> int \<Rightarrow> int" where
  "carried_into d user place first year =
     (\<Sum>y\<leftarrow>[first..year - 1]. given_in d user y - leave_in d user place (\<lambda>_. True) y)"

definition half_entitlements :: "db \<Rightarrow> bool" where
  "half_entitlements d \<longleftrightarrow> (\<forall>e \<in> set (db_entitlements d).
     1900 \<le> ve_from_year e \<and> ve_from_year e \<le> 9999 \<and> (\<exists>k. ve_days e = half k \<and> 0 \<le> k \<and> k \<le> 732))"

lemma halves_of_half [simp]: "halves_of (half k) = k"
  by (simp add: halves_of_def half_def)

lemma in_entitlements: "e \<in> set (entitlement_ForUser u es) \<longleftrightarrow> e \<in> set es \<and> ve_user e = u"
  by (auto simp: entitlement_ForUser_def dated_for_def entitlement_key_def)

lemma given_half:
  assumes "half_entitlements d"
  shows "fst (EntitlementIn y (entitlement_ForUser (us_ID user) (db_entitlements d))) = half (given_in d user y)
    \<and> 0 \<le> given_in d user y \<and> given_in d user y \<le> 732"
proof -
  let ?es = "entitlement_ForUser (us_ID user) (db_entitlements d)"
  obtain days found since where s: "entitlement_scan y ?es (Fin 0, False, 0) = (days, found, since)"
    by (cases "entitlement_scan y ?es (Fin 0, False, 0)")
  have "\<exists>k. days = half k \<and> 0 \<le> k \<and> k \<le> 732"
  proof (cases found)
    case True
    then obtain e where "e \<in> set ?es" "ve_days e = days" using entitlement_scan_spec [OF s] by auto
    then show ?thesis using assms by (auto simp: half_entitlements_def in_entitlements)
  next
    case False
    then have "days = half 0" using entitlement_scan_spec [OF s] by (simp add: half_def)
    then show ?thesis by (intro exI [of _ 0]) simp
  qed
  then obtain k where k: "days = half k" "0 \<le> k" "k \<le> 732" by blast
  have "fst (EntitlementIn y ?es) = half k" by (simp add: EntitlementIn_def s k(1))
  then show ?thesis using k by (simp add: given_in_def)
qed

lemma counted_leave:
  assumes "db_valid d" "1900 \<le> first" "first \<le> year" "year \<le> 9999"
    and works: "\<And>x. first \<le> year_of x \<Longrightarrow> year_of x \<le> year \<Longrightarrow> works x = would_work place d user x"
  shows "\<exists>t p. count_leave works today (absence_Between (us_ID user) (date first 1 1) (date year 12 31) (db_absences d))
        (\<lambda>_. Fin 0, \<lambda>_. Fin 0) = (\<lambda>y. half (t y), \<lambda>y. half (p y))
    \<and> (\<forall>y. first \<le> y \<and> y \<le> year \<longrightarrow> t y = leave_in d user place (\<lambda>x. x \<le> today) y
        \<and> p y = leave_in d user place (\<lambda>x. x > today) y
        \<and> 0 \<le> t y \<and> 0 \<le> p y \<and> t y + p y \<le> 732 \<and> t y + p y = leave_in d user place (\<lambda>_. True) y)"
proof -
  let ?away = "absence_Between (us_ID user) (date first 1 1) (date year 12 31) (db_absences d)"
  let ?t = "\<lambda>y. sum_leave (\<lambda>x. works x \<and> x \<le> today) y ?away" and ?p = "\<lambda>y. sum_leave (\<lambda>x. works x \<and> x > today) y ?away"
  have v: "dated_valid absence_key (db_absences d)" using assms(1) by (simp add: db_valid_def)
  have "int (length ?away) \<le> 2958464" using between_few [OF v assms(2-4), of "us_ID user"] by simp
  then have "count_leave works today ?away (\<lambda>y. half ((\<lambda>_. 0) y), \<lambda>y. half ((\<lambda>_. 0) y)) = (\<lambda>y. half (0 + ?t y), \<lambda>y. half (0 + ?p y))"
    by (intro count_leave_exact) simp_all
  then have c: "count_leave works today ?away (\<lambda>_. Fin 0, \<lambda>_. Fin 0) = (\<lambda>y. half (?t y), \<lambda>y. half (?p y))"
    by (simp add: half_def)
  have exact: "sum_leave (\<lambda>x. works x \<and> P x) y ?away = leave_in d user place P y" if "first \<le> y" "y \<le> year" for P y
    unfolding leave_in_def using that works by (intro sum_away) auto
  have few: "sum_leave works y ?away \<le> 732" for y
  proof -
    have "distinct (map ab_day (filter (\<lambda>a. year_of (ab_day a) = y) ?away))"
      using between_distinct [OF v] by (rule distinct_map_filter)
    then have "length (filter (\<lambda>a. year_of (ab_day a) = y) ?away) \<le> 366" by (rule days_of_a_year [where y = y]) simp
    then show ?thesis using sum_leave_bounds(2) [of works y ?away] by linarith
  qed
  have each: "?t y = leave_in d user place (\<lambda>x. x \<le> today) y \<and> ?p y = leave_in d user place (\<lambda>x. x > today) y
      \<and> 0 \<le> ?t y \<and> 0 \<le> ?p y \<and> ?t y + ?p y \<le> 732 \<and> ?t y + ?p y = leave_in d user place (\<lambda>_. True) y"
    if y: "first \<le> y" "y \<le> year" for y
    using exact [OF y, of "\<lambda>x. x \<le> today"] exact [OF y, of "\<lambda>x. x > today"] exact [OF y, of "\<lambda>_. True"]
      few [of y] sum_leave_split [of works today y ?away]
      sum_leave_bounds(1) [of "\<lambda>x. works x \<and> x \<le> today" y ?away]
      sum_leave_bounds(1) [of "\<lambda>x. works x \<and> x > today" y ?away] by simp
  show ?thesis
    by (rule exI [of _ ?t], rule exI [of _ ?p], rule conjI, rule c, intro allI impI, rule each, erule conjunct1, erule conjunct2)
qed

lemma Year_exact:
  assumes "db_valid d" "half_entitlements d" "user_GetByID (db_roles d) u (db_users d) = Inr user"
    and "installation_place cal = Inr place" "1900 \<le> year" "year \<le> 9999"
    and es: "es = entitlement_ForUser u (db_entitlements d)" "es \<noteq> []" "ve_from_year (hd es) \<le> year"
  shows "Year e cal u year d = Inr \<lparr>va_Year = \<lparr>vy_Year = year, vy_Entitlement = half (given_in d user year),
        vy_CarriedOver = half (carried_into d user place (ve_from_year (hd es)) year), vy_Taken = half (leave_in d user place (\<lambda>x. x \<le> todayOf e cal user) year),
        vy_Planned = half (leave_in d user place (\<lambda>x. x > todayOf e cal user) year)\<rparr>, va_Entitlements = es\<rparr>
    \<and> \<bar>carried_into d user place (ve_from_year (hd es)) year\<bar> \<le> 18014398
    \<and> 0 \<le> leave_in d user place (\<lambda>x. x \<le> todayOf e cal user) year
    \<and> 0 \<le> leave_in d user place (\<lambda>x. x > todayOf e cal user) year
    \<and> leave_in d user place (\<lambda>x. x \<le> todayOf e cal user) year + leave_in d user place (\<lambda>x. x > todayOf e cal user) year
        = leave_in d user place (\<lambda>_. True) year
    \<and> leave_in d user place (\<lambda>_. True) year \<le> 732"
proof -
  let ?first = "ve_from_year (hd es)" and ?today = "todayOf e cal user"
  let ?h = "HolidaysBetween (HolidayPlaceOf (us_HolidayPlace user) place) (date ?first 1 1) (date year 12 31)"
  let ?works = "\<lambda>x. \<not> (?h x \<noteq> None \<or> fle (TargetOn x (schedule_ForUser u (db_schedules d)) (week_before user)) (Fin 0))"
  have id: "us_ID user = u" using account_at(1) [OF assms(1,3)] .
  have "hd es \<in> set es" using es(2) by simp
  then have first: "1900 \<le> ?first" using assms(2) by (auto simp: es(1) in_entitlements half_entitlements_def)
  have "?works x = would_work place d user x" if "?first \<le> year_of x" "year_of x \<le> year" for x
    using that in_years [OF es(3), of x] HolidaysBetween_local [of "date ?first 1 1" x "date year 12 31"]
    by (simp add: would_work_def id)
  from counted_leave [OF assms(1) first es(3) assms(6) this, of ?today]
  obtain t p where c: "count_leave ?works ?today (absence_Between u (date ?first 1 1) (date year 12 31) (db_absences d))
        (\<lambda>_. Fin 0, \<lambda>_. Fin 0) = (\<lambda>y. half (t y), \<lambda>y. half (p y))"
    and tp: "\<And>y. ?first \<le> y \<Longrightarrow> y \<le> year \<Longrightarrow> t y = leave_in d user place (\<lambda>x. x \<le> ?today) y
        \<and> p y = leave_in d user place (\<lambda>x. x > ?today) y
        \<and> 0 \<le> t y \<and> 0 \<le> p y \<and> t y + p y \<le> 732 \<and> t y + p y = leave_in d user place (\<lambda>_. True) y"
    unfolding id by blast
  note g = given_half [OF assms(2), of _ user, unfolded id, folded es(1)]
  have range: "\<forall>y \<in> set [?first..year - 1]. fst (EntitlementIn y es) = half (given_in d user y)
      \<and> 0 \<le> given_in d user y \<and> given_in d user y \<le> 732 \<and> 0 \<le> t y \<and> 0 \<le> p y \<and> t y + p y \<le> 732"
  proof
    fix y assume "y \<in> set [?first..year - 1]"
    then have "?first \<le> y" "y \<le> year" by simp_all
    from tp [OF this] g [of y] show "fst (EntitlementIn y es) = half (given_in d user y)
      \<and> 0 \<le> given_in d user y \<and> given_in d user y \<le> 732 \<and> 0 \<le> t y \<and> 0 \<le> p y \<and> t y + p y \<le> 732" by blast
  qed
  have k: "carry_over es (\<lambda>y. half (t y)) (\<lambda>y. half (p y)) [?first..year - 1] (half 0)
      = half (0 + (\<Sum>y\<leftarrow>[?first..year - 1]. given_in d user y - t y - p y))
    \<and> \<bar>0 + (\<Sum>y\<leftarrow>[?first..year - 1]. given_in d user y - t y - p y)\<bar> \<le> 18014398"
    using first es(3) assms(6) by (intro carry_exact [OF range]) simp
  have "given_in d user y - t y - p y = given_in d user y - leave_in d user place (\<lambda>_. True) y"
    if "y \<in> set [?first..year - 1]" for y
  proof -
    have "t y + p y = leave_in d user place (\<lambda>_. True) y" using that tp [of y] by simp
    then show ?thesis by simp
  qed
  then have "(\<Sum>y\<leftarrow>[?first..year - 1]. given_in d user y - t y - p y) = carried_into d user place ?first year"
    unfolding carried_into_def by (intro arg_cong [of _ _ sum_list] map_cong) auto
  with k have carried: "carry_over es (\<lambda>y. half (t y)) (\<lambda>y. half (p y)) [?first..year - 1] (Fin 0)
      = half (carried_into d user place ?first year)" "\<bar>carried_into d user place ?first year\<bar> \<le> 18014398"
    by (simp_all add: half_def)
  have place: "holidaysOf cal user (date ?first 1 1) (date year 12 31) = Inr ?h"
    using assms(4) by (simp add: holidaysOf_Inr)
  have settle: "settled (half (t year)) = half (t year)" "settled (half (p year)) = half (p year)"
    using tp [OF es(3)] by (auto intro!: settled_half)
  have "Year e cal u year d = Inr \<lparr>va_Year = \<lparr>vy_Year = year, vy_Entitlement = half (given_in d user year),
        vy_CarriedOver = half (carried_into d user place ?first year), vy_Taken = half (t year),
        vy_Planned = half (p year)\<rparr>, va_Entitlements = es\<rparr>"
    unfolding Year_def Let_def assms(3) bind_res_simps es(1) [symmetric] place
    using assms(5,6) es(2,3) c g settle by (simp add: carried(1) settled_half [OF carried(2)])
  then show ?thesis using tp [OF es(3)] carried(2) by (metis order_refl)
qed

text \<open>C25: leave is neither lost nor invented: where every entitlement is a whole number of half days,
  the taken and planned days of a year are exactly the leave recorded in it on days that are worked,
  split at today, and what remains of a year is exactly what the next year starts with.\<close>

theorem leave_carries_over:
  assumes "db_valid d" "half_entitlements d" "user_GetByID (db_roles d) u (db_users d) = Inr user"
    and "installation_place cal = Inr place" "1900 \<le> year" "year < 9999"
    and "entitlement_ForUser u (db_entitlements d) = first # rest" "ve_from_year first \<le> year"
  shows "\<exists>A B. Year e cal u year d = Inr A \<and> Year e cal u (year + 1) d = Inr B
    \<and> vy_CarriedOver (va_Year B) = Remaining (va_Year A)
    \<and> vy_Taken (va_Year A) = half (leave_in d user place (\<lambda>x. x \<le> todayOf e cal user) year)
    \<and> vy_Planned (va_Year A) = half (leave_in d user place (\<lambda>x. x > todayOf e cal user) year)"
proof -
  let ?es = "entitlement_ForUser u (db_entitlements d)" and ?G = "given_in d user year"
  let ?C = "carried_into d user place (ve_from_year first)"
  let ?t = "leave_in d user place (\<lambda>x. x \<le> todayOf e cal user) year"
  let ?p = "leave_in d user place (\<lambda>x. x > todayOf e cal user) year"
  have es: "?es \<noteq> []" "hd ?es = first" using assms(7) by simp_all
  note exact = Year_exact [OF assms(1-4) _ _ refl es(1), unfolded es(2)]
  have "year \<le> 9999" "1900 \<le> year + 1" "year + 1 \<le> 9999" "ve_from_year first \<le> year + 1" using assms(5,6,8) by simp_all
  note A = exact [OF assms(5) this(1) assms(8), of e] and B = exact [OF this(2-4), of e]
  have "[ve_from_year first..year] = [ve_from_year first..year - 1] @ [year]" using assms(8) by (rule upto_rec2)
  then have next_year: "?C (year + 1) = ?C year + (?G - leave_in d user place (\<lambda>_. True) year)"
    by (simp add: carried_into_def)
  have g: "0 \<le> ?G" "?G \<le> 732" using given_half [OF assms(2), of year user] by simp_all
  have small: "\<bar>x\<bar> < 2 ^ 53" if "\<bar>x\<bar> \<le> 20000000" for x :: int using that by simp
  have "\<bar>?G + ?C year\<bar> \<le> 20000000" "\<bar>?G + ?C year - ?t\<bar> \<le> 20000000" "\<bar>?G + ?C year - ?t - ?p\<bar> \<le> 20000000"
    using A g by linarith+
  then have "fsub (fsub (fadd (half ?G) (half (?C year))) (half ?t)) (half ?p) = half (?G + ?C year - ?t - ?p)"
    using small by (simp add: half_arith)
  also have "?G + ?C year - ?t - ?p = ?C (year + 1)" using next_year A by linarith
  finally have "fsub (fsub (fadd (half ?G) (half (?C year))) (half ?t)) (half ?p) = half (?C (year + 1))" .
  then show ?thesis using A B by (simp add: Remaining_def)
qed

definition sample_leave :: db where
  "sample_leave = sample_db
     \<lparr>db_entitlements := [\<lparr>ve_user = 1, ve_from_year = 2024, ve_days = half 60\<rparr>],
      db_absences := [\<lparr>ab_user = 1, ab_day = 20000, ab_kind = AbsenceVacation\<rparr>]\<rparr>"

theorem leave_carries_over_witness:
  "vy_CarriedOver (va_Year (projr (Year sample_env sample_calendar 1 2025 sample_leave)))
     = Remaining (va_Year (projr (Year sample_env sample_calendar 1 2024 sample_leave)))"
proof -
  have v: "db_valid sample_leave"
    using sample_valid by (simp add: db_valid_def sample_leave_def)
  have h: "half_entitlements sample_leave" by (auto simp: half_entitlements_def sample_leave_def)
  have u: "user_GetByID (db_roles sample_leave) 1 (db_users sample_leave) = Inr sample_user"
    by (simp add: user_GetByID_Inr sample_leave_def sample_user_at withRoleName_def)
      (simp add: sample_user_def blank_user_def)
  have p: "installation_place sample_calendar = Inr []" by (simp add: installation_place_def sample_calendar_def)
  have es: "entitlement_ForUser 1 (db_entitlements sample_leave) = [\<lparr>ve_user = 1, ve_from_year = 2024, ve_days = half 60\<rparr>]"
    by (simp add: entitlement_ForUser_def dated_for_def entitlement_key_def sample_leave_def)
  obtain A B where "Year sample_env sample_calendar 1 2024 sample_leave = Inr A"
    "Year sample_env sample_calendar 1 (2024 + 1) sample_leave = Inr B"
    "vy_CarriedOver (va_Year B) = Remaining (va_Year A)"
    using leave_carries_over [OF v h u p _ _ es, of 2024 sample_env] by auto
  then show ?thesis by simp
qed

end
