(* ===== verification/Access.thy ===== *)
theory Access
  imports Overtime
begin

text \<open>
  Who may do what: passwords and codes (\<^verbatim>\<open>support/security\<close>), the accounts and their rights
  (\<^verbatim>\<open>application/v1/service/auth_application_service.go\<close>), roles
  (\<^verbatim>\<open>role_application_service.go\<close>), accounts (\<^verbatim>\<open>user_application_service.go\<close>,
  \<^verbatim>\<open>domain/service/user_service.go\<close>, \<^verbatim>\<open>persistence/sqldb/purge.go\<close>) and managers
  (\<^verbatim>\<open>team_application_service.go\<close>).

  The cryptography the program calls - bcrypt, HMAC-SHA1, SHA-256, base32 and the random numbers of
  one request - is the record \<open>crypto\<close>, an argument of everything that uses it.
\<close>

section \<open>Passwords and codes\<close>

record crypto =
  bcrypt_hash :: "gostring \<Rightarrow> gostring"
  bcrypt_matches :: "gostring \<Rightarrow> gostring \<Rightarrow> bool"
  unmatched_hash :: gostring
  hmac_sha1 :: "gostring \<Rightarrow> gostring \<Rightarrow> gostring"
  base32_decode :: "gostring \<Rightarrow> gostring option"
  sha256_hex :: "gostring \<Rightarrow> gostring"
  fresh_token :: gostring
  fresh_secret :: gostring

datatype password_fault = PasswordTooShort | PasswordTooLong

definition MinPasswordLength :: nat where "MinPasswordLength = 8"
definition MaxPasswordLength :: nat where "MaxPasswordLength = 72"

text \<open>Lengths in bytes.\<close>

definition HashPassword :: "crypto \<Rightarrow> gostring \<Rightarrow> password_fault + gostring" where
  "HashPassword c password =
     (if length password < MinPasswordLength then Inl PasswordTooShort
      else if length password > MaxPasswordLength then Inl PasswordTooLong
      else Inr (bcrypt_hash c password))"

definition VerifyPassword :: "crypto \<Rightarrow> gostring \<Rightarrow> gostring \<Rightarrow> bool" where
  "VerifyPassword c hash password = bcrypt_matches c (if hash = [] then unmatched_hash c else hash) password"

definition HashToken :: "crypto \<Rightarrow> gostring \<Rightarrow> gostring" where
  "HashToken c token = sha256_hex c token"

definition big_endian :: "int \<Rightarrow> gostring" where
  "big_endian n = map (\<lambda>i. char_of (nat (n mod 2 ^ 64) div 256 ^ (7 - i) mod 256)) [0..<8]"

definition totpCode :: "crypto \<Rightarrow> gostring \<Rightarrow> int \<Rightarrow> gostring" where
  "totpCode c key counter =
     (let digest = hmac_sha1 c key (big_endian counter);
          offset = byte (last digest) mod 16;
          value = (byte (digest ! offset) mod 128) * 2 ^ 24 + byte (digest ! (offset + 1)) * 2 ^ 16
                  + byte (digest ! (offset + 2)) * 2 ^ 8 + byte (digest ! (offset + 3))
      in padded 6 (int (value mod 10 ^ 6)))"

fun first_match :: "(int \<Rightarrow> gostring) \<Rightarrow> gostring \<Rightarrow> int list \<Rightarrow> int option" where
  "first_match expected code [] = None"
| "first_match expected code (step # steps) =
     (if expected step = code then Some step else first_match expected code steps)"

definition MatchTOTP :: "env \<Rightarrow> crypto \<Rightarrow> gostring \<Rightarrow> gostring \<Rightarrow> int option" where
  "MatchTOTP e c secret code =
     (let code' = TrimSpace code
      in if length code' \<noteq> 6 then None
         else case base32_decode c (upper e (filter (\<lambda>x. x \<noteq> CHR '' '') secret)) of
                None \<Rightarrow> None
              | Some key \<Rightarrow>
                  let counter = tdiv (unix (now e)) 30
                  in first_match (totpCode c key) code' [counter - 1, counter, counter + 1])"

definition passwordError :: "password_fault \<Rightarrow> app_error" where
  "passwordError f = (case f of
     PasswordTooShort \<Rightarrow> WithCode Invalidf ''passwordTooShort'' [VUint MinPasswordLength]
   | PasswordTooLong \<Rightarrow> WithCode Invalidf ''passwordTooLong'' [VUint MaxPasswordLength])"

section \<open>Principals and the built-in administrator\<close>

definition SystemUserEmail :: gostring where "SystemUserEmail = ''admin@local''"
definition SystemUserName :: gostring where "SystemUserName = ''System Administrator''"
definition SystemUserPassword :: gostring where "SystemUserPassword = ''changeme123''"

definition Can :: "principal \<Rightarrow> gostring \<Rightarrow> bool" where
  "Can p permission \<longleftrightarrow> permission \<in> set (pp_Permissions p)"

definition principalFor :: "db \<Rightarrow> user \<Rightarrow> principal" where
  "principalFor d user =
     (case store_get (us_RoleID user) (db_roles d) of
        Inl _ \<Rightarrow> \<lparr>pp_User = Some user, pp_Role = None, pp_Permissions = []\<rparr>
      | Inr role \<Rightarrow> \<lparr>pp_User = Some user, pp_Role = Some role, pp_Permissions = ro_Permissions role\<rparr>)"

definition PrincipalByID :: "uint \<Rightarrow> db \<Rightarrow> principal result" where
  "PrincipalByID i d = bind_res (user_GetByID (db_roles d) i (db_users d)) (\<lambda>user. Inr (principalFor d user))"

definition normalizeEmail :: "env \<Rightarrow> gostring \<Rightarrow> gostring" where
  "normalizeEmail e email = lower e (TrimSpace email)"

text \<open>Writing an account back as the services do, dropping the account returned.\<close>

definition update_user :: "user \<Rightarrow> db \<Rightarrow> unit result \<times> db" where
  "update_user u d =
     (let (res, users) = user_Update (db_roles d) u (db_users d)
      in (bind_res res (\<lambda>_. Inr ()), d\<lparr>db_users := users\<rparr>))"

definition repairSystemUser :: "user \<Rightarrow> db \<Rightarrow> unit result \<times> db" where
  "repairSystemUser user d =
     (if us_IsSystem user \<and> \<not> us_IsExternal user \<and> us_ExternalID user = [] then (Inr (), d)
      else update_user (user\<lparr>us_IsSystem := True, us_IsExternal := False, us_ExternalID := []\<rparr>) d)"

definition EnsureSystemUser :: "env \<Rightarrow> crypto \<Rightarrow> db \<Rightarrow> bool result \<times> db" where
  "EnsureSystemUser e c d =
     (case user_GetByEmail (equal_fold e) (db_roles d) SystemUserEmail (db_users d) of
        Inr existing \<Rightarrow> let (res, d') = repairSystemUser existing d in (bind_res res (\<lambda>_. Inr False), d')
      | Inl _ \<Rightarrow>
          (case role_GetByName (equal_fold e) RoleAdmin (db_roles d) of
             Inl err \<Rightarrow> (Inl err, d)
           | Inr adminRole \<Rightarrow>
               (case HashPassword c SystemUserPassword of
                  Inl _ \<Rightarrow> (Inl Internal, d)
                | Inr hash \<Rightarrow>
                    let (res, users) = user_Save (db_roles d)
                          (blank_user\<lparr>us_Name := SystemUserName, us_Email := SystemUserEmail, us_RoleID := ro_ID adminRole,
                             us_PasswordHash := hash, us_MustChangePassword := True, us_IsSystem := True\<rparr>) (db_users d)
                    in (bind_res res (\<lambda>_. Inr True), d\<lparr>db_users := users\<rparr>))))"

definition SystemUserOpensWithInitialPassword :: "env \<Rightarrow> crypto \<Rightarrow> db \<Rightarrow> bool result" where
  "SystemUserOpensWithInitialPassword e c d =
     bind_res (user_GetByEmail (equal_fold e) (db_roles d) SystemUserEmail (db_users d)) (\<lambda>user.
       Inr (VerifyPassword c (us_PasswordHash user) SystemUserPassword))"

definition ChangePassword :: "crypto \<Rightarrow> uint \<Rightarrow> gostring \<Rightarrow> gostring \<Rightarrow> db \<Rightarrow> unit result \<times> db" where
  "ChangePassword c userID current replacement d =
     (case user_GetByID (db_roles d) userID (db_users d) of
        Inl err \<Rightarrow> (Inl err, d)
      | Inr user \<Rightarrow>
          if \<not> VerifyPassword c (us_PasswordHash user) current
          then (Inl (WithCode Invalidf ''wrongCurrentPassword'' []), d)
          else if current = replacement then (Inl (WithCode Invalidf ''passwordUnchanged'' []), d)
          else (case HashPassword c replacement of
                  Inl fault \<Rightarrow> (Inl (passwordError fault), d)
                | Inr hash \<Rightarrow> update_user (user\<lparr>us_PasswordHash := hash, us_MustChangePassword := False\<rparr>) d))"

definition SetPassword :: "crypto \<Rightarrow> uint \<Rightarrow> gostring \<Rightarrow> db \<Rightarrow> unit result \<times> db" where
  "SetPassword c userID replacement d =
     (case user_GetByID (db_roles d) userID (db_users d) of
        Inl err \<Rightarrow> (Inl err, d)
      | Inr user \<Rightarrow>
          if us_IsExternal user
          then (Inl (WithCode Conflictf ''directoryAccountReadOnly'' [VString (us_Email user)]), d)
          else (case HashPassword c replacement of
                  Inl fault \<Rightarrow> (Inl (passwordError fault), d)
                | Inr hash \<Rightarrow> update_user (user\<lparr>us_PasswordHash := hash, us_MustChangePassword := True\<rparr>) d))"

section \<open>Roles\<close>

fun join_strings :: "gostring \<Rightarrow> gostring list \<Rightarrow> gostring" where
  "join_strings sep [] = []"
| "join_strings sep [s] = s"
| "join_strings sep (s # ss) = s @ sep @ join_strings sep ss"

fun sift_rights :: "gostring list \<Rightarrow> gostring list \<times> gostring list \<Rightarrow> gostring list \<times> gostring list" where
  "sift_rights [] (unknown, clean) = (unknown, clean)"
| "sift_rights (p # ps) (unknown, clean) =
     (let permission = TrimSpace p
      in if permission = [] then sift_rights ps (unknown, clean)
         else if \<not> IsPermission permission then sift_rights ps (unknown @ [permission], clean)
         else if permission \<notin> set clean then sift_rights ps (unknown, clean @ [permission])
         else sift_rights ps (unknown, clean))"

definition validateRole :: "gostring \<Rightarrow> gostring list \<Rightarrow> gostring list result" where
  "validateRole name permissions =
     (if TrimSpace name = [] \<or> TooLong name MaxRoleNameLength then Inl (InvalidFields [''name''])
      else let (unknown, clean) = sift_rights permissions ([], [])
           in if unknown \<noteq> []
              then Inl (WithCode Invalidf ''unknownPermissions'' [VString (join_strings '', '' unknown)])
              else if clean = [] then Inl (WithCode Invalidf ''roleGrantsNothing'' [])
              else Inr clean)"

definition grantsAtLeast :: "gostring list \<Rightarrow> gostring list \<Rightarrow> bool" where
  "grantsAtLeast granted required \<longleftrightarrow> list_all (\<lambda>p. p \<in> set granted) required"

definition sameRights :: "gostring list \<Rightarrow> gostring list \<Rightarrow> bool" where
  "sameRights a b \<longleftrightarrow> length a = length b \<and> grantsAtLeast a b \<and> grantsAtLeast b a"

definition ListRoles :: "db \<Rightarrow> role list" where
  "ListRoles d = store_all (db_roles d)"

definition GetRole :: "uint \<Rightarrow> db \<Rightarrow> role result" where
  "GetRole i d = (if i = 0 then Inl (InvalidFields [''id'']) else store_get i (db_roles d))"

definition CreateRole :: "gostring \<Rightarrow> gostring \<Rightarrow> gostring list \<Rightarrow> db \<Rightarrow> role result \<times> db" where
  "CreateRole name description permissions d =
     (case validateRole name permissions of
        Inl err \<Rightarrow> (Inl err, d)
      | Inr clean \<Rightarrow>
          let (stored, roles) = role_Save
                \<lparr>ro_ID = 0, ro_Name = TrimSpace name, ro_Description = TrimSpace description, ro_IsSystem = False,
                 ro_Permissions = clean\<rparr> (db_roles d)
          in (Inr stored, d\<lparr>db_roles := roles\<rparr>))"

definition shipped_unchanged :: "role \<Rightarrow> gostring option \<Rightarrow> gostring option \<Rightarrow> gostring list option \<Rightarrow> unit result" where
  "shipped_unchanged role name description permissions =
     (if \<not> IsDefault role then Inr ()
      else if (case name of None \<Rightarrow> False | Some n \<Rightarrow> n \<noteq> ro_Name role)
      then Inl (WithCode Conflictf ''systemRoleUnrenamable'' [VString (ro_Name role)])
      else if (case permissions of None \<Rightarrow> False | Some ps \<Rightarrow> \<not> sameRights ps (ro_Permissions role))
      then Inl (WithCode Conflictf ''systemRoleRightsFixed'' [VString (ro_Name role)])
      else if (case description of None \<Rightarrow> False | Some t \<Rightarrow> TrimSpace t \<noteq> ro_Description role)
      then Inl (WithCode Conflictf ''systemRoleDescriptionFixed'' [VString (ro_Name role)])
      else Inr ())"

definition edited_role ::
  "uint \<Rightarrow> gostring option \<Rightarrow> gostring option \<Rightarrow> gostring list option \<Rightarrow> db \<Rightarrow> role result" where
  "edited_role i name description permissions d =
     (if i = 0 then Inl (InvalidFields [''id''])
      else bind_res (store_get i (db_roles d)) (\<lambda>role.
           bind_res (shipped_unchanged role name description permissions) (\<lambda>_.
           let named = role\<lparr>ro_Name := (case name of None \<Rightarrow> ro_Name role | Some n \<Rightarrow> TrimSpace n),
                            ro_Description := (case description of None \<Rightarrow> ro_Description role | Some t \<Rightarrow> TrimSpace t)\<rparr>
           in bind_res (case permissions of None \<Rightarrow> Inr (ro_Permissions named)
                        | Some ps \<Rightarrow> validateRole (ro_Name named) ps) (\<lambda>clean.
              if ro_Name named = [] then Inl (InvalidFields [''name''])
              else Inr (named\<lparr>ro_Permissions := clean\<rparr>)))))"

definition UpdateRole ::
  "uint \<Rightarrow> gostring option \<Rightarrow> gostring option \<Rightarrow> gostring list option \<Rightarrow> db \<Rightarrow> role result \<times> db" where
  "UpdateRole i name description permissions d =
     (case edited_role i name description permissions d of
        Inl err \<Rightarrow> (Inl err, d)
      | Inr role \<Rightarrow> let (res, roles) = role_Update role (db_roles d) in (res, d\<lparr>db_roles := roles\<rparr>))"

definition DeleteRole :: "uint \<Rightarrow> db \<Rightarrow> unit result \<times> db" where
  "DeleteRole i d =
     (if i = 0 then (Inl (InvalidFields [''id'']), d)
      else case store_get i (db_roles d) of
             Inl err \<Rightarrow> (Inl err, d)
           | Inr role \<Rightarrow>
               if ro_IsSystem role then (Inl (WithCode Conflictf ''systemRoleUndeletable'' [VString (ro_Name role)]), d)
               else if IsDefault role
               then (Inl (WithCode Conflictf ''defaultRoleUndeletable'' [VString (ro_Name role)]), d)
               else let inUse = CountUsers (db_roles d) (db_users d) i
                    in if inUse > 0
                       then (Inl (WithCode Conflictf ''roleStillAssigned'' [VString (ro_Name role), VUint inUse]), d)
                       else let (res, roles) = role_Delete i (db_roles d) in (res, d\<lparr>db_roles := roles\<rparr>))"

end
