(* ===== verification/People.thy ===== *)
theory People
  imports Access
begin

text \<open>
  The accounts of an installation: \<^verbatim>\<open>application/v1/service/user_application_service.go\<close> with
  the rule of \<^verbatim>\<open>domain/service/user_service.go\<close> and the removal of
  \<^verbatim>\<open>persistence/sqldb/purge.go\<close>, and the managers of
  \<^verbatim>\<open>team_application_service.go\<close>.

  \<open>site\<close> is the repositories with the signed-in sessions, the settings and the second-factor
  steps already used.  The purge is a transaction over the tables; here it is one step over the
  repositories the model has.
\<close>

record session =
  se_TokenHash :: gostring
  se_UserID :: uint
  se_CreatedAt :: gotime
  se_ExpiresAt :: gotime
  se_LastSeenAt :: gotime

record site =
  site_db :: db
  site_sessions :: "(gostring \<times> session) list"
  site_settings :: "(gostring \<times> gostring) list"
  site_spent :: "(uint \<times> int) list"

section \<open>Commands and results\<close>

record create_user =
  cu_Name :: gostring
  cu_Email :: gostring
  cu_Role :: gostring
  cu_Password :: gostring

record update_user_command =
  uu_ID :: uint
  uu_Name :: "gostring option"
  uu_Email :: "gostring option"
  uu_Role :: "gostring option"

record working_times =
  wt_ID :: uint
  wt_DailyTargetHours :: "float64 option"
  wt_MaxDailyHours :: "float64 option"
  wt_EveryDayCountsFrom :: "gotime option"
  wt_ClearEveryDayCountsFrom :: bool

record user_result =
  ur_ID :: uint
  ur_Name :: gostring
  ur_Email :: gostring
  ur_RoleID :: uint
  ur_Role :: gostring
  ur_IsSystem :: bool
  ur_MustChangePassword :: bool
  ur_IsExternal :: bool
  ur_TOTPEnabled :: bool
  ur_Language :: gostring
  ur_EffectiveLanguage :: gostring
  ur_Timezone :: gostring
  ur_Theme :: gostring
  ur_TourSeen :: bool
  ur_DailyTargetHours :: float64
  ur_MaxDailyHours :: float64
  ur_EveryDayCountsFrom :: "day option"

definition NewUserResultFromModel :: "user \<Rightarrow> user_result" where
  "NewUserResultFromModel u =
     \<lparr>ur_ID = us_ID u, ur_Name = us_Name u, ur_Email = us_Email u, ur_RoleID = us_RoleID u, ur_Role = us_RoleName u,
      ur_IsSystem = us_IsSystem u, ur_MustChangePassword = us_MustChangePassword u, ur_IsExternal = us_IsExternal u,
      ur_TOTPEnabled = us_TOTPEnabled u, ur_Language = us_Language u, ur_EffectiveLanguage = EffectiveLanguage u,
      ur_Timezone = us_Timezone u, ur_Theme = us_Theme u, ur_TourSeen = us_TourSeen u,
      ur_DailyTargetHours = us_DailyTargetHours u, ur_MaxDailyHours = us_MaxDailyHours u,
      ur_EveryDayCountsFrom = us_EveryDayCountsFrom u\<rparr>"

section \<open>Validation\<close>

text \<open>The pattern \<^verbatim>\<open>^[^@\s]+@[^@\s.]+(\.[^@\s]+)?$\<close>: something before the only
  \<^verbatim>\<open>@\<close>, and after it a label, alone or followed by a dot and more.\<close>

definition blank_char :: "char \<Rightarrow> bool" where
  "blank_char c \<longleftrightarrow> byte c \<in> {9, 10, 12, 13, 32}"

definition validEmail :: "gostring \<Rightarrow> bool" where
  "validEmail email =
     (let s = TrimSpace email; (before, after, found) = cut_at (CHR ''@'') s;
          (label, rest, dotted) = cut_at (CHR ''.'') after
      in found \<and> CHR ''@'' \<notin> set after \<and> \<not> list_ex blank_char s \<and> before \<noteq> [] \<and> label \<noteq> []
         \<and> (dotted \<longrightarrow> rest \<noteq> []))"

definition validateUser :: "gostring \<Rightarrow> gostring \<Rightarrow> unit result" where
  "validateUser name email = refuse_fields
     (field_if (TrimSpace name = [] \<or> TooLong name MaxNameLength) ''name''
      @ field_if (\<not> validEmail email \<or> TooLong email MaxEmailLength) ''email'')"

definition validateWorkingTimes :: "float64 \<Rightarrow> float64 \<Rightarrow> unit result" where
  "validateWorkingTimes target maxDaily =
     (let invalid = field_if (fless target (Fin 0) \<or> fless (Fin 24) target) ''dailyTargetHours''
                    @ field_if (fless maxDaily (Fin 0) \<or> fless (Fin 24) maxDaily) ''maxDailyHours''
      in if invalid = [] \<and> fless (Fin 0) target \<and> fless (Fin 0) maxDaily \<and> fless maxDaily target
         then Inl (WithCode Invalidf ''targetOverMaximum'' [VFloat target, VFloat maxDaily])
         else refuse_fields invalid)"

text \<open>A window of a listing; an index below zero, which a product past 64 bits can give, panics and
  answers as an internal error.\<close>

definition to_int :: "int \<Rightarrow> int" where
  "to_int n = (n + 2 ^ 63) mod 2 ^ 64 - 2 ^ 63"

definition paginate :: "'a list \<Rightarrow> int \<Rightarrow> int \<Rightarrow> 'a list result" where
  "paginate items pg limit =
     (if limit \<le> 0 then Inr items
      else let pg' = (if pg \<le> 0 then 1 else pg); start = to_int ((pg' - 1) * limit)
           in if start \<ge> int (length items) then Inr []
              else let end = min (to_int (start + limit)) (int (length items))
                   in if 0 \<le> start \<and> start \<le> end then Inr (take (nat (end - start)) (drop (nat start) items))
                      else Inl Internal)"

section \<open>Accounts\<close>

definition resolveRole :: "env \<Rightarrow> db \<Rightarrow> gostring \<Rightarrow> role result" where
  "resolveRole e d name =
     (let name' = (if TrimSpace name = [] then RoleUser else TrimSpace name)
      in case role_GetByName (equal_fold e) name' (db_roles d) of
           Inl _ \<Rightarrow> Inl (InvalidFields [''role'']) | Inr role \<Rightarrow> Inr role)"

definition new_account :: "env \<Rightarrow> crypto \<Rightarrow> create_user \<Rightarrow> db \<Rightarrow> user result" where
  "new_account e c cmd d =
     bind_res (validateUser (cu_Name cmd) (cu_Email cmd)) (\<lambda>_.
     bind_res (resolveRole e d (cu_Role cmd)) (\<lambda>role.
     let mustChange = (cu_Password cmd = []);
         password = (if mustChange then SystemUserPassword else cu_Password cmd)
     in case HashPassword c password of
          Inl fault \<Rightarrow> Inl (passwordError fault)
        | Inr hash \<Rightarrow> Inr (blank_user\<lparr>us_Name := cu_Name cmd, us_Email := normalizeEmail e (cu_Email cmd),
              us_RoleID := ro_ID role, us_PasswordHash := hash, us_MustChangePassword := mustChange\<rparr>)))"

definition CreateUser :: "env \<Rightarrow> crypto \<Rightarrow> create_user \<Rightarrow> db \<Rightarrow> user_result result \<times> db" where
  "CreateUser e c cmd d =
     (case new_account e c cmd d of
        Inl err \<Rightarrow> (Inl err, d)
      | Inr account \<Rightarrow>
          let (res, users) = user_Save (db_roles d) account (db_users d)
          in (bind_res res (\<lambda>u. Inr (NewUserResultFromModel u)), d\<lparr>db_users := users\<rparr>))"

definition GetUser :: "uint \<Rightarrow> db \<Rightarrow> user_result result" where
  "GetUser i d =
     (if i = 0 then Inl (InvalidFields [''id''])
      else bind_res (user_GetByID (db_roles d) i (db_users d)) (\<lambda>u. Inr (NewUserResultFromModel u)))"

definition ListUsers :: "int \<Rightarrow> int \<Rightarrow> db \<Rightarrow> (user_result list \<times> uint) result" where
  "ListUsers pg limit d =
     (let users = user_GetAll (db_roles d) (db_users d)
      in bind_res (paginate users pg limit) (\<lambda>window. Inr (map NewUserResultFromModel window, length users)))"

definition directory_owned :: "env \<Rightarrow> update_user_command \<Rightarrow> user \<Rightarrow> unit result" where
  "directory_owned e cmd u =
     (if us_IsExternal u \<and> ((case uu_Name cmd of None \<Rightarrow> False | Some n \<Rightarrow> n \<noteq> us_Name u)
           \<or> (case uu_Email cmd of None \<Rightarrow> False | Some m \<Rightarrow> normalizeEmail e m \<noteq> us_Email u))
      then Inl (WithCode Conflictf ''directoryAccountReadOnly'' [VString (us_Email u)]) else Inr ())"

text \<open>The built-in administrator keeps a role that can still administer.\<close>

definition may_hold :: "user \<Rightarrow> role \<Rightarrow> unit result" where
  "may_hold u role =
     (if us_IsSystem u \<and> \<not> Has role PermRoleWrite
      then Inl (WithCode Conflictf ''adminRoleMustAdminister'' [VString (ro_Name role), VString PermRoleWrite])
      else Inr ())"

definition edited_account :: "env \<Rightarrow> update_user_command \<Rightarrow> db \<Rightarrow> user result" where
  "edited_account e cmd d =
     (if uu_ID cmd = 0 then Inl (InvalidFields [''id''])
      else bind_res (user_GetByID (db_roles d) (uu_ID cmd) (db_users d)) (\<lambda>existing.
           bind_res (directory_owned e cmd existing) (\<lambda>_.
           let renamed = existing\<lparr>us_Name := (case uu_Name cmd of None \<Rightarrow> us_Name existing | Some n \<Rightarrow> n),
                  us_Email := (case uu_Email cmd of None \<Rightarrow> us_Email existing | Some m \<Rightarrow> normalizeEmail e m)\<rparr>
           in bind_res (case uu_Role cmd of
                          None \<Rightarrow> Inr renamed
                        | Some name \<Rightarrow> bind_res (resolveRole e d name) (\<lambda>role.
                            bind_res (may_hold existing role) (\<lambda>_. Inr (renamed\<lparr>us_RoleID := ro_ID role\<rparr>)))) (\<lambda>moved.
              bind_res (validateUser (us_Name moved) (us_Email moved)) (\<lambda>_. Inr moved)))))"

definition write_account :: "user \<Rightarrow> db \<Rightarrow> user_result result \<times> db" where
  "write_account u d =
     (let (res, users) = user_Update (db_roles d) u (db_users d)
      in (bind_res res (\<lambda>v. Inr (NewUserResultFromModel v)), d\<lparr>db_users := users\<rparr>))"

definition UpdateUser :: "env \<Rightarrow> update_user_command \<Rightarrow> db \<Rightarrow> user_result result \<times> db" where
  "UpdateUser e cmd d =
     (case edited_account e cmd d of Inl err \<Rightarrow> (Inl err, d) | Inr u \<Rightarrow> write_account u d)"

definition retimed_account :: "working_times \<Rightarrow> db \<Rightarrow> user result" where
  "retimed_account cmd d =
     (if wt_ID cmd = 0 then Inl (InvalidFields [''id''])
      else bind_res (user_GetByID (db_roles d) (wt_ID cmd) (db_users d)) (\<lambda>user.
           let timed = user\<lparr>us_DailyTargetHours := (case wt_DailyTargetHours cmd of None \<Rightarrow> us_DailyTargetHours user | Some h \<Rightarrow> h),
                  us_MaxDailyHours := (case wt_MaxDailyHours cmd of None \<Rightarrow> us_MaxDailyHours user | Some h \<Rightarrow> h)\<rparr>
           in bind_res (if wt_ClearEveryDayCountsFrom cmd then Inr (timed\<lparr>us_EveryDayCountsFrom := None\<rparr>)
                        else case wt_EveryDayCountsFrom cmd of
                               None \<Rightarrow> Inr timed
                             | Some t \<Rightarrow> if \<not> OnTheCalendar t then Inl (InvalidFields [''everyDayCountsFrom''])
                                         else Inr (timed\<lparr>us_EveryDayCountsFrom := Some (CalendarDay t)\<rparr>)) (\<lambda>counted.
              bind_res (validateWorkingTimes (us_DailyTargetHours counted) (us_MaxDailyHours counted)) (\<lambda>_.
              Inr counted))))"

definition UpdateWorkingTimes :: "working_times \<Rightarrow> db \<Rightarrow> user_result result \<times> db" where
  "UpdateWorkingTimes cmd d =
     (case retimed_account cmd d of Inl err \<Rightarrow> (Inl err, d) | Inr u \<Rightarrow> write_account u d)"

definition AssignRoleToUser :: "env \<Rightarrow> uint \<Rightarrow> gostring \<Rightarrow> db \<Rightarrow> user result \<times> db" where
  "AssignRoleToUser e userID roleName d =
     (case bind_res (user_GetByID (db_roles d) userID (db_users d)) (\<lambda>user.
           bind_res (role_GetByName (equal_fold e) roleName (db_roles d)) (\<lambda>role.
           bind_res (may_hold user role) (\<lambda>_. Inr (user\<lparr>us_RoleID := ro_ID role\<rparr>)))) of
        Inl err \<Rightarrow> (Inl err, d)
      | Inr moved \<Rightarrow> let (res, users) = user_Update (db_roles d) moved (db_users d) in (res, d\<lparr>db_users := users\<rparr>))"

section \<open>Removing an account\<close>

definition without_user :: "uint \<Rightarrow> db \<Rightarrow> db" where
  "without_user u d = d
     \<lparr>db_timers := AList.delete u (db_timers d),
      db_timesheets := (db_timesheets d)
        \<lparr>tr_revisions := filter (\<lambda>r. rv_UserID r \<noteq> u) (tr_revisions (db_timesheets d)),
         tr_store := (tr_store (db_timesheets d))
           \<lparr>st_items := filter (\<lambda>(_, t). ts_UserID t \<noteq> u) (st_items (tr_store (db_timesheets d)))\<rparr>\<rparr>,
      db_projects := (db_projects d)
        \<lparr>st_items := filter (\<lambda>(_, p). pr_OwnerID p \<noteq> Some u) (st_items (db_projects d))\<rparr>,
      db_schedules := filter (\<lambda>s. ws_user s \<noteq> u) (db_schedules d),
      db_absences := filter (\<lambda>a. ab_user a \<noteq> u) (db_absences d),
      db_entitlements := filter (\<lambda>v. ve_user v \<noteq> u) (db_entitlements d),
      db_workdays := filter (\<lambda>w. wd_user w \<noteq> u) (db_workdays d),
      db_managers := filter (\<lambda>(v, ms). v \<noteq> u \<and> ms \<noteq> [])
        (map (\<lambda>(v, ms). (v, filter (\<lambda>m. m \<noteq> u) ms)) (db_managers d))\<rparr>"

text \<open>The transaction: everything of the account and then the account, or nothing.\<close>

definition PurgeUser :: "uint \<Rightarrow> site \<Rightarrow> unit result \<times> site" where
  "PurgeUser u s =
     (case user_Delete u (db_users (site_db s)) of
        (Inl err, _) \<Rightarrow> (Inl (NotFound ''user'' (format_uint u)), s)
      | (Inr _, users) \<Rightarrow>
          (Inr (), s\<lparr>site_db := (without_user u (site_db s))\<lparr>db_users := users\<rparr>,
                     site_sessions := filter (\<lambda>(_, x). se_UserID x \<noteq> u) (site_sessions s)\<rparr>))"

definition DeleteUser :: "env \<Rightarrow> uint \<Rightarrow> bool \<Rightarrow> site \<Rightarrow> unit result \<times> site" where
  "DeleteUser e i purge s =
     (if i = 0 then (Inl (InvalidFields [''id'']), s)
      else case user_GetByID (db_roles (site_db s)) i (db_users (site_db s)) of
             Inl err \<Rightarrow> (Inl err, s)
           | Inr user \<Rightarrow>
               if us_IsSystem user then (Inl (WithCode Conflictf ''adminUndeletable'' []), s)
               else if us_IsExternal user
               then (Inl (WithCode Conflictf ''directoryAccountUndeletable'' [VString (us_Email user)]), s)
               else let entries = ts_CountByFilter (lower e) (all_of i) (db_timesheets (site_db s))
                    in if entries > 0 \<and> \<not> purge
                       then (Inl (WithCode Conflictf ''deletionNeedsConfirming'' [VString (us_Email user), VUint entries]), s)
                       else PurgeUser i s)"

end
