(* ===== verification/Teams.thy ===== *)
theory Teams
  imports People
begin

text \<open>
  Managers: \<^verbatim>\<open>application/v1/service/team_application_service.go\<close>.  A caller acts for another
  account where the installation has managers, the caller's role holds the team right asked about and
  an administrator assigned that account to them.
\<close>

definition SettingManagers :: gostring where "SettingManagers = ''instance.managers''"

definition setting :: "gostring \<Rightarrow> site \<Rightarrow> gostring" where
  "setting key s = (case map_of (site_settings s) key of None \<Rightarrow> [] | Some v \<Rightarrow> v)"

definition set_setting :: "gostring \<Rightarrow> gostring \<Rightarrow> site \<Rightarrow> site" where
  "set_setting key v s = s\<lparr>site_settings := AList.update key v (site_settings s)\<rparr>"

record team_member =
  tm_ID :: uint
  tm_Name :: gostring
  tm_Rights :: "gostring list"

definition Enabled :: "site \<Rightarrow> bool" where
  "Enabled s \<longleftrightarrow> setting SettingManagers s = ''true''"

definition SetEnabled :: "bool \<Rightarrow> site \<Rightarrow> site" where
  "SetEnabled on s = set_setting SettingManagers (if on then ''true'' else []) s"

definition Reaches :: "principal option \<Rightarrow> uint \<Rightarrow> gostring \<Rightarrow> site \<Rightarrow> bool" where
  "Reaches caller userID permission s =
     (case caller of
        None \<Rightarrow> False
      | Some p \<Rightarrow> (case pp_User p of
          None \<Rightarrow> False
        | Some u \<Rightarrow>
            if us_ID u = userID \<or> permission \<notin> set TeamPermissions \<or> \<not> Can p permission then False
            else if \<not> Enabled s then False
            else userID \<in> set (MembersOf (us_ID u) (db_managers (site_db s)))))"

fun Member :: "principal option \<Rightarrow> uint \<Rightarrow> gostring list \<Rightarrow> site \<Rightarrow> user option result" where
  "Member caller userID [] s = Inr None"
| "Member caller userID (right # rights) s =
     (if Reaches caller userID right s
      then bind_res (user_GetByID (db_roles (site_db s)) userID (db_users (site_db s))) (\<lambda>u. Inr (Some u))
      else Member caller userID rights s)"

text \<open>The caller is a signed-in principal, so it has an account.\<close>

definition caller_id :: "principal \<Rightarrow> uint" where
  "caller_id p = (case pp_User p of None \<Rightarrow> 0 | Some u \<Rightarrow> us_ID u)"

definition ProjectActor :: "principal \<Rightarrow> uint \<Rightarrow> gostring list \<Rightarrow> site \<Rightarrow> uint result" where
  "ProjectActor caller projectID rights s =
     (case store_get projectID (db_projects (site_db s)) of
        Inl err \<Rightarrow> if err_kind err = KindNotFound then Inr (caller_id caller) else Inl err
      | Inr project \<Rightarrow>
          (case pr_OwnerID project of
             None \<Rightarrow> Inr (caller_id caller)
           | Some ownerID \<Rightarrow> bind_res (Member (Some caller) ownerID rights s) (\<lambda>owner.
               case owner of None \<Rightarrow> Inr (caller_id caller) | Some u \<Rightarrow> Inr (us_ID u))))"

definition teamRightsIn :: "gostring list \<Rightarrow> gostring list" where
  "teamRightsIn permissions = filter (\<lambda>r. r \<in> set permissions) TeamPermissions"

definition rightsOf :: "site \<Rightarrow> user \<Rightarrow> gostring list result" where
  "rightsOf s user =
     (if us_RoleID user = 0 then Inr []
      else case store_get (us_RoleID user) (db_roles (site_db s)) of
             Inl err \<Rightarrow> if err_kind err = KindNotFound then Inr [] else Inl err
           | Inr role \<Rightarrow> Inr (teamRightsIn (ro_Permissions role)))"

definition member_le :: "team_member \<Rightarrow> team_member \<Rightarrow> bool" where
  "member_le a b \<longleftrightarrow> tm_Name a \<noteq> tm_Name b \<and> string_le (tm_Name a) (tm_Name b) \<or> tm_Name a = tm_Name b \<and> tm_ID a \<le> tm_ID b"

fun named_members :: "(user \<Rightarrow> gostring list result) \<Rightarrow> site \<Rightarrow> uint list \<Rightarrow> team_member list result" where
  "named_members rights s [] = Inr []"
| "named_members rights s (i # ids) =
     (case user_GetByID (db_roles (site_db s)) i (db_users (site_db s)) of
        Inl err \<Rightarrow> if err_kind err = KindNotFound then named_members rights s ids else Inl err
      | Inr user \<Rightarrow> bind_res (rights user) (\<lambda>held.
          bind_res (named_members rights s ids) (\<lambda>others.
          Inr (\<lparr>tm_ID = us_ID user, tm_Name = us_Name user, tm_Rights = held\<rparr> # others))))"

definition team_named :: "(user \<Rightarrow> gostring list result) \<Rightarrow> site \<Rightarrow> uint list \<Rightarrow> team_member list result" where
  "team_named rights s ids = bind_res (named_members rights s ids) (\<lambda>members. Inr (sort_by member_le members))"

definition Team :: "principal \<Rightarrow> site \<Rightarrow> team_member list result" where
  "Team caller s =
     (let rights = teamRightsIn (pp_Permissions caller)
      in if \<not> Enabled s \<or> rights = [] then Inr []
         else team_named (\<lambda>_. Inr rights) s (MembersOf (caller_id caller) (db_managers (site_db s))))"

definition TeamManagersOf :: "uint \<Rightarrow> site \<Rightarrow> team_member list result" where
  "TeamManagersOf userID s =
     (if \<not> Enabled s then Inr []
      else team_named (rightsOf s) s (ManagersOf userID (db_managers (site_db s))))"

definition ManagerIDsOf :: "uint \<Rightarrow> site \<Rightarrow> uint list" where
  "ManagerIDsOf userID s = ManagersOf userID (db_managers (site_db s))"

definition may_manage :: "site \<Rightarrow> uint \<Rightarrow> uint \<Rightarrow> unit result" where
  "may_manage s userID managerID =
     (if managerID = userID then Inl (WithCode Invalidf ''selfManaged'' [])
      else bind_res (user_GetByID (db_roles (site_db s)) managerID (db_users (site_db s))) (\<lambda>manager.
           bind_res (rightsOf s manager) (\<lambda>rights.
           if rights = [] then Inl (WithCode Invalidf ''notAManager'' [VString (us_Name manager)]) else Inr ())))"

definition TeamSetManagers :: "uint \<Rightarrow> uint list \<Rightarrow> site \<Rightarrow> unit result \<times> site" where
  "TeamSetManagers userID managerIDs s =
     (let managers = remdups_adj (sort managerIDs)
      in case bind_res (user_GetByID (db_roles (site_db s)) userID (db_users (site_db s))) (\<lambda>_.
              each_res (may_manage s userID) managers) of
           Inl err \<Rightarrow> (Inl err, s)
         | Inr _ \<Rightarrow> (Inr (), s\<lparr>site_db := (site_db s)
             \<lparr>db_managers := managed_SetManagers userID managers (db_managers (site_db s))\<rparr>\<rparr>))"

end
