(* ===== verification/SignIn.thy ===== *)
theory SignIn
  imports Teams
begin

text \<open>
  Signing in and staying signed in: \<^verbatim>\<open>application/v1/service/session_application_service.go\<close>, the
  accounts a directory brings (\<^verbatim>\<open>directory_account.go\<close>, \<^verbatim>\<open>directory_role.go\<close>), the sessions
  (\<^verbatim>\<open>domain/model/session_model.go\<close>, \<^verbatim>\<open>persistence/memory/memory.go\<close>) and the limits in
  force (\<^verbatim>\<open>limits_provider.go\<close>).

  A directory is a function from an address and a password to its answer; a Go duration is a number of
  nanoseconds.
\<close>

section \<open>Sessions\<close>

definition Expired :: "session \<Rightarrow> gotime \<Rightarrow> bool" where
  "Expired x t \<longleftrightarrow> \<not> ns t < ns (se_ExpiresAt x)"

definition Idle :: "session \<Rightarrow> gotime \<Rightarrow> int \<Rightarrow> bool" where
  "Idle x t timeout = (if timeout \<le> 0 then False else time_sub t (se_LastSeenAt x) > timeout)"

type_synonym sessions = "(gostring \<times> session) list"

definition session_Save :: "session \<Rightarrow> sessions \<Rightarrow> sessions" where
  "session_Save x r = AList.update (se_TokenHash x) x r"

definition session_Get :: "gostring \<Rightarrow> sessions \<Rightarrow> session result" where
  "session_Get h r = (case map_of r h of None \<Rightarrow> Inl (NotFound ''session'' h) | Some x \<Rightarrow> Inr x)"

definition session_Touch :: "gostring \<Rightarrow> gotime \<Rightarrow> sessions \<Rightarrow> unit result \<times> sessions" where
  "session_Touch h t r =
     (case map_of r h of
        None \<Rightarrow> (Inl (NotFound ''session'' h), r)
      | Some x \<Rightarrow> (Inr (), AList.update h (x\<lparr>se_LastSeenAt := t\<rparr>) r))"

definition session_Delete :: "gostring \<Rightarrow> sessions \<Rightarrow> sessions" where
  "session_Delete h r = AList.delete h r"

definition session_DeleteForUser :: "uint \<Rightarrow> sessions \<Rightarrow> sessions" where
  "session_DeleteForUser u r = filter (\<lambda>(_, x). se_UserID x \<noteq> u) r"

definition session_DeleteForUserExcept :: "uint \<Rightarrow> gostring \<Rightarrow> sessions \<Rightarrow> sessions" where
  "session_DeleteForUserExcept u keep r = filter (\<lambda>(h, x). \<not> (se_UserID x = u \<and> h \<noteq> keep)) r"

definition session_DeleteExpired :: "gotime \<Rightarrow> sessions \<Rightarrow> nat \<times> sessions" where
  "session_DeleteExpired t r =
     (length (filter (\<lambda>(_, x). Expired x t) r), filter (\<lambda>(_, x). \<not> Expired x t) r)"

section \<open>The limits in force\<close>

record limits_provider =
  lp_fallback :: limits
  lp_cached :: limits
  lp_fetched :: gotime

definition limitsTTL :: int where "limitsTTL = 10 * 10 ^ 9"

text \<open>\<^verbatim>\<open>Limits\<close>: the answer with the provider as it leaves it.  \<open>stored\<close> is what the settings
  answer when asked.\<close>

definition Limits :: "gotime \<Rightarrow> operational result \<Rightarrow> limits_provider \<Rightarrow> limits \<times> limits_provider" where
  "Limits t stored p =
     (if time_sub t (lp_fetched p) < limitsTTL then (lp_cached p, p)
      else case stored of
             Inl _ \<Rightarrow> (lp_cached p, p\<lparr>lp_fetched := t\<rparr>)
           | Inr operational \<Rightarrow>
               let resolved = Resolve operational (lp_fallback p)
               in (resolved, p\<lparr>lp_cached := resolved, lp_fetched := t\<rparr>))"

definition Invalidate :: "limits_provider \<Rightarrow> limits_provider" where
  "Invalidate p = p\<lparr>lp_fetched := zero_time\<rparr>"

text \<open>\<^verbatim>\<open>time.Duration(x)\<close> of a float; out of range is the implementation's choice.\<close>

definition to_duration :: "float64 \<Rightarrow> int" where
  "to_duration x = (case to_int64 x of None \<Rightarrow> - (2 ^ 63) | Some n \<Rightarrow> n)"

definition SessionLifetime :: "limits \<Rightarrow> limits_provider \<Rightarrow> int" where
  "SessionLifetime current p =
     (let hours = (if fle (SessionLifetimeHours current) (Fin 0) then SessionLifetimeHours (lp_fallback p)
                   else SessionLifetimeHours current)
      in to_duration (fmul hours (float_of_int hour_ns)))"

definition SessionIdle :: "limits \<Rightarrow> int" where
  "SessionIdle current =
     (let minutes = SessionIdleMinutes current
      in if fle minutes (Fin 0) then 0 else to_duration (fmul minutes (float_of_int (60 * 10 ^ 9))))"

section \<open>The service\<close>

record external_user =
  ex_ID :: gostring
  ex_Email :: gostring
  ex_Name :: gostring
  ex_Role :: gostring
  ex_Disabled :: bool

datatype directory_answer = DirectoryFailed | NotTheirs | Theirs external_user

text \<open>What the service is built with; the limits are those in force at the request, with their
  provider.\<close>

record session_service =
  sv_lifetime :: int
  sv_limits :: "(limits \<times> limits_provider) option"
  sv_external :: "(gostring \<Rightarrow> gostring \<Rightarrow> directory_answer) option"
  sv_defaultRole :: gostring

definition sessionLifetime :: "session_service \<Rightarrow> int" where
  "sessionLifetime v = (case sv_limits v of None \<Rightarrow> sv_lifetime v | Some (l, p) \<Rightarrow> SessionLifetime l p)"

definition idleTimeout :: "session_service \<Rightarrow> int" where
  "idleTimeout v = (case sv_limits v of None \<Rightarrow> 0 | Some (l, p) \<Rightarrow> SessionIdle l)"

definition missingOr :: "app_error \<Rightarrow> app_error \<Rightarrow> app_error" where
  "missingOr err refused = (if KindOf (Some err) = KindNotFound then refused else err)"

definition invalidCredentials :: app_error where
  "invalidCredentials = WithCode Invalidf ''invalidCredentials'' []"

definition noSession :: app_error where
  "noSession = WithCode Invalidf ''noSession'' []"

definition ErrTOTPRequired :: app_error where
  "ErrTOTPRequired = WithCode Conflictf ''twoFactorRequired'' []"

text \<open>The step an account last used; none is zero.\<close>

definition spent_step :: "site \<Rightarrow> uint \<Rightarrow> int" where
  "spent_step s u = (case map_of (site_spent s) u of None \<Rightarrow> 0 | Some step \<Rightarrow> step)"

definition spendTOTP :: "env \<Rightarrow> crypto \<Rightarrow> user \<Rightarrow> gostring \<Rightarrow> site \<Rightarrow> unit result \<times> site" where
  "spendTOTP e c user code s =
     (case MatchTOTP e c (us_TOTPSecret user) code of
        None \<Rightarrow> (Inl (WithCode Invalidf ''twoFactorCodeInvalid'' []), s)
      | Some step \<Rightarrow>
          if step \<le> spent_step s (us_ID user) then (Inl (WithCode Invalidf ''twoFactorCodeUsed'' []), s)
          else (Inr (), s\<lparr>site_spent := AList.update (us_ID user) step (site_spent s)\<rparr>))"

definition secondFactor :: "env \<Rightarrow> crypto \<Rightarrow> user \<Rightarrow> gostring \<Rightarrow> site \<Rightarrow> unit result \<times> site" where
  "secondFactor e c user code s =
     (if \<not> us_TOTPEnabled user then (Inr (), s)
      else if code = [] then (Inl ErrTOTPRequired, s)
      else spendTOTP e c user code s)"

record login_result =
  lr_Token :: gostring
  lr_ExpiresAt :: gotime
  lr_Principal :: principal

definition later :: "gotime \<Rightarrow> int \<Rightarrow> gotime" where
  "later t duration = t\<lparr>ns := ns t + duration\<rparr>"

definition OpenSession :: "env \<Rightarrow> crypto \<Rightarrow> session_service \<Rightarrow> user \<Rightarrow> site \<Rightarrow> login_result \<times> site" where
  "OpenSession e c v user s =
     (let token = fresh_token c;
          x = \<lparr>se_TokenHash = HashToken c token, se_UserID = us_ID user, se_CreatedAt = now e,
               se_ExpiresAt = later (now e) (sessionLifetime v), se_LastSeenAt = now e\<rparr>
      in (\<lparr>lr_Token = token, lr_ExpiresAt = se_ExpiresAt x, lr_Principal = principalFor (site_db s) user\<rparr>,
          s\<lparr>site_sessions := session_Save x (site_sessions s)\<rparr>))"

section \<open>Accounts of a directory\<close>

definition roleAdministers :: "role \<Rightarrow> bool" where
  "roleAdministers role \<longleftrightarrow> PermSettingsManage \<in> set (ro_Permissions role) \<or> PermRoleWrite \<in> set (ro_Permissions role)"

definition roleForArrival :: "env \<Rightarrow> role_store \<Rightarrow> gostring \<Rightarrow> gostring \<Rightarrow> role result" where
  "roleForArrival e roles configured fallback =
     (let fall = role_GetByName (equal_fold e) fallback roles
      in if configured \<noteq> [] \<and> configured \<noteq> fallback
         then case role_GetByName (equal_fold e) configured roles of
                Inr role \<Rightarrow> if \<not> roleAdministers role then Inr role else fall
              | Inl err \<Rightarrow> if KindOf (Some err) \<noteq> KindNotFound then Inl err else fall
         else fall)"

definition administers :: "db \<Rightarrow> user \<Rightarrow> bool result" where
  "administers d user =
     (case store_get (us_RoleID user) (db_roles d) of
        Inl err \<Rightarrow> if KindOf (Some err) = KindNotFound then Inr False else Inl err
      | Inr role \<Rightarrow> Inr (roleAdministers role))"

text \<open>The account as the directory's entry leaves it, and whether it was changed.\<close>

definition taken_over :: "user \<Rightarrow> user" where
  "taken_over u = (if us_IsExternal u then u
     else u\<lparr>us_IsExternal := True, us_MustChangePassword := False, us_PasswordHash := []\<rparr>)"

definition followed :: "external_user \<Rightarrow> gostring \<Rightarrow> user \<Rightarrow> user" where
  "followed x email u =
     (let a = (if ex_ID x \<noteq> [] \<and> us_ExternalID u \<noteq> ex_ID x then u\<lparr>us_ExternalID := ex_ID x\<rparr> else u);
          b = (if email \<noteq> [] \<and> us_Email a \<noteq> email then a\<lparr>us_Email := email\<rparr> else a)
      in if ex_Name x \<noteq> [] \<and> us_Name b \<noteq> ex_Name x then b\<lparr>us_Name := ex_Name x\<rparr> else b)"

definition reconciled :: "user \<Rightarrow> external_user \<Rightarrow> gostring \<Rightarrow> db \<Rightarrow> user result" where
  "reconciled existing x email d =
     (if us_IsSystem existing then Inl invalidCredentials
      else bind_res (if us_IsExternal existing then Inr False else administers d existing) (\<lambda>claims_rights.
           if claims_rights then Inl invalidCredentials
           else Inr (followed x email (taken_over existing))))"

definition reconcileExternal :: "user \<Rightarrow> external_user \<Rightarrow> gostring \<Rightarrow> db \<Rightarrow> user result \<times> db" where
  "reconcileExternal existing x email d =
     (case reconciled existing x email d of
        Inl err \<Rightarrow> (Inl err, d)
      | Inr u \<Rightarrow>
          if u = existing then (Inr existing, d)
          else let (res, users) = user_Update (db_roles d) u (db_users d) in (res, d\<lparr>db_users := users\<rparr>))"

definition arrive :: "env \<Rightarrow> session_service \<Rightarrow> external_user \<Rightarrow> gostring \<Rightarrow> db \<Rightarrow> user result \<times> db" where
  "arrive e v x email d =
     (if email = SystemUserEmail then (Inl invalidCredentials, d)
      else case roleForArrival e (db_roles d) (ex_Role x) (sv_defaultRole v) of
             Inl err \<Rightarrow> (Inl err, d)
           | Inr role \<Rightarrow>
               let (res, users) = user_Save (db_roles d)
                     (blank_user\<lparr>us_Name := (if ex_Name x = [] then email else ex_Name x), us_Email := email,
                        us_RoleID := ro_ID role, us_IsExternal := True, us_ExternalID := ex_ID x\<rparr>) (db_users d)
               in (res, d\<lparr>db_users := users\<rparr>))"

definition by_address :: "env \<Rightarrow> session_service \<Rightarrow> external_user \<Rightarrow> gostring \<Rightarrow> db \<Rightarrow> user result \<times> db" where
  "by_address e v x email d =
     (case user_GetByEmail (equal_fold e) (db_roles d) email (db_users d) of
        Inr existing \<Rightarrow>
          if ex_ID x \<noteq> [] \<and> us_ExternalID existing \<noteq> [] \<and> us_ExternalID existing \<noteq> ex_ID x
          then (Inl (WithCode Conflictf ''accountOfAnotherEntry'' [VString email]), d)
          else reconcileExternal existing x email d
      | Inl err \<Rightarrow> if KindOf (Some err) \<noteq> KindNotFound then (Inl err, d) else arrive e v x email d)"

definition provisionExternal :: "env \<Rightarrow> session_service \<Rightarrow> external_user \<Rightarrow> db \<Rightarrow> user result \<times> db" where
  "provisionExternal e v x d =
     (if ex_Disabled x then (Inl invalidCredentials, d)
      else let email = normalizeEmail e (ex_Email x)
           in if ex_ID x = [] then by_address e v x email d
              else case user_GetByExternalID (db_roles d) (ex_ID x) (db_users d) of
                     Inr existing \<Rightarrow> reconcileExternal existing x email d
                   | Inl err \<Rightarrow> if KindOf (Some err) \<noteq> KindNotFound then (Inl err, d) else by_address e v x email d)"

section \<open>Signing in\<close>

text \<open>The account behind the credentials: the directory is asked first, but never about the built-in
  administrator.\<close>

definition resolveUser ::
  "env \<Rightarrow> crypto \<Rightarrow> session_service \<Rightarrow> gostring \<Rightarrow> gostring \<Rightarrow> db \<Rightarrow> user result \<times> db" where
  "resolveUser e c v email password d =
     (let lookup = user_GetByEmail (equal_fold e) (db_roles d) (normalizeEmail e email) (db_users d);
          systemAccount = (case lookup of Inl _ \<Rightarrow> False | Inr u \<Rightarrow> us_IsSystem u);
          local_answer = (case lookup of
              Inl _ \<Rightarrow> Inl invalidCredentials
            | Inr u \<Rightarrow> if us_IsExternal u \<or> \<not> VerifyPassword c (us_PasswordHash u) password
                       then Inl invalidCredentials else Inr u)
      in case lookup of
           Inl err \<Rightarrow>
             if KindOf (Some err) \<noteq> KindNotFound then (Inl err, d)
             else (case sv_external v of
                     None \<Rightarrow> (local_answer, d)
                   | Some directory \<Rightarrow>
                       (case directory email password of
                          DirectoryFailed \<Rightarrow> (Inl Internal, d)
                        | Theirs x \<Rightarrow> provisionExternal e v x d
                        | NotTheirs \<Rightarrow> (local_answer, d)))
         | Inr u \<Rightarrow>
             (case (if systemAccount then None else sv_external v) of
                None \<Rightarrow> (local_answer, d)
              | Some directory \<Rightarrow>
                  (case directory email password of
                     DirectoryFailed \<Rightarrow> (Inl Internal, d)
                   | Theirs x \<Rightarrow> provisionExternal e v x d
                   | NotTheirs \<Rightarrow> (local_answer, d))))"

text \<open>Asked again once the session is written: the account as it is now still has the password hash
  that was checked, or the session is taken back.\<close>

definition confirm_login :: "crypto \<Rightarrow> user \<Rightarrow> login_result \<Rightarrow> site \<Rightarrow> login_result result \<times> site" where
  "confirm_login c user opened s =
     (let forget = s\<lparr>site_sessions := session_Delete (HashToken c (lr_Token opened)) (site_sessions s)\<rparr>
      in case user_GetByID (db_roles (site_db s)) (us_ID user) (db_users (site_db s)) of
           Inl err \<Rightarrow> (Inl (missingOr err invalidCredentials), forget)
         | Inr current \<Rightarrow>
             if us_PasswordHash current \<noteq> us_PasswordHash user then (Inl invalidCredentials, forget)
             else (Inr opened, s))"

definition Login ::
  "env \<Rightarrow> crypto \<Rightarrow> session_service \<Rightarrow> gostring \<Rightarrow> gostring \<Rightarrow> gostring \<Rightarrow> site \<Rightarrow> login_result result \<times> site" where
  "Login e c v email password code s =
     (case resolveUser e c v email password (site_db s) of
        (Inl err, d) \<Rightarrow> (Inl err, s\<lparr>site_db := d\<rparr>)
      | (Inr user, d) \<Rightarrow>
          (case secondFactor e c user code (s\<lparr>site_db := d\<rparr>) of
             (Inl err, s') \<Rightarrow> (Inl err, s')
           | (Inr _, s') \<Rightarrow> let (opened, s'') = OpenSession e c v user s' in confirm_login c user opened s''))"

definition OpenFirstSession :: "env \<Rightarrow> crypto \<Rightarrow> session_service \<Rightarrow> site \<Rightarrow> login_result result \<times> site" where
  "OpenFirstSession e c v s =
     (case user_GetByEmail (equal_fold e) (db_roles (site_db s)) SystemUserEmail (db_users (site_db s)) of
        Inl _ \<Rightarrow> (Inl (WithCode Conflictf ''noBuiltInAdmin'' []), s)
      | Inr user \<Rightarrow>
          if \<not> (us_MustChangePassword user \<and> \<not> us_TOTPEnabled user
                 \<and> VerifyPassword c (us_PasswordHash user) SystemUserPassword)
          then (Inl (WithCode Conflictf ''installationAlreadyInUse'' []), s)
          else let (opened, s') = OpenSession e c v user s in (Inr opened, s'))"

section \<open>Using a session\<close>

definition maxTouchInterval :: int where "maxTouchInterval = 60 * 10 ^ 9"

definition touchInterval :: "int \<Rightarrow> int" where
  "touchInterval idle = (if idle \<le> 0 \<or> tdiv idle 2 > maxTouchInterval then maxTouchInterval else tdiv idle 2)"

definition touch :: "session \<Rightarrow> gotime \<Rightarrow> int \<Rightarrow> site \<Rightarrow> site" where
  "touch x t idle s =
     (if time_sub t (se_LastSeenAt x) < touchInterval idle then s
      else s\<lparr>site_sessions := snd (session_Touch (se_TokenHash x) t (site_sessions s))\<rparr>)"

definition resolve :: "env \<Rightarrow> crypto \<Rightarrow> session_service \<Rightarrow> gostring \<Rightarrow> bool \<Rightarrow> site \<Rightarrow> principal result \<times> site" where
  "resolve e c v token inUse s =
     (if token = [] then (Inl noSession, s)
      else case session_Get (HashToken c token) (site_sessions s) of
             Inl err \<Rightarrow> (Inl (missingOr err noSession), s)
           | Inr x \<Rightarrow>
               let idle = idleTimeout v
               in if Expired x (now e) \<or> Idle x (now e) idle
                  then (Inl (WithCode Invalidf ''sessionExpired'' []),
                        s\<lparr>site_sessions := session_Delete (se_TokenHash x) (site_sessions s)\<rparr>)
                  else let s' = (if inUse then touch x (now e) idle s else s)
                       in case user_GetByID (db_roles (site_db s)) (se_UserID x) (db_users (site_db s)) of
                            Inl err \<Rightarrow> (Inl (missingOr err noSession), s')
                          | Inr user \<Rightarrow> (Inr (principalFor (site_db s) user), s'))"

definition session_Resolve :: "env \<Rightarrow> crypto \<Rightarrow> session_service \<Rightarrow> gostring \<Rightarrow> site \<Rightarrow> principal result \<times> site" where
  "session_Resolve e c v token s = resolve e c v token True s"

definition ResolveUnattended :: "env \<Rightarrow> crypto \<Rightarrow> session_service \<Rightarrow> gostring \<Rightarrow> site \<Rightarrow> principal result \<times> site" where
  "ResolveUnattended e c v token s = resolve e c v token False s"

definition Logout :: "crypto \<Rightarrow> gostring \<Rightarrow> site \<Rightarrow> site" where
  "Logout c token s =
     (if token = [] then s
      else s\<lparr>site_sessions := session_Delete (HashToken c token) (site_sessions s)\<rparr>)"

definition LogoutOthers :: "crypto \<Rightarrow> uint \<Rightarrow> gostring \<Rightarrow> site \<Rightarrow> site" where
  "LogoutOthers c userID token s =
     s\<lparr>site_sessions := (if token = [] then session_DeleteForUser userID (site_sessions s)
        else session_DeleteForUserExcept userID (HashToken c token) (site_sessions s))\<rparr>"

definition PruneExpired :: "env \<Rightarrow> site \<Rightarrow> nat \<times> site" where
  "PruneExpired e s =
     (let (removed, kept) = session_DeleteExpired (now e) (site_sessions s) in (removed, s\<lparr>site_sessions := kept\<rparr>))"

section \<open>The second factor\<close>

definition set_totp :: "uint \<Rightarrow> gostring \<Rightarrow> bool \<Rightarrow> site \<Rightarrow> unit result \<times> site" where
  "set_totp i secret enabled s =
     (let (res, users) = SetTOTP i secret enabled (db_users (site_db s))
      in (res, s\<lparr>site_db := (site_db s)\<lparr>db_users := users\<rparr>\<rparr>))"

text \<open>The secret; the address for the authenticator is text around it.\<close>

definition BeginTOTPEnrolment :: "crypto \<Rightarrow> uint \<Rightarrow> site \<Rightarrow> gostring result \<times> site" where
  "BeginTOTPEnrolment c userID s =
     (case user_GetByID (db_roles (site_db s)) userID (db_users (site_db s)) of
        Inl err \<Rightarrow> (Inl err, s)
      | Inr user \<Rightarrow>
          if us_TOTPEnabled user then (Inl (WithCode Conflictf ''twoFactorAlreadyOn'' []), s)
          else (case set_totp (us_ID user) (fresh_secret c) False s of
                  (Inl err, s') \<Rightarrow> (Inl err, s')
                | (Inr _, s') \<Rightarrow>
                    (Inr (fresh_secret c), s'\<lparr>site_spent := AList.delete (us_ID user) (site_spent s')\<rparr>)))"

definition ConfirmTOTP :: "env \<Rightarrow> crypto \<Rightarrow> uint \<Rightarrow> gostring \<Rightarrow> site \<Rightarrow> unit result \<times> site" where
  "ConfirmTOTP e c userID code s =
     (case user_GetByID (db_roles (site_db s)) userID (db_users (site_db s)) of
        Inl err \<Rightarrow> (Inl err, s)
      | Inr user \<Rightarrow>
          if us_TOTPSecret user = [] then (Inl (WithCode Conflictf ''twoFactorNotStarted'' []), s)
          else (case spendTOTP e c user code s of
                  (Inl err, s') \<Rightarrow> (Inl err, s')
                | (Inr _, s') \<Rightarrow> set_totp (us_ID user) (us_TOTPSecret user) True s'))"

definition DisableTOTP :: "env \<Rightarrow> crypto \<Rightarrow> uint \<Rightarrow> gostring \<Rightarrow> site \<Rightarrow> unit result \<times> site" where
  "DisableTOTP e c userID code s =
     (case user_GetByID (db_roles (site_db s)) userID (db_users (site_db s)) of
        Inl err \<Rightarrow> (Inl err, s)
      | Inr user \<Rightarrow>
          if \<not> us_TOTPEnabled user then (Inl (WithCode Conflictf ''twoFactorNotOn'' []), s)
          else (case spendTOTP e c user code s of
                  (Inl err, s') \<Rightarrow> (Inl err, s')
                | (Inr _, s') \<Rightarrow> set_totp (us_ID user) [] False s'))"

end
