(* ===== verification/SignInRules.thy ===== *)
theory SignInRules
  imports SignIn Sample
begin

text \<open>
  What a directory may claim: whatever it answers, signing in leaves the built-in administrator and
  every local account whose role administers exactly as they are, and opens them to their own
  password alone.
\<close>

section \<open>What the directory may claim\<close>

text \<open>The accounts a directory must not reach: the built-in administrator, and every local account
  whose role administers.\<close>

definition guarded :: "db \<Rightarrow> user \<Rightarrow> bool" where
  "guarded d a \<longleftrightarrow> us_IsSystem a \<or> \<not> us_IsExternal a \<and> administers d a = Inr True"

lemma withRoleName_more [simp]:
  "us_IsExternal (withRoleName roles u) = us_IsExternal u" "us_ExternalID (withRoleName roles u) = us_ExternalID u"
  "us_PasswordHash (withRoleName roles u) = us_PasswordHash u" "us_TOTPEnabled (withRoleName roles u) = us_TOTPEnabled u"
  "us_TOTPSecret (withRoleName roles u) = us_TOTPSecret u"
  "us_MustChangePassword (withRoleName roles u) = us_MustChangePassword u"
  by (simp_all add: withRoleName_def split: option.split)

lemma guarded_withRoleName [simp]: "guarded d (withRoleName (db_roles d) a) = guarded d a"
  by (simp add: guarded_def administers_def)

lemma followed_keeps [simp]:
  "us_ID (followed x email u) = us_ID u" "us_IsSystem (followed x email u) = us_IsSystem u"
  "us_IsExternal (followed x email u) = us_IsExternal u" "us_RoleID (followed x email u) = us_RoleID u"
  by (simp_all add: followed_def Let_def)

lemma taken_over_keeps [simp]:
  "us_ID (taken_over u) = us_ID u" "us_IsSystem (taken_over u) = us_IsSystem u" "us_IsExternal (taken_over u)"
  "us_RoleID (taken_over u) = us_RoleID u"
  by (simp_all add: taken_over_def)

lemma reconciled_Inr:
  assumes "reconciled existing x email d = Inr u"
  shows "\<not> guarded d existing \<and> u = followed x email (taken_over existing)"
  using assms by (auto simp: reconciled_def guarded_def bind_res_Inr administers_def store_get_Inl split: if_splits sum.splits)

lemma user_Update_found:
  assumes "store_find (us_ID u) s = Some a"
  shows "user_Update roles u s = (Inr (withRoleName roles u), snd (store_update (us_ID u) u s))"
  using assms by (simp add: user_Update_def store_update_def)

text \<open>What a directory's answer does to the accounts.\<close>

definition claims_nothing_guarded :: "db \<Rightarrow> user result \<Rightarrow> db \<Rightarrow> bool" where
  "claims_nothing_guarded d res d' \<longleftrightarrow>
     (\<forall>i a. user_at d i = Some a \<and> guarded d a \<longrightarrow> user_at d' i = Some a)
     \<and> d'\<lparr>db_users := db_users d\<rparr> = d
     \<and> (\<forall>u. res = Inr u \<longrightarrow> us_IsExternal u \<and> \<not> us_IsSystem u
          \<and> (\<forall>a. user_at d (us_ID u) = Some a \<longrightarrow> \<not> guarded d a))"

lemma claims_refusal: "claims_nothing_guarded d (Inl err) d"
  by (simp add: claims_nothing_guarded_def)

lemma reconcile_claims:
  assumes "db_valid d" "user_at d i = Some a" "reconcileExternal (withRoleName (db_roles d) a) x email d = (res, d')"
  shows "claims_nothing_guarded d res d'"
proof (cases "reconciled (withRoleName (db_roles d) a) x email d")
  case (Inl err)
  then have "res = Inl err" "d' = d" using assms(3) by (simp_all add: reconcileExternal_def)
  then show ?thesis by (simp add: claims_refusal)
next
  case (Inr u)
  have i: "us_ID a = i" using assms(1,2) by (simp add: db_valid_def users_keyed_def)
  note u = reconciled_Inr [OF Inr]
  have free: "\<not> guarded d a" using u by simp
  have at: "user_at d (us_ID u) = Some a" using assms(2) u i by simp
  show ?thesis
  proof (cases "u = withRoleName (db_roles d) a")
    case True
    then have "us_IsExternal a" using u by (metis followed_keeps(3) taken_over_keeps(3) withRoleName_more(1))
    then show ?thesis using assms(2,3) Inr True free i
      by (auto simp: reconcileExternal_def claims_nothing_guarded_def guarded_def)
  next
    case False
    then have r: "res = Inr (withRoleName (db_roles d) u)" "d\<lparr>db_users := snd (store_update (us_ID u) u (db_users d))\<rparr> = d'"
      using assms(3) Inr by (simp_all add: reconcileExternal_def user_Update_found [OF at])
    show ?thesis
      unfolding claims_nothing_guarded_def r(1) r(2) [symmetric]
      using free at assms(2) i u by (auto simp: store_find_after guarded_def)
  qed
qed

lemma arrive_claims:
  assumes "db_valid d" "arrive e v x email d = (res, d')"
  shows "claims_nothing_guarded d res d'"
proof -
  have fresh: "user_at d (st_nextID (db_users d)) = None" using assms(1) by (simp add: db_valid_def mem.fresh)
  show ?thesis
    using assms(2) fresh
    by (auto simp: arrive_def user_Save_def Let_def claims_nothing_guarded_def store_find_after store_add_def user_with_id_def
        blank_user_def store_find_def map_of_update split: if_splits sum.splits)
qed

lemma found_in: "List.find P xs = Some a \<Longrightarrow> a \<in> set xs"
  by (auto simp: find_Some_iff)

lemma looked_up:
  "user_GetByExternalID roles y s = Inr u \<Longrightarrow> \<exists>a \<in> set (store_all s). us_ExternalID a = y \<and> u = withRoleName roles a"
  "user_GetByEmail eq roles y s = Inr u \<Longrightarrow> \<exists>a \<in> set (store_all s). eq (us_Email a) y \<and> u = withRoleName roles a"
  by (auto simp: user_GetByExternalID_def user_GetByEmail_def find_Some_iff split: if_splits option.splits)

lemma provision_claims:
  assumes "db_valid d" "provisionExternal e v x d = (res, d')"
  shows "claims_nothing_guarded d res d'"
proof -
  have found: "claims_nothing_guarded d res d'"
    if "f = Inr existing" "reconcileExternal existing x email d = (res, d')"
      "f = user_GetByExternalID (db_roles d) y (db_users d) \<or> f = user_GetByEmail (equal_fold e) (db_roles d) y (db_users d)"
    for f existing email y
  proof -
    note t = that
    obtain a where "a \<in> set (store_all (db_users d))" "existing = withRoleName (db_roles d) a"
      using t(1,3) looked_up by metis
    moreover from this obtain i where "user_at d i = Some a"
      using assms(1) by (auto simp: db_valid_def mem.set_all)
    ultimately show ?thesis using reconcile_claims [OF assms(1)] t(2) by blast
  qed
  have refused: "claims_nothing_guarded d res d'" if "(Inl err, d) = (res, d')" for err
    using that claims_refusal by auto
  have address: "claims_nothing_guarded d res d'" if "by_address e v x email d = (res, d')" for email
  proof (cases "user_GetByEmail (equal_fold e) (db_roles d) email (db_users d)")
    case (Inl err)
    note a = that [unfolded by_address_def Inl sum.case]
    show ?thesis
    proof (cases "KindOf (Some err) = KindNotFound")
      case True
      then have "arrive e v x email d = (res, d')" using a by (simp only: not_True_eq_False if_False simp_thms)
      then show ?thesis by (rule arrive_claims [OF assms(1)])
    next
      case False
      then have "(Inl err, d) = (res, d')" using a by (simp only: if_True not_False_eq_True simp_thms)
      then show ?thesis by (rule refused)
    qed
  next
    case (Inr existing)
    note a = that [unfolded by_address_def Inr sum.case]
    show ?thesis
    proof (cases "ex_ID x \<noteq> [] \<and> us_ExternalID existing \<noteq> [] \<and> us_ExternalID existing \<noteq> ex_ID x")
      case True
      then show ?thesis by (intro refused) (use a in \<open>simp only: if_True simp_thms\<close>)
    next
      case False
      then have "reconcileExternal existing x email d = (res, d')" using a by (simp only: if_False)
      then show ?thesis by (rule found [OF Inr _ disjI2 [OF refl]])
    qed
  qed
  show ?thesis
  proof (cases "ex_Disabled x \<or> ex_ID x = []")
    case True
    then show ?thesis
      using assms(2) refused address by (auto simp: provisionExternal_def split: if_splits)
  next
    case False
    then have p: "(case user_GetByExternalID (db_roles d) (ex_ID x) (db_users d) of
          Inr existing \<Rightarrow> reconcileExternal existing x (normalizeEmail e (ex_Email x)) d
        | Inl err \<Rightarrow> if KindOf (Some err) \<noteq> KindNotFound then (Inl err, d)
                     else by_address e v x (normalizeEmail e (ex_Email x)) d) = (res, d')"
      using assms(2) by (simp add: provisionExternal_def Let_def)
    show ?thesis
    proof (cases "user_GetByExternalID (db_roles d) (ex_ID x) (db_users d)")
      case (Inl err)
      note a = p [unfolded Inl sum.case]
      show ?thesis
      proof (cases "KindOf (Some err) = KindNotFound")
        case True
        then show ?thesis by (intro address) (use a in \<open>simp only: if_False simp_thms\<close>)
      next
        case False
        then show ?thesis by (intro refused) (use a in \<open>simp only: if_True simp_thms\<close>)
      qed
    next
      case (Inr existing)
      then show ?thesis using p found [OF Inr _ disjI1 [OF refl]] by simp
    qed
  qed
qed

text \<open>C14: an account that administers the installation opens to its own password alone: whatever a
  directory answers - whichever address, name or identifier its entries carry - signing in never
  changes the built-in administrator or a local account whose role administers, and hands one out
  only where the account is local and the password given matches the one it holds; an account the
  directory does hand out is the directory's own and never the built-in one.\<close>

theorem administrators_keep_their_door:
  assumes "db_valid d" "resolveUser e c v email password d = (res, d')"
  shows "(\<forall>i a. user_at d i = Some a \<and> guarded d a \<longrightarrow> user_at d' i = Some a)
    \<and> d'\<lparr>db_users := db_users d\<rparr> = d
    \<and> (\<forall>u a. res = Inr u \<and> user_at d (us_ID u) = Some a \<and> guarded d a \<longrightarrow>
          d' = d \<and> \<not> us_IsExternal a \<and> VerifyPassword c (us_PasswordHash a) password)"
proof -
  have directory: ?thesis if "provisionExternal e v x d = (res, d')" for x
    using provision_claims [OF assms(1) that] unfolding claims_nothing_guarded_def by blast
  have locally: ?thesis
    if l: "d' = d" "\<And>u. res = Inr u \<Longrightarrow> \<exists>a \<in> set (store_all (db_users d)). u = withRoleName (db_roles d) a
        \<and> \<not> us_IsExternal a \<and> VerifyPassword c (us_PasswordHash a) password"
  proof -
    have "\<not> us_IsExternal a \<and> VerifyPassword c (us_PasswordHash a) password"
      if u: "res = Inr u" "user_at d (us_ID u) = Some a" for u a
    proof -
      obtain b where b: "b \<in> set (store_all (db_users d))" "u = withRoleName (db_roles d) b"
        "\<not> us_IsExternal b" "VerifyPassword c (us_PasswordHash b) password"
        using l(2) [OF u(1)] by blast
      then have "b = a" using u(2) users.all_keyed [of "db_users d" b] assms(1) by (simp add: db_valid_def)
      then show ?thesis using b by simp
    qed
    moreover have "d'\<lparr>db_users := db_users d\<rparr> = d" using l(1) by simp
    ultimately show ?thesis unfolding l(1) by blast
  qed
  let ?look = "user_GetByEmail (equal_fold e) (db_roles d) (normalizeEmail e email) (db_users d)"
  show ?thesis
  proof (cases ?look)
    case (Inl err)
    consider "(Inl err, d) = (res, d')" | "(Inl invalidCredentials, d) = (res, d')" | "(Inl Internal, d) = (res, d')"
      | x where "provisionExternal e v x d = (res, d')"
      using assms(2) unfolding resolveUser_def Inl Let_def sum.case
      by (auto split: if_splits option.splits directory_answer.splits)
    then show ?thesis
    proof cases
      case 4 then show ?thesis by (rule directory)
    qed (intro locally; auto)+
  next
    case (Inr u)
    have own: "\<exists>a \<in> set (store_all (db_users d)). w = withRoleName (db_roles d) a
        \<and> \<not> us_IsExternal a \<and> VerifyPassword c (us_PasswordHash a) password"
      if "(if us_IsExternal u \<or> \<not> VerifyPassword c (us_PasswordHash u) password then Inl invalidCredentials else Inr u) = Inr w" for w
      using that looked_up(2) [OF Inr] by (auto split: if_splits)
    consider "((if us_IsExternal u \<or> \<not> VerifyPassword c (us_PasswordHash u) password then Inl invalidCredentials else Inr u), d) = (res, d')"
      | "(Inl Internal, d) = (res, d')" | x where "provisionExternal e v x d = (res, d')"
      using assms(2) unfolding resolveUser_def Inr Let_def sum.case
      by (auto split: option.splits directory_answer.splits)
    then show ?thesis
    proof cases
      case 1
      then show ?thesis using own by (intro locally) auto
    next
      case 2
      then show ?thesis by (intro locally) auto
    next
      case 3
      then show ?thesis by (rule directory)
    qed
  qed
qed

section \<open>An example\<close>

text \<open>One account in the sample installation, with whatever fields.\<close>

definition sample_with :: "user \<Rightarrow> db" where
  "sample_with u = sample_db\<lparr>db_users := \<lparr>st_items = [(1, u)], st_nextID = 2, st_entity = ''user''\<rparr>\<rparr>"

definition sample_crypto :: crypto where
  "sample_crypto = \<lparr>bcrypt_hash = (\<lambda>p. CHR ''#'' # p), bcrypt_matches = (\<lambda>h p. h = CHR ''#'' # p), unmatched_hash = [],
     hmac_sha1 = (\<lambda>k m. replicate 20 (CHR 0x00)), base32_decode = Some, sha256_hex = (\<lambda>s. s),
     fresh_token = ''token'', fresh_secret = ''secret''\<rparr>"

lemma sample_with_at: "user_at (sample_with u) i = (if i = 1 then Some u else None)"
  by (simp add: sample_with_def store_find_def)

lemma sample_with_valid: "us_ID u = 1 \<Longrightarrow> db_valid (sample_with u)"
  using sample_valid
  by (simp add: db_valid_def sample_with_def users_keyed_def store_valid_def store_find_def)

lemma sample_with_roles: "db_roles (sample_with u) = NewRoleRepository"
  by (simp add: sample_with_def sample_db_def new_db_def)

definition sample_admin :: user where
  "sample_admin = sample_user\<lparr>us_RoleID := 1, us_PasswordHash := ''#secret12''\<rparr>"

definition sample_directory :: session_service where
  "sample_directory = \<lparr>sv_lifetime = 10 ^ 13, sv_limits = None,
     sv_external = Some (\<lambda>email password. Theirs \<lparr>ex_ID = ''cn=ada'', ex_Email = email, ex_Name = ''Ada'', ex_Role = ''user'',
       ex_Disabled = False\<rparr>),
     sv_defaultRole = RoleUser\<rparr>"

lemma shipped_admin: "store_find 1 NewRoleRepository =
    Some \<lparr>ro_ID = 1, ro_Name = RoleAdmin, ro_Description = ''Administers the installation, its users and their roles'',
      ro_IsSystem = True, ro_Permissions = SystemAdminPermissions\<rparr>"
  by (simp add: NewRoleRepository_def DefaultRoles_def newStore_def store_add_def Let_def uint_succ_def uint_max_def
      store_find_def role_with_id_def)

lemma sample_admin_guarded: "guarded (sample_with sample_admin) sample_admin"
  by (simp add: guarded_def administers_def sample_with_roles sample_admin_def sample_user_def blank_user_def
      store_get_def shipped_admin [unfolded One_nat_def] roleAdministers_def SystemAdminPermissions_def)

text \<open>A directory that answers for every address and every password does not get the administrator's
  account.\<close>

lemma administrators_keep_their_door_witness:
  "user_at (snd (resolveUser sample_env sample_crypto sample_directory ''ada@example.org'' ''guessed''
     (sample_with sample_admin))) 1 = Some sample_admin"
proof -
  have "db_valid (sample_with sample_admin)"
    by (rule sample_with_valid) (simp add: sample_admin_def sample_user_def)
  from administrators_keep_their_door [OF this prod.collapse [symmetric]] show ?thesis
    using sample_admin_guarded sample_with_at [of 1 sample_admin] by simp
qed

end
