(* ===== verification/SessionRules.thy ===== *)
theory SessionRules
  imports SignInRules
begin

text \<open>
  Sessions and second factors over time: a code opens one sign-in, no session outlives the password
  it was opened with whichever way signing in and changing the password interleave, and a session in
  use lasts its lifetime.
\<close>

section \<open>A code is spent once\<close>

text \<open>What may happen at the doors of an installation, to whomever, short of the account \<open>u\<close>
  starting a new enrolment.\<close>

inductive door_step :: "uint \<Rightarrow> site \<Rightarrow> site \<Rightarrow> bool" for u where
  logged_in: "door_step u s (snd (Login e c v email password code s))"
| opened_first: "door_step u s (snd (OpenFirstSession e c v s))"
| used: "door_step u s (snd (session_Resolve e c v token s))"
| looked: "door_step u s (snd (ResolveUnattended e c v token s))"
| left: "door_step u s (Logout c token s)"
| others_out: "door_step u s (LogoutOthers c i token s)"
| pruned: "door_step u s (snd (PruneExpired e s))"
| confirmed: "door_step u s (snd (ConfirmTOTP e c i code s))"
| disabled: "door_step u s (snd (DisableTOTP e c i code s))"
| enrolled: "db_valid (site_db s) \<Longrightarrow> i \<noteq> u \<Longrightarrow> door_step u s (snd (BeginTOTPEnrolment c i s))"
| removed: "door_step u s (snd (DeleteUser e i purge s))"
| stored: "door_step u s (s\<lparr>site_db := d\<rparr>)"

inductive door_steps :: "uint \<Rightarrow> site \<Rightarrow> site \<Rightarrow> bool" for u where
  none: "door_steps u s s"
| more: "door_steps u s t \<Longrightarrow> door_step u t t' \<Longrightarrow> door_steps u s t'"

lemma spendTOTP_grows: "spent_step s u \<le> spent_step (snd (spendTOTP e c a code s)) u"
  by (simp add: spendTOTP_def spent_step_def map_of_update split: option.split)

lemma secondFactor_grows: "spent_step s u \<le> spent_step (snd (secondFactor e c a code s)) u"
  by (simp add: secondFactor_def spendTOTP_grows)

lemma spent_fields [simp]:
  "spent_step (s\<lparr>site_db := d\<rparr>) u = spent_step s u" "spent_step (s\<lparr>site_sessions := r\<rparr>) u = spent_step s u"
  by (simp_all add: spent_step_def)

lemma spent_elsewhere [simp]:
  "spent_step (snd (OpenSession e c v a s)) u = spent_step s u"
  "spent_step (snd (confirm_login c a opened s)) u = spent_step s u"
  "spent_step (snd (resolve e c v token b s)) u = spent_step s u"
  "spent_step (snd (set_totp i secret enabled s)) u = spent_step s u"
  by (auto simp: OpenSession_def confirm_login_def resolve_def touch_def set_totp_def Let_def split: sum.splits prod.splits)

lemma Login_refused: "resolveUser e c v email password (site_db s) = (Inl err, d) \<Longrightarrow>
    Login e c v email password code s = (Inl err, s\<lparr>site_db := d\<rparr>)"
  by (simp add: Login_def)

lemma Login_stopped: "resolveUser e c v email password (site_db s) = (Inr a, d) \<Longrightarrow>
    secondFactor e c a code (s\<lparr>site_db := d\<rparr>) = (Inl err, t) \<Longrightarrow>
    Login e c v email password code s = (Inl err, t)"
  by (simp add: Login_def)

lemma Login_opens: "resolveUser e c v email password (site_db s) = (Inr a, d) \<Longrightarrow>
    secondFactor e c a code (s\<lparr>site_db := d\<rparr>) = (Inr (), t) \<Longrightarrow>
    Login e c v email password code s = confirm_login c a (fst (OpenSession e c v a t)) (snd (OpenSession e c v a t))"
  by (simp add: Login_def split_def Let_def)

lemma Login_grows: "spent_step s u \<le> spent_step (snd (Login e c v email password code s)) u"
proof -
  obtain res d where r: "resolveUser e c v email password (site_db s) = (res, d)" by fastforce
  show ?thesis
  proof (cases res)
    case (Inl err)
    then show ?thesis using Login_refused r by simp
  next
    case (Inr a)
    obtain f t where f: "secondFactor e c a code (s\<lparr>site_db := d\<rparr>) = (f, t)" by fastforce
    have "spent_step s u \<le> spent_step t u"
      using secondFactor_grows [of "s\<lparr>site_db := d\<rparr>" u e c a code] f by simp
    then show ?thesis
      using Login_stopped [OF r [unfolded Inr]] Login_opens [OF r [unfolded Inr]] f by (cases f) simp_all
  qed
qed

lemma ConfirmTOTP_grows: "spent_step s u \<le> spent_step (snd (ConfirmTOTP e c i code s)) u"
proof (cases "user_GetByID (db_roles (site_db s)) i (db_users (site_db s))")
  case (Inr a)
  obtain f t where f: "spendTOTP e c a code s = (f, t)" by fastforce
  then have "spent_step s u \<le> spent_step t u" using spendTOTP_grows [of s u e c a code] by simp
  then show ?thesis using Inr f by (cases f) (simp_all add: ConfirmTOTP_def)
qed (simp add: ConfirmTOTP_def)

lemma DisableTOTP_grows: "spent_step s u \<le> spent_step (snd (DisableTOTP e c i code s)) u"
proof (cases "user_GetByID (db_roles (site_db s)) i (db_users (site_db s))")
  case (Inr a)
  obtain f t where f: "spendTOTP e c a code s = (f, t)" by fastforce
  then have "spent_step s u \<le> spent_step t u" using spendTOTP_grows [of s u e c a code] by simp
  then show ?thesis using Inr f by (cases f) (simp_all add: DisableTOTP_def)
qed (simp add: DisableTOTP_def)

lemma BeginTOTPEnrolment_grows:
  assumes "db_valid (site_db s)" "i \<noteq> u"
  shows "spent_step s u \<le> spent_step (snd (BeginTOTPEnrolment c i s)) u"
proof (cases "user_GetByID (db_roles (site_db s)) i (db_users (site_db s))")
  case (Inr a)
  have i: "us_ID a = i" using Inr assms(1) by (auto simp: user_GetByID_Inr db_valid_def users_keyed_def)
  obtain f t where f: "set_totp (us_ID a) (fresh_secret c) False s = (f, t)" by fastforce
  then have t: "spent_step t u = spent_step s u" using spent_elsewhere(4) [of "us_ID a" "fresh_secret c" False s u] by simp
  have "spent_step (t\<lparr>site_spent := AList.delete i (site_spent t)\<rparr>) u = spent_step t u"
    using assms(2) by (simp add: spent_step_def map_of_delete)
  then show ?thesis using Inr f t i by (cases f) (simp_all add: BeginTOTPEnrolment_def)
qed (simp add: BeginTOTPEnrolment_def)

lemma site_spent_elsewhere:
  "spent_step (snd (OpenFirstSession e c v s)) u = spent_step s u"
  "spent_step (snd (DeleteUser e i purge s)) u = spent_step s u"
  by (auto simp: OpenFirstSession_def OpenSession_def Let_def split: sum.split)
    (auto simp: DeleteUser_def PurgeUser_def spent_step_def Let_def split: sum.split prod.split)

lemma door_step_grows: "door_step u s t \<Longrightarrow> spent_step s u \<le> spent_step t u"
proof (induction rule: door_step.induct)
  case (logged_in s e c v email password code)
  show ?case by (rule Login_grows)
next
  case (enrolled s i c)
  then show ?case by (rule BeginTOTPEnrolment_grows)
qed (simp_all add: session_Resolve_def ResolveUnattended_def Logout_def LogoutOthers_def PruneExpired_def Let_def split_def
      site_spent_elsewhere ConfirmTOTP_grows DisableTOTP_grows)

lemma door_steps_grow: "door_steps u s t \<Longrightarrow> spent_step s u \<le> spent_step t u"
  by (induction rule: door_steps.induct) (auto dest: door_step_grows)

lemma spendTOTP_spent:
  assumes "spendTOTP e c a code s = (Inr (), t)" "MatchTOTP e c (us_TOTPSecret a) code = Some step"
  shows "spent_step t (us_ID a) = step"
  using assms by (auto simp: spendTOTP_def spent_step_def map_of_update split: if_splits)

text \<open>C15: a second-factor code opens one door: once a code was accepted for an account, then whatever
  happens at the installation's doors - other sign-ins, requests, sign-outs, confirmations, accounts
  deleted or changed, in any order and any number - short of that account starting a new enrolment,
  every code of the same or an earlier step is refused as used and changes nothing, and a sign-in
  with it opens no session.\<close>

theorem code_spent_once:
  assumes "spendTOTP e c a code s = (Inr (), s1)" "MatchTOTP e c (us_TOTPSecret a) code = Some step"
    and "door_steps (us_ID a) s1 s2"
    and "us_ID b = us_ID a" "MatchTOTP e' c' (us_TOTPSecret b) code' = Some step'" "step' \<le> step"
  shows "spendTOTP e' c' b code' s2 = (Inl (WithCode Invalidf ''twoFactorCodeUsed'' []), s2)
    \<and> (resolveUser e' c' v email password (site_db s2) = (Inr b, d) \<and> us_TOTPEnabled b \<and> code' \<noteq> [] \<longrightarrow>
         Login e' c' v email password code' s2
           = (Inl (WithCode Invalidf ''twoFactorCodeUsed'' []), s2\<lparr>site_db := d\<rparr>))"
proof -
  have "step' \<le> spent_step s2 (us_ID b)"
    using door_steps_grow [OF assms(3)] spendTOTP_spent [OF assms(1,2)] assms(4,6) by simp
  then have refused: "spendTOTP e' c' b code' t = (Inl (WithCode Invalidf ''twoFactorCodeUsed'' []), t)"
    if "spent_step t (us_ID b) = spent_step s2 (us_ID b)" for t
    using that assms(5) by (simp add: spendTOTP_def)
  then show ?thesis by (auto intro: Login_stopped simp: secondFactor_def)
qed

definition sample_site :: "user \<Rightarrow> site" where
  "sample_site u = \<lparr>site_db = sample_with u, site_sessions = [], site_settings = [], site_spent = []\<rparr>"

lemma sample_totpCode: "totpCode sample_crypto ''key'' n = ''000000''"
proof -
  have digit: "byte (CHR 0x00) = 0" by (simp add: byte_def)
  have "totpCode sample_crypto ''key'' n = padded 6 0"
    by (simp add: totpCode_def sample_crypto_def Let_def digit)
  moreover have "padded 6 0 = ''000000''" by code_simp
  ultimately show ?thesis by simp
qed

lemma sample_code: "MatchTOTP sample_env sample_crypto ''key'' ''000000'' = Some 57599999"
proof -
  have "TrimSpace ''000000'' = ''000000''" by (rule TrimSpace_ascii_word) (simp add: byte_def is_space_def)
  moreover have "tdiv (unix (now sample_env)) 30 = 57600000"
    by (simp add: sample_env_def unix_def tdiv_def)
  moreover have "base32_decode sample_crypto (upper sample_env (filter (\<lambda>x. x \<noteq> CHR '' '') ''key'')) = Some ''key''"
    by (simp add: sample_crypto_def sample_env_def)
  ultimately show ?thesis by (simp add: MatchTOTP_def sample_totpCode)
qed

lemma code_spent_once_witness:
  "spendTOTP sample_env sample_crypto (sample_user\<lparr>us_TOTPSecret := ''key''\<rparr>) ''000000''
     (Logout sample_crypto ''token'' (snd (spendTOTP sample_env sample_crypto (sample_user\<lparr>us_TOTPSecret := ''key''\<rparr>)
        ''000000'' (sample_site sample_user))))
   = (Inl (WithCode Invalidf ''twoFactorCodeUsed'' []),
      Logout sample_crypto ''token'' (snd (spendTOTP sample_env sample_crypto (sample_user\<lparr>us_TOTPSecret := ''key''\<rparr>)
        ''000000'' (sample_site sample_user))))"
    (is "spendTOTP ?e ?c ?a ?code (Logout ?c ?t (snd (spendTOTP ?e ?c ?a ?code ?s))) = _")
proof -
  have m: "MatchTOTP ?e ?c (us_TOTPSecret ?a) ?code = Some 57599999" using sample_code by simp
  then have "spendTOTP ?e ?c ?a ?code ?s = (Inr (), snd (spendTOTP ?e ?c ?a ?code ?s))"
    by (simp add: spendTOTP_def spent_step_def sample_site_def)
  from code_spent_once [OF this m door_steps.more [OF door_steps.none door_step.left] refl m order_refl]
  show ?thesis by blast
qed

section \<open>No session outlives the password it was opened with\<close>

text \<open>One sign-in of the account \<open>user\<close>, past its password, and one change of that account's
  password with the other sessions ended after it, each in its steps; in between, anything that
  leaves the account and the session being opened alone.\<close>

datatype login_at = LoginOpens | LoginConfirms login_result | LoginDone "login_result result"
datatype change_at = ChangeWrites | ChangeEndsOthers | ChangeDone

text \<open>The entry of the session the sign-in opens.\<close>

definition opened_at :: "crypto \<Rightarrow> site \<Rightarrow> session option" where
  "opened_at c s = map_of (site_sessions s) (HashToken c (fresh_token c))"

inductive race_step ::
    "env \<Rightarrow> crypto \<Rightarrow> session_service \<Rightarrow> user \<Rightarrow> gostring \<Rightarrow> gostring \<Rightarrow> gostring
      \<Rightarrow> site \<times> login_at \<times> change_at \<Rightarrow> site \<times> login_at \<times> change_at \<Rightarrow> bool"
  for e c v user current replacement kept where
  opens: "OpenSession e c v user s = (opened, t) \<Longrightarrow>
    race_step e c v user current replacement kept (s, LoginOpens, x) (t, LoginConfirms opened, x)"
| confirms: "confirm_login c user opened s = (res, t) \<Longrightarrow>
    race_step e c v user current replacement kept (s, LoginConfirms opened, x) (t, LoginDone res, x)"
| writes: "ChangePassword c (us_ID user) current replacement (site_db s) = (Inr (), d) \<Longrightarrow>
    race_step e c v user current replacement kept (s, l, ChangeWrites) (s\<lparr>site_db := d\<rparr>, l, ChangeEndsOthers)"
| ends: "race_step e c v user current replacement kept (s, l, ChangeEndsOthers)
    (LogoutOthers c (us_ID user) kept s, l, ChangeDone)"
| elsewhere: "user_at (site_db t) (us_ID user) = user_at (site_db s) (us_ID user) \<Longrightarrow>
    opened_at c t = opened_at c s \<Longrightarrow> distinct (map fst (site_sessions t)) \<Longrightarrow>
    race_step e c v user current replacement kept (s, l, x) (t, l, x)"

inductive race ::
    "env \<Rightarrow> crypto \<Rightarrow> session_service \<Rightarrow> user \<Rightarrow> gostring \<Rightarrow> gostring \<Rightarrow> gostring
      \<Rightarrow> site \<times> login_at \<times> change_at \<Rightarrow> site \<times> login_at \<times> change_at \<Rightarrow> bool"
  for e c v user current replacement kept where
  none: "race e c v user current replacement kept p p"
| more: "race e c v user current replacement kept p q \<Longrightarrow> race_step e c v user current replacement kept q r \<Longrightarrow>
    race e c v user current replacement kept p r"

inductive_cases race_stepE: "race_step e c v user current replacement kept (s, l, x) (t, l', x')"

definition race_safe :: "crypto \<Rightarrow> user \<Rightarrow> site \<times> login_at \<times> change_at \<Rightarrow> bool" where
  "race_safe c user p = (case p of (s, l, x) \<Rightarrow>
     (\<exists>a. user_at (site_db s) (us_ID user) = Some a \<and> us_ID a = us_ID user
        \<and> (x \<noteq> ChangeWrites \<longrightarrow> us_PasswordHash a \<noteq> us_PasswordHash user))
     \<and> distinct (map fst (site_sessions s))
     \<and> (\<forall>r. opened_at c s = Some r \<longrightarrow> se_UserID r = us_ID user)
     \<and> (\<forall>opened. l = LoginConfirms opened \<longrightarrow> lr_Token opened = fresh_token c)
     \<and> (l = LoginOpens \<longrightarrow> opened_at c s = None)
     \<and> (l \<in> range LoginDone \<and> x = ChangeDone \<longrightarrow> opened_at c s = None))"

lemma opened_at_db [simp]: "opened_at c (s\<lparr>site_db := d\<rparr>) = opened_at c s"
  by (simp add: opened_at_def)

lemma OpenSession_leaves:
  assumes "OpenSession e c v user s = (opened, t)"
  shows "site_db t = site_db s" "lr_Token opened = fresh_token c" "\<exists>r. opened_at c t = Some r \<and> se_UserID r = us_ID user"
  using assms by (auto simp: opened_at_def OpenSession_def Let_def session_Save_def map_of_update)

lemma confirm_login_leaves:
  assumes "confirm_login c user opened s = (res, t)" "lr_Token opened = fresh_token c"
  shows "site_db t = site_db s" "opened_at c t = opened_at c s \<or> opened_at c t = None"
    and "user_at (site_db s) (us_ID user) = Some a \<Longrightarrow> us_PasswordHash a \<noteq> us_PasswordHash user \<Longrightarrow> opened_at c t = None"
  using assms by (auto simp: opened_at_def confirm_login_def session_Delete_def map_of_delete user_GetByID_Inr Let_def
      split: sum.splits if_splits)

lemma ChangePassword_changes:
  assumes "ChangePassword c i current replacement d = (Inr (), d')"
  shows "\<exists>a. user_at d i = Some a \<and> (us_ID a = i \<longrightarrow> (\<exists>b. user_at d' i = Some b \<and> us_ID b = i \<and> us_PasswordHash b = bcrypt_hash c replacement))"
proof (cases "user_GetByID (db_roles d) i (db_users d)")
  case (Inl err)
  then show ?thesis using assms by (simp add: ChangePassword_def)
next
  case (Inr a)
  then obtain a' where a: "user_at d i = Some a'" "a = withRoleName (db_roles d) a'" by (auto simp: user_GetByID_Inr)
  let ?b = "a\<lparr>us_PasswordHash := bcrypt_hash c replacement, us_MustChangePassword := False\<rparr>"
  have "update_user ?b d = (Inr (), d')"
    using assms Inr by (auto simp: ChangePassword_def HashPassword_def simp del: fun_upd_apply split: if_splits)
  then have "d' = d\<lparr>db_users := snd (store_update (us_ID a') ?b (db_users d))\<rparr>" if "us_ID a' = i"
    using a that user_Update_found [of ?b "db_users d" a'] by (simp add: update_user_def)
  then show ?thesis using a by (auto simp: store_find_after)
qed

lemma LogoutOthers_ends:
  assumes "HashToken c (fresh_token c) \<noteq> HashToken c kept" "\<forall>r. opened_at c s = Some r \<longrightarrow> se_UserID r = i"
    and "distinct (map fst (site_sessions s))"
  shows "opened_at c (LogoutOthers c i kept s) = None"
  using assms by (auto simp: opened_at_def LogoutOthers_def session_DeleteForUser_def session_DeleteForUserExcept_def map_of_eq_None_iff
      image_iff split: if_splits)

lemma sessions_distinct:
  assumes "distinct (map fst (site_sessions s))"
  shows "OpenSession e c v user s = (opened, t) \<Longrightarrow> distinct (map fst (site_sessions t))"
    and "confirm_login c user opened s = (res, t) \<Longrightarrow> distinct (map fst (site_sessions t))"
    and "distinct (map fst (site_sessions (LogoutOthers c i kept s)))"
  using assms by (auto simp: OpenSession_def confirm_login_def LogoutOthers_def session_Save_def session_Delete_def
      session_DeleteForUser_def session_DeleteForUserExcept_def distinct_update distinct_delete distinct_map_filter
      Let_def split: sum.splits if_splits)

lemma race_step_safe:
  assumes "race_step e c v user current replacement kept p q" "race_safe c user p"
    and fresh: "HashToken c (fresh_token c) \<noteq> HashToken c kept" "bcrypt_hash c replacement \<noteq> us_PasswordHash user"
  shows "race_safe c user q"
  using assms(1)
proof cases
  case (opens s opened t x)
  then show ?thesis using assms(2) OpenSession_leaves [OF opens(3)] sessions_distinct(1) [OF _ opens(3)]
    by (auto simp: race_safe_def)
next
  case (confirms opened s res t x)
  have "lr_Token opened = fresh_token c" using assms(2) confirms by (simp add: race_safe_def)
  note left = confirm_login_leaves [OF confirms(3) this] sessions_distinct(2) [OF _ confirms(3)]
  show ?thesis using assms(2) confirms left by (auto simp: race_safe_def)
next
  case (writes s d l)
  then obtain b where "user_at d (us_ID user) = Some b" "us_ID b = us_ID user"
    "us_PasswordHash b = bcrypt_hash c replacement"
    using ChangePassword_changes [OF writes(3)] assms(2) by (auto simp: race_safe_def)
  then show ?thesis using assms(2) writes fresh(2) by (auto simp: race_safe_def)
next
  case (ends s l)
  then have "opened_at c (LogoutOthers c (us_ID user) kept s) = None"
    using assms(2) LogoutOthers_ends [OF fresh(1), of s "us_ID user"] by (simp add: race_safe_def)
  then show ?thesis using assms(2) ends sessions_distinct(3) [of s c "us_ID user" kept]
    by (auto simp: race_safe_def) (simp_all add: LogoutOthers_def)
next
  case (elsewhere t s l x)
  then show ?thesis using assms(2) by (auto simp: race_safe_def)
qed

lemma race_keeps_safe:
  assumes "race e c v user current replacement kept p q" "race_safe c user p"
    and "HashToken c (fresh_token c) \<noteq> HashToken c kept" "bcrypt_hash c replacement \<noteq> us_PasswordHash user"
  shows "race_safe c user q"
  using assms by (induction rule: race.induct) (auto intro: race_step_safe)

text \<open>C13: no session survives a change of the password it was opened with: a sign-in whose password
  was checked before the change and a change of that password which ends the account's other sessions
  may interleave in any order, with anything else between them that leaves the account and the new
  session alone, and once both are through the sign-in's token opens nothing.  (The new hash is
  salted, so it is not the old one, and the token is fresh.)\<close>

theorem no_session_of_an_old_password:
  assumes "race e c v user current replacement kept (s, LoginOpens, ChangeWrites) (t, LoginDone res, ChangeDone)"
    and "user_at (site_db s) (us_ID user) = Some a" "us_ID a = us_ID user"
    and "distinct (map fst (site_sessions s))" "map_of (site_sessions s) (HashToken c (fresh_token c)) = None"
    and "HashToken c (fresh_token c) \<noteq> HashToken c kept" "bcrypt_hash c replacement \<noteq> us_PasswordHash user"
  shows "session_Resolve e' c v' (fresh_token c) t = (Inl noSession, t)"
proof -
  have "race_safe c user (s, LoginOpens, ChangeWrites)"
    using assms(2-5) by (auto simp: race_safe_def opened_at_def)
  then have "opened_at c t = None"
    using race_keeps_safe [OF assms(1) _ assms(6,7)] by (simp add: race_safe_def)
  then show ?thesis
    by (simp add: session_Resolve_def resolve_def session_Get_def opened_at_def missingOr_def KindOf_def)
qed

definition sample_holder :: user where
  "sample_holder = sample_user\<lparr>us_PasswordHash := ''#secret12''\<rparr>"

lemma sample_change: "ChangePassword sample_crypto 1 ''secret12'' ''secret34'' (sample_with sample_holder)
    = (Inr (), sample_with (sample_holder\<lparr>us_PasswordHash := ''#secret34''\<rparr>))"
  by (simp add: ChangePassword_def user_GetByID_def store_get_def sample_with_at withRoleName_def sample_holder_def
      sample_user_def blank_user_def VerifyPassword_def HashPassword_def sample_crypto_def MinPasswordLength_def
      MaxPasswordLength_def update_user_def user_Update_def store_update_def)
    (simp add: sample_with_def)

lemma no_session_of_an_old_password_witness:
  "session_Resolve sample_env sample_crypto sample_directory ''token''
     (snd (confirm_login sample_crypto sample_holder (fst (OpenSession sample_env sample_crypto sample_directory sample_holder
         (sample_site sample_holder)))
       (LogoutOthers sample_crypto 1 ''kept''
         ((snd (OpenSession sample_env sample_crypto sample_directory sample_holder (sample_site sample_holder)))
            \<lparr>site_db := sample_with (sample_holder\<lparr>us_PasswordHash := ''#secret34''\<rparr>)\<rparr>))))
   = (Inl noSession,
      snd (confirm_login sample_crypto sample_holder (fst (OpenSession sample_env sample_crypto sample_directory sample_holder
         (sample_site sample_holder)))
       (LogoutOthers sample_crypto 1 ''kept''
         ((snd (OpenSession sample_env sample_crypto sample_directory sample_holder (sample_site sample_holder)))
            \<lparr>site_db := sample_with (sample_holder\<lparr>us_PasswordHash := ''#secret34''\<rparr>)\<rparr>))))"
    (is "session_Resolve ?e ?c ?v _ (snd (confirm_login _ ?u (fst ?o) ?s)) = _")
proof -
  have id: "us_ID ?u = 1" by (simp add: sample_holder_def sample_user_def)
  have db: "site_db (snd ?o) = sample_with ?u"
    using OpenSession_leaves(1) [OF prod.collapse [symmetric], of ?e ?c ?v ?u "sample_site ?u"] by (simp add: sample_site_def)
  let ?race = "race ?e ?c ?v ?u ''secret12'' ''secret34'' ''kept''"
  note step = race.more [where e = ?e and c = ?c and v = ?v and user = ?u and current = "''secret12''"
      and replacement = "''secret34''" and kept = "''kept''"]
  have "?race (sample_site ?u, LoginOpens, ChangeWrites) (snd ?o, LoginConfirms (fst ?o), ChangeWrites)"
    by (rule step [OF race.none race_step.opens]) simp
  then have "?race (sample_site ?u, LoginOpens, ChangeWrites)
      ((snd ?o)\<lparr>site_db := sample_with (?u\<lparr>us_PasswordHash := ''#secret34''\<rparr>)\<rparr>, LoginConfirms (fst ?o), ChangeEndsOthers)"
    by (rule step [OF _ race_step.writes]) (simp add: id db sample_change [unfolded One_nat_def])
  then have "?race (sample_site ?u, LoginOpens, ChangeWrites) (?s, LoginConfirms (fst ?o), ChangeDone)"
    using race_step.ends [of ?e ?c ?v ?u] id by (metis step)
  then have through: "?race (sample_site ?u, LoginOpens, ChangeWrites)
      (snd (confirm_login ?c ?u (fst ?o) ?s), LoginDone (fst (confirm_login ?c ?u (fst ?o) ?s)), ChangeDone)"
    by (rule step [OF _ race_step.confirms]) simp
  have "fresh_token ?c = ''token''" "HashToken ?c ''token'' = ''token''" "HashToken ?c ''kept'' = ''kept''"
    "bcrypt_hash ?c ''secret34'' = ''#secret34''"
    by (simp_all add: sample_crypto_def HashToken_def)
  note vals = this
  show ?thesis
    using no_session_of_an_old_password [OF through, of ?u ?e ?v] id
    by (simp add: vals sample_site_def sample_with_at) (simp add: sample_holder_def)
qed

section \<open>A session in use lasts\<close>

text \<open>Requests with one token, in order: what each resolves to, and the site after the last.\<close>

fun requests :: "crypto \<Rightarrow> session_service \<Rightarrow> gostring \<Rightarrow> env list \<Rightarrow> site \<Rightarrow> principal result list \<times> site" where
  "requests c v token [] s = ([], s)"
| "requests c v token (e # es) s =
     (case session_Resolve e c v token s of (res, s') \<Rightarrow>
        (case requests c v token es s' of (ress, t) \<Rightarrow> (res # ress, t)))"

text \<open>Requests never further apart than \<open>gap\<close>, from the instant \<open>t\<close> on.\<close>

fun steady :: "int \<Rightarrow> gotime \<Rightarrow> env list \<Rightarrow> bool" where
  "steady gap t [] \<longleftrightarrow> True"
| "steady gap t (e # es) \<longleftrightarrow> ns t \<le> ns (now e) \<and> ns (now e) - ns t \<le> gap \<and> steady gap (now e) es"

definition held :: "crypto \<Rightarrow> gostring \<Rightarrow> site \<Rightarrow> session option" where
  "held c token s = map_of (site_sessions s) (HashToken c token)"

lemma touchInterval_half: "0 < idle \<Longrightarrow> touchInterval idle \<le> tdiv idle 2 \<and> touchInterval idle \<le> max_duration"
  by (auto simp: touchInterval_def maxTouchInterval_def max_duration_def)

text \<open>A request within the session's time finds it, and leaves it as it was or touched now.\<close>

lemma request_in_time:
  assumes "held c token s = Some x" "se_TokenHash x = HashToken c token" "token \<noteq> []"
    and "user_at (site_db s) (se_UserID x) = Some a"
    and "ns (now e) < ns (se_ExpiresAt x)" "ns (now e) - ns (se_LastSeenAt x) \<le> idleTimeout v"
    and "0 < idleTimeout v" "ns (se_LastSeenAt x) \<le> ns (now e)"
  shows "\<exists>x' s'. session_Resolve e c v token s = (Inr (principalFor (site_db s) (withRoleName (db_roles (site_db s)) a)), s')
    \<and> site_db s' = site_db s \<and> held c token s' = Some x' \<and> se_TokenHash x' = HashToken c token
    \<and> se_UserID x' = se_UserID x \<and> se_ExpiresAt x' = se_ExpiresAt x
    \<and> ns (se_LastSeenAt x') \<le> ns (now e) \<and> ns (now e) - ns (se_LastSeenAt x') \<le> touchInterval (idleTimeout v)"
proof -
  have "time_sub (now e) (se_LastSeenAt x) \<le> ns (now e) - ns (se_LastSeenAt x)"
    using assms(8) by (simp add: time_sub_def min_duration_def)
  then have live: "\<not> Expired x (now e)" "\<not> Idle x (now e) (idleTimeout v)"
    using assms(5,6) by (simp_all add: Expired_def Idle_def)
  define s' where "s' = touch x (now e) (idleTimeout v) s"
  have "user_GetByID (db_roles (site_db s)) (se_UserID x) (db_users (site_db s)) = Inr (withRoleName (db_roles (site_db s)) a)"
    using assms(4) by (auto simp: user_GetByID_Inr)
  then have resolved: "session_Resolve e c v token s
      = (Inr (principalFor (site_db s) (withRoleName (db_roles (site_db s)) a)), s')"
    using assms(1,3) live by (simp add: session_Resolve_def resolve_def session_Get_def held_def s'_def)
  show ?thesis
  proof (cases "time_sub (now e) (se_LastSeenAt x) < touchInterval (idleTimeout v)")
    case True
    then have "ns (now e) - ns (se_LastSeenAt x) \<le> touchInterval (idleTimeout v)"
      using touchInterval_half [OF assms(7)] assms(8) by (auto simp: time_sub_def min_duration_def max_def min_def split: if_splits)
    then show ?thesis using True resolved assms(1,2,8) by (auto simp: s'_def touch_def)
  next
    case False
    then have "held c token s' = Some (x\<lparr>se_LastSeenAt := now e\<rparr>)" "site_db s' = site_db s"
      using assms(1,2) by (simp_all add: s'_def touch_def session_Touch_def held_def map_of_update)
    moreover have "0 \<le> touchInterval (idleTimeout v)"
      by (simp add: touchInterval_def maxTouchInterval_def tdiv_def)
    ultimately show ?thesis using resolved assms(2) by auto
  qed
qed

text \<open>C16: a session in use is not put out: requests with its token that come no further apart than half
  the idle timeout are all answered as its account's, however many there are, up to the moment the
  session's lifetime ends - although the time of the last request is written at most once a minute.\<close>

theorem session_in_use_lasts:
  assumes "held c token s = Some x" "se_TokenHash x = HashToken c token" "token \<noteq> []"
    and "user_at (site_db s) (se_UserID x) = Some a" "0 < idleTimeout v"
    and "ns (se_LastSeenAt x) \<le> ns t" "ns t - ns (se_LastSeenAt x) \<le> touchInterval (idleTimeout v)"
    and "steady (tdiv (idleTimeout v) 2) t es" "\<forall>e \<in> set es. ns (now e) < ns (se_ExpiresAt x)"
  shows "fst (requests c v token es s)
    = map (\<lambda>_. Inr (principalFor (site_db s) (withRoleName (db_roles (site_db s)) a))) es"
  using assms
proof (induction es arbitrary: s x t)
  case (Cons e es)
  have half: "tdiv (idleTimeout v) 2 + tdiv (idleTimeout v) 2 \<le> idleTimeout v"
    using Cons.prems(5) by (simp add: tdiv_nonneg)
  have "ns (now e) - ns (se_LastSeenAt x) \<le> idleTimeout v"
    using Cons.prems(7,8) half touchInterval_half [OF Cons.prems(5)] by simp
  moreover have "ns (se_LastSeenAt x) \<le> ns (now e)" "ns (now e) < ns (se_ExpiresAt x)"
    using Cons.prems(6,8,9) by simp_all
  ultimately obtain x' s' where r: "session_Resolve e c v token s
      = (Inr (principalFor (site_db s) (withRoleName (db_roles (site_db s)) a)), s')"
    "site_db s' = site_db s" "held c token s' = Some x'" "se_TokenHash x' = HashToken c token"
    "se_UserID x' = se_UserID x" "se_ExpiresAt x' = se_ExpiresAt x"
    "ns (se_LastSeenAt x') \<le> ns (now e)" "ns (now e) - ns (se_LastSeenAt x') \<le> touchInterval (idleTimeout v)"
    using request_in_time [OF Cons.prems(1-4), of e v] Cons.prems(5) by blast
  have "fst (requests c v token es s')
    = map (\<lambda>_. Inr (principalFor (site_db s') (withRoleName (db_roles (site_db s')) a))) es"
    by (rule Cons.IH [OF r(3,4) Cons.prems(3) _ Cons.prems(5) r(7,8)]) (use Cons.prems(4,8,9) r in auto)
  then show ?case using r(1,2) by (simp add: split_def)
qed simp

text \<open>The idle timeout in force, for a whole number of minutes.\<close>

lemma SessionIdle_whole:
  assumes "SessionIdleMinutes l = Fin (of_int m)" "0 < m" "m \<le> 1440"
  shows "SessionIdle l = m * (60 * 10 ^ 9)"
proof -
  have "float_of_int (60 * 10 ^ 9) = Fin (of_int (60 * 10 ^ 9))"
    unfolding float_of_int_def by (rule fl_of_int) simp
  moreover have "fl (of_int (m * (60 * 10 ^ 9))) = Fin (of_int (m * (60 * 10 ^ 9)))"
    by (rule fl_of_int) (use assms in \<open>simp add: abs_if\<close>)
  ultimately have "fmul (Fin (of_int m)) (float_of_int (60 * 10 ^ 9)) = Fin (of_int (m * (60 * 10 ^ 9)))" by simp
  moreover have "- (2 ^ 63) \<le> m * (60 * 10 ^ 9)" "m * (60 * 10 ^ 9) < 2 ^ 63" using assms by simp_all
  then have "to_int64 (Fin (of_int (m * (60 * 10 ^ 9)))) = Some (m * (60 * 10 ^ 9))"
    by (simp only: to_int64.simps ceiling_of_int floor_of_int if_cancel Let_def simp_thms if_True)
  ultimately show ?thesis using assms by (simp add: SessionIdle_def to_duration_def)
qed

definition sample_limits :: limits where
  "sample_limits = \<lparr>SessionLifetimeHours = Fin 12, SessionIdleMinutes = Fin 30, MaxDailyHours = Fin 10,
     RateLimit = 100, RateLimitWindowSeconds = 60, LDAPSyncMaxDeleteRatio = Fin (1 / 2)\<rparr>"

definition sample_service :: session_service where
  "sample_service = \<lparr>sv_lifetime = 10 ^ 13,
     sv_limits = Some (sample_limits, \<lparr>lp_fallback = sample_limits, lp_cached = sample_limits, lp_fetched = midnight 20000\<rparr>),
     sv_external = None, sv_defaultRole = RoleUser\<rparr>"

definition sample_session :: session where
  "sample_session = \<lparr>se_TokenHash = ''token'', se_UserID = 1, se_CreatedAt = midnight 20000,
     se_ExpiresAt = later (midnight 20000) (12 * hour_ns), se_LastSeenAt = midnight 20000\<rparr>"

definition sample_later :: "int \<Rightarrow> env" where
  "sample_later minutes = sample_env\<lparr>now := later (midnight 20000) (minutes * (60 * 10 ^ 9))\<rparr>"

text \<open>Three requests a quarter of an hour apart, with a timeout of half an hour.\<close>

lemma session_in_use_lasts_witness:
  "fst (requests sample_crypto sample_service ''token'' [sample_later 15, sample_later 30, sample_later 45]
      ((sample_site sample_user)\<lparr>site_sessions := [(''token'', sample_session)]\<rparr>))
   = map (\<lambda>_. Inr (principalFor (sample_with sample_user) (withRoleName NewRoleRepository sample_user)))
       [sample_later 15, sample_later 30, sample_later 45]"
proof -
  have idle: "idleTimeout sample_service = 30 * (60 * 10 ^ 9)"
    using SessionIdle_whole [of sample_limits 30] by (simp add: idleTimeout_def sample_service_def sample_limits_def)
  have half: "tdiv 1800000000000 2 = 900000000000" by (simp add: tdiv_def)
  let ?s = "(sample_site sample_user)\<lparr>site_sessions := [(''token'', sample_session)]\<rparr>"
  have db: "site_db ?s = sample_with sample_user" by (simp add: sample_site_def)
  show ?thesis
    unfolding sample_with_roles [of sample_user, symmetric] db [symmetric]
  proof (rule session_in_use_lasts [where x = sample_session and t = "midnight 20000"])
    show "held sample_crypto ''token'' ?s = Some sample_session"
      by (simp add: held_def HashToken_def sample_crypto_def)
    show "steady (tdiv (idleTimeout sample_service) 2) (midnight 20000) [sample_later 15, sample_later 30, sample_later 45]"
      by (simp add: idle half sample_later_def later_def)
    show "ns (midnight 20000) - ns (se_LastSeenAt sample_session) \<le> touchInterval (idleTimeout sample_service)"
      by (simp add: idle half touchInterval_def maxTouchInterval_def sample_session_def)
  qed (simp_all add: idle sample_session_def sample_later_def later_def hour_ns_def sample_site_def sample_with_at
      HashToken_def sample_crypto_def)
qed

end
