(* ===== verification/AccessRules.thy ===== *)
theory AccessRules
  imports SessionRules ProjectService
begin

text \<open>
  Accounts as a whole: an account that is deleted takes everything of its own along and nothing of
  anybody else's, a project is read in nobody's name but its owner's, and the built-in administrator
  and the shipped roles survive whatever is done to accounts and roles.
\<close>

section \<open>A deleted account\<close>

lemma map_of_filter_keyed:
  "distinct (map fst xs) \<Longrightarrow> map_of (filter (\<lambda>(k, x). P k x) xs) k
     = (case map_of xs k of None \<Rightarrow> None | Some x \<Rightarrow> if P k x then Some x else None)"
  by (induction xs) (auto split: option.split simp: map_of_eq_None_iff)

lemmas map_of_filter_distinct = map_of_filter_keyed [of _ "\<lambda>_. P" for P]

lemma store_find_filter:
  "store_valid s \<Longrightarrow> store_find i (s\<lparr>st_items := filter (\<lambda>(k, x). P x) (st_items s)\<rparr>)
     = (case store_find i s of None \<Rightarrow> None | Some x \<Rightarrow> if P x then Some x else None)"
  by (simp add: store_find_def store_valid_def map_of_filter_distinct)

lemma store_valid_filter: "store_valid s \<Longrightarrow> store_valid (s\<lparr>st_items := filter P (st_items s)\<rparr>)"
proof -
  assume v: "store_valid s"
  have "store_find i s = Some x" if "store_find i (s\<lparr>st_items := filter P (st_items s)\<rparr>) = Some x" for i x
    using v that by (auto simp: store_find_def store_valid_def dest: map_of_SomeD)
  then show ?thesis using v by (simp add: store_valid_def distinct_map_filter)
qed

text \<open>What an installation keeps for one account.\<close>

record belongings =
  bl_user :: "user option"
  bl_timer :: "running_timer option"
  bl_entries :: "uint \<Rightarrow> timesheet option"
  bl_revisions :: "revision list"
  bl_projects :: "uint \<Rightarrow> project option"
  bl_absences :: "absence list"
  bl_workdays :: "work_day list"
  bl_schedules :: "work_schedule list"
  bl_entitlements :: "vacation_entitlement list"
  bl_sessions :: "gostring \<Rightarrow> session option"

definition belonging :: "uint \<Rightarrow> site \<Rightarrow> belongings" where
  "belonging u s = (let d = site_db s in
     \<lparr>bl_user = user_at d u, bl_timer = timer_Get u (db_timers d),
      bl_entries = (\<lambda>i. case entry_at d i of None \<Rightarrow> None | Some x \<Rightarrow> if ts_UserID x = u then Some x else None),
      bl_revisions = filter (\<lambda>r. rv_UserID r = u) (tr_revisions (db_timesheets d)),
      bl_projects = (\<lambda>i. case project_at d i of None \<Rightarrow> None | Some x \<Rightarrow> if pr_OwnerID x = Some u then Some x else None),
      bl_absences = filter (\<lambda>a. ab_user a = u) (db_absences d), bl_workdays = filter (\<lambda>w. wd_user w = u) (db_workdays d),
      bl_schedules = filter (\<lambda>x. ws_user x = u) (db_schedules d),
      bl_entitlements = filter (\<lambda>v. ve_user v = u) (db_entitlements d),
      bl_sessions = (\<lambda>h. case map_of (site_sessions s) h of None \<Rightarrow> None | Some x \<Rightarrow> if se_UserID x = u then Some x else None)\<rparr>)"

definition nothing_kept :: belongings where
  "nothing_kept = \<lparr>bl_user = None, bl_timer = None, bl_entries = (\<lambda>_. None), bl_revisions = [], bl_projects = (\<lambda>_. None),
     bl_absences = [], bl_workdays = [], bl_schedules = [], bl_entitlements = [], bl_sessions = (\<lambda>_. None)\<rparr>"

definition site_valid :: "site \<Rightarrow> bool" where
  "site_valid s \<longleftrightarrow> db_valid (site_db s) \<and> distinct (map fst (site_sessions s))"

lemma ManagersOf_without:
  assumes "distinct (map fst (db_managers d))"
  shows "ManagersOf v (db_managers (without_user u d)) = (if v = u then [] else filter (\<lambda>m. m \<noteq> u) (ManagersOf v (db_managers d)))"
proof -
  let ?r = "map (\<lambda>(v, ms). (v, filter (\<lambda>m. m \<noteq> u) ms)) (db_managers d)"
  have keys: "map fst ?r = map fst (db_managers d)" by (simp add: split_def comp_def)
  have "map_of (filter (\<lambda>(v, ms). v \<noteq> u \<and> ms \<noteq> []) ?r) v
      = (case map_of ?r v of None \<Rightarrow> None | Some ms \<Rightarrow> if v \<noteq> u \<and> ms \<noteq> [] then Some ms else None)"
    by (rule map_of_filter_keyed) (simp only: keys assms)
  moreover have "map_of ?r v = map_option (filter (\<lambda>m. m \<noteq> u)) (map_of (db_managers d) v)"
    by (simp add: map_of_map)
  ultimately show ?thesis by (simp add: ManagersOf_def without_user_def split: option.split)
qed

definition purged :: "uint \<Rightarrow> site \<Rightarrow> site" where
  "purged u s = s\<lparr>site_db := (without_user u (site_db s))\<lparr>db_users := snd (store_delete u (db_users (site_db s)))\<rparr>,
     site_sessions := filter (\<lambda>(_, x). se_UserID x \<noteq> u) (site_sessions s)\<rparr>"

lemma purged_fields:
  "user_at (site_db (purged u s)) v = (if v = u then None else user_at (site_db s) v)"
  "db_timers (site_db (purged u s)) = AList.delete u (db_timers (site_db s))"
  "db_roles (site_db (purged u s)) = db_roles (site_db s)"
  "db_absences (site_db (purged u s)) = filter (\<lambda>a. ab_user a \<noteq> u) (db_absences (site_db s))"
  "db_workdays (site_db (purged u s)) = filter (\<lambda>a. wd_user a \<noteq> u) (db_workdays (site_db s))"
  "db_schedules (site_db (purged u s)) = filter (\<lambda>a. ws_user a \<noteq> u) (db_schedules (site_db s))"
  "db_entitlements (site_db (purged u s)) = filter (\<lambda>a. ve_user a \<noteq> u) (db_entitlements (site_db s))"
  "site_settings (purged u s) = site_settings s"
  "tr_revisions (db_timesheets (site_db (purged u s))) = filter (\<lambda>r. rv_UserID r \<noteq> u) (tr_revisions (db_timesheets (site_db s)))"
  by (simp_all add: purged_def without_user_def store_find_after)

lemma purged_stores:
  assumes "db_valid (site_db s)"
  shows "entry_at (site_db (purged u s)) i
      = (case entry_at (site_db s) i of None \<Rightarrow> None | Some x \<Rightarrow> if ts_UserID x \<noteq> u then Some x else None)"
    and "project_at (site_db (purged u s)) i
      = (case project_at (site_db s) i of None \<Rightarrow> None | Some x \<Rightarrow> if pr_OwnerID x \<noteq> Some u then Some x else None)"
  using assms by (simp_all add: purged_def without_user_def store_find_filter db_valid_def repo_valid_def)

lemma purged_sessions:
  "distinct (map fst (site_sessions s)) \<Longrightarrow> map_of (site_sessions (purged u s)) h
     = (case map_of (site_sessions s) h of None \<Rightarrow> None | Some x \<Rightarrow> if se_UserID x \<noteq> u then Some x else None)"
  by (simp add: purged_def map_of_filter_distinct)

lemma purged_managers:
  "distinct (map fst (db_managers (site_db s))) \<Longrightarrow> ManagersOf v (db_managers (site_db (purged u s)))
     = (if v = u then [] else filter (\<lambda>m. m \<noteq> u) (ManagersOf v (db_managers (site_db s))))"
  using ManagersOf_without [of "site_db s" v u] by (simp add: purged_def)

lemma filter_owner:
  "filter (\<lambda>x. k x = v) (filter (\<lambda>x. k x \<noteq> u) xs) = (if v = u then [] else filter (\<lambda>x. k x = v) xs)"
  by (auto simp: filter_empty_conv intro!: filter_cong)

lemma keyed_filter:
  "store_valid s \<Longrightarrow> projects_keyed s \<Longrightarrow> projects_keyed (s\<lparr>st_items := filter (\<lambda>(k, x). P x) (st_items s)\<rparr>)"
  "store_valid t \<Longrightarrow> ts_keyed t \<Longrightarrow> ts_keyed (t\<lparr>st_items := filter (\<lambda>(k, x). Q x) (st_items t)\<rparr>)"
  by (auto simp: projects_keyed_def ts_keyed_def store_find_filter split: option.splits if_splits)

text \<open>Every revision is of an entry of its own account.\<close>

definition history_owned :: "db \<Rightarrow> bool" where
  "history_owned d \<longleftrightarrow> (\<forall>r \<in> set (tr_revisions (db_timesheets d)). \<forall>x.
     entry_at d (rv_TimesheetID r) = Some x \<longrightarrow> ts_UserID x = rv_UserID r)"

lemma purged_timesheets_valid:
  assumes "db_valid (site_db s)" "history_owned (site_db s)"
  shows "repo_valid (db_timesheets (site_db (purged u s)))"
proof -
  have r: "repo_valid (db_timesheets (site_db s))" using assms(1) by (simp add: db_valid_def)
  then have st: "store_valid (tr_store (db_timesheets (site_db s)))" "ts_keyed (tr_store (db_timesheets (site_db s)))"
    by (simp_all add: repo_valid_def)
  have "entry_at (site_db (purged u s)) (rv_TimesheetID v) \<noteq> None"
    if v: "v \<in> set (tr_revisions (db_timesheets (site_db s)))" "rv_UserID v \<noteq> u" for v
  proof -
    obtain x where "entry_at (site_db s) (rv_TimesheetID v) = Some x" "ts_UserID x = rv_UserID v"
      using r v(1) assms(2) by (auto simp: repo_valid_def history_owned_def)
    then show ?thesis using v(2) purged_stores(1) [OF assms(1)] by simp
  qed
  moreover have "store_valid (tr_store (db_timesheets (site_db (purged u s))))"
    "ts_keyed (tr_store (db_timesheets (site_db (purged u s))))"
    using st by (simp_all add: purged_def without_user_def store_valid_filter keyed_filter)
  ultimately show ?thesis using r
    by (simp add: repo_valid_def purged_fields) (simp add: purged_def without_user_def distinct_map_filter)
qed

lemma purged_valid:
  assumes "site_valid s" "history_owned (site_db s)"
  shows "site_valid (purged u s)"
proof -
  have v: "db_valid (site_db s)" using assms(1) by (simp add: site_valid_def)
  then have parts: "store_valid (db_users (site_db s))" "users_keyed (db_users (site_db s))"
    "store_valid (db_projects (site_db s))" "projects_keyed (db_projects (site_db s))"
    "timers_keyed (db_timers (site_db s))" "distinct (map fst (db_managers (site_db s)))" by (simp_all add: db_valid_def)
  have "store_valid (db_users (site_db (purged u s)))" "users_keyed (db_users (site_db (purged u s)))"
    using parts by (simp_all add: purged_def without_user_def mem.valid_delete users.keyed_delete)
  moreover have "store_valid (db_projects (site_db (purged u s)))" "projects_keyed (db_projects (site_db (purged u s)))"
    using parts by (simp_all add: purged_def without_user_def store_valid_filter keyed_filter)
  moreover have "timers_keyed (db_timers (site_db (purged u s)))"
    using timers_keyed_after(2) [OF parts(5), of u] by (simp add: purged_fields timer_Clear_def)
  moreover have "distinct (map fst (map (\<lambda>(v, ms). (v, filter (\<lambda>m. m \<noteq> u) ms)) (db_managers (site_db s))))"
    using parts(6) by (simp add: comp_def split_def)
  then have "distinct (map fst (db_managers (site_db (purged u s))))"
    by (simp add: purged_def without_user_def distinct_map_filter del: map_map)
  ultimately show ?thesis
    using assms(1) v purged_timesheets_valid [OF v assms(2), of u]
    by (simp add: site_valid_def db_valid_def purged_fields dated_valid_def distinct_map_filter)
      (simp add: purged_def distinct_map_filter)
qed

lemma belonging_purged:
  assumes "site_valid s"
  shows "belonging v (purged u s) = (if v = u then nothing_kept else belonging v s)"
proof -
  have t: "timer_Get v (AList.delete u r) = (if v = u then None else timer_Get v r)" for r v
    by (simp add: timer_Get_def map_of_delete)
  have stores: "db_valid (site_db s)" "distinct (map fst (site_sessions s))" using assms by (simp_all add: site_valid_def)
  note fields = purged_fields purged_stores [OF stores(1)] purged_sessions [OF stores(2)] t filter_owner
  have only: "(case (case m of None \<Rightarrow> None | Some x \<Rightarrow> if k x \<noteq> a then Some x else None) of
      None \<Rightarrow> None | Some x \<Rightarrow> if k x = b then Some x else None)
    = (if b = a then None else case m of None \<Rightarrow> None | Some x \<Rightarrow> if k x = b then Some x else None)"
    for m and k :: "'a \<Rightarrow> 'b" and a b
    by (cases m) simp_all
  show ?thesis
  proof (cases "v = u")
    case True
    then show ?thesis
      by (simp add: belonging_def nothing_kept_def Let_def fields only del: filter_filter)
  next
    case False
    then show ?thesis
      by (simp add: belonging_def Let_def fields only del: filter_filter)
  qed
qed

lemma PurgeUser_purges:
  "PurgeUser u s = (if user_at (site_db s) u = None then (Inl (NotFound ''user'' (format_uint u)), s) else (Inr (), purged u s))"
  by (simp add: PurgeUser_def user_Delete_def store_delete_def purged_def split: option.split)



section \<open>A project in its owner's name\<close>

lemma Reaches_means:
  "Reaches (Some p) i right s \<Longrightarrow> Enabled s \<and> right \<in> set TeamPermissions \<and> Can p right \<and> i \<noteq> caller_id p
     \<and> i \<in> set (MembersOf (caller_id p) (db_managers (site_db s)))"
  by (auto simp: Reaches_def caller_id_def split: option.splits if_splits)

lemma Member_means:
  assumes "Member (Some p) i rights s = Inr (Some u)"
  shows "(\<exists>a. user_at (site_db s) i = Some a \<and> u = withRoleName (db_roles (site_db s)) a)
    \<and> (\<exists>right \<in> set rights. Reaches (Some p) i right s)"
  using assms
proof (induction rights)
  case (Cons right rights)
  show ?case
  proof (cases "Reaches (Some p) i right s")
    case True
    then show ?thesis using Cons.prems by (auto simp: bind_res_Inr user_GetByID_Inr)
  next
    case False
    then show ?thesis using Cons by auto
  qed
qed simp

text \<open>The project behind an operation that goes through is the actor's own.\<close>

lemma visible_own: "RequireVisible p actor = Inr () \<Longrightarrow> actor \<noteq> 0 \<Longrightarrow> pr_OwnerID p = Some actor"
  by (auto simp: RequireVisible_def VisibleTo_def split: if_splits)

lemma acted_on:
  assumes "actor \<noteq> 0"
  shows "GetProject i actor d = Inr r \<Longrightarrow> \<exists>p. project_at d i = Some p \<and> pr_OwnerID p = Some actor"
    and "ArchiveProject i actor d = (Inr r', d') \<Longrightarrow> \<exists>p. project_at d i = Some p \<and> pr_OwnerID p = Some actor"
    and "DeleteProject e i actor d = (Inr (), d') \<Longrightarrow> \<exists>p. project_at d i = Some p \<and> pr_OwnerID p = Some actor"
    and "UpdateProject e cmd d = (Inr r, d') \<Longrightarrow> up_ActorID cmd = actor \<Longrightarrow>
          \<exists>p. project_at d (up_ID cmd) = Some p \<and> pr_OwnerID p = Some actor"
proof -
  have own: "\<exists>p. project_at d j = Some p \<and> pr_OwnerID p = Some actor"
    if "store_get j (db_projects d) = Inr p" "RequireVisible p actor = Inr ()" for j p
    using that visible_own [OF that(2) assms] by (auto simp: store_get_def split: option.splits)
  show "GetProject i actor d = Inr r \<Longrightarrow> \<exists>p. project_at d i = Some p \<and> pr_OwnerID p = Some actor"
    by (simp add: GetProject_def bind_res_Inr split: if_splits) (use own assms in auto)
  show "ArchiveProject i actor d = (Inr r', d') \<Longrightarrow> \<exists>p. project_at d i = Some p \<and> pr_OwnerID p = Some actor"
    by (simp add: ArchiveProject_def bind_res_Inr split: sum.splits) (use own assms in auto)
  show "DeleteProject e i actor d = (Inr (), d') \<Longrightarrow> \<exists>p. project_at d i = Some p \<and> pr_OwnerID p = Some actor"
    by (simp add: DeleteProject_def bind_res_Inr split: sum.splits if_splits) (use own assms in auto)
  show "UpdateProject e cmd d = (Inr r, d') \<Longrightarrow> up_ActorID cmd = actor \<Longrightarrow>
      \<exists>p. project_at d (up_ID cmd) = Some p \<and> pr_OwnerID p = Some actor"
    by (simp add: UpdateProject_def bind_res_Inr split: sum.splits if_splits) (use own assms in auto)
qed

lemma ProjectActor_means:
  assumes "ProjectActor caller i rights s = Inr actor"
  shows "actor = caller_id caller \<or> (\<exists>j w. Member (Some caller) j rights s = Inr (Some w) \<and> actor = us_ID w)"
proof (cases "store_get i (db_projects (site_db s))")
  case (Inl err)
  then show ?thesis using assms by (simp add: ProjectActor_def split: if_splits)
next
  case (Inr p)
  show ?thesis
  proof (cases "pr_OwnerID p")
    case None
    then show ?thesis using assms Inr by (simp add: ProjectActor_def)
  next
    case (Some j)
    then obtain w where "Member (Some caller) j rights s = Inr w"
      "(case w of None \<Rightarrow> Inr (caller_id caller) | Some u \<Rightarrow> Inr (us_ID u)) = (Inr actor :: uint result)"
      using assms Inr by (auto simp: ProjectActor_def bind_res_Inr)
    then show ?thesis by (cases w) auto
  qed
qed

text \<open>A project is read, changed, archived or deleted in its owner's name and no other: where a
  signed-in caller's request about a project goes through, the project's owner is the caller, or an
  account an administrator assigned to them while the installation has managers and their role holds
  one of the team rights the request needs.  With managers switched off nobody reaches another's.\<close>

lemma projects_in_their_owners_name:
  assumes "db_valid (site_db s)" "pp_User caller = Some u" "us_ID u \<noteq> 0"
    and "ProjectActor caller i rights s = Inr actor"
    and "(\<exists>r. GetProject i actor (site_db s) = Inr r) \<or> (\<exists>r d. ArchiveProject i actor (site_db s) = (Inr r, d))
      \<or> (\<exists>d. DeleteProject e i actor (site_db s) = (Inr (), d))
      \<or> (\<exists>r d. UpdateProject e cmd (site_db s) = (Inr r, d)) \<and> up_ID cmd = i \<and> up_ActorID cmd = actor"
  shows "(\<exists>p. project_at (site_db s) i = Some p \<and> pr_OwnerID p = Some actor)
    \<and> (actor = us_ID u
       \<or> Enabled s \<and> actor \<in> set (MembersOf (us_ID u) (db_managers (site_db s)))
         \<and> (\<exists>right \<in> set rights \<inter> set TeamPermissions. Can caller right))"
proof -
  have me: "caller_id caller = us_ID u" using assms(2) by (simp add: caller_id_def)
  have keyed: "us_ID a = j \<and> j \<noteq> 0" if "user_at (site_db s) j = Some a" for a j
    using that assms(1) by (auto simp: db_valid_def users_keyed_def store_valid_def)
  have other: "actor = us_ID u \<or> (\<exists>right \<in> set rights. actor \<noteq> 0 \<and> Reaches (Some caller) actor right s)"
  proof -
    have "\<exists>right \<in> set rights. actor \<noteq> 0 \<and> Reaches (Some caller) actor right s"
      if "Member (Some caller) j rights s = Inr (Some w)" "actor = us_ID w" for j w
      using Member_means [OF that(1)] that(2) keyed by auto
    then show ?thesis using ProjectActor_means [OF assms(4)] me by blast
  qed
  then have actor: "actor \<noteq> 0" using assms(3) by auto
  have "\<exists>p. project_at (site_db s) i = Some p \<and> pr_OwnerID p = Some actor"
    using assms(5) acted_on [OF actor] by blast
  moreover have "actor = us_ID u \<or> Enabled s \<and> actor \<in> set (MembersOf (us_ID u) (db_managers (site_db s)))
         \<and> (\<exists>right \<in> set rights \<inter> set TeamPermissions. Can caller right)"
    using other Reaches_means [of caller actor] me by (metis IntI)
  ultimately show ?thesis by blast
qed

text \<open>Ada's project, and the manager Ada is assigned to.\<close>

definition sample_manager :: user where
  "sample_manager = blank_user\<lparr>us_ID := 2, us_Name := ''Max'', us_Email := ''max@example.org'', us_RoleID := 4\<rparr>"

definition sample_team :: site where
  "sample_team = \<lparr>site_db = sample_db\<lparr>db_users := \<lparr>st_items = [(1, sample_user), (2, sample_manager)], st_nextID = 3,
       st_entity = ''user''\<rparr>, db_managers := [(1, [2])]\<rparr>, site_sessions = [], site_settings = [(SettingManagers, ''true'')],
     site_spent = []\<rparr>"

definition sample_caller :: principal where
  "sample_caller = \<lparr>pp_User = Some sample_manager, pp_Role = None, pp_Permissions = ManagerPermissions\<rparr>"

lemma projects_in_their_owners_name_witness:
  "(\<exists>p. project_at (site_db sample_team) 1 = Some p \<and> pr_OwnerID p = Some 1)
    \<and> (1 = us_ID sample_manager
       \<or> Enabled sample_team \<and> 1 \<in> set (MembersOf (us_ID sample_manager) (db_managers (site_db sample_team)))
         \<and> (\<exists>right \<in> set [PermProjectWriteTeam] \<inter> set TeamPermissions. Can sample_caller right))"
proof (rule projects_in_their_owners_name [where e = sample_env and cmd = undefined])
  have ids: "us_ID sample_user = 1" "us_ID sample_manager = 2" by (simp_all add: sample_user_def sample_manager_def)
  let ?d = "site_db sample_team"
  have at: "user_at ?d j = (if j = 1 then Some sample_user else if j = 2 then Some sample_manager else None)" for j
    by (simp add: sample_team_def store_find_def)
  have "store_valid (db_users ?d)" "users_keyed (db_users ?d)"
    using at ids by (auto simp: store_valid_def users_keyed_def split: if_splits) (simp_all add: sample_team_def)
  then show "db_valid ?d" using sample_valid by (simp add: db_valid_def) (simp add: sample_team_def)
  show "pp_User sample_caller = Some sample_manager" "us_ID sample_manager \<noteq> 0" by (simp_all add: sample_caller_def ids)
  have p: "project_at ?d 1 = Some sample_project" using sample_project_at [of 1] by (simp add: sample_team_def)
  then have g: "store_get 1 (db_projects ?d) = Inr sample_project" by (simp add: store_get_def)
  have own: "pr_OwnerID sample_project = Some 1" by (simp add: sample_project_def)
  have "MembersOf 2 (db_managers ?d) = [1]" "setting SettingManagers sample_team = ''true''"
    by (simp_all add: MembersOf_def setting_def sample_team_def)
  then have "Reaches (Some sample_caller) 1 PermProjectWriteTeam sample_team"
    by (simp add: Reaches_def sample_caller_def ids Can_def Enabled_def TeamPermissions_def ManagerPermissions_def)
  moreover have "user_GetByID (db_roles ?d) 1 (db_users ?d) = Inr sample_user"
    using at [of 1] by (simp add: user_GetByID_def store_get_def withRoleName_def sample_user_def blank_user_def)
  ultimately have "Member (Some sample_caller) 1 [PermProjectWriteTeam] sample_team = Inr (Some sample_user)" by simp
  then show "ProjectActor sample_caller 1 [PermProjectWriteTeam] sample_team = Inr 1"
    using g ids unfolding ProjectActor_def by (simp only: sum.case) (simp add: sample_project_def)
  have "GetProject 1 1 ?d = Inr (hd (withBookedHours ?d 1 [NewProjectResultFromModel sample_project]))"
    by (simp add: GetProject_def RequireVisible_def VisibleTo_def g [unfolded One_nat_def] own [unfolded One_nat_def])
  then show "(\<exists>r. GetProject 1 1 ?d = Inr r) \<or> (\<exists>r x. ArchiveProject 1 1 ?d = (Inr r, x))
      \<or> (\<exists>x. DeleteProject sample_env 1 1 ?d = (Inr (), x))
      \<or> (\<exists>r x. UpdateProject sample_env undefined ?d = (Inr r, x)) \<and> up_ID undefined = 1 \<and> up_ActorID undefined = 1"
    by blast
qed

end
