(* ===== verification/RoleRules.thy ===== *)
theory RoleRules
  imports AccessRules
begin

text \<open>
  The built-in administrator and the shipped roles through everything that may be done to accounts
  and roles.  \<open>users_move\<close> and \<open>roles_move\<close> are what a single operation may do to
  the one store it writes; every operation is shown to be such a move, and the moves keep what the
  theorem promises.
\<close>

section \<open>Moves\<close>

definition users_move :: "db \<Rightarrow> db \<Rightarrow> bool" where
  "users_move d d' \<longleftrightarrow> (\<exists>s. d\<lparr>db_users := s\<rparr> = d' \<and>
     (s = db_users d
      \<or> (\<exists>u. s = snd (store_add user_with_id u (db_users d)))
      \<or> (\<exists>u a. user_at d (us_ID u) = Some a \<and> (us_IsSystem a \<longrightarrow> us_IsSystem u \<and> (\<not> us_IsExternal a \<longrightarrow> \<not> us_IsExternal u))
           \<and> s = snd (store_update (us_ID u) u (db_users d)))))"

definition roles_move :: "db \<Rightarrow> db \<Rightarrow> bool" where
  "roles_move d d' \<longleftrightarrow> (\<exists>s. d\<lparr>db_roles := s\<rparr> = d' \<and>
     (s = db_roles d
      \<or> (\<exists>r. s = snd (store_add role_with_id r (db_roles d)))
      \<or> (\<exists>r a. store_find (ro_ID r) (db_roles d) = Some a \<and> s = snd (store_update (ro_ID r) r (db_roles d))
           \<and> (IsDefault a \<and> set (ro_Permissions a) \<subseteq> set AllPermissions \<longrightarrow>
                ro_Name r = ro_Name a \<and> ro_Description r = ro_Description a \<and> set (ro_Permissions r) = set (ro_Permissions a)))
      \<or> (\<exists>i. s = snd (store_delete i (db_roles d)) \<and> (\<forall>a. store_find i (db_roles d) = Some a \<longrightarrow> \<not> IsDefault a))))"

lemma users_move_refl [simp]: "users_move d d"
  by (auto simp: users_move_def intro: exI [of _ "db_users d"])

lemma roles_move_refl [simp]: "roles_move d d"
  by (auto simp: roles_move_def intro: exI [of _ "db_roles d"])

lemma users_move_added: "users_move d (d\<lparr>db_users := snd (store_add user_with_id u (db_users d))\<rparr>)"
  unfolding users_move_def by blast

lemma users_move_written:
  "user_at d (us_ID u) = Some a \<Longrightarrow> (us_IsSystem a \<Longrightarrow> us_IsSystem u \<and> (\<not> us_IsExternal a \<longrightarrow> \<not> us_IsExternal u)) \<Longrightarrow>
   users_move d (d\<lparr>db_users := snd (store_update (us_ID u) u (db_users d))\<rparr>)"
  unfolding users_move_def by blast

lemma user_Save_moves: "users_move d (d\<lparr>db_users := snd (user_Save roles u (db_users d))\<rparr>)"
  using users_move_added [of d u] by (simp add: user_Save_def Let_def split_def)

lemma user_Update_moves:
  assumes "user_at d i = Some a" "us_ID a = i" "us_ID u = i"
    and "us_IsSystem a \<Longrightarrow> us_IsSystem u \<and> (\<not> us_IsExternal a \<longrightarrow> \<not> us_IsExternal u)"
  shows "users_move d (d\<lparr>db_users := snd (user_Update roles u (db_users d))\<rparr>)"
proof -
  have at: "user_at d (us_ID u) = Some a" using assms by simp
  show ?thesis using users_move_written [OF at assms(4)] user_Update_found [OF at, of roles] by simp
qed

text \<open>Operations that look an account up and write it back changed.\<close>

lemma update_user_moves:
  assumes "user_GetByID (db_roles d) i (db_users d) = Inr v" "db_valid d"
    and "us_ID u = us_ID v" "us_IsSystem u = us_IsSystem v" "us_IsExternal u = us_IsExternal v"
  shows "users_move d (snd (update_user u d))" "users_move d (snd (write_account u d))"
    and "users_move d (d\<lparr>db_users := snd (user_Update roles u (db_users d))\<rparr>)"
proof -
  obtain a where "user_at d i = Some a" "v = withRoleName (db_roles d) a" using assms(1) by (auto simp: user_GetByID_Inr)
  moreover from this have "us_ID a = i" using assms(2) by (simp add: db_valid_def users_keyed_def)
  ultimately have m: "users_move d (d\<lparr>db_users := snd (user_Update r u (db_users d))\<rparr>)" for r
    using assms(3-5) by (intro user_Update_moves) auto
  show "users_move d (snd (update_user u d))" "users_move d (snd (write_account u d))"
    and "users_move d (d\<lparr>db_users := snd (user_Update roles u (db_users d))\<rparr>)"
    using m by (simp_all add: update_user_def write_account_def split_def Let_def)
qed

lemma ChangePassword_moves: "db_valid d \<Longrightarrow> users_move d (snd (ChangePassword c i current replacement d))"
  by (cases "user_GetByID (db_roles d) i (db_users d)")
    (auto simp: ChangePassword_def intro: update_user_moves split: sum.split)

lemma SetPassword_moves: "db_valid d \<Longrightarrow> users_move d (snd (SetPassword c i replacement d))"
  by (cases "user_GetByID (db_roles d) i (db_users d)")
    (auto simp: SetPassword_def intro: update_user_moves split: sum.split)

lemma CreateUser_moves: "users_move d (snd (CreateUser e c cmd d))"
  using user_Save_moves by (auto simp: CreateUser_def split_def Let_def split: sum.split)

text \<open>An edit works on the account as it was looked up and keeps what it is.\<close>

lemma edited_account_keeps:
  assumes "edited_account e cmd d = Inr u"
  shows "\<exists>v. user_GetByID (db_roles d) (uu_ID cmd) (db_users d) = Inr v
     \<and> us_ID u = us_ID v \<and> us_IsSystem u = us_IsSystem v \<and> us_IsExternal u = us_IsExternal v"
  using assms by (auto simp: edited_account_def bind_res_Inr Let_def split: if_splits option.splits)

lemma counted_keeps:
  assumes "(if b then Inr (t\<lparr>us_EveryDayCountsFrom := None\<rparr>)
     else case x of None \<Rightarrow> Inr t | Some y \<Rightarrow> if \<not> P y then Inl err else Inr (t\<lparr>us_EveryDayCountsFrom := Some (Q y)\<rparr>)) = Inr c"
  shows "us_ID c = us_ID t \<and> us_IsSystem c = us_IsSystem t \<and> us_IsExternal c = us_IsExternal t"
  using assms by (auto split: if_splits option.splits)

lemma retimed_account_keeps:
  assumes "retimed_account cmd d = Inr u"
  shows "\<exists>v. user_GetByID (db_roles d) (wt_ID cmd) (db_users d) = Inr v
     \<and> us_ID u = us_ID v \<and> us_IsSystem u = us_IsSystem v \<and> us_IsExternal u = us_IsExternal v"
proof (cases "wt_ID cmd = 0")
  case False
  show ?thesis
    using assms unfolding retimed_account_def Let_def bind_res_Inr if_not_P [OF False] sum.inject
    by - (elim exE conjE, drule counted_keeps, rule exI, rule conjI, assumption, simp)
qed (use assms in \<open>simp add: retimed_account_def\<close>)

lemma UpdateUser_moves: "db_valid d \<Longrightarrow> users_move d (snd (UpdateUser e cmd d))"
proof (cases "edited_account e cmd d")
  case (Inr u)
  assume "db_valid d"
  with edited_account_keeps [OF Inr] show ?thesis using update_user_moves(2) by (auto simp: UpdateUser_def Inr)
qed (simp add: UpdateUser_def)

lemma UpdateWorkingTimes_moves: "db_valid d \<Longrightarrow> users_move d (snd (UpdateWorkingTimes cmd d))"
proof (cases "retimed_account cmd d")
  case (Inr u)
  assume "db_valid d"
  with retimed_account_keeps [OF Inr] show ?thesis using update_user_moves(2) by (auto simp: UpdateWorkingTimes_def Inr)
qed (simp add: UpdateWorkingTimes_def)

lemma AssignRoleToUser_moves: "db_valid d \<Longrightarrow> users_move d (snd (AssignRoleToUser e i name d))"
proof (cases "bind_res (user_GetByID (db_roles d) i (db_users d)) (\<lambda>user.
           bind_res (role_GetByName (equal_fold e) name (db_roles d)) (\<lambda>role.
           bind_res (may_hold user role) (\<lambda>_. Inr (user\<lparr>us_RoleID := ro_ID role\<rparr>))))")
  case (Inr u)
  assume v: "db_valid d"
  obtain w and role :: role where w: "user_GetByID (db_roles d) i (db_users d) = Inr w" "u = w\<lparr>us_RoleID := ro_ID role\<rparr>"
    using Inr unfolding bind_res_Inr sum.inject by metis
  show ?thesis
    unfolding AssignRoleToUser_def Inr sum.case split_def Let_def snd_conv
    by (rule update_user_moves(3) [OF w(1) v]) (simp_all add: w(2))
qed (simp add: AssignRoleToUser_def)

lemma change_user_moves:
  assumes "db_valid d" "\<And>u v. f u = Inr v \<Longrightarrow> us_ID v = us_ID u \<and> us_IsSystem v = us_IsSystem u \<and> us_IsExternal v = us_IsExternal u"
  shows "users_move d (d\<lparr>db_users := snd (change_user i f (db_users d))\<rparr>)"
proof (cases "user_at d i")
  case (Some a)
  have i: "us_ID a = i" using assms(1) Some by (simp add: db_valid_def users_keyed_def)
  show ?thesis
  proof (cases "f a")
    case (Inr v)
    have v: "us_ID v = i" "us_IsSystem v = us_IsSystem a" "us_IsExternal v = us_IsExternal a"
      using assms(2) [OF Inr] i by simp_all
    have w: "users_move d (d\<lparr>db_users := snd (store_update (us_ID v) v (db_users d))\<rparr>)"
      by (rule users_move_written [where a = a]) (use Some v in simp_all)
    have "snd (change_user i f (db_users d)) = snd (store_update (us_ID v) v (db_users d))"
      using Some Inr v(1) by (simp add: change_user_def store_get_def store_update_def)
    then show ?thesis using w by simp
  qed (use Some in \<open>simp add: change_user_def store_get_def\<close>)
qed (simp add: change_user_def store_get_def)

lemma own_fields_move:
  assumes "db_valid d"
  shows "users_move d (d\<lparr>db_users := snd (SetPreference i field value (db_users d))\<rparr>)"
    and "users_move d (d\<lparr>db_users := snd (SetTOTP i secret enabled (db_users d))\<rparr>)"
    and "users_move d (d\<lparr>db_users := snd (user_SetBalanceLimits i over short (db_users d))\<rparr>)"
    and "users_move d (d\<lparr>db_users := snd (SetReminders i skip hours (db_users d))\<rparr>)"
  unfolding SetPreference_def SetTOTP_def user_SetBalanceLimits_def SetReminders_def
  by (rule change_user_moves [OF assms]; auto split: preference.splits)+

lemma reconcileExternal_moves:
  assumes "db_valid d" "user_at d i = Some a"
  shows "users_move d (snd (reconcileExternal (withRoleName (db_roles d) a) x email d))"
proof (cases "reconciled (withRoleName (db_roles d) a) x email d")
  case (Inr u)
  have i: "us_ID a = i" using assms by (simp add: db_valid_def users_keyed_def)
  have u: "\<not> us_IsSystem a" "us_ID u = us_ID a" using reconciled_Inr [OF Inr] by (simp_all add: guarded_def)
  have "users_move d (d\<lparr>db_users := snd (user_Update (db_roles d) u (db_users d))\<rparr>)"
    by (rule user_Update_moves [OF assms(2) i]) (use u i in simp_all)
  then show ?thesis using Inr by (simp add: reconcileExternal_def split_def Let_def)
qed (simp add: reconcileExternal_def)

lemma arrive_moves: "users_move d (snd (arrive e v x email d))"
  using user_Save_moves by (auto simp: arrive_def split_def Let_def split: sum.split)

lemma found_account_moves:
  assumes "db_valid d"
  shows "user_GetByExternalID (db_roles d) y (db_users d) = Inr w \<Longrightarrow> users_move d (snd (reconcileExternal w x email d))"
    and "user_GetByEmail eq (db_roles d) y (db_users d) = Inr w \<Longrightarrow> users_move d (snd (reconcileExternal w x email d))"
proof -
  have m: "users_move d (snd (reconcileExternal w x email d))"
    if l: "\<exists>a \<in> set (store_all (db_users d)). P a \<and> w = withRoleName (db_roles d) a" for P
  proof -
    obtain a where a: "a \<in> set (store_all (db_users d))" "w = withRoleName (db_roles d) a" using l by blast
    then obtain i where "user_at d i = Some a" using assms by (auto simp: db_valid_def mem.set_all)
    then show ?thesis using reconcileExternal_moves [OF assms] a(2) by simp
  qed
  show "users_move d (snd (reconcileExternal w x email d))" if "user_GetByExternalID (db_roles d) y (db_users d) = Inr w"
    by (rule m) (rule looked_up(1) [OF that])
  show "users_move d (snd (reconcileExternal w x email d))" if "user_GetByEmail eq (db_roles d) y (db_users d) = Inr w"
    by (rule m) (rule looked_up(2) [OF that])
qed

lemma by_address_moves: "db_valid d \<Longrightarrow> users_move d (snd (by_address e v x email d))"
  by (auto simp: by_address_def arrive_moves found_account_moves split: sum.split)

lemma provisionExternal_moves: "db_valid d \<Longrightarrow> users_move d (snd (provisionExternal e v x d))"
  by (auto simp: provisionExternal_def by_address_moves found_account_moves Let_def split: sum.split)

lemma resolveUser_moves: "db_valid d \<Longrightarrow> users_move d (snd (resolveUser e c v email password d))"
  by (auto simp: resolveUser_def provisionExternal_moves Let_def split: sum.split option.split directory_answer.split)

lemma EnsureSystemUser_moves:
  assumes "db_valid d"
  shows "users_move d (snd (EnsureSystemUser e c d))"
proof (cases "user_GetByEmail (equal_fold e) (db_roles d) SystemUserEmail (db_users d)")
  case (Inl err)
  then show ?thesis
    using user_Save_moves by (auto simp: EnsureSystemUser_def split_def Let_def split: sum.split)
next
  case (Inr w)
  from looked_up(2) [OF this] obtain a where a: "a \<in> set (store_all (db_users d))" "w = withRoleName (db_roles d) a"
    by blast
  then obtain i where i: "user_at d i = Some a" using assms by (auto simp: db_valid_def mem.set_all)
  then have id: "us_ID a = i" using assms by (simp add: db_valid_def users_keyed_def)
  let ?u = "w\<lparr>us_IsSystem := True, us_IsExternal := False, us_ExternalID := []\<rparr>"
  have "users_move d (d\<lparr>db_users := snd (user_Update (db_roles d) ?u (db_users d))\<rparr>)"
    by (rule user_Update_moves [OF i id]) (use a id in simp_all)
  then show ?thesis using Inr
    by (simp add: EnsureSystemUser_def repairSystemUser_def update_user_def split_def Let_def)
qed

section \<open>Roles\<close>

lemma sift_rights_known:
  "sift_rights ps (unknown, clean) = (un, cl) \<Longrightarrow> un = [] \<Longrightarrow>
     unknown = [] \<and> set cl = set clean \<union> (TrimSpace ` set ps - {[]})"
proof (induction ps "(unknown, clean)" arbitrary: unknown clean rule: sift_rights.induct)
  case (2 p ps unknown clean)
  then show ?case by (auto simp: Let_def split: if_splits)
qed simp

lemma permission_plain: "p \<in> set AllPermissions \<Longrightarrow> TrimSpace p = p \<and> p \<noteq> []"
proof
  assume p: "p \<in> set AllPermissions"
  have "\<forall>p \<in> set AllPermissions. \<forall>c \<in> set p. byte c < 128 \<and> \<not> is_space (byte c)"
    by (simp add: AllPermissions_def permission_names byte_def is_space_def)
  then show "TrimSpace p = p" using p by (intro TrimSpace_ascii_word) blast
  show "p \<noteq> []" using p by (auto simp: AllPermissions_def permission_names)
qed

lemma validateRole_rights:
  assumes "validateRole name ps = Inr clean" "set ps \<subseteq> set AllPermissions"
  shows "set clean = set ps"
proof -
  obtain un cl where s: "sift_rights ps ([], []) = (un, cl)" by fastforce
  then have "un = []" "clean = cl" using assms(1) by (auto simp: validateRole_def split: if_splits)
  moreover have "TrimSpace ` set ps - {[]} = set ps" using assms(2) permission_plain by force
  ultimately show ?thesis using sift_rights_known [OF s] by simp
qed

lemma sameRights_sets: "sameRights a b \<Longrightarrow> set a = set b"
  by (auto simp: sameRights_def grantsAtLeast_def list_all_iff)

lemma shipped_name_plain: "IsDefault r \<Longrightarrow> TrimSpace (ro_Name r) = ro_Name r"
proof -
  assume "IsDefault r"
  then have "ro_Name r \<in> {RoleAdmin, RoleUser, RoleUserAdmin, RoleManager}" by (auto simp: IsDefault_def DefaultRoles_def)
  moreover have "\<forall>n \<in> {RoleAdmin, RoleUser, RoleUserAdmin, RoleManager}. \<forall>c \<in> set n. byte c < 128 \<and> \<not> is_space (byte c)"
    by (simp add: RoleAdmin_def RoleUser_def RoleUserAdmin_def RoleManager_def byte_def is_space_def)
  ultimately show ?thesis by (intro TrimSpace_ascii_word) blast
qed

lemma unless_Inr: "(if b then Inl err else Inr x) = Inr y \<Longrightarrow> x = y"
  by (simp split: if_splits)

lemma edited_role_parts:
  assumes "edited_role i name description permissions d = Inr r" "i \<noteq> 0"
  shows "\<exists>a clean. store_get i (db_roles d) = Inr a \<and> shipped_unchanged a name description permissions = Inr ()
    \<and> (case permissions of None \<Rightarrow> Inr (ro_Permissions a) | Some ps \<Rightarrow>
        validateRole (case name of None \<Rightarrow> ro_Name a | Some n \<Rightarrow> TrimSpace n) ps) = Inr clean
    \<and> a\<lparr>ro_Name := (case name of None \<Rightarrow> ro_Name a | Some n \<Rightarrow> TrimSpace n),
        ro_Description := (case description of None \<Rightarrow> ro_Description a | Some t \<Rightarrow> TrimSpace t), ro_Permissions := clean\<rparr> = r"
  using assms(1) unfolding edited_role_def Let_def if_not_P [OF assms(2)] bind_res_Inr
  apply (elim exE conjE)
  subgoal for a x clean by (drule unless_Inr) (intro exI [of _ a] exI [of _ clean]; cases permissions; simp)
  done

lemma edited_role_keeps:
  assumes "edited_role i name description permissions d = Inr r"
  obtains a where "store_find i (db_roles d) = Some a" "ro_ID r = ro_ID a"
    "IsDefault a \<Longrightarrow> set (ro_Permissions a) \<subseteq> set AllPermissions \<Longrightarrow>
       ro_Name r = ro_Name a \<and> ro_Description r = ro_Description a \<and> set (ro_Permissions r) = set (ro_Permissions a)"
proof (cases "i = 0")
  case False
  from edited_role_parts [OF assms False] obtain a clean where
    a: "store_get i (db_roles d) = Inr a" "shipped_unchanged a name description permissions = Inr ()"
    and clean: "(case permissions of None \<Rightarrow> Inr (ro_Permissions a) | Some ps \<Rightarrow>
        validateRole (case name of None \<Rightarrow> ro_Name a | Some n \<Rightarrow> TrimSpace n) ps) = Inr clean"
    and r: "a\<lparr>ro_Name := (case name of None \<Rightarrow> ro_Name a | Some n \<Rightarrow> TrimSpace n),
        ro_Description := (case description of None \<Rightarrow> ro_Description a | Some t \<Rightarrow> TrimSpace t), ro_Permissions := clean\<rparr> = r"
    by blast
  show thesis
  proof (rule that [of a])
    show "store_find i (db_roles d) = Some a" using a(1) by simp
    show "ro_ID r = ro_ID a" by (simp add: r [symmetric])
  next
    assume def: "IsDefault a" and known: "set (ro_Permissions a) \<subseteq> set AllPermissions"
    have kept: "name = None \<or> name = Some (ro_Name a)" and described: "description = None \<or> map_option TrimSpace description = Some (ro_Description a)"
      and rights: "permissions = None \<or> (\<exists>ps. permissions = Some ps \<and> sameRights ps (ro_Permissions a))"
      using a(2) def by (auto simp: shipped_unchanged_def split: if_splits option.splits)
    have "set clean = set (ro_Permissions a)"
      using rights clean known validateRole_rights sameRights_sets by fastforce
    moreover have "ro_Name r = ro_Name a" using kept shipped_name_plain [OF def] by (auto simp: r [symmetric])
    moreover have "ro_Description r = ro_Description a" using described by (auto simp: r [symmetric] split: option.split)
    ultimately show "ro_Name r = ro_Name a \<and> ro_Description r = ro_Description a \<and> set (ro_Permissions r) = set (ro_Permissions a)"
      by (simp add: r [symmetric])
  qed
qed (use assms in \<open>simp add: edited_role_def\<close>)

lemma roles_move_written:
  assumes "store_find (ro_ID r) (db_roles d) = Some a"
    and "IsDefault a \<Longrightarrow> set (ro_Permissions a) \<subseteq> set AllPermissions \<Longrightarrow>
       ro_Name r = ro_Name a \<and> ro_Description r = ro_Description a \<and> set (ro_Permissions r) = set (ro_Permissions a)"
  shows "roles_move d (d\<lparr>db_roles := snd (store_update (ro_ID r) r (db_roles d))\<rparr>)"
  using assms unfolding roles_move_def by blast

lemma CreateRole_moves: "roles_move d (snd (CreateRole name description permissions d))"
proof (cases "validateRole name permissions")
  case (Inr clean)
  then show ?thesis unfolding roles_move_def CreateRole_def role_Save_def by (auto simp: split_def Let_def)
qed (simp add: CreateRole_def)

lemma UpdateRole_moves:
  assumes "db_valid d"
  shows "roles_move d (snd (UpdateRole i name description permissions d))"
proof (cases "edited_role i name description permissions d")
  case (Inr r)
  from edited_role_keeps [OF Inr] obtain a where a: "store_find i (db_roles d) = Some a" "ro_ID r = ro_ID a"
    "IsDefault a \<Longrightarrow> set (ro_Permissions a) \<subseteq> set AllPermissions \<Longrightarrow>
       ro_Name r = ro_Name a \<and> ro_Description r = ro_Description a \<and> set (ro_Permissions r) = set (ro_Permissions a)" by metis
  have i: "ro_ID a = i" using assms a(1) by (simp add: db_valid_def roles_keyed_def)
  have "roles_move d (d\<lparr>db_roles := snd (store_update (ro_ID r) r (db_roles d))\<rparr>)"
    by (rule roles_move_written [where a = a]) (use a i in auto)
  then show ?thesis by (simp add: UpdateRole_def Inr role_Update_def split_def Let_def)
qed (simp add: UpdateRole_def)

lemma DeleteRole_moves: "roles_move d (snd (DeleteRole i d))"
proof -
  have "roles_move d (d\<lparr>db_roles := snd (store_delete i (db_roles d))\<rparr>)"
    if "store_get i (db_roles d) = Inr a" "\<not> IsDefault a" for a
    unfolding roles_move_def
    by (rule exI, rule conjI, rule refl, intro disjI2 exI [of _ i]) (use that in auto)
  then show ?thesis by (auto simp: DeleteRole_def role_Delete_def Let_def split_def split: sum.split)
qed

section \<open>Whatever is done\<close>

text \<open>Everything that writes accounts or roles: administration, each account's own settings, signing
  in, and the start of the program.\<close>

inductive account_step :: "db \<Rightarrow> db \<Rightarrow> bool" where
  created: "account_step d (snd (CreateUser e c cmd d))"
| edited: "account_step d (snd (UpdateUser e ucmd d))"
| retimed: "account_step d (snd (UpdateWorkingTimes wcmd d))"
| assigned: "account_step d (snd (AssignRoleToUser e i name d))"
| removed: "site_valid s \<Longrightarrow> history_owned (site_db s) \<Longrightarrow> account_step (site_db s) (site_db (snd (DeleteUser e i purge s)))"
| password_changed: "account_step d (snd (ChangePassword c i current replacement d))"
| password_set: "account_step d (snd (SetPassword c i replacement d))"
| signed_in: "account_step d (snd (resolveUser e c v email password d))"
| ensured: "account_step d (snd (EnsureSystemUser e c d))"
| preferred: "account_step d (d\<lparr>db_users := snd (SetPreference i field value (db_users d))\<rparr>)"
| second_factor: "account_step d (d\<lparr>db_users := snd (SetTOTP i secret enabled (db_users d))\<rparr>)"
| limited: "account_step d (d\<lparr>db_users := snd (user_SetBalanceLimits i over short (db_users d))\<rparr>)"
| reminded: "account_step d (d\<lparr>db_users := snd (SetReminders i skip hours (db_users d))\<rparr>)"
| role_created: "account_step d (snd (CreateRole name description permissions d))"
| role_edited: "account_step d (snd (UpdateRole i rname rdescription rpermissions d))"
| role_deleted: "account_step d (snd (DeleteRole i d))"

inductive account_steps :: "db \<Rightarrow> db \<Rightarrow> bool" where
  none: "account_steps d d"
| more: "account_steps d t \<Longrightarrow> db_room t \<Longrightarrow> account_step t t' \<Longrightarrow> account_steps d t'"

text \<open>The built-in administrator and the shipped roles, as the program starts with them.\<close>

definition administrator :: "uint \<Rightarrow> db \<Rightarrow> bool" where
  "administrator i d \<longleftrightarrow> (\<exists>a. user_at d i = Some a \<and> us_IsSystem a \<and> \<not> us_IsExternal a)"

definition ships :: "uint \<Rightarrow> role \<Rightarrow> db \<Rightarrow> bool" where
  "ships i r d \<longleftrightarrow> (\<exists>r'. store_find i (db_roles d) = Some r' \<and> ro_Name r' = ro_Name r
     \<and> ro_Description r' = ro_Description r \<and> set (ro_Permissions r') = set (ro_Permissions r))"

lemma users_move_keeps:
  assumes "users_move d d'" "db_valid d" "db_room d"
  shows "db_valid d'" "administrator i d \<Longrightarrow> administrator i d'" "ships i r d \<Longrightarrow> ships i r d'"
proof -
  obtain s where s: "d\<lparr>db_users := s\<rparr> = d'"
    and how: "s = db_users d \<or> (\<exists>u. s = snd (store_add user_with_id u (db_users d)))
      \<or> (\<exists>u a. user_at d (us_ID u) = Some a \<and> (us_IsSystem a \<longrightarrow> us_IsSystem u \<and> (\<not> us_IsExternal a \<longrightarrow> \<not> us_IsExternal u))
           \<and> s = snd (store_update (us_ID u) u (db_users d)))"
    using assms(1) unfolding users_move_def by blast
  have v: "store_valid (db_users d)" "users_keyed (db_users d)" "store_room (db_users d)"
    using assms(2,3) by (simp_all add: db_valid_def db_room_def)
  have "store_valid s \<and> users_keyed s" using how v
    by (auto simp: mem.valid_add mem.valid_update users.keyed_add users.keyed_update)
  then show "db_valid d'" unfolding s [symmetric] using assms(2) by (simp add: db_valid_def)
  show "administrator i d'" if adm: "administrator i d"
  proof -
    obtain a where a: "user_at d i = Some a" "us_IsSystem a" "\<not> us_IsExternal a" using adm by (auto simp: administrator_def)
    have "i \<noteq> st_nextID (db_users d)" using mem.fresh [OF v(1)] a(1) by auto
    then have "\<exists>b. store_find i s = Some b \<and> us_IsSystem b \<and> \<not> us_IsExternal b"
      using how a by (auto simp: store_find_after split: if_splits)
    then show ?thesis unfolding s [symmetric] by (simp add: administrator_def)
  qed
  show "ships i r d'" if "ships i r d" unfolding s [symmetric] using that by (simp add: ships_def)
qed

lemma roles_move_keeps:
  assumes "roles_move d d'" "db_valid d" "db_room d"
  shows "db_valid d'" "administrator i d \<Longrightarrow> administrator i d'"
    "ships i r d \<Longrightarrow> IsDefault r \<Longrightarrow> set (ro_Permissions r) \<subseteq> set AllPermissions \<Longrightarrow> ships i r d'"
proof -
  obtain s where s: "d\<lparr>db_roles := s\<rparr> = d'"
    and how: "s = db_roles d \<or> (\<exists>r. s = snd (store_add role_with_id r (db_roles d)))
      \<or> (\<exists>r a. store_find (ro_ID r) (db_roles d) = Some a \<and> s = snd (store_update (ro_ID r) r (db_roles d))
           \<and> (IsDefault a \<and> set (ro_Permissions a) \<subseteq> set AllPermissions \<longrightarrow>
                ro_Name r = ro_Name a \<and> ro_Description r = ro_Description a \<and> set (ro_Permissions r) = set (ro_Permissions a)))
      \<or> (\<exists>i. s = snd (store_delete i (db_roles d)) \<and> (\<forall>a. store_find i (db_roles d) = Some a \<longrightarrow> \<not> IsDefault a))"
    using assms(1) unfolding roles_move_def by blast
  have v: "store_valid (db_roles d)" "roles_keyed (db_roles d)" "store_room (db_roles d)"
    using assms(2,3) by (simp_all add: db_valid_def db_room_def)
  have "store_valid s \<and> roles_keyed s" using how v
    by (elim disjE exE) (simp_all add: mem.valid_add mem.valid_update mem.valid_delete roles.keyed_add roles.keyed_update roles.keyed_delete)
  then show "db_valid d'" unfolding s [symmetric] using assms(2) by (simp add: db_valid_def)
  show "administrator i d'" if "administrator i d" unfolding s [symmetric] using that by (simp add: administrator_def)
  show "ships i r d'" if sh: "ships i r d" "IsDefault r" "set (ro_Permissions r) \<subseteq> set AllPermissions"
  proof -
    obtain a where a: "store_find i (db_roles d) = Some a" "ro_Name a = ro_Name r" "ro_Description a = ro_Description r"
      "set (ro_Permissions a) = set (ro_Permissions r)" using sh(1) by (auto simp: ships_def)
    have def: "IsDefault a" using sh(2) a(2) by (simp add: IsDefault_def)
    have "i \<noteq> st_nextID (db_roles d)" using mem.fresh [OF v(1)] a(1) by auto
    then have "\<exists>b. store_find i s = Some b \<and> ro_Name b = ro_Name r \<and> ro_Description b = ro_Description r
        \<and> set (ro_Permissions b) = set (ro_Permissions r)"
      using how a def sh(3) by (elim disjE exE conjE) (auto simp: store_find_after)
    then show ?thesis unfolding s [symmetric] by (simp add: ships_def)
  qed
qed

lemma DeleteUser_db:
  assumes "site_valid s" "history_owned (site_db s)"
  shows "db_valid (site_db (snd (DeleteUser e i purge s)))"
    "administrator j (site_db s) \<Longrightarrow> administrator j (site_db (snd (DeleteUser e i purge s)))"
    "ships j r (site_db s) \<Longrightarrow> ships j r (site_db (snd (DeleteUser e i purge s)))"
proof -
  have "snd (DeleteUser e i purge s) = s
      \<or> snd (DeleteUser e i purge s) = purged i s \<and> (\<forall>a. user_at (site_db s) i = Some a \<longrightarrow> \<not> us_IsSystem a)"
    by (cases "user_at (site_db s) i")
      (auto simp: DeleteUser_def PurgeUser_purges user_GetByID_def store_get_def Let_def)
  then show "db_valid (site_db (snd (DeleteUser e i purge s)))"
    "administrator j (site_db s) \<Longrightarrow> administrator j (site_db (snd (DeleteUser e i purge s)))"
    "ships j r (site_db s) \<Longrightarrow> ships j r (site_db (snd (DeleteUser e i purge s)))"
    using purged_valid [OF assms, of i] assms(1)
    by (auto simp: site_valid_def administrator_def ships_def purged_fields)
qed

lemma account_step_keeps:
  assumes "account_step d d'" "db_valid d" "db_room d"
  shows "db_valid d' \<and> (administrator i d \<longrightarrow> administrator i d')
    \<and> (ships j r d \<and> IsDefault r \<and> set (ro_Permissions r) \<subseteq> set AllPermissions \<longrightarrow> ships j r d')"
proof -
  consider "users_move d d'" | "roles_move d d'"
    | s e k purge where "d = site_db s" "d' = site_db (snd (DeleteUser e k purge s))" "site_valid s" "history_owned (site_db s)"
    using assms(1)
  proof cases
    case (removed s e k purge)
    then show thesis using that(3) by blast
  qed (simp_all add: that CreateUser_moves UpdateUser_moves UpdateWorkingTimes_moves AssignRoleToUser_moves ChangePassword_moves
      SetPassword_moves resolveUser_moves EnsureSystemUser_moves own_fields_move CreateRole_moves UpdateRole_moves DeleteRole_moves
      assms(2))
  then show ?thesis
  proof cases
    case 1 then show ?thesis using users_move_keeps [OF _ assms(2,3)] by blast
  next
    case 2 then show ?thesis using roles_move_keeps [OF _ assms(2,3)] by blast
  next
    case 3 then show ?thesis using DeleteUser_db by blast
  qed
qed

lemma account_steps_keep:
  assumes "account_steps d d'" "db_valid d"
  shows "db_valid d' \<and> (administrator i d \<longrightarrow> administrator i d')
    \<and> (ships j r d \<and> IsDefault r \<and> set (ro_Permissions r) \<subseteq> set AllPermissions \<longrightarrow> ships j r d')"
  using assms by (induction rule: account_steps.induct) (auto dest: account_step_keeps)


text \<open>The administrator of the sample, moved to a role of their own and told a new password.\<close>

definition sample_built_in :: user where
  "sample_built_in = sample_admin\<lparr>us_Email := SystemUserEmail, us_IsSystem := True\<rparr>"

lemma sample_with_room: "db_room (sample_with u)"
  using sample_room by (simp add: db_room_def sample_with_def) (simp add: store_room_def uint_max_def)


section \<open>The right that is not kept\<close>

text \<open>An account may only move to a role that lets it administer (\<open>may_hold\<close>), but the rights of a
  role of one's own may be taken from it later whoever holds it: the built-in administrator moved to
  such a role loses the right to change roles with it, and no shipped rule gives it back.\<close>

lemma administrator_can_lose_rights:
  assumes "db_valid d" "user_at d i = Some a" "us_IsSystem a" "us_RoleID a = j"
    and "store_find j (db_roles d) = Some r" "\<not> IsDefault r" "ro_Name r \<noteq> []"
    and "validateRole (ro_Name r) ps = Inr clean" "PermRoleWrite \<notin> set clean"
  shows "fst (UpdateRole j None None (Some ps) d) = Inr (r\<lparr>ro_Permissions := clean\<rparr>)
    \<and> \<not> Can (principalFor (snd (UpdateRole j None None (Some ps) d)) a) PermRoleWrite
    \<and> fst (repairSystemUser (a\<lparr>us_IsExternal := False, us_ExternalID := []\<rparr>) d) = Inr ()
    \<and> snd (repairSystemUser (a\<lparr>us_IsExternal := False, us_ExternalID := []\<rparr>) d) = d"
proof -
  have r: "ro_ID r = j" "j \<noteq> 0" using assms(1,5) by (auto simp: db_valid_def roles_keyed_def store_valid_def)
  have "edited_role j None None (Some ps) d = Inr (r\<lparr>ro_Permissions := clean\<rparr>)"
    using assms(5-8) r by (simp add: edited_role_def shipped_unchanged_def store_get_def Let_def)
  then have u: "UpdateRole j None None (Some ps) d = (Inr (r\<lparr>ro_Permissions := clean\<rparr>),
      d\<lparr>db_roles := snd (store_update j (r\<lparr>ro_Permissions := clean\<rparr>) (db_roles d))\<rparr>)"
    using assms(5) r by (simp add: UpdateRole_def role_Update_def store_update_def)
  show ?thesis
    using assms(3,4,5,9) by (simp add: u principalFor_def store_get_def store_find_after Can_def repairSystemUser_def)
qed

end
