(* ===== verification/DirectorySync.thy ===== *)
theory DirectorySync
  imports SignIn
begin

text \<open>
  Reconciling the accounts with a directory,
  \<^verbatim>\<open>application/v1/service/ldapsync_application_service.go\<close>: accounts the directory no longer
  knows are removed with everything of theirs, accounts it has and the installation does not are
  created, and a chain of guards refuses a run that looks like an outage rather than departures.

  The directory is its answer, \<open>None\<close> where it could not be read.  The mutex that keeps two
  runs apart is the flag \<open>running\<close>: whether another run holds it.  The metrics the service
  counts are left out, and so is the sentence of a refusal beside its code.
\<close>

section \<open>Reports\<close>

record sync_candidate =
  sc_UserID :: uint
  sc_Name :: gostring
  sc_Email :: gostring
  sc_Timesheets :: nat

record sync_report =
  sr_DirectoryUsers :: nat
  sr_LocalExternal :: nat
  sr_Candidates :: "sync_candidate list"
  sr_Deleted :: "sync_candidate list"
  sr_Created :: "gostring list"
  sr_Aborted :: "app_error option"
  sr_DryRun :: bool

text \<open>The line a log keeps of a removal; the address is quoted by the log.\<close>

definition removal_line :: "sync_candidate \<Rightarrow> gostring \<times> gostring" where
  "removal_line c = (sc_Email c, format_uint (sc_Timesheets c) @ '' ''
     @ (if sc_Timesheets c = 1 then ''time entry'' else ''time entries''))"

definition Removals :: "sync_report option \<Rightarrow> (gostring \<times> gostring) list" where
  "Removals r = (case r of None \<Rightarrow> [] | Some report \<Rightarrow> map removal_line (sr_Deleted report))"

definition abort_run :: "app_error \<Rightarrow> sync_report \<Rightarrow> sync_report" where
  "abort_run reason r = r\<lparr>sr_Aborted := Some reason\<rparr>"

section \<open>What a run changed\<close>

record directory_run =
  dr_ID :: uint
  dr_RanAt :: gotime
  dr_Confirmed :: bool
  dr_Deleted :: nat
  dr_EntriesDeleted :: nat
  dr_Created :: nat

type_synonym run_store = "directory_run store"

definition run_with_id :: "uint \<Rightarrow> directory_run \<Rightarrow> directory_run" where
  "run_with_id i r = r\<lparr>dr_ID := i\<rparr>"

definition NewDirectoryRunRepository :: run_store where
  "NewDirectoryRunRepository = newStore ''directory run''"

definition run_Record :: "directory_run \<Rightarrow> run_store \<Rightarrow> run_store" where
  "run_Record r s = snd (store_add run_with_id r s)"

definition run_le :: "directory_run \<Rightarrow> directory_run \<Rightarrow> bool" where
  "run_le a b \<longleftrightarrow> ns (dr_RanAt b) < ns (dr_RanAt a) \<or> ns (dr_RanAt a) = ns (dr_RanAt b) \<and> dr_ID b \<le> dr_ID a"

text \<open>A negative limit is an index out of range, which panics and answers as an internal error.\<close>

definition run_Latest :: "int \<Rightarrow> run_store \<Rightarrow> directory_run list result" where
  "run_Latest limit s =
     (let runs = sort_by run_le (store_all s)
      in if int (length runs) > limit then if limit < 0 then Inl Internal else Inr (take (nat limit) runs)
         else Inr runs)"

section \<open>The service\<close>

record sync_service =
  ls_directory :: "external_user list option option"
  ls_maxDeleteRatio :: float64
  ls_limits :: "limits option"
  ls_defaultRole :: gostring

text \<open>\<open>NewLDAPSyncService\<close>; a directory that is not enabled is \<open>None\<close>.\<close>

definition NewLDAPSyncService ::
  "external_user list option option \<Rightarrow> float64 \<Rightarrow> limits option \<Rightarrow> gostring \<Rightarrow> sync_service" where
  "NewLDAPSyncService directory ratio limits defaultRole =
     \<lparr>ls_directory = directory, ls_maxDeleteRatio = ratio, ls_limits = limits,
      ls_defaultRole = (if defaultRole = [] then RoleUser else defaultRole)\<rparr>"

definition deleteRatio :: "sync_service \<Rightarrow> float64" where
  "deleteRatio v = (case ls_limits v of None \<Rightarrow> ls_maxDeleteRatio v | Some l \<Rightarrow> LDAPSyncMaxDeleteRatio l)"

definition countTimesheets :: "env \<Rightarrow> uint \<Rightarrow> db \<Rightarrow> nat" where
  "countTimesheets e u d = ts_CountByFilter (lower e) (all_of u) (db_timesheets d)"

text \<open>The two indexes; the last entry under a key counts.\<close>

definition index_by :: "('a \<Rightarrow> gostring) \<Rightarrow> 'a list \<Rightarrow> gostring \<Rightarrow> 'a option" where
  "index_by key xs = map_of (rev (map (\<lambda>x. (key x, x)) (filter (\<lambda>x. key x \<noteq> []) xs)))"

definition stillInDirectory ::
  "env \<Rightarrow> user \<Rightarrow> (gostring \<Rightarrow> external_user option) \<Rightarrow> (gostring \<Rightarrow> external_user option) \<Rightarrow> bool" where
  "stillInDirectory e u byID byEmail =
     (if us_ExternalID u \<noteq> [] \<and> byID (us_ExternalID u) \<noteq> None then True
      else case byEmail (normalizeEmail e (us_Email u)) of
             None \<Rightarrow> False
           | Some entry \<Rightarrow> us_ExternalID u = [] \<or> ex_ID entry = [])"

fun shown_share :: "float64 list \<Rightarrow> float64 \<Rightarrow> float64 \<Rightarrow> float64" where
  "shown_share [] ratio limit = fmul ratio (Fin 100)"
| "shown_share (scale # scales) ratio limit =
     (let share = fdiv (fround (fmul (fmul ratio (Fin 100)) scale)) scale
      in if fless limit share then share else shown_share scales ratio limit)"

definition refusedShare :: "float64 \<Rightarrow> float64 \<Rightarrow> float64 \<times> float64" where
  "refusedShare ratio ratioLimit =
     (let limit = fdiv (fround (fmul (fmul ratioLimit (Fin 100)) (Fin 1000))) (Fin 1000)
      in (shown_share [Fin 1, Fin 10, Fin 100, Fin 1000, Fin 10000] ratio limit, limit))"

definition exceedsRatio :: "sync_service \<Rightarrow> sync_report \<Rightarrow> app_error option" where
  "exceedsRatio v r =
     (let ratioLimit = deleteRatio v; removing = length (sr_Candidates r); scope = sr_LocalExternal r
      in if fle ratioLimit (Fin 0) \<or> scope = 0 \<or> removing = 0 then None
         else let ratio = fdiv (float_of_int (int removing)) (float_of_int (int scope))
              in if fle ratio ratioLimit then None
                 else let (share, limit) = refusedShare ratio ratioLimit
                      in Some (WithCode Conflictf ''syncWouldRemoveTooMany''
                           [VInt (int removing), VInt (int scope), VFloat share, VFloat limit]))"

text \<open>The roles do not change while accounts are created, so the roles resolved once per name are
  what resolving each time gives.\<close>

definition create_missing_one :: "env \<Rightarrow> sync_service \<Rightarrow> external_user \<Rightarrow> gostring \<Rightarrow> db \<Rightarrow> unit result \<times> db" where
  "create_missing_one e v x email d =
     (case roleForArrival e (db_roles d) (ex_Role x) (ls_defaultRole v) of
        Inl err \<Rightarrow> (Inl err, d)
      | Inr role \<Rightarrow>
          let (res, users) = user_Save (db_roles d)
                (blank_user\<lparr>us_Name := (if ex_Name x = [] then email else ex_Name x), us_Email := email,
                   us_RoleID := ro_ID role, us_IsExternal := True, us_ExternalID := ex_ID x\<rparr>) (db_users d)
          in (bind_res res (\<lambda>_. Inr ()), d\<lparr>db_users := users\<rparr>))"

fun createMissing ::
  "env \<Rightarrow> sync_service \<Rightarrow> bool \<Rightarrow> external_user list \<Rightarrow> gostring set \<Rightarrow> gostring set \<Rightarrow> gostring list \<Rightarrow> db
     \<Rightarrow> unit result \<times> gostring list \<times> db" where
  "createMissing e v dryRun [] knownIDs knownEmails created d = (Inr (), created, d)"
| "createMissing e v dryRun (x # xs) knownIDs knownEmails created d =
     (let email = normalizeEmail e (ex_Email x)
      in if email = [] \<or> email \<in> knownEmails \<or> (ex_ID x \<noteq> [] \<and> ex_ID x \<in> knownIDs)
         then createMissing e v dryRun xs knownIDs knownEmails created d
         else let ids = (if ex_ID x \<noteq> [] then insert (ex_ID x) knownIDs else knownIDs);
                  emails = insert email knownEmails
              in if dryRun then createMissing e v dryRun xs ids emails (created @ [email]) d
                 else case create_missing_one e v x email d of
                        (Inl err, d') \<Rightarrow> (Inl err, created, d')
                      | (Inr _, d') \<Rightarrow> createMissing e v dryRun xs ids emails (created @ [email]) d')"

definition stoppedPartWay :: "sync_report \<Rightarrow> app_error \<Rightarrow> app_error" where
  "stoppedPartWay r cause =
     (if sr_Deleted r = [] \<and> sr_Created r = [] then cause
      else WithCode Internal ''syncStoppedPartWay'' [VInt (int (length (sr_Deleted r))), VInt (int (length (sr_Created r)))])"

text \<open>The accounts in scope, and those of them the directory no longer knows.\<close>

definition in_scope :: "user \<Rightarrow> bool" where
  "in_scope u \<longleftrightarrow> us_IsExternal u \<and> \<not> us_IsSystem u"

definition candidate_of :: "env \<Rightarrow> db \<Rightarrow> user \<Rightarrow> sync_candidate" where
  "candidate_of e d u = \<lparr>sc_UserID = us_ID u, sc_Name = us_Name u, sc_Email = us_Email u,
     sc_Timesheets = countTimesheets e (us_ID u) d\<rparr>"

definition survey :: "env \<Rightarrow> external_user list \<Rightarrow> bool \<Rightarrow> db \<Rightarrow> sync_report" where
  "survey e xs dryRun d =
     (let byID = index_by ex_ID xs; byEmail = index_by (normalizeEmail e \<circ> ex_Email) xs;
          external = filter in_scope (user_GetAll (db_roles d) (db_users d));
          gone = filter (\<lambda>u. \<not> stillInDirectory e u byID byEmail) external
      in \<lparr>sr_DirectoryUsers = length xs, sr_LocalExternal = length external,
          sr_Candidates = sort_by (\<lambda>a b. string_le (sc_Email a) (sc_Email b)) (map (candidate_of e d) gone),
          sr_Deleted = [], sr_Created = [], sr_Aborted = None, sr_DryRun = dryRun\<rparr>)"

text \<open>The guards, in the order they are asked.\<close>

definition guards ::
  "env \<Rightarrow> sync_service \<Rightarrow> (sync_report \<Rightarrow> app_error option) \<Rightarrow> external_user list \<Rightarrow> sync_report \<Rightarrow> app_error option" where
  "guards e v approve xs r =
     (if filter (\<lambda>x. normalizeEmail e (ex_Email x) \<noteq> []) xs = []
      then Some (WithCode Conflictf ''syncDirectoryAnsweredEmpty'' [])
      else case exceedsRatio v r of
             Some reason \<Rightarrow> Some reason
           | None \<Rightarrow> approve r)"

fun purge_candidates :: "sync_candidate list \<Rightarrow> sync_report \<Rightarrow> site \<Rightarrow> unit result \<times> sync_report \<times> site" where
  "purge_candidates [] r s = (Inr (), r, s)"
| "purge_candidates (c # cs) r s =
     (case PurgeUser (sc_UserID c) s of
        (Inl err, s') \<Rightarrow> (Inl (stoppedPartWay r err), r, s')
      | (Inr _, s') \<Rightarrow> purge_candidates cs (r\<lparr>sr_Deleted := sr_Deleted r @ [c]\<rparr>) s')"

text \<open>A run: its error, if any, its report, if it got that far, and the installation after it.\<close>

definition sync_run ::
  "env \<Rightarrow> sync_service \<Rightarrow> bool \<Rightarrow> bool \<Rightarrow> (sync_report \<Rightarrow> app_error option) \<Rightarrow> site
     \<Rightarrow> app_error option \<times> sync_report option \<times> site" where
  "sync_run e v running dryRun approve s =
     (case ls_directory v of
        None \<Rightarrow> (Some (WithCode Conflictf ''noDirectory'' []), None, s)
      | Some answer \<Rightarrow>
          if \<not> dryRun \<and> running then (Some (WithCode Conflictf ''syncAlreadyRunning'' []), None, s)
          else (case answer of
                  None \<Rightarrow> (Some Internal, None, s)
                | Some xs \<Rightarrow>
                    let d = site_db s; report = survey e xs dryRun d; locals = user_GetAll (db_roles d) (db_users d)
                    in (case guards e v approve xs report of
                          Some reason \<Rightarrow> (None, Some (abort_run reason report), s)
                        | None \<Rightarrow>
                            (case createMissing e v dryRun xs (set (map us_ExternalID locals) - {[]})
                                    (set (map (normalizeEmail e \<circ> us_Email) locals)) [] d of
                               (Inl err, created, d') \<Rightarrow>
                                 let r = report\<lparr>sr_Created := created\<rparr>
                                 in (Some (stoppedPartWay r err), Some r, s\<lparr>site_db := d'\<rparr>)
                             | (Inr _, created, d') \<Rightarrow>
                                 let r = report\<lparr>sr_Created := created\<rparr>
                                 in if dryRun then (None, Some r, s\<lparr>site_db := d'\<rparr>)
                                    else (case purge_candidates (sr_Candidates report) r (s\<lparr>site_db := d'\<rparr>) of
                                            (Inl err, r', s') \<Rightarrow> (Some err, Some r', s')
                                          | (Inr _, r', s') \<Rightarrow> (None, Some r', s'))))))"

definition record_run ::
  "env \<Rightarrow> bool \<Rightarrow> sync_report option \<Rightarrow> run_store \<Rightarrow> run_store" where
  "record_run e confirmed report runs =
     (case report of
        None \<Rightarrow> runs
      | Some r \<Rightarrow> if sr_Deleted r = [] \<and> sr_Created r = [] then runs
                  else run_Record \<lparr>dr_ID = 0, dr_RanAt = (now e)\<lparr>loc := UTC\<rparr>, dr_Confirmed = confirmed,
                         dr_Deleted = length (sr_Deleted r), dr_EntriesDeleted = sum_list (map sc_Timesheets (sr_Deleted r)),
                         dr_Created = length (sr_Created r)\<rparr> runs)"

definition Preview :: "env \<Rightarrow> sync_service \<Rightarrow> site \<Rightarrow> app_error option \<times> sync_report option \<times> site" where
  "Preview e v s = sync_run e v False True (\<lambda>_. None) s"

definition Sync ::
  "env \<Rightarrow> sync_service \<Rightarrow> bool \<Rightarrow> site \<Rightarrow> run_store \<Rightarrow> app_error option \<times> sync_report option \<times> site \<times> run_store" where
  "Sync e v running s runs =
     (let (err, report, s') = sync_run e v running False (\<lambda>_. None) s
      in (err, report, s', record_run e False report runs))"

definition as_confirmed :: "uint list \<Rightarrow> sync_report \<Rightarrow> app_error option" where
  "as_confirmed confirmed r =
     (if length (sr_Candidates r) = card (set confirmed)
           \<and> list_all (\<lambda>c. sc_UserID c \<in> set confirmed) (sr_Candidates r)
      then None
      else Some (WithCode Conflictf ''syncDiffersFromPreview'' [VInt (int (length (sr_Candidates r)))]))"

definition SyncAsConfirmed ::
  "env \<Rightarrow> sync_service \<Rightarrow> bool \<Rightarrow> uint list \<Rightarrow> site \<Rightarrow> run_store
     \<Rightarrow> app_error option \<times> sync_report option \<times> site \<times> run_store" where
  "SyncAsConfirmed e v running confirmed s runs =
     (let (err, report, s') = sync_run e v running False (as_confirmed confirmed) s
      in (err, report, s', record_run e True report runs))"

definition Runs :: "int \<Rightarrow> run_store \<Rightarrow> directory_run list result" where
  "Runs limit runs = run_Latest limit runs"

end
