(* ===== verification/SyncRules.thy ===== *)
theory SyncRules
  imports DirectorySync AccessRules
begin

text \<open>
  What a directory synchronisation may do: remove the accounts of the directory that its answer no
  longer holds, never more of them than the limit allows, and exactly the confirmed ones where a
  preview was confirmed.
\<close>

section \<open>The accounts a run would remove\<close>

text \<open>The accounts of the installation that came from the directory and that its answer \<open>xs\<close> no
  longer holds.\<close>

definition departed :: "env \<Rightarrow> external_user list \<Rightarrow> db \<Rightarrow> uint set" where
  "departed e xs d = {i. \<exists>a. user_at d i = Some a \<and> in_scope a
     \<and> \<not> stillInDirectory e a (index_by ex_ID xs) (index_by (normalizeEmail e \<circ> ex_Email) xs)}"

lemma stillInDirectory_named [simp]:
  "stillInDirectory e (withRoleName roles u) byID byEmail = stillInDirectory e u byID byEmail"
  "in_scope (withRoleName roles u) = in_scope u"
  by (simp_all add: stillInDirectory_def in_scope_def split: option.split)

lemma store_all_ids: "users_keyed s \<Longrightarrow> distinct (map us_ID (store_all s))"
proof -
  assume k: "users_keyed s"
  have "map us_ID (List.map_filter (\<lambda>i. store_find i s) is) = filter (\<lambda>i. store_find i s \<noteq> None) is" for "is"
    using k by (induction "is") (auto simp: map_filter_simps users_keyed_def split: option.splits)
  then show ?thesis by (simp add: store_all_def)
qed

lemma sort_by_distinct_map: "distinct (map f xs) \<Longrightarrow> distinct (map f (sort_by le xs))"
  by (simp add: distinct_map)

lemma survey_candidates:
  assumes "db_valid d"
  shows "set (map sc_UserID (sr_Candidates (survey e xs dry d))) = departed e xs d"
    and "distinct (map sc_UserID (sr_Candidates (survey e xs dry d)))"
proof -
  let ?gone = "\<lambda>u. \<not> stillInDirectory e u (index_by ex_ID xs) (index_by (normalizeEmail e \<circ> ex_Email) xs)"
  let ?all = "store_all (db_users d)"
  have v: "store_valid (db_users d)" "users_keyed (db_users d)" using assms by (simp_all add: db_valid_def)
  let ?cs = "map (candidate_of e d) (filter ?gone (filter in_scope (user_GetAll (db_roles d) (db_users d))))"
  have ids: "map sc_UserID ?cs = map us_ID (filter ?gone (filter in_scope ?all))"
    by (simp add: user_GetAll_def filter_map comp_def candidate_of_def)
  have "set (map us_ID (filter ?gone (filter in_scope ?all))) = departed e xs d"
    using v by (force simp: departed_def mem.set_all users_keyed_def)
  then show "set (map sc_UserID (sr_Candidates (survey e xs dry d))) = departed e xs d"
    using ids by (metis (no_types, lifting) Let_def list.set_map set_sort_by survey_def sync_report.select_convs(3))
  have "distinct (map us_ID (filter ?gone (filter in_scope ?all)))"
    using store_all_ids [OF v(2)] by (simp add: distinct_map_filter)
  from sort_by_distinct_map [OF this [folded ids]]
  show "distinct (map sc_UserID (sr_Candidates (survey e xs dry d)))"
    by (simp only: survey_def Let_def sync_report.select_convs)
qed

section \<open>Creating and removing\<close>

lemma create_missing_one_leaves:
  assumes "create_missing_one e v x email d = (res, d')" "db_valid d" "store_room (db_users d)"
  shows "d\<lparr>db_users := db_users d'\<rparr> = d'" "db_valid d'" "user_at d i = Some a \<Longrightarrow> user_at d' i = Some a"
    "st_nextID (db_users d') \<le> Suc (st_nextID (db_users d))"
proof -
  have v: "store_valid (db_users d)" "users_keyed (db_users d)" using assms(2) by (simp_all add: db_valid_def)
  have how: "d' = d \<or> (\<exists>u. d\<lparr>db_users := snd (store_add user_with_id u (db_users d))\<rparr> = d')"
    using assms(1) by (auto simp: create_missing_one_def user_Save_def Let_def split_def split: sum.splits if_splits)
  show "d\<lparr>db_users := db_users d'\<rparr> = d'" using how by auto
  have "store_valid (db_users d')" "users_keyed (db_users d')"
    using how v assms(3) by (auto simp: mem.valid_add users.keyed_add)
  then show "db_valid d'" using how assms(2) by (auto simp: db_valid_def)
  show "user_at d i = Some a \<Longrightarrow> user_at d' i = Some a"
    using how mem.fresh [OF v(1)] by (auto simp: store_find_after)
  show "st_nextID (db_users d') \<le> Suc (st_nextID (db_users d))"
    using how by (auto simp: store_add_def Let_def uint_succ_def)
qed

lemma createMissing_Cons:
  fixes e x ids emails
  defines "email \<equiv> normalizeEmail e (ex_Email x)"
  defines "known \<equiv> email = [] \<or> email \<in> emails \<or> (ex_ID x \<noteq> [] \<and> ex_ID x \<in> ids)"
  defines "ids' \<equiv> if ex_ID x \<noteq> [] then insert (ex_ID x) ids else ids"
  shows "known \<Longrightarrow> createMissing e v dry (x # xs) ids emails created d = createMissing e v dry xs ids emails created d"
    and "\<not> known \<Longrightarrow> createMissing e v True (x # xs) ids emails created d
      = createMissing e v True xs ids' (insert email emails) (created @ [email]) d"
    and "\<not> known \<Longrightarrow> create_missing_one e v x email d = (Inl err, d') \<Longrightarrow>
      createMissing e v False (x # xs) ids emails created d = (Inl err, created, d')"
    and "\<not> known \<Longrightarrow> create_missing_one e v x email d = (Inr (), d') \<Longrightarrow>
      createMissing e v False (x # xs) ids emails created d
      = createMissing e v False xs ids' (insert email emails) (created @ [email]) d'"
  by (simp_all only: createMissing.simps Let_def known_def email_def ids'_def if_True if_False simp_thms prod.case sum.case)

lemma createMissing_leaves:
  assumes "createMissing e v dry xs ids emails created d = (res, made, d')" "db_valid d"
    and "st_nextID (db_users d) + length xs < uint_max"
  shows "d\<lparr>db_users := db_users d'\<rparr> = d' \<and> db_valid d' \<and> (user_at d i = Some a \<longrightarrow> user_at d' i = Some a)"
  using assms
proof (induction xs arbitrary: ids emails created d)
  case (Cons x xs)
  let ?email = "normalizeEmail e (ex_Email x)"
  note eqs = createMissing_Cons [of e x emails ids v]
  consider "?email = [] \<or> ?email \<in> emails \<or> (ex_ID x \<noteq> [] \<and> ex_ID x \<in> ids)"
    | "\<not> (?email = [] \<or> ?email \<in> emails \<or> (ex_ID x \<noteq> [] \<and> ex_ID x \<in> ids))" "dry"
    | f t where "\<not> (?email = [] \<or> ?email \<in> emails \<or> (ex_ID x \<noteq> [] \<and> ex_ID x \<in> ids))" "\<not> dry"
        "create_missing_one e v x ?email d = (f, t)"
    by (cases "create_missing_one e v x ?email d") blast
  then show ?case
  proof cases
    case 1
    show ?thesis by (rule Cons.IH) (use Cons.prems eqs(1) [OF 1] in simp_all)
  next
    case 2
    show ?thesis by (rule Cons.IH) (use Cons.prems eqs(2) [OF 2(1)] 2(2) in simp_all)
  next
    case (3 f t)
    have room: "store_room (db_users d)" using Cons.prems(3) by (simp add: store_room_def)
    note one = create_missing_one_leaves [OF 3(3) Cons.prems(2) room]
    show ?thesis
    proof (cases f)
      case (Inl err)
      then have "d' = t" using Cons.prems(1) eqs(3) [OF 3(1)] 3(2,3) by simp
      then show ?thesis using one by simp
    next
      case (Inr u)
      have "t\<lparr>db_users := db_users d'\<rparr> = d' \<and> db_valid d' \<and> (user_at t i = Some a \<longrightarrow> user_at d' i = Some a)"
        by (rule Cons.IH [OF _ one(2)]) (use Cons.prems(1,3) eqs(4) [OF 3(1)] 3(2,3) Inr one(4) in simp_all)
      moreover have "d\<lparr>db_users := db_users d'\<rparr> = d'" if "t\<lparr>db_users := db_users d'\<rparr> = d'"
        using that one(1) by (metis db.update_convs(1) db.surjective)
      ultimately show ?thesis using one(3) by blast
    qed
  qed
qed simp

lemma purged_history: "history_owned (site_db s) \<Longrightarrow> db_valid (site_db s) \<Longrightarrow> history_owned (site_db (purged u s))"
  by (auto simp: history_owned_def purged_fields purged_stores split: option.splits if_splits)

lemma purge_candidates_purges:
  assumes "purge_candidates cs r s = (res, r', s')" "site_valid s" "history_owned (site_db s)"
    and "distinct (map sc_UserID cs)" "\<forall>c \<in> set cs. user_at (site_db s) (sc_UserID c) \<noteq> None"
  shows "res = Inr () \<and> r' = r\<lparr>sr_Deleted := sr_Deleted r @ cs\<rparr> \<and> site_valid s' \<and> history_owned (site_db s')
    \<and> (\<forall>i. belonging i s' = (if i \<in> set (map sc_UserID cs) then nothing_kept else belonging i s))"
  using assms
proof (induction cs arbitrary: r s)
  case (Cons c cs)
  have v: "db_valid (site_db s)" using Cons.prems(2) by (simp add: site_valid_def)
  let ?t = "purged (sc_UserID c) s"
  have "PurgeUser (sc_UserID c) s = (Inr (), ?t)" using Cons.prems(5) by (auto simp: PurgeUser_purges)
  then have rest: "purge_candidates cs (r\<lparr>sr_Deleted := sr_Deleted r @ [c]\<rparr>) ?t = (res, r', s')"
    using Cons.prems(1) by simp
  have "\<forall>x \<in> set cs. user_at (site_db ?t) (sc_UserID x) \<noteq> None"
    using Cons.prems(4,5) by (auto simp: purged_fields intro: rev_image_eqI)
  from Cons.IH [OF rest purged_valid [OF Cons.prems(2,3)] purged_history [OF Cons.prems(3) v] _ this]
  show ?case using Cons.prems(4) belonging_purged [OF Cons.prems(2), of _ "sc_UserID c"] by auto
qed simp

lemma belonging_after_creating:
  assumes "d\<lparr>db_users := db_users d'\<rparr> = d'" "site_db s = d" "user_at d i = Some a" "user_at d' i = Some a"
  shows "belonging i (s\<lparr>site_db := d'\<rparr>) = belonging i s"
proof -
  have "db_timers d' = db_timers d" "db_timesheets d' = db_timesheets d" "db_projects d' = db_projects d"
    "db_absences d' = db_absences d" "db_workdays d' = db_workdays d" "db_schedules d' = db_schedules d"
    "db_entitlements d' = db_entitlements d"
    by (subst assms(1) [symmetric], simp)+
  then show ?thesis using assms(2-) by (simp add: belonging_def Let_def)
qed

text \<open>A run, by what it does to the accounts there were before it.\<close>

lemma sync_run_effect:
  assumes "sync_run e v running False approve s = (err, report, s')" "site_valid s" "history_owned (site_db s)"
    and "\<And>xs. ls_directory v = Some (Some xs) \<Longrightarrow> st_nextID (db_users (site_db s)) + length xs < uint_max"
  shows "(\<forall>i a. user_at (site_db s) i = Some a \<longrightarrow> belonging i s' = belonging i s)
    \<or> (\<exists>xs. ls_directory v = Some (Some xs) \<and> \<not> running
        \<and> guards e v approve xs (survey e xs False (site_db s)) = None
        \<and> (\<forall>i a. user_at (site_db s) i = Some a \<longrightarrow>
              belonging i s' = (if i \<in> departed e xs (site_db s) then nothing_kept else belonging i s)))"
proof (cases "\<exists>xs. ls_directory v = Some (Some xs) \<and> \<not> running \<and> guards e v approve xs (survey e xs False (site_db s)) = None")
  case False
  then have "s' = s"
    using assms(1) by (auto simp: sync_run_def Let_def split: option.splits if_splits)
  then show ?thesis by simp
next
  case True
  then obtain xs where xs: "ls_directory v = Some (Some xs)" "\<not> running"
    "guards e v approve xs (survey e xs False (site_db s)) = None" by blast
  let ?d = "site_db s"
  let ?report = "survey e xs False ?d"
  let ?locals = "user_GetAll (db_roles ?d) (db_users ?d)"
  obtain f made d' where m: "createMissing e v False xs (set (map us_ExternalID ?locals) - {[]})
      (set (map (normalizeEmail e \<circ> us_Email) ?locals)) [] ?d = (f, made, d')" by (metis prod_cases3)
  have v: "db_valid ?d" using assms(2) by (simp add: site_valid_def)
  note created = createMissing_leaves [OF m v assms(4) [OF xs(1)]]
  have left: "?d\<lparr>db_users := db_users d'\<rparr> = d'" "db_valid d'" using created by blast+
  have stays: "user_at d' i = Some a" if "user_at ?d i = Some a" for i a using created that by blast
  let ?t = "s\<lparr>site_db := d'\<rparr>"
  have same: "belonging i ?t = belonging i s" if "user_at ?d i = Some a" for i a
    by (rule belonging_after_creating [OF left(1) refl that stays [OF that]])
  show ?thesis
  proof (cases f)
    case (Inl x)
    then have "s' = ?t" using assms(1) xs m by (simp add: sync_run_def Let_def)
    then show ?thesis using same by blast
  next
    case (Inr u)
    obtain g r' t where p: "purge_candidates (sr_Candidates ?report) (?report\<lparr>sr_Created := made\<rparr>) ?t = (g, r', t)"
      by (metis prod_cases3)
    have s': "s' = t" using assms(1) xs m Inr p by (cases g) (simp_all add: sync_run_def Let_def)
    have "history_owned d'" by (subst left(1) [symmetric]) (use assms(3) in \<open>simp add: history_owned_def\<close>)
    moreover have "site_valid ?t" using left assms(2) by (simp add: site_valid_def)
    moreover have "\<forall>c \<in> set (sr_Candidates ?report). user_at (site_db ?t) (sc_UserID c) \<noteq> None"
      using survey_candidates(1) [OF v, of e xs False] stays by (force simp: departed_def)
    ultimately have "\<forall>i. belonging i t = (if i \<in> departed e xs ?d then nothing_kept else belonging i ?t)"
      using purge_candidates_purges [OF p] survey_candidates [OF v, of e xs False] by simp
    then show ?thesis using xs same s' by metis
  qed
qed

section \<open>What a run may remove\<close>

definition from_directory :: "db \<Rightarrow> uint set" where
  "from_directory d = {i. \<exists>a. user_at d i = Some a \<and> in_scope a}"

lemma survey_counts:
  assumes "db_valid d"
  shows "length (sr_Candidates (survey e xs dry d)) = card (departed e xs d)"
    and "sr_LocalExternal (survey e xs dry d) = card (from_directory d)"
proof -
  show "length (sr_Candidates (survey e xs dry d)) = card (departed e xs d)"
    using survey_candidates [OF assms, of e xs dry] by (metis distinct_card length_map)
  have v: "store_valid (db_users d)" "users_keyed (db_users d)" using assms by (simp_all add: db_valid_def)
  let ?us = "filter in_scope (store_all (db_users d))"
  have "set (map us_ID ?us) = from_directory d"
    using v by (force simp: from_directory_def mem.set_all users_keyed_def)
  moreover have "distinct (map us_ID ?us)" using store_all_ids [OF v(2)] by (simp add: distinct_map_filter)
  ultimately have "length ?us = card (from_directory d)" by (metis distinct_card length_map)
  then show "sr_LocalExternal (survey e xs dry d) = card (from_directory d)"
    by (simp add: survey_def Let_def user_GetAll_def filter_map comp_def)
qed

text \<open>The share of the directory's accounts a run would remove, as the guard computes it.\<close>

definition removed_share :: "env \<Rightarrow> external_user list \<Rightarrow> db \<Rightarrow> float64" where
  "removed_share e xs d = fdiv (float_of_int (int (card (departed e xs d)))) (float_of_int (int (card (from_directory d))))"

lemma guards_passed:
  assumes "guards e v approve xs (survey e xs dry d) = None" "db_valid d"
  shows "\<exists>x \<in> set xs. normalizeEmail e (ex_Email x) \<noteq> []"
    and "departed e xs d = {} \<or> fle (deleteRatio v) (Fin 0) \<or> fle (removed_share e xs d) (deleteRatio v)"
    and "approve (survey e xs dry d) = None"
proof -
  have g: "filter (\<lambda>x. normalizeEmail e (ex_Email x) \<noteq> []) xs \<noteq> []" "exceedsRatio v (survey e xs dry d) = None"
    "approve (survey e xs dry d) = None"
    using assms(1) by (auto simp: guards_def split: if_splits option.splits)
  then show "\<exists>x \<in> set xs. normalizeEmail e (ex_Email x) \<noteq> []" "approve (survey e xs dry d) = None"
    by (auto simp: filter_empty_conv)
  have "departed e xs d \<subseteq> from_directory d" by (auto simp: departed_def from_directory_def)
  moreover have "finite (from_directory d)"
    by (rule finite_subset [of _ "fst ` set (st_items (db_users d))"])
      (force simp: from_directory_def store_find_def dest: map_of_SomeD)+
  ultimately have "departed e xs d = {}" if "card (departed e xs d) = 0 \<or> card (from_directory d) = 0"
    using that by (auto dest: finite_subset)
  then show "departed e xs d = {} \<or> fle (deleteRatio v) (Fin 0) \<or> fle (removed_share e xs d) (deleteRatio v)"
    using g(2) by (auto simp: exceedsRatio_def survey_counts [OF assms(2)] removed_share_def Let_def split_def split: if_splits)
qed



section \<open>Examples\<close>

definition sample_answer :: "external_user list" where
  "sample_answer = [\<lparr>ex_ID = ''cn=bob'', ex_Email = ''bob@example.org'', ex_Name = ''Bob'', ex_Role = [], ex_Disabled = False\<rparr>]"

definition sample_sync :: sync_service where
  "sample_sync = NewLDAPSyncService (Some (Some sample_answer)) (Fin (1 / 2)) None []"

definition sample_colleague :: user where
  "sample_colleague = sample_user\<lparr>us_IsExternal := True, us_ExternalID := ''cn=ada''\<rparr>"

lemma sample_site_valid: "us_ID u = 1 \<Longrightarrow> site_valid (sample_site u) \<and> history_owned (site_db (sample_site u))"
  using sample_with_valid [of u]
  by (simp add: site_valid_def sample_site_def history_owned_def sample_with_def sample_entries(1) new_timesheets_def)

lemma sample_sync_room:
  "ls_directory sample_sync = Some (Some xs) \<Longrightarrow> st_nextID (db_users (site_db (sample_site u))) + length xs < uint_max"
  by (auto simp: sample_sync_def NewLDAPSyncService_def sample_answer_def sample_site_def sample_with_def uint_max_def)



end
