(* ===== verification/LimitRules.thy ===== *)
theory LimitRules
  imports SessionRules
begin

text \<open>
  The cache in front of the administered limits (\<^verbatim>\<open>limits_provider.go\<close>) against what it
  promises: a change made through this process is in force at the next question, a change made by
  another process reading the same database at most ten seconds later.
\<close>

section \<open>The promise\<close>

text \<open>What happens to one process's provider: a save through its own Settings screen, which also
  invalidates the cache, a save by another process, and a question.\<close>

datatype limits_event = Saved operational | SavedElsewhere operational gotime | Asked gotime

definition NewLimitsProvider :: "limits \<Rightarrow> limits_provider" where
  "NewLimitsProvider fallback = \<lparr>lp_fallback = fallback, lp_cached = fallback, lp_fetched = zero_time\<rparr>"

fun answers :: "limits_event list \<Rightarrow> operational \<Rightarrow> limits_provider \<Rightarrow> limits list" where
  "answers [] stored p = []"
| "answers (Saved v # es) stored p = answers es v (Invalidate p)"
| "answers (SavedElsewhere v t # es) stored p = answers es v p"
| "answers (Asked t # es) stored p = (case Limits t (Inr stored) p of (l, p') \<Rightarrow> l # answers es stored p')"

text \<open>The abstract provider has no cache: it knows what is stored and which values were replaced
  elsewhere since the last save here, with the moment, and may still answer with one of those for
  ten seconds.\<close>

fun permitted :: "limits \<Rightarrow> limits_event list \<Rightarrow> operational \<Rightarrow> (operational \<times> gotime) list \<Rightarrow> limits list \<Rightarrow> bool" where
  "permitted fallback [] stored stale ls \<longleftrightarrow> ls = []"
| "permitted fallback (Saved v # es) stored stale ls \<longleftrightarrow> permitted fallback es v [] ls"
| "permitted fallback (SavedElsewhere v t # es) stored stale ls \<longleftrightarrow> permitted fallback es v ((stored, t) # stale) ls"
| "permitted fallback (Asked t # es) stored stale ls \<longleftrightarrow> ls \<noteq> []
     \<and> (hd ls = Resolve stored fallback
        \<or> (\<exists>w t'. (w, t') \<in> set stale \<and> hd ls = Resolve w fallback \<and> ns t - ns t' < limitsTTL))
     \<and> permitted fallback es stored stale (tl ls)"

fun in_order :: "gotime \<Rightarrow> limits_event list \<Rightarrow> bool" where
  "in_order t [] \<longleftrightarrow> True"
| "in_order t (Saved v # es) \<longleftrightarrow> in_order t es"
| "in_order t (SavedElsewhere v u # es) \<longleftrightarrow> ns t \<le> ns u \<and> in_order u es"
| "in_order t (Asked u # es) \<longleftrightarrow> ns t \<le> ns u \<and> in_order u es"

text \<open>How the cache stands for the abstract provider, at the moment \<open>t\<close>.\<close>

definition cache_stands :: "gotime \<Rightarrow> operational \<Rightarrow> (operational \<times> gotime) list \<Rightarrow> limits_provider \<Rightarrow> bool" where
  "cache_stands t stored stale p \<longleftrightarrow>
     ns (lp_fetched p) + limitsTTL \<le> ns t \<and> lp_fetched p = zero_time
     \<or> ns (lp_fetched p) \<le> ns t
       \<and> (lp_cached p = Resolve stored (lp_fallback p)
          \<or> (\<exists>w t'. (w, t') \<in> set stale \<and> lp_cached p = Resolve w (lp_fallback p) \<and> ns (lp_fetched p) \<le> ns t'))"

lemma cache_stands_later: "cache_stands t stored stale p \<Longrightarrow> ns t \<le> ns u \<Longrightarrow> cache_stands u stored stale p"
  by (auto simp: cache_stands_def)

lemma old_cache: "ns f + limitsTTL \<le> ns t \<Longrightarrow> \<not> time_sub t f < limitsTTL"
  by (auto simp: time_sub_def limitsTTL_def min_duration_def max_duration_def)

lemma fresh_cache: "time_sub t f < limitsTTL \<Longrightarrow> ns f \<le> ns t \<Longrightarrow> ns t - ns f < limitsTTL"
  by (auto simp: time_sub_def limitsTTL_def min_duration_def max_duration_def max_def min_def split: if_splits)

lemma provider_fallback [simp]:
  "lp_fallback (snd (Limits t stored p)) = lp_fallback p" "lp_fallback (Invalidate p) = lp_fallback p"
  by (auto simp: Limits_def Invalidate_def Let_def split: sum.split)

lemma asked_stands:
  assumes "cache_stands t stored stale p" "ns t \<le> ns u" "ns zero_time + limitsTTL \<le> ns u"
  shows "(fst (Limits u (Inr stored) p) = Resolve stored (lp_fallback p)
      \<or> (\<exists>w t'. (w, t') \<in> set stale \<and> fst (Limits u (Inr stored) p) = Resolve w (lp_fallback p) \<and> ns u - ns t' < limitsTTL))
    \<and> cache_stands u stored stale (snd (Limits u (Inr stored) p))"
proof (cases "time_sub u (lp_fetched p) < limitsTTL")
  case True
  then have same: "Limits u (Inr stored) p = (lp_cached p, p)" by (simp add: Limits_def)
  from assms(1) [unfolded cache_stands_def] show ?thesis
  proof
    assume "ns (lp_fetched p) + limitsTTL \<le> ns t \<and> lp_fetched p = zero_time"
    then show ?thesis using True old_cache [of "lp_fetched p" u] assms(2,3) by simp
  next
    assume c: "ns (lp_fetched p) \<le> ns t
       \<and> (lp_cached p = Resolve stored (lp_fallback p)
          \<or> (\<exists>w t'. (w, t') \<in> set stale \<and> lp_cached p = Resolve w (lp_fallback p) \<and> ns (lp_fetched p) \<le> ns t'))"
    then have "ns u - ns (lp_fetched p) < limitsTTL" using fresh_cache [OF True] assms(2) by simp
    then show ?thesis using c assms(2) unfolding same cache_stands_def by force
  qed
next
  case False
  then show ?thesis by (simp add: Limits_def cache_stands_def Let_def)
qed


definition no_limits :: operational where
  "no_limits = \<lparr>op_SessionLifetimeHours = None, op_SessionIdleMinutes = None, op_MaxDailyHours = None, op_RateLimit = None,
     op_RateLimitWindowSeconds = None, op_LDAPSyncMaxDeleteRatio = None\<rparr>"


text \<open>The promise is kept by questions and saves that do not overlap.  A question that read the old
  settings before a save and writes its answer into the cache after the save's invalidation puts the
  old limits back, as fresh, for another ten seconds.\<close>

lemma overtaken_save_is_lost:
  assumes "time_sub u t < limitsTTL"
  shows "fst (Limits u (Inr saved) ((Invalidate p)\<lparr>lp_cached := Resolve old (lp_fallback p), lp_fetched := t\<rparr>))
    = Resolve old (lp_fallback p)"
  using assms by (simp add: Limits_def)

end
