(* ===== verification/Wire.thy ===== *)
theory Wire
  imports Teams
begin

text \<open>
  What comes and goes over the wire: \<^verbatim>\<open>interface/api/v1/rest/dto.go\<close> with the parts of
  \<^verbatim>\<open>strconv\<close> and \<^verbatim>\<open>time\<close> it reads numbers and dates with, and the answers an error
  becomes (\<^verbatim>\<open>error.go\<close>).

  A request's parameters are a function from their names, empty where one is absent; a body that
  GoFr cannot bind is \<open>None\<close>.  The reference an internal error is logged under is random, and left
  out.
\<close>

section \<open>Numbers\<close>

text \<open>\<^verbatim>\<open>strconv.ParseUint(s, 10, strconv.IntSize)\<close>: digits only, and at most 64 bits.\<close>

definition ParseUint :: "gostring \<Rightarrow> uint option" where
  "ParseUint s =
     (if s = [] \<or> \<not> list_all is_digit_char s then None
      else let v = digits_value 0 s in if v < 2 ^ 64 then Some v else None)"

definition parseUint :: "gostring \<Rightarrow> gostring \<Rightarrow> uint result" where
  "parseUint raw field =
     (case ParseUint (TrimSpace raw) of
        None \<Rightarrow> Inl (InvalidFields [field])
      | Some v \<Rightarrow> if v = 0 then Inl (InvalidFields [field]) else Inr v)"

section \<open>Dates\<close>

text \<open>The pieces of \<^verbatim>\<open>time.Parse\<close>: a number of two digits, or of one where the layout lets it
  be, and a fixed character.\<close>

definition digit_at :: "char \<Rightarrow> nat" where
  "digit_at c = byte c - 48"

definition getnum :: "bool \<Rightarrow> gostring \<Rightarrow> (nat \<times> gostring) option" where
  "getnum both s =
     (case s of
        [] \<Rightarrow> None
      | a # r \<Rightarrow>
          if \<not> is_digit_char a then None
          else (case r of
                  [] \<Rightarrow> if both then None else Some (digit_at a, r)
                | b # r' \<Rightarrow>
                    if is_digit_char b then Some (10 * digit_at a + digit_at b, r')
                    else if both then None else Some (digit_at a, r)))"

definition getyear :: "gostring \<Rightarrow> (nat \<times> gostring) option" where
  "getyear s = (if 4 \<le> length s \<and> list_all is_digit_char (take 4 s)
                then Some (digits_value 0 (take 4 s), drop 4 s) else None)"

definition skip :: "char \<Rightarrow> gostring \<Rightarrow> gostring option" where
  "skip c s = (case s of [] \<Rightarrow> None | x # r \<Rightarrow> if x = c then Some r else None)"

definition below :: "nat \<Rightarrow> nat \<Rightarrow> (nat \<times> gostring) option \<Rightarrow> (nat \<times> gostring) option" where
  "below lo hi x = (case x of None \<Rightarrow> None | Some (n, r) \<Rightarrow> if lo \<le> n \<and> n < hi then Some (n, r) else None)"

definition days_in :: "int \<Rightarrow> int \<Rightarrow> int" where
  "days_in y m = date y (m + 1) 1 - date y m 1"

text \<open>The day at the start of a text, and what follows it.\<close>

definition read_day :: "gostring \<Rightarrow> (day \<times> gostring) option" where
  "read_day s =
     Option.bind (getyear s) (\<lambda>(y, s).
     Option.bind (skip (CHR ''-'') s) (\<lambda>s.
     Option.bind (below 1 13 (getnum True s)) (\<lambda>(m, s).
     Option.bind (skip (CHR ''-'') s) (\<lambda>s.
     Option.bind (below 1 32 (getnum True s)) (\<lambda>(d, s).
       if int d \<le> days_in (int y) (int m) then Some (date (int y) (int m) (int d), s) else None)))))"

definition parse_day :: "gostring \<Rightarrow> gotime option" where
  "parse_day s = (case read_day s of Some (d, []) \<Rightarrow> Some (midnight d) | _ \<Rightarrow> None)"

text \<open>A fraction of a second after a point or a comma, of which nine digits count.\<close>

definition read_fraction :: "gostring \<Rightarrow> nat \<times> gostring" where
  "read_fraction s =
     (case s of
        p # d # r \<Rightarrow>
          if (p = CHR ''.'' \<or> p = CHR '','') \<and> is_digit_char d
          then let ds = takeWhile is_digit_char (d # r); used = take 9 ds
               in (digits_value 0 used * 10 ^ (9 - length used), dropWhile is_digit_char (d # r))
          else (0, s)
      | _ \<Rightarrow> (0, s))"

text \<open>The time zone at the end: \<open>Z\<close>, or an offset with its sign.\<close>

definition read_zone :: "gostring \<Rightarrow> (int option \<times> gostring) option" where
  "read_zone s =
     (case s of
        [] \<Rightarrow> None
      | c # r \<Rightarrow>
          if c = CHR ''Z'' then Some (None, r)
          else Option.bind (below 0 25 (getnum True r)) (\<lambda>(h, r).
               Option.bind (skip (CHR '':'') r) (\<lambda>r.
               Option.bind (below 0 61 (getnum True r)) (\<lambda>(m, r).
                 let off = int (h * 60 + m) * 60
                 in if c = CHR ''+'' then Some (Some off, r)
                    else if c = CHR ''-'' then Some (Some (- off), r) else None))))"

definition FixedZone :: "int \<Rightarrow> location" where
  "FixedZone off = \<lparr>base_offset = off, transitions = []\<rparr>"

definition moment :: "location \<Rightarrow> day \<Rightarrow> int \<Rightarrow> int \<Rightarrow> int option \<Rightarrow> gotime" where
  "moment server d seconds nanos zone =
     (case zone of
        None \<Rightarrow> \<lparr>ns = (d * 86400 + seconds) * 10 ^ 9 + nanos, loc = UTC\<rparr>
      | Some off \<Rightarrow>
          let sec = d * 86400 + seconds - off
          in \<lparr>ns = sec * 10 ^ 9 + nanos, loc = (if offset_at server sec = off then server else FixedZone off)\<rparr>)"

text \<open>\<^verbatim>\<open>time.Parse\<close> with \<^verbatim>\<open>time.RFC3339\<close>, and with \<^verbatim>\<open>time.RFC3339Nano\<close>, which reads the
  same texts; \<open>server\<close> is the zone of the process.\<close>

definition parse_rfc3339 :: "location \<Rightarrow> gostring \<Rightarrow> gotime option" where
  "parse_rfc3339 server s =
     Option.bind (read_day s) (\<lambda>(d, s).
     Option.bind (skip (CHR ''T'') s) (\<lambda>s.
     Option.bind (below 0 24 (getnum False s)) (\<lambda>(h, s).
     Option.bind (skip (CHR '':'') s) (\<lambda>s.
     Option.bind (below 0 60 (getnum True s)) (\<lambda>(m, s).
     Option.bind (skip (CHR '':'') s) (\<lambda>s.
     Option.bind (below 0 60 (getnum True s)) (\<lambda>(x, s).
     let (nanos, s) = read_fraction s
     in Option.bind (read_zone s) (\<lambda>(zone, s).
        if s = [] then Some (moment server d (int (h * 3600 + m * 60 + x)) (int nanos) zone) else None))))))))"

definition parse_date :: "location \<Rightarrow> gostring \<Rightarrow> gotime option" where
  "parse_date server raw = (case parse_day raw of Some t \<Rightarrow> Some t | None \<Rightarrow> parse_rfc3339 server raw)"

text \<open>\<^verbatim>\<open>time.Date\<close> at a wall-clock second of a zone, and \<^verbatim>\<open>AddDate(0, 0, n)\<close>, which keeps the
  time of day the clock shows.\<close>

definition wall_in :: "int \<Rightarrow> int \<Rightarrow> location \<Rightarrow> gotime" where
  "wall_in wall nanos l =
     (let (off, start, end) = lookup l wall; utc = wall - off;
          off' = (if off \<noteq> 0 \<and> ((case start of None \<Rightarrow> False | Some s \<Rightarrow> utc < s)
                               \<or> (case end of None \<Rightarrow> False | Some e \<Rightarrow> e \<le> utc))
                  then offset_at l utc else off)
      in \<lparr>ns = (wall - off') * 10 ^ 9 + nanos, loc = l\<rparr>)"

definition AddDays :: "gotime \<Rightarrow> int \<Rightarrow> gotime" where
  "AddDays t n = wall_in ((local_day t + n) * 86400 + (unix t + offset_at (loc t) (unix t)) mod 86400)
     (ns t mod 10 ^ 9) (loc t)"

text \<open>\<^verbatim>\<open>Date\<close>: a JSON value is null, a string or something else; an absent date stays what the
  field was.\<close>

datatype json_value = JNull | JString gostring | JOther

definition Date_UnmarshalJSON :: "location \<Rightarrow> json_value \<Rightarrow> gotime \<Rightarrow> gotime result" where
  "Date_UnmarshalJSON server v field =
     (case v of
        JNull \<Rightarrow> Inr field
      | JOther \<Rightarrow> Inl Internal
      | JString s \<Rightarrow>
          let raw = TrimSpace s
          in if raw = [] then Inr field
             else case parse_date server raw of
                    Some t \<Rightarrow> Inr (midnight (CalendarDay t))
                  | None \<Rightarrow> Inl (WithCode Invalidf ''dateFormat'' [VString raw]))"

definition Date_MarshalJSON :: "gotime \<Rightarrow> json_value" where
  "Date_MarshalJSON t = (if is_zero_time t then JNull else JString (format_day (local_day t)))"

definition momentOrNil :: "gotime \<Rightarrow> gotime option" where
  "momentOrNil t = (if is_zero_time t then None else Some t)"

section \<open>Requests\<close>

text \<open>Who is behind a request is what the middleware put into its context: a caller, nobody, or
  that what was presented could not be checked.\<close>

datatype presented = Anonymous | Unchecked app_error | SignedIn principal

record request =
  rq_presented :: presented
  rq_path :: gostring
  rq_param :: "gostring \<Rightarrow> gostring"
  rq_server_zone :: location
  rq_instance_zone :: gostring
  rq_load_zone :: "gostring \<Rightarrow> location option"

definition pathID :: "request \<Rightarrow> uint result" where
  "pathID r = parseUint (rq_path r) ''id''"

definition queryUint :: "request \<Rightarrow> gostring \<Rightarrow> uint result" where
  "queryUint r field =
     (let raw = TrimSpace (rq_param r field) in if raw = [] then Inr 0 else parseUint raw field)"

definition queryInt :: "request \<Rightarrow> gostring \<Rightarrow> int \<Rightarrow> int" where
  "queryInt r field fallback =
     (let raw = TrimSpace (rq_param r field)
      in if raw = [] then fallback else case Atoi raw of None \<Rightarrow> fallback | Some v \<Rightarrow> v)"

definition queryCount :: "request \<Rightarrow> gostring \<Rightarrow> uint result" where
  "queryCount r field =
     (let raw = TrimSpace (rq_param r field)
      in if raw = [] then Inr 0
         else case ParseUint raw of None \<Rightarrow> Inl (InvalidFields [field]) | Some v \<Rightarrow> Inr v)"

definition queryDate :: "request \<Rightarrow> gostring \<Rightarrow> gotime option result" where
  "queryDate r field =
     (let raw = TrimSpace (rq_param r field)
      in if raw = [] then Inr None
         else case parse_date (rq_server_zone r) raw of
                None \<Rightarrow> Inl (InvalidFields [field])
              | Some t \<Rightarrow> Inr (Some t))"

definition bind_body :: "'a option \<Rightarrow> 'a result" where
  "bind_body b = (case b of None \<Rightarrow> Inl (WithCode Invalidf ''bodyNotJSON'' []) | Some x \<Rightarrow> Inr x)"

definition DefaultPageSize :: uint where "DefaultPageSize = 100"
definition MaxPageSize :: uint where "MaxPageSize = 500"

definition pageOf :: "request \<Rightarrow> (uint \<times> uint) result" where
  "pageOf r =
     bind_res (queryCount r ''limit'') (\<lambda>given.
     let limit = (if given = 0 then DefaultPageSize else given)
     in if limit > MaxPageSize then Inl (WithCode Invalidf ''pageSizeTooLarge'' [VUint MaxPageSize])
        else bind_res (queryCount r ''offset'') (\<lambda>offset. Inr (limit, offset)))"

section \<open>Answers\<close>

text \<open>The error types of the interface, each with what reaches the client.\<close>

datatype http_error =
    HForbidden gostring "err_value list"
  | HUnauthorized
  | HNotFound gostring gostring
  | HInvalidFields "gostring list"
  | HInvalid gostring "err_value list"
  | HConflict gostring "err_value list"
  | HInternal gostring "err_value list"

type_synonym 'a answer = "http_error + 'a"

definition CodeNotFound :: gostring where "CodeNotFound = ''notFound''"
definition CodeInvalidFields :: gostring where "CodeInvalidFields = ''invalidFields''"
definition CodeUnauthenticated :: gostring where "CodeUnauthenticated = ''unauthenticated''"
definition CodeInternal :: gostring where "CodeInternal = ''internal''"

definition newInternalError :: "app_error \<Rightarrow> http_error" where
  "newInternalError d = HInternal (if err_code d = [] then CodeInternal else err_code d) (err_values d)"

definition toHTTPError :: "app_error \<Rightarrow> http_error" where
  "toHTTPError d =
     (case err_kind d of
        KindNotFound \<Rightarrow> HNotFound (err_entity d) (err_id d)
      | KindInvalid \<Rightarrow> if err_fields d \<noteq> [] then HInvalidFields (err_fields d) else HInvalid (err_code d) (err_values d)
      | KindConflict \<Rightarrow> HConflict (err_code d) (err_values d)
      | KindInternal \<Rightarrow> newInternalError d)"

fun StatusCode :: "http_error \<Rightarrow> nat" where
  "StatusCode (HForbidden _ _) = 403"
| "StatusCode HUnauthorized = 401"
| "StatusCode (HNotFound _ _) = 404"
| "StatusCode (HInvalidFields _) = 400"
| "StatusCode (HInvalid _ _) = 400"
| "StatusCode (HConflict _ _) = 409"
| "StatusCode (HInternal _ _) = 500"

definition reason_response :: "gostring \<Rightarrow> err_value list \<Rightarrow> gostring \<times> err_value list" where
  "reason_response code vs = (if code = [] then ([], []) else (code, vs))"

text \<open>The code in the body, none where it is empty, the values and the fields named.\<close>

fun Response :: "http_error \<Rightarrow> (gostring \<times> err_value list) \<times> gostring list" where
  "Response (HForbidden code vs) = (reason_response code vs, [])"
| "Response HUnauthorized = (reason_response CodeUnauthenticated [], [])"
| "Response (HNotFound entity i) = (reason_response CodeNotFound [VString entity, VString i], [])"
| "Response (HInvalidFields fs) = ((CodeInvalidFields, []), fs)"
| "Response (HInvalid code vs) = (reason_response code vs, [])"
| "Response (HConflict code vs) = (reason_response code vs, [])"
| "Response (HInternal code vs) = (reason_response code vs, [])"

definition answer :: "'a result \<Rightarrow> 'a answer" where
  "answer r = (case r of Inl err \<Rightarrow> Inl (toHTTPError err) | Inr x \<Rightarrow> Inr x)"

lemma answer_simps [simp]: "answer (Inl err) = Inl (toHTTPError err)" "answer (Inr x) = Inr x"
  by (simp_all add: answer_def)

end
