(* ===== verification/Requests.thy ===== *)
theory Requests
  imports Wire ProjectService TimeMoves
begin

text \<open>
  Who may ask for what: \<^verbatim>\<open>interface/api/v1/rest/authz.go\<close>, and the handlers of time entries and
  projects over it (\<^verbatim>\<open>timesheet_handler.go\<close>, \<^verbatim>\<open>timesheet_history.go\<close>,
  \<^verbatim>\<open>week_copy.go\<close>, \<^verbatim>\<open>project_handler.go\<close> with their requests and responses).

  A handler takes the authorizer, the surroundings, the request with its decoded body, and the
  installation; it gives its answer and the installation as it leaves it.
\<close>

section \<open>The authorizer\<close>

record authorizer =
  au_open :: bool
  au_team :: bool

definition NewAuthorizer :: "bool \<Rightarrow> authorizer" where
  "NewAuthorizer enforce = \<lparr>au_open = \<not> enforce, au_team = False\<rparr>"

definition WithTeam :: "authorizer \<Rightarrow> authorizer" where
  "WithTeam a = a\<lparr>au_team := True\<rparr>"

definition Enforced :: "authorizer \<Rightarrow> bool" where
  "Enforced a \<longleftrightarrow> \<not> au_open a"

definition authz_reaches :: "authorizer \<Rightarrow> principal \<Rightarrow> uint \<Rightarrow> gostring \<Rightarrow> site \<Rightarrow> bool" where
  "authz_reaches a p userID permission s \<longleftrightarrow> au_team a \<and> Reaches (Some p) userID permission s"

definition anonymous :: principal where
  "anonymous = \<lparr>pp_User = Some (blank_user\<lparr>us_Name := ''anonymous''\<rparr>), pp_Role = None, pp_Permissions = AllPermissions\<rparr>"

definition authz_Principal :: "authorizer \<Rightarrow> request \<Rightarrow> principal answer" where
  "authz_Principal a r =
     (if au_open a then Inr anonymous
      else case rq_presented r of
             SignedIn p \<Rightarrow> if pp_User p = None then Inl HUnauthorized else Inr p
           | Unchecked err \<Rightarrow> Inl (toHTTPError err)
           | Anonymous \<Rightarrow> Inl HUnauthorized)"

definition missingPermission :: "gostring \<Rightarrow> http_error" where
  "missingPermission permission = HForbidden ''missingPermission'' [VString permission]"

definition mustChangePassword :: "principal \<Rightarrow> unit result" where
  "mustChangePassword p =
     (if (case pp_User p of None \<Rightarrow> False | Some u \<Rightarrow> us_MustChangePassword u)
      then Inl (WithCode Conflictf ''initialPasswordPending'' []) else Inr ())"

definition caller_IsSystem :: "principal \<Rightarrow> bool" where
  "caller_IsSystem p = (case pp_User p of None \<Rightarrow> False | Some u \<Rightarrow> us_IsSystem u)"

definition RequireInstallationAdmin :: "authorizer \<Rightarrow> request \<Rightarrow> principal answer" where
  "RequireInstallationAdmin a r =
     bind_res (authz_Principal a r) (\<lambda>p.
       if au_open a \<or> caller_IsSystem p \<or> Can p PermSettingsManage then Inr p
       else Inl (missingPermission PermSettingsManage))"

definition AdministersOnly :: "authorizer \<Rightarrow> principal option \<Rightarrow> bool" where
  "AdministersOnly a caller =
     (if au_open a then True
      else case caller of
             None \<Rightarrow> False
           | Some p \<Rightarrow> if pp_User p = None then False
                       else caller_IsSystem p \<or> (Can p PermSettingsManage \<and> \<not> Can p PermTimesheetWriteOwn))"

definition permittedPrincipal :: "authorizer \<Rightarrow> request \<Rightarrow> principal answer" where
  "permittedPrincipal a r =
     bind_res (authz_Principal a r) (\<lambda>p.
       if au_open a then Inr p else bind_res (answer (mustChangePassword p)) (\<lambda>_. Inr p))"

definition Require :: "authorizer \<Rightarrow> request \<Rightarrow> gostring \<Rightarrow> principal answer" where
  "Require a r permission =
     bind_res (permittedPrincipal a r) (\<lambda>p.
       if au_open a \<or> Can p permission then Inr p else Inl (missingPermission permission))"

definition RequireSelfOr :: "authorizer \<Rightarrow> request \<Rightarrow> uint \<Rightarrow> gostring \<Rightarrow> principal answer" where
  "RequireSelfOr a r target permission =
     bind_res (permittedPrincipal a r) (\<lambda>p.
       if au_open a \<or> caller_id p = target \<or> Can p permission then Inr p else Inl (missingPermission permission))"

definition RequireSelf :: "authorizer \<Rightarrow> request \<Rightarrow> uint \<Rightarrow> gostring \<Rightarrow> principal answer" where
  "RequireSelf a r target permission =
     bind_res (permittedPrincipal a r) (\<lambda>p.
       if au_open a then Inr p
       else if pp_User p \<noteq> None \<and> caller_id p = target \<and> Can p permission then Inr p
       else Inl (HForbidden ''onlyOwnWorkingTimes'' []))"

definition caller_account :: "principal \<Rightarrow> user" where
  "caller_account p = (case pp_User p of None \<Rightarrow> blank_user | Some u \<Rightarrow> u)"

definition somebodyElsesProjects :: http_error where
  "somebodyElsesProjects = HForbidden ''onlyOwnProjects'' []"

definition somebodyElsesEntries :: http_error where
  "somebodyElsesEntries = HForbidden ''onlyOwnEntriesRead'' []"

definition accountFor ::
  "authorizer \<Rightarrow> principal \<Rightarrow> uint \<Rightarrow> http_error \<Rightarrow> gostring list \<Rightarrow> site \<Rightarrow> user answer" where
  "accountFor a p requested refusal rights s =
     (if requested = 0 \<or> requested = caller_id p then Inr (caller_account p)
      else if au_open a then Inr (blank_user\<lparr>us_ID := requested\<rparr>)
      else if \<not> au_team a then Inl refusal
      else bind_res (answer (Member (Some p) requested rights s)) (\<lambda>member.
             case member of None \<Rightarrow> Inl refusal | Some u \<Rightarrow> Inr u))"

definition scopeUserID :: "authorizer \<Rightarrow> principal \<Rightarrow> uint \<Rightarrow> site \<Rightarrow> uint answer" where
  "scopeUserID a p requested s =
     (if au_open a then Inr requested
      else if \<not> Can p PermTimesheetReadOwn then Inl (missingPermission PermTimesheetReadOwn)
      else bind_res (accountFor a p requested somebodyElsesEntries [PermTimesheetReadTeam] s) (\<lambda>u. Inr (us_ID u)))"

definition viewerID :: "authorizer \<Rightarrow> principal \<Rightarrow> uint" where
  "viewerID a p = (if au_open a \<or> pp_User p = None then 0 else caller_id p)"

definition authz_reportScope :: "authorizer \<Rightarrow> principal \<Rightarrow> uint" where
  "authz_reportScope a p = (if au_open a then 0 else if pp_User p = None then 0 else caller_id p)"

definition projectActor :: "authorizer \<Rightarrow> principal \<Rightarrow> uint \<Rightarrow> gostring list \<Rightarrow> site \<Rightarrow> uint answer" where
  "projectActor a p projectID rights s =
     (let viewer = viewerID a p
      in if viewer = 0 \<or> \<not> au_team a then Inr viewer
         else answer (ProjectActor p projectID rights s))"

definition requireOwner :: "authorizer \<Rightarrow> principal \<Rightarrow> uint \<Rightarrow> site \<Rightarrow> unit answer" where
  "requireOwner a p ownerID s =
     (if au_open a then Inr ()
      else if Can p PermTimesheetWriteOwn \<and> caller_id p = ownerID then Inr ()
      else if authz_reaches a p ownerID PermTimesheetWriteTeam s then Inr ()
      else Inl (HForbidden ''onlyOwnEntriesWrite'' []))"

definition requireOwnEntry :: "authorizer \<Rightarrow> principal \<Rightarrow> uint \<Rightarrow> uint \<Rightarrow> gostring \<Rightarrow> site \<Rightarrow> unit answer" where
  "requireOwnEntry a p i ownerID teamRight s =
     (if au_open a then Inr ()
      else if pp_User p \<noteq> None \<and> caller_id p = ownerID then Inr ()
      else if authz_reaches a p ownerID teamRight s then Inr ()
      else Inl (toHTTPError (NotFound ''timesheet'' (format_uint i))))"

section \<open>Time entries over the wire\<close>

record timesheet_response =
  tp_ID :: uint
  tp_UserID :: uint
  tp_ProjectID :: "uint option"
  tp_Date :: gotime
  tp_DurationHours :: float64
  tp_Description :: "gostring option"
  tp_CreatedAt :: "gotime option"
  tp_UpdatedAt :: "gotime option"
  tp_RecordedBy :: "acted_by option"
  tp_UpdatedBy :: "acted_by option"

definition newTimesheetResponse :: "timesheet_result \<Rightarrow> timesheet_response" where
  "newTimesheetResponse r =
     \<lparr>tp_ID = tr_ID r, tp_UserID = tr_UserID r, tp_ProjectID = tr_ProjectID r, tp_Date = tr_Date r,
      tp_DurationHours = tr_DurationHours r, tp_Description = tr_Description r,
      tp_CreatedAt = momentOrNil (tr_CreatedAt r), tp_UpdatedAt = momentOrNil (tr_UpdatedAt r),
      tp_RecordedBy = tr_RecordedBy r, tp_UpdatedBy = tr_UpdatedBy r\<rparr>"

record create_timesheet_request =
  cr_UserID :: uint
  cr_ProjectID :: uint
  cr_Date :: gotime
  cr_DurationHours :: float64
  cr_Description :: "gostring option"

record update_timesheet_request =
  ux_UserID :: "uint option"
  ux_ProjectID :: "uint option"
  ux_Date :: "gotime option"
  ux_DurationHours :: "float64 option"
  ux_Description :: "gostring option"

record 'a list_response =
  lr_Items :: "'a list"
  lr_TotalCount :: uint
  lr_PageSize :: uint

record timesheet_scope =
  sp_UserID :: uint
  sp_ProjectID :: uint
  sp_WithoutProject :: bool
  sp_Search :: gostring
  sp_From :: "gotime option"
  sp_To :: "gotime option"

definition projectFilter :: "request \<Rightarrow> (uint \<times> bool) result" where
  "projectFilter r =
     (let raw = TrimSpace (rq_param r ''projectId'')
      in if raw = [] then Inr (0, False)
         else if raw = ''none'' then Inr (0, True)
         else bind_res (parseUint raw ''projectId'') (\<lambda>i. Inr (i, False)))"

definition timesheetScopeOf :: "authorizer \<Rightarrow> request \<Rightarrow> principal \<Rightarrow> site \<Rightarrow> timesheet_scope answer" where
  "timesheetScopeOf a r p s =
     bind_res (answer (queryUint r ''userId'')) (\<lambda>requested.
     bind_res (scopeUserID a p requested s) (\<lambda>userID.
     bind_res (answer (projectFilter r)) (\<lambda>(projectID, withoutProject).
     bind_res (answer (queryDate r ''from'')) (\<lambda>from.
     bind_res (answer (queryDate r ''to'')) (\<lambda>to.
     let search = TrimSpace (rq_param r ''q'')
     in if TooLong search MaxDescriptionLength then Inl (toHTTPError (InvalidFields [''q'']))
        else Inr \<lparr>sp_UserID = userID, sp_ProjectID = projectID, sp_WithoutProject = withoutProject,
                  sp_Search = search, sp_From = from, sp_To = to\<rparr>)))))"

definition scope_filter :: "timesheet_scope \<Rightarrow> uint \<Rightarrow> uint \<Rightarrow> filter" where
  "scope_filter c limit offset =
     \<lparr>fi_UserID = sp_UserID c, fi_ProjectID = sp_ProjectID c, fi_StartDate = sp_From c, fi_EndDate = sp_To c,
      fi_WithoutProject = sp_WithoutProject c, fi_Search = sp_Search c, fi_Limit = limit, fi_Offset = offset\<rparr>"

definition handle_List ::
  "authorizer \<Rightarrow> env \<Rightarrow> request \<Rightarrow> site \<Rightarrow> timesheet_response list_response answer" where
  "handle_List a e r s =
     bind_res (Require a r PermTimesheetReadOwn) (\<lambda>p.
     bind_res (timesheetScopeOf a r p s) (\<lambda>scope.
     bind_res (answer (pageOf r)) (\<lambda>(limit, offset).
     bind_res (answer (ListTimesheets e (scope_filter scope limit offset) (site_db s))) (\<lambda>(results, total).
     Inr \<lparr>lr_Items = map newTimesheetResponse results, lr_TotalCount = total, lr_PageSize = limit\<rparr>))))"

definition handle_Get :: "authorizer \<Rightarrow> request \<Rightarrow> site \<Rightarrow> timesheet_response answer" where
  "handle_Get a r s =
     bind_res (Require a r PermTimesheetReadOwn) (\<lambda>p.
     bind_res (answer (pathID r)) (\<lambda>i.
     bind_res (answer (GetTimesheet i (site_db s))) (\<lambda>result.
     bind_res (requireOwnEntry a p i (tr_UserID result) PermTimesheetReadTeam s) (\<lambda>_.
     Inr (newTimesheetResponse result)))))"

text \<open>What a handler has agreed to do, carried out: its answer and the installation after it.\<close>

definition carry_out :: "'c answer \<Rightarrow> ('c \<Rightarrow> db \<Rightarrow> 'r result \<times> db) \<Rightarrow> ('r \<Rightarrow> 'a) \<Rightarrow> site \<Rightarrow> 'a answer \<times> site" where
  "carry_out agreed run show s =
     (case agreed of
        Inl refusal \<Rightarrow> (Inl refusal, s)
      | Inr cmd \<Rightarrow> let (res, d) = run cmd (site_db s)
                   in (bind_res (answer res) (\<lambda>x. Inr (show x)), s\<lparr>site_db := d\<rparr>))"

definition create_command ::
  "authorizer \<Rightarrow> request \<Rightarrow> create_timesheet_request option \<Rightarrow> site \<Rightarrow> create_timesheet answer" where
  "create_command a r body s =
     bind_res (Require a r PermTimesheetWriteOwn) (\<lambda>p.
     bind_res (answer (bind_body body)) (\<lambda>req.
     let userID = (if cr_UserID req = 0 \<and> pp_User p \<noteq> None then caller_id p else cr_UserID req)
     in bind_res (requireOwner a p userID s) (\<lambda>_.
     Inr \<lparr>ct_UserID = userID, ct_ProjectID = cr_ProjectID req, ct_Date = cr_Date req,
          ct_DurationHours = cr_DurationHours req, ct_Description = cr_Description req,
          ct_RecordedBy = viewerID a p\<rparr>)))"

definition handle_Create ::
  "authorizer \<Rightarrow> env \<Rightarrow> request \<Rightarrow> create_timesheet_request option \<Rightarrow> site \<Rightarrow> timesheet_response answer \<times> site" where
  "handle_Create a e r body s = carry_out (create_command a r body s) (CreateTimesheet e) newTimesheetResponse s"

text \<open>The entry a path names, where it is one the caller may act on.\<close>

definition own_entry :: "authorizer \<Rightarrow> request \<Rightarrow> principal \<Rightarrow> uint \<Rightarrow> site \<Rightarrow> unit answer" where
  "own_entry a r p i s =
     bind_res (answer (GetTimesheet i (site_db s))) (\<lambda>existing.
     requireOwnEntry a p i (tr_UserID existing) PermTimesheetWriteTeam s)"

definition update_command ::
  "authorizer \<Rightarrow> request \<Rightarrow> update_timesheet_request option \<Rightarrow> site \<Rightarrow> update_timesheet answer" where
  "update_command a r body s =
     bind_res (Require a r PermTimesheetWriteOwn) (\<lambda>p.
     bind_res (answer (pathID r)) (\<lambda>i.
     bind_res (own_entry a r p i s) (\<lambda>_.
     bind_res (answer (bind_body body)) (\<lambda>req.
     bind_res (case ux_UserID req of None \<Rightarrow> Inr () | Some u \<Rightarrow> requireOwner a p u s) (\<lambda>_.
     Inr \<lparr>ut_ID = i, ut_UserID = ux_UserID req, ut_ProjectID = ux_ProjectID req, ut_Date = ux_Date req,
          ut_DurationHours = ux_DurationHours req, ut_Description = ux_Description req,
          ut_UpdatedBy = viewerID a p\<rparr>)))))"

definition handle_Update ::
  "authorizer \<Rightarrow> env \<Rightarrow> request \<Rightarrow> update_timesheet_request option \<Rightarrow> site \<Rightarrow> timesheet_response answer \<times> site" where
  "handle_Update a e r body s = carry_out (update_command a r body s) (UpdateTimesheet e) newTimesheetResponse s"

definition handle_Delete :: "authorizer \<Rightarrow> request \<Rightarrow> site \<Rightarrow> unit answer \<times> site" where
  "handle_Delete a r s =
     carry_out
       (bind_res (Require a r PermTimesheetWriteOwn) (\<lambda>p.
        bind_res (answer (pathID r)) (\<lambda>i.
        bind_res (own_entry a r p i s) (\<lambda>_. Inr i))))
       DeleteTimesheet id s"

definition transfer_response :: "timesheet \<Rightarrow> timesheet_response" where
  "transfer_response t =
     \<lparr>tp_ID = ts_ID t, tp_UserID = ts_UserID t, tp_ProjectID = ts_ProjectID t, tp_Date = ts_Date t,
      tp_DurationHours = ts_DurationHours t, tp_Description = ts_Description t,
      tp_CreatedAt = None, tp_UpdatedAt = None, tp_RecordedBy = None, tp_UpdatedBy = None\<rparr>"

definition transfer_command ::
  "authorizer \<Rightarrow> request \<Rightarrow> uint option \<Rightarrow> site \<Rightarrow> (uint \<times> uint \<times> uint) answer" where
  "transfer_command a r body s =
     bind_res (Require a r PermTimesheetTransfer) (\<lambda>p.
     bind_res (answer (pathID r)) (\<lambda>i.
     bind_res (answer (bind_body body)) (\<lambda>projectID.
     if projectID = 0 then Inl (toHTTPError (InvalidFields [''projectId'']))
     else bind_res (own_entry a r p i s) (\<lambda>_. Inr (i, projectID, viewerID a p)))))"

definition handle_Transfer ::
  "authorizer \<Rightarrow> env \<Rightarrow> request \<Rightarrow> uint option \<Rightarrow> site \<Rightarrow> timesheet_response answer \<times> site" where
  "handle_Transfer a e r body s =
     carry_out (transfer_command a r body s)
       (\<lambda>(i, projectID, actor). TransferTimesheetToProject e i projectID actor) transfer_response s"

text \<open>\<^verbatim>\<open>Revisions\<close>: what an entry said before each correction.\<close>

record revision_response =
  vp_Date :: gotime
  vp_DurationHours :: float64
  vp_ProjectID :: "uint option"
  vp_Description :: "gostring option"
  vp_ReplacedAt :: gotime
  vp_ReplacedBy :: "acted_by option"

definition revision_response_of :: "entry_history \<Rightarrow> revision \<Rightarrow> revision_response" where
  "revision_response_of h v =
     \<lparr>vp_Date = midnight (CalendarDay (rv_Date v)), vp_DurationHours = rv_DurationHours v,
      vp_ProjectID = rv_ProjectID v, vp_Description = rv_Description v,
      vp_ReplacedAt = in_zone (rv_ReplacedAt v) UTC,
      vp_ReplacedBy = map_option (\<lambda>i. \<lparr>act_ID = i,
        act_Name = (case map_of (eh_Names h) i of None \<Rightarrow> [] | Some n \<Rightarrow> n)\<rparr>) (rv_ReplacedBy v)\<rparr>"

definition handle_Revisions :: "authorizer \<Rightarrow> request \<Rightarrow> site \<Rightarrow> revision_response list_response answer" where
  "handle_Revisions a r s =
     bind_res (Require a r PermTimesheetReadOwn) (\<lambda>p.
     bind_res (answer (pathID r)) (\<lambda>i.
     bind_res (answer (Revisions i (site_db s))) (\<lambda>history.
     bind_res (requireOwnEntry a p i (eh_OwnerID history) PermTimesheetReadTeam s) (\<lambda>_.
     Inr \<lparr>lr_Items = map (revision_response_of history) (eh_Revisions history),
          lr_TotalCount = length (eh_Revisions history), lr_PageSize = 0\<rparr>))))"

definition handle_CopyWeek ::
  "authorizer \<Rightarrow> env \<Rightarrow> request \<Rightarrow> (gotime \<times> gotime) option \<Rightarrow> site \<Rightarrow> week_copy answer \<times> site" where
  "handle_CopyWeek a e r body s =
     carry_out
       (bind_res (Require a r PermTimesheetWriteOwn) (\<lambda>p.
        bind_res (answer (bind_body body)) (\<lambda>(from, to). Inr (caller_id p, from, to))))
       (\<lambda>(userID, from, to). CopyWeek e userID from to) id s"

end
