(* ===== verification/Gateway.thy ===== *)
theory Gateway
  imports Requests SignIn
begin

text \<open>
  What every request passes before its handler: \<^verbatim>\<open>interface/api/v1/rest/security.go\<close> (headers, the
  throttle, the bound on bodies), \<^verbatim>\<open>csrf.go\<close>, \<^verbatim>\<open>session.go\<close> and the middleware of
  \<^verbatim>\<open>apitoken_handler.go\<close>, with the personal tokens behind it
  (\<^verbatim>\<open>apitoken_application_service.go\<close>, \<^verbatim>\<open>domain/model/apitoken_model.go\<close>,
  \<^verbatim>\<open>persistence/sqldb/apitoken_repository.go\<close>).

  A header is the first value sent under its name, empty where there is none.  The grammars of IP
  addresses, their prefixes and URLs are \<^verbatim>\<open>net/netip\<close>'s and \<^verbatim>\<open>net/url\<close>'s, an argument (\<open>net\<close>); what
  a prefix holds is written out.
\<close>

record http_request =
  hr_method :: gostring
  hr_path :: gostring
  hr_header :: "gostring \<Rightarrow> gostring"
  hr_cookie :: "gostring \<Rightarrow> gostring option"
  hr_remote :: gostring
  hr_host :: gostring
  hr_tls :: bool
  hr_length :: int

section \<open>Addresses\<close>

datatype address = V4 nat | V6 nat gostring

record net =
  parse_addr :: "gostring \<Rightarrow> address option"
  parse_prefix :: "gostring \<Rightarrow> (address \<times> nat) option"
  url_host :: "gostring \<Rightarrow> gostring option"

definition Unmap :: "address \<Rightarrow> address" where
  "Unmap x = (case x of V4 n \<Rightarrow> x | V6 n z \<Rightarrow> if n div 2 ^ 32 = 65535 then V4 (n mod 2 ^ 32) else x)"

definition BitLen :: "address \<Rightarrow> nat" where
  "BitLen x = (case x of V4 _ \<Rightarrow> 32 | V6 _ _ \<Rightarrow> 128)"

definition withoutZone :: "address \<Rightarrow> address" where
  "withoutZone x = (case x of V4 n \<Rightarrow> x | V6 n _ \<Rightarrow> V6 n [])"

text \<open>\<^verbatim>\<open>Prefix.Contains\<close>: the leading bits agree; an address with a zone is in none.\<close>

fun prefix_contains :: "address \<times> nat \<Rightarrow> address \<Rightarrow> bool" where
  "prefix_contains (V4 p, bits) (V4 n) = (p div 2 ^ (32 - bits) = n div 2 ^ (32 - bits))"
| "prefix_contains (V6 p _, bits) (V6 n z) = (z = [] \<and> p div 2 ^ (128 - bits) = n div 2 ^ (128 - bits))"
| "prefix_contains _ _ = False"

definition loopback :: "(address \<times> nat) list" where
  "loopback = [(V4 (127 * 2 ^ 24), 8), (V6 1 [], 128)]"

text \<open>A string cut at the last occurrence of a character.\<close>

definition cut_last :: "char \<Rightarrow> gostring \<Rightarrow> (gostring \<times> gostring) option" where
  "cut_last c s = (let (a, b, found) = cut_at c (rev s) in if found then Some (rev b, rev a) else None)"

text \<open>The host \<^verbatim>\<open>net.SplitHostPort\<close> finds.\<close>

definition SplitHost :: "gostring \<Rightarrow> gostring option" where
  "SplitHost s =
     (case cut_last (CHR '':'') s of
        None \<Rightarrow> None
      | Some (before, port) \<Rightarrow>
          (case s of
             [] \<Rightarrow> None
           | c # r \<Rightarrow>
               if c = CHR ''['' then
                 (let (host, after, found) = cut_at (CHR '']'') r
                  in if \<not> found \<or> after \<noteq> CHR '':'' # port then None
                     else if CHR ''['' \<in> set r \<or> CHR '']'' \<in> set after then None
                     else Some host)
               else if CHR '':'' \<in> set before \<or> CHR ''['' \<in> set s \<or> CHR '']'' \<in> set s then None
               else Some before))"

definition trim_brackets :: "gostring \<Rightarrow> gostring" where
  "trim_brackets s =
     (let bracket = (\<lambda>c. c = CHR ''['' \<or> c = CHR '']'') in rev (dropWhile bracket (rev (dropWhile bracket s))))"

section \<open>The throttle\<close>

record bucket =
  bu_count :: int
  bu_reset :: int

text \<open>Moments are nanoseconds on one clock that does not go back.\<close>

record limiter =
  li_hits :: "(gostring \<times> bucket) list"
  li_limit :: int
  li_window :: int
  li_lastGC :: int
  li_gcEvery :: int
  li_current :: "(int \<times> int) option"
  li_trusted :: "(address \<times> nat) list"

definition NewRateLimiter :: "int \<Rightarrow> int \<Rightarrow> int \<Rightarrow> limiter" where
  "NewRateLimiter t limit window =
     \<lparr>li_hits = [], li_limit = limit, li_window = window, li_lastGC = t, li_gcEvery = window * 10,
      li_current = None, li_trusted = loopback\<rparr>"

fun trusted_of :: "net \<Rightarrow> gostring list \<Rightarrow> (address \<times> nat) list" where
  "trusted_of n [] = []"
| "trusted_of n (raw # cidrs) =
     (let raw = TrimSpace raw
      in if raw = [] then trusted_of n cidrs
         else case parse_prefix n raw of
                Some p \<Rightarrow> p # trusted_of n cidrs
              | None \<Rightarrow> (case parse_addr n raw of
                           Some a \<Rightarrow> (withoutZone a, BitLen a) # trusted_of n cidrs
                         | None \<Rightarrow> trusted_of n cidrs))"

definition WithTrustedProxies :: "net \<Rightarrow> gostring list \<Rightarrow> limiter \<Rightarrow> limiter" where
  "WithTrustedProxies n cidrs l = l\<lparr>li_trusted := loopback @ trusted_of n cidrs\<rparr>"

definition believesForwarded :: "net \<Rightarrow> limiter \<Rightarrow> gostring \<Rightarrow> bool" where
  "believesForwarded n l remote =
     (let host = (case SplitHost remote of None \<Rightarrow> remote | Some h \<Rightarrow> h)
      in case parse_addr n (trim_brackets host) of
           None \<Rightarrow> False
         | Some a \<Rightarrow> list_ex (\<lambda>p. prefix_contains p (Unmap a)) (li_trusted l))"

definition WithLimits :: "int \<times> int \<Rightarrow> limiter \<Rightarrow> limiter" where
  "WithLimits current l = l\<lparr>li_current := Some current\<rparr>"

text \<open>\<^verbatim>\<open>LimitsProvider.RateLimit\<close>: the administered budget, which \<^verbatim>\<open>li_current\<close> holds as it is at
  the request.\<close>

definition administered_rate :: "limits \<Rightarrow> int \<times> int" where
  "administered_rate current = (RateLimit current, RateLimitWindowSeconds current * 10 ^ 9)"

definition budget :: "limiter \<Rightarrow> int \<times> int" where
  "budget l =
     (case li_current l of
        None \<Rightarrow> (li_limit l, li_window l)
      | Some (limit, window) \<Rightarrow> if limit \<le> 0 \<or> window \<le> 0 then (li_limit l, li_window l) else (limit, window))"

definition collect :: "int \<Rightarrow> limiter \<Rightarrow> limiter" where
  "collect t l =
     (if t - li_lastGC l < li_gcEvery l then l
      else l\<lparr>li_lastGC := t, li_hits := filter (\<lambda>(_, b). \<not> bu_reset b < t) (li_hits l)\<rparr>)"

definition allow :: "gostring \<Rightarrow> int \<Rightarrow> int \<Rightarrow> int \<Rightarrow> limiter \<Rightarrow> bool \<times> limiter" where
  "allow key limit window t l =
     (let l = collect t l
      in case map_of (li_hits l) key of
           None \<Rightarrow> (True, l\<lparr>li_hits := AList.update key \<lparr>bu_count = 1, bu_reset = t + window\<rparr> (li_hits l)\<rparr>)
         | Some b \<Rightarrow>
             if bu_reset b < t then (True, l\<lparr>li_hits := AList.update key \<lparr>bu_count = 1, bu_reset = t + window\<rparr> (li_hits l)\<rparr>)
             else if bu_count b \<ge> limit then (False, l)
             else (True, l\<lparr>li_hits := AList.update key (b\<lparr>bu_count := bu_count b + 1\<rparr>) (li_hits l)\<rparr>))"

definition has_suffix :: "gostring \<Rightarrow> gostring \<Rightarrow> bool" where
  "has_suffix s p \<longleftrightarrow> length p \<le> length s \<and> drop (length s - length p) s = p"

definition has_prefix :: "gostring \<Rightarrow> gostring \<Rightarrow> bool" where
  "has_prefix s p \<longleftrightarrow> take (length p) s = p"

definition APITokenHeader :: gostring where "APITokenHeader = ''X-API-Token''"

definition throttle_guards :: "http_request \<Rightarrow> bool" where
  "throttle_guards r \<longleftrightarrow>
     has_suffix (hr_path r) ''/auth/login''
     \<or> has_suffix (hr_path r) ''/auth/kerberos'' \<and> hr_method r = ''POST''
     \<or> has_suffix (hr_path r) ''/auth/passkey/login'' \<and> hr_method r = ''POST''
     \<or> hr_header r APITokenHeader \<noteq> [] \<or> has_prefix (hr_header r ''Authorization'') ''Bearer ''"

definition clientKey :: "net \<Rightarrow> limiter \<Rightarrow> http_request \<Rightarrow> gostring" where
  "clientKey n l r =
     (if believesForwarded n l (hr_remote r) \<and> hr_header r ''X-Forwarded-For'' \<noteq> []
      then TrimSpace (last (split_at (CHR '','') (hr_header r ''X-Forwarded-For'')))
      else case cut_last (CHR '':'') (hr_remote r) of
             None \<Rightarrow> hr_remote r
           | Some (host, _) \<Rightarrow> if host = [] then hr_remote r else host)"

text \<open>Whether the throttle lets a request pass, and its state after.\<close>

definition throttle :: "net \<Rightarrow> int \<Rightarrow> http_request \<Rightarrow> limiter \<Rightarrow> bool \<times> limiter" where
  "throttle n t r l =
     (if \<not> throttle_guards r then (True, l)
      else let (limit, window) = budget l in allow (clientKey n l r) limit window t l)"

section \<open>The headers of an answer\<close>

text \<open>\<^verbatim>\<open>itoa\<close>, which writes nothing of a negative number.\<close>

definition itoa :: "int \<Rightarrow> gostring" where
  "itoa v = (if v = 0 then ''0'' else if v < 0 then [] else format_uint (nat v))"

definition isTLS :: "env \<Rightarrow> http_request \<Rightarrow> bool" where
  "isTLS e r \<longleftrightarrow> hr_tls r \<or> equal_fold e (hr_header r ''X-Forwarded-Proto'') ''https''"

definition quoted :: "gostring \<Rightarrow> gostring" where
  "quoted s = CHR 0x27 # s @ [CHR 0x27]"

definition content_security_policy :: gostring where
  "content_security_policy =
     ''default-src '' @ quoted ''self'' @ ''; img-src '' @ quoted ''self'' @ '' data:; script-src '' @ quoted ''self''
     @ ''; style-src '' @ quoted ''self'' @ ''; connect-src '' @ quoted ''self'' @ ''; font-src '' @ quoted ''self''
     @ ''; form-action '' @ quoted ''self'' @ ''; base-uri '' @ quoted ''none'' @ ''; frame-ancestors '' @ quoted ''none''
     @ ''; object-src '' @ quoted ''none''"

definition SecurityHeaders :: "env \<Rightarrow> int \<Rightarrow> http_request \<Rightarrow> (gostring \<times> gostring) list" where
  "SecurityHeaders e hstsMaxAge r =
     [(''Content-Security-Policy'', content_security_policy), (''X-Frame-Options'', ''DENY''),
      (''X-Content-Type-Options'', ''nosniff''), (''Referrer-Policy'', ''no-referrer''),
      (''Cross-Origin-Opener-Policy'', ''same-origin''), (''Cross-Origin-Resource-Policy'', ''same-origin''),
      (''Permissions-Policy'', ''camera=(), microphone=(), geolocation=(), interest-cohort=()'')]
     @ (if has_prefix (hr_path r) ''/api/'' then [(''Cache-Control'', ''no-store''), (''Pragma'', ''no-cache'')] else [])
     @ (if isTLS e r
        then [(''Strict-Transport-Security'',
               if hstsMaxAge > 0 then ''max-age='' @ itoa (hstsMaxAge div 10 ^ 9) @ ''; includeSubDomains'' else ''max-age=0'')]
        else [])"

section \<open>The size of a body\<close>

definition maxRequestBody :: int where "maxRequestBody = 2 * 2 ^ 20"
definition maxImportBody :: int where "maxImportBody = 32 * 2 ^ 20"

definition body_allowed :: "http_request \<Rightarrow> int" where
  "body_allowed r = (if has_suffix (hr_path r) ''/import'' then maxImportBody else maxRequestBody)"

text \<open>What a handler reads of a body of \<open>sent\<close> bytes: refused at once where the length declared is too
  much, refused while reading where the body is, and read in full otherwise.\<close>

datatype body_read = TooLargeDeclared int | TooLargeRead int | ReadInFull int

definition LimitRequestBody :: "http_request \<Rightarrow> int \<Rightarrow> body_read" where
  "LimitRequestBody r sent =
     (if hr_length r > body_allowed r then TooLargeDeclared (body_allowed r div 2 ^ 20)
      else if sent > body_allowed r then TooLargeRead (body_allowed r)
      else ReadInFull sent)"

section \<open>Forged requests\<close>

definition CSRFCookieName :: gostring where "CSRFCookieName = ''gtr_csrf''"
definition CSRFHeaderName :: gostring where "CSRFHeaderName = ''X-CSRF-Token''"
definition SessionCookieName :: gostring where "SessionCookieName = ''gtr_session''"
definition BackgroundRequestHeader :: gostring where "BackgroundRequestHeader = ''X-Background-Request''"
definition EventsPath :: gostring where "EventsPath = ''/api/v1/events''"

definition presentedToken :: "http_request \<Rightarrow> gostring" where
  "presentedToken r =
     (if hr_header r APITokenHeader \<noteq> [] then TrimSpace (hr_header r APITokenHeader)
      else if has_prefix (hr_header r ''Authorization'') ''Bearer ''
      then TrimSpace (drop 7 (hr_header r ''Authorization''))
      else [])"

text \<open>\<^verbatim>\<open>csrfCookie\<close>, for thirty days.\<close>

record cookie =
  ck_name :: gostring
  ck_value :: gostring
  ck_http_only :: bool
  ck_secure :: bool
  ck_expires :: "gotime option"

definition csrfCookie :: "env \<Rightarrow> http_request \<Rightarrow> gostring \<Rightarrow> cookie" where
  "csrfCookie e r token =
     \<lparr>ck_name = CSRFCookieName, ck_value = token, ck_http_only = False, ck_secure = isTLS e r,
      ck_expires = Some ((now e)\<lparr>ns := ns (now e) + 30 * 24 * hour_ns\<rparr>)\<rparr>"

definition sessionCookie :: "env \<Rightarrow> http_request \<Rightarrow> gostring \<Rightarrow> gotime \<Rightarrow> cookie" where
  "sessionCookie e r token expires =
     \<lparr>ck_name = SessionCookieName, ck_value = token, ck_http_only = True, ck_secure = isTLS e r, ck_expires = Some expires\<rparr>"

text \<open>No expiry stands for \<^verbatim>\<open>MaxAge: -1\<close>: forget it.\<close>

definition expiredCookie :: "env \<Rightarrow> http_request \<Rightarrow> cookie" where
  "expiredCookie e r =
     \<lparr>ck_name = SessionCookieName, ck_value = [], ck_http_only = True, ck_secure = isTLS e r, ck_expires = None\<rparr>"

text \<open>The caller's token and the cookie set where it had none; \<open>minted\<close> is the random token of this
  request, empty where there was no randomness to be had.\<close>

definition issuedCSRFToken :: "env \<Rightarrow> gostring \<Rightarrow> http_request \<Rightarrow> gostring \<times> cookie option" where
  "issuedCSRFToken e minted r =
     (case hr_cookie r CSRFCookieName of
        Some v \<Rightarrow> if v \<noteq> [] then (v, None)
                  else if minted = [] then ([], None) else (minted, Some (csrfCookie e r minted))
      | None \<Rightarrow> if minted = [] then ([], None) else (minted, Some (csrfCookie e r minted)))"

definition RotateCSRFToken :: "env \<Rightarrow> gostring \<Rightarrow> http_request \<Rightarrow> cookie option" where
  "RotateCSRFToken e minted r = (if minted = [] then None else Some (csrfCookie e r minted))"

definition csrfApplies :: "http_request \<Rightarrow> bool" where
  "csrfApplies r \<longleftrightarrow> hr_method r \<notin> {''GET'', ''HEAD'', ''OPTIONS'', ''TRACE''} \<and> presentedToken r = []"

definition requestHost :: "env \<Rightarrow> http_request \<Rightarrow> gostring" where
  "requestHost e r =
     (let forwarded = hr_header r ''X-Forwarded-Host''
      in if forwarded \<noteq> [] then lower e (TrimSpace (hd (split_at (CHR '','') forwarded))) else lower e (hr_host r))"

definition originHost :: "env \<Rightarrow> net \<Rightarrow> gostring \<Rightarrow> gostring" where
  "originHost e n value = (case url_host n value of None \<Rightarrow> [] | Some h \<Rightarrow> if h = [] then [] else lower e h)"

definition sameOrigin :: "env \<Rightarrow> net \<Rightarrow> http_request \<Rightarrow> bool" where
  "sameOrigin e n r =
     (let host = requestHost e r; origin = hr_header r ''Origin''; referer = hr_header r ''Referer''
      in if host = [] then False
         else if origin \<noteq> [] then originHost e n origin = host
         else if referer \<noteq> [] then originHost e n referer = host
         else False)"

datatype csrf_refusal = OtherSite | NoToken | WrongToken

definition checkCSRF :: "env \<Rightarrow> net \<Rightarrow> http_request \<Rightarrow> gostring \<Rightarrow> csrf_refusal option" where
  "checkCSRF e n r expected =
     (let presented = hr_header r CSRFHeaderName
      in if \<not> sameOrigin e n r then Some OtherSite
         else if presented = [] \<or> expected = [] then Some NoToken
         else if presented \<noteq> expected then Some WrongToken
         else None)"

definition CSRFMiddleware :: "env \<Rightarrow> net \<Rightarrow> gostring \<Rightarrow> http_request \<Rightarrow> csrf_refusal option \<times> cookie option" where
  "CSRFMiddleware e n minted r =
     (let (token, set) = issuedCSRFToken e minted r
      in (if csrfApplies r then checkCSRF e n r token else None, set))"

section \<open>Personal tokens\<close>

record api_token =
  at_ID :: uint
  at_UserID :: uint
  at_Name :: gostring
  at_TokenHash :: gostring
  at_Prefix :: gostring
  at_CreatedAt :: gotime
  at_ExpiresAt :: "gotime option"
  at_LastUsedAt :: "gotime option"

definition token_Expired :: "api_token \<Rightarrow> gotime \<Rightarrow> bool" where
  "token_Expired x t \<longleftrightarrow> (case at_ExpiresAt x of None \<Rightarrow> False | Some e \<Rightarrow> \<not> ns t < ns e)"

text \<open>The table: its rows in the order of their ids, and the last id given out.  No two rows have one
  hash; its rows are of accounts there are, the caller's being one.\<close>

record token_table =
  tt_rows :: "api_token list"
  tt_last :: uint

definition token_Save :: "api_token \<Rightarrow> token_table \<Rightarrow> api_token result \<times> token_table" where
  "token_Save x b =
     (if list_ex (\<lambda>y. at_TokenHash y = at_TokenHash x) (tt_rows b) then (Inl Internal, b)
      else let stored = x\<lparr>at_ID := tt_last b + 1\<rparr>
           in (Inr stored, \<lparr>tt_rows = tt_rows b @ [stored], tt_last = tt_last b + 1\<rparr>))"

definition token_GetByHash :: "gostring \<Rightarrow> token_table \<Rightarrow> api_token result" where
  "token_GetByHash h b =
     (case List.find (\<lambda>x. at_TokenHash x = h) (tt_rows b) of
        None \<Rightarrow> Inl (NotFound ''token'' []) | Some x \<Rightarrow> Inr x)"

definition token_ListForUser :: "uint \<Rightarrow> token_table \<Rightarrow> api_token list" where
  "token_ListForUser user b = rev (filter (\<lambda>x. at_UserID x = user) (tt_rows b))"

definition token_Delete :: "uint \<Rightarrow> uint \<Rightarrow> token_table \<Rightarrow> unit result \<times> token_table" where
  "token_Delete i user b =
     (if list_ex (\<lambda>x. at_ID x = i \<and> at_UserID x = user) (tt_rows b)
      then (Inr (), b\<lparr>tt_rows := filter (\<lambda>x. \<not> (at_ID x = i \<and> at_UserID x = user)) (tt_rows b)\<rparr>)
      else (Inl (NotFound ''token'' (format_uint i)), b))"

definition TouchLastUsed :: "gotime \<Rightarrow> uint \<Rightarrow> token_table \<Rightarrow> token_table" where
  "TouchLastUsed t i b =
     b\<lparr>tt_rows := map (\<lambda>x. if at_ID x = i then x\<lparr>at_LastUsedAt := Some t\<rparr> else x) (tt_rows b)\<rparr>"

definition APITokenPrefix :: gostring where "APITokenPrefix = ''gtr_''"
definition maxTokensPerUser :: nat where "maxTokensPerUser = 20"

definition new_token :: "env \<Rightarrow> crypto \<Rightarrow> uint \<Rightarrow> gostring \<Rightarrow> int \<Rightarrow> gostring \<Rightarrow> api_token" where
  "new_token e c userID label days secret =
     \<lparr>at_ID = 0, at_UserID = userID, at_Name = label, at_TokenHash = HashToken c secret,
      at_Prefix = take (length APITokenPrefix + 6) secret, at_CreatedAt = now e,
      at_ExpiresAt = (if days > 0 then Some (AddDays (now e) days) else None), at_LastUsedAt = None\<rparr>"

definition token_Create ::
  "env \<Rightarrow> crypto \<Rightarrow> uint \<Rightarrow> gostring \<Rightarrow> int \<Rightarrow> token_table \<Rightarrow> (api_token \<times> gostring) result \<times> token_table" where
  "token_Create e c userID label days b =
     (let label = TrimSpace label
      in if label = [] \<or> TooLong label MaxTokenLabelLength then (Inl (InvalidFields [''name'']), b)
         else if days < 0 \<or> days > 3650 then (Inl (InvalidFields [''expiresInDays'']), b)
         else if length (token_ListForUser userID b) \<ge> maxTokensPerUser
         then (Inl (WithCode Conflictf ''tooManyTokens'' [VUint maxTokensPerUser]), b)
         else let secret = APITokenPrefix @ fresh_token c;
                  (saved, b') = token_Save (new_token e c userID label days secret) b
              in (bind_res saved (\<lambda>x. Inr (x, secret)), b'))"

definition token_Revoke :: "uint \<Rightarrow> uint \<Rightarrow> token_table \<Rightarrow> unit result \<times> token_table" where
  "token_Revoke i userID b = token_Delete i userID b"

definition invalid_token :: app_error where
  "invalid_token = WithCode Invalidf ''invalidToken'' []"

definition token_Resolve :: "env \<Rightarrow> crypto \<Rightarrow> gostring \<Rightarrow> db \<Rightarrow> token_table \<Rightarrow> principal result \<times> token_table" where
  "token_Resolve e c secret d b =
     (if \<not> has_prefix secret APITokenPrefix then (Inl invalid_token, b)
      else case token_GetByHash (HashToken c secret) b of
             Inl err \<Rightarrow> (Inl (missingOr err invalid_token), b)
           | Inr x \<Rightarrow>
               if token_Expired x (now e) then (Inl invalid_token, b)
               else case user_GetByID (db_roles d) (at_UserID x) (db_users d) of
                      Inl err \<Rightarrow> (Inl (missingOr err invalid_token), b)
                    | Inr user \<Rightarrow>
                        if us_MustChangePassword user
                        then (Inl (WithCode Conflictf ''mustChangePasswordFirst'' []), b)
                        else (Inr (principalFor d user),
                              if (case at_LastUsedAt x of None \<Rightarrow> True
                                  | Some used \<Rightarrow> time_sub (now e) used \<ge> maxTouchInterval)
                              then TouchLastUsed (now e) (at_ID x) b else b))"

section \<open>Who is behind a request\<close>

definition unattended :: "http_request \<Rightarrow> bool" where
  "unattended r \<longleftrightarrow> hr_header r BackgroundRequestHeader \<noteq> [] \<or> hr_path r = EventsPath"

text \<open>\<^verbatim>\<open>SessionMiddleware\<close>: what it puts into the context, the cookie it sets, the installation after.\<close>

definition SessionMiddleware ::
  "env \<Rightarrow> crypto \<Rightarrow> session_service \<Rightarrow> http_request \<Rightarrow> site \<Rightarrow> presented \<times> cookie option \<times> site" where
  "SessionMiddleware e c v r s =
     (case hr_cookie r SessionCookieName of
        None \<Rightarrow> (Anonymous, None, s)
      | Some token \<Rightarrow>
          if token = [] then (Anonymous, None, s)
          else case (if unattended r then ResolveUnattended e c v token s else session_Resolve e c v token s) of
                 (Inl err, s') \<Rightarrow> if err_kind err = KindInternal then (Unchecked err, None, s')
                                 else (Anonymous, Some (expiredCookie e r), s')
               | (Inr p, s') \<Rightarrow> (SignedIn p, None, s'))"

definition APITokenMiddleware ::
  "env \<Rightarrow> crypto \<Rightarrow> http_request \<Rightarrow> presented \<Rightarrow> site \<Rightarrow> token_table \<Rightarrow> presented \<times> token_table" where
  "APITokenMiddleware e c r found s b =
     (case found of
        SignedIn p \<Rightarrow> (found, b)
      | _ \<Rightarrow>
          if presentedToken r = [] then (found, b)
          else case token_Resolve e c (presentedToken r) (site_db s) b of
                 (Inl err, b') \<Rightarrow> (if err_kind err = KindInternal then Unchecked err else found, b')
               | (Inr p, b') \<Rightarrow> (SignedIn p, b'))"

text \<open>The two together: the caller the handlers see.\<close>

definition authenticate ::
  "env \<Rightarrow> crypto \<Rightarrow> session_service \<Rightarrow> http_request \<Rightarrow> site \<Rightarrow> token_table \<Rightarrow> presented \<times> site \<times> token_table" where
  "authenticate e c v r s b =
     (let (found, _, s') = SessionMiddleware e c v r s; (found', b') = APITokenMiddleware e c r found s' b
      in (found', s', b'))"

text \<open>\<^verbatim>\<open>PermissionRevision\<close>: the first twelve digits of the digest of the role's name and the sorted
  rights.\<close>

fun joined_by :: "gostring \<Rightarrow> gostring list \<Rightarrow> gostring" where
  "joined_by sep [] = []"
| "joined_by sep [x] = x"
| "joined_by sep (x # y # xs) = x @ sep @ joined_by sep (y # xs)"

definition PermissionRevision :: "crypto \<Rightarrow> principal option \<Rightarrow> gostring" where
  "PermissionRevision c caller =
     (case caller of
        None \<Rightarrow> []
      | Some p \<Rightarrow> (case pp_User p of
          None \<Rightarrow> []
        | Some u \<Rightarrow> take 12 (sha256_hex c (us_RoleName u @ [CHR 0x00]
                       @ joined_by [CHR 0x00] (sort_by string_le (pp_Permissions p))))))"

end
