(* ===== verification/RequestRules.thy ===== *)
theory RequestRules
  imports Requests AccessRules ClockRules
begin

text \<open>
  What the interface lets through: a request reaches the time entries of the caller and of the
  accounts assigned to them, and to everything else answers as if it were not there.
\<close>

section \<open>Whose entry it is\<close>

lemma authz_Principal_enforced:
  assumes "Enforced a"
  shows "authz_Principal a r = Inr p \<longleftrightarrow> rq_presented r = SignedIn p \<and> pp_User p \<noteq> None"
  using assms by (auto simp: authz_Principal_def Enforced_def split: presented.split)

lemma permitted_enforced:
  assumes "Enforced a"
  shows "permittedPrincipal a r = Inr p \<longleftrightarrow>
     rq_presented r = SignedIn p \<and> pp_User p \<noteq> None \<and> \<not> us_MustChangePassword (caller_account p)"
proof -
  have o: "\<not> au_open a" using assms by (simp add: Enforced_def)
  show ?thesis
    by (auto simp: permittedPrincipal_def bind_res_Inr authz_Principal_enforced [OF assms] o mustChangePassword_def
        caller_account_def split: option.splits)
qed

lemma Require_enforced:
  assumes "Enforced a"
  shows "Require a r perm = Inr p \<longleftrightarrow> rq_presented r = SignedIn p \<and> pp_User p \<noteq> None
     \<and> \<not> us_MustChangePassword (caller_account p) \<and> Can p perm"
  using assms by (auto simp: Require_def bind_res_Inr permitted_enforced [OF assms] Enforced_def)

lemma answer_Inr: "answer r = Inr x \<longleftrightarrow> r = Inr x"
  by (cases r) simp_all

lemma pathID_pos: "pathID r = Inr i \<Longrightarrow> i \<noteq> 0"
  by (auto simp: pathID_def parseUint_def split: option.splits if_splits)

lemma Reaches_site [simp]:
  "Reaches c u right (s\<lparr>site_db := (site_db s)\<lparr>db_timesheets := r\<rparr>\<rparr>) = Reaches c u right s"
  by (simp add: Reaches_def Enabled_def setting_def split: option.split)

lemma authz_reaches_site [simp]:
  "authz_reaches a p u right (s\<lparr>site_db := (site_db s)\<lparr>db_timesheets := r\<rparr>\<rparr>) = authz_reaches a p u right s"
  by (simp add: authz_reaches_def)

text \<open>Out of the caller's reach: neither the caller's own nor an account's the team right reaches.\<close>

definition out_of_reach :: "request \<Rightarrow> uint \<Rightarrow> gostring \<Rightarrow> site \<Rightarrow> bool" where
  "out_of_reach r user right s \<longleftrightarrow>
     (case rq_presented r of
        SignedIn p \<Rightarrow> caller_id p \<noteq> user \<and> \<not> Reaches (Some p) user right s
      | _ \<Rightarrow> True)"

lemma out_of_reach_site [simp]:
  "out_of_reach r u right (s\<lparr>site_db := (site_db s)\<lparr>db_timesheets := x\<rparr>\<rparr>) = out_of_reach r u right s"
  by (simp add: out_of_reach_def split: presented.split)

lemma GetTimesheet_there:
  assumes "entry_at d i = Some t" "i \<noteq> 0"
  obtains x where "GetTimesheet i d = Inr x" "shows_entry x t"
proof -
  obtain x where "named d t = Inr x" "shows_entry x t" using named_shows by blast
  then show ?thesis using assms that by (simp add: GetTimesheet_def ts_GetByID_def store_get_def)
qed

text \<open>Of an entry out of reach, the one question every route asks is answered as a missing one is.\<close>

lemma refused_entry:
  assumes "Enforced a" "rq_presented r = SignedIn p" "out_of_reach r (ts_UserID t) right s"
  shows "requireOwnEntry a p i (ts_UserID t) right s = Inl (toHTTPError (NotFound ''timesheet'' (format_uint i)))"
  using assms by (auto simp: requireOwnEntry_def out_of_reach_def authz_reaches_def Enforced_def)

abbreviation without_entry :: "site \<Rightarrow> uint \<Rightarrow> site" where
  "without_entry s i \<equiv> s\<lparr>site_db := (site_db s)\<lparr>db_timesheets := snd (ts_Delete i (db_timesheets (site_db s)))\<rparr>\<rparr>"

lemma gone_entry:
  assumes "st_entity (tr_store r) = ''timesheet''"
  shows "ts_GetByID i (snd (ts_Delete i r)) = Inl (NotFound ''timesheet'' (format_uint i))"
proof -
  have "tr_store (snd (ts_Delete i r)) = snd (store_delete i (tr_store r))"
    by (auto simp: ts_Delete_def split: prod.split sum.split)
  moreover have "st_entity (snd (store_delete i (tr_store r))) = ''timesheet''"
    using assms by (simp add: store_delete_def split: option.split)
  ultimately show ?thesis by (simp add: ts_GetByID_def store_get_def store_find_after)
qed

lemma Get_unreachable:
  assumes "Enforced a" "entry_at (site_db s) i = Some t" "pathID r = Inr i" "out_of_reach r (ts_UserID t) PermTimesheetReadTeam s"
    and "Require a r PermTimesheetReadOwn = Inr p"
  shows "handle_Get a r s = Inl (toHTTPError (NotFound ''timesheet'' (format_uint i)))"
    and "handle_Revisions a r s = Inl (toHTTPError (NotFound ''timesheet'' (format_uint i)))"
proof -
  have p: "rq_presented r = SignedIn p" using assms(5) by (simp add: Require_enforced [OF assms(1)])
  note refused = refused_entry [OF assms(1) p assms(4), of i]
  obtain x where x: "GetTimesheet i (site_db s) = Inr x" "shows_entry x t"
    using GetTimesheet_there [OF assms(2) pathID_pos [OF assms(3)]] .
  show "handle_Get a r s = Inl (toHTTPError (NotFound ''timesheet'' (format_uint i)))"
    using x(2) by (simp add: handle_Get_def assms(5,3) x(1) shows_entry_def refused)
  obtain names where "namesOf (site_db s) (List.map_filter rv_ReplacedBy (ts_Revisions i (db_timesheets (site_db s)))) [] = Inr names"
    using namesOf_total by blast
  then have "\<exists>h. Revisions i (site_db s) = Inr h \<and> eh_OwnerID h = ts_UserID t"
    using assms(2) by (simp add: Revisions_def ts_GetByID_def store_get_def)
  then show "handle_Revisions a r s = Inl (toHTTPError (NotFound ''timesheet'' (format_uint i)))"
    by (auto simp: handle_Revisions_def assms(5,3) refused)
qed

lemma own_entry_unreachable:
  assumes "Enforced a" "entry_at (site_db s) i = Some t" "i \<noteq> 0" "out_of_reach r (ts_UserID t) PermTimesheetWriteTeam s"
    and "rq_presented r = SignedIn p"
  shows "own_entry a r p i s = Inl (toHTTPError (NotFound ''timesheet'' (format_uint i)))"
proof -
  obtain x where x: "GetTimesheet i (site_db s) = Inr x" "shows_entry x t"
    using GetTimesheet_there [OF assms(2,3)] .
  then show ?thesis using refused_entry [OF assms(1,5,4), of i] by (simp add: own_entry_def shows_entry_def)
qed

lemma own_entry_gone:
  assumes "st_entity (tr_store (db_timesheets (site_db s))) = ''timesheet''" "i \<noteq> 0"
  shows "own_entry a r p i (without_entry s i) = Inl (toHTTPError (NotFound ''timesheet'' (format_uint i)))"
  by (simp add: own_entry_def GetTimesheet_def gone_entry [OF assms(1)] assms(2))

text \<open>C2: to anybody who is neither its owner nor a manager with the right over them, a time entry is
  not there: reading it, its history, changing, deleting and moving it answer in the very words they
  would were it not stored, whatever else the request says, and change nothing.\<close>

theorem foreign_entry_not_there:
  assumes "Enforced a" "st_entity (tr_store (db_timesheets (site_db s))) = ''timesheet''"
    and "entry_at (site_db s) i = Some t" "pathID r = Inr i"
    and "out_of_reach r (ts_UserID t) PermTimesheetReadTeam s" "out_of_reach r (ts_UserID t) PermTimesheetWriteTeam s"
  shows "handle_Get a r s = handle_Get a r (without_entry s i)
    \<and> handle_Revisions a r s = handle_Revisions a r (without_entry s i)
    \<and> handle_Update a e r update s = (fst (handle_Update a e r update (without_entry s i)), s)
    \<and> handle_Delete a r s = (fst (handle_Delete a r (without_entry s i)), s)
    \<and> handle_Transfer a e r move s = (fst (handle_Transfer a e r move (without_entry s i)), s)"
proof (intro conjI)
  have i: "i \<noteq> 0" using assms(4) by (rule pathID_pos)
  note gone = gone_entry [OF assms(2), of i] own_entry_gone [OF assms(2) i, of a r]
  note refused = own_entry_unreachable [OF assms(1,3) i assms(6)]
  have p: "rq_presented r = SignedIn p" if "Require a r perm = Inr p" for perm p
    using that by (simp add: Require_enforced [OF assms(1)])
  show "handle_Get a r s = handle_Get a r (without_entry s i)"
    by (cases "Require a r PermTimesheetReadOwn") (simp_all add: Get_unreachable(1) [OF assms(1,3,4,5)], simp_all add: handle_Get_def assms(4) i GetTimesheet_def gone)
  show "handle_Revisions a r s = handle_Revisions a r (without_entry s i)"
    by (cases "Require a r PermTimesheetReadOwn") (simp_all add: Get_unreachable(2) [OF assms(1,3,4,5)], simp_all add: handle_Revisions_def assms(4) Revisions_def gone)
  show "handle_Update a e r update s = (fst (handle_Update a e r update (without_entry s i)), s)"
    by (cases "Require a r PermTimesheetWriteOwn")
      (simp_all add: handle_Update_def update_command_def carry_out_def assms(4) gone refused p)
  show "handle_Delete a r s = (fst (handle_Delete a r (without_entry s i)), s)"
    by (cases "Require a r PermTimesheetWriteOwn")
      (simp_all add: handle_Delete_def carry_out_def assms(4) gone refused p)
  show "handle_Transfer a e r move s = (fst (handle_Transfer a e r move (without_entry s i)), s)"
    by (cases "Require a r PermTimesheetTransfer"; cases "bind_body move")
      (simp_all add: handle_Transfer_def transfer_command_def carry_out_def assms(4) gone refused p)
qed

section \<open>The hours of others\<close>

text \<open>What is kept for an account under one id: its entry and what that said before.\<close>

definition kept_for :: "uint \<Rightarrow> timesheet_repo \<Rightarrow> uint \<Rightarrow> (timesheet \<times> revision list) option" where
  "kept_for user r i =
     (case store_find i (tr_store r) of
        None \<Rightarrow> None
      | Some t \<Rightarrow> if ts_UserID t = user then Some (t, ts_Revisions i r) else None)"

lemma kept_for_save:
  assumes "store_valid (tr_store r)" "ts_UserID t \<noteq> user"
  shows "kept_for user (snd (ts_Save n t r)) = kept_for user r"
proof
  fix i
  have fresh: "store_find (st_nextID (tr_store r)) (tr_store r) = None" using assms(1) by (rule mem.fresh)
  have "ts_Revisions i (snd (ts_Save n t r)) = ts_Revisions i r" by (simp add: ts_Revisions_def)
  then show "kept_for user (snd (ts_Save n t r)) i = kept_for user r i"
    by (simp add: kept_for_def ts_Save_store store_find_after fresh ts_with_id_def assms(2) split: option.split)
qed

lemma kept_for_update:
  assumes "store_find (ts_ID t) (tr_store r) = Some before" "ts_UserID before \<noteq> user" "ts_UserID t \<noteq> user" "repo_valid r"
  shows "kept_for user (snd (ts_Update n t r)) = kept_for user r"
proof
  fix i
  obtain stored where u: "ts_Update n t r = (Inr stored,
       r\<lparr>tr_store := snd (store_update (ts_ID t) stored (tr_store r)),
         tr_nextRevision := (if Says before t then tr_nextRevision r else uint_succ (tr_nextRevision r)),
         tr_revisions := tr_revisions r @ (if Says before t then [] else
           [(RevisionOf before (stamp n))\<lparr>rv_ID := uint_succ (tr_nextRevision r), rv_ReplacedBy := ts_UpdatedBy t\<rparr>])\<rparr>)"
    "stored = t\<lparr>ts_UpdatedAt := stamp n, ts_CreatedAt := ts_CreatedAt before, ts_RecordedBy := ts_RecordedBy before,
        ts_UpdatedBy := (if Says before t then ts_UpdatedBy before else ts_UpdatedBy t)\<rparr>"
    by (rule ts_Update_found [OF assms(1), of n])
  have "ts_UserID stored \<noteq> user" using assms(3) by (simp add: u(2))
  moreover have "ts_ID before = ts_ID t" using assms(1,4) by (simp add: repo_valid_def ts_keyed_def)
  ultimately show "kept_for user (snd (ts_Update n t r)) i = kept_for user r i"
    using assms by (auto simp: u(1) kept_for_def store_find_after ts_Revisions_def RevisionOf_def split: option.split)
qed

lemma kept_for_delete:
  assumes "store_find i (tr_store r) = Some t" "ts_UserID t \<noteq> user"
  shows "kept_for user (snd (ts_Delete i r)) = kept_for user r"
proof
  fix j
  have d: "snd (ts_Delete i r) = r\<lparr>tr_store := snd (store_delete i (tr_store r)),
       tr_revisions := List.filter (\<lambda>v. rv_TimesheetID v \<noteq> i) (tr_revisions r)\<rparr>"
    using assms(1) by (simp add: ts_Delete_def store_delete_def)
  have "filter (\<lambda>v. rv_TimesheetID v = j) (filter (\<lambda>v. rv_TimesheetID v \<noteq> i) (tr_revisions r))
      = filter (\<lambda>v. rv_TimesheetID v = j) (tr_revisions r)" if "j \<noteq> i"
    using that by (auto simp: filter_filter intro!: filter_cong)
  then show "kept_for user (snd (ts_Delete i r)) j = kept_for user r j"
    using assms by (simp add: d kept_for_def store_find_after ts_Revisions_def split: option.split)
qed

lemma ts_SaveMany_keeps:
  assumes "repo_valid r" "st_nextID (tr_store r) + length ts \<le> uint_max" "\<forall>t \<in> set ts. ts_UserID t \<noteq> user"
    and "tr_nextRevision r < uint_max"
  shows "kept_for user (ts_SaveMany n ts r) = kept_for user r \<and> repo_valid (ts_SaveMany n ts r)"
  using assms
proof (induction ts arbitrary: r)
  case (Cons t ts)
  have room: "repo_room r" using Cons.prems by (simp add: repo_room_def store_room_def)
  have after: "st_nextID (tr_store (snd (ts_Save n t r))) = Suc (st_nextID (tr_store r))"
    using room by (simp add: ts_Save_store store_add_def Let_def repo_room_def store_room_def)
  have "kept_for user (snd (ts_Save n t r)) = kept_for user r"
    using Cons.prems by (intro kept_for_save) (auto simp: repo_valid_def)
  moreover have "repo_valid (snd (ts_Save n t r))" by (rule ts_Save_valid [OF Cons.prems(1) room])
  ultimately show ?case using Cons.IH [of "snd (ts_Save n t r)"] Cons.prems after by simp
qed simp

text \<open>One request that may write hours: who asks what, with what body.\<close>

datatype hours_request =
    BookR env request "create_timesheet_request option"
  | ChangeR env request "update_timesheet_request option"
  | RemoveR request
  | MoveR env request "uint option"
  | CopyR env request "(gotime \<times> gotime) option"

fun asked :: "hours_request \<Rightarrow> request" where
  "asked (BookR e r b) = r"
| "asked (ChangeR e r b) = r"
| "asked (RemoveR r) = r"
| "asked (MoveR e r b) = r"
| "asked (CopyR e r b) = r"

fun serve :: "authorizer \<Rightarrow> hours_request \<Rightarrow> site \<Rightarrow> site" where
  "serve a (BookR e r b) s = snd (handle_Create a e r b s)"
| "serve a (ChangeR e r b) s = snd (handle_Update a e r b s)"
| "serve a (RemoveR r) s = snd (handle_Delete a r s)"
| "serve a (MoveR e r b) s = snd (handle_Transfer a e r b s)"
| "serve a (CopyR e r b) s = snd (handle_CopyWeek a e r b s)"

text \<open>Room for what a request may write: ids and revisions are counted in 64 bits, and a week
  holds at most as many entries as there are.\<close>

definition hours_room :: "site \<Rightarrow> bool" where
  "hours_room s \<longleftrightarrow> (let r = db_timesheets (site_db s)
     in 2 * st_nextID (tr_store r) \<le> uint_max \<and> tr_nextRevision r < uint_max)"

fun serve_all :: "authorizer \<Rightarrow> hours_request list \<Rightarrow> site \<Rightarrow> site" where
  "serve_all a [] s = s"
| "serve_all a (q # qs) s = serve_all a qs (serve a q s)"

fun all_room :: "authorizer \<Rightarrow> hours_request list \<Rightarrow> site \<Rightarrow> bool" where
  "all_room a [] s = True"
| "all_room a (q # qs) s = (hours_room s \<and> all_room a qs (serve a q s))"

text \<open>A request that writes no hours of \<open>user\<close> keeps what is kept for them.\<close>

definition keeps_hours :: "uint \<Rightarrow> site \<Rightarrow> site \<Rightarrow> bool" where
  "keeps_hours user s s' \<longleftrightarrow> (\<exists>x. s\<lparr>site_db := (site_db s)\<lparr>db_timesheets := x\<rparr>\<rparr> = s' \<and> repo_valid x
     \<and> kept_for user x = kept_for user (db_timesheets (site_db s)))"

lemma keeps_hours_refl: "repo_valid (db_timesheets (site_db s)) \<Longrightarrow> keeps_hours user s s"
  unfolding keeps_hours_def by (rule exI [of _ "db_timesheets (site_db s)"]) simp

lemma carry_out_keeps:
  assumes "repo_valid (db_timesheets (site_db s))"
    and "\<And>cmd res d'. agreed = Inr cmd \<Longrightarrow> run cmd (site_db s) = (res, d') \<Longrightarrow>
      \<exists>x. (site_db s)\<lparr>db_timesheets := x\<rparr> = d' \<and> repo_valid x \<and> kept_for user x = kept_for user (db_timesheets (site_db s))"
  shows "keeps_hours user s (snd (carry_out agreed run show s))"
proof (cases agreed)
  case (Inl refusal)
  then show ?thesis using keeps_hours_refl [OF assms(1)] by (simp add: carry_out_def)
next
  case (Inr cmd)
  obtain res d' where run: "run cmd (site_db s) = (res, d')" by (rule prod.exhaust)
  from assms(2) [OF Inr run] obtain x where x: "(site_db s)\<lparr>db_timesheets := x\<rparr> = d'" "repo_valid x"
    "kept_for user x = kept_for user (db_timesheets (site_db s))" by blast
  then show ?thesis using Inr run by (auto simp: carry_out_def keeps_hours_def intro!: exI [of _ x])
qed

lemma requireOwner_reach:
  assumes "Enforced a" "rq_presented r = SignedIn p" "out_of_reach r user PermTimesheetWriteTeam s"
    and "requireOwner a p owner s = Inr ()"
  shows "owner \<noteq> user"
  using assms by (auto simp: requireOwner_def out_of_reach_def authz_reaches_def Enforced_def split: if_splits)

lemma own_entry_reach:
  assumes "Enforced a" "rq_presented r = SignedIn p" "out_of_reach r user PermTimesheetWriteTeam s"
    and "own_entry a r p i s = Inr ()"
  shows "\<exists>t. entry_at (site_db s) i = Some t \<and> ts_UserID t \<noteq> user \<and> i \<noteq> 0"
proof -
  obtain x where x: "GetTimesheet i (site_db s) = Inr x"
    "requireOwnEntry a p i (tr_UserID x) PermTimesheetWriteTeam s = Inr ()"
    using assms(4) by (auto simp: own_entry_def bind_res_Inr answer_Inr)
  then obtain t where t: "i \<noteq> 0" "entry_at (site_db s) i = Some t"
    by (auto simp: GetTimesheet_def ts_GetByID_def store_get_Inr bind_res_Inr split: if_splits)
  then have "tr_UserID x = ts_UserID t"
    using x(1) named_shows [of "site_db s" t] by (auto simp: GetTimesheet_def ts_GetByID_def store_get_def shows_entry_def)
  moreover have "tr_UserID x \<noteq> user"
    using x(2) assms(1-3) by (auto simp: requireOwnEntry_def out_of_reach_def authz_reaches_def Enforced_def split: if_splits)
  ultimately show ?thesis using t by auto
qed

lemma hours_room_repo: "hours_room s \<Longrightarrow> repo_room (db_timesheets (site_db s))"
  by (auto simp: hours_room_def repo_room_def store_room_def Let_def uint_max_def)

lemma handle_Create_keeps:
  assumes "Enforced a" "db_valid (site_db s)" "hours_room s" "out_of_reach r user PermTimesheetWriteTeam s"
  shows "keeps_hours user s (snd (handle_Create a e r body s))"
  unfolding handle_Create_def
proof (rule carry_out_keeps)
  let ?repo = "db_timesheets (site_db s)"
  show valid: "repo_valid ?repo" using assms(2) by (simp add: db_valid_def)
  fix cmd res d'
  assume cmd: "create_command a r body s = Inr cmd" and run: "CreateTimesheet e cmd (site_db s) = (res, d')"
  from cmd obtain p where p: "Require a r PermTimesheetWriteOwn = Inr p" "requireOwner a p (ct_UserID cmd) s = Inr ()"
    by (auto simp: create_command_def bind_res_Inr Let_def)
  then have user: "ct_UserID cmd \<noteq> user"
    using requireOwner_reach [OF assms(1) _ assms(4)] by (simp add: Require_enforced [OF assms(1)])
  show "\<exists>x. (site_db s)\<lparr>db_timesheets := x\<rparr> = d' \<and> repo_valid x \<and> kept_for user x = kept_for user ?repo"
  proof (cases res)
    case (Inl err)
    then have "d' = site_db s" using run by (intro Create_refused) simp
    then show ?thesis using valid by (intro exI [of _ ?repo]) simp
  next
    case (Inr x)
    then have "d' = (site_db s)\<lparr>db_timesheets := snd (ts_Save (now e) (new_entry cmd) ?repo)\<rparr>"
      using run by (intro Create_accepted(4)) simp
    then show ?thesis
      using valid user ts_Save_valid [OF valid hours_room_repo [OF assms(3)]]
      by (intro exI [of _ "snd (ts_Save (now e) (new_entry cmd) ?repo)"])
        (simp add: kept_for_save repo_valid_def new_entry_def)
  qed
qed

lemma write_back_keeps:
  assumes "repo_valid r" "repo_room r" "store_find (ts_ID t) (tr_store r) = Some before"
    "ts_UserID before \<noteq> user" "ts_UserID t \<noteq> user"
  shows "repo_valid (snd (ts_Update n t r)) \<and> kept_for user (snd (ts_Update n t r)) = kept_for user r"
  using kept_for_update [OF assms(3-5,1), of n] ts_Update_valid [OF assms(1,2)] by blast

lemma handle_Update_keeps:
  assumes "Enforced a" "db_valid (site_db s)" "hours_room s" "out_of_reach r user PermTimesheetWriteTeam s"
  shows "keeps_hours user s (snd (handle_Update a e r body s))"
  unfolding handle_Update_def
proof (rule carry_out_keeps)
  let ?repo = "db_timesheets (site_db s)"
  show valid: "repo_valid ?repo" using assms(2) by (simp add: db_valid_def)
  fix cmd res d'
  assume cmd: "update_command a r body s = Inr cmd" and run: "UpdateTimesheet e cmd (site_db s) = (res, d')"
  from cmd obtain p where p: "Require a r PermTimesheetWriteOwn = Inr p" "own_entry a r p (ut_ID cmd) s = Inr ()"
    "\<And>u. ut_UserID cmd = Some u \<Longrightarrow> requireOwner a p u s = Inr ()"
    by (auto simp: update_command_def bind_res_Inr split: option.splits)
  have signed: "rq_presented r = SignedIn p" using p(1) by (simp add: Require_enforced [OF assms(1)])
  obtain t where t: "entry_at (site_db s) (ut_ID cmd) = Some t" "ts_UserID t \<noteq> user"
    using own_entry_reach [OF assms(1) signed assms(4) p(2)] by blast
  have to: "\<And>u. ut_UserID cmd = Some u \<Longrightarrow> u \<noteq> user"
    using requireOwner_reach [OF assms(1) signed assms(4) p(3)] by blast
  show "\<exists>x. (site_db s)\<lparr>db_timesheets := x\<rparr> = d' \<and> repo_valid x \<and> kept_for user x = kept_for user ?repo"
  proof (cases res)
    case (Inl err)
    then have "d' = site_db s" using run assms(2) Update_refused by blast
    then show ?thesis using valid by (intro exI [of _ ?repo]) simp
  next
    case (Inr x)
    let ?t = "written_entry cmd t"
    have "d' = (site_db s)\<lparr>db_timesheets := snd (ts_Update (now e) ?t ?repo)\<rparr>"
      using Update_accepted [OF run [unfolded Inr]] t(1) by auto
    moreover have id: "ts_ID ?t = ut_ID cmd"
      using t(1) valid by (simp add: ts_ID_edited repo_valid_def ts_keyed_def)
    moreover have "ts_UserID ?t \<noteq> user"
      using t(2) to by (auto simp: edited_entry_def moved_entry_def split: option.split)
    ultimately show ?thesis
      using write_back_keeps [OF valid hours_room_repo [OF assms(3)], of ?t t user "now e"] t
      by (intro exI [of _ "snd (ts_Update (now e) ?t ?repo)"]) simp
  qed
qed

lemma handle_Delete_keeps:
  assumes "Enforced a" "db_valid (site_db s)" "out_of_reach r user PermTimesheetWriteTeam s"
  shows "keeps_hours user s (snd (handle_Delete a r s))"
  unfolding handle_Delete_def
proof (rule carry_out_keeps)
  let ?repo = "db_timesheets (site_db s)"
  show valid: "repo_valid ?repo" using assms(2) by (simp add: db_valid_def)
  fix i res d'
  assume cmd: "bind_res (Require a r PermTimesheetWriteOwn) (\<lambda>p. bind_res (answer (pathID r)) (\<lambda>i.
      bind_res (own_entry a r p i s) (\<lambda>_. Inr i))) = Inr i" and run: "DeleteTimesheet i (site_db s) = (res, d')"
  from cmd obtain p where p: "Require a r PermTimesheetWriteOwn = Inr p" "own_entry a r p i s = Inr ()"
    by (auto simp: bind_res_Inr)
  obtain t where t: "entry_at (site_db s) i = Some t" "ts_UserID t \<noteq> user" "i \<noteq> 0"
    using own_entry_reach [OF assms(1) _ assms(3) p(2)] p(1) by (auto simp: Require_enforced [OF assms(1)])
  have "(site_db s)\<lparr>db_timesheets := snd (ts_Delete i ?repo)\<rparr> = d'"
    using run t by (simp add: DeleteTimesheet_def ts_GetByID_def store_get_def case_prod_beta)
  then show "\<exists>x. (site_db s)\<lparr>db_timesheets := x\<rparr> = d' \<and> repo_valid x \<and> kept_for user x = kept_for user ?repo"
    using ts_Delete_valid [OF valid] kept_for_delete [OF t(1,2)] by blast
qed

lemma transfer_command_Inr:
  assumes "transfer_command a r body s = Inr cmd"
  obtains p i q where "Require a r PermTimesheetTransfer = Inr p" "own_entry a r p i s = Inr ()" "cmd = (i, q, viewerID a p)"
proof -
  obtain p where p: "Require a r PermTimesheetTransfer = Inr p"
    using assms by (cases "Require a r PermTimesheetTransfer") (simp_all add: transfer_command_def)
  obtain i where i: "pathID r = Inr i" using assms p by (cases "pathID r") (simp_all add: transfer_command_def)
  obtain q where q: "bind_body body = Inr q" using assms p i by (cases "bind_body body") (simp_all add: transfer_command_def)
  have "q \<noteq> 0" using assms p i q by (cases "q = 0") (simp_all add: transfer_command_def)
  then have rest: "bind_res (own_entry a r p i s) (\<lambda>_. Inr (i, q, viewerID a p)) = Inr cmd"
    using assms p i q by (simp add: transfer_command_def)
  show ?thesis using rest by (intro that [OF p, of i q]) (simp_all add: bind_res_unit)
qed

lemma handle_Transfer_keeps:
  assumes "Enforced a" "db_valid (site_db s)" "hours_room s" "out_of_reach r user PermTimesheetWriteTeam s"
  shows "keeps_hours user s (snd (handle_Transfer a e r body s))"
  unfolding handle_Transfer_def
proof (rule carry_out_keeps)
  let ?repo = "db_timesheets (site_db s)"
  show valid: "repo_valid ?repo" using assms(2) by (simp add: db_valid_def)
  fix cmd res d'
  assume cmd: "transfer_command a r body s = Inr cmd"
    and run: "(case cmd of (i, projectID, actor) \<Rightarrow> TransferTimesheetToProject e i projectID actor) (site_db s) = (res, d')"
  obtain p i q where p: "Require a r PermTimesheetTransfer = Inr p" "own_entry a r p i s = Inr ()"
    "cmd = (i, q, viewerID a p)"
    by (rule transfer_command_Inr [OF cmd])
  obtain t where t: "entry_at (site_db s) i = Some t" "ts_UserID t \<noteq> user" "i \<noteq> 0"
    using own_entry_reach [OF assms(1) _ assms(4) p(2)] p(1) by (auto simp: Require_enforced [OF assms(1)])
  have "TransferTimesheetToProject e i q (viewerID a p) (site_db s) = (res, d')"
    using run unfolding p(3) prod.case .
  from Transfer_cases [OF this]
  show "\<exists>x. (site_db s)\<lparr>db_timesheets := x\<rparr> = d' \<and> repo_valid x \<and> kept_for user x = kept_for user ?repo"
  proof (elim disjE exE conjE)
    fix err
    assume "d' = site_db s"
    then show ?thesis using valid by (intro exI [of _ ?repo]) simp
  next
    fix moved
    assume moved: "transferred i q (viewerID a p) (site_db s) = Inr moved"
      "(site_db s)\<lparr>db_timesheets := snd (ts_Update (now e) moved ?repo)\<rparr> = d'"
    have "ts_ID moved = ts_ID t" "ts_UserID moved = ts_UserID t"
      using transferred_Inr [OF moved(1) assms(2)] t(1) by auto
    moreover have "ts_ID t = i" using t(1) valid by (simp add: repo_valid_def ts_keyed_def)
    ultimately have "repo_valid (snd (ts_Update (now e) moved ?repo))
        \<and> kept_for user (snd (ts_Update (now e) moved ?repo)) = kept_for user ?repo"
      using t by (intro write_back_keeps [OF valid hours_room_repo [OF assms(3)]]) simp_all
    then show ?thesis using moved(2) by (intro exI [of _ "snd (ts_Update (now e) moved ?repo)"]) simp
  qed
qed

lemma length_store_all: "length (store_all s) \<le> st_nextID s"
proof -
  have "length (List.map_filter f xs) \<le> length xs" for f :: "uint \<Rightarrow> 'a option" and xs
    by (induction xs) (auto simp: map_filter_simps split: option.split)
  from this [of "\<lambda>i. store_find i s" "[1..<st_nextID s]"] show ?thesis by (simp add: store_all_def)
qed

lemma weekOf_short:
  assumes "weekOf e d u monday = Inr ts"
  shows "length ts \<le> st_nextID (tr_store (db_timesheets d))"
proof -
  have "ts = sort_by newest_first (matching (lower e) (over_days u (midnight monday) (midnight (monday + 6))) (db_timesheets d))"
    using assms by (simp add: weekOf_def ts_GetByFilter_def page_def over_days_def all_of_def)
  then have "length ts \<le> length (store_all (tr_store (db_timesheets d)))"
    by (simp add: matching_def Let_def)
  then show ?thesis using length_store_all [of "tr_store (db_timesheets d)"] by linarith
qed

lemma planned_copy_own:
  assumes "planned_copy e u from to d = Inr c"
  shows "(\<forall>t \<in> set (co_copies c). ts_UserID t = u) \<and> length (co_copies c) \<le> st_nextID (tr_store (db_timesheets d))"
proof -
  obtain source taken shift where c: "weekOf e d u (CalendarDay from) = Inr source"
    "copy_entries e d u taken shift (sort_by worked_order source)
       \<lparr>co_copies = [], co_kept = [], co_planned = [], co_closed = 0\<rparr> = Inr c"
    using assms by (auto simp: planned_copy_def bind_res_Inr Let_def simp del: refuse_fields_Inr split: if_splits)
  let ?copied = "filter (\<lambda>t. target_day shift t \<notin> set taken \<and> copyable d u t) (sort_by worked_order source)"
  have "co_copies c = map (\<lambda>t. copied_entry u (target_day shift t) t) ?copied"
    using copy_entries_Inr [OF c(2)] by simp
  moreover have "length ?copied \<le> length source" using length_filter_le [of _ "sort_by worked_order source"] by simp
  ultimately show ?thesis using weekOf_short [OF c(1)] by (auto simp: copied_entry_def)
qed

lemma handle_CopyWeek_keeps:
  assumes "Enforced a" "db_valid (site_db s)" "hours_room s" "out_of_reach r user PermTimesheetWriteTeam s"
  shows "keeps_hours user s (snd (handle_CopyWeek a e r body s))"
  unfolding handle_CopyWeek_def
proof (rule carry_out_keeps)
  let ?repo = "db_timesheets (site_db s)"
  show valid: "repo_valid ?repo" using assms(2) by (simp add: db_valid_def)
  fix cmd :: "uint \<times> gotime \<times> gotime" and res d'
  assume cmd: "bind_res (Require a r PermTimesheetWriteOwn) (\<lambda>p. bind_res (answer (bind_body body))
      (\<lambda>(from, to). Inr (caller_id p, from, to))) = Inr cmd"
    and run: "(case cmd of (userID, from, to) \<Rightarrow> CopyWeek e userID from to) (site_db s) = (res, d')"
  obtain p where p: "Require a r PermTimesheetWriteOwn = Inr p"
    using cmd by (cases "Require a r PermTimesheetWriteOwn") simp_all
  obtain dates where b: "bind_body body = Inr dates" using cmd p by (cases "bind_body body") simp_all
  obtain x y where dates: "dates = (x, y)" by (rule prod.exhaust)
  have copy: "CopyWeek e (caller_id p) x y (site_db s) = (res, d')"
    using run cmd p b dates by auto
  have mine: "caller_id p \<noteq> user"
    using p assms(4) by (simp add: Require_enforced [OF assms(1)] out_of_reach_def)
  show "\<exists>x. (site_db s)\<lparr>db_timesheets := x\<rparr> = d' \<and> repo_valid x \<and> kept_for user x = kept_for user ?repo"
  proof (cases "planned_copy e (caller_id p) x y (site_db s)")
    case (Inl err)
    then show ?thesis using copy valid by (intro exI [of _ ?repo]) (simp add: CopyWeek_def)
  next
    case (Inr c)
    have "kept_for user (ts_SaveMany (now e) (co_copies c) ?repo) = kept_for user ?repo
        \<and> repo_valid (ts_SaveMany (now e) (co_copies c) ?repo)"
      using planned_copy_own [OF Inr] mine assms(3)
      by (intro ts_SaveMany_keeps [OF valid]) (auto simp: hours_room_def Let_def)
    then show ?thesis using copy Inr
      by (intro exI [of _ "ts_SaveMany (now e) (co_copies c) ?repo"]) (simp add: CopyWeek_def)
  qed
qed

lemma serve_keeps:
  assumes "Enforced a" "db_valid (site_db s)" "hours_room s" "out_of_reach (asked q) user PermTimesheetWriteTeam s"
  shows "keeps_hours user s (serve a q s)"
  using assms
  by (cases q) (simp_all add: handle_Create_keeps handle_Update_keeps handle_Delete_keeps handle_Transfer_keeps handle_CopyWeek_keeps)

text \<open>C1: nobody's hours are changed by others: through any sequence of requests to book, change,
  delete, move and copy time entries, by anybody but the account itself and the managers with the
  right over it, whatever the requests say, the account has the entries it had, with the history
  they had, and no more.\<close>

theorem hours_of_others_stay:
  assumes "Enforced a" "db_valid (site_db s)" "all_room a qs s"
    and "\<forall>q \<in> set qs. out_of_reach (asked q) user PermTimesheetWriteTeam s"
  shows "kept_for user (db_timesheets (site_db (serve_all a qs s))) = kept_for user (db_timesheets (site_db s))"
  using assms
proof (induction qs arbitrary: s)
  case (Cons q qs)
  obtain x where x: "s\<lparr>site_db := (site_db s)\<lparr>db_timesheets := x\<rparr>\<rparr> = serve a q s" "repo_valid x"
    "kept_for user x = kept_for user (db_timesheets (site_db s))"
    using serve_keeps [OF Cons.prems(1,2), of q user] Cons.prems(3,4) unfolding keeps_hours_def by auto
  have "db_valid ((site_db s)\<lparr>db_timesheets := x\<rparr>)" using Cons.prems(2) x(2) by (simp add: db_valid_def)
  then have "db_valid (site_db (serve a q s))" unfolding x(1) [symmetric] by simp
  moreover have "\<forall>q' \<in> set qs. out_of_reach (asked q') user PermTimesheetWriteTeam (serve a q s)"
    unfolding x(1) [symmetric] using Cons.prems(4) by simp
  ultimately have "kept_for user (db_timesheets (site_db (serve_all a qs (serve a q s))))
      = kept_for user (db_timesheets (site_db (serve a q s)))"
    using Cons.IH [OF Cons.prems(1)] Cons.prems(3) by simp
  also have "\<dots> = kept_for user (db_timesheets (site_db s))" unfolding x(1) [symmetric] using x(3) by simp
  finally show ?case by simp
qed simp

section \<open>What a listing shows\<close>

lemma scopeUserID_reach:
  assumes "Enforced a" "db_valid (site_db s)" "scopeUserID a p requested s = Inr u"
  shows "u = us_ID (caller_account p) \<or> (u \<noteq> 0 \<and> Reaches (Some p) u PermTimesheetReadTeam s)"
proof -
  have o: "\<not> au_open a" using assms(1) by (simp add: Enforced_def)
  obtain account where acc: "accountFor a p requested somebodyElsesEntries [PermTimesheetReadTeam] s = Inr account" "u = us_ID account"
    using assms(3) by (auto simp: scopeUserID_def o bind_res_Inr split: if_splits)
  show ?thesis
  proof (cases "requested = 0 \<or> requested = caller_id p")
    case True
    then show ?thesis using acc by (simp add: accountFor_def)
  next
    case False
    then have "Member (Some p) requested [PermTimesheetReadTeam] s = Inr (Some account)"
      using acc(1) by (auto simp: accountFor_def o bind_res_Inr answer_Inr split: if_splits option.splits)
    from Member_means [OF this] obtain v where v: "user_at (site_db s) requested = Some v"
      "account = withRoleName (db_roles (site_db s)) v" "Reaches (Some p) requested PermTimesheetReadTeam s" by auto
    then have "us_ID account = requested"
      using assms(2) by (simp add: withRoleName_keeps db_valid_def users_keyed_def)
    then show ?thesis using v(3) False acc(2) by simp
  qed
qed

lemma page_part: "page xs limit offset = Inr ys \<Longrightarrow> set ys \<subseteq> set xs \<and> length ys \<le> length xs"
  by (auto simp: page_def Let_def split: if_splits dest!: in_set_takeD in_set_dropD)

lemma page_length: "page xs limit offset = Inr ys \<Longrightarrow> 0 < limit \<Longrightarrow> length ys \<le> limit"
  by (auto simp: page_def Let_def split: if_splits)

lemma ListTimesheets_shows:
  assumes "ListTimesheets e f d = Inr (results, count)" "fi_UserID f \<noteq> 0" "0 < fi_Limit f" "db_valid d"
  shows "(\<forall>x \<in> set results. tr_UserID x = fi_UserID f
        \<and> (\<exists>t. entry_at d (tr_ID x) = Some t \<and> ts_UserID t = fi_UserID f))
    \<and> length results \<le> fi_Limit f \<and> length results \<le> count"
proof -
  obtain entries where entries: "ts_GetByFilter (lower e) f (db_timesheets d) = Inr entries"
    using assms(1) by (cases "ts_GetByFilter (lower e) f (db_timesheets d)") (simp_all add: ListTimesheets_def)
  obtain names where "nameWhoActed d (map NewTimesheetResultFromModel entries)
      = Inr (map (\<lambda>r. r\<lparr>tr_RecordedBy := name_in names (tr_RecordedBy r), tr_UpdatedBy := name_in names (tr_UpdatedBy r)\<rparr>)
          (map NewTimesheetResultFromModel entries))"
    using nameWhoActed_total by blast
  then have r: "results = map (\<lambda>r. r\<lparr>tr_RecordedBy := name_in names (tr_RecordedBy r), tr_UpdatedBy := name_in names (tr_UpdatedBy r)\<rparr>)
          (map NewTimesheetResultFromModel entries)"
    "count = length (matching (lower e) f (db_timesheets d))"
    using assms(1) entries by (simp_all add: ListTimesheets_def ts_CountByFilter_def Let_def)
  have page: "page (sort_by newest_first (matching (lower e) f (db_timesheets d))) (fi_Limit f) (fi_Offset f) = Inr entries"
    using entries by (simp add: ts_GetByFilter_def)
  have shown: "entry_at d (ts_ID t) = Some t \<and> ts_UserID t = fi_UserID f" if "t \<in> set entries" for t
  proof -
    have "t \<in> set (matching (lower e) f (db_timesheets d))" using that page_part [OF page] by auto
    then have t: "t \<in> set (store_all (tr_store (db_timesheets d)))" "matchesFilter (lower e) t (OverWholeDays f)"
      by (simp_all add: matching_def Let_def)
    from t(1) obtain i where i: "entry_at d i = Some t" by (auto simp: store_all_def in_map_filter)
    then have "ts_ID t = i" using assms(4) by (simp add: db_valid_def repo_valid_def ts_keyed_def)
    moreover have "ts_UserID t = fi_UserID f"
    proof (rule ccontr)
      assume "ts_UserID t \<noteq> fi_UserID f"
      then have "\<not> matchesFilter (lower e) t (OverWholeDays f)"
        using assms(2) by (simp add: matchesFilter_def OverWholeDays_def)
      then show False using t(2) by simp
    qed
    ultimately show ?thesis using i by simp
  qed
  have "tr_UserID x = fi_UserID f \<and> (\<exists>t. entry_at d (tr_ID x) = Some t \<and> ts_UserID t = fi_UserID f)"
    if "x \<in> set results" for x
  proof -
    from that obtain t where t: "t \<in> set entries" "tr_UserID x = ts_UserID t" "tr_ID x = ts_ID t"
      unfolding r(1) set_map by (auto simp: NewTimesheetResultFromModel_def)
    then show ?thesis using shown [OF t(1)] by simp
  qed
  moreover have "length results \<le> fi_Limit f" using page_length [OF page assms(3)] by (simp add: r(1))
  moreover have "length results \<le> count" using page_part [OF page] by (simp add: r)
  ultimately show ?thesis by blast
qed

text \<open>C4: the listing of time entries is answered, to a caller who may read, with stored entries of one
  account alone - the caller's own, or one the caller looks after with the right to read it - whatever
  filter was asked for, and with no more of them than the page of at most five hundred holds, nor than the
  count beside them says.\<close>

theorem listing_within_reach:
  assumes "Enforced a" "db_valid (site_db s)" "rq_presented r = SignedIn p" "caller_id p \<noteq> 0"
    and "handle_List a e r s = Inr resp"
  shows "Can p PermTimesheetReadOwn \<and> (\<exists>user. (user = caller_id p \<or> Reaches (Some p) user PermTimesheetReadTeam s)
      \<and> (\<forall>x \<in> set (lr_Items resp). tp_UserID x = user
            \<and> (\<exists>t. entry_at (site_db s) (tp_ID x) = Some t \<and> ts_UserID t = user)))
    \<and> length (lr_Items resp) \<le> lr_PageSize resp \<and> lr_PageSize resp \<le> 500
    \<and> length (lr_Items resp) \<le> lr_TotalCount resp"
proof -
  obtain q where q: "Require a r PermTimesheetReadOwn = Inr q"
    using assms(5) by (cases "Require a r PermTimesheetReadOwn") (simp_all add: handle_List_def)
  then have p: "q = p" "Can p PermTimesheetReadOwn" "pp_User p \<noteq> None"
    using assms(3) by (auto simp: Require_enforced [OF assms(1)])
  obtain scope where scope: "timesheetScopeOf a r p s = Inr scope"
    using assms(5) q p(1) by (cases "timesheetScopeOf a r p s") (simp_all add: handle_List_def)
  obtain limit offset where page: "pageOf r = Inr (limit, offset)"
    using assms(5) q p(1) scope by (cases "pageOf r") (auto simp: handle_List_def)
  obtain results count where list: "ListTimesheets e (scope_filter scope limit offset) (site_db s) = Inr (results, count)"
    using assms(5) q p(1) scope page
    by (cases "ListTimesheets e (scope_filter scope limit offset) (site_db s)") (auto simp: handle_List_def)
  have resp: "resp = \<lparr>lr_Items = map newTimesheetResponse results, lr_TotalCount = count, lr_PageSize = limit\<rparr>"
    using assms(5) q p(1) scope page list by (simp add: handle_List_def)
  obtain requested where "scopeUserID a p requested s = Inr (sp_UserID scope)"
    using scope by (auto simp: timesheetScopeOf_def bind_res_Inr Let_def split: if_splits)
  from scopeUserID_reach [OF assms(1,2) this] have reach:
    "sp_UserID scope = caller_id p \<or> (sp_UserID scope \<noteq> 0 \<and> Reaches (Some p) (sp_UserID scope) PermTimesheetReadTeam s)"
    using p(3) by (auto simp: caller_account_def caller_id_def)
  then have user: "sp_UserID scope \<noteq> 0" using assms(4) by auto
  have limit: "0 < limit" "limit \<le> 500"
    using page by (auto simp: pageOf_def bind_res_Inr Let_def MaxPageSize_def DefaultPageSize_def split: if_splits)
  have "(\<forall>x \<in> set results. tr_UserID x = sp_UserID scope
        \<and> (\<exists>t. entry_at (site_db s) (tr_ID x) = Some t \<and> ts_UserID t = sp_UserID scope))
    \<and> length results \<le> limit \<and> length results \<le> count"
    using ListTimesheets_shows [OF list _ _ assms(2)] user limit by (simp add: scope_filter_def)
  then show ?thesis using reach limit p(2) by (auto simp: resp newTimesheetResponse_def)
qed

section \<open>Samples\<close>

definition sample_office :: site where
  "sample_office = \<lparr>site_db = sample_booked_db, site_sessions = [], site_settings = [], site_spent = []\<rparr>"

definition asking :: "user \<Rightarrow> gostring \<Rightarrow> request" where
  "asking u path = \<lparr>rq_presented = SignedIn \<lparr>pp_User = Some u, pp_Role = None, pp_Permissions = UserPermissions\<rparr>,
     rq_path = path, rq_param = (\<lambda>_. []), rq_server_zone = UTC, rq_instance_zone = ''UTC'', rq_load_zone = (\<lambda>_. None)\<rparr>"

lemma asking_fields [simp]:
  "rq_presented (asking u x) = SignedIn \<lparr>pp_User = Some u, pp_Role = None, pp_Permissions = UserPermissions\<rparr>"
  "rq_param (asking u x) = (\<lambda>_. [])" "rq_path (asking u x) = x"
  by (simp_all add: asking_def)

lemma asking_one: "pathID (asking u ''1'') = Inr 1"
proof -
  have "TrimSpace ''1'' = ''1''" by (rule TrimSpace_ascii_word) (simp add: byte_def is_space_def)
  then show ?thesis by (simp add: pathID_def parseUint_def ParseUint_def is_digit_char_def byte_def)
qed

lemma office_without_managers: "\<not> Reaches c u right sample_office"
  by (simp add: Reaches_def Enabled_def setting_def sample_office_def split: option.split)

lemma sample_office_entry: "entry_at (site_db sample_office) 1 = Some sample_entry"
  using sample_booked_at [of 1] by (simp add: sample_office_def sample_entry_def)

lemma sample_office_db: "site_db sample_office = sample_booked_db" by (simp add: sample_office_def)

lemma stranger_out_of_reach: "out_of_reach (asking sample_manager x) 1 right sample_office"
  by (simp add: out_of_reach_def office_without_managers caller_id_def sample_manager_def)

lemma sample_office_named: "st_entity (tr_store (db_timesheets (site_db sample_office))) = ''timesheet''"
  by (simp add: sample_office_def sample_booked_db_def ts_Save_store store_add_def Let_def new_timesheets_def newStore_def)

lemma sample_guarded: "Enforced (NewAuthorizer True)" by (simp add: Enforced_def NewAuthorizer_def)

lemma foreign_entry_not_there_witness:
  "handle_Get (NewAuthorizer True) (asking sample_manager ''1'') sample_office
     = handle_Get (NewAuthorizer True) (asking sample_manager ''1'') (without_entry sample_office 1)
   \<and> handle_Delete (NewAuthorizer True) (asking sample_manager ''1'') sample_office
     = (fst (handle_Delete (NewAuthorizer True) (asking sample_manager ''1'') (without_entry sample_office 1)), sample_office)"
  using foreign_entry_not_there [of "NewAuthorizer True" sample_office 1 sample_entry "asking sample_manager ''1''" sample_env None None]
  by (simp add: sample_guarded sample_office_named sample_office_entry [unfolded One_nat_def] asking_one
      stranger_out_of_reach [unfolded One_nat_def])

lemma hours_of_others_stay_witness:
  "kept_for 1 (db_timesheets (site_db (serve_all (NewAuthorizer True)
      [RemoveR (asking sample_manager ''1'')] sample_office))) 1 = Some (sample_entry, [])"
proof -
  have n: "st_nextID (tr_store (db_timesheets sample_booked_db)) = 2" "tr_nextRevision (db_timesheets sample_booked_db) = 0"
    "tr_revisions (db_timesheets sample_booked_db) = []"
    by (simp_all add: sample_booked_db_def ts_Save_store store_add_def Let_def new_timesheets_def newStore_def uint_succ_def)
  have "kept_for 1 (db_timesheets (site_db (serve_all (NewAuthorizer True) [RemoveR (asking sample_manager ''1'')] sample_office)))
      = kept_for 1 (db_timesheets (site_db sample_office))"
    by (rule hours_of_others_stay)
      (simp_all add: sample_guarded sample_office_db sample_booked_valid hours_room_def n uint_max_def
        stranger_out_of_reach [unfolded One_nat_def])
  then show ?thesis
    using sample_office_entry by (simp add: kept_for_def sample_office_db ts_Revisions_def n)
qed

lemma sample_listing: "\<exists>resp. handle_List (NewAuthorizer True) sample_env (asking sample_user []) sample_office = Inr resp"
proof -
  let ?a = "NewAuthorizer True" and ?r = "asking sample_user []"
  let ?p = "\<lparr>pp_User = Some sample_user, pp_Role = None, pp_Permissions = UserPermissions\<rparr>"
  have a: "Enforced ?a" by (simp add: Enforced_def NewAuthorizer_def)
  have own: "Can ?p PermTimesheetReadOwn" by (simp add: Can_def UserPermissions_def)
  have req: "Require ?a ?r PermTimesheetReadOwn = Inr ?p"
    using own by (simp add: Require_enforced [OF a] caller_account_def sample_user_def blank_user_def)
  have "scopeUserID ?a ?p 0 sample_office = Inr 1"
    using own by (simp add: scopeUserID_def NewAuthorizer_def accountFor_def caller_account_def sample_user_def)
  then obtain scope where scope: "timesheetScopeOf ?a ?r ?p sample_office = Inr scope"
    by (simp add: timesheetScopeOf_def queryUint_def projectFilter_def queryDate_def TooLong_def)
  have page: "pageOf ?r = Inr (100, 0)"
    by (simp add: pageOf_def queryCount_def DefaultPageSize_def MaxPageSize_def)
  let ?f = "scope_filter scope 100 0"
  have "\<exists>entries. ts_GetByFilter (lower sample_env) ?f (db_timesheets (site_db sample_office)) = Inr entries"
    by (simp add: ts_GetByFilter_def scope_filter_def page_within)
  then obtain entries where e: "ts_GetByFilter (lower sample_env) ?f (db_timesheets (site_db sample_office)) = Inr entries" ..
  obtain results where "nameWhoActed (site_db sample_office) (map NewTimesheetResultFromModel entries) = Inr results"
    using nameWhoActed_total by blast
  then show ?thesis by (simp add: handle_List_def req scope page ListTimesheets_def e Let_def)
qed

lemma listing_within_reach_witness:
  "\<exists>resp. handle_List (NewAuthorizer True) sample_env (asking sample_user []) sample_office = Inr resp
     \<and> length (lr_Items resp) \<le> 500"
proof -
  obtain resp where resp: "handle_List (NewAuthorizer True) sample_env (asking sample_user []) sample_office = Inr resp"
    using sample_listing by blast
  have "length (lr_Items resp) \<le> lr_PageSize resp \<and> lr_PageSize resp \<le> 500"
    using listing_within_reach [OF _ _ _ _ resp] sample_booked_valid
    by (simp add: Enforced_def NewAuthorizer_def sample_office_db caller_id_def sample_user_def)
  then show ?thesis using resp by (intro exI [of _ resp]) simp
qed

end
