(* ===== verification/GatewayRules.thy ===== *)
theory GatewayRules
  imports Gateway RequestRules SessionRules
begin

text \<open>
  What the way in holds back: how often a password or a token may be tried, and what a personal token
  opens.
\<close>

section \<open>The throttle\<close>

text \<open>Requests as they arrive, with the moment and whether each was let through.\<close>

fun watched :: "net \<Rightarrow> (int \<times> http_request) list \<Rightarrow> limiter \<Rightarrow> (int \<times> http_request \<times> bool) list" where
  "watched n [] l = []"
| "watched n ((t, r) # qs) l = (case throttle n t r l of (ok, l') \<Rightarrow> (t, r, ok) # watched n qs l')"

fun in_turn :: "int \<Rightarrow> (int \<times> http_request) list \<Rightarrow> bool" where
  "in_turn t [] = True"
| "in_turn t ((u, r) # qs) = (t \<le> u \<and> in_turn u qs)"

definition passes :: "int \<Rightarrow> int \<Rightarrow> int list \<Rightarrow> int" where
  "passes w a ts = int (length (filter (\<lambda>t. a \<le> t \<and> t \<le> a + w) ts))"

lemma passes_simps [simp]:
  "passes w a [] = 0"
  "passes w a (xs @ ys) = passes w a xs + passes w a ys"
  "passes w a [t] = (if a \<le> t \<and> t \<le> a + w then 1 else 0)"
  by (simp_all add: passes_def)

lemma passes_length: "passes w a ts \<le> int (length ts)"
  by (simp add: passes_def)

lemma passes_nonneg: "0 \<le> passes w a ts"
  by (simp add: passes_def)

lemma passes_none: "\<forall>t \<in> set ts. \<not> (a \<le> t \<and> t \<le> a + w) \<Longrightarrow> passes w a ts = 0"
  by (simp add: passes_def)

lemma passes_all: "\<forall>t \<in> set ts. a \<le> t \<and> t \<le> a + w \<Longrightarrow> passes w a ts = int (length ts)"
  by (simp add: passes_def)

text \<open>The passes of one client so far: at most the limit in a window that reaches the present where no
  bucket is kept, and otherwise the bucket's own after those of an earlier one.\<close>

definition quiet :: "int \<Rightarrow> int \<Rightarrow> int \<Rightarrow> int list \<Rightarrow> bool" where
  "quiet most w t ts \<longleftrightarrow> (\<forall>a. t \<le> a + w \<longrightarrow> passes w a ts \<le> most)"

definition bucket_holds :: "int \<Rightarrow> int \<Rightarrow> bucket \<Rightarrow> int list \<Rightarrow> bool" where
  "bucket_holds most w b ts \<longleftrightarrow>
     (\<exists>old cur. ts = old @ cur \<and> int (length cur) = bu_count b \<and> bu_count b \<le> most
        \<and> (\<forall>t \<in> set cur. bu_reset b - w \<le> t \<and> t \<le> bu_reset b)
        \<and> (\<forall>t \<in> set old. t < bu_reset b - w) \<and> quiet most w (bu_reset b - w) old
        \<and> (\<forall>a. passes w a old \<le> 2 * most))"

definition counted_well :: "int \<Rightarrow> int \<Rightarrow> int \<Rightarrow> limiter \<Rightarrow> gostring \<Rightarrow> int list \<Rightarrow> bool" where
  "counted_well most w t l k ts \<longleftrightarrow> (\<forall>u \<in> set ts. u \<le> t) \<and> (\<forall>a. passes w a ts \<le> 2 * most)
     \<and> (case map_of (li_hits l) k of None \<Rightarrow> quiet most w t ts \<and> (\<forall>u \<in> set ts. u < t)
         | Some b \<Rightarrow> bu_reset b - w \<le> t \<and> bucket_holds most w b ts)"

lemma quiet_later: "quiet most w t ts \<Longrightarrow> t \<le> u \<Longrightarrow> quiet most w u ts"
  by (simp add: quiet_def)

lemma bucket_over:
  assumes "bucket_holds most w b ts" "bu_reset b < t" "0 < w"
  shows "quiet most w t ts"
  unfolding quiet_def
proof (intro allI impI)
  fix a
  assume a: "t \<le> a + w"
  obtain old cur where ts: "ts = old @ cur" "int (length cur) = bu_count b" "bu_count b \<le> most"
    "\<forall>t \<in> set old. t < bu_reset b - w" using assms(1) unfolding bucket_holds_def by blast
  have "passes w a old = 0" using ts(4) a assms(2) by (intro passes_none) auto
  moreover have "passes w a cur \<le> most" using passes_length [of w a cur] ts(2,3) by linarith
  ultimately show "passes w a ts \<le> most" by (simp add: ts(1))
qed

lemma bucket_past: "bucket_holds most w b ts \<Longrightarrow> 0 < w \<Longrightarrow> \<forall>u \<in> set ts. u \<le> bu_reset b"
  unfolding bucket_holds_def by force

lemma bucket_bounds:
  assumes "bucket_holds most w b ts" "0 < w"
  shows "passes w a ts \<le> 2 * most"
proof -
  obtain old cur where ts: "ts = old @ cur" "int (length cur) = bu_count b" "bu_count b \<le> most"
    "\<forall>t \<in> set cur. bu_reset b - w \<le> t" "quiet most w (bu_reset b - w) old" "passes w a old \<le> 2 * most"
    using assms(1) unfolding bucket_holds_def by blast
  show ?thesis
  proof (cases "bu_reset b - w \<le> a + w")
    case True
    then have "passes w a old \<le> most" using ts(5) by (simp add: quiet_def)
    then show ?thesis using passes_length [of w a cur] ts(1-3) by simp
  next
    case False
    then have "passes w a cur = 0" using ts(4) by (intro passes_none) force
    then show ?thesis using ts(1,6) by simp
  qed
qed

lemma counted_later:
  assumes "counted_well most w t l k ts" "t \<le> u"
  shows "counted_well most w u l k ts"
  using assms quiet_later [of most w t ts u] unfolding counted_well_def by (cases "map_of (li_hits l) k") force+

lemma collect_keeps:
  assumes "counted_well most w t l k ts" "t \<le> u" "distinct (map fst (li_hits l))" "0 < w"
  shows "counted_well most w u (collect u l) k ts" "distinct (map fst (li_hits (collect u l)))"
proof -
  note l = counted_later [OF assms(1,2)]
  have m: "map_of (filter (\<lambda>(_, b). \<not> bu_reset b < u) (li_hits l)) k
      = (case map_of (li_hits l) k of None \<Rightarrow> None | Some b \<Rightarrow> if \<not> bu_reset b < u then Some b else None)"
    using assms(3) by (rule map_of_filter_distinct)
  show "counted_well most w u (collect u l) k ts"
  proof (cases "u - li_lastGC l < li_gcEvery l")
    case True
    then show ?thesis using l by (simp add: collect_def)
  next
    case False
    show ?thesis
    proof (cases "map_of (li_hits l) k")
      case None
      then show ?thesis using l False m by (simp add: collect_def counted_well_def)
    next
      case (Some b)
      then show ?thesis using l False m bucket_over [of most w b ts u] assms(4)
          bucket_past [of most w b ts] by (auto simp: collect_def counted_well_def)
    qed
  qed
  show "distinct (map fst (li_hits (collect u l)))"
    using assms(3) by (simp add: collect_def distinct_map_filter)
qed

lemma fresh_bucket:
  assumes "quiet most w t ts" "\<forall>u \<in> set ts. u < t" "\<forall>a. passes w a ts \<le> 2 * most" "0 < w" "1 \<le> most"
  shows "bucket_holds most w \<lparr>bu_count = 1, bu_reset = t + w\<rparr> (ts @ [t])"
  unfolding bucket_holds_def using assms by (intro exI [of _ ts] exI [of _ "[t]"]) simp

lemma fuller_bucket:
  assumes "bucket_holds most w b ts" "bu_count b < most" "t \<le> bu_reset b" "\<forall>u \<in> set ts. u \<le> t" "bu_reset b - w \<le> t"
  shows "bucket_holds most w (b\<lparr>bu_count := bu_count b + 1\<rparr>) (ts @ [t])"
proof -
  obtain old cur where ts: "ts = old @ cur" "int (length cur) = bu_count b" "bu_count b \<le> most"
    "\<forall>t \<in> set cur. bu_reset b - w \<le> t \<and> t \<le> bu_reset b"
    "\<forall>t \<in> set old. t < bu_reset b - w" "quiet most w (bu_reset b - w) old" "\<forall>a. passes w a old \<le> 2 * most"
    using assms(1) unfolding bucket_holds_def by blast
  then show ?thesis
    unfolding bucket_holds_def using assms(2,3,5)
    by (intro exI [of _ old] exI [of _ "cur @ [t]"]) auto
qed

lemma allow_keeps:
  assumes "counted_well most w t l k ts" "t \<le> u" "distinct (map fst (li_hits l))" "0 < w" "1 \<le> most"
    and "allow key most w u l = (ok, l')"
  shows "counted_well most w u l' k (if ok \<and> key = k then ts @ [u] else ts)" "distinct (map fst (li_hits l'))"
    and "\<not> ok \<Longrightarrow> key = k \<Longrightarrow> most \<le> passes w (u - w) ts"
proof -
  let ?l = "collect u l"
  note l = collect_keeps [OF assms(1-4)]
  have times: "\<forall>v \<in> set ts. v \<le> u" "\<forall>a. passes w a ts \<le> 2 * most" using l(1) by (simp_all add: counted_well_def)
  have new: "counted_well most w u (?l\<lparr>li_hits := AList.update k \<lparr>bu_count = 1, bu_reset = u + w\<rparr> (li_hits ?l)\<rparr>) k (ts @ [u])"
    if "quiet most w u ts" "\<forall>v \<in> set ts. v < u"
  proof -
    have "bucket_holds most w \<lparr>bu_count = 1, bu_reset = u + w\<rparr> (ts @ [u])"
      using fresh_bucket that times(2) assms(4,5) by blast
    then show ?thesis using times(1) bucket_bounds [of most w _ "ts @ [u]"] assms(4)
      by (simp add: counted_well_def map_of_update del: passes_simps)
  qed
  have other: "counted_well most w u (?l\<lparr>li_hits := AList.update key b (li_hits ?l)\<rparr>) k ts" if "key \<noteq> k" for b
    using l(1) that by (simp add: counted_well_def map_of_update)
  have "counted_well most w u l' k (if ok \<and> key = k then ts @ [u] else ts) \<and> distinct (map fst (li_hits l'))
      \<and> (\<not> ok \<longrightarrow> key = k \<longrightarrow> most \<le> passes w (u - w) ts)"
  proof (cases "map_of (li_hits ?l) key")
    case None
    then have l': "ok" "l' = ?l\<lparr>li_hits := AList.update key \<lparr>bu_count = 1, bu_reset = u + w\<rparr> (li_hits ?l)\<rparr>"
      using assms(6) by (simp_all add: allow_def Let_def)
    show ?thesis
    proof (cases "key = k")
      case True
      then have "quiet most w u ts" "\<forall>v \<in> set ts. v < u" using l(1) None by (simp_all add: counted_well_def)
      then show ?thesis using new l' True l(2) by simp
    qed (use l' other l(2) in simp)
  next
    case (Some b)
    consider "bu_reset b < u" | "\<not> bu_reset b < u" "most \<le> bu_count b" | "\<not> bu_reset b < u" "\<not> most \<le> bu_count b"
      by blast
    then show ?thesis
    proof cases
      case 1
      then have l': "ok" "l' = ?l\<lparr>li_hits := AList.update key \<lparr>bu_count = 1, bu_reset = u + w\<rparr> (li_hits ?l)\<rparr>"
        using assms(6) Some by (simp_all add: allow_def Let_def)
      show ?thesis
      proof (cases "key = k")
        case True
        then have b: "bucket_holds most w b ts" using l(1) Some by (simp add: counted_well_def)
        have "quiet most w u ts" using bucket_over [OF b 1 assms(4)] .
        moreover have "\<forall>v \<in> set ts. v < u" using bucket_past [OF b assms(4)] 1 by force
        ultimately show ?thesis using new l' True l(2) by simp
      qed (use l' other l(2) in simp)
    next
      case 2
      then have l': "\<not> ok" "l' = ?l" using assms(6) Some by (simp_all add: allow_def Let_def)
      have "most \<le> passes w (u - w) ts" if "key = k"
      proof -
        have b: "bu_reset b - w \<le> u" "bucket_holds most w b ts"
          using l(1) Some that by (simp_all add: counted_well_def)
        then obtain old cur where ts: "ts = old @ cur" "int (length cur) = bu_count b"
          "\<forall>t \<in> set cur. bu_reset b - w \<le> t" unfolding bucket_holds_def by blast
        have "\<forall>v \<in> set cur. u - w \<le> v \<and> v \<le> u - w + w" using ts 2(1) times(1) by force
        then have "passes w (u - w) cur = bu_count b" using ts(2) passes_all by simp
        then show ?thesis using 2(2) ts(1) passes_nonneg [of w "u - w" old] by simp
      qed
      then show ?thesis using l' l by simp
    next
      case 3
      then have l': "ok" "l' = ?l\<lparr>li_hits := AList.update key (b\<lparr>bu_count := bu_count b + 1\<rparr>) (li_hits ?l)\<rparr>"
        using assms(6) Some by (simp_all add: allow_def Let_def)
      show ?thesis
      proof (cases "key = k")
        case True
        then have b: "bu_reset b - w \<le> u" "bucket_holds most w b ts" using l(1) Some by (simp_all add: counted_well_def)
        have "bucket_holds most w (b\<lparr>bu_count := bu_count b + 1\<rparr>) (ts @ [u])"
          using fuller_bucket [OF b(2) _ _ times(1) b(1)] 3 by simp
        then show ?thesis using times(1) bucket_bounds [of most w _ "ts @ [u]"] assms(4) b(1) l' True l(2)
          by (simp add: counted_well_def map_of_update del: passes_simps)
      qed (use l' other l(2) in simp)
    qed
  qed
  then show "counted_well most w u l' k (if ok \<and> key = k then ts @ [u] else ts)" "distinct (map fst (li_hits l'))"
    "\<not> ok \<Longrightarrow> key = k \<Longrightarrow> most \<le> passes w (u - w) ts" by blast+
qed

text \<open>When the guarded requests of one client were let through.\<close>

definition passed :: "net \<Rightarrow> limiter \<Rightarrow> gostring \<Rightarrow> (int \<times> http_request \<times> bool) list \<Rightarrow> int list" where
  "passed n l k ws = map fst (filter (\<lambda>(t, r, ok). ok \<and> throttle_guards r \<and> clientKey n l r = k) ws)"

lemma passed_simps [simp]:
  "passed n l k [] = []"
  "passed n l k ((t, r, ok) # ws)
     = (if ok \<and> throttle_guards r \<and> clientKey n l r = k then t # passed n l k ws else passed n l k ws)"
  by (simp_all add: passed_def)

lemma throttle_settings:
  assumes "throttle n t r l = (ok, l')"
  shows "budget l' = budget l" "clientKey n l' = clientKey n l"
proof -
  have settings: "li_limit (snd (allow k m w t l)) = li_limit l \<and> li_window (snd (allow k m w t l)) = li_window l
      \<and> li_current (snd (allow k m w t l)) = li_current l \<and> li_trusted (snd (allow k m w t l)) = li_trusted l" for k m w
    by (simp add: allow_def collect_def Let_def split: option.split)
  have "li_limit l' = li_limit l \<and> li_window l' = li_window l \<and> li_current l' = li_current l \<and> li_trusted l' = li_trusted l"
    using assms settings [of "clientKey n l r" "fst (budget l)" "snd (budget l)"]
    by (auto simp: throttle_def case_prod_beta split: if_splits)
  then have same: "li_limit l' = li_limit l" "li_window l' = li_window l" "li_current l' = li_current l" "li_trusted l' = li_trusted l"
    by simp_all
  show "budget l' = budget l" unfolding budget_def same by (rule refl)
  have "believesForwarded n l' = believesForwarded n l" unfolding believesForwarded_def [abs_def] same by (rule refl)
  then show "clientKey n l' = clientKey n l" unfolding clientKey_def [abs_def] by simp
qed

lemma passed_settings: "clientKey n l' = clientKey n l \<Longrightarrow> passed n l' k ws = passed n l k ws"
  by (simp add: passed_def)

lemma throttle_keeps:
  assumes "counted_well most w t l k ts" "t \<le> u" "distinct (map fst (li_hits l))" "0 < w" "1 \<le> most"
    and "budget l = (most, w)" "throttle n u r l = (ok, l')"
  shows "counted_well most w u l' k (ts @ passed n l k [(u, r, ok)])" "distinct (map fst (li_hits l'))"
    and "\<not> ok \<Longrightarrow> clientKey n l r = k \<Longrightarrow> most \<le> passes w (u - w) ts"
proof -
  have "counted_well most w u l' k (ts @ passed n l k [(u, r, ok)]) \<and> distinct (map fst (li_hits l'))
      \<and> (\<not> ok \<longrightarrow> clientKey n l r = k \<longrightarrow> most \<le> passes w (u - w) ts)"
  proof (cases "throttle_guards r")
    case False
    then show ?thesis using assms(7,3) counted_later [OF assms(1,2)] by (auto simp: throttle_def)
  next
    case True
    then have "allow (clientKey n l r) most w u l = (ok, l')" using assms(6,7) by (simp add: throttle_def)
    note a = allow_keeps [OF assms(1-5) this]
    have "passed n l k [(u, r, ok)] = (if ok \<and> clientKey n l r = k then [u] else [])" using True by simp
    then have "ts @ passed n l k [(u, r, ok)] = (if ok \<and> clientKey n l r = k then ts @ [u] else ts)" by simp
    then show ?thesis using a by (simp only:) blast
  qed
  then show "counted_well most w u l' k (ts @ passed n l k [(u, r, ok)])" "distinct (map fst (li_hits l'))"
    "\<not> ok \<Longrightarrow> clientKey n l r = k \<Longrightarrow> most \<le> passes w (u - w) ts" by blast+
qed

lemma watched_counts:
  assumes "in_turn t qs" "counted_well most w t l k ts" "distinct (map fst (li_hits l))" "budget l = (most, w)" "0 < w" "1 \<le> most"
  shows "(\<forall>a. passes w a (ts @ passed n l k (watched n qs l)) \<le> 2 * most)
    \<and> (\<forall>before u r after. watched n qs l = before @ (u, r, False) # after \<and> clientKey n l r = k
         \<longrightarrow> most \<le> passes w (u - w) (ts @ passed n l k before))"
  using assms
proof (induction qs arbitrary: t l ts)
  case Nil
  then show ?case by (simp add: counted_well_def)
next
  case (Cons q qs)
  obtain u r where q: "q = (u, r)" by (rule prod.exhaust)
  obtain ok l' where step: "throttle n u r l = (ok, l')" by (rule prod.exhaust)
  have turn: "t \<le> u" "in_turn u qs" using Cons.prems(1) q by simp_all
  let ?ts = "ts @ passed n l k [(u, r, ok)]"
  note kept = throttle_keeps [OF Cons.prems(2) turn(1) Cons.prems(3,5,6,4) step]
  note same = throttle_settings [OF step]
  have ih: "(\<forall>a. passes w a (?ts @ passed n l' k (watched n qs l')) \<le> 2 * most)
    \<and> (\<forall>before v x after. watched n qs l' = before @ (v, x, False) # after \<and> clientKey n l' x = k
         \<longrightarrow> most \<le> passes w (v - w) (?ts @ passed n l' k before))"
    using Cons.IH [OF turn(2) kept(1,2) _ Cons.prems(5,6)] Cons.prems(4) same(1) by simp
  have split: "passed n l k (x # ws) = passed n l k [x] @ passed n l k ws" for x ws
    by (simp add: passed_def)
  have "most \<le> passes w (v - w) (ts @ passed n l k before)"
    if w: "(u, r, ok) # watched n qs l' = before @ (v, x, False) # after" "clientKey n l x = k" for before v x after
  proof (cases before)
    case Nil
    then show ?thesis using w kept(3) by simp
  next
    case (Cons y ys)
    then have "watched n qs l' = ys @ (v, x, False) # after" "y = (u, r, ok)" using w(1) by simp_all
    then show ?thesis using ih w(2) Cons split [of "(u, r, ok)" ys] same(2) passed_settings [OF same(2)]
      by (metis append_assoc)
  qed
  moreover have "passes w a (ts @ passed n l k ((u, r, ok) # watched n qs l')) \<le> 2 * most" for a
    using ih split [of "(u, r, ok)" "watched n qs l'"] passed_settings [OF same(2)] by (metis append_assoc)
  ultimately show ?case unfolding q watched.simps step prod.case by blast
qed

lemma connection_key:
  assumes "\<not> believesForwarded n l (hr_remote r)" "hr_remote r = host @ CHR '':'' # port" "host \<noteq> []" "CHR '':'' \<notin> set port"
  shows "clientKey n l r = host"
proof -
  have "cut_at (CHR '':'') (rev (hr_remote r)) = (rev port, rev host, True)"
    using assms(2,4) cut_at_append [of "CHR '':''" "rev port" "rev host"] by simp
  then show ?thesis using assms(1,3) by (simp add: clientKey_def cut_last_def)
qed

text \<open>C5: guessing is throttled: of the attempts to sign in and the requests with a token that arrive from
  one address, at most twice the limit are let through in any window however it is laid, and one is turned
  away only when the limit has been used up within the window before it; and a client that is not a trusted
  proxy is known by the address it connects from, whatever its headers say and whichever port it uses.\<close>

theorem guessing_is_throttled:
  assumes "li_hits l = []" "budget l = (limit, window)" "1 \<le> limit" "0 < window" "in_turn t qs"
  shows "(\<forall>k a. passes window a (passed n l k (watched n qs l)) \<le> 2 * limit)
    \<and> (\<forall>before u r after. watched n qs l = before @ (u, r, False) # after
          \<longrightarrow> limit \<le> passes window (u - window) (passed n l (clientKey n l r) before))
    \<and> (\<forall>r host port. \<not> believesForwarded n l (hr_remote r) \<and> hr_remote r = host @ CHR '':'' # port \<and> host \<noteq> []
          \<and> CHR '':'' \<notin> set port \<longrightarrow> clientKey n l r = host)"
proof (intro conjI allI impI; (elim conjE)?)
  have start: "counted_well limit window t l k []" for k
    using assms(1,3) by (simp add: counted_well_def quiet_def)
  have one: "distinct (map fst (li_hits l))" using assms(1) by simp
  note counts = watched_counts [OF assms(5) start one assms(2,4,3), of n, unfolded append_Nil]
  show "passes window a (passed n l k (watched n qs l)) \<le> 2 * limit" for k a
    using counts [of k] by blast
  show "limit \<le> passes window (u - window) (passed n l (clientKey n l r) before)"
    if "watched n qs l = before @ (u, r, False) # after" for before u r after
    using counts [of "clientKey n l r"] that by blast
  show "clientKey n l r = host"
    if "\<not> believesForwarded n l (hr_remote r)" "hr_remote r = host @ CHR '':'' # port" "host \<noteq> []" "CHR '':'' \<notin> set port"
    for r host port
    using connection_key that by blast
qed

text \<open>A limiter of two attempts a minute, and one address trying three times.\<close>

definition guess :: "gostring \<Rightarrow> http_request" where
  "guess forwarded = \<lparr>hr_method = ''POST'', hr_path = ''/api/v1/auth/login'',
     hr_header = (\<lambda>k. if k = ''X-Forwarded-For'' then forwarded else []), hr_cookie = (\<lambda>_. None),
     hr_remote = ''10.0.0.9:4711'', hr_host = ''time.example.org'', hr_tls = True, hr_length = 0\<rparr>"

definition sample_net :: net where
  "sample_net = \<lparr>parse_addr = (\<lambda>_. None),
     parse_prefix = (\<lambda>_. None), url_host = (\<lambda>s. Some s)\<rparr>"

definition three_guesses :: "(int \<times> http_request) list" where
  "three_guesses = [(0, guess ''1.1.1.1''), (1, guess ''2.2.2.2''), (2, guess ''3.3.3.3'')]"

lemma guessing_is_throttled_witness:
  "passes 60 0 (passed sample_net (NewRateLimiter 0 2 60) ''10.0.0.9''
       (watched sample_net three_guesses (NewRateLimiter 0 2 60))) \<le> 4
   \<and> clientKey sample_net (NewRateLimiter 0 2 60) (guess ''1.1.1.1'') = ''10.0.0.9''"
proof -
  let ?l = "NewRateLimiter 0 2 60"
  have budget: "budget ?l = (2, 60)" by (simp add: NewRateLimiter_def budget_def)
  have turn: "in_turn 0 three_guesses" by (simp add: three_guesses_def)
  have untrusted: "\<not> believesForwarded sample_net ?l (hr_remote (guess ''1.1.1.1''))"
    by (simp add: believesForwarded_def sample_net_def Let_def split: option.split)
  have remote: "hr_remote (guess ''1.1.1.1'') = ''10.0.0.9'' @ CHR '':'' # ''4711''" by (simp add: guess_def)
  have "li_hits ?l = []" "(1::int) \<le> 2" "(0::int) < 60" by (simp_all add: NewRateLimiter_def)
  note all = guessing_is_throttled [OF this(1) budget this(2,3) turn, of sample_net]
  have "passes 60 0 (passed sample_net ?l ''10.0.0.9'' (watched sample_net three_guesses ?l)) \<le> 2 * 2"
    using all by blast
  moreover have "clientKey sample_net ?l (guess ''1.1.1.1'') = ''10.0.0.9''"
    by (rule all [THEN conjunct2, THEN conjunct2, rule_format, where port = "''4711''"])
      (use untrusted remote in simp)
  ultimately show ?thesis by simp
qed

section \<open>Personal tokens\<close>

datatype token_event =
    Issue env crypto uint gostring int
  | Withdraw uint uint
  | Use env crypto gostring db

fun token_step :: "token_event \<Rightarrow> token_table \<Rightarrow> token_table" where
  "token_step (Issue e c user label days) b = snd (token_Create e c user label days b)"
| "token_step (Withdraw i user) b = snd (token_Revoke i user b)"
| "token_step (Use e c secret d) b = snd (token_Resolve e c secret d b)"

fun token_steps :: "token_event list \<Rightarrow> token_table \<Rightarrow> token_table" where
  "token_steps [] b = b"
| "token_steps (x # xs) b = token_steps xs (token_step x b)"

definition tokens_valid :: "token_table \<Rightarrow> bool" where
  "tokens_valid b \<longleftrightarrow> distinct (map at_ID (tt_rows b)) \<and> (\<forall>x \<in> set (tt_rows b). at_ID x \<le> tt_last b)
     \<and> distinct (map at_TokenHash (tt_rows b))
     \<and> (\<forall>user. length (filter (\<lambda>x. at_UserID x = user) (tt_rows b)) \<le> 20)"

text \<open>What a step leaves of a hash: no new row bears it but by issuing it.\<close>

fun issues :: "gostring \<Rightarrow> token_event \<Rightarrow> bool" where
  "issues h (Issue e c user label days) = (HashToken c (APITokenPrefix @ fresh_token c) = h)"
| "issues h _ = False"

lemma touched_simps [simp]:
  "map at_ID (tt_rows (TouchLastUsed t i b)) = map at_ID (tt_rows b)"
  "map at_TokenHash (tt_rows (TouchLastUsed t i b)) = map at_TokenHash (tt_rows b)"
  "tt_last (TouchLastUsed t i b) = tt_last b"
  "length (filter (\<lambda>x. at_UserID x = user) (tt_rows (TouchLastUsed t i b))) = length (filter (\<lambda>x. at_UserID x = user) (tt_rows b))"
proof -
  show "length (filter (\<lambda>x. at_UserID x = user) (tt_rows (TouchLastUsed t i b))) = length (filter (\<lambda>x. at_UserID x = user) (tt_rows b))"
    by (simp add: TouchLastUsed_def filter_map comp_def if_distrib [of at_UserID] cong: if_cong)
qed (simp_all add: TouchLastUsed_def comp_def if_distrib [of at_ID] if_distrib [of at_TokenHash] cong: if_cong)

lemma tokens_valid_ids: "tokens_valid b \<longleftrightarrow> distinct (map at_ID (tt_rows b)) \<and> (\<forall>i \<in> set (map at_ID (tt_rows b)). i \<le> tt_last b)
     \<and> distinct (map at_TokenHash (tt_rows b))
     \<and> (\<forall>user. length (filter (\<lambda>x. at_UserID x = user) (tt_rows b)) \<le> 20)"
  by (simp add: tokens_valid_def)

lemma Use_table: "\<exists>t i. snd (token_Resolve e c secret d b) = b \<or> snd (token_Resolve e c secret d b) = TouchLastUsed t i b"
  by (auto simp: token_Resolve_def split: sum.split)

lemma Issue_table:
  "snd (token_Create e c user label days b) = b
   \<or> (length (filter (\<lambda>x. at_UserID x = user) (tt_rows b)) < 20
      \<and> (\<forall>y \<in> set (tt_rows b). at_TokenHash y \<noteq> HashToken c (APITokenPrefix @ fresh_token c))
      \<and> (\<exists>x. at_ID x = tt_last b + 1 \<and> at_UserID x = user \<and> at_TokenHash x = HashToken c (APITokenPrefix @ fresh_token c)
           \<and> snd (token_Create e c user label days b) = \<lparr>tt_rows = tt_rows b @ [x], tt_last = tt_last b + 1\<rparr>))"
  by (auto simp: token_Create_def Let_def token_Save_def new_token_def token_ListForUser_def maxTokensPerUser_def list_ex_iff)

lemma token_step_keeps:
  assumes "tokens_valid b"
  shows "tokens_valid (token_step x b)"
    and "\<not> issues h x \<Longrightarrow> h \<notin> set (map at_TokenHash (tt_rows b)) \<Longrightarrow> h \<notin> set (map at_TokenHash (tt_rows (token_step x b)))"
proof -
  have "tokens_valid (token_step x b) \<and> (\<not> issues h x \<longrightarrow> h \<notin> set (map at_TokenHash (tt_rows b))
      \<longrightarrow> h \<notin> set (map at_TokenHash (tt_rows (token_step x b))))"
  proof (cases x)
    case (Issue e c user label days)
    from Issue_table [of e c user label days b] show ?thesis
    proof (elim disjE conjE exE)
      assume "snd (token_Create e c user label days b) = b"
      then show ?thesis using assms Issue by simp
    next
      fix y
      assume y: "length (filter (\<lambda>x. at_UserID x = user) (tt_rows b)) < 20"
        "\<forall>y \<in> set (tt_rows b). at_TokenHash y \<noteq> HashToken c (APITokenPrefix @ fresh_token c)"
        "at_ID y = tt_last b + 1" "at_UserID y = user" "at_TokenHash y = HashToken c (APITokenPrefix @ fresh_token c)"
        "snd (token_Create e c user label days b) = \<lparr>tt_rows = tt_rows b @ [y], tt_last = tt_last b + 1\<rparr>"
      have "tokens_valid \<lparr>tt_rows = tt_rows b @ [y], tt_last = tt_last b + 1\<rparr>"
        using assms y(1-5) unfolding tokens_valid_def by (force simp: le_Suc_eq)
      then show ?thesis using Issue y(5,6) by simp
    qed
  next
    case (Withdraw i user)
    have "tokens_valid (snd (token_Delete i user b))"
    proof -
      have "length (filter (\<lambda>x. at_UserID x = u) (filter P (tt_rows b))) \<le> 20" for u P
        using assms length_filter_le [of P "filter (\<lambda>x. at_UserID x = u) (tt_rows b)"]
        unfolding tokens_valid_def by (simp add: conj_commute) (meson le_trans)
      then show ?thesis using assms by (auto simp: token_Delete_def tokens_valid_def distinct_map_filter)
    qed
    then show ?thesis using Withdraw by (auto simp: token_Revoke_def token_Delete_def)
  next
    case (Use e c secret d)
    then show ?thesis using assms Use_table [of e c secret d b] by (auto simp: tokens_valid_ids simp del: set_map)
  qed
  then show "tokens_valid (token_step x b)"
    and "\<not> issues h x \<Longrightarrow> h \<notin> set (map at_TokenHash (tt_rows b)) \<Longrightarrow> h \<notin> set (map at_TokenHash (tt_rows (token_step x b)))"
    by blast+
qed

lemma token_steps_keep:
  assumes "tokens_valid b" "\<forall>x \<in> set xs. \<not> issues h x" "h \<notin> set (map at_TokenHash (tt_rows b))"
  shows "tokens_valid (token_steps xs b) \<and> h \<notin> set (map at_TokenHash (tt_rows (token_steps xs b)))"
  using assms
proof (induction xs arbitrary: b)
  case (Cons x xs)
  then show ?case using token_step_keeps(1) [OF Cons.prems(1), of x] token_step_keeps(2) [OF Cons.prems(1), of h x] by simp
qed simp

lemma unknown_token:
  "HashToken c secret \<notin> set (map at_TokenHash (tt_rows b)) \<Longrightarrow> token_Resolve e c secret d b = (Inl invalid_token, b)"
proof -
  assume "HashToken c secret \<notin> set (map at_TokenHash (tt_rows b))"
  then have "List.find (\<lambda>x. at_TokenHash x = HashToken c secret) (tt_rows b) = None"
    by (force simp: find_None_iff)
  then show ?thesis by (simp add: token_Resolve_def token_GetByHash_def missingOr_def KindOf_def)
qed

lemma token_opens:
  assumes "token_Resolve e c secret d b = (Inr p, b')"
  obtains x u where "x \<in> set (tt_rows b)" "at_TokenHash x = HashToken c secret" "\<not> token_Expired x (now e)"
    "user_at d (at_UserID x) = Some u" "\<not> us_MustChangePassword u" "p = principalFor d (withRoleName (db_roles d) u)"
proof -
  obtain x where x: "token_GetByHash (HashToken c secret) b = Inr x"
    using assms by (cases "token_GetByHash (HashToken c secret) b") (simp_all add: token_Resolve_def split: if_splits)
  then have row: "x \<in> set (tt_rows b)" "at_TokenHash x = HashToken c secret"
    by (auto simp: token_GetByHash_def find_Some_iff split: option.splits)
  have live: "\<not> token_Expired x (now e)" using assms x by (auto simp: token_Resolve_def split: if_splits)
  obtain v where v: "user_GetByID (db_roles d) (at_UserID x) (db_users d) = Inr v"
    using assms x live by (cases "user_GetByID (db_roles d) (at_UserID x) (db_users d)") (simp_all add: token_Resolve_def split: if_splits)
  then obtain u where u: "user_at d (at_UserID x) = Some u" "v = withRoleName (db_roles d) u" by (auto simp: user_GetByID_Inr)
  have "\<not> us_MustChangePassword v \<and> principalFor d v = p"
    using assms x live v by (auto simp: token_Resolve_def split: if_splits)
  then show ?thesis using that [OF row live u(1)] u(2) by (simp add: withRoleName_keeps)
qed

text \<open>C6: a personal token opens what its owner may do now and nothing once it is revoked: it acts as an
  account there is, with the rights of the role that account has at that moment; only its owner revokes it;
  and from then on its secret is refused, whatever tokens are issued, revoked and used after, as long as no
  new one is given the same secret - and nobody ever holds more than twenty.\<close>

theorem revoked_token_opens_nothing:
  assumes "tokens_valid b" "x \<in> set (tt_rows b)" "token_Revoke (at_ID x) user b = (Inr (), b')"
    and "\<forall>ev \<in> set events. \<not> issues (at_TokenHash x) ev"
  shows "at_UserID x = user
    \<and> (\<forall>e c secret d p b''. token_Resolve e c secret d b = (Inr p, b'') \<and> HashToken c secret = at_TokenHash x
         \<longrightarrow> (\<exists>u. user_at d user = Some u \<and> \<not> us_MustChangePassword u
               \<and> p = principalFor d (withRoleName (db_roles d) u)))
    \<and> (\<forall>e c secret d. HashToken c secret = at_TokenHash x
         \<longrightarrow> fst (token_Resolve e c secret d (token_steps events b')) = Inl invalid_token)
    \<and> (\<forall>v. length (token_ListForUser v (token_steps events b')) \<le> 20)"
proof -
  obtain y where y: "y \<in> set (tt_rows b)" "at_ID y = at_ID x" "at_UserID y = user"
    "b' = b\<lparr>tt_rows := filter (\<lambda>z. \<not> (at_ID z = at_ID x \<and> at_UserID z = user)) (tt_rows b)\<rparr>"
    using assms(3) by (auto simp: token_Revoke_def token_Delete_def list_ex_iff split: if_splits)
  have "y = x" using assms(1,2) y(1,2) by (auto simp: tokens_valid_def distinct_map inj_on_def)
  then have mine: "at_UserID x = user" using y(3) by simp
  have same: "z = x" if "z \<in> set (tt_rows b)" "at_TokenHash z = at_TokenHash x" for z
    using assms(1,2) that by (auto simp: tokens_valid_def distinct_map inj_on_def)
  have gone: "at_TokenHash x \<notin> set (map at_TokenHash (tt_rows b'))"
    using same mine by (force simp: y(4))
  have "b' = token_step (Withdraw (at_ID x) user) b" using assms(3) by simp
  then have "tokens_valid b'" using token_step_keeps(1) [OF assms(1), of "Withdraw (at_ID x) user"] by metis
  from token_steps_keep [OF this assms(4) gone]
  have end_state: "tokens_valid (token_steps events b')" "at_TokenHash x \<notin> set (map at_TokenHash (tt_rows (token_steps events b')))"
    by blast+
  have "\<exists>u. user_at d user = Some u \<and> \<not> us_MustChangePassword u \<and> p = principalFor d (withRoleName (db_roles d) u)"
    if r: "token_Resolve e c secret d b = (Inr p, b'')" "HashToken c secret = at_TokenHash x" for e c secret d p b''
  proof (rule token_opens [OF r(1)])
    fix z u
    assume "z \<in> set (tt_rows b)" "at_TokenHash z = HashToken c secret" "user_at d (at_UserID z) = Some u"
      "\<not> us_MustChangePassword u" "p = principalFor d (withRoleName (db_roles d) u)"
    then show ?thesis using same [of z] r(2) mine by auto
  qed
  moreover have "fst (token_Resolve e c secret d (token_steps events b')) = Inl invalid_token"
    if "HashToken c secret = at_TokenHash x" for e c secret d
    using unknown_token [of c secret "token_steps events b'"] end_state(2) that by simp
  moreover have "length (token_ListForUser v (token_steps events b')) \<le> 20" for v
    using end_state(1) by (simp add: token_ListForUser_def tokens_valid_def)
  ultimately show ?thesis using mine by blast
qed

definition sample_token :: api_token where
  "sample_token = \<lparr>at_ID = 1, at_UserID = 1, at_Name = ''script'', at_TokenHash = ''h'', at_Prefix = ''gtr_abcdef'',
     at_CreatedAt = midnight 20000, at_ExpiresAt = None, at_LastUsedAt = None\<rparr>"

lemma revoked_token_opens_nothing_witness:
  "fst (token_Resolve sample_env (sample_crypto\<lparr>sha256_hex := \<lambda>_. ''h''\<rparr>) ''gtr_abcdefgh'' sample_db
     (snd (token_Revoke 1 1 \<lparr>tt_rows = [sample_token], tt_last = 1\<rparr>))) = Inl invalid_token"
proof -
  let ?b = "\<lparr>tt_rows = [sample_token], tt_last = 1\<rparr>"
  have valid: "tokens_valid ?b" by (simp add: tokens_valid_def sample_token_def)
  have row: "sample_token \<in> set (tt_rows ?b)" by simp
  have id: "at_ID sample_token = 1" by (simp add: sample_token_def)
  obtain b' where b': "token_Revoke (at_ID sample_token) 1 ?b = (Inr (), b')"
    by (simp add: token_Revoke_def token_Delete_def sample_token_def)
  have "HashToken (sample_crypto\<lparr>sha256_hex := \<lambda>_. ''h''\<rparr>) ''gtr_abcdefgh'' = at_TokenHash sample_token"
    by (simp add: HashToken_def sample_token_def)
  with revoked_token_opens_nothing [OF valid row b', of "[]"]
  have "fst (token_Resolve sample_env (sample_crypto\<lparr>sha256_hex := \<lambda>_. ''h''\<rparr>) ''gtr_abcdefgh'' sample_db b') = Inl invalid_token"
    by simp
  then show ?thesis using b' by (simp add: id)
qed

end
