(* ===== verification/WireRules.thy ===== *)
theory WireRules
  imports Wire
begin

text \<open>
  What is written over the wire is read back as it was.
\<close>

section \<open>Digits\<close>

lemma digits_value_zeros: "digits_value 0 (replicate k (CHR ''0'') @ ds) = digits_value 0 ds"
  by (induction k) (simp_all add: byte_def)

lemma format_uint_short: "0 < w \<Longrightarrow> n < 10 ^ w \<Longrightarrow> length (format_uint n) \<le> w"
proof (induction n arbitrary: w rule: format_uint.induct)
  case (1 n)
  show ?case
  proof (cases "n < 10")
    case True
    then show ?thesis using 1(2) by (subst format_uint.simps) simp
  next
    case False
    with 1(2,3) obtain v where v: "w = Suc v" "0 < v" by (cases w; cases "w - 1") auto
    then have "n div 10 < 10 ^ v" using 1(3) by (simp add: less_mult_imp_div_less)
    from 1(1) [OF False v(2) this] False v(1) show ?thesis by (subst format_uint.simps) simp
  qed
qed

lemma padded_digits:
  assumes "0 < w" "n < 10 ^ w"
  shows "length (padded w (int n)) = w" "list_all is_digit_char (padded w (int n))" "digits_value 0 (padded w (int n)) = n"
proof -
  have p: "padded w (int n) = replicate (w - length (format_uint n)) (CHR ''0'') @ format_uint n"
    by (simp add: padded_def Let_def)
  show "length (padded w (int n)) = w" using format_uint_short [OF assms] by (simp add: p)
  show "list_all is_digit_char (padded w (int n))"
    using format_uint_digits [of n] by (auto simp: p list_all_iff is_digit_char_def byte_def)
  show "digits_value 0 (padded w (int n)) = n" by (simp add: p digits_value_zeros digits_value_format)
qed

lemma getyear_padded:
  assumes "n < 10000"
  shows "getyear (padded 4 (int n) @ s) = Some (n, s)"
  using padded_digits [of 4 n] assms by (simp add: getyear_def)

lemma getnum_padded:
  assumes "n < 100"
  shows "getnum True (padded 2 (int n) @ s) = Some (n, s)"
proof -
  note p = padded_digits [of 2 n]
  obtain a b where ab: "padded 2 (int n) = [a, b]"
    using p(1) assms by (auto simp: numeral_2_eq_2 length_Suc_conv)
  show ?thesis using p(2,3) assms by (simp add: ab getnum_def digit_at_def)
qed

section \<open>Months\<close>

lemma year_day_bounds: "0 \<le> year_day d" "year_day d < (if leap_year (year_of d) then 366 else 365)"
  using year_of_spec [of d] year_start_Suc [of "year_of d"] by (auto simp: year_day_def)

definition month_in :: "bool \<Rightarrow> int \<Rightarrow> int" where
  "month_in l n = 1 + int (length (filter (\<lambda>m. month_start l m \<le> n) [2..12]))"

lemma months: "1 \<le> m \<Longrightarrow> m \<le> 12 \<Longrightarrow> m \<in> {1, 2, 3, 4, 5, 6, 7, 8, 9, 10, 11, 12 :: int}"
  unfolding insert_iff empty_iff by presburger

lemma month_start_step: "1 \<le> m \<Longrightarrow> m \<le> 12 \<Longrightarrow> month_start l m < month_start l (m + 1)"
  by (drule (1) months) (auto simp: month_start_def)

lemma month_start_mono: "i \<le> j \<Longrightarrow> 1 \<le> i \<Longrightarrow> j \<le> 13 \<Longrightarrow> month_start l i \<le> month_start l j"
proof (induction j rule: int_ge_induct)
  case (step j)
  then show ?case using month_start_step [of j l] by simp
qed simp

lemma month_in_eq:
  assumes "1 \<le> k" "k \<le> 12" "month_start l k \<le> n" "n < month_start l (k + 1)"
  shows "month_in l n = k"
proof -
  have "filter (\<lambda>m. month_start l m \<le> n) [2..k] = [2..k]"
    using month_start_mono [of _ k l] assms by (intro filter_True) fastforce
  moreover have "filter (\<lambda>m. month_start l m \<le> n) [k + 1..12] = []"
    using month_start_mono [of "k + 1" _ l] assms by (intro filter_False) fastforce
  moreover have "[2..12] = [2..k] @ [k + 1..12]"
    using upto_split2 [of 2 k 12] assms by (cases "k = 1") simp_all
  ultimately show ?thesis using assms(1) by (simp add: month_in_def)
qed

lemma month_found:
  assumes "0 \<le> n" "n < (if l then 366 else 365)"
  shows "\<exists>k. 1 \<le> k \<and> k \<le> 12 \<and> month_start l k \<le> n \<and> n < month_start l (k + 1)"
proof (rule ccontr)
  assume none: "\<not> ?thesis"
  have "month_start l k \<le> n" if "1 \<le> k" "k \<le> 13" for k
    using that
  proof (induction k rule: int_ge_induct)
    case base
    then show ?case using assms(1) by (simp add: month_start_def)
  next
    case (step k)
    then show ?case using none by force
  qed
  from this [of 13] show False using assms(2) by (simp add: month_start_def split: if_splits)
qed

lemma month_in_bounds:
  assumes "0 \<le> n" "n < (if l then 366 else 365)"
  shows "1 \<le> month_in l n" "month_in l n \<le> 12" "month_start l (month_in l n) \<le> n"
    "n < month_start l (month_in l n + 1)"
proof -
  obtain k where "1 \<le> k" "k \<le> 12" "month_start l k \<le> n" "n < month_start l (k + 1)"
    using month_found [OF assms] by blast
  then show "1 \<le> month_in l n" "month_in l n \<le> 12" "month_start l (month_in l n) \<le> n"
    "n < month_start l (month_in l n + 1)" using month_in_eq by simp_all
qed

lemma month_of_in: "month_of d = month_in (leap_year (year_of d)) (year_day d)"
  by (simp add: month_of_def month_in_def Let_def)

lemma month_parts:
  shows "1 \<le> month_of d" "month_of d \<le> 12" "1 \<le> month_day d" "month_day d \<le> days_in (year_of d) (month_of d)"
    and "date (year_of d) (month_of d) (month_day d) = d"
proof -
  let ?l = "leap_year (year_of d)"
  note b = month_in_bounds [OF year_day_bounds [of d], folded month_of_in]
  show m: "1 \<le> month_of d" "month_of d \<le> 12" by (fact b)+
  show "1 \<le> month_day d" using b(3) by (simp add: month_day_def)
  have within: "(month_of d - 1) div 12 = 0" "(month_of d - 1) mod 12 = month_of d - 1" using m by auto
  show "date (year_of d) (month_of d) (month_day d) = d"
    unfolding date_def Let_def within by (simp add: month_day_def year_day_def)
  have start: "date (year_of d) (month_of d) 1 = year_start (year_of d) + month_start ?l (month_of d)"
    unfolding date_def Let_def within by simp
  have "date (year_of d) (month_of d + 1) 1 = year_start (year_of d) + month_start ?l (month_of d + 1)"
  proof (cases "month_of d = 12")
    case True
    then show ?thesis using year_start_Suc [of "year_of d"] by (simp add: date_def Let_def month_start_def)
  next
    case False
    then have "month_of d div 12 = 0" "month_of d mod 12 = month_of d" using m by auto
    then show ?thesis by (simp add: date_def Let_def)
  qed
  then show "month_day d \<le> days_in (year_of d) (month_of d)"
    using b(4) start by (simp add: days_in_def month_day_def)
qed

lemma days_in_31: "1 \<le> m \<Longrightarrow> m \<le> 12 \<Longrightarrow> days_in y m \<le> 31"
proof -
  assume m: "1 \<le> m" "m \<le> 12"
  have "m \<in> {1, 2, 3, 4, 5, 6, 7, 8, 9, 10, 11, 12}" using months [OF m] .
  then show "days_in y m \<le> 31"
    using year_start_Suc [of y] by (elim insertE emptyE) (simp_all add: days_in_def date_def Let_def month_start_def)
qed

lemma plain_char:
  assumes "is_digit_char c \<or> c = CHR ''-''"
  shows "byte c < 128 \<and> \<not> is_space (byte c)"
proof -
  have "45 \<le> byte c \<and> byte c \<le> 57" using assms by (auto simp: is_digit_char_def byte_def)
  then show ?thesis by (simp add: is_space_def)
qed

lemma read_day_format:
  assumes "0 \<le> year_of d" "year_of d < 10000"
  shows "read_day (format_day d @ s) = Some (d, s)"
proof -
  obtain y m x where n: "year_of d = int y" "month_of d = int m" "month_day d = int x"
    using assms(1) month_parts(1,3) [of d] by (metis zero_le_imp_eq_int order_trans zero_le_one)
  note p = month_parts [of d, unfolded n]
  have "x \<le> 31" using p(4) days_in_31 [OF p(1,2), of "int y"] by linarith
  then have b: "1 \<le> m" "m < 13" "1 \<le> x" "x < 32" "y < 10000" "m < 100" "x < 100" using p assms(2) n(1) by auto
  show ?thesis
    unfolding read_day_def format_day_def n
    using b p(4,5) by (simp add: getyear_padded getnum_padded skip_def below_def)
qed

text \<open>C7: a day written into an answer is read back as that day: the text of any stored date up to the
  year 9999 is accepted in a request, wherever the server stands, and means the same day; and what is read
  is always midnight UTC of a calendar day.\<close>

theorem dates_round_trip:
  assumes "0 \<le> year_of d" "year_of d < 10000" "d \<noteq> local_day zero_time"
  shows "Date_UnmarshalJSON server (Date_MarshalJSON (midnight d)) field = Inr (midnight d)
    \<and> (\<forall>v t. Date_UnmarshalJSON server v field = Inr t \<longrightarrow> t = field \<or> (\<exists>x. t = midnight x))"
proof -
  have chars: "list_all (\<lambda>c. is_digit_char c \<or> c = CHR ''-'') (format_day d)"
  proof -
    obtain y m x where n: "year_of d = int y" "month_of d = int m" "month_day d = int x"
      using assms(1) month_parts(1,3) [of d] by (metis zero_le_imp_eq_int order_trans zero_le_one)
    have "x \<le> 31" using month_parts(4) [of d] days_in_31 [of "month_of d" "year_of d"] month_parts(1,2) [of d] n(3) by linarith
    then have "y < 10 ^ 4" "m < 10 ^ 2" "x < 10 ^ 2" using assms(2) month_parts(2) [of d] n by auto
    then show ?thesis
      using padded_digits(2) [of 4 y] padded_digits(2) [of 2 m] padded_digits(2) [of 2 x]
      by (auto simp: format_day_def n list_all_iff)
  qed
  have trim: "TrimSpace (format_day d) = format_day d"
    by (rule TrimSpace_ascii_word) (use chars plain_char in \<open>auto simp: list_all_iff\<close>)
  have read: "parse_date server (format_day d) = Some (midnight d)"
    using read_day_format [OF assms(1,2), of "[]"] by (simp add: parse_date_def parse_day_def)
  then have ne: "format_day d \<noteq> []" using read_day_format [OF assms(1,2), of "[]"] by (auto simp: read_day_def getyear_def)
  have "\<not> is_zero_time (midnight d)" using assms(3) by (auto simp: zero_time_def is_zero_time_def)
  then have "Date_UnmarshalJSON server (Date_MarshalJSON (midnight d)) field = Inr (midnight d)"
    using ne by (simp add: Date_UnmarshalJSON_def Date_MarshalJSON_def trim read CalendarDay_def)
  moreover have "t = field \<or> (\<exists>x. t = midnight x)" if "Date_UnmarshalJSON server v field = Inr t" for v t
    using that by (auto simp: Date_UnmarshalJSON_def Let_def split: json_value.splits if_splits option.splits)
  ultimately show ?thesis by blast
qed

lemma dates_round_trip_witness:
  "Date_UnmarshalJSON UTC (Date_MarshalJSON (midnight 20000)) zero_time = Inr (midnight 20000)"
proof (rule dates_round_trip [THEN conjunct1])
  have "year_of 20000 = 2024" unfolding year_of_def Let_def by simp
  then show "0 \<le> year_of 20000" "year_of 20000 < 10000" by simp_all
  show "20000 \<noteq> local_day zero_time" by (simp add: zero_time_def)
qed

end
