(* ===== verification/OwnTime.thy ===== *)
theory OwnTime
  imports Requests
begin

text \<open>
  The routes about the caller's own days: the stopwatch (\<^verbatim>\<open>timer_handler.go\<close>), days away
  (\<^verbatim>\<open>absence_handler.go\<close>), planned weeks (\<^verbatim>\<open>schedule_handler.go\<close>), leave
  (\<^verbatim>\<open>vacation_handler.go\<close>), recorded working days (\<^verbatim>\<open>workday_handler.go\<close>), the days and the
  balance of a range (\<^verbatim>\<open>day.go\<close>, \<^verbatim>\<open>me_handler.go\<close>, \<^verbatim>\<open>me_notice.go\<close>) and the reports over them
  (\<^verbatim>\<open>timesheet_handler.go\<close>); with the zone a day is counted in
  (\<^verbatim>\<open>domain/model/timezone_model.go\<close>).

  None of these routes that writes takes a user: what it writes is the caller's.  The clock is read
  once per request.
\<close>

section \<open>Zones\<close>

definition DefaultTimezone :: gostring where "DefaultTimezone = ''UTC''"

definition IsSupportedTimezone :: "(gostring \<Rightarrow> location option) \<Rightarrow> gostring \<Rightarrow> bool" where
  "IsSupportedTimezone load z \<longleftrightarrow> z \<noteq> [] \<and> load z \<noteq> None"

fun first_zone :: "(gostring \<Rightarrow> location option) \<Rightarrow> gostring list \<Rightarrow> location" where
  "first_zone load [] = UTC"
| "first_zone load (z # zs) =
     (if z = [] then first_zone load zs
      else case load z of Some l \<Rightarrow> l | None \<Rightarrow> first_zone load zs)"

definition EffectiveTimezone :: "(gostring \<Rightarrow> location option) \<Rightarrow> gostring \<Rightarrow> gostring \<Rightarrow> location" where
  "EffectiveTimezone load user_zone instance_zone = first_zone load [user_zone, instance_zone, DefaultTimezone]"

definition TimezoneOf :: "request \<Rightarrow> user \<Rightarrow> location" where
  "TimezoneOf r u = EffectiveTimezone (rq_load_zone r) (us_Timezone u) (rq_instance_zone r)"

text \<open>\<^verbatim>\<open>AddDate(0, months, days)\<close>.\<close>

definition AddMonthsDays :: "gotime \<Rightarrow> int \<Rightarrow> int \<Rightarrow> gotime" where
  "AddMonthsDays t months days =
     (let x = local_day t
      in wall_in (date (year_of x) (month_of x + months) (month_day x + days) * 86400
                  + (unix t + offset_at (loc t) (unix t)) mod 86400) (ns t mod 10 ^ 9) (loc t))"

section \<open>Ranges of dates\<close>

text \<open>What the two parameters say, over the range they default to.\<close>

definition given_range :: "request \<Rightarrow> gotime \<times> gotime \<Rightarrow> (gotime \<times> gotime) result" where
  "given_range r usual =
     bind_res (queryDate r ''from'') (\<lambda>fromParam.
     bind_res (queryDate r ''to'') (\<lambda>toParam.
     Inr (case fromParam of None \<Rightarrow> fst usual | Some t \<Rightarrow> t,
          case toParam of None \<Rightarrow> snd usual | Some t \<Rightarrow> t)))"

definition yearRange :: "env \<Rightarrow> request \<Rightarrow> location \<Rightarrow> (gotime \<times> gotime) result" where
  "yearRange e r l =
     (let year = year_of (local_day (in_zone (now e) l))
      in given_range r (midnight (date year 1 1), midnight (date year 12 31)))"

definition weekRange :: "env \<Rightarrow> request \<Rightarrow> location \<Rightarrow> (gotime \<times> gotime) result" where
  "weekRange e r l =
     (let today = local_day (in_zone (now e) l); sinceMonday = (weekday today + 6) mod 7;
          from = date_in (date (year_of today) (month_of today) (month_day today - sinceMonday)) l
      in given_range r (from, AddDays from 6))"

definition monthRange :: "env \<Rightarrow> request \<Rightarrow> location \<Rightarrow> (gotime \<times> gotime) result" where
  "monthRange e r l =
     (let today = local_day (in_zone (now e) l); from = date_in (date (year_of today) (month_of today) 1) l
      in given_range r (from, AddMonthsDays from 1 (- 1)))"

definition overtimeRange :: "env \<Rightarrow> request \<Rightarrow> location \<Rightarrow> (gotime \<times> gotime) result" where
  "overtimeRange e r l =
     bind_res (queryDate r ''from'') (\<lambda>fromParam.
     bind_res (queryDate r ''to'') (\<lambda>toParam.
     let to = (case toParam of None \<Rightarrow> in_zone (now e) l | Some t \<Rightarrow> t)
     in Inr (case fromParam of None \<Rightarrow> date_in (date (year_of (local_day to)) (month_of (local_day to)) 1) l | Some t \<Rightarrow> t, to)))"

text \<open>The day a path names.\<close>

definition path_day :: "request \<Rightarrow> gostring \<Rightarrow> gotime result" where
  "path_day r field =
     (case parse_day (TrimSpace (rq_path r)) of None \<Rightarrow> Inl (InvalidFields [field]) | Some t \<Rightarrow> Inr t)"

section \<open>The stopwatch\<close>

record timer_request =
  tq_ProjectID :: "uint option"
  tq_Description :: "gostring option"

record timer_response =
  tw_Running :: bool
  tw_ProjectID :: "uint option"
  tw_Description :: "gostring option"
  tw_StartedAt :: "gotime option"
  tw_ElapsedHours :: float64

definition no_timer :: timer_response where
  "no_timer = \<lparr>tw_Running = False, tw_ProjectID = None, tw_Description = None, tw_StartedAt = None,
     tw_ElapsedHours = Fin 0\<rparr>"

definition newTimerResponse :: "env \<Rightarrow> running_timer option \<Rightarrow> timer_response" where
  "newTimerResponse e timer =
     (case timer of
        None \<Rightarrow> no_timer
      | Some t \<Rightarrow> \<lparr>tw_Running = True, tw_ProjectID = ti_ProjectID t, tw_Description = ti_Description t,
                   tw_StartedAt = Some (ti_StartedAt t), tw_ElapsedHours = HoursElapsed t (in_zone (now e) UTC)\<rparr>)"

text \<open>\<^verbatim>\<open>time.ParseInLocation\<close> with a day and a time of day, with or without seconds; seconds may carry
  a fraction the layout does not ask for.\<close>

definition parse_wall :: "bool \<Rightarrow> location \<Rightarrow> gostring \<Rightarrow> gotime option" where
  "parse_wall with_seconds l s =
     Option.bind (read_day s) (\<lambda>(d, s).
     Option.bind (skip (CHR ''T'') s) (\<lambda>s.
     Option.bind (below 0 24 (getnum False s)) (\<lambda>(h, s).
     Option.bind (skip (CHR '':'') s) (\<lambda>s.
     Option.bind (below 0 60 (getnum True s)) (\<lambda>(m, s).
     if \<not> with_seconds
     then if s = [] then Some (wall_in (d * 86400 + int (h * 3600 + m * 60)) 0 l) else None
     else Option.bind (skip (CHR '':'') s) (\<lambda>s.
          Option.bind (below 0 60 (getnum True s)) (\<lambda>(x, s).
          let (nanos, s) = read_fraction s
          in if s = [] then Some (wall_in (d * 86400 + int (h * 3600 + m * 60 + x)) (int nanos) l) else None)))))))"

definition parseMoment :: "location \<Rightarrow> gostring \<Rightarrow> location option \<Rightarrow> gotime option" where
  "parseMoment server raw zone =
     (let raw = TrimSpace raw; l = (case zone of None \<Rightarrow> UTC | Some z \<Rightarrow> z)
      in case parse_rfc3339 server raw of
           Some t \<Rightarrow> Some t
         | None \<Rightarrow> (case parse_wall True l raw of Some t \<Rightarrow> Some t | None \<Rightarrow> parse_wall False l raw))"

definition handle_timer_Running :: "authorizer \<Rightarrow> env \<Rightarrow> request \<Rightarrow> site \<Rightarrow> timer_response answer" where
  "handle_timer_Running a e r s =
     bind_res (Require a r PermTimesheetWriteOwn) (\<lambda>p.
     Inr (newTimerResponse e (Running (caller_id p) (site_db s))))"

text \<open>\<open>left\<close> is what binding the body left in the request, whether it bound or not.\<close>

definition handle_timer_Start :: "authorizer \<Rightarrow> env \<Rightarrow> request \<Rightarrow> timer_request \<Rightarrow> site \<Rightarrow> timer_response answer \<times> site" where
  "handle_timer_Start a e r left s =
     carry_out (bind_res (Require a r PermTimesheetWriteOwn) (\<lambda>p. Inr (caller_id p)))
       (\<lambda>u. timer_service_Start e u (tq_ProjectID left) (tq_Description left)) (newTimerResponse e \<circ> Some) s"

definition handle_timer_Adjust ::
  "authorizer \<Rightarrow> env \<Rightarrow> request \<Rightarrow> gostring option \<Rightarrow> site \<Rightarrow> timer_response answer \<times> site" where
  "handle_timer_Adjust a e r body s =
     carry_out
       (bind_res (Require a r PermTimesheetWriteOwn) (\<lambda>p.
        bind_res (answer (bind_body body)) (\<lambda>raw.
        case parseMoment (rq_server_zone r) raw (Some (TimezoneOf r (caller_account p))) of
          None \<Rightarrow> Inl (toHTTPError (InvalidFields [''startedAt'']))
        | Some t \<Rightarrow> Inr (caller_id p, t))))
       (\<lambda>(u, t). AdjustStart e u t) (newTimerResponse e \<circ> Some) s"

text \<open>The end a stop names: none without a body or with a blank one.\<close>

definition stop_end :: "request \<Rightarrow> location \<Rightarrow> gostring option option \<Rightarrow> gotime option answer" where
  "stop_end r zone body =
     (case body of
        None \<Rightarrow> Inr None
      | Some sent \<Rightarrow> bind_res (answer (bind_body sent)) (\<lambda>raw.
          if TrimSpace raw = [] then Inr None
          else case parseMoment (rq_server_zone r) raw (Some zone) of
                 None \<Rightarrow> Inl (toHTTPError (InvalidFields [''endedAt'']))
               | Some t \<Rightarrow> Inr (Some t)))"

definition handle_timer_Stop ::
  "authorizer \<Rightarrow> env \<Rightarrow> request \<Rightarrow> gostring option option \<Rightarrow> site \<Rightarrow> timesheet_response answer \<times> site" where
  "handle_timer_Stop a e r body s =
     carry_out
       (bind_res (Require a r PermTimesheetWriteOwn) (\<lambda>p.
        let zone = TimezoneOf r (caller_account p)
        in bind_res (stop_end r zone body) (\<lambda>endedAt. Inr (caller_id p, zone, endedAt))))
       (\<lambda>(u, zone, endedAt). Stop e u (Some zone) endedAt) newTimesheetResponse s"

definition handle_timer_Switch ::
  "authorizer \<Rightarrow> env \<Rightarrow> request \<Rightarrow> timer_request \<Rightarrow> site \<Rightarrow> (timesheet_response \<times> timer_response) answer \<times> site" where
  "handle_timer_Switch a e r left s =
     carry_out (bind_res (Require a r PermTimesheetWriteOwn) (\<lambda>p. Inr (caller_id p, TimezoneOf r (caller_account p))))
       (\<lambda>(u, zone). Switch e u (Some zone) (tq_ProjectID left) (tq_Description left))
       (\<lambda>(booked, timer). (newTimesheetResponse booked, newTimerResponse e (Some timer))) s"

definition handle_timer_Discard :: "authorizer \<Rightarrow> request \<Rightarrow> site \<Rightarrow> timer_response answer \<times> site" where
  "handle_timer_Discard a r s =
     carry_out (bind_res (Require a r PermTimesheetWriteOwn) (\<lambda>p. Inr (caller_id p)))
       (\<lambda>u d. (Inr (), Discard u d)) (\<lambda>_. no_timer) s"

section \<open>Days away\<close>

record absence_response =
  bp_Day :: day
  bp_Kind :: gostring

record absence_request =
  bq_From :: gotime
  bq_To :: gotime
  bq_Kind :: gostring

definition absenceItems :: "absence list \<Rightarrow> absence_response list_response" where
  "absenceItems absences =
     \<lparr>lr_Items = map (\<lambda>x. \<lparr>bp_Day = ab_day x, bp_Kind = ab_kind x\<rparr>) absences,
      lr_TotalCount = length absences, lr_PageSize = 0\<rparr>"

definition handle_absence_List ::
  "authorizer \<Rightarrow> env \<Rightarrow> request \<Rightarrow> site \<Rightarrow> absence_response list_response answer" where
  "handle_absence_List a e r s =
     bind_res (Require a r PermTimesheetReadOwn) (\<lambda>p.
     bind_res (answer (yearRange e r (TimezoneOf r (caller_account p)))) (\<lambda>(from, to).
     bind_res (answer (Absences (caller_id p) from to (site_db s))) (\<lambda>absences. Inr (absenceItems absences))))"

definition handle_absence_Save ::
  "authorizer \<Rightarrow> calendar \<Rightarrow> request \<Rightarrow> absence_request option \<Rightarrow> site
     \<Rightarrow> absence_response list_response answer \<times> site" where
  "handle_absence_Save a cal r body s =
     carry_out
       (bind_res (Require a r PermTimesheetWriteOwn) (\<lambda>p.
        bind_res (answer (bind_body body)) (\<lambda>req. Inr (caller_id p, req))))
       (\<lambda>(u, req). RecordAbsence cal u (bq_From req) (bq_To req) (bq_Kind req)) absenceItems s"

definition handle_absence_Delete :: "authorizer \<Rightarrow> request \<Rightarrow> site \<Rightarrow> unit answer \<times> site" where
  "handle_absence_Delete a r s =
     carry_out
       (bind_res (Require a r PermTimesheetWriteOwn) (\<lambda>p.
        bind_res (answer (path_day r ''day'')) (\<lambda>day. Inr (caller_id p, day))))
       (\<lambda>(u, day). RemoveAbsence u day) id s"

section \<open>Planned weeks\<close>

record schedule_response =
  sx_ValidFrom :: day
  sx_Hours :: week_hours

record schedule_request =
  sq_ValidFrom :: gotime
  sq_Hours :: "float64 list"

definition newScheduleResponse :: "work_schedule \<Rightarrow> schedule_response" where
  "newScheduleResponse x = \<lparr>sx_ValidFrom = ws_from x, sx_Hours = ws_hours x\<rparr>"

definition handle_schedule_List :: "authorizer \<Rightarrow> request \<Rightarrow> site \<Rightarrow> (schedule_response list \<times> week_hours) answer" where
  "handle_schedule_List a r s =
     bind_res (Require a r PermSettingsWriteOwn) (\<lambda>p.
     bind_res (answer (Planned (caller_id p) (site_db s))) (\<lambda>planned.
     Inr (map newScheduleResponse (pw_Schedules planned), pw_Before planned)))"

definition handle_schedule_Save ::
  "authorizer \<Rightarrow> request \<Rightarrow> schedule_request option \<Rightarrow> site \<Rightarrow> schedule_response answer \<times> site" where
  "handle_schedule_Save a r body s =
     carry_out
       (bind_res (Require a r PermSettingsWriteOwn) (\<lambda>p.
        bind_res (answer (bind_body body)) (\<lambda>req.
        if length (sq_Hours req) \<noteq> 7 then Inl (toHTTPError (InvalidFields [''hours'']))
        else Inr (caller_id p, req))))
       (\<lambda>(u, req). Plan u (sq_ValidFrom req) (sq_Hours req)) newScheduleResponse s"

definition handle_schedule_Delete :: "authorizer \<Rightarrow> request \<Rightarrow> site \<Rightarrow> unit answer \<times> site" where
  "handle_schedule_Delete a r s =
     carry_out
       (bind_res (Require a r PermSettingsWriteOwn) (\<lambda>p.
        bind_res (answer (path_day r ''validFrom'')) (\<lambda>day. Inr (caller_id p, day))))
       (\<lambda>(u, day). RemovePlan u day) id s"

section \<open>Leave\<close>

record vacation_response =
  vp_Year :: int
  vp_Entitlement :: float64
  vp_CarriedOver :: float64
  vp_Taken :: float64
  vp_Planned :: float64
  vp_Remaining :: float64
  vp_Entitlements :: "(int \<times> float64) list"

definition newVacationResponse :: "vacation_account \<Rightarrow> vacation_response" where
  "newVacationResponse x =
     (let y = va_Year x
      in \<lparr>vp_Year = vy_Year y, vp_Entitlement = vy_Entitlement y, vp_CarriedOver = vy_CarriedOver y,
          vp_Taken = vy_Taken y, vp_Planned = vy_Planned y, vp_Remaining = Remaining y,
          vp_Entitlements = map (\<lambda>t. (ve_from_year t, ve_days t)) (va_Entitlements x)\<rparr>)"

definition handle_vacation_Year ::
  "authorizer \<Rightarrow> env \<Rightarrow> calendar \<Rightarrow> request \<Rightarrow> site \<Rightarrow> vacation_response answer" where
  "handle_vacation_Year a e cal r s =
     bind_res (Require a r PermTimesheetReadOwn) (\<lambda>p.
     let raw = TrimSpace (rq_param r ''year'')
     in bind_res (if raw = [] then Inr (year_of (local_day (in_zone (now e) (TimezoneOf r (caller_account p)))))
                  else case Atoi raw of None \<Rightarrow> Inl (toHTTPError (InvalidFields [''year''])) | Some y \<Rightarrow> Inr y) (\<lambda>year.
        bind_res (answer (Year e cal (caller_id p) year (site_db s))) (\<lambda>account. Inr (newVacationResponse account))))"

definition handle_vacation_Entitle ::
  "authorizer \<Rightarrow> env \<Rightarrow> calendar \<Rightarrow> request \<Rightarrow> (int \<times> float64 option) option \<Rightarrow> site
     \<Rightarrow> vacation_response answer \<times> site" where
  "handle_vacation_Entitle a e cal r body s =
     carry_out
       (bind_res (Require a r PermSettingsWriteOwn) (\<lambda>p.
        bind_res (answer (bind_body body)) (\<lambda>(fromYear, days).
        case days of None \<Rightarrow> Inl (toHTTPError (InvalidFields [''days''])) | Some n \<Rightarrow> Inr (caller_id p, fromYear, n))))
       (\<lambda>(u, fromYear, days) d.
          (case Entitle u fromYear days d of
             (Inl err, d') \<Rightarrow> (Inl err, d')
           | (Inr _, d') \<Rightarrow> (Year e cal u fromYear d', d')))
       newVacationResponse s"

definition handle_vacation_Withdraw :: "authorizer \<Rightarrow> request \<Rightarrow> site \<Rightarrow> unit answer \<times> site" where
  "handle_vacation_Withdraw a r s =
     carry_out
       (bind_res (Require a r PermSettingsWriteOwn) (\<lambda>p.
        case Atoi (TrimSpace (rq_path r)) of
          None \<Rightarrow> Inl (toHTTPError (InvalidFields [''fromYear'']))
        | Some y \<Rightarrow> Inr (caller_id p, y)))
       (\<lambda>(u, y). Withdraw u y) id s"

section \<open>Recorded working days\<close>

record work_day_response =
  wp_Date :: day
  wp_Recorded :: bool
  wp_Start :: gostring
  wp_End :: gostring
  wp_BreakMinutes :: int
  wp_WorkedHours :: float64
  wp_BookedHours :: float64
  wp_Notices :: "notice list"

record work_days_response =
  wl_From :: day
  wl_To :: day
  wl_Days :: "work_day_response list"
  wl_TotalWorked :: float64
  wl_TotalBooked :: float64

record work_day_request =
  wq_Start :: gostring
  wq_End :: gostring
  wq_BreakMinutes :: int

text \<open>The minutes of a recorded day are never negative, so the division truncates downwards.\<close>

definition clockOf :: "int \<Rightarrow> gostring" where
  "clockOf minute = padded 2 (minute div 60) @ '':'' @ padded 2 (minute mod 60)"

definition minuteOf :: "gostring \<Rightarrow> int option" where
  "minuteOf clock =
     (let s = TrimSpace clock; hours = takeWhile (\<lambda>c. c \<noteq> CHR '':'') s; rest = dropWhile (\<lambda>c. c \<noteq> CHR '':'') s
      in if rest = [] \<or> length hours \<noteq> 2 \<or> length (tl rest) \<noteq> 2 then None
         else case (Atoi hours, Atoi (tl rest)) of
                (Some h, Some m) \<Rightarrow>
                  if h < 0 \<or> m < 0 \<or> m > 59 then None
                  else if h * 60 + m \<le> MinutesPerDay then Some (h * 60 + m) else None
              | _ \<Rightarrow> None)"

definition described_day :: "work_day_record \<Rightarrow> work_day_response" where
  "described_day x =
     (let w = wr_day x
      in if wr_Recorded x
         then \<lparr>wp_Date = wd_day w, wp_Recorded = True, wp_Start = clockOf (wd_start w), wp_End = clockOf (wd_end w),
               wp_BreakMinutes = wd_break w, wp_WorkedHours = fdiv (float_of_int (WorkedMinutes w)) (Fin 60),
               wp_BookedHours = wr_BookedHours x, wp_Notices = wr_Notices x\<rparr>
         else \<lparr>wp_Date = wd_day w, wp_Recorded = False, wp_Start = [], wp_End = [], wp_BreakMinutes = 0,
               wp_WorkedHours = Fin 0, wp_BookedHours = wr_BookedHours x, wp_Notices = wr_Notices x\<rparr>)"

definition work_days_answer :: "gotime \<Rightarrow> gotime \<Rightarrow> work_day_record list \<Rightarrow> work_days_response" where
  "work_days_answer from to days =
     (let booked = foldl (\<lambda>acc x. fadd acc (wr_BookedHours x)) (Fin 0) days;
          worked = sum_list (map (\<lambda>x. WorkedMinutes (wr_day x)) (filter wr_Recorded days))
      in \<lparr>wl_From = CalendarDay from, wl_To = CalendarDay to, wl_Days = map described_day days,
          wl_TotalWorked = fdiv (float_of_int worked) (Fin 60),
          wl_TotalBooked = fdiv (fround (fmul booked (Fin 100))) (Fin 100)\<rparr>)"

definition handle_workday_List :: "authorizer \<Rightarrow> env \<Rightarrow> request \<Rightarrow> site \<Rightarrow> work_days_response answer" where
  "handle_workday_List a e r s =
     bind_res (Require a r PermTimesheetReadOwn) (\<lambda>p.
     bind_res (answer (monthRange e r (TimezoneOf r (caller_account p)))) (\<lambda>(from, to).
     bind_res (answer (WorkDaysBetween e (caller_id p) from to (site_db s))) (\<lambda>days.
     Inr (work_days_answer from to days))))"

definition handle_workday_Record ::
  "authorizer \<Rightarrow> request \<Rightarrow> work_day_request option \<Rightarrow> site \<Rightarrow> unit answer \<times> site" where
  "handle_workday_Record a r body s =
     carry_out
       (bind_res (Require a r PermTimesheetWriteOwn) (\<lambda>p.
        bind_res (answer (path_day r ''date'')) (\<lambda>day.
        bind_res (answer (bind_body body)) (\<lambda>req.
        case minuteOf (wq_Start req) of
          None \<Rightarrow> Inl (toHTTPError (InvalidFields [''start'']))
        | Some starts \<Rightarrow>
            (case minuteOf (wq_End req) of
               None \<Rightarrow> Inl (toHTTPError (InvalidFields [''end'']))
             | Some ends \<Rightarrow>
                 Inr (day, \<lparr>wd_user = caller_id p, wd_day = CalendarDay day, wd_start = starts, wd_end = ends,
                            wd_break = wq_BreakMinutes req\<rparr>))))))
       (\<lambda>(day, w). RecordWorkDay day w) id s"

definition handle_workday_Remove :: "authorizer \<Rightarrow> request \<Rightarrow> site \<Rightarrow> unit answer \<times> site" where
  "handle_workday_Remove a r s =
     carry_out
       (bind_res (Require a r PermTimesheetWriteOwn) (\<lambda>p.
        bind_res (answer (path_day r ''date'')) (\<lambda>day. Inr (caller_id p, day))))
       (\<lambda>(u, day). RemoveWorkDay u day) id s"

section \<open>Days, balance and notices\<close>

record days_response =
  dp_From :: day
  dp_To :: day
  dp_Days :: "day_view list"
  dp_TotalBooked :: float64
  dp_TotalTarget :: float64

definition days_answer :: "gotime \<Rightarrow> gotime \<Rightarrow> day_view list \<Rightarrow> days_response" where
  "days_answer from to days =
     \<lparr>dp_From = CalendarDay from, dp_To = CalendarDay to, dp_Days = days,
      dp_TotalBooked = foldl (\<lambda>acc x. fadd acc (dv_Booked x)) (Fin 0) days,
      dp_TotalTarget = foldl (\<lambda>acc x. fadd acc (dv_Target x)) (Fin 0) days\<rparr>"

definition handle_Days :: "authorizer \<Rightarrow> env \<Rightarrow> calendar \<Rightarrow> request \<Rightarrow> site \<Rightarrow> days_response answer" where
  "handle_Days a e cal r s =
     bind_res (Require a r PermTimesheetReadOwn) (\<lambda>p.
     bind_res (answer (queryUint r ''userId'')) (\<lambda>requested.
     bind_res (accountFor a p requested somebodyElsesEntries [PermTimesheetReadTeam] s) (\<lambda>account.
     bind_res (answer (weekRange e r (TimezoneOf r account))) (\<lambda>(from, to).
     bind_res (answer (Days e cal (us_ID account) from to (site_db s))) (\<lambda>days.
     Inr (days_answer from to (DaysSeenBy days account (Some p))))))))"

definition handle_Overtime :: "authorizer \<Rightarrow> env \<Rightarrow> calendar \<Rightarrow> request \<Rightarrow> site \<Rightarrow> overtime_balance answer" where
  "handle_Overtime a e cal r s =
     bind_res (answer (pathID r)) (\<lambda>i.
     bind_res (authz_Principal a r) (\<lambda>p.
     bind_res (accountFor a p i (HForbidden ''onlyOwnOvertime'' []) [PermTimesheetReadTeam] s) (\<lambda>account.
     if Enforced a \<and> \<not> Can p PermReportReadOwn then Inl (missingPermission PermReportReadOwn)
     else bind_res (answer (overtimeRange e r (TimezoneOf r account))) (\<lambda>(from, to).
          bind_res (answer (Balance e cal (us_ID account) from to (site_db s))) (\<lambda>balance.
          Inr (SeenBy balance (Some p)))))))"

record notices_response =
  np_Balance :: "running_balance option"
  np_UnbookedDay :: "day option"

definition handle_Notices :: "authorizer \<Rightarrow> env \<Rightarrow> calendar \<Rightarrow> request \<Rightarrow> site \<Rightarrow> notices_response answer" where
  "handle_Notices a e cal r s =
     bind_res (authz_Principal a r) (\<lambda>p.
     let readsBalance = Can p PermReportReadOwn; readsEntries = Can p PermTimesheetReadOwn
     in if caller_id p = 0 \<or> (\<not> readsBalance \<and> \<not> readsEntries)
        then Inr \<lparr>np_Balance = None, np_UnbookedDay = None\<rparr>
        else bind_res (answer (Notices e cal (caller_id p) (site_db s))) (\<lambda>x.
             Inr \<lparr>np_Balance = (if readsBalance then Some (nt_Balance x) else None),
                  np_UnbookedDay = (if readsEntries then nt_UnbookedDay x else None)\<rparr>))"

definition handle_SetBalanceLimits ::
  "authorizer \<Rightarrow> env \<Rightarrow> calendar \<Rightarrow> request \<Rightarrow> (float64 option \<times> float64 option) option \<Rightarrow> site
     \<Rightarrow> notices_response answer \<times> site" where
  "handle_SetBalanceLimits a e cal r body s =
     (case bind_res (Require a r PermSettingsWriteOwn) (\<lambda>p.
           bind_res (answer (bind_body body)) (\<lambda>req. Inr (caller_id p, req))) of
        Inl refusal \<Rightarrow> (Inl refusal, s)
      | Inr (u, highest, lowest) \<Rightarrow>
          (case SetBalanceLimits u highest lowest (site_db s) of
             (Inl err, d) \<Rightarrow> (Inl (toHTTPError err), s\<lparr>site_db := d\<rparr>)
           | (Inr _, d) \<Rightarrow> let s' = s\<lparr>site_db := d\<rparr> in (handle_Notices a e cal r s', s')))"

section \<open>Reports\<close>

record report_response =
  rp_ProjectID :: uint
  rp_From :: gotime
  rp_To :: gotime
  rp_Entries :: "(uint \<times> float64) list"
  rp_TotalHours :: float64

definition reportScope :: "request \<Rightarrow> project_scope result" where
  "reportScope r =
     (let raw = TrimSpace (rq_param r ''projectId'')
      in if raw = [] then Inr \<lparr>sc_ProjectID = 0, sc_Unassigned = False\<rparr>
         else if raw = ''none'' then Inr \<lparr>sc_ProjectID = 0, sc_Unassigned = True\<rparr>
         else bind_res (parseUint raw ''projectId'') (\<lambda>i. Inr \<lparr>sc_ProjectID = i, sc_Unassigned = False\<rparr>))"

definition reportAccount :: "authorizer \<Rightarrow> request \<Rightarrow> principal \<Rightarrow> site \<Rightarrow> user answer" where
  "reportAccount a r p s =
     bind_res (answer (queryUint r ''userId'')) (\<lambda>requested.
     accountFor a p requested somebodyElsesEntries [PermTimesheetReadTeam] s)"

definition reportRange :: "env \<Rightarrow> request \<Rightarrow> user \<Rightarrow> (gotime \<times> gotime) answer" where
  "reportRange e r account =
     bind_res (answer (queryDate r ''from'')) (\<lambda>fromParam.
     bind_res (answer (queryDate r ''to'')) (\<lambda>toParam.
     let to = (case toParam of None \<Rightarrow> in_zone (now e) (TimezoneOf r account) | Some t \<Rightarrow> t);
         from = (case fromParam of None \<Rightarrow> AddDays to (- 30) | Some t \<Rightarrow> t)
     in if ns to < ns from then Inl (toHTTPError rangeInverted) else Inr (from, to)))"

definition handle_OwnReport :: "authorizer \<Rightarrow> env \<Rightarrow> request \<Rightarrow> site \<Rightarrow> report_response answer" where
  "handle_OwnReport a e r s =
     bind_res (Require a r PermReportReadOwn) (\<lambda>p.
     bind_res (reportAccount a r p s) (\<lambda>account.
     bind_res (answer (reportScope r)) (\<lambda>scope.
     bind_res (reportRange e r account) (\<lambda>(from, to).
     bind_res (answer (GenerateOwnTimeReport e scope from to (us_ID account) (site_db s))) (\<lambda>total.
     Inr \<lparr>rp_ProjectID = sc_ProjectID scope, rp_From = from, rp_To = to,
          rp_Entries = (if fless (Fin 0) total then [(us_ID account, total)] else []), rp_TotalHours = total\<rparr>)))))"

text \<open>The entries come out of a map, in the order it gives them: \<open>shuffled\<close> stands for it.  The total
  is added up in that order, the entries are sorted.\<close>

definition handle_Report ::
  "authorizer \<Rightarrow> env \<Rightarrow> ((uint \<times> float64) list \<Rightarrow> (uint \<times> float64) list) \<Rightarrow> request \<Rightarrow> site \<Rightarrow> report_response answer" where
  "handle_Report a e shuffled r s =
     bind_res (Require a r PermReportReadOwn) (\<lambda>p.
     bind_res (answer (pathID r)) (\<lambda>projectID.
     bind_res (reportAccount a r p s) (\<lambda>account.
     bind_res (reportRange e r account) (\<lambda>(from, to).
     let others = Enforced a \<and> us_ID account \<noteq> caller_id p;
         viewer = (if others then us_ID account else viewerID a p);
         only = (if others then us_ID account else authz_reportScope a p)
     in bind_res (answer (GenerateProjectTimeReport e projectID from to viewer only (site_db s))) (\<lambda>perUser.
        let found = shuffled perUser
        in Inr \<lparr>rp_ProjectID = projectID, rp_From = from, rp_To = to, rp_Entries = sort_by (by_key fst) found,
                rp_TotalHours = foldl (\<lambda>acc x. fadd acc (snd x)) (Fin 0) found\<rparr>)))))"

end
