(* ===== verification/OwnTimeRules.thy ===== *)
theory OwnTimeRules
  imports OwnTime WireRules RequestRules Diary
begin

text \<open>
  What the routes about the caller's own days keep: nobody's days, clock or hours are touched by
  anybody else, and times of day are read back as they are shown.
\<close>

section \<open>The time kept for an account\<close>

record kept_time =
  kt_hours :: "uint \<Rightarrow> (timesheet \<times> revision list) option"
  kt_clock :: "running_timer option"
  kt_away :: "day \<Rightarrow> absence option"
  kt_worked :: "day \<Rightarrow> work_day option"
  kt_weeks :: "day \<Rightarrow> work_schedule option"
  kt_leave :: "int \<Rightarrow> vacation_entitlement option"

definition time_of :: "uint \<Rightarrow> db \<Rightarrow> kept_time" where
  "time_of u d =
     \<lparr>kt_hours = kept_for u (db_timesheets d), kt_clock = timer_Get u (db_timers d),
      kt_away = (\<lambda>x. dated_find absence_key u x (db_absences d)),
      kt_worked = (\<lambda>x. dated_find workday_key u x (db_workdays d)),
      kt_weeks = (\<lambda>x. dated_find schedule_key u x (db_schedules d)),
      kt_leave = (\<lambda>y. dated_find entitlement_key u y (db_entitlements d))\<rparr>"

definition clocks_fine :: "db \<Rightarrow> bool" where
  "clocks_fine d \<longleftrightarrow> repo_valid (db_timesheets d) \<and> timers_keyed (db_timers d)"

definition leaves_time :: "uint \<Rightarrow> db \<Rightarrow> db \<Rightarrow> bool" where
  "leaves_time u d d' \<longleftrightarrow> clocks_fine d' \<and> time_of u d' = time_of u d"

lemma leaves_time_refl: "clocks_fine d \<Longrightarrow> leaves_time u d d"
  by (simp add: leaves_time_def)

lemma dated_find_delete_other:
  "u \<noteq> v \<Longrightarrow> dated_find key u x (snd (dated_delete key v y xs)) = dated_find key u x xs"
  unfolding dated_find_def by (induction xs) (auto split: prod.splits)

lemma find_absence_Save_other:
  "\<forall>b \<in> set as. ab_user b \<noteq> u \<Longrightarrow> dated_find absence_key u x (absence_Save as r) = dated_find absence_key u x r"
  by (induction as arbitrary: r) (simp_all add: dated_find_save absence_key_def)

text \<open>The diary is written one list at a time.\<close>

lemma leaves_lists:
  assumes "clocks_fine d"
  shows "u \<noteq> v \<Longrightarrow> leaves_time u d (d\<lparr>db_absences := snd (dated_delete absence_key v x (db_absences d))\<rparr>)"
    "u \<noteq> v \<Longrightarrow> leaves_time u d (d\<lparr>db_workdays := snd (dated_delete workday_key v x (db_workdays d))\<rparr>)"
    "u \<noteq> v \<Longrightarrow> leaves_time u d (d\<lparr>db_schedules := snd (dated_delete schedule_key v x (db_schedules d))\<rparr>)"
    "u \<noteq> v \<Longrightarrow> leaves_time u d (d\<lparr>db_entitlements := snd (dated_delete entitlement_key v x (db_entitlements d))\<rparr>)"
    "wd_user w \<noteq> u \<Longrightarrow> leaves_time u d (d\<lparr>db_workdays := dated_save workday_key w (db_workdays d)\<rparr>)"
    "ws_user p \<noteq> u \<Longrightarrow> leaves_time u d (d\<lparr>db_schedules := dated_save schedule_key p (db_schedules d)\<rparr>)"
    "ve_user t \<noteq> u \<Longrightarrow> leaves_time u d (d\<lparr>db_entitlements := dated_save entitlement_key t (db_entitlements d)\<rparr>)"
    "\<forall>b \<in> set as. ab_user b \<noteq> u \<Longrightarrow> leaves_time u d (d\<lparr>db_absences := absence_Save as (db_absences d)\<rparr>)"
    "leaves_time u d (d\<lparr>db_users := us\<rparr>)"
  using assms
  by (simp_all add: leaves_time_def clocks_fine_def time_of_def dated_find_delete_other dated_find_save
      find_absence_Save_other workday_key_def schedule_key_def entitlement_key_def)

lemma diary_leaves:
  assumes "clocks_fine d" "v \<noteq> u"
  shows "leaves_time u d (snd (RecordAbsence cal v from to kind d))" "leaves_time u d (snd (RemoveAbsence v x d))"
    "leaves_time u d (snd (Entitle v year days d))" "leaves_time u d (snd (Withdraw v year d))"
    "leaves_time u d (snd (Plan v t hours d))" "leaves_time u d (snd (RemovePlan v t d))"
    "wd_user w = v \<Longrightarrow> leaves_time u d (snd (RecordWorkDay x w d))" "leaves_time u d (snd (RemoveWorkDay v x d))"
    "leaves_time u d (snd (SetBalanceLimits v highest lowest d))"
proof -
  note lists = leaves_lists [OF assms(1)] leaves_time_refl [OF assms(1)]
  have "\<forall>b \<in> set as. ab_user b = v" if "recorded_absences cal v from to kind d = Inr as" for as
    using that unfolding recorded_absences_def Let_def by (auto simp: bind_res_Inr split: if_splits)
  then show "leaves_time u d (snd (RecordAbsence cal v from to kind d))"
    using assms(2) by (auto simp: RecordAbsence_def intro!: lists split: sum.split)
  show "leaves_time u d (snd (RemoveAbsence v x d))" "leaves_time u d (snd (Withdraw v year d))"
    "leaves_time u d (snd (RemovePlan v t d))" "leaves_time u d (snd (RemoveWorkDay v x d))"
    using assms(2) lists(1-4) [of u v]
    by (simp_all add: RemoveAbsence_def absence_Delete_def Withdraw_def entitlement_Delete_def RemovePlan_def
        schedule_Delete_def RemoveWorkDay_def workday_Delete_def Let_def case_prod_beta)
  show "leaves_time u d (snd (Entitle v year days d))" "leaves_time u d (snd (Plan v t hours d))"
    "leaves_time u d (snd (SetBalanceLimits v highest lowest d))"
    using assms(2)
    by (auto simp: Entitle_def entitlement_Save_def Plan_def schedule_Save_def SetBalanceLimits_def Let_def
        intro!: lists split: sum.split prod.split option.split)
  show "leaves_time u d (snd (RecordWorkDay x w d))" if "wd_user w = v"
    using assms(2) that by (auto simp: RecordWorkDay_def workday_Save_def intro!: lists)
qed

section \<open>The clock\<close>

lemma leaves_clock:
  assumes "clocks_fine d" "v \<noteq> u"
  shows "leaves_time u d (d\<lparr>db_timers := timer_Clear v (db_timers d)\<rparr>)"
    "leaves_time u d (d\<lparr>db_timers := timer_MoveStart v x (db_timers d)\<rparr>)"
    "ti_UserID t = v \<Longrightarrow> leaves_time u d (d\<lparr>db_timers := timer_Start t (db_timers d)\<rparr>)"
  using assms by (simp_all add: leaves_time_def clocks_fine_def time_of_def timers_keyed_after)

lemma leaves_time_trans: "leaves_time u d d1 \<Longrightarrow> leaves_time u d1 d2 \<Longrightarrow> leaves_time u d d2"
  by (simp add: leaves_time_def)

lemma Create_leaves:
  assumes "clocks_fine d" "repo_room (db_timesheets d)" "ct_UserID cmd \<noteq> u" "CreateTimesheet e cmd d = (res, d')"
  shows "leaves_time u d d'"
proof (cases res)
  case (Inl err)
  then have "d' = d" using assms(4) by (intro Create_refused) simp
  then show ?thesis using leaves_time_refl [OF assms(1)] by simp
next
  case (Inr x)
  then have d': "d' = d\<lparr>db_timesheets := snd (ts_Save (now e) (new_entry cmd) (db_timesheets d))\<rparr>"
    using assms(4) by (intro Create_accepted(4)) simp
  have r: "repo_valid (db_timesheets d)" using assms(1) by (simp add: clocks_fine_def)
  then show ?thesis
    using assms(1,3) ts_Save_valid [OF r assms(2)]
    by (simp add: d' leaves_time_def clocks_fine_def time_of_def kept_for_save repo_valid_def new_entry_def)
qed

lemma clock_of: "clocks_fine d \<Longrightarrow> timer_Get v (db_timers d) = Some t \<Longrightarrow> ti_UserID t = v"
  by (simp add: clocks_fine_def timers_keyed_def)

lemma book_leaves:
  assumes "clocks_fine d" "repo_room (db_timesheets d)" "ti_UserID timer \<noteq> u" "book e timer zone end d = (res, d')"
  shows "leaves_time u d d'"
  using book_cases [OF assms(4)]
proof (elim disjE exE conjE)
  show "leaves_time u d d'" if "d' = d" using that leaves_time_refl [OF assms(1)] by simp
  fix r d1
  assume c: "CreateTimesheet e (booking_of timer zone end) d = (Inr r, d1)"
    and d': "d1\<lparr>db_timers := timer_Clear (ti_UserID timer) (db_timers d1)\<rparr> = d'"
  have first: "leaves_time u d d1"
    using Create_leaves [OF assms(1,2) _ c] assms(3) by (simp add: booking_of_def)
  then have "clocks_fine d1" by (simp add: leaves_time_def)
  from leaves_clock(1) [OF this assms(3)] show "leaves_time u d d'"
    unfolding d' by (rule leaves_time_trans [OF first])
qed

lemma clock_leaves:
  assumes "clocks_fine d" "repo_room (db_timesheets d)" "v \<noteq> u"
  shows "timer_service_Start e v p desc d = (w, d') \<Longrightarrow> leaves_time u d d'"
    "AdjustStart e v x d = (w, d') \<Longrightarrow> leaves_time u d d'"
    "Stop e v zone endedAt d = (w2, d') \<Longrightarrow> leaves_time u d d'"
    "Switch e v zone p desc d = (w3, d') \<Longrightarrow> leaves_time u d d'"
    "leaves_time u d (Discard v d)"
proof -
  note same = leaves_time_refl [OF assms(1), of u] and clock = leaves_clock [OF assms(1,3)]
  show "leaves_time u d d'" if "timer_service_Start e v p desc d = (w, d')"
    using Start_cases [OF that] same clock(3) by (auto simp: startAt_def Let_def)
  show "leaves_time u d d'" if "AdjustStart e v x d = (w, d')"
    using Adjust_cases [OF that] same clock(2) by auto
  show "leaves_time u d d'" if "Stop e v zone endedAt d = (w2, d')"
    using Stop_cases [OF that] same book_leaves [OF assms(1,2)] clock_of [OF assms(1)] assms(3) by metis
  show "leaves_time u d (Discard v d)" unfolding Discard_def by (rule clock(1))
  show "leaves_time u d d'" if "Switch e v zone p desc d = (w3, d')"
    using Switch_cases [OF that]
  proof (elim disjE exE conjE)
    show "leaves_time u d d'" if "d' = d" using that same by simp
    fix timer r d1 t
    assume t: "timer_Get v (db_timers d) = Some timer" and b: "book e timer zone (readClock e) d = (Inr r, d1)"
      and s: "startAt v p desc (readClock e) d1 = (t, d')"
    have first: "leaves_time u d d1"
      using book_leaves [OF assms(1,2) _ b] clock_of [OF assms(1) t] assms(3) by simp
    then have "clocks_fine d1" by (simp add: leaves_time_def)
    from leaves_clock(3) [OF this assms(3)] show "leaves_time u d d'"
      using s by (intro leaves_time_trans [OF first]) (auto simp: startAt_def Let_def)
  qed
qed

section \<open>The requests\<close>

datatype own_request =
    StartR env request timer_request
  | AdjustR env request "gostring option"
  | StopR env request "gostring option option"
  | SwitchR env request timer_request
  | DiscardR request
  | AwayR calendar request "absence_request option"
  | BackR request
  | WeekR request "schedule_request option"
  | NoWeekR request
  | LeaveR env calendar request "(int \<times> float64 option) option"
  | NoLeaveR request
  | WorkedR request "work_day_request option"
  | UnworkedR request
  | BoundsR env calendar request "(float64 option \<times> float64 option) option"

fun who_asks :: "own_request \<Rightarrow> request" where
  "who_asks (StartR e r b) = r"
| "who_asks (AdjustR e r b) = r"
| "who_asks (StopR e r c) = r"
| "who_asks (SwitchR e r b) = r"
| "who_asks (DiscardR r) = r"
| "who_asks (AwayR cal r away) = r"
| "who_asks (BackR r) = r"
| "who_asks (WeekR r week) = r"
| "who_asks (NoWeekR r) = r"
| "who_asks (LeaveR e cal r leave) = r"
| "who_asks (NoLeaveR r) = r"
| "who_asks (WorkedR r worked) = r"
| "who_asks (UnworkedR r) = r"
| "who_asks (BoundsR e cal r bounds) = r"

fun serve_own :: "authorizer \<Rightarrow> own_request \<Rightarrow> site \<Rightarrow> site" where
  "serve_own a (StartR e r b) s = snd (handle_timer_Start a e r b s)"
| "serve_own a (AdjustR e r b) s = snd (handle_timer_Adjust a e r b s)"
| "serve_own a (StopR e r c) s = snd (handle_timer_Stop a e r c s)"
| "serve_own a (SwitchR e r b) s = snd (handle_timer_Switch a e r b s)"
| "serve_own a (DiscardR r) s = snd (handle_timer_Discard a r s)"
| "serve_own a (AwayR cal r away) s = snd (handle_absence_Save a cal r away s)"
| "serve_own a (BackR r) s = snd (handle_absence_Delete a r s)"
| "serve_own a (WeekR r week) s = snd (handle_schedule_Save a r week s)"
| "serve_own a (NoWeekR r) s = snd (handle_schedule_Delete a r s)"
| "serve_own a (LeaveR e cal r leave) s = snd (handle_vacation_Entitle a e cal r leave s)"
| "serve_own a (NoLeaveR r) s = snd (handle_vacation_Withdraw a r s)"
| "serve_own a (WorkedR r worked) s = snd (handle_workday_Record a r worked s)"
| "serve_own a (UnworkedR r) s = snd (handle_workday_Remove a r s)"
| "serve_own a (BoundsR e cal r bounds) s = snd (handle_SetBalanceLimits a e cal r bounds s)"

fun own_all :: "authorizer \<Rightarrow> own_request list \<Rightarrow> site \<Rightarrow> site" where
  "own_all a [] s = s"
| "own_all a (q # qs) s = own_all a qs (serve_own a q s)"

fun own_room :: "authorizer \<Rightarrow> own_request list \<Rightarrow> site \<Rightarrow> bool" where
  "own_room a [] s = True"
| "own_room a (q # qs) s = (repo_room (db_timesheets (site_db s)) \<and> own_room a qs (serve_own a q s))"

text \<open>Not sent by the account itself: by another one, or by nobody.\<close>

definition not_from :: "uint \<Rightarrow> request \<Rightarrow> bool" where
  "not_from u r \<longleftrightarrow> (case rq_presented r of SignedIn p \<Rightarrow> caller_id p \<noteq> u | _ \<Rightarrow> True)"

lemma carry_out_leaves:
  assumes "clocks_fine (site_db s)"
    and "\<And>cmd. agreed = Inr cmd \<Longrightarrow> leaves_time u (site_db s) (snd (run cmd (site_db s)))"
  shows "leaves_time u (site_db s) (site_db (snd (carry_out agreed run show s)))"
  using assms by (auto simp: carry_out_def leaves_time_refl case_prod_beta split: sum.split)

lemma another_asks:
  assumes "Enforced a" "not_from u r" "Require a r right = Inr p"
  shows "caller_id p \<noteq> u"
  using assms by (auto simp: Require_enforced [OF assms(1)] not_from_def)

lemma asked_by_another:
  assumes "Enforced a" "not_from u r" "bind_res (Require a r right) f = Inr cmd"
  obtains p where "caller_id p \<noteq> u" "f p = Inr cmd"
  using assms by (auto simp: bind_res_Inr Require_enforced [OF assms(1)] not_from_def)

lemma bound_body: "bind_res (answer (bind_body b)) f = Inr cmd \<Longrightarrow> \<exists>x. b = Some x \<and> f x = Inr cmd"
  by (cases b) (simp_all add: bind_body_def)

lemma serve_clock_leaves:
  assumes "Enforced a" "clocks_fine (site_db s)" "repo_room (db_timesheets (site_db s))" "not_from u r"
  shows "leaves_time u (site_db s) (site_db (snd (handle_timer_Start a e r b s)))"
    "leaves_time u (site_db s) (site_db (snd (handle_timer_Adjust a e r raw s)))"
    "leaves_time u (site_db s) (site_db (snd (handle_timer_Stop a e r sent s)))"
    "leaves_time u (site_db s) (site_db (snd (handle_timer_Switch a e r b s)))"
    "leaves_time u (site_db s) (site_db (snd (handle_timer_Discard a r s)))"
proof -
  note rule = carry_out_leaves [OF assms(2)] and who = asked_by_another [OF assms(1,4)] and other = another_asks [OF assms(1,4)]
  have clock: "leaves_time u (site_db s) (snd (timer_service_Start e v p desc (site_db s)))"
    "leaves_time u (site_db s) (snd (AdjustStart e v x (site_db s)))"
    "leaves_time u (site_db s) (snd (Stop e v zone t (site_db s)))"
    "leaves_time u (site_db s) (snd (Switch e v zone p desc (site_db s)))"
    "leaves_time u (site_db s) (Discard v (site_db s))" if "v \<noteq> u" for v p desc x zone t
    using clock_leaves [OF assms(2,3) that] by (metis surjective_pairing)+
  show "leaves_time u (site_db s) (site_db (snd (handle_timer_Start a e r b s)))"
    unfolding handle_timer_Start_def by (rule rule) (auto elim!: who intro: clock)
  show "leaves_time u (site_db s) (site_db (snd (handle_timer_Adjust a e r raw s)))"
    unfolding handle_timer_Adjust_def
    by (rule rule) (auto elim!: who dest!: bound_body intro: clock split: option.splits)
  show "leaves_time u (site_db s) (site_db (snd (handle_timer_Stop a e r sent s)))"
    unfolding handle_timer_Stop_def by (rule rule) (auto simp: Let_def bind_res_Inr dest: other intro!: clock)
  show "leaves_time u (site_db s) (site_db (snd (handle_timer_Switch a e r b s)))"
    unfolding handle_timer_Switch_def by (rule rule) (auto elim!: who intro: clock)
  show "leaves_time u (site_db s) (site_db (snd (handle_timer_Discard a r s)))"
    unfolding handle_timer_Discard_def by (rule rule) (auto elim!: who intro: clock)
qed

lemma Entitle_Year_leaves:
  assumes "clocks_fine d" "v \<noteq> u"
  shows "leaves_time u d (snd (case Entitle v y n d of (Inl err, d') \<Rightarrow> (Inl err, d') | (Inr _, d') \<Rightarrow> (Year e cal v y d', d')))"
  using diary_leaves(3) [OF assms, of y n] by (auto split: prod.split sum.split)

lemma serve_diary_leaves:
  assumes "Enforced a" "clocks_fine (site_db s)" "not_from u r"
  shows "leaves_time u (site_db s) (site_db (snd (handle_absence_Save a cal r away s)))"
    "leaves_time u (site_db s) (site_db (snd (handle_absence_Delete a r s)))"
    "leaves_time u (site_db s) (site_db (snd (handle_schedule_Save a r week s)))"
    "leaves_time u (site_db s) (site_db (snd (handle_schedule_Delete a r s)))"
    "leaves_time u (site_db s) (site_db (snd (handle_vacation_Entitle a e cal r leave s)))"
    "leaves_time u (site_db s) (site_db (snd (handle_vacation_Withdraw a r s)))"
    "leaves_time u (site_db s) (site_db (snd (handle_workday_Record a r worked s)))"
    "leaves_time u (site_db s) (site_db (snd (handle_workday_Remove a r s)))"
    "leaves_time u (site_db s) (site_db (snd (handle_SetBalanceLimits a e cal r bounds s)))"
proof -
  note rule = carry_out_leaves [OF assms(2)] and who = asked_by_another [OF assms(1,3)]
    and other = another_asks [OF assms(1,3)]
    and diary = diary_leaves [OF assms(2)]
  show "leaves_time u (site_db s) (site_db (snd (handle_absence_Save a cal r away s)))"
    unfolding handle_absence_Save_def by (rule rule) (auto elim!: who dest!: bound_body intro: diary)
  show "leaves_time u (site_db s) (site_db (snd (handle_absence_Delete a r s)))"
    unfolding handle_absence_Delete_def by (rule rule) (auto simp: bind_res_Inr dest: other intro!: diary)
  show "leaves_time u (site_db s) (site_db (snd (handle_schedule_Save a r week s)))"
    unfolding handle_schedule_Save_def
    by (rule rule) (auto elim!: who dest!: bound_body intro: diary split: if_splits)
  show "leaves_time u (site_db s) (site_db (snd (handle_schedule_Delete a r s)))"
    unfolding handle_schedule_Delete_def by (rule rule) (auto simp: bind_res_Inr dest: other intro!: diary)
  show "leaves_time u (site_db s) (site_db (snd (handle_vacation_Entitle a e cal r leave s)))"
    unfolding handle_vacation_Entitle_def
  proof (rule rule)
    fix cmd
    assume "bind_res (Require a r PermSettingsWriteOwn) (\<lambda>p. bind_res (answer (bind_body leave)) (\<lambda>(fromYear, days).
      case days of None \<Rightarrow> Inl (toHTTPError (InvalidFields [''days''])) | Some n \<Rightarrow> Inr (caller_id p, fromYear, n))) = Inr cmd"
    then obtain v y n where "v \<noteq> u" "cmd = (v, y, n)"
      by (auto elim!: who dest!: bound_body split: option.splits)
    then show "leaves_time u (site_db s) (snd ((case cmd of (u, fromYear, days) \<Rightarrow> \<lambda>d.
        case Entitle u fromYear days d of (Inl err, d') \<Rightarrow> (Inl err, d') | (Inr _, d') \<Rightarrow> (Year e cal u fromYear d', d')) (site_db s)))"
      using Entitle_Year_leaves [OF assms(2)] by simp
  qed
  show "leaves_time u (site_db s) (site_db (snd (handle_vacation_Withdraw a r s)))"
    unfolding handle_vacation_Withdraw_def by (rule rule) (auto elim!: who intro: diary split: option.splits)
  show "leaves_time u (site_db s) (site_db (snd (handle_workday_Record a r worked s)))"
    unfolding handle_workday_Record_def
    by (rule rule) (auto simp: bind_res_Inr dest: other intro!: diary(7) split: option.splits)
  show "leaves_time u (site_db s) (site_db (snd (handle_workday_Remove a r s)))"
    unfolding handle_workday_Remove_def by (rule rule) (auto simp: bind_res_Inr dest: other intro!: diary)
  show "leaves_time u (site_db s) (site_db (snd (handle_SetBalanceLimits a e cal r bounds s)))"
  proof (cases "bind_res (Require a r PermSettingsWriteOwn) (\<lambda>p. bind_res (answer (bind_body bounds)) (\<lambda>req. Inr (caller_id p, req)))")
    case (Inr cmd)
    then obtain v highest lowest where v: "v \<noteq> u" "cmd = (v, highest, lowest)"
      by (cases cmd) (auto simp: bind_res_Inr dest: other)
    show ?thesis using diary(9) [OF v(1), of highest lowest]
      unfolding handle_SetBalanceLimits_def Inr v(2) by (auto simp: Let_def split: prod.split sum.split)
  qed (simp add: handle_SetBalanceLimits_def leaves_time_refl [OF assms(2)])
qed

lemma serve_own_leaves:
  assumes "Enforced a" "clocks_fine (site_db s)" "repo_room (db_timesheets (site_db s))" "not_from u (who_asks q)"
  shows "leaves_time u (site_db s) (site_db (serve_own a q s))"
  using assms by (cases q) (simp_all add: serve_clock_leaves serve_diary_leaves)

text \<open>C31: nobody touches anybody else's days: through any sequence of requests to start, correct, stop,
  switch and discard a clock, to record and take back days away, planned weeks, leave, working days
  and bounds of the balance, sent by others or by nobody, whatever they say, an account keeps its
  hours with their history, its running clock, its days away, its working days, its planned weeks
  and its leave exactly as they were.\<close>

theorem days_of_others_stay:
  assumes "Enforced a" "db_valid (site_db s)" "own_room a qs s" "\<forall>q \<in> set qs. not_from u (who_asks q)"
  shows "time_of u (site_db (own_all a qs s)) = time_of u (site_db s)"
proof -
  have "leaves_time u (site_db s) (site_db (own_all a qs s))" if "clocks_fine (site_db s)"
    using that assms(3,4)
  proof (induction qs arbitrary: s)
    case Nil
    then show ?case by (simp add: leaves_time_refl)
  next
    case (Cons q qs)
    have first: "leaves_time u (site_db s) (site_db (serve_own a q s))"
      using Cons.prems by (intro serve_own_leaves [OF assms(1)]) simp_all
    then have "clocks_fine (site_db (serve_own a q s))" by (simp add: leaves_time_def)
    from Cons.IH [OF this] Cons.prems show ?case by (auto intro: leaves_time_trans [OF first])
  qed
  then show ?thesis using assms(2) by (simp add: clocks_fine_def db_valid_def leaves_time_def)
qed

text \<open>A clock of account 1, and account 2 that discards its own.\<close>

definition timed_office :: site where
  "timed_office = sample_office\<lparr>site_db := (site_db sample_office)\<lparr>db_timers :=
     [(1, \<lparr>ti_UserID = 1, ti_ProjectID = None, ti_Description = None, ti_StartedAt = midnight 20000\<rparr>)]\<rparr>\<rparr>"

lemma days_of_others_stay_witness:
  "kt_clock (time_of 1 (site_db (own_all (NewAuthorizer True)
      [DiscardR (asking sample_manager []), BackR (asking sample_manager ''2024-10-04'')] timed_office)))
   = Some \<lparr>ti_UserID = 1, ti_ProjectID = None, ti_Description = None, ti_StartedAt = midnight 20000\<rparr>"
proof -
  have n: "st_nextID (tr_store (db_timesheets sample_booked_db)) = 2" "tr_nextRevision (db_timesheets sample_booked_db) = 0"
    by (simp_all add: sample_booked_db_def ts_Save_store store_add_def Let_def new_timesheets_def newStore_def uint_succ_def)
  have room: "repo_room (db_timesheets sample_booked_db)" by (simp add: repo_room_def store_room_def n uint_max_def)
  have valid: "db_valid (site_db timed_office)"
    using sample_booked_valid by (auto simp: timed_office_def sample_office_db db_valid_def timers_keyed_def timer_Get_def)
  have kept: "db_timesheets (site_db (snd (handle_timer_Discard a r s))) = db_timesheets (site_db s)" for a r s
    by (simp add: handle_timer_Discard_def carry_out_def Discard_def split: sum.split)
  have "own_room (NewAuthorizer True) [DiscardR (asking sample_manager []), BackR (asking sample_manager ''2024-10-04'')] timed_office"
    using room by (simp add: kept) (simp add: timed_office_def sample_office_db)
  from days_of_others_stay [OF sample_guarded valid this, of 1] show ?thesis
    by (simp add: not_from_def caller_id_def sample_manager_def)
      (simp add: time_of_def timed_office_def timer_Get_def)
qed

end
