(* ===== verification/RangeRules.thy ===== *)
theory RangeRules
  imports OwnTime WireRules RequestRules
begin

text \<open>
  The range a listing covers where the request names none: the week, the month and the year that
  today falls in, where the person is; and times of day, read back as they are shown.
\<close>

section \<open>Times of day\<close>

lemma Atoi_padded: "n < 100 \<Longrightarrow> Atoi (padded 2 (int n)) = Some (int n)"
proof -
  assume n: "n < 100"
  note p = padded_digits [of 2 n]
  obtain c cs where c: "padded 2 (int n) = c # cs" "is_digit_char c"
    using p(1,2) n by (cases "padded 2 (int n)") auto
  then have "c \<noteq> CHR ''-''" "c \<noteq> CHR ''+''" by (auto simp: is_digit_char_def byte_def)
  then show ?thesis using p(2,3) n c(1) by (simp add: Atoi_def)
qed

text \<open>A time of day written into an answer is read back as that time, and what is read is a minute of a
  day.\<close>

lemma times_round_trip:
  assumes "0 \<le> t" "t \<le> 1440"
  shows "minuteOf (clockOf t) = Some t \<and> (case minuteOf s of None \<Rightarrow> True | Some m \<Rightarrow> 0 \<le> m \<and> m \<le> 1440)"
proof (intro conjI)
  have "0 \<le> t div 60" "t div 60 < 100" "0 \<le> t mod 60" "t mod 60 < 60" using assms by simp_all
  then obtain h m where hm: "t div 60 = int h" "t mod 60 = int m" "h < 100" "m < 60"
    by (metis of_nat_less_iff of_nat_numeral zero_le_imp_eq_int)
  let ?h = "padded 2 (int h)" and ?m = "padded 2 (int m)"
  have m100: "m < 100" using hm(4) by simp
  note p = padded_digits [of 2 h] padded_digits [of 2 m]
  have digits: "\<forall>c \<in> set ?h. is_digit_char c" "\<forall>c \<in> set ?m. is_digit_char c"
    using p(2,5) hm(3) m100 by (simp_all add: list_all_iff)
  then have plain: "\<forall>c \<in> set ?h. c \<noteq> CHR '':''" by (auto simp: is_digit_char_def byte_def)
  have shown: "clockOf t = ?h @ CHR '':'' # ?m" by (simp add: clockOf_def hm(1,2))
  have "byte c < 128 \<and> \<not> is_space (byte c)" if "c \<in> set (clockOf t)" for c
  proof (cases "c = CHR '':''")
    case False
    then have "is_digit_char c" using that digits by (auto simp: shown)
    then show ?thesis using plain_char by blast
  qed (simp add: byte_def is_space_def)
  then have trim: "TrimSpace (clockOf t) = clockOf t" by (intro TrimSpace_ascii_word) blast
  have "takeWhile (\<lambda>c. c \<noteq> CHR '':'') (?h @ CHR '':'' # ?m) = ?h" "dropWhile (\<lambda>c. c \<noteq> CHR '':'') (?h @ CHR '':'' # ?m) = CHR '':'' # ?m"
    using plain by (simp_all add: takeWhile_append dropWhile_append2)
  moreover have "length ?h = 2" "length ?m = 2" using p(1,4) hm(3) m100 by simp_all
  moreover have "int h * 60 + int m = t" using hm(1,2) by (metis div_mult_mod_eq)
  ultimately show "minuteOf (clockOf t) = Some t"
    unfolding minuteOf_def trim unfolding shown Let_def
    using assms(2) hm(4) by (simp add: Atoi_padded [OF hm(3)] Atoi_padded [OF m100] MinutesPerDay_def)
  show "case minuteOf s of None \<Rightarrow> True | Some m \<Rightarrow> 0 \<le> m \<and> m \<le> 1440"
    by (auto simp: minuteOf_def MinutesPerDay_def Let_def split: option.splits if_splits)
qed

section \<open>Ranges\<close>

lemma date_shift: "date y m (d + n) = date y m d + n"
  by (simp add: date_def Let_def)

lemma date_parts:
  assumes "1 \<le> m" "m \<le> 12" "1 \<le> d" "d \<le> days_in y m"
  shows "year_of (date y m d) = y \<and> month_of (date y m d) = m"
proof -
  let ?l = "leap_year y" and ?n = "month_start (leap_year y) m + d - 1"
  have within: "(m - 1) div 12 = 0" "(m - 1) mod 12 = m - 1" using assms(1,2) by auto
  have at': "date y m x = year_start y + month_start ?l m + x - 1" for x unfolding date_def Let_def within by simp
  have "date y (m + 1) 1 = year_start y + month_start ?l (m + 1)"
  proof (cases "m = 12")
    case True
    then show ?thesis using year_start_Suc [of y] by (simp add: date_def Let_def month_start_def)
  next
    case False
    then have "m div 12 = 0" "m mod 12 = m" using assms(1,2) by auto
    then show ?thesis by (simp add: date_def Let_def)
  qed
  then have n: "month_start ?l m \<le> ?n" "?n < month_start ?l (m + 1)"
    using assms(3,4) at' [of 1] by (simp_all add: days_in_def)
  have whole: "month_start ?l 1 = 0" "month_start ?l 13 = (if ?l then 366 else 365)" by (simp_all add: month_start_def)
  have "month_start ?l 1 \<le> month_start ?l m" "month_start ?l (m + 1) \<le> month_start ?l 13"
    using month_start_mono [of 1 m ?l] month_start_mono [of "m + 1" 13 ?l] assms(1,2) by simp_all
  then have year: "year_of (date y m d) = y"
    using n at' [of d] whole year_start_Suc [of y] by (intro year_of_unique) simp_all
  then have "year_day (date y m d) = ?n" using at' [of d] by (simp add: year_day_def)
  then show ?thesis using year month_in_eq [OF assms(1,2) n] by (simp add: month_of_in)
qed

lemma month_end: "date y (m + 1) 0 = date y m 1 + days_in y m - 1"
proof -
  have "date y (m + 1) 0 = date y (m + 1) 1 - 1" by (simp add: date_def Let_def)
  then show ?thesis by (simp add: days_in_def)
qed

lemma month_days:
  "{x. year_of x = year_of d \<and> month_of x = month_of d}
     = {date (year_of d) (month_of d) 1..date (year_of d) (month_of d + 1) 0}"
proof (rule set_eqI, unfold mem_Collect_eq atLeastAtMost_iff month_end, rule iffI)
  fix x
  let ?y = "year_of d" and ?m = "month_of d"
  show "date ?y ?m 1 \<le> x \<and> x \<le> date ?y ?m 1 + days_in ?y ?m - 1" if x: "year_of x = ?y \<and> month_of x = ?m"
  proof -
    have "date ?y ?m (month_day x) = x" using month_parts(5) [of x] x by simp
    moreover have "date ?y ?m (month_day x) = date ?y ?m 1 + month_day x - 1" by (simp add: date_def Let_def)
    moreover have "1 \<le> month_day x" "month_day x \<le> days_in ?y ?m" using month_parts(3,4) [of x] x by simp_all
    ultimately show ?thesis by linarith
  qed
  show "year_of x = ?y \<and> month_of x = ?m" if x: "date ?y ?m 1 \<le> x \<and> x \<le> date ?y ?m 1 + days_in ?y ?m - 1"
  proof -
    define k where "k = 1 + (x - date ?y ?m 1)"
    have "date ?y ?m k = date ?y ?m 1 + k - 1" by (simp add: date_def Let_def)
    then have "date ?y ?m k = x" by (simp add: k_def)
    moreover have "1 \<le> k" "k \<le> days_in ?y ?m" using x by (simp_all add: k_def)
    ultimately show ?thesis using date_parts [of ?m k ?y] month_parts(1,2) [of d] by simp
  qed
qed

lemma year_days: "{x. year_of x = y} = {date y 1 1..date y 12 31}"
proof -
  have "date y 1 1 = year_start y" "date y 12 31 = year_start (y + 1) - 1"
    using year_start_Suc [of y] by (simp_all add: date_def Let_def month_start_def)
  then show ?thesis using year_of_spec year_of_unique by force
qed

text \<open>Every day of the zone has a midnight.  Where clocks are put forward at midnight there is a day that
  has none, and a date made of it is an instant of the day before.\<close>

definition whole_days :: "location \<Rightarrow> bool" where
  "whole_days l \<longleftrightarrow> (\<forall>d. unix (date_in d l) + offset_at l (unix (date_in d l)) = d * 86400)"

lemma whole_days_UTC: "whole_days UTC"
  by (simp add: whole_days_def unix_def date_in_def)

lemma date_in_day: "whole_days l \<Longrightarrow> CalendarDay (date_in d l) = d"
  by (simp add: whole_days_def CalendarDay_def local_day_def date_in_def Let_def case_prod_beta)

lemma wall_midnight: "wall_in (d * 86400) 0 l = date_in d l"
  by (simp add: wall_in_def date_in_def Let_def)

lemma date_in_fields: "loc (date_in d l) = l" "ns (date_in d l) mod 1000000000 = 0"
  by (simp_all add: date_in_def Let_def case_prod_beta)

lemma AddDays_midnight:
  assumes "whole_days l"
  shows "AddDays (date_in d l) n = date_in (d + n) l"
proof -
  have "(unix (date_in d l) + offset_at l (unix (date_in d l))) mod 86400 = 0"
    using assms by (simp add: whole_days_def)
  then show ?thesis
    using date_in_day [OF assms, of d] wall_midnight [of "d + n" l]
    by (simp add: AddDays_def date_in_fields CalendarDay_def)
qed

lemma AddMonthsDays_midnight:
  assumes "whole_days l"
  shows "AddMonthsDays (date_in d l) months days
     = date_in (date (year_of d) (month_of d + months) (month_day d + days)) l"
proof -
  have "(unix (date_in d l) + offset_at l (unix (date_in d l))) mod 86400 = 0"
    using assms by (simp add: whole_days_def)
  then show ?thesis
    using date_in_day [OF assms, of d]
    by (simp add: AddMonthsDays_def date_in_fields CalendarDay_def wall_midnight Let_def)
qed

text \<open>A listing asked for without dates covers where the person is now: the week from Monday to
  Sunday, the month from its first to its last day, or the whole year that today falls in, and
  today is in it.\<close>

lemma usual_ranges:
  fixes e r l
  defines "today \<equiv> CalendarDay (in_zone (now e) l)"
  assumes "whole_days l" "TrimSpace (rq_param r ''from'') = []" "TrimSpace (rq_param r ''to'') = []"
  shows "(\<exists>a b. weekRange e r l = Inr (a, b) \<and> weekday (CalendarDay a) = 1 \<and> CalendarDay b = CalendarDay a + 6
          \<and> CalendarDay a \<le> today \<and> today \<le> CalendarDay b)
    \<and> (\<exists>a b. monthRange e r l = Inr (a, b)
          \<and> {CalendarDay a..CalendarDay b} = {x. year_of x = year_of today \<and> month_of x = month_of today})
    \<and> (\<exists>a b. yearRange e r l = Inr (a, b) \<and> {CalendarDay a..CalendarDay b} = {x. year_of x = year_of today})"
proof -
  have given: "given_range r usual = Inr usual" for usual
    using assms(3,4) by (simp add: given_range_def queryDate_def)
  have day: "local_day (in_zone (now e) l) = today" by (simp add: today_def CalendarDay_def)
  note date = date_in_day [OF assms(2)]
  let ?since = "(weekday today + 6) mod 7" and ?first = "date (year_of today) (month_of today) 1"
  have monday: "date (year_of today) (month_of today) (month_day today - ?since) = today - ?since"
    using date_shift [of "year_of today" "month_of today" "month_day today" "- ?since"] month_parts(5) [of today] by simp
  have week: "weekRange e r l = Inr (date_in (today - ?since) l, date_in (today - ?since + 6) l)"
    by (simp add: weekRange_def Let_def day monday given AddDays_midnight [OF assms(2)])
  have one: "1 \<le> days_in (year_of today) (month_of today)" using month_parts(3,4) [of today] by simp
  have first: "year_of ?first = year_of today" "month_of ?first = month_of today"
    using date_parts [OF month_parts(1,2) _ one] by simp_all
  then have "month_day ?first = 1"
    using month_parts(5) [of ?first] date_shift [of "year_of today" "month_of today" 1 "month_day ?first - 1"] by simp
  then have month: "monthRange e r l = Inr (date_in ?first l, date_in (date (year_of today) (month_of today + 1) 0) l)"
    by (simp add: monthRange_def Let_def day given AddMonthsDays_midnight [OF assms(2)] first)
  have year: "yearRange e r l = Inr (midnight (date (year_of today) 1 1), midnight (date (year_of today) 12 31))"
    by (simp add: yearRange_def Let_def day given)
  have "weekday (today - ?since) = 1" unfolding weekday_def by presburger
  moreover have "0 \<le> ?since" "?since \<le> 6" by simp_all
  ultimately show ?thesis unfolding week month year by (simp add: date month_days year_days)
qed

lemma usual_ranges_witness:
  "\<exists>a b. monthRange sample_env (asking sample_user []) UTC = Inr (a, b)
     \<and> CalendarDay (in_zone (now sample_env) UTC) \<in> {CalendarDay a..CalendarDay b}"
proof -
  have "whole_days UTC" "TrimSpace (rq_param (asking sample_user []) ''from'') = []"
    "TrimSpace (rq_param (asking sample_user []) ''to'') = []" by (simp_all add: whole_days_UTC)
  note ranges = usual_ranges [OF this, of sample_env]
  then obtain a b where "monthRange sample_env (asking sample_user []) UTC = Inr (a, b)"
    "{CalendarDay a..CalendarDay b} = {x. year_of x = year_of (CalendarDay (in_zone (now sample_env) UTC))
        \<and> month_of x = month_of (CalendarDay (in_zone (now sample_env) UTC))}" by auto
  then show ?thesis by (intro exI [of _ a] exI [of _ b]) simp
qed

end
