(* ===== verification/Administration.thy ===== *)
theory Administration
  imports OwnTime Gateway
begin

text \<open>
  The routes about projects (\<^verbatim>\<open>project_handler.go\<close>), accounts (\<^verbatim>\<open>user_handler.go\<close>,
  \<^verbatim>\<open>user_dto.go\<close>), roles (\<^verbatim>\<open>role_handler.go\<close>), managers (\<^verbatim>\<open>team_handler.go\<close>), personal
  tokens (\<^verbatim>\<open>apitoken_handler.go\<close>), signing in (\<^verbatim>\<open>auth_handler.go\<close>, \<^verbatim>\<open>signin.go\<close>,
  \<^verbatim>\<open>kerberos_login.go\<close>) and the choices of an account (\<^verbatim>\<open>account_preference.go\<close>), with the
  maintenance mode in front of them (\<^verbatim>\<open>maintenance.go\<close>).

  What a handler writes into the log is left out, and so is the picture of a second factor or of a
  connection address.
\<close>

text \<open>As \<open>carry_out\<close>, for what reaches beyond the repositories.\<close>

definition perform :: "'c answer \<Rightarrow> ('c \<Rightarrow> site \<Rightarrow> 'r result \<times> site) \<Rightarrow> ('r \<Rightarrow> 'a) \<Rightarrow> site \<Rightarrow> 'a answer \<times> site" where
  "perform agreed run show s =
     (case agreed of
        Inl refusal \<Rightarrow> (Inl refusal, s)
      | Inr cmd \<Rightarrow> let (res, s') = run cmd s in (bind_res (answer res) (\<lambda>x. Inr (show x)), s'))"

definition boolParam :: "env \<Rightarrow> request \<Rightarrow> gostring \<Rightarrow> bool" where
  "boolParam e r field \<longleftrightarrow> lower e (TrimSpace (rq_param r field)) \<in> {''true'', ''1''}"

section \<open>Projects\<close>

record create_project_request =
  cq_Name :: gostring
  cq_Description :: "gostring option"
  cq_StartDate :: gotime
  cq_EndDate :: "gotime option"
  cq_Status :: gostring
  cq_BudgetHours :: "float64 option"
  cq_OwnerID :: uint
  cq_Billable :: bool
  cq_HourlyRate :: "float64 option"
  cq_Currency :: gostring

record update_project_request =
  uq_Name :: "gostring option"
  uq_Description :: "gostring option"
  uq_StartDate :: "gotime option"
  uq_EndDate :: "gotime option"
  uq_Status :: "gostring option"
  uq_BudgetHours :: "float64 option"
  uq_Billable :: "bool option"
  uq_HourlyRate :: "float64 option"
  uq_Currency :: "gostring option"

text \<open>The answer has the fields of the result it is made of.\<close>

definition newProjectResponse :: "project_result \<Rightarrow> project_result" where
  "newProjectResponse r =
     \<lparr>prr_ID = prr_ID r, prr_Name = prr_Name r, prr_Description = prr_Description r, prr_StartDate = prr_StartDate r,
      prr_EndDate = prr_EndDate r, prr_Status = prr_Status r, prr_OwnerID = prr_OwnerID r,
      prr_BudgetHours = prr_BudgetHours r, prr_BookedHours = prr_BookedHours r, prr_Billable = prr_Billable r,
      prr_HourlyRate = prr_HourlyRate r, prr_Currency = prr_Currency r\<rparr>"

definition handle_project_List :: "authorizer \<Rightarrow> request \<Rightarrow> site \<Rightarrow> project_result list_response answer" where
  "handle_project_List a r s =
     bind_res (Require a r PermProjectRead) (\<lambda>p.
     bind_res (answer (queryUint r ''ownerId'')) (\<lambda>requested.
     bind_res (accountFor a p requested somebodyElsesProjects TeamPermissions s) (\<lambda>account.
     let viewer = (if viewerID a p \<noteq> 0 then us_ID account else 0);
         (results, total) = ListProjects (rq_param r ''status'') viewer (site_db s)
     in Inr \<lparr>lr_Items = map newProjectResponse results, lr_TotalCount = total, lr_PageSize = 0\<rparr>)))"

definition handle_project_Get :: "authorizer \<Rightarrow> request \<Rightarrow> site \<Rightarrow> project_result answer" where
  "handle_project_Get a r s =
     bind_res (Require a r PermProjectRead) (\<lambda>p.
     bind_res (answer (pathID r)) (\<lambda>i.
     bind_res (projectActor a p i TeamPermissions s) (\<lambda>viewer.
     bind_res (answer (GetProject i viewer (site_db s))) (\<lambda>result. Inr (newProjectResponse result)))))"

definition create_project_command ::
  "authorizer \<Rightarrow> env \<Rightarrow> request \<Rightarrow> create_project_request option \<Rightarrow> site \<Rightarrow> create_project answer" where
  "create_project_command a e r body s =
     bind_res (Require a r PermProjectWrite) (\<lambda>p.
     bind_res (answer (bind_body body)) (\<lambda>req.
     bind_res (accountFor a p (cq_OwnerID req) somebodyElsesProjects [PermProjectWriteTeam] s) (\<lambda>account.
     Inr \<lparr>cp_Name = cq_Name req, cp_Description = cq_Description req, cp_StartDate = cq_StartDate req,
          cp_EndDate = cq_EndDate req, cp_Status = cq_Status req,
          cp_OwnerID = (if viewerID a p \<noteq> 0 then Some (us_ID account) else None),
          cp_Today = in_zone (now e) (TimezoneOf r account), cp_BudgetHours = cq_BudgetHours req,
          cp_Billable = cq_Billable req, cp_HourlyRate = cq_HourlyRate req, cp_Currency = cq_Currency req\<rparr>)))"

definition handle_project_Create ::
  "authorizer \<Rightarrow> env \<Rightarrow> request \<Rightarrow> create_project_request option \<Rightarrow> site \<Rightarrow> project_result answer \<times> site" where
  "handle_project_Create a e r body s =
     carry_out (create_project_command a e r body s) (CreateProject e) newProjectResponse s"

definition update_project_command ::
  "authorizer \<Rightarrow> request \<Rightarrow> update_project_request option \<Rightarrow> site \<Rightarrow> update_project answer" where
  "update_project_command a r body s =
     bind_res (Require a r PermProjectWrite) (\<lambda>p.
     bind_res (answer (pathID r)) (\<lambda>i.
     bind_res (projectActor a p i [PermProjectWriteTeam] s) (\<lambda>actor.
     bind_res (answer (bind_body body)) (\<lambda>req.
     let cleared = (case uq_EndDate req of None \<Rightarrow> False | Some t \<Rightarrow> is_zero_time t)
     in Inr \<lparr>up_ID = i, up_Name = uq_Name req, up_Description = uq_Description req, up_StartDate = uq_StartDate req,
             up_EndDate = (if cleared then None else uq_EndDate req), up_Status = uq_Status req,
             up_BudgetHours = uq_BudgetHours req, up_Billable = uq_Billable req, up_HourlyRate = uq_HourlyRate req,
             up_Currency = uq_Currency req, up_ClearEndDate = cleared, up_ActorID = actor\<rparr>))))"

definition handle_project_Update ::
  "authorizer \<Rightarrow> env \<Rightarrow> request \<Rightarrow> update_project_request option \<Rightarrow> site \<Rightarrow> project_result answer \<times> site" where
  "handle_project_Update a e r body s =
     carry_out (update_project_command a r body s) (UpdateProject e) newProjectResponse s"

text \<open>A route about one project: the right, the project and in whose name.\<close>

definition project_command :: "authorizer \<Rightarrow> request \<Rightarrow> gostring \<Rightarrow> site \<Rightarrow> (uint \<times> uint) answer" where
  "project_command a r right s =
     bind_res (Require a r right) (\<lambda>p.
     bind_res (answer (pathID r)) (\<lambda>i.
     bind_res (projectActor a p i [PermProjectWriteTeam] s) (\<lambda>actor. Inr (i, actor))))"

definition handle_project_Delete :: "authorizer \<Rightarrow> env \<Rightarrow> request \<Rightarrow> site \<Rightarrow> unit answer \<times> site" where
  "handle_project_Delete a e r s =
     carry_out (project_command a r PermProjectDelete s) (\<lambda>(i, actor). DeleteProject e i actor) id s"

text \<open>The answer to archiving leaves out whose the project is and what it costs.\<close>

definition archived_response :: "project \<Rightarrow> project_result" where
  "archived_response p =
     \<lparr>prr_ID = pr_ID p, prr_Name = pr_Name p, prr_Description = pr_Description p, prr_StartDate = pr_StartDate p,
      prr_EndDate = pr_EndDate p, prr_Status = pr_Status p, prr_OwnerID = None, prr_BudgetHours = None,
      prr_BookedHours = Fin 0, prr_Billable = False, prr_HourlyRate = None, prr_Currency = []\<rparr>"

definition handle_project_Archive :: "authorizer \<Rightarrow> request \<Rightarrow> site \<Rightarrow> project_result answer \<times> site" where
  "handle_project_Archive a r s =
     carry_out (project_command a r PermProjectArchive s) (\<lambda>(i, actor). ArchiveProject i actor) archived_response s"

section \<open>Accounts\<close>

definition EffectiveTimezoneName :: "(gostring \<Rightarrow> location option) \<Rightarrow> gostring \<Rightarrow> gostring \<Rightarrow> gostring" where
  "EffectiveTimezoneName load user_zone instance_zone =
     (case filter (\<lambda>z. z \<noteq> [] \<and> load z \<noteq> None) [user_zone, instance_zone, DefaultTimezone] of
        [] \<Rightarrow> DefaultTimezone | z # _ \<Rightarrow> z)"

record user_response = user_result +
  ux_EffectiveTimezone :: gostring
  ux_InstanceTimezone :: gostring

definition newUserResponse :: "request \<Rightarrow> user_result \<Rightarrow> user_response" where
  "newUserResponse r u = user_result.extend u
     \<lparr>ux_EffectiveTimezone = EffectiveTimezoneName (rq_load_zone r) (ur_Timezone u) (rq_instance_zone r),
      ux_InstanceTimezone = EffectiveTimezoneName (rq_load_zone r) [] (rq_instance_zone r)\<rparr>"

definition newUserResponseFromModel :: "request \<Rightarrow> user \<Rightarrow> user_response" where
  "newUserResponseFromModel r u = newUserResponse r (NewUserResultFromModel u)"

definition handle_user_List :: "authorizer \<Rightarrow> request \<Rightarrow> site \<Rightarrow> user_response list_response answer" where
  "handle_user_List a r s =
     bind_res (Require a r PermUserRead) (\<lambda>_.
     bind_res (answer (ListUsers (queryInt r ''page'' 0) (queryInt r ''limit'' 0) (site_db s))) (\<lambda>(results, total).
     Inr \<lparr>lr_Items = map (newUserResponse r) results, lr_TotalCount = total, lr_PageSize = 0\<rparr>))"

definition handle_user_Get :: "authorizer \<Rightarrow> request \<Rightarrow> site \<Rightarrow> user_response answer" where
  "handle_user_Get a r s =
     bind_res (answer (pathID r)) (\<lambda>i.
     bind_res (RequireSelfOr a r i PermUserRead) (\<lambda>_.
     bind_res (answer (GetUser i (site_db s))) (\<lambda>result. Inr (newUserResponse r result))))"

definition handle_user_Create ::
  "authorizer \<Rightarrow> env \<Rightarrow> crypto \<Rightarrow> request \<Rightarrow> create_user option \<Rightarrow> site \<Rightarrow> user_response answer \<times> site" where
  "handle_user_Create a e c r body s =
     carry_out (bind_res (Require a r PermUserWrite) (\<lambda>_. answer (bind_body body))) (CreateUser e c) (newUserResponse r) s"

text \<open>What a body says of a name, an address and a role; working times sent along are not passed on.\<close>

definition handle_user_Update ::
  "authorizer \<Rightarrow> env \<Rightarrow> request \<Rightarrow> (gostring option \<times> gostring option \<times> gostring option) option \<Rightarrow> site
     \<Rightarrow> user_response answer \<times> site" where
  "handle_user_Update a e r body s =
     carry_out
       (bind_res (Require a r PermUserWrite) (\<lambda>_.
        bind_res (answer (pathID r)) (\<lambda>i.
        bind_res (answer (bind_body body)) (\<lambda>(name, email, role).
        Inr \<lparr>uu_ID = i, uu_Name = name, uu_Email = email, uu_Role = role\<rparr>))))
       (UpdateUser e) (newUserResponse r) s"

definition handle_user_Delete :: "authorizer \<Rightarrow> env \<Rightarrow> request \<Rightarrow> site \<Rightarrow> unit answer \<times> site" where
  "handle_user_Delete a e r s =
     perform
       (bind_res (Require a r PermUserDelete) (\<lambda>p.
        bind_res (answer (pathID r)) (\<lambda>i.
        if pp_User p \<noteq> None \<and> caller_id p = i then Inl (toHTTPError (WithCode Conflictf ''cannotDeleteSelf'' []))
        else Inr (i, boolParam e r ''purge''))))
       (\<lambda>(i, purge). DeleteUser e i purge) id s"

definition handle_user_AssignRole ::
  "authorizer \<Rightarrow> env \<Rightarrow> request \<Rightarrow> gostring option \<Rightarrow> site \<Rightarrow> user_response answer \<times> site" where
  "handle_user_AssignRole a e r body s =
     carry_out
       (bind_res (Require a r PermUserWrite) (\<lambda>_.
        bind_res (answer (pathID r)) (\<lambda>i.
        bind_res (answer (bind_body body)) (\<lambda>role. Inr (i, role)))))
       (\<lambda>(i, role). AssignRoleToUser e i role) (newUserResponseFromModel r) s"

text \<open>Ending the sessions of an account whose password was reset cannot fail here; \<open>ends\<close> says
  whether the handler was given a way to.\<close>

definition handle_user_SetPassword ::
  "authorizer \<Rightarrow> crypto \<Rightarrow> bool \<Rightarrow> request \<Rightarrow> gostring option \<Rightarrow> site \<Rightarrow> unit answer \<times> site" where
  "handle_user_SetPassword a c ends r body s =
     perform
       (bind_res (Require a r PermUserWrite) (\<lambda>p.
        bind_res (answer (pathID r)) (\<lambda>i.
        if pp_User p \<noteq> None \<and> caller_id p = i then Inl (toHTTPError (WithCode Conflictf ''cannotResetOwnPassword'' []))
        else bind_res (answer (bind_body body)) (\<lambda>password. Inr (i, password)))))
       (\<lambda>(i, password) s.
          (case SetPassword c i password (site_db s) of
             (Inl err, d) \<Rightarrow> (Inl err, s\<lparr>site_db := d\<rparr>)
           | (Inr _, d) \<Rightarrow> let s' = s\<lparr>site_db := d\<rparr> in (Inr (), if ends then LogoutOthers c i [] s' else s')))
       id s"

definition handle_user_UpdateWorkingTimes ::
  "authorizer \<Rightarrow> request \<Rightarrow> (float64 option \<times> float64 option \<times> gotime option) option \<Rightarrow> site
     \<Rightarrow> user_response answer \<times> site" where
  "handle_user_UpdateWorkingTimes a r body s =
     carry_out
       (bind_res (answer (pathID r)) (\<lambda>i.
        bind_res (RequireSelf a r i PermSettingsWriteOwn) (\<lambda>_.
        bind_res (answer (bind_body body)) (\<lambda>(target, most, from).
        let cleared = (case from of None \<Rightarrow> False | Some t \<Rightarrow> is_zero_time t)
        in Inr \<lparr>wt_ID = i, wt_DailyTargetHours = target, wt_MaxDailyHours = most,
                wt_EveryDayCountsFrom = (if cleared then None else from), wt_ClearEveryDayCountsFrom = cleared\<rparr>))))
       UpdateWorkingTimes (newUserResponse r) s"

section \<open>Roles\<close>

record role_response =
  rl_ID :: uint
  rl_Name :: gostring
  rl_Description :: gostring
  rl_IsSystem :: bool
  rl_Permissions :: "gostring list"
  rl_IsDefault :: bool

record role_request =
  rr_Name :: "gostring option"
  rr_Description :: "gostring option"
  rr_Permissions :: "gostring list option"

definition newRoleResponse :: "role \<Rightarrow> role_response" where
  "newRoleResponse x =
     \<lparr>rl_ID = ro_ID x, rl_Name = ro_Name x, rl_Description = ro_Description x, rl_IsSystem = ro_IsSystem x,
      rl_Permissions = ro_Permissions x, rl_IsDefault = IsDefault x\<rparr>"

definition handle_role_List :: "authorizer \<Rightarrow> request \<Rightarrow> site \<Rightarrow> role_response list_response answer" where
  "handle_role_List a r s =
     bind_res (Require a r PermRoleRead) (\<lambda>_.
     let roles = ListRoles (site_db s)
     in Inr \<lparr>lr_Items = map newRoleResponse roles, lr_TotalCount = length roles, lr_PageSize = 0\<rparr>)"

definition handle_role_Permissions :: "authorizer \<Rightarrow> request \<Rightarrow> gostring list answer" where
  "handle_role_Permissions a r = bind_res (Require a r PermRoleRead) (\<lambda>_. Inr AllPermissions)"

definition handle_role_Get :: "authorizer \<Rightarrow> request \<Rightarrow> site \<Rightarrow> role_response answer" where
  "handle_role_Get a r s =
     bind_res (Require a r PermRoleRead) (\<lambda>_.
     bind_res (answer (pathID r)) (\<lambda>i.
     bind_res (answer (GetRole i (site_db s))) (\<lambda>role. Inr (newRoleResponse role))))"

definition handle_role_Create :: "authorizer \<Rightarrow> request \<Rightarrow> role_request option \<Rightarrow> site \<Rightarrow> role_response answer \<times> site" where
  "handle_role_Create a r body s =
     carry_out
       (bind_res (Require a r PermRoleWrite) (\<lambda>_.
        bind_res (answer (bind_body body)) (\<lambda>req.
        case rr_Name req of None \<Rightarrow> Inl (toHTTPError (InvalidFields [''name'']))
        | Some name \<Rightarrow> Inr (name, case rr_Description req of None \<Rightarrow> [] | Some x \<Rightarrow> x,
                            case rr_Permissions req of None \<Rightarrow> [] | Some ps \<Rightarrow> ps))))
       (\<lambda>(name, description, permissions). CreateRole name description permissions) newRoleResponse s"

definition handle_role_Update :: "authorizer \<Rightarrow> request \<Rightarrow> role_request option \<Rightarrow> site \<Rightarrow> role_response answer \<times> site" where
  "handle_role_Update a r body s =
     carry_out
       (bind_res (Require a r PermRoleWrite) (\<lambda>_.
        bind_res (answer (pathID r)) (\<lambda>i.
        bind_res (answer (bind_body body)) (\<lambda>req. Inr (i, req)))))
       (\<lambda>(i, req). UpdateRole i (rr_Name req) (rr_Description req) (rr_Permissions req)) newRoleResponse s"

definition handle_role_Delete :: "authorizer \<Rightarrow> request \<Rightarrow> site \<Rightarrow> unit answer \<times> site" where
  "handle_role_Delete a r s =
     carry_out (bind_res (Require a r PermRoleWrite) (\<lambda>_. answer (pathID r))) DeleteRole id s"

section \<open>Managers\<close>

definition handle_team_Switch :: "authorizer \<Rightarrow> request \<Rightarrow> site \<Rightarrow> bool answer" where
  "handle_team_Switch a r s = bind_res (RequireInstallationAdmin a r) (\<lambda>_. Inr (Enabled s))"

definition handle_team_SaveSwitch :: "authorizer \<Rightarrow> request \<Rightarrow> bool option \<Rightarrow> site \<Rightarrow> bool answer \<times> site" where
  "handle_team_SaveSwitch a r body s =
     perform (bind_res (RequireInstallationAdmin a r) (\<lambda>_. answer (bind_body body)))
       (\<lambda>on s. (Inr on, SetEnabled on s)) id s"

definition handle_team_Managers :: "authorizer \<Rightarrow> request \<Rightarrow> site \<Rightarrow> uint list answer" where
  "handle_team_Managers a r s =
     bind_res (Require a r PermUserRead) (\<lambda>_.
     bind_res (answer (pathID r)) (\<lambda>i. Inr (ManagerIDsOf i s)))"

definition handle_team_SetManagers :: "authorizer \<Rightarrow> request \<Rightarrow> uint list option \<Rightarrow> site \<Rightarrow> uint list answer \<times> site" where
  "handle_team_SetManagers a r body s =
     perform
       (bind_res (Require a r PermUserWrite) (\<lambda>_.
        bind_res (answer (pathID r)) (\<lambda>i.
        bind_res (answer (bind_body body)) (\<lambda>managers. Inr (i, managers)))))
       (\<lambda>(i, managers) s. let (res, s') = TeamSetManagers i managers s in (bind_res res (\<lambda>_. Inr (ManagerIDsOf i s')), s'))
       id s"

definition handle_team_Team :: "authorizer \<Rightarrow> request \<Rightarrow> site \<Rightarrow> team_member list answer" where
  "handle_team_Team a r s = bind_res (permittedPrincipal a r) (\<lambda>p. answer (Team p s))"

definition handle_team_MyManagers :: "authorizer \<Rightarrow> request \<Rightarrow> site \<Rightarrow> team_member list answer" where
  "handle_team_MyManagers a r s = bind_res (authz_Principal a r) (\<lambda>p. answer (TeamManagersOf (caller_id p) s))"

section \<open>Personal tokens\<close>

record token_response =
  tx_ID :: uint
  tx_Name :: gostring
  tx_Prefix :: gostring
  tx_CreatedAt :: gotime
  tx_ExpiresAt :: "gotime option"
  tx_LastUsedAt :: "gotime option"
  tx_Expired :: bool
  tx_Secret :: "gostring option"

definition newAPITokenResponse :: "env \<Rightarrow> api_token \<Rightarrow> gostring option \<Rightarrow> token_response" where
  "newAPITokenResponse e x secret =
     \<lparr>tx_ID = at_ID x, tx_Name = at_Name x, tx_Prefix = at_Prefix x, tx_CreatedAt = at_CreatedAt x,
      tx_ExpiresAt = Option.bind (at_ExpiresAt x) momentOrNil, tx_LastUsedAt = Option.bind (at_LastUsedAt x) momentOrNil,
      tx_Expired = token_Expired x (now e), tx_Secret = secret\<rparr>"

definition handle_token_List :: "authorizer \<Rightarrow> env \<Rightarrow> request \<Rightarrow> token_table \<Rightarrow> token_response list_response answer" where
  "handle_token_List a e r b =
     bind_res (authz_Principal a r) (\<lambda>p.
     let tokens = token_ListForUser (caller_id p) b
     in Inr \<lparr>lr_Items = map (\<lambda>x. newAPITokenResponse e x None) tokens, lr_TotalCount = length tokens, lr_PageSize = 0\<rparr>)"

definition handle_token_Create ::
  "authorizer \<Rightarrow> env \<Rightarrow> crypto \<Rightarrow> request \<Rightarrow> (gostring \<times> int) option \<Rightarrow> token_table \<Rightarrow> token_response answer \<times> token_table" where
  "handle_token_Create a e c r body b =
     (case bind_res (authz_Principal a r) (\<lambda>p.
           bind_res (answer (mustChangePassword p)) (\<lambda>_.
           bind_res (answer (bind_body body)) (\<lambda>(label, days). Inr (caller_id p, label, days)))) of
        Inl refusal \<Rightarrow> (Inl refusal, b)
      | Inr (u, label, days) \<Rightarrow>
          let (res, b') = token_Create e c u label days b
          in (bind_res (answer res) (\<lambda>(x, secret). Inr (newAPITokenResponse e x (Some secret))), b'))"

definition handle_token_Revoke :: "authorizer \<Rightarrow> request \<Rightarrow> token_table \<Rightarrow> unit answer \<times> token_table" where
  "handle_token_Revoke a r b =
     (case bind_res (authz_Principal a r) (\<lambda>p. bind_res (answer (pathID r)) (\<lambda>i. Inr (i, caller_id p))) of
        Inl refusal \<Rightarrow> (Inl refusal, b)
      | Inr (i, u) \<Rightarrow> let (res, b') = token_Revoke i u b in (answer res, b'))"

section \<open>Out of service\<close>

record maintenance =
  mt_Enabled :: bool
  mt_Message :: gostring

definition MaintenanceMessageLimit :: nat where "MaintenanceMessageLimit = 300"

definition DefaultMaintenanceMessage :: gostring where
  "DefaultMaintenanceMessage = ''This installation is temporarily unavailable for maintenance.''"

definition maintenance_Text :: "maintenance \<Rightarrow> gostring" where
  "maintenance_Text m = (let trimmed = TrimSpace (mt_Message m) in if trimmed \<noteq> [] then trimmed else DefaultMaintenanceMessage)"

definition maintenance_Normalise :: "maintenance \<Rightarrow> maintenance" where
  "maintenance_Normalise m =
     (let message = TrimSpace (mt_Message m)
      in m\<lparr>mt_Message := (if length message > MaintenanceMessageLimit
                          then TrimSpace (take MaintenanceMessageLimit message) else message)\<rparr>)"

definition maintenanceExempt :: "gostring \<Rightarrow> bool" where
  "maintenanceExempt path \<longleftrightarrow>
     \<not> has_prefix path ''/api/''
     \<or> path \<in> {''/api/v1/auth/login'', ''/api/v1/auth/logout'', ''/api/v1/branding'', ''/api/v1/languages'',
                ''/api/v1/auth/passkey'', ''/api/v1/auth/passkey/login'', ''/api/v1/auth/openid'',
                ''/api/v1/auth/openid/finish'', ''/api/v1/auth/kerberos'', ''/api/v1/me'', ''/api/v1/maintenance''}
     \<or> has_prefix path ''/api/v1/settings/'' \<or> has_prefix path ''/api/v1/admin/''"

definition configures :: "principal \<Rightarrow> bool" where
  "configures p \<longleftrightarrow> caller_IsSystem p \<or> Can p PermSettingsManage"

definition isInstallationAdminRequest :: "presented \<Rightarrow> bool" where
  "isInstallationAdminRequest caller =
     (case caller of SignedIn p \<Rightarrow> pp_User p \<noteq> None \<and> configures p | _ \<Rightarrow> False)"

text \<open>\<^verbatim>\<open>MaintenanceMiddleware\<close> lets a request through or turns it away; \<open>state\<close> is \<open>None\<close> where there is
  no maintenance state to read.\<close>

definition MaintenanceMiddleware :: "authorizer option \<Rightarrow> maintenance option \<Rightarrow> gostring \<Rightarrow> presented \<Rightarrow> bool" where
  "MaintenanceMiddleware a state path caller \<longleftrightarrow>
     (case state of
        None \<Rightarrow> True
      | Some m \<Rightarrow> \<not> mt_Enabled m \<or> (case a of None \<Rightarrow> False | Some a \<Rightarrow> \<not> Enforced a)
                  \<or> maintenanceExempt path \<or> isInstallationAdminRequest caller)"

definition refusedByMaintenance :: "maintenance option \<Rightarrow> principal \<Rightarrow> maintenance option" where
  "refusedByMaintenance state p =
     (case state of
        None \<Rightarrow> None
      | Some m \<Rightarrow> if pp_User p = None \<or> \<not> mt_Enabled m \<or> configures p then None else Some m)"

text \<open>The cache in front of the stored state: what it holds and until when.\<close>

record maintenance_cache =
  mc_cached :: maintenance
  mc_expires :: gotime

definition no_maintenance :: maintenance where
  "no_maintenance = \<lparr>mt_Enabled = False, mt_Message = []\<rparr>"

definition CachedMaintenanceState :: maintenance_cache where
  "CachedMaintenanceState = \<lparr>mc_cached = no_maintenance, mc_expires = zero_time\<rparr>"

definition maintenanceCacheTTL :: int where "maintenanceCacheTTL = 2 * 10 ^ 9"

definition maintenance_State :: "gotime \<Rightarrow> maintenance result \<Rightarrow> maintenance_cache \<Rightarrow> maintenance \<times> maintenance_cache" where
  "maintenance_State t stored m =
     (if ns t < ns (mc_expires m) then (mc_cached m, m)
      else case stored of
             Inl _ \<Rightarrow> (no_maintenance, m)
           | Inr state \<Rightarrow> (state, \<lparr>mc_cached = state, mc_expires = later t maintenanceCacheTTL\<rparr>))"

definition maintenance_Invalidate :: "maintenance_cache \<Rightarrow> maintenance_cache" where
  "maintenance_Invalidate m = m\<lparr>mc_expires := zero_time\<rparr>"

section \<open>Signing in\<close>

text \<open>What a sign-in answers: the account with its rights and the cookie, that a code is needed, that
  the installation is out of service, or a refusal that says nothing.\<close>

datatype login_answer =
    SignedInAs user_response "gostring list" login_result
  | CodeNeeded
  | OutOfService maintenance
  | LoginRefused http_error

definition completeSignIn ::
  "crypto \<Rightarrow> maintenance option \<Rightarrow> request \<Rightarrow> login_result \<Rightarrow> site \<Rightarrow> login_answer \<times> site" where
  "completeSignIn c state r opened s =
     (let p = lr_Principal opened
      in case refusedByMaintenance state p of
           Some m \<Rightarrow> (OutOfService m, Logout c (lr_Token opened) s)
         | None \<Rightarrow> (SignedInAs (newUserResponseFromModel r (caller_account p)) (pp_Permissions p) opened, s))"

definition handle_Login ::
  "env \<Rightarrow> crypto \<Rightarrow> session_service \<Rightarrow> maintenance option \<Rightarrow> request \<Rightarrow> (gostring \<times> gostring \<times> gostring) option \<Rightarrow> site
     \<Rightarrow> login_answer \<times> site" where
  "handle_Login e c v state r body s =
     (case body of
        None \<Rightarrow> (LoginRefused (toHTTPError (WithCode Invalidf ''bodyNotJSON'' [])), s)
      | Some (email, password, code) \<Rightarrow>
          (case Login e c v email password code s of
             (Inl err, s') \<Rightarrow> (if err = ErrTOTPRequired then CodeNeeded else LoginRefused HUnauthorized, s')
           | (Inr opened, s') \<Rightarrow> completeSignIn c state r opened s'))"

text \<open>A directory that finds people by name: \<open>None\<close> where it could not be asked.\<close>

fun lookUpPrincipal :: "(gostring \<Rightarrow> external_user option option) \<Rightarrow> gostring list \<Rightarrow> external_user option result" where
  "lookUpPrincipal directory [] = Inr None"
| "lookUpPrincipal directory (login # logins) =
     (case directory login of
        None \<Rightarrow> Inl Internal
      | Some (Some entry) \<Rightarrow> Inr (Some entry)
      | Some None \<Rightarrow> lookUpPrincipal directory logins)"

definition KerberosLogin ::
  "env \<Rightarrow> crypto \<Rightarrow> session_service \<Rightarrow> (gostring \<Rightarrow> external_user option option) option \<Rightarrow> gostring \<Rightarrow> gostring \<Rightarrow> gostring
     \<Rightarrow> site \<Rightarrow> login_result result \<times> site" where
  "KerberosLogin e c v directory name realm code s =
     (case directory of
        None \<Rightarrow> (Inl (WithCode Conflictf ''kerberosNeedsDirectory'' []), s)
      | Some search \<Rightarrow>
          (case lookUpPrincipal search [name, name @ ''@'' @ realm] of
             Inl err \<Rightarrow> (Inl err, s)
           | Inr None \<Rightarrow> (Inl (WithCode Invalidf ''invalidCredentials'' []), s)
           | Inr (Some entry) \<Rightarrow>
               (case provisionExternal e v entry (site_db s) of
                  (Inl err, d) \<Rightarrow> (Inl err, s\<lparr>site_db := d\<rparr>)
                | (Inr user, d) \<Rightarrow>
                    (case secondFactor e c user code (s\<lparr>site_db := d\<rparr>) of
                       (Inl err, s') \<Rightarrow> (Inl err, s')
                     | (Inr _, s') \<Rightarrow> let (opened, s'') = OpenSession e c v user s' in (Inr opened, s'')))))"

definition handle_Logout :: "crypto \<Rightarrow> http_request \<Rightarrow> site \<Rightarrow> site" where
  "handle_Logout c r s = (case hr_cookie r SessionCookieName of None \<Rightarrow> s | Some token \<Rightarrow> Logout c token s)"

definition handle_ChangePassword ::
  "authorizer \<Rightarrow> crypto \<Rightarrow> request \<Rightarrow> gostring \<Rightarrow> (gostring \<times> gostring) option \<Rightarrow> site \<Rightarrow> unit answer \<times> site" where
  "handle_ChangePassword a c r token body s =
     perform
       (bind_res (authz_Principal a r) (\<lambda>p.
        if \<not> Enforced a then Inl (toHTTPError (WithCode Conflictf ''noAuthNoPassword'' []))
        else bind_res (answer (bind_body body)) (\<lambda>(current, replacement). Inr (caller_id p, current, replacement))))
       (\<lambda>(u, current, replacement) s.
          (case ChangePassword c u current replacement (site_db s) of
             (Inl err, d) \<Rightarrow> (Inl err, s\<lparr>site_db := d\<rparr>)
           | (Inr _, d) \<Rightarrow> (Inr (), LogoutOthers c u token (s\<lparr>site_db := d\<rparr>))))
       id s"

definition handle_BeginTOTP :: "authorizer \<Rightarrow> crypto \<Rightarrow> request \<Rightarrow> site \<Rightarrow> gostring answer \<times> site" where
  "handle_BeginTOTP a c r s =
     perform (bind_res (authz_Principal a r) (\<lambda>p. Inr (caller_id p))) (BeginTOTPEnrolment c) id s"

text \<open>Who is asking, before the body is read.\<close>

definition askingWith :: "authorizer \<Rightarrow> request \<Rightarrow> 'a option \<Rightarrow> (uint \<times> 'a) answer" where
  "askingWith a r body =
     bind_res (authz_Principal a r) (\<lambda>p. bind_res (answer (bind_body body)) (\<lambda>x. Inr (caller_id p, x)))"

definition handle_ConfirmTOTP :: "authorizer \<Rightarrow> env \<Rightarrow> crypto \<Rightarrow> request \<Rightarrow> gostring option \<Rightarrow> site \<Rightarrow> unit answer \<times> site" where
  "handle_ConfirmTOTP a e c r body s = perform (askingWith a r body) (\<lambda>(u, code). ConfirmTOTP e c u code) id s"

definition handle_DisableTOTP :: "authorizer \<Rightarrow> env \<Rightarrow> crypto \<Rightarrow> request \<Rightarrow> site \<Rightarrow> unit answer \<times> site" where
  "handle_DisableTOTP a e c r s =
     perform
       (bind_res (authz_Principal a r) (\<lambda>p.
        let code = rq_param r ''code''
        in if code = [] then Inl (toHTTPError (InvalidFields [''code''])) else Inr (caller_id p, code)))
       (\<lambda>(u, code). DisableTOTP e c u code) id s"

section \<open>Choices of an account\<close>

definition refuseHolidayChoice :: "gostring \<Rightarrow> unit result" where
  "refuseHolidayChoice choice =
     (case HolidayChoiceFaultOf choice of
        UnknownHolidayCountry \<Rightarrow> Inl (InvalidFields [''country''])
      | UnknownHolidayRegion \<Rightarrow> Inl (InvalidFields [''region''])
      | _ \<Rightarrow> Inr ())"

definition set_preference :: "uint \<Rightarrow> preference \<Rightarrow> gostring \<Rightarrow> db \<Rightarrow> unit result \<times> db" where
  "set_preference u field v d = (let (res, users) = SetPreference u field v (db_users d) in (res, d\<lparr>db_users := users\<rparr>))"

definition SetLanguage :: "uint \<Rightarrow> gostring \<Rightarrow> db \<Rightarrow> unit result \<times> db" where
  "SetLanguage u language d =
     (if \<not> IsSupportedLanguage language then (Inl (InvalidFields [''language'']), d)
      else set_preference u PreferenceLanguage language d)"

definition SetTheme :: "uint \<Rightarrow> gostring \<Rightarrow> db \<Rightarrow> unit result \<times> db" where
  "SetTheme u theme d =
     (if \<not> IsSupportedTheme theme then (Inl (InvalidFields [''theme'']), d)
      else set_preference u PreferenceTheme theme d)"

definition SetTourSeen :: "uint \<Rightarrow> bool \<Rightarrow> db \<Rightarrow> unit result \<times> db" where
  "SetTourSeen u seen d = set_preference u PreferenceTourSeen (if seen then ''true'' else ''false'') d"

definition SetTimezone :: "(gostring \<Rightarrow> location option) \<Rightarrow> uint \<Rightarrow> gostring \<Rightarrow> db \<Rightarrow> unit result \<times> db" where
  "SetTimezone load u zone d =
     (let zone = TrimSpace zone
      in if zone \<noteq> [] \<and> \<not> IsSupportedTimezone load zone then (Inl (InvalidFields [''timezone'']), d)
         else set_preference u PreferenceTimezone zone d)"

definition SetHolidayPlace :: "uint \<Rightarrow> gostring \<Rightarrow> db \<Rightarrow> unit result \<times> db" where
  "SetHolidayPlace u place d =
     (let place = TrimSpace place
      in case refuseHolidayChoice place of
           Inl err \<Rightarrow> (Inl err, d) | Inr _ \<Rightarrow> set_preference u PreferenceHolidayPlace place d)"

definition service_SetReminders :: "uint \<Rightarrow> bool \<Rightarrow> int \<Rightarrow> db \<Rightarrow> unit result \<times> db" where
  "service_SetReminders u unbooked hours d =
     (if hours < 0 \<or> hours > MaxTimerAlertHours then (Inl (InvalidFields [''timerAlertHours'']), d)
      else let (res, users) = SetReminders u (\<not> unbooked) (Some hours) (db_users d) in (res, d\<lparr>db_users := users\<rparr>))"

definition handle_SetLanguage :: "authorizer \<Rightarrow> request \<Rightarrow> gostring option \<Rightarrow> site \<Rightarrow> unit answer \<times> site" where
  "handle_SetLanguage a r body s = carry_out (askingWith a r body) (\<lambda>(u, language). SetLanguage u language) id s"

definition handle_SetTheme :: "authorizer \<Rightarrow> request \<Rightarrow> gostring option \<Rightarrow> site \<Rightarrow> unit answer \<times> site" where
  "handle_SetTheme a r body s = carry_out (askingWith a r body) (\<lambda>(u, theme). SetTheme u theme) id s"

definition handle_SetTimezone :: "authorizer \<Rightarrow> request \<Rightarrow> gostring option \<Rightarrow> site \<Rightarrow> unit answer \<times> site" where
  "handle_SetTimezone a r body s = carry_out (askingWith a r body) (\<lambda>(u, zone). SetTimezone (rq_load_zone r) u zone) id s"

definition handle_SetTourSeen :: "authorizer \<Rightarrow> request \<Rightarrow> bool option \<Rightarrow> site \<Rightarrow> unit answer \<times> site" where
  "handle_SetTourSeen a r body s = carry_out (askingWith a r body) (\<lambda>(u, seen). SetTourSeen u seen) id s"

definition handle_SetReminders :: "authorizer \<Rightarrow> request \<Rightarrow> (bool \<times> int) option \<Rightarrow> site \<Rightarrow> (bool \<times> int) answer \<times> site" where
  "handle_SetReminders a r body s =
     (let (res, s') = carry_out (askingWith a r body) (\<lambda>(u, unbooked, hours). service_SetReminders u unbooked hours) id s
      in (bind_res res (\<lambda>_. answer (bind_body body)), s'))"

section \<open>Who am I\<close>

record me_response =
  me_User :: user_response
  me_Permissions :: "gostring list"
  me_AuthEnabled :: bool
  me_PermissionsRevision :: gostring
  me_UnbookedDay :: bool
  me_TimerAlertHours :: int
  me_ManagersEnabled :: bool

definition handle_Me :: "authorizer \<Rightarrow> crypto \<Rightarrow> bool \<Rightarrow> request \<Rightarrow> site \<Rightarrow> me_response answer" where
  "handle_Me a c team r s =
     bind_res (authz_Principal a r) (\<lambda>p.
     let u = caller_account p
     in Inr \<lparr>me_User = newUserResponseFromModel r u, me_Permissions = pp_Permissions p, me_AuthEnabled = Enforced a,
             me_PermissionsRevision = PermissionRevision c (Some p),
             me_UnbookedDay = (\<not> us_SkipUnbookedReminder u), me_TimerAlertHours = EffectiveTimerAlertHours u,
             me_ManagersEnabled = (team \<and> Enabled s)\<rparr>)"

end
