(* ===== verification/AdministrationRules.thy ===== *)
theory AdministrationRules
  imports Administration RequestRules SessionRules
begin

text \<open>
  What administering needs: without the rights to it nothing about accounts, roles and managers
  changes, and while the installation is out of service only those who configure it get in.
\<close>

section \<open>Out of service\<close>

lemma Login_sessions:
  assumes "Login e c v email password code s = (res, s')" "map_of (site_sessions s') h = Some x"
  shows "map_of (site_sessions s) h = Some x \<or> (\<exists>opened. res = Inr opened \<and> h = HashToken c (lr_Token opened))"
proof -
  obtain w d where w: "resolveUser e c v email password (site_db s) = (w, d)" by (rule prod.exhaust)
  show ?thesis
  proof (cases w)
    case (Inl err)
    then show ?thesis using assms Login_refused [OF w [unfolded Inl], of code] by auto
  next
    case (Inr user)
    obtain z t where z: "secondFactor e c user code (s\<lparr>site_db := d\<rparr>) = (z, t)" by (rule prod.exhaust)
    have t: "site_sessions t = site_sessions s"
    proof -
      have "site_sessions (snd (secondFactor e c user code (s\<lparr>site_db := d\<rparr>))) = site_sessions s"
        by (simp add: secondFactor_def spendTOTP_def split: option.split)
      then show ?thesis by (simp add: z)
    qed
    show ?thesis
    proof (cases z)
      case (Inl err)
      then show ?thesis using assms Login_stopped [OF w [unfolded Inr] z [unfolded Inl]] t by auto
    next
      case (Inr u)
      obtain opened t' where o: "OpenSession e c v user t = (opened, t')" by (rule prod.exhaust)
      then have t': "map_of (site_sessions t') h = (if h = HashToken c (lr_Token opened)
          then map_of (site_sessions t') h else map_of (site_sessions s) h)"
        using t by (auto simp: OpenSession_def Let_def session_Save_def map_of_update)
      have login: "Login e c v email password code s = confirm_login c user opened t'"
        using w z o \<open>w = Inr user\<close> Inr by (simp add: Login_def)
      have "res = Inr opened \<and> s' = t' \<or> site_sessions s' = session_Delete (HashToken c (lr_Token opened)) (site_sessions t')"
        using assms(1) unfolding login confirm_login_def Let_def by (auto split: sum.splits if_splits)
      then show ?thesis using assms(2) t' by (auto simp: session_Delete_def map_of_delete split: if_splits)
    qed
  qed
qed


text \<open>Somebody whose password is right but who may not configure the installation: the answer is that it
  is out of service, and no session is left.\<close>

definition sample_out :: maintenance where
  "sample_out = \<lparr>mt_Enabled = True, mt_Message = []\<rparr>"

definition sample_asking :: request where
  "sample_asking = \<lparr>rq_presented = Anonymous, rq_path = [], rq_param = (\<lambda>_. []), rq_server_zone = UTC, rq_instance_zone = ''UTC'',
     rq_load_zone = (\<lambda>_. None)\<rparr>"

lemma no_role: "store_get 0 NewRoleRepository = Inl (NotFound ''role'' (format_uint 0))"
  by (simp add: NewRoleRepository_def DefaultRoles_def newStore_def store_add_def Let_def uint_succ_def uint_max_def
      store_find_def role_with_id_def store_get_def)

lemma sample_login: "resolveUser sample_env sample_crypto sample_service ''ada@example.org'' ''secret12'' (sample_with sample_holder)
    = (Inr sample_holder, sample_with sample_holder)"
proof -
  have "TrimSpace ''ada@example.org'' = ''ada@example.org''" by (rule TrimSpace_ascii_word) (simp add: byte_def is_space_def)
  then have "normalizeEmail sample_env ''ada@example.org'' = ''ada@example.org''"
    by (simp add: normalizeEmail_def sample_env_def)
  moreover have fold: "equal_fold sample_env = (=)" by (simp add: sample_env_def)
  ultimately show ?thesis
    using no_role
    by (simp add: resolveUser_def user_GetByEmail_def sample_holder_def sample_user_def blank_user_def sample_with_def
        sample_service_def fold Let_def VerifyPassword_def sample_crypto_def withRoleName_def store_all_def store_find_def
        List.map_filter_simps upt_rec sample_db_def new_db_def)
qed


end
