(* ===== verification/AdminRights.thy ===== *)
theory AdminRights
  imports AdministrationRules OwnTimeRules
begin

text \<open>
  Who administers: without the rights to it, no request about projects, accounts, roles, managers
  and one's own account changes what anybody may do.
\<close>

section \<open>What an account may do\<close>

text \<open>What decides over an account's rights: whose it is, its role, and whether it is the built-in one.\<close>

definition standing :: "user \<Rightarrow> uint \<times> gostring \<times> gostring \<times> uint \<times> bool \<times> bool \<times> gostring" where
  "standing u = (us_ID u, us_Name u, us_Email u, us_RoleID u, us_IsSystem u, us_IsExternal u, us_ExternalID u)"

definition keeps_rights :: "site \<Rightarrow> site \<Rightarrow> bool" where
  "keeps_rights s t \<longleftrightarrow> db_roles (site_db t) = db_roles (site_db s) \<and> db_managers (site_db t) = db_managers (site_db s)
     \<and> site_settings t = site_settings s
     \<and> (\<forall>i. map_option standing (user_at (site_db t) i) = map_option standing (user_at (site_db s) i))"

lemma keeps_rights_refl: "keeps_rights s s"
  by (simp add: keeps_rights_def)

lemma keeps_rights_trans: "keeps_rights s t \<Longrightarrow> keeps_rights t w \<Longrightarrow> keeps_rights s w"
  by (simp add: keeps_rights_def)

lemma keeps_rights_sessions [simp]:
  "keeps_rights s (t\<lparr>site_sessions := x\<rparr>) = keeps_rights s t" "keeps_rights s (t\<lparr>site_spent := y\<rparr>) = keeps_rights s t"
  by (simp_all add: keeps_rights_def)

lemma keeps_rights_keyed:
  assumes "keeps_rights s t" "users_keyed (db_users (site_db s))"
  shows "users_keyed (db_users (site_db t))"
  unfolding users_keyed_def
proof (intro allI impI)
  fix i x
  assume "store_find i (db_users (site_db t)) = Some x"
  moreover have "map_option standing (user_at (site_db t) i) = map_option standing (user_at (site_db s) i)"
    using assms(1) unfolding keeps_rights_def by blast
  ultimately have "map_option standing (user_at (site_db s) i) = Some (standing x)" by simp
  then obtain y where y: "user_at (site_db s) i = Some y" "standing y = standing x" by auto
  then show "us_ID x = i" using assms(2) by (auto simp: users_keyed_def standing_def)
qed

text \<open>The same of the repositories alone.\<close>

definition db_keeps_rights :: "db \<Rightarrow> db \<Rightarrow> bool" where
  "db_keeps_rights d d' \<longleftrightarrow> db_roles d' = db_roles d \<and> db_managers d' = db_managers d
     \<and> (\<forall>i. map_option standing (user_at d' i) = map_option standing (user_at d i))"

lemma keeps_rights_db [simp]: "keeps_rights s (s\<lparr>site_db := d\<rparr>) = db_keeps_rights (site_db s) d"
  by (simp add: keeps_rights_def db_keeps_rights_def)

lemma db_keeps_refl: "db_keeps_rights d d"
  by (simp add: db_keeps_rights_def)

lemma carry_out_rights:
  assumes "\<And>cmd. agreed = Inr cmd \<Longrightarrow> db_keeps_rights (site_db s) (snd (run cmd (site_db s)))"
  shows "keeps_rights s (snd (carry_out agreed run show s))"
  using assms by (auto simp: carry_out_def keeps_rights_refl case_prod_beta split: sum.split)

lemma perform_rights:
  assumes "\<And>cmd. agreed = Inr cmd \<Longrightarrow> keeps_rights s (snd (run cmd s))"
  shows "keeps_rights s (snd (perform agreed run show s))"
  using assms by (auto simp: perform_def keeps_rights_refl case_prod_beta split: sum.split)

section \<open>Writing to one's own account\<close>

lemma update_rights:
  assumes "store_find i (db_users d) = Some a" "standing u = standing a"
  shows "db_keeps_rights d (d\<lparr>db_users := snd (store_update i u (db_users d))\<rparr>)"
  using assms by (auto simp: db_keeps_rights_def store_update_def store_find_def map_of_update)

lemma change_user_rights:
  assumes "\<And>a b. f a = Inr b \<Longrightarrow> standing b = standing a"
  shows "db_keeps_rights d (d\<lparr>db_users := snd (change_user i f (db_users d))\<rparr>)"
proof (cases "store_find i (db_users d)")
  case None
  then show ?thesis by (simp add: change_user_def store_get_def db_keeps_refl)
next
  case (Some a)
  show ?thesis
  proof (cases "f a")
    case (Inl err)
    then show ?thesis using Some by (simp add: change_user_def store_get_def db_keeps_refl)
  next
    case (Inr b)
    then have "snd (change_user i f (db_users d)) = snd (store_update i b (db_users d))"
      using Some by (simp add: change_user_def store_get_def case_prod_beta split: sum.split)
    then show ?thesis using update_rights [OF Some assms [OF Inr]] by simp
  qed
qed

lemma user_Update_rights:
  assumes "users_keyed (db_users d)" "user_GetByID (db_roles d) i (db_users d) = Inr a" "standing u = standing a"
  shows "db_keeps_rights d (d\<lparr>db_users := snd (user_Update (db_roles d) u (db_users d))\<rparr>)"
proof -
  obtain v where v: "store_find i (db_users d) = Some v" "a = withRoleName (db_roles d) v"
    using assms(2) by (auto simp: user_GetByID_Inr)
  then have "standing u = standing v" "us_ID u = i"
    using assms(1,3) by (auto simp: standing_def users_keyed_def)
  then show ?thesis using update_rights [OF v(1)] user_Update_found [of u "db_users d" v "db_roles d"] v(1) by simp
qed

lemma own_account_rights:
  assumes "users_keyed (db_users d)"
  shows "db_keeps_rights d (snd (ChangePassword c i current replacement d))"
    "db_keeps_rights d (snd (UpdateWorkingTimes cmd d))"
    "db_keeps_rights d (snd (set_preference i field x d))"
    "db_keeps_rights d (snd (service_SetReminders i unbooked hours d))"
    "db_keeps_rights d (d\<lparr>db_users := snd (SetTOTP i secret on (db_users d))\<rparr>)"
proof -
  note kept = user_Update_rights [OF assms]
  show "db_keeps_rights d (snd (ChangePassword c i current replacement d))"
    by (auto simp: ChangePassword_def update_user_def Let_def case_prod_beta db_keeps_refl standing_def
        intro!: kept split: sum.split)
  show "db_keeps_rights d (snd (UpdateWorkingTimes cmd d))"
  proof (cases "retimed_account cmd d")
    case (Inl err)
    then show ?thesis by (simp add: UpdateWorkingTimes_def db_keeps_refl)
  next
    case (Inr u)
    then obtain a where a: "user_GetByID (db_roles d) (wt_ID cmd) (db_users d) = Inr a"
      by (auto simp: retimed_account_def bind_res_Inr split: if_splits)
    then have "standing u = standing a"
      using Inr by (auto simp: retimed_account_def bind_res_Inr Let_def standing_def split: if_splits option.splits)
    from kept [OF a this] show ?thesis
      using Inr by (simp add: UpdateWorkingTimes_def write_account_def Let_def case_prod_beta)
  qed
  show "db_keeps_rights d (snd (set_preference i field x d))"
    unfolding set_preference_def SetPreference_def case_prod_beta Let_def snd_conv
    by (rule change_user_rights) (auto simp: standing_def split: preference.splits)
  show "db_keeps_rights d (d\<lparr>db_users := snd (SetTOTP i secret on (db_users d))\<rparr>)"
    unfolding SetTOTP_def by (rule change_user_rights) (auto simp: standing_def)
  have "db_keeps_rights d (d\<lparr>db_users := snd (SetReminders i skip h (db_users d))\<rparr>)" for skip h
    unfolding SetReminders_def by (rule change_user_rights) (auto simp: standing_def)
  then show "db_keeps_rights d (snd (service_SetReminders i unbooked hours d))"
    by (simp add: service_SetReminders_def case_prod_beta Let_def db_keeps_refl)
qed

section \<open>The requests\<close>

text \<open>Somebody asking without a right to administer anything.\<close>

definition powerless :: "request \<Rightarrow> bool" where
  "powerless r \<longleftrightarrow> (\<forall>p. rq_presented r = SignedIn p \<longrightarrow> \<not> caller_IsSystem p
     \<and> set (pp_Permissions p) \<inter> {PermUserWrite, PermUserDelete, PermRoleWrite, PermSettingsManage} = {})"

text \<open>One request to a route about accounts, roles, managers, projects or the caller's own account.\<close>

inductive admin_request :: "authorizer \<Rightarrow> crypto \<Rightarrow> request \<Rightarrow> site \<Rightarrow> site \<Rightarrow> bool" for a c r s where
  user_create: "admin_request a c r s (snd (handle_user_Create a e c r account s))"
| user_update: "admin_request a c r s (snd (handle_user_Update a e r change s))"
| user_delete: "admin_request a c r s (snd (handle_user_Delete a e r s))"
| user_role: "admin_request a c r s (snd (handle_user_AssignRole a e r role s))"
| user_password: "admin_request a c r s (snd (handle_user_SetPassword a c ends r password s))"
| role_create: "admin_request a c r s (snd (handle_role_Create a r role_sent s))"
| role_update: "admin_request a c r s (snd (handle_role_Update a r role_sent s))"
| role_delete: "admin_request a c r s (snd (handle_role_Delete a r s))"
| managers_switch: "admin_request a c r s (snd (handle_team_SaveSwitch a r on s))"
| managers_set: "admin_request a c r s (snd (handle_team_SetManagers a r managers s))"
| working_times: "admin_request a c r s (snd (handle_user_UpdateWorkingTimes a r hours s))"
| own_password: "admin_request a c r s (snd (handle_ChangePassword a c r token passwords s))"
| totp_begin: "admin_request a c r s (snd (handle_BeginTOTP a c r s))"
| totp_confirm: "admin_request a c r s (snd (handle_ConfirmTOTP a e c r code s))"
| totp_disable: "admin_request a c r s (snd (handle_DisableTOTP a e c r s))"
| language: "admin_request a c r s (snd (handle_SetLanguage a r text_sent s))"
| theme: "admin_request a c r s (snd (handle_SetTheme a r text_sent s))"
| timezone: "admin_request a c r s (snd (handle_SetTimezone a r text_sent s))"
| tour: "admin_request a c r s (snd (handle_SetTourSeen a r flag s))"
| reminders: "admin_request a c r s (snd (handle_SetReminders a r reminded s))"
| project_create: "admin_request a c r s (snd (handle_project_Create a e r project_sent s))"
| project_update: "admin_request a c r s (snd (handle_project_Update a e r project_change s))"
| project_delete: "admin_request a c r s (snd (handle_project_Delete a e r s))"
| project_archive: "admin_request a c r s (snd (handle_project_Archive a r s))"

inductive asked_powerless :: "authorizer \<Rightarrow> crypto \<Rightarrow> site \<Rightarrow> site \<Rightarrow> bool" for a c s where
  nothing: "asked_powerless a c s s"
| another: "asked_powerless a c s t \<Longrightarrow> powerless r \<Longrightarrow> admin_request a c r t w \<Longrightarrow> asked_powerless a c s w"

lemma powerless_refused:
  assumes "Enforced a" "powerless r" "right \<in> {PermUserWrite, PermUserDelete, PermRoleWrite, PermSettingsManage}"
  shows "\<exists>refusal. Require a r right = Inl refusal"
  using assms by (cases "Require a r right") (auto simp: Require_enforced [OF assms(1)] powerless_def Can_def)

lemma powerless_configures:
  assumes "Enforced a" "powerless r"
  shows "\<exists>refusal. RequireInstallationAdmin a r = Inl refusal"
  using assms
  by (auto simp: RequireInstallationAdmin_def authz_Principal_def Enforced_def powerless_def Can_def split: presented.split)

lemma set_totp_rights: "users_keyed (db_users (site_db s)) \<Longrightarrow> keeps_rights s (snd (set_totp i secret on s))"
  by (simp add: set_totp_def case_prod_beta Let_def own_account_rights(5))

lemma totp_rights:
  assumes "users_keyed (db_users (site_db s))"
  shows "keeps_rights s (snd (BeginTOTPEnrolment c i s))" "keeps_rights s (snd (ConfirmTOTP e c i code s))"
    "keeps_rights s (snd (DisableTOTP e c i code s))"
proof -
  show "keeps_rights s (snd (BeginTOTPEnrolment c i s))"
  proof (cases "user_GetByID (db_roles (site_db s)) i (db_users (site_db s))")
    case (Inr user)
    obtain res t where t: "set_totp (us_ID user) (fresh_secret c) False s = (res, t)" by (rule prod.exhaust)
    have "keeps_rights s t" using set_totp_rights [OF assms, of "us_ID user" "fresh_secret c" False] by (simp add: t)
    then show ?thesis by (cases res) (auto simp: BeginTOTPEnrolment_def Inr t keeps_rights_refl)
  qed (simp add: BeginTOTPEnrolment_def keeps_rights_refl)
  have spent: "keeps_rights s t \<and> users_keyed (db_users (site_db t))" if "spendTOTP e c user code s = (res, t)" for user res t
    using that assms by (auto simp: spendTOTP_def keeps_rights_refl split: option.splits if_splits)
  have set: "keeps_rights s (snd (set_totp j secret on t))" if "spendTOTP e c user code s = (res, t)" for user res t j secret on
    using spent [OF that] set_totp_rights [of t j secret on] keeps_rights_trans by blast
  show "keeps_rights s (snd (ConfirmTOTP e c i code s))" "keeps_rights s (snd (DisableTOTP e c i code s))"
    by (auto simp: ConfirmTOTP_def DisableTOTP_def keeps_rights_refl split: sum.split prod.split dest: spent intro: set)
qed

lemma project_rights:
  "db_keeps_rights d (snd (CreateProject e p d))" "db_keeps_rights d (snd (UpdateProject e q d))"
  "db_keeps_rights d (snd (DeleteProject e i j d))" "db_keeps_rights d (snd (ArchiveProject i j d))"
  by (auto simp: CreateProject_def UpdateProject_def DeleteProject_def ArchiveProject_def Let_def case_prod_beta
      db_keeps_rights_def split: sum.split prod.split)

lemma password_rights:
  assumes "users_keyed (db_users (site_db s))"
  shows "keeps_rights s (snd (handle_ChangePassword a c r token passwords s))"
  unfolding handle_ChangePassword_def
proof (rule perform_rights)
  fix cmd :: "uint \<times> gostring \<times> gostring"
  obtain i current replacement where cmd: "cmd = (i, current, replacement)" by (rule prod_cases3)
  obtain res d where d: "ChangePassword c i current replacement (site_db s) = (res, d)" by (rule prod.exhaust)
  have "db_keeps_rights (site_db s) d" using own_account_rights(1) [OF assms, of c i current replacement] by (simp add: d)
  then show "keeps_rights s (snd ((\<lambda>(u, current, replacement) s.
          (case ChangePassword c u current replacement (site_db s) of
             (Inl err, d) \<Rightarrow> (Inl err, s\<lparr>site_db := d\<rparr>)
           | (Inr _, d) \<Rightarrow> (Inr (), LogoutOthers c u token (s\<lparr>site_db := d\<rparr>)))) cmd s))"
    by (cases res) (simp_all add: cmd d LogoutOthers_def)
qed

lemma own_choice_rights:
  "db_keeps_rights d (snd (SetLanguage i x d))" "db_keeps_rights d (snd (SetTheme i x d))"
  "db_keeps_rights d (snd (SetTourSeen i seen d))" "db_keeps_rights d (snd (SetTimezone load i x d))"
  if "users_keyed (db_users d)"
  using own_account_rights(3) [OF that]
  by (auto simp: SetLanguage_def SetTheme_def SetTourSeen_def SetTimezone_def Let_def db_keeps_refl)

lemma admin_request_rights:
  assumes "Enforced a" "powerless r" "users_keyed (db_users (site_db s))" "admin_request a c r s t"
  shows "keeps_rights s t"
proof -
  note refused = powerless_refused [OF assms(1,2)] and configures = powerless_configures [OF assms(1,2)]
  have stopped: "snd (carry_out (bind_res q f) run show s) = s" "snd (perform (bind_res q f) run2 show2 s) = s"
    if "\<exists>refusal. q = Inl refusal" for q f run "show" run2 show2
    using that by (auto simp: carry_out_def perform_def)
  note own = own_account_rights [OF assms(3)] and choice = own_choice_rights [OF assms(3)]
  from assms(4) show ?thesis
  proof cases
    case user_create
    then show ?thesis by (simp add: handle_user_Create_def stopped refused keeps_rights_refl)
  next
    case user_update
    then show ?thesis by (simp add: handle_user_Update_def stopped refused keeps_rights_refl)
  next
    case user_delete
    then show ?thesis by (simp add: handle_user_Delete_def stopped refused keeps_rights_refl)
  next
    case user_role
    then show ?thesis by (simp add: handle_user_AssignRole_def stopped refused keeps_rights_refl)
  next
    case user_password
    then show ?thesis by (simp add: handle_user_SetPassword_def stopped refused keeps_rights_refl)
  next
    case role_create
    then show ?thesis by (simp add: handle_role_Create_def stopped refused keeps_rights_refl)
  next
    case role_update
    then show ?thesis by (simp add: handle_role_Update_def stopped refused keeps_rights_refl)
  next
    case role_delete
    then show ?thesis by (simp add: handle_role_Delete_def stopped refused keeps_rights_refl)
  next
    case managers_switch
    then show ?thesis by (simp add: handle_team_SaveSwitch_def stopped configures keeps_rights_refl)
  next
    case managers_set
    then show ?thesis by (simp add: handle_team_SetManagers_def stopped refused keeps_rights_refl)
  next
    case working_times
    show ?thesis unfolding working_times handle_user_UpdateWorkingTimes_def by (rule carry_out_rights) (rule own)
  next
    case own_password
    then show ?thesis using password_rights [OF assms(3)] by simp
  next
    case totp_begin
    show ?thesis unfolding totp_begin handle_BeginTOTP_def by (rule perform_rights) (rule totp_rights [OF assms(3)])
  next
    case totp_confirm
    show ?thesis unfolding totp_confirm handle_ConfirmTOTP_def
      by (rule perform_rights) (simp add: case_prod_beta totp_rights [OF assms(3)])
  next
    case totp_disable
    show ?thesis unfolding totp_disable handle_DisableTOTP_def
      by (rule perform_rights) (simp add: case_prod_beta totp_rights [OF assms(3)])
  next
    case language
    show ?thesis unfolding language handle_SetLanguage_def by (rule carry_out_rights) (simp add: case_prod_beta choice)
  next
    case theme
    show ?thesis unfolding theme handle_SetTheme_def by (rule carry_out_rights) (simp add: case_prod_beta choice)
  next
    case timezone
    show ?thesis unfolding timezone handle_SetTimezone_def by (rule carry_out_rights) (simp add: case_prod_beta choice)
  next
    case tour
    show ?thesis unfolding tour handle_SetTourSeen_def by (rule carry_out_rights) (simp add: case_prod_beta choice)
  next
    case reminders
    show ?thesis unfolding reminders handle_SetReminders_def case_prod_beta Let_def snd_conv
      by (rule carry_out_rights) (simp add: own)
  next
    case project_create
    show ?thesis unfolding project_create handle_project_Create_def by (rule carry_out_rights) (rule project_rights)
  next
    case project_update
    show ?thesis unfolding project_update handle_project_Update_def by (rule carry_out_rights) (rule project_rights)
  next
    case project_delete
    show ?thesis unfolding project_delete handle_project_Delete_def
      by (rule carry_out_rights) (simp add: case_prod_beta project_rights)
  next
    case project_archive
    show ?thesis unfolding project_archive handle_project_Archive_def
      by (rule carry_out_rights) (simp add: case_prod_beta project_rights)
  qed
qed

text \<open>C3: nobody gains rights by asking: through any sequence of requests about accounts, roles,
  managers, projects and the callers' own accounts, made by people without the rights to administer
  accounts, roles or the installation, every role, every account's role, name, address and origin,
  and who manages whom stay as they were.\<close>

theorem no_rights_gained:
  assumes "Enforced a" "users_keyed (db_users (site_db s))" "asked_powerless a c s t"
  shows "keeps_rights s t"
proof -
  from assms(3) have "keeps_rights s t \<and> users_keyed (db_users (site_db t))"
  proof induction
    case nothing
    show ?case using assms(2) by (simp add: keeps_rights_refl)
  next
    case (another t r w)
    then have "keeps_rights t w" using admin_request_rights [OF assms(1)] by blast
    then show ?case using another.IH keeps_rights_trans keeps_rights_keyed by blast
  qed
  then show ?thesis by simp
qed

text \<open>An account without rights asks for the administrator's role and then changes its own password.\<close>

lemma no_rights_gained_witness:
  "keeps_rights (sample_site sample_holder)
     (snd (handle_ChangePassword (NewAuthorizer True) sample_crypto (asking sample_holder []) ''token''
        (Some (''secret12'', ''secret34''))
        (snd (handle_user_AssignRole (NewAuthorizer True) sample_env (asking sample_holder []) (Some RoleAdmin)
           (sample_site sample_holder)))))"
proof -
  have keyed: "users_keyed (db_users (site_db (sample_site sample_holder)))"
    using sample_with_valid [of sample_holder] by (simp add: sample_site_def db_valid_def sample_holder_def sample_user_def)
  have can: "powerless (asking sample_holder [])"
    by (simp add: powerless_def asking_def caller_IsSystem_def sample_holder_def sample_user_def blank_user_def
        UserPermissions_def permission_names)
  show ?thesis
    by (rule no_rights_gained [OF _ keyed asked_powerless.another [OF
          asked_powerless.another [OF asked_powerless.nothing can admin_request.user_role] can admin_request.own_password]])
      (simp add: NewAuthorizer_def Enforced_def)
qed

end
