(* ===== verification/Imaging.thy ===== *)
theory Imaging
  imports GoString Float64 Gateway
begin

text \<open>
  The logo: \<^verbatim>\<open>support/imaging/imaging.go\<close>.  Which part of an uploaded image a place shows, how
  large it is drawn, and which images are refused before they are read.

  Decoding a picture, scaling it and writing it as PNG are the libraries' and parameters: an image is
  its bounds and whatever carries its pixels.
\<close>

definition HeaderWidth :: int where "HeaderWidth = 440"
definition HeaderHeight :: int where "HeaderHeight = 80"
definition BannerWidth :: int where "BannerWidth = 656"
definition BannerHeight :: int where "BannerHeight = 192"
definition IconSize :: int where "IconSize = 64"
definition MaxPixels :: int where "MaxPixels = 16 * 2 ^ 20"

record rectangle =
  min_x :: int
  min_y :: int
  max_x :: int
  max_y :: int

definition dx :: "rectangle \<Rightarrow> int" where "dx b = max_x b - min_x b"
definition dy :: "rectangle \<Rightarrow> int" where "dy b = max_y b - min_y b"

text \<open>\<^verbatim>\<open>image.Rect\<close> and \<^verbatim>\<open>Rectangle.Intersect\<close>: corners in order, and nothing where two do not meet.\<close>

definition rect :: "int \<Rightarrow> int \<Rightarrow> int \<Rightarrow> int \<Rightarrow> rectangle" where
  "rect x0 y0 x1 y1 = \<lparr>min_x = min x0 x1, min_y = min y0 y1, max_x = max x0 x1, max_y = max y0 y1\<rparr>"

definition intersect :: "rectangle \<Rightarrow> rectangle \<Rightarrow> rectangle" where
  "intersect r s =
     (let m = \<lparr>min_x = max (min_x r) (min_x s), min_y = max (min_y r) (min_y s),
               max_x = min (max_x r) (max_x s), max_y = min (max_y r) (max_y s)\<rparr>
      in if dx m \<le> 0 \<or> dy m \<le> 0 then \<lparr>min_x = 0, min_y = 0, max_x = 0, max_y = 0\<rparr> else m)"

record crop =
  cr_X :: float64
  cr_Y :: float64
  cr_W :: float64
  cr_H :: float64

definition whole_image :: crop where
  "whole_image = \<lparr>cr_X = Fin 0, cr_Y = Fin 0, cr_W = Fin 0, cr_H = Fin 0\<rparr>"

definition crop_Whole :: "crop \<Rightarrow> bool" where
  "crop_Whole c \<longleftrightarrow> fle (cr_W c) (Fin 0) \<or> fle (cr_H c) (Fin 0)
     \<or> (fle (cr_X c) (Fin 0) \<and> fle (cr_Y c) (Fin 0) \<and> fle (Fin 1) (cr_W c) \<and> fle (Fin 1) (cr_H c))"

text \<open>Go's \<^verbatim>\<open>min\<close> and \<^verbatim>\<open>max\<close>: anything with a NaN is NaN.\<close>

definition fmax :: "float64 \<Rightarrow> float64 \<Rightarrow> float64" where
  "fmax x y = (if x = NaN \<or> y = NaN then NaN else if fless x y then y else x)"

definition fmin :: "float64 \<Rightarrow> float64 \<Rightarrow> float64" where
  "fmin x y = (if x = NaN \<or> y = NaN then NaN else if fless y x then y else x)"

definition clamp :: "float64 \<Rightarrow> float64" where
  "clamp v = fmin (fmax v (Fin 0)) (Fin 1)"

text \<open>\<^verbatim>\<open>int(x)\<close>: what is out of range is left to the implementation, and is the smallest number here.\<close>

definition whole_of :: "float64 \<Rightarrow> int" where
  "whole_of x = (case to_int64 x of Some n \<Rightarrow> n | None \<Rightarrow> - (2 ^ 63))"

definition crop_apply :: "crop \<Rightarrow> rectangle \<Rightarrow> rectangle" where
  "crop_apply c bounds =
     (if crop_Whole c then bounds
      else let left = min_x bounds + whole_of (fmul (clamp (cr_X c)) (float_of_int (dx bounds)));
               top = min_y bounds + whole_of (fmul (clamp (cr_Y c)) (float_of_int (dy bounds)));
               width = whole_of (fmul (clamp (cr_W c)) (float_of_int (dx bounds)));
               height = whole_of (fmul (clamp (cr_H c)) (float_of_int (dy bounds)));
               wanted = intersect (rect left top (left + width) (top + height)) bounds
           in if dx wanted < 1 \<or> dy wanted < 1 then bounds else wanted)"

text \<open>What the image libraries do: read the size, read the picture, and draw a part of it into a box of a
  canvas, as PNG.\<close>

record picture =
  pc_bounds :: rectangle
  pc_pixels :: gostring

record image_library =
  decode_config :: "gostring \<Rightarrow> (int \<times> int) option"
  decode_picture :: "gostring \<Rightarrow> picture option"
  draw_png :: "int \<times> int \<Rightarrow> rectangle \<Rightarrow> gostring \<Rightarrow> rectangle \<Rightarrow> gostring option"
  base64_encode :: "gostring \<Rightarrow> gostring"
  base64_decode :: "gostring \<Rightarrow> gostring option"

definition has_suffix :: "gostring \<Rightarrow> gostring \<Rightarrow> bool" where
  "has_suffix s p \<longleftrightarrow> length p \<le> length s \<and> drop (length s - length p) s = p"

definition trim_prefix :: "gostring \<Rightarrow> gostring \<Rightarrow> gostring" where
  "trim_prefix s p = (if has_prefix s p then drop (length p) s else s)"

definition trim_suffix :: "gostring \<Rightarrow> gostring \<Rightarrow> gostring" where
  "trim_suffix s p = (if has_suffix s p then take (length s - length p) s else s)"

definition decodeDataURI :: "image_library \<Rightarrow> gostring \<Rightarrow> (gostring \<times> gostring) option" where
  "decodeDataURI lib uri =
     (let (head, encoded, found) = cut_at (CHR '','') uri
      in if \<not> found \<or> \<not> has_suffix head '';base64'' then None
         else let kind = trim_suffix (trim_prefix head ''data:'') '';base64''
              in if kind \<notin> {''image/png'', ''image/jpeg''} then None
                 else case base64_decode lib encoded of
                        None \<Rightarrow> None
                      | Some decoded \<Rightarrow> if decoded = [] then None else Some (decoded, kind))"

definition PixelsIn :: "image_library \<Rightarrow> gostring \<Rightarrow> int option" where
  "PixelsIn lib uri =
     (case decodeDataURI lib uri of
        None \<Rightarrow> None
      | Some (body, _) \<Rightarrow>
          (case decode_config lib body of
             None \<Rightarrow> None
           | Some (width, height) \<Rightarrow> if width \<le> 0 \<or> height \<le> 0 then None else Some (width * height)))"

definition refuseTooManyPixels :: "image_library \<Rightarrow> gostring \<Rightarrow> bool" where
  "refuseTooManyPixels lib body \<longleftrightarrow>
     (case decode_config lib body of
        None \<Rightarrow> True
      | Some (width, height) \<Rightarrow> width \<le> 0 \<or> height \<le> 0 \<or> width * height > MaxPixels)"

text \<open>The size an image is drawn at: the largest fit that is no enlargement, and never nothing.\<close>

definition fitted :: "rectangle \<Rightarrow> int \<Rightarrow> int \<Rightarrow> int \<times> int" where
  "fitted bounds boxWidth boxHeight =
     (let scale = fmin (fmin (fdiv (float_of_int boxWidth) (float_of_int (dx bounds)))
                             (fdiv (float_of_int boxHeight) (float_of_int (dy bounds)))) (Fin 1)
      in (max 1 (whole_of (fmul (float_of_int (dx bounds)) scale)),
          max 1 (whole_of (fmul (float_of_int (dy bounds)) scale))))"

definition fitInto :: "image_library \<Rightarrow> gostring \<Rightarrow> crop \<Rightarrow> int \<Rightarrow> int \<Rightarrow> bool \<Rightarrow> gostring option" where
  "fitInto lib body c boxWidth boxHeight pad =
     (if refuseTooManyPixels lib body then None
      else case decode_picture lib body of
             None \<Rightarrow> None
           | Some p \<Rightarrow>
               let source = crop_apply c (pc_bounds p)
               in if dx source \<le> 0 \<or> dy source \<le> 0 then None
                  else let (width, height) = fitted source boxWidth boxHeight;
                           (canvasWidth, canvasHeight) = (if pad then (boxWidth, boxHeight) else (width, height));
                           left = tdiv (canvasWidth - width) 2;
                           top = tdiv (canvasHeight - height) 2
                       in draw_png lib (canvasWidth, canvasHeight)
                            (rect left top (left + width) (top + height)) (pc_pixels p) source)"

definition fitURI :: "image_library \<Rightarrow> gostring \<Rightarrow> crop \<Rightarrow> int \<Rightarrow> int \<Rightarrow> bool \<Rightarrow> gostring option" where
  "fitURI lib uri c width height pad =
     (case decodeDataURI lib uri of
        None \<Rightarrow> None
      | Some (decoded, _) \<Rightarrow>
          map_option (\<lambda>converted. ''data:image/png;base64,'' @ base64_encode lib converted)
            (fitInto lib decoded c width height pad))"

definition Fit :: "image_library \<Rightarrow> gostring \<Rightarrow> crop \<Rightarrow> int \<Rightarrow> int \<Rightarrow> gostring option" where
  "Fit lib uri c width height = fitURI lib uri c width height False"

definition FitIcon :: "image_library \<Rightarrow> gostring \<Rightarrow> crop \<Rightarrow> gostring option" where
  "FitIcon lib uri c = fitURI lib uri c IconSize IconSize True"

definition FitSquare :: "image_library \<Rightarrow> gostring \<Rightarrow> crop \<Rightarrow> int \<Rightarrow> gostring option" where
  "FitSquare lib body c side = fitInto lib body c side side True"

definition ToIcon :: "image_library \<Rightarrow> gostring \<Rightarrow> gostring option" where
  "ToIcon lib body = fitInto lib body whole_image IconSize IconSize True"

end
