(* ===== verification/Settings.thy ===== *)
theory Settings
  imports Imaging Administration CronSchedule
begin

text \<open>
  What an administrator sets up: the settings service
  (\<^verbatim>\<open>application/v1/service/settings_application_service.go\<close>, \<^verbatim>\<open>settings_openid.go\<close>), the settings'
  types (\<^verbatim>\<open>domain/model/settings_model.go\<close>, \<^verbatim>\<open>telemetry_model.go\<close>, \<^verbatim>\<open>openid_model.go\<close>,
  \<^verbatim>\<open>setup_model.go\<close>), the secrets among them (\<^verbatim>\<open>support/security/sealed.go\<close>,
  \<^verbatim>\<open>secrets_application_service.go\<close>), the first-run wizard
  (\<^verbatim>\<open>setup_application_service.go\<close>) and the routes to them (\<^verbatim>\<open>rest/settings_*.go\<close>).

  The settings are a table from keys to texts.  A group of settings is stored as JSON, whose writing
  and reading are the library's: \<open>marshal\<close> and \<open>unmarshal\<close>, the latter over the values a field keeps
  where the text does not name it.  AES-GCM, base64 and the parsing of an address are the library's too.
\<close>

section \<open>Keeping a secret\<close>

record cipher_library =
  gcm_seal :: "gostring \<Rightarrow> gostring \<Rightarrow> gostring \<Rightarrow> gostring"
  gcm_open :: "gostring \<Rightarrow> gostring \<Rightarrow> gostring \<Rightarrow> gostring option"
  to_base64 :: "gostring \<Rightarrow> gostring"
  of_base64 :: "gostring \<Rightarrow> gostring option"
  fresh_nonce :: gostring

text \<open>A sealer is the library with the key, where one is configured.\<close>

record sealer =
  sl_library :: cipher_library
  sl_key :: "gostring option"

datatype seal_fault =
  KeyNotBase64 | KeyLength nat | ErrNoKey | NotBase64 | TooShort | CannotDecrypt

definition sealedPrefix :: gostring where "sealedPrefix = ''gtr.v1:''"
definition KeyBytes :: nat where "KeyBytes = 32"
definition nonceSize :: nat where "nonceSize = 12"

definition NewSealer :: "cipher_library \<Rightarrow> gostring \<Rightarrow> seal_fault + sealer" where
  "NewSealer lib key =
     (let key = TrimSpace key
      in if key = [] then Inr \<lparr>sl_library = lib, sl_key = None\<rparr>
         else case of_base64 lib key of
                None \<Rightarrow> Inl KeyNotBase64
              | Some raw \<Rightarrow> if length raw \<noteq> KeyBytes then Inl (KeyLength (length raw))
                             else Inr \<lparr>sl_library = lib, sl_key = Some raw\<rparr>)"

definition sealer_Enabled :: "sealer \<Rightarrow> bool" where
  "sealer_Enabled s \<longleftrightarrow> sl_key s \<noteq> None"

definition Seal :: "sealer \<Rightarrow> gostring \<Rightarrow> gostring" where
  "Seal s plain =
     (case sl_key s of
        None \<Rightarrow> plain
      | Some key \<Rightarrow>
          if plain = [] then plain
          else let nonce = fresh_nonce (sl_library s)
               in sealedPrefix @ to_base64 (sl_library s) (nonce @ gcm_seal (sl_library s) key nonce plain))"

definition Open :: "sealer \<Rightarrow> gostring \<Rightarrow> seal_fault + gostring" where
  "Open s stored =
     (if \<not> has_prefix stored sealedPrefix then Inr stored
      else case sl_key s of
             None \<Rightarrow> Inl ErrNoKey
           | Some key \<Rightarrow>
               (case of_base64 (sl_library s) (trim_prefix stored sealedPrefix) of
                  None \<Rightarrow> Inl NotBase64
                | Some raw \<Rightarrow>
                    if length raw < nonceSize then Inl TooShort
                    else (case gcm_open (sl_library s) key (take nonceSize raw) (drop nonceSize raw) of
                            None \<Rightarrow> Inl CannotDecrypt
                          | Some plain \<Rightarrow> Inr plain)))"

definition IsSealed :: "gostring \<Rightarrow> bool" where
  "IsSealed stored \<longleftrightarrow> has_prefix stored sealedPrefix"

text \<open>Whether the key is the one the installation's secrets were written with, asked once at the start.\<close>

definition theKeyIsRight :: gostring where "theKeyIsRight = ''go-time-recording''"
definition SettingSecretKeyCheck :: gostring where "SettingSecretKeyCheck = ''instance.secretKeyCheck''"

datatype key_fault = KeyMissing | KeyWrong seal_fault | KeyDoesNotMatch

definition secrets_Verify :: "sealer \<Rightarrow> site \<Rightarrow> (key_fault + unit) \<times> site" where
  "secrets_Verify k s =
     (let stored = setting SettingSecretKeyCheck s
      in if stored = [] then
           (if \<not> sealer_Enabled k then (Inr (), s)
            else (Inr (), set_setting SettingSecretKeyCheck (Seal k theKeyIsRight) s))
         else case Open k stored of
                Inl fault \<Rightarrow> (Inl (if fault = ErrNoKey then KeyMissing else KeyWrong fault), s)
              | Inr opened \<Rightarrow> (if opened \<noteq> theKeyIsRight then Inl KeyDoesNotMatch else Inr (), s))"

section \<open>The keys\<close>

definition SettingAppTitle :: gostring where "SettingAppTitle = ''branding.title''"
definition SettingTabTitle :: gostring where "SettingTabTitle = ''branding.tabTitle''"
definition SettingBannerText :: gostring where "SettingBannerText = ''branding.banner''"
definition SettingLogoDataURI :: gostring where "SettingLogoDataURI = ''branding.logo''"
definition SettingLogoHeader :: gostring where "SettingLogoHeader = ''branding.logo.header''"
definition SettingLogoBanner :: gostring where "SettingLogoBanner = ''branding.logo.banner''"
definition SettingLogoIcon :: gostring where "SettingLogoIcon = ''branding.logo.icon''"
definition SettingLogoHeaderCrop :: gostring where "SettingLogoHeaderCrop = ''branding.logo.header.crop''"
definition SettingLogoBannerCrop :: gostring where "SettingLogoBannerCrop = ''branding.logo.banner.crop''"
definition SettingLogoIconCrop :: gostring where "SettingLogoIconCrop = ''branding.logo.icon.crop''"
definition SettingFooterText :: gostring where "SettingFooterText = ''branding.footer''"
definition SettingCompanyName :: gostring where "SettingCompanyName = ''branding.company''"
definition SettingCompanyURL :: gostring where "SettingCompanyURL = ''branding.companyUrl''"
definition SettingFooterLegal :: gostring where "SettingFooterLegal = ''branding.legal''"
definition SettingLDAPSettings :: gostring where "SettingLDAPSettings = ''ldap.config''"
definition SettingOpenID :: gostring where "SettingOpenID = ''openid.config''"
definition SettingTimezone :: gostring where "SettingTimezone = ''instance.timezone''"
definition SettingHolidayPlace :: gostring where "SettingHolidayPlace = ''instance.holidayRegion''"
definition SettingOperational :: gostring where "SettingOperational = ''instance.operational''"
definition SettingMaintenance :: gostring where "SettingMaintenance = ''instance.maintenance''"
definition SettingTelemetry :: gostring where "SettingTelemetry = ''instance.telemetry''"
definition SettingSetupCompleted :: gostring where "SettingSetupCompleted = ''instance.setupCompleted''"

lemmas setting_keys =
  SettingAppTitle_def SettingTabTitle_def SettingBannerText_def SettingLogoDataURI_def SettingLogoHeader_def
  SettingLogoBanner_def SettingLogoIcon_def SettingLogoHeaderCrop_def SettingLogoBannerCrop_def
  SettingLogoIconCrop_def SettingFooterText_def SettingCompanyName_def SettingCompanyURL_def SettingFooterLegal_def
  SettingLDAPSettings_def SettingOpenID_def SettingTimezone_def SettingHolidayPlace_def SettingOperational_def
  SettingMaintenance_def SettingTelemetry_def SettingSetupCompleted_def SettingManagers_def SettingSecretKeyCheck_def

lemma setting_after [simp]: "setting k (set_setting k' v s) = (if k = k' then v else setting k s)"
  by (simp add: setting_def set_setting_def map_of_update)

lemma set_setting_elsewhere [simp]:
  "site_db (set_setting k v s) = site_db s" "site_sessions (set_setting k v s) = site_sessions s"
  "site_spent (set_setting k v s) = site_spent s"
  by (simp_all add: set_setting_def)

section \<open>The directory\<close>

record ldap_config =
  lc_Enabled :: bool
  lc_Host :: gostring
  lc_Port :: int
  lc_StartTLS :: bool
  lc_UseTLS :: bool
  lc_SkipVerify :: bool
  lc_BindDN :: gostring
  lc_BindPassword :: gostring
  lc_BaseDN :: gostring
  lc_UserFilter :: gostring
  lc_NameAttribute :: gostring
  lc_EmailAttribute :: gostring
  lc_IDAttribute :: gostring
  lc_DefaultRole :: gostring
  lc_SyncSchedule :: gostring

definition DefaultLDAPConfig :: ldap_config where
  "DefaultLDAPConfig =
     \<lparr>lc_Enabled = False, lc_Host = [], lc_Port = 389, lc_StartTLS = True, lc_UseTLS = False, lc_SkipVerify = False,
      lc_BindDN = [], lc_BindPassword = [], lc_BaseDN = [],
      lc_UserFilter = ''(|(uid=%s)(mail=%s)(sAMAccountName=%s))'', lc_NameAttribute = ''cn'',
      lc_EmailAttribute = ''mail'', lc_IDAttribute = ''entryUUID'', lc_DefaultRole = RoleUser, lc_SyncSchedule = []\<rparr>"

record openid_config =
  oc_Enabled :: bool
  oc_Issuer :: gostring
  oc_ClientID :: gostring
  oc_ClientSecret :: gostring
  oc_Label :: gostring

definition no_openid :: openid_config where
  "no_openid = \<lparr>oc_Enabled = False, oc_Issuer = [], oc_ClientID = [], oc_ClientSecret = [], oc_Label = []\<rparr>"

definition Offered :: "openid_config \<Rightarrow> bool" where
  "Offered c \<longleftrightarrow> oc_Enabled c \<and> TrimSpace (oc_Issuer c) \<noteq> [] \<and> TrimSpace (oc_ClientID c) \<noteq> []"

record telemetry =
  te_MetricsOff :: bool
  te_TraceExporter :: "gostring option"
  te_TracerURL :: "gostring option"
  te_TracerRatio :: "float64 option"
  te_LogLevel :: "gostring option"

definition no_telemetry :: telemetry where
  "no_telemetry = \<lparr>te_MetricsOff = False, te_TraceExporter = None, te_TracerURL = None, te_TracerRatio = None,
     te_LogLevel = None\<rparr>"

definition no_operational :: operational where
  "no_operational = \<lparr>op_SessionLifetimeHours = None, op_SessionIdleMinutes = None, op_MaxDailyHours = None,
     op_RateLimit = None, op_RateLimitWindowSeconds = None, op_LDAPSyncMaxDeleteRatio = None\<rparr>"

text \<open>How a group of settings is written as JSON and read back; \<open>None\<close> for a text that is none.  A parsed
  address is its scheme, its host with the port, and the host alone.\<close>

record 'a json =
  marshal :: "'a \<Rightarrow> gostring"
  unmarshal :: "gostring \<Rightarrow> 'a \<Rightarrow> 'a option"

record settings_service =
  ss_appName :: gostring
  ss_secrets :: sealer
  ss_images :: image_library
  ss_ldap :: "ldap_config json"
  ss_openid :: "openid_config json"
  ss_telemetry :: "telemetry json"
  ss_operational :: "operational json"
  ss_maintenance :: "maintenance json"
  ss_parse_url :: "gostring \<Rightarrow> (gostring \<times> gostring \<times> gostring) option"
  ss_loopback_ip :: "gostring \<Rightarrow> bool"
  ss_format_fixed4 :: "float64 \<Rightarrow> gostring"
  ss_parse_float :: "gostring \<Rightarrow> float64 option"

text \<open>A group of settings: what is stored, over the defaults, or the defaults where nothing is stored or
  what is stored is not readable.\<close>

definition stored_group :: "'a json \<Rightarrow> 'a \<Rightarrow> gostring \<Rightarrow> site \<Rightarrow> 'a" where
  "stored_group j defaults key s =
     (let raw = setting key s
      in if raw = [] then defaults
         else case unmarshal j raw defaults of None \<Rightarrow> defaults | Some config \<Rightarrow> config)"

text \<open>Where the stored password does not open, the configuration is answered with the password as it is
  stored.\<close>

definition settings_LDAP :: "settings_service \<Rightarrow> site \<Rightarrow> ldap_config" where
  "settings_LDAP v s =
     (let raw = setting SettingLDAPSettings s
      in if raw = [] then DefaultLDAPConfig
         else case unmarshal (ss_ldap v) raw DefaultLDAPConfig of
                None \<Rightarrow> DefaultLDAPConfig
              | Some config \<Rightarrow>
                  let config = (if TrimSpace (lc_DefaultRole config) = [] then config\<lparr>lc_DefaultRole := RoleUser\<rparr> else config)
                  in case Open (ss_secrets v) (lc_BindPassword config) of
                       Inl _ \<Rightarrow> config
                     | Inr password \<Rightarrow> config\<lparr>lc_BindPassword := password\<rparr>)"

text \<open>What a directory's configuration is refused for, and as what it is kept.\<close>

definition invalid_ldap_fields :: "ldap_config \<Rightarrow> gostring list" where
  "invalid_ldap_fields config =
     (if \<not> lc_Enabled config then []
      else field_if (TrimSpace (lc_Host config) = []) ''host''
         @ field_if (TrimSpace (lc_BaseDN config) = []) ''baseDn''
         @ field_if (\<not> contains_at (lc_UserFilter config) ''%s'') ''userFilter''
         @ field_if (lc_Port config \<le> 0 \<or> lc_Port config > 65535) ''port'')"

definition checked_ldap :: "env \<Rightarrow> ldap_config \<Rightarrow> site \<Rightarrow> ldap_config result" where
  "checked_ldap e config s =
     (let config = config\<lparr>lc_SyncSchedule := TrimSpace (lc_SyncSchedule config)\<rparr>
      in if \<not> ValidSchedule (lc_SyncSchedule config) then Inl (InvalidFields [''syncSchedule''])
         else let named = TrimSpace (lc_DefaultRole config);
                  config = config\<lparr>lc_DefaultRole := (if named = [] then RoleUser else named)\<rparr>
              in case role_GetByName (equal_fold e) (lc_DefaultRole config) (db_roles (site_db s)) of
                   Inl _ \<Rightarrow> Inl (InvalidFields [''defaultRole''])
                 | Inr role \<Rightarrow>
                     if roleAdministers role
                     then Inl (WithCode Invalidf ''directoryRoleAdministers'' [VString (ro_Name role)])
                     else if invalid_ldap_fields config \<noteq> [] then Inl (InvalidFields (invalid_ldap_fields config))
                     else Inr config)"

definition SaveLDAP :: "settings_service \<Rightarrow> env \<Rightarrow> ldap_config \<Rightarrow> site \<Rightarrow> unit result \<times> site" where
  "SaveLDAP v e config s =
     (case checked_ldap e config s of
        Inl err \<Rightarrow> (Inl err, s)
      | Inr config \<Rightarrow>
          let config = config\<lparr>lc_BindPassword := Seal (ss_secrets v) (lc_BindPassword config)\<rparr>;
              raw = marshal (ss_ldap v) config;
              forgotten = (if lc_IDAttribute (settings_LDAP v s) \<noteq> lc_IDAttribute config
                           then s\<lparr>site_db := (site_db s)\<lparr>db_users := user_ForgetExternalIDs (db_users (site_db s))\<rparr>\<rparr>
                           else s)
          in (Inr (), set_setting SettingLDAPSettings raw forgotten))"

section \<open>The provider people sign in through\<close>

definition maxOpenIDIssuerLength :: nat where "maxOpenIDIssuerLength = 255"
definition maxOpenIDClientIDLength :: nat where "maxOpenIDClientIDLength = 255"
definition maxOpenIDLabelLength :: nat where "maxOpenIDLabelLength = 60"

definition settings_OpenID :: "settings_service \<Rightarrow> site \<Rightarrow> openid_config" where
  "settings_OpenID v s =
     (let raw = setting SettingOpenID s
      in if raw = [] then no_openid
         else case unmarshal (ss_openid v) raw no_openid of
                None \<Rightarrow> no_openid
              | Some config \<Rightarrow>
                  (case Open (ss_secrets v) (oc_ClientSecret config) of
                     Inl _ \<Rightarrow> config\<lparr>oc_ClientSecret := []\<rparr>
                   | Inr secret \<Rightarrow> config\<lparr>oc_ClientSecret := secret\<rparr>))"

definition loopbackHost :: "settings_service \<Rightarrow> env \<Rightarrow> gostring \<Rightarrow> bool" where
  "loopbackHost v e host \<longleftrightarrow> equal_fold e host ''localhost'' \<or> ss_loopback_ip v host"

text \<open>What is wrong with the issuer: nothing, its form, or that it is asked for over plain HTTP.\<close>

datatype issuer_verdict = IssuerFine | IssuerInvalid | IssuerNeedsHttps

definition check_issuer :: "settings_service \<Rightarrow> env \<Rightarrow> openid_config \<Rightarrow> issuer_verdict" where
  "check_issuer v e config =
     (if oc_Issuer config = [] \<and> \<not> oc_Enabled config then IssuerFine
      else case ss_parse_url v (oc_Issuer config) of
             None \<Rightarrow> IssuerInvalid
           | Some (scheme, host, hostname) \<Rightarrow>
               if host = [] \<or> (scheme \<noteq> ''https'' \<and> scheme \<noteq> ''http'') \<or> TooLong (oc_Issuer config) maxOpenIDIssuerLength
               then IssuerInvalid
               else if scheme = ''http'' \<and> \<not> loopbackHost v e hostname then IssuerNeedsHttps
               else IssuerFine)"

definition trimmed_openid :: "openid_config \<Rightarrow> openid_config" where
  "trimmed_openid config = config\<lparr>oc_Issuer := TrimSpace (oc_Issuer config), oc_ClientID := TrimSpace (oc_ClientID config),
     oc_Label := TrimSpace (oc_Label config)\<rparr>"

definition SaveOpenID :: "settings_service \<Rightarrow> env \<Rightarrow> openid_config \<Rightarrow> site \<Rightarrow> unit result \<times> site" where
  "SaveOpenID v e config s =
     (let config = trimmed_openid config;
          issuer = check_issuer v e config;
          invalid = field_if (TooLong (oc_Label config) maxOpenIDLabelLength) ''label''
             @ field_if (TooLong (oc_ClientID config) maxOpenIDClientIDLength \<or> (oc_Enabled config \<and> oc_ClientID config = []))
                 ''clientId''
             @ field_if (issuer = IssuerInvalid) ''issuer''
      in if issuer = IssuerNeedsHttps then (Inl (WithCode Invalidf ''openidNeedsHttps'' []), s)
         else if invalid \<noteq> [] then (Inl (InvalidFields invalid), s)
         else (Inr (), set_setting SettingOpenID
                 (marshal (ss_openid v) (config\<lparr>oc_ClientSecret := Seal (ss_secrets v) (oc_ClientSecret config)\<rparr>)) s))"

section \<open>Limits, metrics and tracing\<close>

definition settings_Operational :: "settings_service \<Rightarrow> site \<Rightarrow> operational" where
  "settings_Operational v s = stored_group (ss_operational v) no_operational SettingOperational s"

definition SaveOperational :: "settings_service \<Rightarrow> operational \<Rightarrow> site \<Rightarrow> unit result \<times> site" where
  "SaveOperational v limits s =
     (let invalid = InvalidOperationalFields limits
      in if invalid \<noteq> [] then (Inl (InvalidFields invalid), s)
         else if \<not> numbers limits then (Inl Internal, s)
         else (Inr (), set_setting SettingOperational (marshal (ss_operational v) limits) s))"

definition settings_Maintenance :: "settings_service \<Rightarrow> site \<Rightarrow> maintenance" where
  "settings_Maintenance v s = stored_group (ss_maintenance v) no_maintenance SettingMaintenance s"

definition SaveMaintenance :: "settings_service \<Rightarrow> maintenance \<Rightarrow> site \<Rightarrow> site" where
  "SaveMaintenance v m s = set_setting SettingMaintenance (marshal (ss_maintenance v) (maintenance_Normalise m)) s"

definition SupportedLogLevels :: "gostring list" where
  "SupportedLogLevels = [''DEBUG'', ''INFO'', ''NOTICE'', ''WARN'', ''ERROR'', ''FATAL'']"

definition SupportedTraceExporters :: "gostring list" where
  "SupportedTraceExporters = [''otlp'', ''jaeger'']"

definition TracingOff :: gostring where "TracingOff = []"
definition MaxPort :: int where "MaxPort = 65535"

definition telemetry_Normalise :: "env \<Rightarrow> telemetry \<Rightarrow> telemetry" where
  "telemetry_Normalise e t =
     (let url = map_option TrimSpace (te_TracerURL t);
          exporter = map_option (\<lambda>x. lower e (TrimSpace x)) (te_TraceExporter t);
          off = (exporter = Some TracingOff)
      in t\<lparr>te_TracerURL := (if off then None else url), te_TraceExporter := exporter,
           te_TracerRatio := (if off then None else te_TracerRatio t),
           te_LogLevel := map_option (\<lambda>x. upper e (TrimSpace x)) (te_LogLevel t)\<rparr>)"

definition TracingAdministered :: "telemetry \<Rightarrow> bool" where
  "TracingAdministered t \<longleftrightarrow> (case te_TraceExporter t of None \<Rightarrow> False | Some x \<Rightarrow> x \<noteq> TracingOff)"

definition Administered :: "telemetry \<Rightarrow> bool" where
  "Administered t \<longleftrightarrow> te_MetricsOff t \<or> te_LogLevel t \<noteq> None \<or> te_TraceExporter t \<noteq> None
     \<or> te_TracerURL t \<noteq> None \<or> te_TracerRatio t \<noteq> None"

text \<open>\<^verbatim>\<open>net.SplitHostPort\<close>: the host without its brackets, and what follows the last colon.\<close>

definition last_colon :: "gostring \<Rightarrow> nat option" where
  "last_colon s = (case filter (\<lambda>i. s ! i = CHR '':'') [0..<length s] of [] \<Rightarrow> None | is' \<Rightarrow> Some (last is'))"

definition SplitHostPort :: "gostring \<Rightarrow> (gostring \<times> gostring) option" where
  "SplitHostPort s =
     (case last_colon s of
        None \<Rightarrow> None
      | Some i \<Rightarrow>
          let port = drop (i + 1) s
          in if hd s = CHR ''['' then
               (let (inside, rest, found) = cut_at (CHR '']'') s
                in if \<not> found then None
                   else if length inside + 1 = length s then None
                   else if length inside + 1 \<noteq> i then None
                   else if CHR ''['' \<in> set (drop 1 s) \<or> CHR '']'' \<in> set rest then None
                   else Some (drop 1 inside, port))
             else let host = take i s
                  in if CHR '':'' \<in> set host then None
                     else if CHR ''['' \<in> set s \<or> CHR '']'' \<in> set s then None
                     else Some (host, port))"

definition without_scheme :: "env \<Rightarrow> gostring \<Rightarrow> gostring" where
  "without_scheme e address =
     (if length address \<ge> 7 \<and> equal_fold e (take 7 address) ''http://'' then drop 7 address
      else if length address \<ge> 8 \<and> equal_fold e (take 8 address) ''https://'' then drop 8 address
      else address)"

definition isCollectorAddress :: "env \<Rightarrow> gostring \<Rightarrow> bool" where
  "isCollectorAddress e address \<longleftrightarrow>
     (let address = without_scheme e address
      in CHR ''/'' \<notin> set address
       \<and> (case SplitHostPort address of
            None \<Rightarrow> False
          | Some (host, port) \<Rightarrow> TrimSpace host \<noteq> []
              \<and> (case Atoi port of None \<Rightarrow> False | Some n \<Rightarrow> n > 0 \<and> n \<le> MaxPort)))"

definition InvalidTelemetryFields :: "env \<Rightarrow> telemetry \<Rightarrow> gostring list" where
  "InvalidTelemetryFields e t =
     field_if (set_and (\<lambda>x. x \<noteq> TracingOff \<and> x \<notin> set SupportedTraceExporters) (te_TraceExporter t)) ''traceExporter''
     @ field_if (if TracingAdministered t \<and> (te_TracerURL t = None \<or> te_TracerURL t = Some []) then True
                 else set_and (\<lambda>u. u \<noteq> [] \<and> \<not> isCollectorAddress e u) (te_TracerURL t)) ''tracerUrl''
     @ field_if (set_and (\<lambda>r. r = NaN \<or> fless r (Fin 0) \<or> fless (Fin 1) r) (te_TracerRatio t)) ''tracerRatio''
     @ field_if (set_and (\<lambda>l. l \<noteq> [] \<and> l \<notin> set SupportedLogLevels) (te_LogLevel t)) ''logLevel''"

definition settings_Telemetry :: "settings_service \<Rightarrow> site \<Rightarrow> telemetry" where
  "settings_Telemetry v s = stored_group (ss_telemetry v) no_telemetry SettingTelemetry s"

definition SaveTelemetry :: "settings_service \<Rightarrow> env \<Rightarrow> telemetry \<Rightarrow> site \<Rightarrow> unit result \<times> site" where
  "SaveTelemetry v e t s =
     (let t = telemetry_Normalise e t;
          invalid = InvalidTelemetryFields e t
      in if invalid \<noteq> [] then (Inl (InvalidFields invalid), s)
         else (Inr (), set_setting SettingTelemetry (marshal (ss_telemetry v) t) s))"

section \<open>Zone and holidays of the installation\<close>

definition settings_Timezone :: "(gostring \<Rightarrow> location option) \<Rightarrow> site \<Rightarrow> gostring" where
  "settings_Timezone load s =
     (let stored = setting SettingTimezone s in if IsSupportedTimezone load stored then stored else DefaultTimezone)"

definition SaveTimezone :: "(gostring \<Rightarrow> location option) \<Rightarrow> gostring \<Rightarrow> site \<Rightarrow> unit result \<times> site" where
  "SaveTimezone load zone s =
     (let zone = TrimSpace zone
      in if \<not> IsSupportedTimezone load zone then (Inl (InvalidFields [''timezone'']), s)
         else (Inr (), set_setting SettingTimezone zone s))"

definition settings_HolidayPlace :: "site \<Rightarrow> gostring" where
  "settings_HolidayPlace s =
     (let stored = setting SettingHolidayPlace s in if ValidHolidayChoice stored then stored else [])"

definition SaveHolidayPlace :: "gostring \<Rightarrow> site \<Rightarrow> unit result \<times> site" where
  "SaveHolidayPlace place s =
     (let place = TrimSpace place
      in case refuseHolidayChoice place of
           Inl err \<Rightarrow> (Inl err, s) | Inr _ \<Rightarrow> (Inr (), set_setting SettingHolidayPlace place s))"

section \<open>The labelling\<close>

definition MaxTitleLength :: nat where "MaxTitleLength = 80"
definition MaxTabTitleLength :: nat where "MaxTabTitleLength = 40"
definition MaxBannerLength :: nat where "MaxBannerLength = 300"
definition MaxFooterTextLength :: nat where "MaxFooterTextLength = 200"
definition MaxLegalNoticeLength :: nat where "MaxLegalNoticeLength = 200"
definition MaxCompanyNameLength :: nat where "MaxCompanyNameLength = 120"
definition maxLogoBytes :: nat where "maxLogoBytes = 256 * 1024"

record branding_text =
  bt_Title :: gostring
  bt_TabTitle :: gostring
  bt_Banner :: gostring
  bt_FooterText :: gostring
  bt_LegalNotice :: gostring

definition no_text :: branding_text where
  "no_text = \<lparr>bt_Title = [], bt_TabTitle = [], bt_Banner = [], bt_FooterText = [], bt_LegalNotice = []\<rparr>"

text \<open>The texts in the languages they are written in are a dictionary by language.\<close>

record branding =
  br_Title :: gostring
  br_TabTitle :: gostring
  br_Banner :: gostring
  br_LogoDataURI :: gostring
  br_LogoHeader :: gostring
  br_LogoBanner :: gostring
  br_LogoIcon :: gostring
  br_HeaderCrop :: crop
  br_BannerCrop :: crop
  br_IconCrop :: crop
  br_FooterText :: gostring
  br_CompanyName :: gostring
  br_CompanyURL :: gostring
  br_LegalNotice :: gostring
  br_Translations :: "(gostring \<times> branding_text) list"

definition TitleIn :: "branding \<Rightarrow> gostring \<Rightarrow> gostring" where
  "TitleIn b language =
     (let translated = (case map_of (br_Translations b) language of None \<Rightarrow> [] | Some x \<Rightarrow> TrimSpace (bt_Title x))
      in if translated \<noteq> [] then translated else TrimSpace (br_Title b))"

definition TabName :: "branding \<Rightarrow> gostring" where
  "TabName b = (let tab = TrimSpace (br_TabTitle b) in if tab \<noteq> [] then tab else br_Title b)"

definition FallbackAppTitle :: gostring where "FallbackAppTitle = ''Time Recording''"

definition DefaultBranding :: "gostring \<Rightarrow> branding" where
  "DefaultBranding appName =
     \<lparr>br_Title = (if appName = [] then FallbackAppTitle else appName), br_TabTitle = [], br_Banner = [],
      br_LogoDataURI = [], br_LogoHeader = [], br_LogoBanner = [], br_LogoIcon = [],
      br_HeaderCrop = whole_image, br_BannerCrop = whole_image, br_IconCrop = whole_image,
      br_FooterText = [], br_CompanyName = [], br_CompanyURL = [], br_LegalNotice = [], br_Translations = []\<rparr>"

text \<open>A crop as it is stored: four numbers with four decimals, or nothing for the whole image.\<close>

definition LogoCrop_Whole :: "crop \<Rightarrow> bool" where
  "LogoCrop_Whole c \<longleftrightarrow> fle (cr_W c) (Fin 0) \<or> fle (cr_H c) (Fin 0)"

definition LogoCrop_String :: "(float64 \<Rightarrow> gostring) \<Rightarrow> crop \<Rightarrow> gostring" where
  "LogoCrop_String fixed4 c =
     (if LogoCrop_Whole c then []
      else fixed4 (cr_X c) @ '','' @ fixed4 (cr_Y c) @ '','' @ fixed4 (cr_W c) @ '','' @ fixed4 (cr_H c))"

definition ParseLogoCrop :: "(gostring \<Rightarrow> float64 option) \<Rightarrow> gostring \<Rightarrow> crop" where
  "ParseLogoCrop parse raw =
     (case map (\<lambda>part. parse (TrimSpace part)) (split_at (CHR '','') (TrimSpace raw)) of
        [Some x, Some y, Some w, Some h] \<Rightarrow> \<lparr>cr_X = x, cr_Y = y, cr_W = w, cr_H = h\<rparr>
      | _ \<Rightarrow> whole_image)"

definition brandingTextKey :: "gostring \<Rightarrow> gostring \<Rightarrow> gostring" where
  "brandingTextKey key language = key @ ''.'' @ language"

definition text_written :: "site \<Rightarrow> gostring \<Rightarrow> branding_text" where
  "text_written s language =
     \<lparr>bt_Title = setting (brandingTextKey SettingAppTitle language) s,
      bt_TabTitle = setting (brandingTextKey SettingTabTitle language) s,
      bt_Banner = setting (brandingTextKey SettingBannerText language) s,
      bt_FooterText = setting (brandingTextKey SettingFooterText language) s,
      bt_LegalNotice = setting (brandingTextKey SettingFooterLegal language) s\<rparr>"

definition settings_Branding :: "settings_service \<Rightarrow> site \<Rightarrow> branding" where
  "settings_Branding v s =
     (let parse = (\<lambda>key. ParseLogoCrop (ss_parse_float v) (setting key s));
          default_title = br_Title (DefaultBranding (ss_appName v))
      in \<lparr>br_Title = (if setting SettingAppTitle s \<noteq> [] then setting SettingAppTitle s else default_title),
          br_TabTitle = setting SettingTabTitle s, br_Banner = setting SettingBannerText s,
          br_LogoDataURI = setting SettingLogoDataURI s, br_LogoHeader = setting SettingLogoHeader s,
          br_LogoBanner = setting SettingLogoBanner s, br_LogoIcon = setting SettingLogoIcon s,
          br_HeaderCrop = parse SettingLogoHeaderCrop, br_BannerCrop = parse SettingLogoBannerCrop,
          br_IconCrop = parse SettingLogoIconCrop, br_FooterText = setting SettingFooterText s,
          br_CompanyName = setting SettingCompanyName s, br_CompanyURL = setting SettingCompanyURL s,
          br_LegalNotice = setting SettingFooterLegal s,
          br_Translations = filter (\<lambda>(_, x). x \<noteq> no_text) (map (\<lambda>l. (l, text_written s l)) SupportedLanguages)\<rparr>)"

text \<open>The logo.\<close>

definition isRasterImage :: "gostring \<Rightarrow> bool" where
  "isRasterImage uri \<longleftrightarrow>
     (let (head, _, found) = cut_at (CHR '','') uri
      in found \<and> trim_suffix (trim_prefix head ''data:'') '';base64'' \<in> {''image/png'', ''image/jpeg''})"

definition validateLogo :: "image_library \<Rightarrow> gostring \<Rightarrow> unit result" where
  "validateLogo lib uri =
     (if uri = [] then Inr ()
      else if \<not> has_prefix uri ''data:image/'' then Inl (WithCode Invalidf ''logoNotInline'' [])
      else if \<not> isRasterImage uri then Inl (WithCode Invalidf ''logoNotRaster'' [])
      else if length uri > maxLogoBytes then Inl (WithCode Invalidf ''logoTooLarge'' [VInt 256])
      else case PixelsIn lib uri of
             None \<Rightarrow> Inl (WithCode Invalidf ''logoNotRaster'' [])
           | Some pixels \<Rightarrow> if pixels > MaxPixels then Inl (WithCode Invalidf ''logoTooManyPixels'' [VInt 16]) else Inr ())"

definition isHTTPURL :: "gostring \<Rightarrow> bool" where
  "isHTTPURL raw \<longleftrightarrow> has_prefix raw ''http://'' \<or> has_prefix raw ''https://''"

definition or_empty :: "gostring option \<Rightarrow> gostring" where
  "or_empty x = (case x of None \<Rightarrow> [] | Some y \<Rightarrow> y)"

definition deriveLogoSizes :: "image_library \<Rightarrow> branding \<Rightarrow> gostring \<times> gostring \<times> gostring" where
  "deriveLogoSizes lib b =
     (let logo = br_LogoDataURI b
      in if TrimSpace logo = [] then ([], [], [])
         else (or_empty (Fit lib logo (br_HeaderCrop b) HeaderWidth HeaderHeight),
               or_empty (Fit lib logo (br_BannerCrop b) BannerWidth BannerHeight),
               or_empty (FitIcon lib logo (br_IconCrop b))))"

definition overlong_text :: "branding_text \<Rightarrow> gostring list" where
  "overlong_text x =
     field_if (TooLong (bt_Title x) MaxTitleLength) ''title''
     @ field_if (TooLong (bt_TabTitle x) MaxTabTitleLength) ''tabTitle''
     @ field_if (TooLong (bt_Banner x) MaxBannerLength) ''banner''
     @ field_if (TooLong (bt_FooterText x) MaxFooterTextLength) ''footerText''
     @ field_if (TooLong (bt_LegalNotice x) MaxLegalNoticeLength) ''legalNotice''"

definition untranslated :: "branding \<Rightarrow> branding_text" where
  "untranslated b = \<lparr>bt_Title = br_Title b, bt_TabTitle = br_TabTitle b, bt_Banner = br_Banner b,
     bt_FooterText = br_FooterText b, bt_LegalNotice = br_LegalNotice b\<rparr>"

definition overlongBranding :: "branding \<Rightarrow> gostring list" where
  "overlongBranding b =
     overlong_text (untranslated b) @ concat (map (overlong_text \<circ> snd) (br_Translations b))
     @ field_if (TooLong (br_CompanyName b) MaxCompanyNameLength) ''companyName''"

text \<open>What is written, key by key; the keys are different, so their order does not matter.\<close>

definition text_values :: "branding \<Rightarrow> gostring \<Rightarrow> (gostring \<times> gostring) list" where
  "text_values b language =
     (let x = (case map_of (br_Translations b) language of None \<Rightarrow> no_text | Some x \<Rightarrow> x)
      in [(brandingTextKey SettingAppTitle language, TrimSpace (bt_Title x)),
          (brandingTextKey SettingTabTitle language, TrimSpace (bt_TabTitle x)),
          (brandingTextKey SettingBannerText language, bt_Banner x),
          (brandingTextKey SettingFooterText language, bt_FooterText x),
          (brandingTextKey SettingFooterLegal language, bt_LegalNotice x)])"

definition branding_values :: "settings_service \<Rightarrow> branding \<Rightarrow> (gostring \<times> gostring) list" where
  "branding_values v b =
     (let (header, banner, icon) = deriveLogoSizes (ss_images v) b
      in [(SettingAppTitle, TrimSpace (br_Title b)), (SettingTabTitle, TrimSpace (br_TabTitle b)),
          (SettingBannerText, br_Banner b), (SettingLogoDataURI, br_LogoDataURI b),
          (SettingLogoHeader, header), (SettingLogoBanner, banner), (SettingLogoIcon, icon),
          (SettingLogoHeaderCrop, LogoCrop_String (ss_format_fixed4 v) (br_HeaderCrop b)),
          (SettingLogoBannerCrop, LogoCrop_String (ss_format_fixed4 v) (br_BannerCrop b)),
          (SettingLogoIconCrop, LogoCrop_String (ss_format_fixed4 v) (br_IconCrop b)),
          (SettingFooterText, br_FooterText b), (SettingCompanyName, br_CompanyName b),
          (SettingCompanyURL, br_CompanyURL b), (SettingFooterLegal, br_LegalNotice b)]
         @ concat (map (text_values b) SupportedLanguages))"

definition SaveBranding :: "settings_service \<Rightarrow> branding \<Rightarrow> site \<Rightarrow> unit result \<times> site" where
  "SaveBranding v b s =
     (case validateLogo (ss_images v) (br_LogoDataURI b) of
        Inl err \<Rightarrow> (Inl err, s)
      | Inr _ \<Rightarrow>
          if br_CompanyURL b \<noteq> [] \<and> \<not> isHTTPURL (br_CompanyURL b) then (Inl (InvalidFields [''companyUrl'']), s)
          else if overlongBranding b \<noteq> [] then (Inl (InvalidFields (overlongBranding b)), s)
          else (Inr (), fold (\<lambda>(key, x). set_setting key x) (branding_values v b) s))"

section \<open>The first-run wizard\<close>

record setup_step =
  sp_ID :: gostring
  sp_Done :: bool
  sp_Required :: bool

record setup_state =
  su_Completed :: bool
  su_Steps :: "setup_step list"

definition OutstandingRequired :: "setup_state \<Rightarrow> nat" where
  "OutstandingRequired x = length (filter (\<lambda>p. sp_Required p \<and> \<not> sp_Done p) (su_Steps x))"

definition ShouldShow :: "setup_state \<Rightarrow> bool" where
  "ShouldShow x \<longleftrightarrow> \<not> su_Completed x \<or> OutstandingRequired x > 0"

definition SetupCompleted :: "site \<Rightarrow> bool" where
  "SetupCompleted s \<longleftrightarrow> setting SettingSetupCompleted s = ''true''"

definition SetSetupCompleted :: "bool \<Rightarrow> site \<Rightarrow> site" where
  "SetSetupCompleted completed s = set_setting SettingSetupCompleted (if completed then ''true'' else ''false'') s"

definition passwordChanged :: "env \<Rightarrow> site \<Rightarrow> bool" where
  "passwordChanged e s =
     (case user_GetByEmail (equal_fold e) (db_roles (site_db s)) SystemUserEmail (db_users (site_db s)) of
        Inl _ \<Rightarrow> False | Inr u \<Rightarrow> \<not> us_MustChangePassword u)"

definition directoryConfigured :: "settings_service \<Rightarrow> site \<Rightarrow> bool" where
  "directoryConfigured v s \<longleftrightarrow> lc_Enabled (settings_LDAP v s) \<and> lc_Host (settings_LDAP v s) \<noteq> []"

definition setup_State :: "settings_service \<Rightarrow> env \<Rightarrow> site \<Rightarrow> setup_state" where
  "setup_State v e s =
     \<lparr>su_Completed = SetupCompleted s,
      su_Steps = [\<lparr>sp_ID = ''password'', sp_Done = passwordChanged e s, sp_Required = True\<rparr>,
                  \<lparr>sp_ID = ''timezone'', sp_Done = (setting SettingTimezone s \<noteq> []), sp_Required = True\<rparr>,
                  \<lparr>sp_ID = ''branding'', sp_Done = (setting SettingAppTitle s \<noteq> []), sp_Required = False\<rparr>,
                  \<lparr>sp_ID = ''directory'', sp_Done = directoryConfigured v s, sp_Required = False\<rparr>]\<rparr>"

definition setup_Complete :: "site \<Rightarrow> site" where
  "setup_Complete = SetSetupCompleted True"

end
