(* ===== verification/SettingsRoutes.thy ===== *)
theory SettingsRoutes
  imports Settings
begin

text \<open>
  The routes of the settings, the holidays and the first-run wizard: \<^verbatim>\<open>rest/settings_*.go\<close>,
  \<^verbatim>\<open>holiday_handler.go\<close> and \<^verbatim>\<open>setup_handler.go\<close>.  Announcements to open pages, the probing of a
  directory or a provider, and the database connection are not modelled; handing a saved directory to
  its client is what \<open>save_directory\<close> answers besides.
\<close>

section \<open>Settings\<close>

text \<open>A setting that is saved and then answered.\<close>

definition save_setting :: "authorizer \<Rightarrow> request \<Rightarrow> 'b option \<Rightarrow> ('b \<Rightarrow> site \<Rightarrow> unit result \<times> site) \<Rightarrow> (site \<Rightarrow> 'a) \<Rightarrow> site
    \<Rightarrow> 'a answer \<times> site" where
  "save_setting a r body save show s =
     (case bind_res (RequireInstallationAdmin a r) (\<lambda>_. answer (bind_body body)) of
        Inl refusal \<Rightarrow> (Inl refusal, s)
      | Inr sent \<Rightarrow> let (res, s') = save sent s in (bind_res (answer res) (\<lambda>_. Inr (show s')), s'))"

definition read_setting :: "authorizer \<Rightarrow> request \<Rightarrow> 'a \<Rightarrow> 'a answer" where
  "read_setting a r x = bind_res (RequireInstallationAdmin a r) (\<lambda>_. Inr x)"

definition handle_settings_Timezone :: "authorizer \<Rightarrow> request \<Rightarrow> site \<Rightarrow> gostring answer" where
  "handle_settings_Timezone a r s = read_setting a r (settings_Timezone (rq_load_zone r) s)"

definition handle_settings_SaveTimezone :: "authorizer \<Rightarrow> request \<Rightarrow> gostring option \<Rightarrow> site \<Rightarrow> gostring answer \<times> site" where
  "handle_settings_SaveTimezone a r body s =
     save_setting a r body (SaveTimezone (rq_load_zone r)) (\<lambda>_. case body of None \<Rightarrow> [] | Some zone \<Rightarrow> zone) s"

definition handle_Maintenance :: "settings_service \<Rightarrow> site \<Rightarrow> maintenance answer" where
  "handle_Maintenance v s = Inr (settings_Maintenance v s)"

definition handle_SaveMaintenance ::
  "settings_service \<Rightarrow> authorizer \<Rightarrow> request \<Rightarrow> maintenance option \<Rightarrow> maintenance_cache \<times> site
     \<Rightarrow> maintenance answer \<times> maintenance_cache \<times> site" where
  "handle_SaveMaintenance v a r body cs =
     (let (cached, s) = cs;
          (res, s') = save_setting a r body (\<lambda>m s. (Inr (), SaveMaintenance v m s)) (settings_Maintenance v) s
      in case res of
           Inl refusal \<Rightarrow> (Inl refusal, cached, s')
         | Inr stored \<Rightarrow> (Inr stored, maintenance_Invalidate cached, s'))"

text \<open>The limits: as they are administered, as they are in force, and as the environment has them.\<close>

record operational_response =
  or_Configured :: operational
  or_Effective :: limits
  or_Defaults :: limits

definition handle_Operational ::
  "settings_service \<Rightarrow> authorizer \<Rightarrow> request \<Rightarrow> gotime \<Rightarrow> limits_provider \<times> site \<Rightarrow> operational_response answer \<times> limits_provider" where
  "handle_Operational v a r t ps =
     (case RequireInstallationAdmin a r of
        Inl refusal \<Rightarrow> (Inl refusal, fst ps)
      | Inr _ \<Rightarrow>
          let configured = settings_Operational v (snd ps);
              (effective, p') = Limits t (Inr configured) (fst ps)
          in (Inr \<lparr>or_Configured = configured, or_Effective = effective, or_Defaults = lp_fallback p'\<rparr>, p'))"

definition handle_SaveOperational ::
  "settings_service \<Rightarrow> authorizer \<Rightarrow> request \<Rightarrow> operational option \<Rightarrow> gotime \<Rightarrow> limits_provider \<times> site
     \<Rightarrow> operational_response answer \<times> limits_provider \<times> site" where
  "handle_SaveOperational v a r body t ps =
     (case bind_res (RequireInstallationAdmin a r) (\<lambda>_. answer (bind_body body)) of
        Inl refusal \<Rightarrow> (Inl refusal, ps)
      | Inr sent \<Rightarrow>
          (case SaveOperational v sent (snd ps) of
             (Inl err, s') \<Rightarrow> (Inl (toHTTPError err), fst ps, s')
           | (Inr _, s') \<Rightarrow>
               let (effective, p') = Limits t (Inr (settings_Operational v s')) (Invalidate (fst ps))
               in (Inr \<lparr>or_Configured = sent, or_Effective = effective, or_Defaults = lp_fallback p'\<rparr>, p', s')))"

section \<open>The directory and the provider\<close>

text \<open>What is answered of a directory: its settings without the password, and whether there is one.\<close>

definition newLDAPResponse :: "ldap_config \<Rightarrow> ldap_config \<times> bool" where
  "newLDAPResponse c = (c\<lparr>lc_BindPassword := []\<rparr>, lc_BindPassword c \<noteq> [])"

definition handle_LDAP :: "settings_service \<Rightarrow> authorizer \<Rightarrow> request \<Rightarrow> site \<Rightarrow> (ldap_config \<times> bool) answer" where
  "handle_LDAP v a r s = read_setting a r (newLDAPResponse (settings_LDAP v s))"

text \<open>A password left out is the one stored.\<close>

definition bindLDAP :: "settings_service \<Rightarrow> ldap_config option \<Rightarrow> site \<Rightarrow> ldap_config answer" where
  "bindLDAP v body s =
     bind_res (answer (bind_body body)) (\<lambda>config.
     Inr (if lc_BindPassword config = [] then config\<lparr>lc_BindPassword := lc_BindPassword (settings_LDAP v s)\<rparr> else config))"

definition requireAdminForSchedule :: "settings_service \<Rightarrow> authorizer \<Rightarrow> request \<Rightarrow> ldap_config \<Rightarrow> site \<Rightarrow> unit answer" where
  "requireAdminForSchedule v a r wanted s =
     bind_res (authz_Principal a r) (\<lambda>p.
     if AdministersOnly a (Some p) \<or> lc_SyncSchedule wanted = lc_SyncSchedule (settings_LDAP v s) then Inr ()
     else Inl (HForbidden ''onlyBuiltInAdminSchedules'' []))"

text \<open>The answer, the site, and the configuration the directory's client is given.\<close>

definition save_directory ::
  "settings_service \<Rightarrow> authorizer \<Rightarrow> env \<Rightarrow> request \<Rightarrow> ldap_config option \<Rightarrow> site
     \<Rightarrow> (ldap_config \<times> bool) answer \<times> site \<times> ldap_config option" where
  "save_directory v a e r body s =
     (case bind_res (RequireInstallationAdmin a r) (\<lambda>_.
           bind_res (bindLDAP v body s) (\<lambda>config.
           bind_res (requireAdminForSchedule v a r config s) (\<lambda>_. Inr config))) of
        Inl refusal \<Rightarrow> (Inl refusal, s, None)
      | Inr config \<Rightarrow>
          (case SaveLDAP v e config s of
             (Inl err, s') \<Rightarrow> (Inl (toHTTPError err), s', None)
           | (Inr _, s') \<Rightarrow> (Inr (newLDAPResponse config), s', Some config)))"

text \<open>Where the provider sends people back is a text of the request, left out here.\<close>

definition newOpenIDSettingsResponse :: "openid_config \<Rightarrow> openid_config \<times> bool" where
  "newOpenIDSettingsResponse c = (c\<lparr>oc_ClientSecret := []\<rparr>, oc_ClientSecret c \<noteq> [])"

definition handle_settings_OpenID :: "settings_service \<Rightarrow> authorizer \<Rightarrow> request \<Rightarrow> site \<Rightarrow> (openid_config \<times> bool) answer" where
  "handle_settings_OpenID v a r s = read_setting a r (newOpenIDSettingsResponse (settings_OpenID v s))"

definition handle_settings_SaveOpenID ::
  "settings_service \<Rightarrow> authorizer \<Rightarrow> env \<Rightarrow> request \<Rightarrow> openid_config option \<Rightarrow> site \<Rightarrow> (openid_config \<times> bool) answer \<times> site" where
  "handle_settings_SaveOpenID v a e r body s =
     save_setting a r body
       (\<lambda>config s. SaveOpenID v e
          (if oc_ClientSecret config = [] then config\<lparr>oc_ClientSecret := oc_ClientSecret (settings_OpenID v s)\<rparr> else config) s)
       (\<lambda>s. newOpenIDSettingsResponse (settings_OpenID v s)) s"

section \<open>The labelling\<close>

text \<open>A body's crops are those sent for the header, the banner and the icon.\<close>

record branding_request =
  bq_Branding :: branding
  bq_Crops :: "(gostring \<times> crop) list"

definition crop_sent :: "branding_request \<Rightarrow> gostring \<Rightarrow> crop" where
  "crop_sent q place = (case map_of (bq_Crops q) place of None \<Rightarrow> whole_image | Some c \<Rightarrow> c)"

definition cropsOf :: "branding \<Rightarrow> (gostring \<times> crop) list" where
  "cropsOf b = filter (\<lambda>(_, c). \<not> LogoCrop_Whole c)
     [(''header'', br_HeaderCrop b), (''banner'', br_BannerCrop b), (''icon'', br_IconCrop b)]"

definition newBrandingResponse :: "branding \<Rightarrow> branding_request" where
  "newBrandingResponse b = \<lparr>bq_Branding = b, bq_Crops = cropsOf b\<rparr>"

definition handle_Branding :: "settings_service \<Rightarrow> site \<Rightarrow> branding_request answer" where
  "handle_Branding v s = Inr (newBrandingResponse (settings_Branding v s))"

definition branding_sent :: "branding_request \<Rightarrow> branding" where
  "branding_sent q = (bq_Branding q)
     \<lparr>br_LogoHeader := [], br_LogoBanner := [], br_LogoIcon := [],
      br_HeaderCrop := crop_sent q ''header'', br_BannerCrop := crop_sent q ''banner'',
      br_IconCrop := crop_sent q ''icon'',
      br_Translations := filter (\<lambda>(language, _). IsSupportedLanguage language) (br_Translations (bq_Branding q))\<rparr>"

definition handle_SaveBranding ::
  "settings_service \<Rightarrow> authorizer \<Rightarrow> request \<Rightarrow> branding_request option \<Rightarrow> site \<Rightarrow> branding_request answer \<times> site" where
  "handle_SaveBranding v a r body s =
     save_setting a r body (\<lambda>q. SaveBranding v (branding_sent q)) (\<lambda>s. newBrandingResponse (settings_Branding v s)) s"

section \<open>Holidays\<close>

record holiday_choice_request =
  hq_Place :: "gostring option"
  hq_Region :: gostring

definition choice_of :: "holiday_choice_request \<Rightarrow> gostring" where
  "choice_of q = (case hq_Place q of Some place \<Rightarrow> TrimSpace place | None \<Rightarrow> LegacyHolidayPlace (TrimSpace (hq_Region q)))"

definition installationRegion :: "gostring \<Rightarrow> gostring" where
  "installationRegion choice = (if choice = NoHolidays then [] else LegacyHolidayRegion choice)"

text \<open>Each choice with the region an older client shows for it: one's own, the installation's, and the one in force.\<close>

record my_holidays =
  mh_Place :: "gostring \<times> gostring"
  mh_Instance :: "gostring \<times> gostring"
  mh_Effective :: "gostring \<times> gostring"

definition handle_holidays_Mine :: "authorizer \<Rightarrow> request \<Rightarrow> site \<Rightarrow> my_holidays answer" where
  "handle_holidays_Mine a r s =
     bind_res (authz_Principal a r) (\<lambda>p.
     let own = us_HolidayPlace (caller_account p);
         instance' = settings_HolidayPlace s;
         effective = HolidayPlaceOf own instance'
     in Inr \<lparr>mh_Place = (own, LegacyHolidayRegion own), mh_Instance = (instance', installationRegion instance'),
             mh_Effective = (effective, LegacyHolidayRegion effective)\<rparr>)"

definition handle_holidays_SetMine ::
  "authorizer \<Rightarrow> request \<Rightarrow> holiday_choice_request option \<Rightarrow> site \<Rightarrow> (gostring \<times> gostring) answer \<times> site" where
  "handle_holidays_SetMine a r body s =
     (case askingWith a r body of
        Inl refusal \<Rightarrow> (Inl refusal, s)
      | Inr (u, q) \<Rightarrow>
          carry_out (Inr ()) (\<lambda>_. SetHolidayPlace u (choice_of q)) (\<lambda>_. (choice_of q, LegacyHolidayRegion (choice_of q))) s)"

definition handle_holidays_Installation :: "authorizer \<Rightarrow> request \<Rightarrow> site \<Rightarrow> (gostring \<times> gostring) answer" where
  "handle_holidays_Installation a r s =
     read_setting a r (settings_HolidayPlace s, installationRegion (settings_HolidayPlace s))"

definition handle_holidays_SetInstallation ::
  "authorizer \<Rightarrow> request \<Rightarrow> holiday_choice_request option \<Rightarrow> site \<Rightarrow> (gostring \<times> gostring) answer \<times> site" where
  "handle_holidays_SetInstallation a r body s =
     save_setting a r body (\<lambda>q. SaveHolidayPlace (choice_of q))
       (\<lambda>_. case body of None \<Rightarrow> ([], []) | Some q \<Rightarrow> (choice_of q, installationRegion (choice_of q))) s"

section \<open>The first-run wizard\<close>

definition requireSystemAdmin :: "authorizer \<Rightarrow> request \<Rightarrow> unit answer" where
  "requireSystemAdmin a r =
     bind_res (authz_Principal a r) (\<lambda>p.
     if AdministersOnly a (Some p) then Inr () else Inl (HForbidden ''onlyBuiltInAdminSetsUp'' []))"

definition handle_setup_State :: "settings_service \<Rightarrow> authorizer \<Rightarrow> env \<Rightarrow> request \<Rightarrow> site \<Rightarrow> setup_state answer" where
  "handle_setup_State v a e r s = bind_res (requireSystemAdmin a r) (\<lambda>_. Inr (setup_State v e s))"

definition handle_setup_Complete ::
  "settings_service \<Rightarrow> authorizer \<Rightarrow> env \<Rightarrow> request \<Rightarrow> site \<Rightarrow> setup_state answer \<times> site" where
  "handle_setup_Complete v a e r s =
     (case requireSystemAdmin a r of
        Inl refusal \<Rightarrow> (Inl refusal, s)
      | Inr _ \<Rightarrow> let s' = setup_Complete s in (Inr (setup_State v e s'), s'))"

text \<open>The session handed to whoever comes from the installer; \<open>expected\<close> is the token it left, empty where
  there was none, and \<open>offered\<close> the one the request carries.\<close>

definition handle_setup_Claim ::
  "env \<Rightarrow> crypto \<Rightarrow> session_service \<Rightarrow> gostring \<Rightarrow> gostring \<Rightarrow> site \<Rightarrow> login_result answer \<times> site" where
  "handle_setup_Claim e c v expected offered s =
     (if expected = [] then (Inl (toHTTPError (WithCode Conflictf ''noInstallerSession'' [])), s)
      else if TrimSpace offered \<noteq> expected then (Inl HUnauthorized, s)
      else let (res, s') = OpenFirstSession e c v s in (answer res, s'))"

end
