(* ===== verification/Trim.thy ===== *)
theory Trim
  imports GoString
begin

text \<open>Trimming twice is trimming once: a stretch of a string's runes decodes to those runes.\<close>

lemma decode_rune_take:
  assumes "decode_rune bs = (r, w)" "w \<le> n" "bs \<noteq> []"
  shows "decode_rune (take n bs) = (r, w)"
proof -
  obtain b0 rest where bs: "bs = b0 # rest" using assms(3) by (cases bs) auto
  then obtain m where n: "n = Suc m"
    using assms decode_width_pos [of bs] by (cases n) auto
  show ?thesis
  proof (cases rest)
    case Nil
    then show ?thesis using assms bs n by simp
  next
    case (Cons b1 rest1)
    note c1 = Cons
    show ?thesis
    proof (cases rest1)
      case Nil
      then show ?thesis using assms bs n c1 by (cases m) (auto split: if_splits)
    next
      case (Cons b2 rest2)
      note c2 = Cons
      show ?thesis
      proof (cases rest2)
        case Nil
        show ?thesis
        proof (cases m)
          case 0
          then show ?thesis using assms bs n c1 c2 Nil by (auto split: if_splits)
        next
          case (Suc k)
          then show ?thesis using assms bs n c1 c2 Nil by (cases k) (auto split: if_splits)
        qed
      next
        case (Cons b3 rest3)
        show ?thesis
        proof (cases m)
          case 0
          then show ?thesis using assms bs n c1 c2 Cons by (auto split: if_splits)
        next
          case (Suc k)
          show ?thesis
          proof (cases k)
            case 0
            then show ?thesis using assms bs n c1 c2 Cons Suc by (auto split: if_splits)
          next
            case (Suc j)
            then show ?thesis using assms bs n c1 c2 Cons \<open>m = Suc k\<close> by (cases j) (auto split: if_splits)
          qed
        qed
      qed
    qed
  qed
qed

lemma rune_chunks_step: "s \<noteq> [] \<Longrightarrow> decode_rune (map byte s) = (r, w) \<Longrightarrow>
    rune_chunks s = (r, take w s) # rune_chunks (drop w s)"
  by (subst rune_chunks.simps) simp

lemma chunk_nonempty:
  assumes "(r, c) \<in> set (rune_chunks s)"
  shows "c \<noteq> []"
  using assms
proof (induction s rule: rune_chunks.induct)
  case (1 s)
  show ?case
  proof (cases "s = []")
    case False
    obtain r' w where d: "decode_rune (map byte s) = (r', w)" by (rule prod.exhaust)
    then have "0 < w" using decode_width_pos [of "map byte s"] False by simp
    then show ?thesis using 1 False d by (auto simp: rune_chunks_step [OF False d])
  qed (use 1 in simp)
qed

lemma rune_chunks_front: "rune_chunks s = xs @ ys \<Longrightarrow> rune_chunks (concat (map snd xs)) = xs"
proof (induction xs arbitrary: s ys)
  case (Cons x xs)
  then have s: "s \<noteq> []" by auto
  obtain r w where d: "decode_rune (map byte s) = (r, w)" by (rule prod.exhaust)
  have eq: "(r, take w s) # rune_chunks (drop w s) = x # (xs @ ys)"
    using Cons.prems rune_chunks_step [OF s d] by simp
  then have IH: "rune_chunks (concat (map snd xs)) = xs" using Cons.IH by blast
  have x: "x = (r, take w s)" using eq by simp
  let ?t = "take w s @ concat (map snd xs)"
  have rest: "drop w s = concat (map snd xs) @ concat (map snd ys)"
    using eq rune_chunks_concat [of "drop w s"] by simp
  then have whole: "s = ?t @ concat (map snd ys)" by (metis append.assoc append_take_drop_id)
  have t: "?t \<noteq> []"
    using chunk_nonempty [of r "take w s" s] Cons.prems x by auto
  have shorter: "map byte ?t = take (length ?t) (map byte s)"
    by (subst (2) whole) simp
  have "w \<le> length s"
  proof (rule ccontr)
    assume "\<not> w \<le> length s"
    moreover have "w \<le> length (map byte s)"
      using d s by (cases "map byte s") (auto split: if_splits list.splits)
    ultimately show False by simp
  qed
  then have len: "w \<le> length ?t" by simp
  then have "decode_rune (map byte ?t) = (r, w)"
    using decode_rune_take [OF d len] s by (simp only: shorter) simp
  then show ?case
    using rune_chunks_step [OF t] IH \<open>w \<le> length s\<close> by (simp add: x min_def)
qed simp

lemma rune_chunks_back: "rune_chunks s = xs @ ys \<Longrightarrow> rune_chunks (concat (map snd ys)) = ys"
proof (induction xs arbitrary: s)
  case Nil
  then show ?case using rune_chunks_concat [of s] by simp
next
  case (Cons x xs)
  then have s: "s \<noteq> []" by auto
  obtain r w where d: "decode_rune (map byte s) = (r, w)" by (rule prod.exhaust)
  then have "rune_chunks (drop w s) = xs @ ys" using Cons.prems rune_chunks_step [OF s d] by simp
  then show ?case by (rule Cons.IH)
qed

lemma TrimSpace_TrimSpace [simp]: "TrimSpace (TrimSpace s) = TrimSpace s"
proof -
  define P where "P = (\<lambda>c :: rune \<times> gostring. is_space (fst c))"
  let ?left = "dropWhile P (rune_chunks s)"
  let ?mid = "rev (dropWhile P (rev ?left))"
  have trim: "TrimSpace x = concat (map snd (rev (dropWhile P (rev (dropWhile P (rune_chunks x))))))" for x
    by (simp add: TrimSpace_def P_def)
  have "rune_chunks s = takeWhile P (rune_chunks s) @ ?left" by simp
  from rune_chunks_back [OF this] have left: "rune_chunks (concat (map snd ?left)) = ?left" .
  have "?left = ?mid @ rev (takeWhile P (rev ?left))"
    by (metis rev_append rev_rev_ident takeWhile_dropWhile_id)
  then have "rune_chunks (concat (map snd ?left)) = ?mid @ rev (takeWhile P (rev ?left))"
    using left by simp
  from rune_chunks_front [OF this] have mid: "rune_chunks (TrimSpace s) = ?mid" by (simp add: trim)
  have "dropWhile P ?mid = ?mid"
  proof (cases ?mid)
    case (Cons c cs)
    then have "\<exists>zs. ?left = c # zs" using \<open>?left = ?mid @ _\<close> by (metis append_Cons)
    then have "\<not> P c" by (metis dropWhile_eq_Cons_conv)
    then show ?thesis using Cons by simp
  next
    case Nil
    then show ?thesis by (simp only: dropWhile.simps)
  qed
  moreover have "dropWhile P (rev ?mid) = rev ?mid" by (simp add: dropWhile_idem)
  ultimately show ?thesis by (simp only: trim [of "TrimSpace s"] mid) (simp add: trim)
qed

end
