(* ===== verification/SettingsRules.thy ===== *)
theory SettingsRules
  imports SettingsRoutes SessionRules Trim
begin

text \<open>
  What saving settings keeps: a directory's configuration is read back as it was accepted, its password
  is never stored open where there is a key nor answered, and a save that is refused changes nothing.
\<close>

section \<open>Secrets\<close>

text \<open>What the ciphers of the standard library promise: what is sealed with a key and a nonce opens with
  them, base64 reads back what it wrote, and a nonce has its length.\<close>

definition ciphers_keep :: "cipher_library \<Rightarrow> bool" where
  "ciphers_keep lib \<longleftrightarrow> (\<forall>key nonce plain. gcm_open lib key nonce (gcm_seal lib key nonce plain) = Some plain)
     \<and> (\<forall>x. of_base64 lib (to_base64 lib x) = Some x) \<and> length (fresh_nonce lib) = nonceSize"

lemma prefix_simps [simp]: "has_prefix (p @ x) p" "trim_prefix (p @ x) p = x"
  by (simp_all add: has_prefix_def trim_prefix_def)

lemma has_prefix_Nil [simp]: "has_prefix [] p \<longleftrightarrow> p = []"
  by (auto simp: has_prefix_def)

lemma Open_Seal:
  assumes "ciphers_keep (sl_library k)" "sl_key k \<noteq> None"
  shows "Open k (Seal k plain) = Inr plain"
proof (cases "plain = []")
  case True
  then show ?thesis by (auto simp: Open_def Seal_def sealedPrefix_def split: option.split)
next
  case False
  then show ?thesis using assms by (auto simp: Open_def Seal_def ciphers_keep_def Let_def)
qed

lemma Seal_without_key: "sl_key k = None \<Longrightarrow> Seal k plain = plain"
  by (simp add: Seal_def)

lemma Seal_hides: "sl_key k \<noteq> None \<Longrightarrow> plain \<noteq> [] \<Longrightarrow> IsSealed (Seal k plain)"
  by (auto simp: Seal_def IsSealed_def Let_def)

text \<open>With the wrong key at hand the start refuses, and nothing is written.\<close>

lemma Verify_accepts:
  assumes "secrets_Verify k s = (Inr (), t)" "setting SettingSecretKeyCheck s \<noteq> []"
  shows "Open k (setting SettingSecretKeyCheck s) = Inr theKeyIsRight \<and> t = s"
  using assms by (auto simp: secrets_Verify_def Let_def split: sum.splits if_splits)

section \<open>The directory\<close>

lemma checked_ldap_Inr:
  assumes "checked_ldap e config s = Inr c"
  shows "c = config\<lparr>lc_SyncSchedule := TrimSpace (lc_SyncSchedule config),
      lc_DefaultRole := (if TrimSpace (lc_DefaultRole config) = [] then RoleUser else TrimSpace (lc_DefaultRole config))\<rparr>
    \<and> ValidSchedule (lc_SyncSchedule c)
    \<and> (\<exists>role. role_GetByName (equal_fold e) (lc_DefaultRole c) (db_roles (site_db s)) = Inr role \<and> \<not> roleAdministers role)
    \<and> invalid_ldap_fields c = []"
  using assms by (auto simp: checked_ldap_def Let_def split: sum.splits if_splits)

lemma role_never_blank:
  assumes "checked_ldap e config s = Inr c"
  shows "TrimSpace (lc_DefaultRole c) \<noteq> []"
proof -
  have "TrimSpace ''user'' = ''user''" by (rule TrimSpace_ascii_word) (simp add: byte_def is_space_def)
  then show ?thesis using checked_ldap_Inr [OF assms] by (auto simp: RoleUser_def)
qed

text \<open>What the encoding of a group promises of one value: it is read back over the defaults.\<close>

definition kept_by :: "'a json \<Rightarrow> 'a \<Rightarrow> 'a \<Rightarrow> bool" where
  "kept_by j defaults x \<longleftrightarrow> marshal j x \<noteq> [] \<and> unmarshal j (marshal j x) defaults = Some x"

definition kept_ldap :: "ldap_config \<Rightarrow> ldap_config" where
  "kept_ldap config = config\<lparr>lc_SyncSchedule := TrimSpace (lc_SyncSchedule config),
      lc_DefaultRole := (if TrimSpace (lc_DefaultRole config) = [] then RoleUser else TrimSpace (lc_DefaultRole config))\<rparr>"

lemma settings_LDAP_elsewhere:
  "setting SettingLDAPSettings t = setting SettingLDAPSettings s \<Longrightarrow> settings_LDAP v t = settings_LDAP v s"
  by (simp add: settings_LDAP_def)

lemma SaveLDAP_Inr:
  assumes "SaveLDAP v e config s = (Inr (), t)"
  shows "checked_ldap e config s = Inr (kept_ldap config)
    \<and> setting SettingLDAPSettings t
        = marshal (ss_ldap v) (kept_ldap config\<lparr>lc_BindPassword := Seal (ss_secrets v) (lc_BindPassword config)\<rparr>)
    \<and> (\<forall>key. key \<noteq> SettingLDAPSettings \<longrightarrow> setting key t = setting key s)"
proof (cases "checked_ldap e config s")
  case (Inl err)
  then show ?thesis using assms by (simp add: SaveLDAP_def)
next
  case (Inr c)
  then have c: "c = kept_ldap config" using checked_ldap_Inr by (simp add: kept_ldap_def)
  have p: "lc_BindPassword (kept_ldap config) = lc_BindPassword config" by (simp add: kept_ldap_def)
  show ?thesis using assms unfolding SaveLDAP_def Inr c
    by (auto simp: Let_def p setting_def set_setting_def map_of_update)
qed

lemma settings_LDAP_reads:
  assumes "setting SettingLDAPSettings t = marshal (ss_ldap v) (c\<lparr>lc_BindPassword := Seal (ss_secrets v) p\<rparr>)"
    "kept_by (ss_ldap v) DefaultLDAPConfig (c\<lparr>lc_BindPassword := Seal (ss_secrets v) p\<rparr>)"
    "TrimSpace (lc_DefaultRole c) \<noteq> []" "ciphers_keep (sl_library (ss_secrets v))"
  shows "settings_LDAP v t = c\<lparr>lc_BindPassword := p\<rparr>"
proof (cases "sl_key (ss_secrets v)")
  case (Some key)
  then have "Open (ss_secrets v) (Seal (ss_secrets v) p) = Inr p" using Open_Seal [OF assms(4)] by simp
  then show ?thesis using assms(1-3) by (simp add: settings_LDAP_def kept_by_def Let_def)
next
  case None
  then show ?thesis using assms(1-3)
    by (auto simp: settings_LDAP_def kept_by_def Let_def Seal_without_key Open_def split: sum.split)
qed

text \<open>C33: what an administrator saves of the directory is what is in force: an accepted save is read back
  with the schedule and the role trimmed - the everyday role where none was named - and the password
  as it was given, though with a key configured no password is stored open; a default role that
  administers is never accepted; a save leaves every other setting alone and a refused one changes
  nothing; and the answer never carries the password.\<close>

theorem directory_settings_kept:
  assumes "ciphers_keep (sl_library (ss_secrets v))"
    and "kept_by (ss_ldap v) DefaultLDAPConfig (kept_ldap config\<lparr>lc_BindPassword := Seal (ss_secrets v) (lc_BindPassword config)\<rparr>)"
    and "SaveLDAP v e config s = (res, t)"
  shows "if res = Inr ()
    then settings_LDAP v t = kept_ldap config
       \<and> (sl_key (ss_secrets v) = None \<or> lc_BindPassword config = []
          \<or> IsSealed (lc_BindPassword (the (unmarshal (ss_ldap v) (setting SettingLDAPSettings t) DefaultLDAPConfig))))
       \<and> (\<exists>role. role_GetByName (equal_fold e) (lc_DefaultRole (kept_ldap config)) (db_roles (site_db s)) = Inr role
            \<and> \<not> roleAdministers role)
       \<and> (\<forall>key. setting key t = setting key s \<or> key = SettingLDAPSettings)
       \<and> lc_BindPassword (fst (newLDAPResponse (settings_LDAP v t))) = []
    else t = s"
proof (cases "res = Inr ()")
  case False
  then have "t = s" using assms(3) by (auto simp: SaveLDAP_def Let_def split: sum.splits)
  then show ?thesis using False by simp
next
  case True
  note saved = SaveLDAP_Inr [OF assms(3) [unfolded True]]
  then have checked: "checked_ldap e config s = Inr (kept_ldap config)" by blast
  from saved assms(1,2) role_never_blank [OF checked]
  have "settings_LDAP v t = kept_ldap config\<lparr>lc_BindPassword := lc_BindPassword config\<rparr>"
    by (intro settings_LDAP_reads) auto
  then have read: "settings_LDAP v t = kept_ldap config" by (simp add: kept_ldap_def)
  have stored: "unmarshal (ss_ldap v) (setting SettingLDAPSettings t) DefaultLDAPConfig
      = Some (kept_ldap config\<lparr>lc_BindPassword := Seal (ss_secrets v) (lc_BindPassword config)\<rparr>)"
    using saved assms(2) by (simp add: kept_by_def)
  have role: "\<exists>role. role_GetByName (equal_fold e) (lc_DefaultRole (kept_ldap config)) (db_roles (site_db s)) = Inr role
      \<and> \<not> roleAdministers role"
    using checked_ldap_Inr [OF checked] by blast
  have sealed: "sl_key (ss_secrets v) = None \<or> lc_BindPassword config = []
      \<or> IsSealed (Seal (ss_secrets v) (lc_BindPassword config))"
    using Seal_hides by blast
  have others: "\<forall>key. setting key t = setting key s \<or> key = SettingLDAPSettings" using saved by blast
  show ?thesis unfolding if_P [OF True]
    using read role sealed others by (simp add: stored newLDAPResponse_def)
qed

text \<open>With the key gone, the password that cannot be opened is shown as set, and saving the card without
  retyping it hands the sealed text to the directory as the password.\<close>

lemma lost_key_looks_set:
  assumes "setting SettingLDAPSettings s \<noteq> []"
    and "unmarshal (ss_ldap v) (setting SettingLDAPSettings s) DefaultLDAPConfig = Some c"
    and "IsSealed (lc_BindPassword c)" "sl_key (ss_secrets v) = None"
  shows "snd (newLDAPResponse (settings_LDAP v s))"
    and "lc_BindPassword sent = [] \<Longrightarrow> bindLDAP v (Some sent) s = Inr (sent\<lparr>lc_BindPassword := lc_BindPassword c\<rparr>)"
  using assms
  by (auto simp: newLDAPResponse_def settings_LDAP_def Let_def Open_def IsSealed_def sealedPrefix_def has_prefix_def
      bindLDAP_def bind_body_def answer_def)

section \<open>An example\<close>

text \<open>A cipher that keeps its key and its nonce, and a configuration written as its host and password.\<close>

definition sample_cipher :: cipher_library where
  "sample_cipher = \<lparr>gcm_seal = (\<lambda>key nonce plain. plain), gcm_open = (\<lambda>key nonce body. Some body),
     to_base64 = (\<lambda>x. x), of_base64 = Some, fresh_nonce = ''0123456789ab''\<rparr>"

definition sample_config :: ldap_config where
  "sample_config = DefaultLDAPConfig\<lparr>lc_Enabled := True, lc_Host := ''ldap.example.org'', lc_BaseDN := ''dc=example'',
     lc_BindPassword := ''secret''\<rparr>"

definition sample_settings :: settings_service where
  "sample_settings =
     \<lparr>ss_appName = [], ss_secrets = \<lparr>sl_library = sample_cipher, sl_key = Some ''key''\<rparr>,
      ss_images = \<lparr>decode_config = (\<lambda>_. None), decode_picture = (\<lambda>_. None), draw_png = (\<lambda>_ _ _ _. None),
        base64_encode = (\<lambda>x. x), base64_decode = Some\<rparr>,
      ss_ldap = \<lparr>marshal = (\<lambda>c. CHR ''!'' # lc_BindPassword c),
        unmarshal = (\<lambda>raw _. Some (sample_config\<lparr>lc_BindPassword := tl raw\<rparr>))\<rparr>,
      ss_openid = \<lparr>marshal = (\<lambda>_. []), unmarshal = (\<lambda>_ _. None)\<rparr>,
      ss_telemetry = \<lparr>marshal = (\<lambda>_. []), unmarshal = (\<lambda>_ _. None)\<rparr>,
      ss_operational = \<lparr>marshal = (\<lambda>_. []), unmarshal = (\<lambda>_ _. None)\<rparr>,
      ss_maintenance = \<lparr>marshal = (\<lambda>_. []), unmarshal = (\<lambda>_ _. None)\<rparr>,
      ss_parse_url = (\<lambda>_. None), ss_loopback_ip = (\<lambda>_. False), ss_format_fixed4 = (\<lambda>_. []),
      ss_parse_float = (\<lambda>_. None)\<rparr>"

lemma sample_kept: "kept_ldap sample_config = sample_config"
proof -
  have "TrimSpace ''user'' = ''user''" by (rule TrimSpace_ascii_word) (simp add: byte_def is_space_def)
  then show ?thesis by (simp add: kept_ldap_def sample_config_def DefaultLDAPConfig_def RoleUser_def)
qed

lemma directory_settings_kept_witness:
  "settings_LDAP sample_settings (snd (SaveLDAP sample_settings sample_env sample_config (sample_site sample_holder)))
    = sample_config"
proof -
  have keep: "ciphers_keep (sl_library (ss_secrets sample_settings))"
    by (simp add: ciphers_keep_def sample_settings_def sample_cipher_def nonceSize_def)
  have json: "kept_by (ss_ldap sample_settings) DefaultLDAPConfig
      (kept_ldap sample_config\<lparr>lc_BindPassword := Seal (ss_secrets sample_settings) (lc_BindPassword sample_config)\<rparr>)"
    by (simp add: sample_kept kept_by_def sample_settings_def)
  have trim: "TrimSpace ''user'' = ''user''" "TrimSpace ''ldap.example.org'' = ''ldap.example.org''"
    "TrimSpace ''dc=example'' = ''dc=example''"
    by (rule TrimSpace_ascii_word, simp add: byte_def is_space_def)+
  have found: "store_all NewRoleRepository = map2 (\<lambda>i r. r\<lparr>ro_ID := i\<rparr>) [1, 2, 3, 4] DefaultRoles"
    by (simp add: NewRoleRepository_def DefaultRoles_def newStore_def store_add_def Let_def uint_succ_def uint_max_def
        store_find_def role_with_id_def store_all_def List.map_filter_simps upt_rec)
  have role: "\<exists>x. role_GetByName (equal_fold sample_env) RoleUser NewRoleRepository = Inr x \<and> ro_Permissions x = UserPermissions"
    unfolding role_GetByName_def found by (simp add: sample_env_def DefaultRoles_def RoleUser_def RoleAdmin_def)
  have "ValidSchedule []" by (simp add: ValidSchedule_def)
  then have "checked_ldap sample_env sample_config (sample_site sample_holder) = Inr sample_config"
    using role by (auto simp: checked_ldap_def Let_def sample_config_def DefaultLDAPConfig_def RoleUser_def trim
        sample_site_def sample_with_roles roleAdministers_def UserPermissions_def permission_names invalid_ldap_fields_def)
  then have "SaveLDAP sample_settings sample_env sample_config (sample_site sample_holder)
      = (Inr (), snd (SaveLDAP sample_settings sample_env sample_config (sample_site sample_holder)))"
    by (simp add: SaveLDAP_def Let_def)
  from directory_settings_kept [OF keep json this] show ?thesis by (simp add: sample_kept)
qed

end
