(* ===== verification/AdminLog.thy ===== *)
theory AdminLog
  imports Administration
begin

text \<open>
  The administration log: which changes it records (\<^verbatim>\<open>rest/adminlog.go\<close>), how they are kept
  (\<^verbatim>\<open>memory/adminevent.go\<close>, \<^verbatim>\<open>domain/model/adminevent_model.go\<close>) and read
  (\<^verbatim>\<open>application/v1/service/adminlog_application_service.go\<close>).

  Reading a field out of a request's JSON and an id out of an answer's are the library's, and
  parameters; a request's body can always be read.
\<close>

section \<open>The log\<close>

record admin_event =
  ae_ID :: uint
  ae_At :: gotime
  ae_ActorID :: uint
  ae_Action :: gostring
  ae_TargetID :: uint
  ae_Detail :: gostring

definition event_Record :: "admin_event \<Rightarrow> admin_event list \<Rightarrow> admin_event list" where
  "event_Record x journal = journal @ [x\<lparr>ae_ID := length journal + 1\<rparr>]"

definition event_Before :: "uint \<Rightarrow> nat \<Rightarrow> admin_event list \<Rightarrow> admin_event list" where
  "event_Before before limit journal = take limit (filter (\<lambda>x. before = 0 \<or> ae_ID x < before) (rev journal))"

definition log_Record :: "env \<Rightarrow> uint \<Rightarrow> gostring \<Rightarrow> uint \<Rightarrow> gostring \<Rightarrow> admin_event list \<Rightarrow> admin_event list" where
  "log_Record e actor action target detail journal =
     event_Record \<lparr>ae_ID = 0, ae_At = in_zone (now e) UTC, ae_ActorID = actor, ae_Action = action,
                   ae_TargetID = target, ae_Detail = detail\<rparr> journal"

text \<open>A page of the log with the names its ids carry now, each name read once: \<open>known\<close> is what the page has
  read already, by what it names and its id.\<close>

record admin_log_entry =
  al_Event :: admin_event
  al_ActorName :: gostring
  al_TargetName :: gostring

type_synonym names = "((gostring \<times> uint) \<times> gostring) list"

definition namer_read :: "gostring \<Rightarrow> uint \<Rightarrow> gostring result \<Rightarrow> names \<Rightarrow> gostring result \<times> names" where
  "namer_read kind i looked_up known =
     (case map_of known (kind, i) of
        Some n \<Rightarrow> (Inr n, known)
      | None \<Rightarrow>
          (case looked_up of
             Inl err \<Rightarrow> if KindOf (Some err) \<noteq> KindNotFound then (Inl err, known)
                        else (Inr [], AList.update (kind, i) [] known)
           | Inr n \<Rightarrow> (Inr n, AList.update (kind, i) n known)))"

definition name_of_user :: "db \<Rightarrow> uint \<Rightarrow> gostring result" where
  "name_of_user d i = bind_res (user_GetByID (db_roles d) i (db_users d)) (\<lambda>u. Inr (us_Name u))"

definition name_of_role :: "db \<Rightarrow> uint \<Rightarrow> gostring result" where
  "name_of_role d i = bind_res (store_get i (db_roles d)) (\<lambda>x. Inr (ro_Name x))"

definition namer_target :: "db \<Rightarrow> admin_event \<Rightarrow> names \<Rightarrow> gostring result \<times> names" where
  "namer_target d x known =
     (if ae_TargetID x = 0 then (Inr [], known)
      else if has_prefix (ae_Action x) ''user.'' then namer_read ''user'' (ae_TargetID x) (name_of_user d (ae_TargetID x)) known
      else if has_prefix (ae_Action x) ''role.'' then namer_read ''role'' (ae_TargetID x) (name_of_role d (ae_TargetID x)) known
      else (Inr [], known))"

fun named_entries :: "db \<Rightarrow> admin_event list \<Rightarrow> names \<Rightarrow> admin_log_entry list result" where
  "named_entries d [] known = Inr []"
| "named_entries d (x # xs) known =
     (case namer_read ''user'' (ae_ActorID x) (name_of_user d (ae_ActorID x)) known of
        (Inl err, _) \<Rightarrow> Inl err
      | (Inr actor, known1) \<Rightarrow>
          (case namer_target d x known1 of
             (Inl err, _) \<Rightarrow> Inl err
           | (Inr target, known2) \<Rightarrow>
               bind_res (named_entries d xs known2) (\<lambda>entries.
               Inr (\<lparr>al_Event = x, al_ActorName = actor, al_TargetName = target\<rparr> # entries))))"

definition log_Page :: "db \<Rightarrow> uint \<Rightarrow> nat \<Rightarrow> admin_event list \<Rightarrow> (admin_log_entry list \<times> bool) result" where
  "log_Page d before limit journal =
     (let events = event_Before before (limit + 1) journal;
          more = length events > limit
      in bind_res (named_entries d (if more then take limit events else events) []) (\<lambda>entries. Inr (entries, more)))"

section \<open>What is recorded\<close>

text \<open>The routes whose success is an administrative change: the method, the path, what the log calls it, and
  the field of the request kept beside it.\<close>

record logged_route =
  lo_method :: gostring
  lo_route :: gostring
  lo_action :: gostring
  lo_keeps :: gostring

definition logged :: "gostring \<Rightarrow> gostring \<Rightarrow> gostring \<Rightarrow> gostring \<Rightarrow> logged_route" where
  "logged verb route action keeps = \<lparr>lo_method = verb, lo_route = route, lo_action = action, lo_keeps = keeps\<rparr>"

definition administrativeChanges :: "logged_route list" where
  "administrativeChanges =
     [logged ''POST'' ''/api/v1/users'' ''user.created'' [],
      logged ''PUT'' ''/api/v1/users/{id}'' ''user.updated'' [],
      logged ''DELETE'' ''/api/v1/users/{id}'' ''user.deleted'' [],
      logged ''PUT'' ''/api/v1/users/{id}/role'' ''user.role'' ''role'',
      logged ''PUT'' ''/api/v1/users/{id}/password'' ''user.password'' [],
      logged ''PUT'' ''/api/v1/users/{id}/managers'' ''user.managers'' [],
      logged ''POST'' ''/api/v1/users/import'' ''users.imported'' [],
      logged ''POST'' ''/api/v1/roles'' ''role.created'' ''name'',
      logged ''PUT'' ''/api/v1/roles/{id}'' ''role.updated'' ''name'',
      logged ''DELETE'' ''/api/v1/roles/{id}'' ''role.deleted'' [],
      logged ''POST'' ''/api/v1/roles/import'' ''roles.imported'' [],
      logged ''PUT'' ''/api/v1/settings/maintenance'' ''settings.maintenance'' ''enabled'',
      logged ''PUT'' ''/api/v1/settings/branding'' ''settings.branding'' [],
      logged ''PUT'' ''/api/v1/settings/ldap'' ''settings.ldap'' [],
      logged ''PUT'' ''/api/v1/settings/openid'' ''settings.openid'' [],
      logged ''POST'' ''/api/v1/settings/ldap/sync'' ''directory.synchronised'' [],
      logged ''PUT'' ''/api/v1/settings/operational'' ''settings.operational'' [],
      logged ''PUT'' ''/api/v1/settings/timezone'' ''settings.timezone'' [],
      logged ''PUT'' ''/api/v1/settings/holidays'' ''settings.holidays'' [],
      logged ''PUT'' ''/api/v1/settings/datasource'' ''settings.datasource'' [],
      logged ''PUT'' ''/api/v1/settings/telemetry'' ''settings.telemetry'' [],
      logged ''PUT'' ''/api/v1/settings/managers'' ''settings.managers'' ''enabled'',
      logged ''POST'' ''/api/v1/settings/restart'' ''installation.restart'' [],
      logged ''POST'' ''/api/v1/settings/update'' ''installation.update'' [],
      logged ''POST'' ''/api/v1/setup/complete'' ''installation.setup'' []]"

text \<open>The pattern of a route is its text with a number where it says \<^verbatim>\<open>{id}\<close>; \<open>None\<close> where a path is none of it,
  and the digits that stand there otherwise.\<close>

fun match_segments :: "gostring list \<Rightarrow> gostring list \<Rightarrow> gostring list option" where
  "match_segments [] [] = Some []"
| "match_segments (p # ps) (x # xs) =
     (if p = ''{id}'' then
        (if x \<noteq> [] \<and> list_all is_digit_char x then map_option (\<lambda>found. x # found) (match_segments ps xs) else None)
      else if p = x then match_segments ps xs else None)"
| "match_segments _ _ = None"

fun matchLogged :: "logged_route list \<Rightarrow> gostring \<Rightarrow> gostring \<Rightarrow> (logged_route \<times> uint) option" where
  "matchLogged [] verb path = None"
| "matchLogged (route # routes) verb path =
     (if lo_method route \<noteq> verb then matchLogged routes verb path
      else case match_segments (split_at (CHR ''/'') (lo_route route)) (split_at (CHR ''/'') path) of
             None \<Rightarrow> matchLogged routes verb path
           | Some [] \<Rightarrow> Some (route, 0)
           | Some (digits # _) \<Rightarrow> (case parseUint digits ''id'' of Inl _ \<Rightarrow> None | Inr i \<Rightarrow> Some (route, i)))"

text \<open>How the library reads JSON: a field of a request as it is printed, and the id in an answer, zero for
  none.\<close>

record json_reader =
  field_text :: "gostring \<Rightarrow> gostring \<Rightarrow> gostring option"
  created_id :: "gostring \<Rightarrow> uint"

definition keptValue :: "json_reader \<Rightarrow> gostring \<Rightarrow> gostring \<Rightarrow> gostring" where
  "keptValue j sent field =
     (if field = [] \<or> sent = [] then []
      else case field_text j sent field of None \<Rightarrow> [] | Some kept \<Rightarrow> take 255 kept)"

text \<open>What the recorder keeps of an answer's writes.\<close>

definition kept_answer :: "gostring list \<Rightarrow> gostring" where
  "kept_answer writes = foldl (\<lambda>body p. if length body < 2 ^ 16 then body @ p else body) [] writes"

text \<open>The middleware: what is asked goes through to the handler, whose answer is a status and the writes of
  its body; a change that succeeded is recorded.\<close>

definition AdministrationLog ::
  "json_reader \<Rightarrow> env \<Rightarrow> gostring \<Rightarrow> gostring \<Rightarrow> gostring \<Rightarrow> principal option \<Rightarrow> ('s \<Rightarrow> (nat \<times> gostring list) \<times> 's)
     \<Rightarrow> admin_event list \<times> 's \<Rightarrow> (nat \<times> gostring list) \<times> admin_event list \<times> 's" where
  "AdministrationLog j e verb path sent caller handler ls =
     (let (journal, s) = ls;
          ((status, body), s') = handler s
      in case (matchLogged administrativeChanges verb path, caller) of
           (Some (route, target), Some p) \<Rightarrow>
             if pp_User p = None \<or> status < 200 \<or> 300 \<le> status then ((status, body), journal, s')
             else let target' = (if target = 0 \<and> contains_at (lo_action route) ''.created''
                                 then created_id j (kept_answer body) else target)
                  in ((status, body),
                      log_Record e (caller_id p) (lo_action route) target' (keptValue j sent (lo_keeps route)) journal, s')
         | _ \<Rightarrow> ((status, body), journal, s'))"

definition adminLogPage :: nat where "adminLogPage = 50"

definition handle_Changes ::
  "authorizer \<Rightarrow> request \<Rightarrow> admin_event list \<Rightarrow> site \<Rightarrow> (admin_log_entry list \<times> bool) answer" where
  "handle_Changes a r journal s =
     bind_res (Require a r PermSettingsManage) (\<lambda>_.
     bind_res (answer (queryUint r ''before'')) (\<lambda>before.
     answer (log_Page (site_db s) before adminLogPage journal)))"

end
