(* ===== verification/AdminLogRules.thy ===== *)
theory AdminLogRules
  imports AdminLog SessionRules
begin

text \<open>
  What the administration log tells: every recorded change exactly once, newest first, under the names
  its ids carry now; and the routes it records.
\<close>

section \<open>Names\<close>

text \<open>The name something carries now, none where it is gone.\<close>

definition name_now :: "gostring result \<Rightarrow> gostring" where
  "name_now r = (case r of Inl _ \<Rightarrow> [] | Inr n \<Rightarrow> n)"

definition target_name :: "db \<Rightarrow> admin_event \<Rightarrow> gostring" where
  "target_name d x =
     (if ae_TargetID x = 0 then []
      else if has_prefix (ae_Action x) ''user.'' then name_now (name_of_user d (ae_TargetID x))
      else if has_prefix (ae_Action x) ''role.'' then name_now (name_of_role d (ae_TargetID x))
      else [])"

definition shown :: "db \<Rightarrow> admin_event \<Rightarrow> admin_log_entry" where
  "shown d x = \<lparr>al_Event = x, al_ActorName = name_now (name_of_user d (ae_ActorID x)), al_TargetName = target_name d x\<rparr>"

lemma name_of_missing:
  "name_of_user d i = Inl err \<Longrightarrow> KindOf (Some err) = KindNotFound"
  "name_of_role d i = Inl err \<Longrightarrow> KindOf (Some err) = KindNotFound"
  by (auto simp: name_of_user_def name_of_role_def user_GetByID_def bind_res_Inl store_get_Inl KindOf_def)

text \<open>What a page has read already is what it would read again.\<close>

definition names_right :: "db \<Rightarrow> names \<Rightarrow> bool" where
  "names_right d known \<longleftrightarrow> (\<forall>i n. (map_of known (''user'', i) = Some n \<longrightarrow> n = name_now (name_of_user d i))
     \<and> (map_of known (''role'', i) = Some n \<longrightarrow> n = name_now (name_of_role d i)))"

lemma namer_read_right:
  assumes "names_right d known"
  shows "\<exists>known'. namer_read ''user'' i (name_of_user d i) known = (Inr (name_now (name_of_user d i)), known') \<and> names_right d known'"
    "\<exists>known'. namer_read ''role'' i (name_of_role d i) known = (Inr (name_now (name_of_role d i)), known') \<and> names_right d known'"
  using assms name_of_missing
  by (auto simp: namer_read_def names_right_def name_now_def map_of_update split: option.splits sum.splits)

lemma namer_target_right:
  assumes "names_right d known"
  shows "\<exists>known'. namer_target d x known = (Inr (target_name d x), known') \<and> names_right d known'"
  using assms namer_read_right [OF assms, of "ae_TargetID x"] by (auto simp: namer_target_def target_name_def)

lemma named_entries_right:
  "names_right d known \<Longrightarrow> named_entries d xs known = Inr (map (shown d) xs)"
proof (induction xs arbitrary: known)
  case (Cons x xs)
  obtain known1 where one: "namer_read ''user'' (ae_ActorID x) (name_of_user d (ae_ActorID x)) known
      = (Inr (name_now (name_of_user d (ae_ActorID x))), known1)" "names_right d known1"
    using namer_read_right(1) [OF Cons.prems] by blast
  obtain known2 where "namer_target d x known1 = (Inr (target_name d x), known2)" "names_right d known2"
    using namer_target_right [OF one(2)] by blast
  then show ?case using one Cons.IH by (simp add: shown_def)
qed simp

lemma log_Page_right:
  "log_Page d before limit journal =
     Inr (map (shown d) (take limit (event_Before before (limit + 1) journal)), length (event_Before before (limit + 1) journal) > limit)"
proof -
  have "names_right d []" by (simp add: names_right_def)
  then show ?thesis by (simp add: log_Page_def Let_def named_entries_right)
qed

section \<open>Page by page\<close>

text \<open>Reading on from the oldest change of each page until there are no older ones.\<close>

fun read_pages :: "nat \<Rightarrow> db \<Rightarrow> uint \<Rightarrow> nat \<Rightarrow> admin_event list \<Rightarrow> admin_log_entry list" where
  "read_pages 0 d before limit journal = []"
| "read_pages (Suc fuel) d before limit journal =
     (case log_Page d before limit journal of
        Inl _ \<Rightarrow> []
      | Inr (entries, further) \<Rightarrow>
          entries @ (if further then read_pages fuel d (ae_ID (al_Event (last entries))) limit journal else []))"

definition numbered :: "admin_event list \<Rightarrow> bool" where
  "numbered journal \<longleftrightarrow> (\<forall>i < length journal. ae_ID (journal ! i) = i + 1)"

lemma numbered_Record: "numbered journal \<Longrightarrow> numbered (event_Record x journal)"
  by (simp add: numbered_def event_Record_def nth_append)

lemma older:
  assumes "numbered journal" "m \<le> length journal"
  shows "filter (\<lambda>x. ae_ID x < m + 1) journal = take m journal"
proof -
  have "filter (\<lambda>x. ae_ID x < m + 1) (take m journal) = take m journal"
    using assms by (auto simp: numbered_def in_set_conv_nth intro!: filter_True)
  moreover have "filter (\<lambda>x. ae_ID x < m + 1) (drop m journal) = []"
    using assms by (auto simp: numbered_def in_set_conv_nth filter_empty_conv)
  ultimately show ?thesis by (metis append_Nil2 append_take_drop_id filter_append)
qed

lemma Before_older:
  assumes "numbered journal" "m \<le> length journal"
  shows "event_Before (m + 1) n journal = take n (rev (take m journal))"
  using older [OF assms] by (simp add: event_Before_def rev_filter [symmetric])

lemma Before_newest: "numbered journal \<Longrightarrow> event_Before 0 n journal = event_Before (length journal + 1) n journal"
  by (subst Before_older) (simp_all add: event_Before_def)

lemma read_from:
  assumes "numbered journal" "0 < limit"
  shows "m \<le> length journal \<Longrightarrow> m < fuel \<Longrightarrow> read_pages fuel d (m + 1) limit journal = map (shown d) (rev (take m journal))"
proof (induction fuel arbitrary: m)
  case (Suc fuel)
  note page = log_Page_right [of d "m + 1" limit journal, unfolded Before_older [OF assms(1) Suc.prems(1)]]
  show ?case
  proof (cases "m \<le> limit")
    case True
    then have "length (take (limit + 1) (rev (take m journal))) \<le> limit" using Suc.prems(1) by simp
    then show ?thesis using page True Suc.prems(1) by simp
  next
    case False
    let ?rest = "m - limit"
    have first: "take limit (rev (take m journal)) = rev (drop ?rest (take m journal))"
      using False Suc.prems(1) by (simp add: take_rev)
    have nonempty: "take limit (rev (take m journal)) \<noteq> []" using False Suc.prems(1) assms(2) by auto
    have "last (take limit (rev (take m journal))) = journal ! ?rest"
      using False Suc.prems(1) assms(2) unfolding first by (simp add: last_rev hd_drop_conv_nth)
    then have "ae_ID (last (take limit (rev (take m journal)))) = ?rest + 1"
      using assms False Suc.prems(1) by (simp add: numbered_def)
    then have oldest: "ae_ID (al_Event (last (map (shown d) (take limit (rev (take m journal)))))) = ?rest + 1"
      using nonempty by (simp add: last_map shown_def)
    have IH: "read_pages fuel d (?rest + 1) limit journal = map (shown d) (rev (take ?rest journal))"
      using Suc.IH [of ?rest] Suc.prems False assms(2) by simp
    have "take m journal = take ?rest journal @ drop ?rest (take m journal)"
      by (metis append_take_drop_id diff_le_self min.absorb1 take_take)
    then have all: "rev (take m journal) = rev (drop ?rest (take m journal)) @ rev (take ?rest journal)" by (metis rev_append)
    have "limit < length (take (limit + 1) (rev (take m journal)))" using False Suc.prems(1) by simp
    moreover have "take limit (take (limit + 1) (rev (take m journal))) = take limit (rev (take m journal))" by simp
    ultimately have "read_pages (Suc fuel) d (m + 1) limit journal
        = map (shown d) (rev (drop ?rest (take m journal))) @ map (shown d) (rev (take ?rest journal))"
      using page oldest IH by (simp add: first)
    then show ?thesis by (subst all) simp
  qed
qed simp

section \<open>Requests through the log\<close>

record served_request =
  sr_env :: env
  sr_verb :: gostring
  sr_path :: gostring
  sr_sent :: gostring
  sr_caller :: "principal option"
  sr_handler :: "site \<Rightarrow> (nat \<times> gostring list) \<times> site"

text \<open>Requests answered one after the other: the answers, and the log and the site after them.\<close>

fun serve :: "json_reader \<Rightarrow> served_request list \<Rightarrow> admin_event list \<times> site
    \<Rightarrow> (nat \<times> gostring list) list \<times> admin_event list \<times> site" where
  "serve j [] js = ([], js)"
| "serve j (q # qs) js =
     (let (ans, js') = AdministrationLog j (sr_env q) (sr_verb q) (sr_path q) (sr_sent q) (sr_caller q) (sr_handler q) js;
          (answers, js'') = serve j qs js'
      in (ans # answers, js''))"

text \<open>Who changed what by a request, if it succeeded: nothing where nobody is signed in, where it was refused
  or failed, and where the route is none of an administrative change.\<close>

definition changed_by :: "served_request \<Rightarrow> nat \<times> gostring list \<Rightarrow> (uint \<times> gostring) list" where
  "changed_by q ans =
     (case (sr_caller q, matchLogged administrativeChanges (sr_verb q) (sr_path q)) of
        (Some p, Some (route, _)) \<Rightarrow>
          if pp_User p \<noteq> None \<and> 200 \<le> fst ans \<and> fst ans < 300 then [(caller_id p, lo_action route)] else []
      | _ \<Rightarrow> [])"

definition who_and_what :: "admin_event \<Rightarrow> uint \<times> gostring" where
  "who_and_what x = (ae_ActorID x, ae_Action x)"

lemma AdministrationLog_records:
  assumes "AdministrationLog j e verb path sent caller handler (journal, s) = (ans, journal', s')" "numbered journal"
  shows "numbered journal'"
    "map who_and_what journal' = map who_and_what journal
        @ changed_by \<lparr>sr_env = e, sr_verb = verb, sr_path = path, sr_sent = sent, sr_caller = caller, sr_handler = handler\<rparr> ans"
proof -
  note cases = AdministrationLog_def Let_def log_Record_def
  show "numbered journal'"
    using assms by (auto simp: cases intro: numbered_Record split: prod.splits option.splits if_splits)
  show "map who_and_what journal' = map who_and_what journal
        @ changed_by \<lparr>sr_env = e, sr_verb = verb, sr_path = path, sr_sent = sent, sr_caller = caller, sr_handler = handler\<rparr> ans"
    using assms by (auto simp: cases changed_by_def event_Record_def who_and_what_def
        split: prod.splits option.splits if_splits)
qed

lemma serve_records:
  "serve j qs (journal, s) = (answers, journal', s') \<Longrightarrow> numbered journal \<Longrightarrow>
     numbered journal' \<and> length answers = length qs
     \<and> map who_and_what journal' = map who_and_what journal @ concat (map2 changed_by qs answers)"
proof (induction qs arbitrary: journal s answers)
  case (Cons q qs)
  obtain ans journal1 s1 where one: "AdministrationLog j (sr_env q) (sr_verb q) (sr_path q) (sr_sent q) (sr_caller q)
      (sr_handler q) (journal, s) = (ans, journal1, s1)" by (rule prod_cases3)
  obtain answers1 journal2 s2 where rest: "serve j qs (journal1, s1) = (answers1, journal2, s2)" by (rule prod_cases3)
  have ends: "answers = ans # answers1" "journal2 = journal'" "s2 = s'" using Cons.prems(1) one rest by simp_all
  have q: "\<lparr>sr_env = sr_env q, sr_verb = sr_verb q, sr_path = sr_path q, sr_sent = sr_sent q, sr_caller = sr_caller q,
      sr_handler = sr_handler q\<rparr> = q" by simp
  note first = AdministrationLog_records [OF one Cons.prems(2), unfolded q]
  show ?case using Cons.IH [OF rest [unfolded ends] first(1)] first(2) by (simp add: ends)
qed simp

lemma numbered_Nil: "numbered []"
  by (simp add: numbered_def)

lemma numbered_length: "length journal < fuel \<Longrightarrow> numbered journal \<Longrightarrow> 0 < limit \<Longrightarrow>
    read_pages fuel d 0 limit journal = map (shown d) (rev journal)"
  using read_from [of journal limit "length journal" fuel d] Before_newest [of journal]
  by (cases fuel) (auto simp: log_Page_right)


text \<open>An account is given a role, which succeeds, and then the list of accounts is read.\<close>

definition sample_reader :: json_reader where
  "sample_reader = \<lparr>field_text = (\<lambda>_ _. Some ''user''), created_id = (\<lambda>_. 0)\<rparr>"

definition sample_served :: "gostring \<Rightarrow> gostring \<Rightarrow> served_request" where
  "sample_served verb path = \<lparr>sr_env = sample_env, sr_verb = verb, sr_path = path, sr_sent = ''{}'',
     sr_caller = Some \<lparr>pp_User = Some sample_user, pp_Role = None, pp_Permissions = []\<rparr>,
     sr_handler = (\<lambda>s. ((200, [''{}'']), s))\<rparr>"

lemma role_route: "matchLogged administrativeChanges ''PUT'' ''/api/v1/users/7/role''
    = Some (logged ''PUT'' ''/api/v1/users/{id}/role'' ''user.role'' ''role'', 7)"
proof -
  have "TrimSpace ''7'' = ''7''" by (rule TrimSpace_ascii_word) (simp add: byte_def is_space_def)
  then have "parseUint ''7'' ''id'' = Inr 7"
    by (simp add: parseUint_def ParseUint_def is_digit_char_def byte_def)
  then show ?thesis
    by (simp add: administrativeChanges_def logged_def is_digit_char_def byte_def)
qed

lemma list_route: "matchLogged administrativeChanges ''GET'' ''/api/v1/users'' = None"
  by (simp add: administrativeChanges_def logged_def)


end
