(* ===== verification/OpenID.thy ===== *)
theory OpenID
  imports SettingsRoutes
begin

text \<open>
  Signing in through a provider: \<^verbatim>\<open>application/v1/service/openid_application_service.go\<close>, the rounds
  in flight (\<^verbatim>\<open>pending.go\<close>), the linked identities (\<^verbatim>\<open>memory/openid.go\<close>,
  \<^verbatim>\<open>domain/model/openid_model.go\<close>) and the routes (\<^verbatim>\<open>rest/openid_handler.go\<close>).

  The provider is a parameter: where it sends a browser, and who it says came back.  The secrets of a
  round are drawn afresh, and a parameter of the operation that draws them.
\<close>

section \<open>First halves waiting for their second\<close>

record 'a pending =
  pe_data :: 'a
  pe_expires :: gotime

record 'a pending_store =
  ps_lifetime :: int
  ps_byToken :: "(gostring \<times> 'a pending) list"
  ps_lastSweep :: gotime

definition pendingSweepInterval :: int where "pendingSweepInterval = 60 * 10 ^ 9"

definition pending_none :: "int \<Rightarrow> 'a pending_store" where
  "pending_none lifetime = \<lparr>ps_lifetime = lifetime, ps_byToken = [], ps_lastSweep = zero_time\<rparr>"

definition pending_put :: "gostring \<Rightarrow> 'a \<Rightarrow> gotime \<Rightarrow> 'a pending_store \<Rightarrow> 'a pending_store" where
  "pending_put token x t c =
     (let swept = (if time_sub t (ps_lastSweep c) \<ge> pendingSweepInterval
                   then c\<lparr>ps_lastSweep := t, ps_byToken := filter (\<lambda>(_, w). \<not> ns (pe_expires w) < ns t) (ps_byToken c)\<rparr>
                   else c)
      in swept\<lparr>ps_byToken := AList.update token \<lparr>pe_data = x, pe_expires = later t (ps_lifetime c)\<rparr> (ps_byToken swept)\<rparr>)"

definition pending_take :: "gostring \<Rightarrow> gotime \<Rightarrow> 'a pending_store \<Rightarrow> 'a option \<times> 'a pending_store" where
  "pending_take token t c =
     (case map_of (ps_byToken c) token of
        None \<Rightarrow> (None, c)
      | Some w \<Rightarrow> (if ns (pe_expires w) < ns t then None else Some (pe_data w),
                   c\<lparr>ps_byToken := AList.delete token (ps_byToken c)\<rparr>))"

section \<open>Linked identities\<close>

record openid_identity =
  oi_ID :: uint
  oi_UserID :: uint
  oi_Issuer :: gostring
  oi_Subject :: gostring
  oi_CreatedAt :: gotime

record identity_table =
  it_items :: "(uint \<times> openid_identity) list"
  it_nextID :: uint

definition identity_ForUser :: "uint \<Rightarrow> identity_table \<Rightarrow> openid_identity result" where
  "identity_ForUser u b =
     (case map_of (it_items b) u of None \<Rightarrow> Inl (NotFound ''identity'' (format_uint u)) | Some x \<Rightarrow> Inr x)"

definition identity_BySubject :: "gostring \<Rightarrow> gostring \<Rightarrow> identity_table \<Rightarrow> openid_identity result" where
  "identity_BySubject issuer subject b =
     (case List.find (\<lambda>(_, x). oi_Issuer x = issuer \<and> oi_Subject x = subject) (it_items b) of
        None \<Rightarrow> Inl (NotFound ''identity'' []) | Some (_, x) \<Rightarrow> Inr x)"

definition identity_Link :: "openid_identity \<Rightarrow> identity_table \<Rightarrow> unit result \<times> identity_table" where
  "identity_Link x b =
     (if list_ex (\<lambda>(u, y). u \<noteq> oi_UserID x \<and> oi_Issuer y = oi_Issuer x \<and> oi_Subject y = oi_Subject x) (it_items b)
      then (Inl Conflictf, b)
      else let i = uint_succ (it_nextID b)
           in (Inr (), \<lparr>it_items = AList.update (oi_UserID x) (x\<lparr>oi_ID := i\<rparr>) (it_items b), it_nextID = i\<rparr>))"

definition identity_Unlink :: "uint \<Rightarrow> identity_table \<Rightarrow> bool \<times> identity_table" where
  "identity_Unlink u b = (map_of (it_items b) u \<noteq> None, b\<lparr>it_items := AList.delete u (it_items b)\<rparr>)"

section \<open>Rounds through the provider\<close>

definition openIDRoundLifetime :: int where "openIDRoundLifetime = 10 * (60 * 10 ^ 9)"

record openid_round =
  or_State :: gostring
  or_Nonce :: gostring
  or_Verifier :: gostring
  or_RedirectURI :: gostring

record openid_claims =
  ok_Issuer :: gostring
  ok_Subject :: gostring
  ok_Email :: gostring
  ok_Name :: gostring

record openid_pending =
  op_round :: openid_round
  op_issuer :: gostring
  op_linkFor :: uint

record openid_provider =
  AuthCodeURL :: "openid_config \<Rightarrow> openid_round \<Rightarrow> gostring option"
  Identify :: "openid_config \<Rightarrow> gostring \<Rightarrow> openid_round \<Rightarrow> openid_claims option"

record openid_desk =
  od_identities :: identity_table
  od_pending :: "openid_pending pending_store"

definition NewOpenIDService :: openid_desk where
  "NewOpenIDService = \<lparr>od_identities = \<lparr>it_items = [], it_nextID = 0\<rparr>, od_pending = pending_none openIDRoundLifetime\<rparr>"

record openid_outcome =
  oo_User :: user
  oo_Linked :: bool

definition mayGoThroughAProvider :: "user \<Rightarrow> unit result" where
  "mayGoThroughAProvider u =
     (if us_IsSystem u then Inl (WithCode Conflictf ''adminHasNoOpenID'' [])
      else if us_IsExternal u then Inl (WithCode Conflictf ''directoryAccountHasNoOpenID'' [])
      else Inr ())"

text \<open>\<open>secrets\<close> is the state, the nonce and the verifier drawn for the round.\<close>

definition openid_begin ::
  "openid_provider \<Rightarrow> openid_config \<Rightarrow> gotime \<Rightarrow> gostring \<times> gostring \<times> gostring \<Rightarrow> gostring \<Rightarrow> uint \<Rightarrow> openid_desk
     \<Rightarrow> (gostring \<times> gostring) result \<times> openid_desk" where
  "openid_begin w config t secrets redirect linkFor k =
     (if \<not> Offered config then (Inl (WithCode Conflictf ''openidOff'' []), k)
      else let (state, nonce, verifier) = secrets;
               round' = \<lparr>or_State = state, or_Nonce = nonce, or_Verifier = verifier, or_RedirectURI = redirect\<rparr>
           in case AuthCodeURL w config round' of
                None \<Rightarrow> (Inl (WithCode Conflictf ''openidUnreachable'' []), k)
              | Some address \<Rightarrow>
                  (Inr (address, state),
                   k\<lparr>od_pending := pending_put state
                       \<lparr>op_round = round', op_issuer = oc_Issuer config, op_linkFor = linkFor\<rparr> t (od_pending k)\<rparr>))"

definition BeginSignIn ::
  "openid_provider \<Rightarrow> openid_config \<Rightarrow> gotime \<Rightarrow> gostring \<times> gostring \<times> gostring \<Rightarrow> gostring \<Rightarrow> openid_desk
     \<Rightarrow> (gostring \<times> gostring) result \<times> openid_desk" where
  "BeginSignIn w config t secrets redirect = openid_begin w config t secrets redirect 0"

definition BeginLink ::
  "openid_provider \<Rightarrow> openid_config \<Rightarrow> gotime \<Rightarrow> gostring \<times> gostring \<times> gostring \<Rightarrow> db \<Rightarrow> uint \<Rightarrow> gostring \<Rightarrow> openid_desk
     \<Rightarrow> (gostring \<times> gostring) result \<times> openid_desk" where
  "BeginLink w config t secrets d u redirect k =
     (case bind_res (user_GetByID (db_roles d) u (db_users d)) mayGoThroughAProvider of
        Inl err \<Rightarrow> (Inl err, k)
      | Inr _ \<Rightarrow> openid_begin w config t secrets redirect u k)"

definition openid_link :: "gotime \<Rightarrow> db \<Rightarrow> uint \<Rightarrow> openid_claims \<Rightarrow> openid_desk \<Rightarrow> openid_outcome result \<times> openid_desk" where
  "openid_link t d u claims k =
     (case bind_res (user_GetByID (db_roles d) u (db_users d)) (\<lambda>user. bind_res (mayGoThroughAProvider user) (\<lambda>_. Inr user)) of
        Inl err \<Rightarrow> (Inl err, k)
      | Inr user \<Rightarrow>
          let existing = identity_BySubject (ok_Issuer claims) (ok_Subject claims) (od_identities k);
              elsewhere = (case existing of Inr x \<Rightarrow> oi_UserID x \<noteq> u | Inl _ \<Rightarrow> False);
              fault = (case existing of Inr _ \<Rightarrow> None | Inl err \<Rightarrow> if KindOf (Some err) \<noteq> KindNotFound then Some err else None)
          in if elsewhere then (Inl (WithCode Conflictf ''openidLinkedElsewhere'' []), k)
             else case fault of
                    Some err \<Rightarrow> (Inl err, k)
                  | None \<Rightarrow>
                      (case identity_Link \<lparr>oi_ID = 0, oi_UserID = u, oi_Issuer = ok_Issuer claims,
                              oi_Subject = ok_Subject claims, oi_CreatedAt = t\<rparr> (od_identities k) of
                         (Inl err, b) \<Rightarrow> (Inl err, k\<lparr>od_identities := b\<rparr>)
                       | (Inr _, b) \<Rightarrow> (Inr \<lparr>oo_User = user, oo_Linked = True\<rparr>, k\<lparr>od_identities := b\<rparr>)))"

definition openid_expired :: app_error where
  "openid_expired = WithCode Invalidf ''attemptExpired'' []"

definition openid_sign_in :: "db \<Rightarrow> openid_claims \<Rightarrow> identity_table \<Rightarrow> openid_outcome result" where
  "openid_sign_in d claims b =
     (case identity_BySubject (ok_Issuer claims) (ok_Subject claims) b of
        Inl err \<Rightarrow> Inl (missingOr err (WithCode Conflictf ''openidNotLinked'' []))
      | Inr x \<Rightarrow>
          bind_res (user_GetByID (db_roles d) (oi_UserID x) (db_users d)) (\<lambda>user.
          bind_res (mayGoThroughAProvider user) (\<lambda>_. Inr \<lparr>oo_User = user, oo_Linked = False\<rparr>)))"

definition openid_Finish ::
  "openid_provider \<Rightarrow> openid_config \<Rightarrow> gotime \<Rightarrow> db \<Rightarrow> gostring \<Rightarrow> gostring \<Rightarrow> uint \<Rightarrow> openid_desk
     \<Rightarrow> openid_outcome result \<times> openid_desk" where
  "openid_Finish w config t d state code signedIn k =
     (let (waiting, pending') = pending_take state t (od_pending k);
          k' = k\<lparr>od_pending := pending'\<rparr>
      in case waiting of
           None \<Rightarrow> (Inl openid_expired, k')
         | Some x \<Rightarrow>
             if \<not> Offered config \<or> oc_Issuer config \<noteq> op_issuer x then (Inl openid_expired, k')
             else if op_linkFor x \<noteq> 0 \<and> signedIn \<noteq> op_linkFor x then (Inl (WithCode Conflictf ''openidRefused'' []), k')
             else (case Identify w config code (op_round x) of
                     None \<Rightarrow> (Inl (WithCode Conflictf ''openidRefused'' []), k')
                   | Some claims \<Rightarrow>
                       if op_linkFor x \<noteq> 0 then openid_link t d (op_linkFor x) claims k'
                       else (openid_sign_in d claims (od_identities k'), k')))"

definition openid_Linked :: "uint \<Rightarrow> openid_desk \<Rightarrow> openid_identity option" where
  "openid_Linked u k = (case identity_ForUser u (od_identities k) of Inl _ \<Rightarrow> None | Inr x \<Rightarrow> Some x)"

definition openid_Unlink :: "uint \<Rightarrow> openid_desk \<Rightarrow> unit result \<times> openid_desk" where
  "openid_Unlink u k =
     (let (removed, b) = identity_Unlink u (od_identities k)
      in (if removed then Inr () else Inl (NotFound ''identity'' (format_uint u)), k\<lparr>od_identities := b\<rparr>))"

section \<open>The routes\<close>

definition handle_openid_Offer :: "settings_service \<Rightarrow> site \<Rightarrow> (bool \<times> gostring) answer" where
  "handle_openid_Offer v s = (let config = settings_OpenID v s in Inr (Offered config, oc_Label config))"

text \<open>Where a round sends the browser, and the state its cookie carries.\<close>

definition handle_openid_BeginSignIn ::
  "settings_service \<Rightarrow> openid_provider \<Rightarrow> gotime \<Rightarrow> gostring \<times> gostring \<times> gostring \<Rightarrow> gostring \<Rightarrow> openid_desk \<times> site
     \<Rightarrow> (gostring \<times> gostring) answer \<times> openid_desk \<times> site" where
  "handle_openid_BeginSignIn v w t secrets redirect ks =
     (let (res, k) = BeginSignIn w (settings_OpenID v (snd ks)) t secrets redirect (fst ks) in (answer res, k, snd ks))"

definition handle_openid_BeginLink ::
  "settings_service \<Rightarrow> openid_provider \<Rightarrow> authorizer \<Rightarrow> request \<Rightarrow> gotime \<Rightarrow> gostring \<times> gostring \<times> gostring \<Rightarrow> gostring
     \<Rightarrow> openid_desk \<times> site \<Rightarrow> (gostring \<times> gostring) answer \<times> openid_desk \<times> site" where
  "handle_openid_BeginLink v w a r t secrets redirect ks =
     (case bind_res (authz_Principal a r) (\<lambda>p. if caller_id p = 0 then Inl HUnauthorized else Inr (caller_id p)) of
        Inl refusal \<Rightarrow> (Inl refusal, ks)
      | Inr u \<Rightarrow>
          let (res, k) = BeginLink w (settings_OpenID v (snd ks)) t secrets (site_db (snd ks)) u redirect (fst ks)
          in (answer res, k, snd ks))"

definition sameRound :: "gostring option \<Rightarrow> gostring \<Rightarrow> bool" where
  "sameRound cookie state \<longleftrightarrow> state \<noteq> [] \<and> cookie = Some state"

text \<open>What a finished round answers: the account linked or signed in, or that a sign-in was turned away.\<close>

datatype openid_answer =
    OpenIDRefused http_error
  | OpenIDLinked "openid_identity option"
  | OpenIDSignedIn login_answer

definition handle_openid_Finish ::
  "settings_service \<Rightarrow> openid_provider \<Rightarrow> env \<Rightarrow> crypto \<Rightarrow> session_service \<Rightarrow> maintenance option \<Rightarrow> request
     \<Rightarrow> gostring option \<Rightarrow> (gostring \<times> gostring) option \<Rightarrow> openid_desk \<times> site \<Rightarrow> openid_answer \<times> openid_desk \<times> site" where
  "handle_openid_Finish v w e c x m r cookie body ks =
     (case body of
        None \<Rightarrow> (OpenIDRefused (toHTTPError (WithCode Invalidf ''bodyNotJSON'' [])), ks)
      | Some (state, code) \<Rightarrow>
          if \<not> sameRound cookie state then (OpenIDRefused (toHTTPError openid_expired), ks)
          else let signedIn = (case rq_presented r of SignedIn p \<Rightarrow> caller_id p | _ \<Rightarrow> 0);
                   s = snd ks;
                   (res, k) = openid_Finish w (settings_OpenID v s) (now e) (site_db s) state code signedIn (fst ks)
               in case res of
                    Inl err \<Rightarrow> (OpenIDRefused (toHTTPError err), k, s)
                  | Inr outcome \<Rightarrow>
                      if oo_Linked outcome then (OpenIDLinked (openid_Linked (us_ID (oo_User outcome)) k), k, s)
                      else let (opened, s') = OpenSession e c x (oo_User outcome) s;
                               (ans, s'') = completeSignIn c m r opened s'
                           in (OpenIDSignedIn ans, k, s''))"

definition handle_openid_Linked :: "authorizer \<Rightarrow> request \<Rightarrow> openid_desk \<Rightarrow> openid_identity option answer" where
  "handle_openid_Linked a r k = bind_res (authz_Principal a r) (\<lambda>p. Inr (openid_Linked (caller_id p) k))"

definition handle_openid_Unlink :: "authorizer \<Rightarrow> request \<Rightarrow> openid_desk \<Rightarrow> unit answer \<times> openid_desk" where
  "handle_openid_Unlink a r k =
     (case authz_Principal a r of
        Inl refusal \<Rightarrow> (Inl refusal, k)
      | Inr p \<Rightarrow> let (res, k') = openid_Unlink (caller_id p) k in (answer res, k'))"

end
