(* ===== verification/Passkeys.thy ===== *)
theory Passkeys
  imports OpenID
begin

text \<open>
  Signing in with a passkey: \<^verbatim>\<open>application/v1/service/passkey_application_service.go\<close> and
  \<^verbatim>\<open>passkey_user.go\<close>, the stored credentials (\<^verbatim>\<open>domain/model/passkey_model.go\<close>,
  \<^verbatim>\<open>sqldb/passkey_repository.go\<close>) and the routes (\<^verbatim>\<open>rest/passkey_handler.go\<close>).

  The WebAuthn library is a parameter (\<open>webauthn\<close>): the options it hands a browser, the session it keeps
  between the two halves of a ceremony, and what it makes of what the browser sends back.
\<close>

section \<open>Stored credentials\<close>

record passkey =
  pk_ID :: uint
  pk_UserID :: uint
  pk_Name :: gostring
  pk_CredentialID :: gostring
  pk_PublicKey :: gostring
  pk_AttestationType :: gostring
  pk_Transports :: gostring
  pk_SignCount :: nat
  pk_BackupEligible :: bool
  pk_BackedUp :: bool
  pk_CreatedAt :: gotime
  pk_LastUsedAt :: "gotime option"

definition PasskeyMaxNameLength :: nat where "PasskeyMaxNameLength = 120"
definition DefaultPasskeyName :: gostring where "DefaultPasskeyName = ''Passkey''"

record passkey_table =
  pt_rows :: "passkey list"
  pt_last :: uint

definition passkey_Save :: "passkey \<Rightarrow> passkey_table \<Rightarrow> passkey result \<times> passkey_table" where
  "passkey_Save x b =
     (if list_ex (\<lambda>y. pk_CredentialID y = pk_CredentialID x) (pt_rows b)
      then (Inl (WithCode Conflictf ''passkeyKnown'' []), b)
      else let stored = x\<lparr>pk_ID := pt_last b + 1\<rparr>
           in (Inr stored, \<lparr>pt_rows = pt_rows b @ [stored], pt_last = pt_last b + 1\<rparr>))"

definition passkey_GetByUser :: "uint \<Rightarrow> passkey_table \<Rightarrow> passkey list" where
  "passkey_GetByUser user b = filter (\<lambda>x. pk_UserID x = user) (pt_rows b)"

definition passkey_GetByCredentialID :: "gostring \<Rightarrow> passkey_table \<Rightarrow> passkey result" where
  "passkey_GetByCredentialID i b =
     (case List.find (\<lambda>x. pk_CredentialID x = i) (pt_rows b) of
        None \<Rightarrow> Inl (NotFound ''passkey'' ''credential'') | Some x \<Rightarrow> Inr x)"

definition TouchUsage :: "gotime \<Rightarrow> uint \<Rightarrow> nat \<Rightarrow> passkey_table \<Rightarrow> passkey_table" where
  "TouchUsage t i signCount b =
     b\<lparr>pt_rows := map (\<lambda>x. if pk_ID x = i then x\<lparr>pk_LastUsedAt := Some t, pk_SignCount := signCount\<rparr> else x) (pt_rows b)\<rparr>"

definition passkey_Delete :: "uint \<Rightarrow> uint \<Rightarrow> passkey_table \<Rightarrow> unit result \<times> passkey_table" where
  "passkey_Delete i user b =
     (if list_ex (\<lambda>x. pk_ID x = i \<and> pk_UserID x = user) (pt_rows b)
      then (Inr (), b\<lparr>pt_rows := filter (\<lambda>x. \<not> (pk_ID x = i \<and> pk_UserID x = user)) (pt_rows b)\<rparr>)
      else (Inl (NotFound ''passkey'' (format_uint i)), b))"

section \<open>What the library sees of an account\<close>

record credential =
  wc_ID :: gostring
  wc_PublicKey :: gostring
  wc_AttestationType :: gostring
  wc_Transport :: "gostring list"
  wc_UserPresent :: bool
  wc_UserVerified :: bool
  wc_BackupEligible :: bool
  wc_BackupState :: bool
  wc_SignCount :: nat

record webauthn_user =
  wu_user :: user
  wu_credentials :: "passkey list"

definition transportsToString :: "gostring list \<Rightarrow> gostring" where
  "transportsToString transports = joined_by '','' transports"

text \<open>\<^verbatim>\<open>parseTransports\<close>: \<open>part\<close> is what was read since the last comma.\<close>

fun transport_parts :: "gostring \<Rightarrow> gostring \<Rightarrow> gostring list" where
  "transport_parts part [] = (if part \<noteq> [] then [part] else [])"
| "transport_parts part (c # s) =
     (if c = CHR '','' then (if part \<noteq> [] then [part] else []) @ transport_parts [] s else transport_parts (part @ [c]) s)"

definition parseTransports :: "gostring \<Rightarrow> gostring list" where
  "parseTransports stored = (if stored = [] then [] else transport_parts [] stored)"

text \<open>The eight bytes of an account's number, the highest first.\<close>

definition webAuthnID :: "uint \<Rightarrow> gostring" where
  "webAuthnID i = map (\<lambda>k. char_of (i div 256 ^ (7 - k) mod 256)) [0..<8]"

definition WebAuthnID :: "webauthn_user \<Rightarrow> gostring" where "WebAuthnID u = webAuthnID (us_ID (wu_user u))"
definition WebAuthnName :: "webauthn_user \<Rightarrow> gostring" where "WebAuthnName u = us_Email (wu_user u)"

definition WebAuthnDisplayName :: "webauthn_user \<Rightarrow> gostring" where
  "WebAuthnDisplayName u = (if us_Name (wu_user u) \<noteq> [] then us_Name (wu_user u) else us_Email (wu_user u))"

definition credential_of :: "passkey \<Rightarrow> credential" where
  "credential_of x =
     \<lparr>wc_ID = pk_CredentialID x, wc_PublicKey = pk_PublicKey x, wc_AttestationType = pk_AttestationType x,
      wc_Transport = parseTransports (pk_Transports x), wc_UserPresent = True, wc_UserVerified = True,
      wc_BackupEligible = pk_BackupEligible x, wc_BackupState = pk_BackedUp x, wc_SignCount = pk_SignCount x\<rparr>"

definition WebAuthnCredentials :: "webauthn_user \<Rightarrow> credential list" where
  "WebAuthnCredentials u = map credential_of (wu_credentials u)"

section \<open>The ceremonies\<close>

definition challengeLifetime :: int where "challengeLifetime = 5 * (60 * 10 ^ 9)"

record relying_party =
  rp_ID :: gostring
  rp_Origin :: gostring
  rp_DisplayName :: gostring

text \<open>The library, told which relying party it verifies for.  \<open>wa_New\<close> is whether it takes that configuration;
  a challenge is drawn afresh for each ceremony.  \<open>wa_Asks\<close> is what \<^verbatim>\<open>ValidateDiscoverableLogin\<close> asks
  its caller about (the credential that signed and the handle it came with), \<open>wa_Validates\<close> what it
  makes of the answer.\<close>

record ('o, 's, 'c, 'a) webauthn =
  wa_New :: "relying_party \<Rightarrow> bool"
  wa_BeginRegistration :: "relying_party \<Rightarrow> webauthn_user \<Rightarrow> gostring list \<Rightarrow> gostring \<Rightarrow> ('o \<times> 's) option"
  wa_CreateCredential :: "relying_party \<Rightarrow> webauthn_user \<Rightarrow> 's \<Rightarrow> 'c \<Rightarrow> credential option"
  wa_BeginDiscoverableLogin :: "relying_party \<Rightarrow> gostring \<Rightarrow> ('o \<times> 's) option"
  wa_UserID :: "'s \<Rightarrow> gostring"
  wa_Asks :: "relying_party \<Rightarrow> 's \<Rightarrow> 'a \<Rightarrow> (gostring \<times> gostring) option"
  wa_Validates :: "relying_party \<Rightarrow> webauthn_user \<Rightarrow> 's \<Rightarrow> 'a \<Rightarrow> credential option"

record 's passkey_desk =
  kd_passkeys :: passkey_table
  kd_pending :: "'s pending_store"

definition NewPasskeyService :: "'s passkey_desk" where
  "NewPasskeyService = \<lparr>kd_passkeys = \<lparr>pt_rows = [], pt_last = 0\<rparr>, kd_pending = pending_none challengeLifetime\<rparr>"

definition Available :: "(gostring \<Rightarrow> bool) \<Rightarrow> relying_party \<Rightarrow> bool" where
  "Available is_ip rp =
     (if is_ip (rp_ID rp) then False else has_prefix (rp_Origin rp) ''https://'' \<or> rp_ID rp = ''localhost'')"

definition webAuthnFor :: "('o, 's, 'c, 'a) webauthn \<Rightarrow> relying_party \<Rightarrow> relying_party result" where
  "webAuthnFor w rp =
     (let config = rp\<lparr>rp_DisplayName := (if rp_DisplayName rp = [] then FallbackAppTitle else rp_DisplayName rp)\<rparr>
      in if wa_New w config then Inr config else Inl Internal)"

definition storePending :: "gostring \<Rightarrow> gotime \<Rightarrow> 's \<Rightarrow> 's passkey_desk \<Rightarrow> 's passkey_desk" where
  "storePending token t session k = k\<lparr>kd_pending := pending_put token session t (kd_pending k)\<rparr>"

definition takePending :: "gostring \<Rightarrow> gotime \<Rightarrow> 's passkey_desk \<Rightarrow> 's result \<times> 's passkey_desk" where
  "takePending token t k =
     (let (waiting, pending') = pending_take token t (kd_pending k)
      in (case waiting of None \<Rightarrow> Inl (WithCode Invalidf ''attemptExpired'' []) | Some x \<Rightarrow> Inr x,
          k\<lparr>kd_pending := pending'\<rparr>))"

text \<open>\<open>secrets\<close> is the challenge and the handle drawn for the ceremony.\<close>

definition BeginRegistration ::
  "('o, 's, 'c, 'a) webauthn \<Rightarrow> db \<Rightarrow> gotime \<Rightarrow> gostring \<times> gostring \<Rightarrow> uint \<Rightarrow> relying_party \<Rightarrow> 's passkey_desk
     \<Rightarrow> ('o \<times> gostring) result \<times> 's passkey_desk" where
  "BeginRegistration w d t secrets userID rp k =
     (case bind_res (user_GetByID (db_roles d) userID (db_users d)) (\<lambda>user.
           if us_IsSystem user then Inl (WithCode Conflictf ''adminHasNoPasskey'' [])
           else if us_IsExternal user then Inl (WithCode Conflictf ''directoryAccountHasNoPasskey'' [])
           else bind_res (webAuthnFor w rp) (\<lambda>config.
                let existing = passkey_GetByUser userID (kd_passkeys k)
                in case wa_BeginRegistration w config \<lparr>wu_user = user, wu_credentials = []\<rparr>
                          (map pk_CredentialID existing) (fst secrets) of
                     None \<Rightarrow> Inl Internal | Some begun \<Rightarrow> Inr begun)) of
        Inl err \<Rightarrow> (Inl err, k)
      | Inr (creation, session) \<Rightarrow> (Inr (creation, snd secrets), storePending (snd secrets) t session k))"

definition passkey_label :: "gostring \<Rightarrow> gostring" where
  "passkey_label name =
     (let label = TrimSpace name; label = (if label = [] then DefaultPasskeyName else label)
      in if length label > PasskeyMaxNameLength then take PasskeyMaxNameLength label else label)"

definition new_passkey :: "gotime \<Rightarrow> uint \<Rightarrow> gostring \<Rightarrow> credential \<Rightarrow> passkey" where
  "new_passkey t userID name x =
     \<lparr>pk_ID = 0, pk_UserID = userID, pk_Name = passkey_label name, pk_CredentialID = wc_ID x,
      pk_PublicKey = wc_PublicKey x, pk_AttestationType = wc_AttestationType x,
      pk_Transports = transportsToString (wc_Transport x), pk_SignCount = wc_SignCount x,
      pk_BackupEligible = wc_BackupEligible x, pk_BackedUp = wc_BackupState x, pk_CreatedAt = t, pk_LastUsedAt = None\<rparr>"

definition FinishRegistration ::
  "('o, 's, 'c, 'a) webauthn \<Rightarrow> db \<Rightarrow> gotime \<Rightarrow> uint \<Rightarrow> relying_party \<Rightarrow> gostring \<Rightarrow> gostring \<Rightarrow> 'c \<Rightarrow> 's passkey_desk
     \<Rightarrow> passkey result \<times> 's passkey_desk" where
  "FinishRegistration w d t userID rp token name response k =
     (let (taken, k') = takePending token t k
      in case bind_res taken (\<lambda>session.
              bind_res (user_GetByID (db_roles d) userID (db_users d)) (\<lambda>user.
              if wa_UserID w session \<noteq> webAuthnID (us_ID user) then Inl (WithCode Invalidf ''passkeyWrongSession'' [])
              else bind_res (webAuthnFor w rp) (\<lambda>config.
                   case wa_CreateCredential w config \<lparr>wu_user = user, wu_credentials = []\<rparr> session response of
                     None \<Rightarrow> Inl (WithCode Invalidf ''passkeyUnverified'' []) | Some x \<Rightarrow> Inr x))) of
           Inl err \<Rightarrow> (Inl err, k')
         | Inr x \<Rightarrow>
             let (saved, b) = passkey_Save (new_passkey t userID name x) (kd_passkeys k')
             in (saved, k'\<lparr>kd_passkeys := b\<rparr>))"

definition passkey_BeginLogin ::
  "('o, 's, 'c, 'a) webauthn \<Rightarrow> gotime \<Rightarrow> gostring \<times> gostring \<Rightarrow> relying_party \<Rightarrow> 's passkey_desk
     \<Rightarrow> ('o \<times> gostring) result \<times> 's passkey_desk" where
  "passkey_BeginLogin w t secrets rp k =
     (case bind_res (webAuthnFor w rp) (\<lambda>config.
           case wa_BeginDiscoverableLogin w config (fst secrets) of None \<Rightarrow> Inl Internal | Some begun \<Rightarrow> Inr begun) of
        Inl err \<Rightarrow> (Inl err, k)
      | Inr (assertion, session) \<Rightarrow> (Inr (assertion, snd secrets), storePending (snd secrets) t session k))"

definition passkeyRejected :: app_error where
  "passkeyRejected = WithCode Invalidf ''passkeyRejected'' []"

text \<open>What the library is answered about a credential: the passkey and whose it is.\<close>

definition discovered :: "db \<Rightarrow> gostring \<Rightarrow> passkey_table \<Rightarrow> (passkey \<times> user) result" where
  "discovered d rawID b =
     bind_res (passkey_GetByCredentialID rawID b) (\<lambda>x.
     bind_res (user_GetByID (db_roles d) (pk_UserID x) (db_users d)) (\<lambda>user. Inr (x, user)))"

definition ValidateDiscoverableLogin ::
  "('o, 's, 'c, 'a) webauthn \<Rightarrow> relying_party \<Rightarrow> db \<Rightarrow> passkey_table \<Rightarrow> 's \<Rightarrow> 'a \<Rightarrow> (passkey \<times> credential) option" where
  "ValidateDiscoverableLogin w config d b session response =
     (case wa_Asks w config session response of
        None \<Rightarrow> None
      | Some (rawID, _) \<Rightarrow>
          (case discovered d rawID b of
             Inl _ \<Rightarrow> None
           | Inr (x, user) \<Rightarrow>
               (case wa_Validates w config \<lparr>wu_user = user, wu_credentials = [x]\<rparr> session response of
                  None \<Rightarrow> None | Some y \<Rightarrow> Some (x, y))))"

definition passkey_FinishLogin ::
  "('o, 's, 'c, 'a) webauthn \<Rightarrow> db \<Rightarrow> gotime \<Rightarrow> relying_party \<Rightarrow> gostring \<Rightarrow> 'a \<Rightarrow> 's passkey_desk
     \<Rightarrow> user result \<times> 's passkey_desk" where
  "passkey_FinishLogin w d t rp token response k =
     (let (taken, k') = takePending token t k
      in case bind_res taken (\<lambda>session.
              bind_res (webAuthnFor w rp) (\<lambda>config.
              case ValidateDiscoverableLogin w config d (kd_passkeys k') session response of
                None \<Rightarrow> Inl passkeyRejected
              | Some (x, y) \<Rightarrow>
                  (case user_GetByID (db_roles d) (pk_UserID x) (db_users d) of
                     Inl _ \<Rightarrow> Inl passkeyRejected
                   | Inr user \<Rightarrow> if us_IsSystem user \<or> us_IsExternal user then Inl passkeyRejected
                                 else Inr (x, y, user)))) of
           Inl err \<Rightarrow> (Inl err, k')
         | Inr (x, y, user) \<Rightarrow>
             (Inr user, k'\<lparr>kd_passkeys := TouchUsage t (pk_ID x) (wc_SignCount y) (kd_passkeys k')\<rparr>))"

section \<open>The routes\<close>

definition requestOrigin :: "env \<Rightarrow> http_request \<Rightarrow> gostring" where
  "requestOrigin e r = (if isTLS e r then ''https'' else ''http'') @ ''://'' @ requestHost e r"

text \<open>\<open>host\<close> without what follows its last colon, unless that is the first byte or an address in brackets.\<close>

definition without_port :: "gostring \<Rightarrow> gostring" where
  "without_port host =
     (let after = takeWhile (\<lambda>c. c \<noteq> CHR '':'') (rev host); colon = length host - length after - 1
      in if CHR '':'' \<in> set host \<and> colon > 0 \<and> CHR '']'' \<notin> set host then take colon host else host)"

definition relyingParty :: "env \<Rightarrow> gostring \<Rightarrow> http_request option \<Rightarrow> relying_party" where
  "relyingParty e instanceName request =
     (case request of
        None \<Rightarrow> \<lparr>rp_ID = [], rp_Origin = [], rp_DisplayName = []\<rparr>
      | Some r \<Rightarrow>
          \<lparr>rp_ID = without_port (requestHost e r), rp_Origin = requestOrigin e r, rp_DisplayName = instanceName\<rparr>)"

record passkey_response =
  px_ID :: uint
  px_Name :: gostring
  px_CreatedAt :: gotime
  px_LastUsedAt :: "gotime option"
  px_Transports :: gostring
  px_BackedUp :: bool
  px_SignCount :: "nat option"

definition newPasskeyResponse :: "passkey \<Rightarrow> passkey_response" where
  "newPasskeyResponse x =
     \<lparr>px_ID = pk_ID x, px_Name = pk_Name x, px_CreatedAt = pk_CreatedAt x,
      px_LastUsedAt = Option.bind (pk_LastUsedAt x) momentOrNil, px_Transports = pk_Transports x,
      px_BackedUp = pk_BackedUp x, px_SignCount = (if pk_SignCount x > 0 then Some (pk_SignCount x) else None)\<rparr>"

definition handle_passkey_Support :: "(gostring \<Rightarrow> bool) \<Rightarrow> relying_party \<Rightarrow> (bool \<times> gostring) answer" where
  "handle_passkey_Support is_ip rp = Inr (Available is_ip rp, rp_ID rp)"

definition handle_passkey_List :: "authorizer \<Rightarrow> request \<Rightarrow> 's passkey_desk \<Rightarrow> passkey_response list_response answer" where
  "handle_passkey_List a r k =
     bind_res (authz_Principal a r) (\<lambda>p.
     let items = map newPasskeyResponse (passkey_GetByUser (caller_id p) (kd_passkeys k))
     in Inr \<lparr>lr_Items = items, lr_TotalCount = length items, lr_PageSize = 0\<rparr>)"

definition handle_passkey_BeginRegistration ::
  "('o, 's, 'c, 'a) webauthn \<Rightarrow> authorizer \<Rightarrow> request \<Rightarrow> gotime \<Rightarrow> gostring \<times> gostring \<Rightarrow> relying_party \<Rightarrow> db
     \<Rightarrow> 's passkey_desk \<Rightarrow> ('o \<times> gostring) answer \<times> 's passkey_desk" where
  "handle_passkey_BeginRegistration w a r t secrets rp d k =
     (case authz_Principal a r of
        Inl refusal \<Rightarrow> (Inl refusal, k)
      | Inr p \<Rightarrow> let (res, k') = BeginRegistration w d t secrets (caller_id p) rp k in (answer res, k'))"

text \<open>A body that could be read holds the handle, the name and the credential, where that could be read too.\<close>

definition handle_passkey_FinishRegistration ::
  "('o, 's, 'c, 'a) webauthn \<Rightarrow> authorizer \<Rightarrow> request \<Rightarrow> gotime \<Rightarrow> relying_party \<Rightarrow> (gostring \<times> gostring \<times> 'c option) option
     \<Rightarrow> db \<Rightarrow> 's passkey_desk \<Rightarrow> passkey_response answer \<times> 's passkey_desk" where
  "handle_passkey_FinishRegistration w a r t rp body d k =
     (case bind_res (authz_Principal a r) (\<lambda>p.
           bind_res (answer (bind_body body)) (\<lambda>(token, name, parsed).
           case parsed of
             None \<Rightarrow> Inl (toHTTPError (WithCode Invalidf ''credentialUnreadable'' []))
           | Some response \<Rightarrow> Inr (caller_id p, token, name, response))) of
        Inl refusal \<Rightarrow> (Inl refusal, k)
      | Inr (u, token, name, response) \<Rightarrow>
          let (res, k') = FinishRegistration w d t u rp token name response k
          in (bind_res (answer res) (\<lambda>x. Inr (newPasskeyResponse x)), k'))"

definition handle_passkey_Delete :: "authorizer \<Rightarrow> request \<Rightarrow> 's passkey_desk \<Rightarrow> unit answer \<times> 's passkey_desk" where
  "handle_passkey_Delete a r k =
     (case bind_res (authz_Principal a r) (\<lambda>p. bind_res (answer (pathID r)) (\<lambda>i. Inr (i, caller_id p))) of
        Inl refusal \<Rightarrow> (Inl refusal, k)
      | Inr (i, u) \<Rightarrow>
          let (res, b) = passkey_Delete i u (kd_passkeys k) in (answer res, k\<lparr>kd_passkeys := b\<rparr>))"

definition handle_passkey_BeginLogin ::
  "('o, 's, 'c, 'a) webauthn \<Rightarrow> gotime \<Rightarrow> gostring \<times> gostring \<Rightarrow> relying_party \<Rightarrow> 's passkey_desk
     \<Rightarrow> ('o \<times> gostring) answer \<times> 's passkey_desk" where
  "handle_passkey_BeginLogin w t secrets rp k =
     (let (res, k') = passkey_BeginLogin w t secrets rp k in (answer res, k'))"

definition handle_passkey_FinishLogin ::
  "('o, 's, 'c, 'a) webauthn \<Rightarrow> env \<Rightarrow> crypto \<Rightarrow> session_service \<Rightarrow> maintenance option \<Rightarrow> request \<Rightarrow> relying_party
     \<Rightarrow> (gostring \<times> 'a option) option \<Rightarrow> 's passkey_desk \<times> site \<Rightarrow> login_answer \<times> 's passkey_desk \<times> site" where
  "handle_passkey_FinishLogin w e c v m r rp body ks =
     (case body of
        None \<Rightarrow> (LoginRefused (toHTTPError (WithCode Invalidf ''bodyNotJSON'' [])), ks)
      | Some (_, None) \<Rightarrow> (LoginRefused HUnauthorized, ks)
      | Some (token, Some response) \<Rightarrow>
          (case passkey_FinishLogin w (site_db (snd ks)) (now e) rp token response (fst ks) of
             (Inl _, k) \<Rightarrow> (LoginRefused HUnauthorized, k, snd ks)
           | (Inr user, k) \<Rightarrow>
               let (opened, s') = OpenSession e c v user (snd ks); (ans, s'') = completeSignIn c m r opened s'
               in (ans, k, s'')))"

end
