(* ===== verification/PasskeyRules.thy ===== *)
theory PasskeyRules
  imports Passkeys OpenIDRules
begin

text \<open>
  Who a passkey signs in: only the account that registered it in a session of its own, while the account may
  use one at all, against exactly the key that was registered; and every challenge is used at most once.
\<close>

section \<open>Handles and transports\<close>

lemma digits_256: "(\<Sum>k<n. (i div 256 ^ k mod 256) * 256 ^ k) = i mod 256 ^ n" for i :: nat
proof (induction n)
  case (Suc n)
  have "i mod (256 ^ n * 256) = 256 ^ n * (i div 256 ^ n mod 256) + i mod 256 ^ n"
    by (rule mod_mult2_eq)
  then show ?case using Suc by (simp add: mult.commute)
qed simp

text \<open>Numbers of accounts are told apart by their handles.\<close>

lemma webAuthnID_inject:
  assumes "webAuthnID i = webAuthnID j" "i < 2 ^ 64" "j < 2 ^ 64"
  shows "i = j"
proof -
  have d: "i div 256 ^ k mod 256 = j div 256 ^ k mod 256" if "k < 8" for k
  proof -
    have "webAuthnID i ! (7 - k) = webAuthnID j ! (7 - k)" using assms(1) by simp
    moreover have "webAuthnID n ! (7 - k) = char_of (n div 256 ^ k mod 256)" for n
      using that nth_upt [of 0 "7 - k" 8] by (simp add: webAuthnID_def)
    ultimately have "(char_of (i div 256 ^ k mod 256) :: char) = char_of (j div 256 ^ k mod 256)" by simp
    then have "of_char (char_of (i div 256 ^ k mod 256) :: char) = (of_char (char_of (j div 256 ^ k mod 256) :: char) :: nat)"
      by simp
    then show ?thesis by (simp only: of_char_of) simp
  qed
  have "(2 :: nat) ^ 64 = 256 ^ 8" by simp
  then have "i = i mod 256 ^ 8" "j = j mod 256 ^ 8" using assms(2,3) by simp_all
  then have "i = (\<Sum>k<8. (i div 256 ^ k mod 256) * 256 ^ k)" "j = (\<Sum>k<8. (j div 256 ^ k mod 256) * 256 ^ k)"
    by (simp_all only: digits_256)
  moreover have "(\<Sum>k<8. (i div 256 ^ k mod 256) * 256 ^ k) = (\<Sum>k<8. (j div 256 ^ k mod 256) * 256 ^ k)"
    by (rule sum.cong [OF refl]) (simp add: d)
  ultimately show ?thesis by simp
qed

lemma webAuthnID_not_empty: "webAuthnID i \<noteq> []"
  by (simp add: webAuthnID_def)

text \<open>What is stored about a device's transports is read back.\<close>

lemma transport_parts_word:
  "CHR '','' \<notin> set s \<Longrightarrow> transport_parts part (s @ rest) = transport_parts (part @ s) rest"
  by (induction s arbitrary: part) auto

lemma parse_transports_joined:
  "(\<forall>s \<in> set ts. s \<noteq> [] \<and> CHR '','' \<notin> set s) \<Longrightarrow> transport_parts [] (joined_by '','' ts) = ts"
proof (induction ts rule: induct_list012)
  case (2 s)
  then show ?case using transport_parts_word [of s "[]" "[]"] by simp
next
  case (3 s s' ts)
  then have "transport_parts [] (s @ '','' @ joined_by '','' (s' # ts)) = transport_parts s ('','' @ joined_by '','' (s' # ts))"
    using transport_parts_word [of s "[]"] by simp
  then show ?case using 3 by simp
qed simp

lemma transports_read_back:
  assumes "\<forall>s \<in> set ts. s \<noteq> [] \<and> CHR '','' \<notin> set s"
  shows "parseTransports (transportsToString ts) = ts"
proof -
  have "joined_by '','' ts = [] \<Longrightarrow> ts = []" using assms by (cases ts rule: remdups_adj.cases) auto
  then show ?thesis using parse_transports_joined [OF assms] by (auto simp: parseTransports_def transportsToString_def)
qed

section \<open>Everything that may happen to passkeys\<close>

datatype passkey_event = AskedToRegister uint gostring | PasskeyMade uint passkey

text \<open>What the library promises about the sessions it hands out: a registration's carries the handle of the
  account it is for, a sign-in's none.\<close>

definition names_its_user :: "('o, 's, 'c, 'a) webauthn \<Rightarrow> bool" where
  "names_its_user w \<longleftrightarrow>
     (\<forall>rp u known challenge creation session.
        wa_BeginRegistration w rp u known challenge = Some (creation, session) \<longrightarrow> wa_UserID w session = WebAuthnID u)
     \<and> (\<forall>rp challenge assertion session.
        wa_BeginDiscoverableLogin w rp challenge = Some (assertion, session) \<longrightarrow> wa_UserID w session = [])"

text \<open>Ceremonies begun and finished, passkeys revoked; the accounts, the address the installation is reached
  under and the time are whatever they are at each step.  An account's number fits its machine word.\<close>

inductive passkey_runs :: "('o, 's, 'c, 'a) webauthn \<Rightarrow> passkey_event list \<Rightarrow> 's passkey_desk \<Rightarrow> bool" for w where
  opened: "passkey_runs w [] NewPasskeyService"
| ask: "passkey_runs w h k \<Longrightarrow> users_keyed (db_users d) \<Longrightarrow> u < 2 ^ 64 \<Longrightarrow>
    passkey_runs w (h @ [AskedToRegister u (snd secrets)]) (snd (BeginRegistration w d t secrets u rp k))"
| refused: "passkey_runs w h k \<Longrightarrow> FinishRegistration w d t u rp token name response k = (Inl err, k') \<Longrightarrow> passkey_runs w h k'"
| made: "passkey_runs w h k \<Longrightarrow> users_keyed (db_users d) \<Longrightarrow> u < 2 ^ 64 \<Longrightarrow>
    FinishRegistration w d t u rp token name response k = (Inr x, k') \<Longrightarrow> passkey_runs w (h @ [PasskeyMade u x]) k'"
| sign_in: "passkey_runs w h k \<Longrightarrow> passkey_runs w h (snd (passkey_BeginLogin w t secrets rp k))"
| signed_in: "passkey_runs w h k \<Longrightarrow> passkey_runs w h (snd (passkey_FinishLogin w d t rp token response k))"
| revoke: "passkey_runs w h k \<Longrightarrow>
    passkey_runs w h (k\<lparr>kd_passkeys := snd (passkey_Delete i u (kd_passkeys k))\<rparr>)"

text \<open>A stored passkey is one that was made: the same credential and key under the same account, used since.\<close>

definition same_key :: "passkey \<Rightarrow> passkey \<Rightarrow> bool" where
  "same_key x y \<longleftrightarrow> pk_UserID x = pk_UserID y \<and> pk_CredentialID x = pk_CredentialID y \<and> pk_PublicKey x = pk_PublicKey y"

definition keys_owned :: "passkey_event list \<Rightarrow> passkey_table \<Rightarrow> bool" where
  "keys_owned h b \<longleftrightarrow> distinct (map pk_CredentialID (pt_rows b))
     \<and> (\<forall>x \<in> set (pt_rows b). \<exists>y token. PasskeyMade (pk_UserID x) y \<in> set h \<and> AskedToRegister (pk_UserID x) token \<in> set h
          \<and> same_key x y)"

definition challenges_asked :: "('o, 's, 'c, 'a) webauthn \<Rightarrow> passkey_event list \<Rightarrow> 's pending_store \<Rightarrow> bool" where
  "challenges_asked w h c \<longleftrightarrow> distinct (map fst (ps_byToken c))
     \<and> (\<forall>(token, e) \<in> set (ps_byToken c). wa_UserID w (pe_data e) = []
          \<or> (\<exists>u. u < 2 ^ 64 \<and> wa_UserID w (pe_data e) = webAuthnID u \<and> AskedToRegister u token \<in> set h))"

definition passkeys_right :: "('o, 's, 'c, 'a) webauthn \<Rightarrow> passkey_event list \<Rightarrow> 's passkey_desk \<Rightarrow> bool" where
  "passkeys_right w h k \<longleftrightarrow> keys_owned h (kd_passkeys k) \<and> challenges_asked w h (kd_pending k)"

lemma right_later:
  assumes "passkeys_right w h k" "set h \<subseteq> set h'"
  shows "passkeys_right w h' k"
proof -
  have "keys_owned h' (kd_passkeys k)" using assms unfolding passkeys_right_def keys_owned_def by blast
  moreover have "challenges_asked w h' (kd_pending k)"
    using assms unfolding passkeys_right_def challenges_asked_def by blast
  ultimately show ?thesis by (simp add: passkeys_right_def)
qed

lemma challenge_put:
  assumes "challenges_asked w h c"
    and "wa_UserID w x = [] \<or> (\<exists>u. u < 2 ^ 64 \<and> wa_UserID w x = webAuthnID u \<and> AskedToRegister u token \<in> set h)"
  shows "challenges_asked w h (pending_put token x t c)"
proof -
  let ?swept = "if time_sub t (ps_lastSweep c) \<ge> pendingSweepInterval
     then filter (\<lambda>(_, e). \<not> ns (pe_expires e) < ns t) (ps_byToken c) else ps_byToken c"
  have d: "distinct (map fst ?swept)" using assms(1) by (auto simp: challenges_asked_def distinct_map_filter)
  have s: "set ?swept \<subseteq> set (ps_byToken c)" by auto
  have "ps_byToken (pending_put token x t c) = AList.update token \<lparr>pe_data = x, pe_expires = later t (ps_lifetime c)\<rparr> ?swept"
    by (simp add: pending_put_def Let_def)
  then show ?thesis
    using assms d s by (auto simp: challenges_asked_def distinct_update dest!: in_update)
qed

lemma challenge_taken:
  assumes "challenges_asked w h c" "pending_take token t c = (got, c')"
  shows "challenges_asked w h c' \<and> map_of (ps_byToken c') token = None
    \<and> (\<forall>x. got = Some x \<longrightarrow> wa_UserID w x = []
         \<or> (\<exists>u. u < 2 ^ 64 \<and> wa_UserID w x = webAuthnID u \<and> AskedToRegister u token \<in> set h))"
proof (cases "map_of (ps_byToken c) token")
  case None
  then show ?thesis using assms by (auto simp: pending_take_def)
next
  case (Some e)
  then have "(token, e) \<in> set (ps_byToken c)" by (rule map_of_SomeD)
  then have asked: "wa_UserID w (pe_data e) = []
      \<or> (\<exists>u. u < 2 ^ 64 \<and> wa_UserID w (pe_data e) = webAuthnID u \<and> AskedToRegister u token \<in> set h)"
    using assms(1) by (auto simp: challenges_asked_def)
  have c': "c' = c\<lparr>ps_byToken := AList.delete token (ps_byToken c)\<rparr>" and got: "got = None \<or> got = Some (pe_data e)"
    using assms(2) Some by (auto simp: pending_take_def split: if_splits)
  have "set (AList.delete token (ps_byToken c)) \<subseteq> set (ps_byToken c)" by (auto dest: in_delete)
  then have "challenges_asked w h c'" using assms(1) unfolding challenges_asked_def c' by (auto simp: distinct_delete)
  then show ?thesis using asked got by (auto simp: c' map_of_delete)
qed

lemma taken_split:
  assumes "takePending token t k = (taken, k')" "passkeys_right w h k"
  shows "passkeys_right w h k' \<and> kd_passkeys k' = kd_passkeys k \<and> map_of (ps_byToken (kd_pending k')) token = None
    \<and> (\<forall>x. taken = Inr x \<longrightarrow> wa_UserID w x = []
         \<or> (\<exists>u. u < 2 ^ 64 \<and> wa_UserID w x = webAuthnID u \<and> AskedToRegister u token \<in> set h))"
proof -
  obtain waiting pending' where take: "pending_take token t (kd_pending k) = (waiting, pending')" by (rule prod.exhaust)
  have k': "k' = k\<lparr>kd_pending := pending'\<rparr>"
    and taken: "taken = (case waiting of None \<Rightarrow> Inl (WithCode Invalidf ''attemptExpired'' []) | Some x \<Rightarrow> Inr x)"
    using assms(1) by (auto simp: takePending_def take)
  have "challenges_asked w h (kd_pending k)" using assms(2) by (simp add: passkeys_right_def)
  from challenge_taken [OF this take] show ?thesis
    using assms(2) taken by (auto simp: k' passkeys_right_def split: option.splits)
qed

lemma registration_asked:
  assumes "passkeys_right w h k" "names_its_user w" "users_keyed (db_users d)" "u < 2 ^ 64"
  shows "passkeys_right w (h @ [AskedToRegister u (snd secrets)]) (snd (BeginRegistration w d t secrets u rp k))"
    (is "passkeys_right w ?h _")
proof -
  have right: "passkeys_right w ?h k" by (rule right_later [OF assms(1)]) auto
  show ?thesis
  proof (cases "fst (BeginRegistration w d t secrets u rp k)")
    case (Inl err)
    then have "snd (BeginRegistration w d t secrets u rp k) = k"
      by (auto simp: BeginRegistration_def split: sum.splits prod.splits)
    then show ?thesis using right by simp
  next
    case (Inr got)
    then obtain user config creation session where user: "user_GetByID (db_roles d) u (db_users d) = Inr user"
      and begun: "wa_BeginRegistration w config \<lparr>wu_user = user, wu_credentials = []\<rparr>
          (map pk_CredentialID (passkey_GetByUser u (kd_passkeys k))) (fst secrets) = Some (creation, session)"
      and k': "snd (BeginRegistration w d t secrets u rp k) = storePending (snd secrets) t session k"
      by (auto simp: BeginRegistration_def bind_res_Inr Let_def split: sum.splits prod.splits if_splits option.splits)
    have "us_ID user = u" using user assms(3) by (auto simp: user_GetByID_Inr users_keyed_def)
    then have "wa_UserID w session = webAuthnID u"
      using begun assms(2) by (auto simp: names_its_user_def WebAuthnID_def)
    then have "challenges_asked w ?h (pending_put (snd secrets) session t (kd_pending k))"
      using right assms(4) by (intro challenge_put) (auto simp: passkeys_right_def)
    then show ?thesis using right by (simp add: k' storePending_def passkeys_right_def)
  qed
qed

lemma sign_in_begun:
  assumes "passkeys_right w h k" "names_its_user w"
  shows "passkeys_right w h (snd (passkey_BeginLogin w t secrets rp k))"
proof (cases "fst (passkey_BeginLogin w t secrets rp k)")
  case (Inl err)
  then have "snd (passkey_BeginLogin w t secrets rp k) = k"
    by (auto simp: passkey_BeginLogin_def split: sum.splits prod.splits)
  then show ?thesis using assms(1) by simp
next
  case (Inr got)
  then obtain config assertion session where
    begun: "wa_BeginDiscoverableLogin w config (fst secrets) = Some (assertion, session)"
    and k': "snd (passkey_BeginLogin w t secrets rp k) = storePending (snd secrets) t session k"
    by (auto simp: passkey_BeginLogin_def bind_res_Inr split: sum.splits prod.splits option.splits)
  have "wa_UserID w session = []" using begun assms(2) unfolding names_its_user_def by blast
  then have "challenges_asked w h (pending_put (snd secrets) session t (kd_pending k))"
    using assms(1) by (intro challenge_put) (auto simp: passkeys_right_def)
  then show ?thesis using assms(1) by (simp add: k' storePending_def passkeys_right_def)
qed

text \<open>A registration that is finished: refused, it used up its challenge and changed nothing else; otherwise it
  stored a key the account asked to register.\<close>

lemma registration_refused:
  assumes "FinishRegistration w d t u rp token name response k = (Inl err, k')" "passkeys_right w h k"
  shows "passkeys_right w h k'"
proof -
  obtain taken k1 where take: "takePending token t k = (taken, k1)" by (rule prod.exhaust)
  have unsaved: "passkey_Save x b = (Inl err, b') \<Longrightarrow> b' = b" for x b b'
    by (auto simp: passkey_Save_def Let_def split: if_splits)
  have "k' = k1" using assms(1) unsaved
    by (auto simp: FinishRegistration_def take split: sum.splits prod.splits)
  then show ?thesis using taken_split [OF take assms(2)] by simp
qed

lemma registration_made:
  assumes "FinishRegistration w d t u rp token name response k = (Inr x, k')" "passkeys_right w h k"
    and "users_keyed (db_users d)" "u < 2 ^ 64"
  shows "passkeys_right w (h @ [PasskeyMade u x]) k' \<and> pk_UserID x = u \<and> AskedToRegister u token \<in> set h"
proof -
  obtain taken k1 where take: "takePending token t k = (taken, k1)" by (rule prod.exhaust)
  obtain session user cred b where s: "taken = Inr session"
    and user: "user_GetByID (db_roles d) u (db_users d) = Inr user"
    and own: "wa_UserID w session = webAuthnID (us_ID user)"
    and save: "passkey_Save (new_passkey t u name cred) (kd_passkeys k1) = (Inr x, b)" and k': "k' = k1\<lparr>kd_passkeys := b\<rparr>"
    using assms(1)
    by (auto simp: FinishRegistration_def take bind_res_Inr split: sum.splits prod.splits if_splits option.splits)
  have right: "passkeys_right w h k1" and handle: "wa_UserID w session = []
      \<or> (\<exists>v. v < 2 ^ 64 \<and> wa_UserID w session = webAuthnID v \<and> AskedToRegister v token \<in> set h)"
    using taken_split [OF take assms(2)] s by auto
  have "us_ID user = u" using user assms(3) by (auto simp: user_GetByID_Inr users_keyed_def)
  then have asked: "AskedToRegister u token \<in> set h"
    using handle own webAuthnID_not_empty webAuthnID_inject assms(4) by (metis (no_types))
  let ?x = "new_passkey t u name cred\<lparr>pk_ID := pt_last (kd_passkeys k1) + 1\<rparr>"
  have fresh: "pk_CredentialID ?x \<notin> set (map pk_CredentialID (pt_rows (kd_passkeys k1)))" and x: "x = ?x"
    and b: "pt_rows b = pt_rows (kd_passkeys k1) @ [?x]"
    using save by (auto simp: passkey_Save_def Let_def list_ex_iff split: if_splits)
  have u: "pk_UserID x = u" by (simp add: x new_passkey_def)
  have later: "passkeys_right w (h @ [PasskeyMade u x]) k1" by (rule right_later [OF right]) auto
  have "same_key x x" by (simp add: same_key_def)
  then have "keys_owned (h @ [PasskeyMade u x]) b"
    using later fresh asked u unfolding passkeys_right_def keys_owned_def b x [symmetric] by auto
  then show ?thesis using later u asked by (simp add: k' passkeys_right_def)
qed

lemma used_right:
  assumes "keys_owned h b"
  shows "keys_owned h (TouchUsage t i n b)"
proof -
  have d: "map pk_CredentialID (pt_rows (TouchUsage t i n b)) = map pk_CredentialID (pt_rows b)"
    by (simp add: TouchUsage_def)
  have "\<exists>z \<in> set (pt_rows b). same_key x z" if "x \<in> set (pt_rows (TouchUsage t i n b))" for x
    using that by (auto simp: TouchUsage_def same_key_def)
  moreover have "same_key x z \<Longrightarrow> same_key z y \<Longrightarrow> same_key x y" "same_key x z \<Longrightarrow> pk_UserID z = pk_UserID x" for x y z
    by (simp_all add: same_key_def)
  ultimately show ?thesis using assms unfolding keys_owned_def d by metis
qed

lemma login_split:
  assumes "passkey_FinishLogin w d t rp token response k = (res, k')" "passkeys_right w h k"
  shows "passkeys_right w h k' \<and> map_of (ps_byToken (kd_pending k')) token = None"
proof -
  obtain taken k1 where take: "takePending token t k = (taken, k1)" by (rule prod.exhaust)
  note one = taken_split [OF take assms(2)]
  have "k' = k1 \<or> (\<exists>i n. k' = k1\<lparr>kd_passkeys := TouchUsage t i n (kd_passkeys k1)\<rparr>)"
    using assms(1) by (auto simp: passkey_FinishLogin_def take split: sum.splits prod.splits)
  then show ?thesis using one used_right by (auto simp: passkeys_right_def)
qed

lemma revoked_right:
  "keys_owned h b \<Longrightarrow> keys_owned h (snd (passkey_Delete i u b))"
  by (auto simp: passkey_Delete_def keys_owned_def distinct_map_filter)

lemma passkey_runs_right:
  assumes "passkey_runs w h k" "names_its_user w"
  shows "passkeys_right w h k"
  using assms(1)
proof (induction rule: passkey_runs.induct)
  case opened
  show ?case by (simp add: passkeys_right_def keys_owned_def challenges_asked_def NewPasskeyService_def pending_none_def)
next
  case (ask h k d u secrets t rp)
  show ?case by (rule registration_asked [OF ask.IH assms(2) ask.hyps(2,3)])
next
  case (refused h k d t u rp token name response err k')
  show ?case by (rule registration_refused [OF refused.hyps(2) refused.IH])
next
  case (made h k d u t rp token name response x k')
  show ?case by (rule conjunct1 [OF registration_made [OF made.hyps(4) made.IH made.hyps(2,3)]])
next
  case (sign_in h k t secrets rp)
  show ?case by (rule sign_in_begun [OF sign_in.IH assms(2)])
next
  case (signed_in h k d t rp token response)
  show ?case by (rule conjunct1 [OF login_split [OF prod.collapse [symmetric] signed_in.IH]])
next
  case (revoke h k i u)
  then show ?case by (simp add: passkeys_right_def revoked_right)
qed

lemma challenge_gone:
  "map_of (ps_byToken (kd_pending k)) token = None \<Longrightarrow>
     fst (passkey_FinishLogin w d t rp token response k) = Inl (WithCode Invalidf ''attemptExpired'' [])"
  by (simp add: passkey_FinishLogin_def takePending_def pending_take_def Let_def split: sum.split prod.split)

text \<open>What a sign-in that ends well rests on.\<close>

lemma login_found:
  assumes "passkey_FinishLogin w d t rp token response k = (Inr user, k')"
  obtains x :: passkey and config session handle cred where
    "x \<in> set (pt_rows (kd_passkeys k))" "wa_Asks w config session response = Some (pk_CredentialID x, handle)"
    "wa_Validates w config \<lparr>wu_user = user, wu_credentials = [x]\<rparr> session response = Some cred"
    "user_GetByID (db_roles d) (pk_UserID x) (db_users d) = Inr user" "\<not> us_IsSystem user" "\<not> us_IsExternal user"
proof -
  obtain taken k1 where take: "takePending token t k = (taken, k1)" by (rule prod.exhaust)
  have same: "kd_passkeys k1 = kd_passkeys k"
    using take by (auto simp: takePending_def split: prod.splits)
  obtain session config x cred where v: "ValidateDiscoverableLogin w config d (kd_passkeys k) session response = Some (x, cred)"
    and user: "user_GetByID (db_roles d) (pk_UserID x) (db_users d) = Inr user" "\<not> us_IsSystem user" "\<not> us_IsExternal user"
    using assms by (auto simp: passkey_FinishLogin_def take same bind_res_Inr split: sum.splits prod.splits if_splits option.splits)
  from v obtain rawID handle u where asks: "wa_Asks w config session response = Some (rawID, handle)"
    and found: "discovered d rawID (kd_passkeys k) = Inr (x, u)"
    and valid: "wa_Validates w config \<lparr>wu_user = u, wu_credentials = [x]\<rparr> session response = Some cred"
    by (auto simp: ValidateDiscoverableLogin_def split: sum.splits prod.splits option.splits)
  have by_id: "passkey_GetByCredentialID rawID (kd_passkeys k) = Inr x" and "u = user"
    using found user(1) by (auto simp: discovered_def bind_res_Inr)
  then have "x \<in> set (pt_rows (kd_passkeys k))" "pk_CredentialID x = rawID"
    by (auto simp: passkey_GetByCredentialID_def find_Some_iff split: option.splits)
  then show ?thesis using that asks valid user \<open>u = user\<close> by blast
qed

text \<open>C36: a passkey opens the door only to the account that registered it: however ceremonies are begun and
  finished, keys revoked and accounts changed in between, a sign-in that ends well is never that of the
  built-in administrator or of a directory's account; what the browser sent was verified against a key that
  is stored at that moment, under the very account that is signed in, and that this account made in a
  registration it had asked for itself; and the challenge does not open anything a second time.\<close>

theorem passkey_signs_in_its_owner:
  assumes "passkey_runs w h k" "names_its_user w" "users_keyed (db_users d)"
    and "passkey_FinishLogin w d t rp token response k = (Inr user, k')"
  shows "\<not> us_IsSystem user \<and> \<not> us_IsExternal user
    \<and> (\<exists>x y asked config session handle cred.
         x \<in> set (pt_rows (kd_passkeys k)) \<and> pk_UserID x = us_ID user
         \<and> AskedToRegister (us_ID user) asked \<in> set h \<and> PasskeyMade (us_ID user) y \<in> set h \<and> same_key x y
         \<and> wa_Asks w config session response = Some (pk_CredentialID x, handle)
         \<and> wa_Validates w config \<lparr>wu_user = user, wu_credentials = [x]\<rparr> session response = Some cred)
    \<and> fst (passkey_FinishLogin w d' t' rp' token response' k') = Inl (WithCode Invalidf ''attemptExpired'' [])"
  using assms(4)
proof (rule login_found)
  fix x :: passkey and config session handle cred
  assume x: "x \<in> set (pt_rows (kd_passkeys k))" "wa_Asks w config session response = Some (pk_CredentialID x, handle)"
    "wa_Validates w config \<lparr>wu_user = user, wu_credentials = [x]\<rparr> session response = Some cred"
    and user: "user_GetByID (db_roles d) (pk_UserID x) (db_users d) = Inr user" "\<not> us_IsSystem user" "\<not> us_IsExternal user"
  have right: "passkeys_right w h k" using passkey_runs_right [OF assms(1,2)] .
  have own: "pk_UserID x = us_ID user" using user(1) assms(3) by (auto simp: user_GetByID_Inr users_keyed_def)
  obtain y asked where "PasskeyMade (us_ID user) y \<in> set h" "AskedToRegister (us_ID user) asked \<in> set h" "same_key x y"
    using right x(1) own unfolding passkeys_right_def keys_owned_def by metis
  moreover have "fst (passkey_FinishLogin w d' t' rp' token response' k') = Inl (WithCode Invalidf ''attemptExpired'' [])"
    using login_split [OF assms(4) right] by (intro challenge_gone) simp
  ultimately show ?thesis using x own user(2,3) by blast
qed

text \<open>Ada registers a key and signs in with it; the challenge does not work a second time.\<close>

definition sample_webauthn :: "(unit, gostring, unit, unit) webauthn" where
  "sample_webauthn =
     \<lparr>wa_New = (\<lambda>_. True), wa_BeginRegistration = (\<lambda>_ u _ _. Some ((), WebAuthnID u)),
      wa_CreateCredential = (\<lambda>_ _ _ _. Some \<lparr>wc_ID = ''key'', wc_PublicKey = ''public'', wc_AttestationType = ''none'',
        wc_Transport = [], wc_UserPresent = True, wc_UserVerified = True, wc_BackupEligible = False,
        wc_BackupState = False, wc_SignCount = 0\<rparr>),
      wa_BeginDiscoverableLogin = (\<lambda>_ _. Some ((), [])), wa_UserID = (\<lambda>s. s),
      wa_Asks = (\<lambda>_ _ _. Some (''key'', [])), wa_Validates = (\<lambda>_ u _ _. Some (hd (WebAuthnCredentials u)))\<rparr>"

definition sample_party :: relying_party where
  "sample_party = \<lparr>rp_ID = ''localhost'', rp_Origin = [], rp_DisplayName = []\<rparr>"

lemma sample_names: "names_its_user sample_webauthn"
  by (simp add: names_its_user_def sample_webauthn_def)

abbreviation "passkey_ada \<equiv> sample_with sample_user"
abbreviation "passkey_noon \<equiv> midnight 20000"

definition ada_asked :: "gostring passkey_desk" where
  "ada_asked = snd (BeginRegistration sample_webauthn passkey_ada passkey_noon (''c'', ''r'') 1 sample_party NewPasskeyService)"

definition ada_registered :: "passkey result \<times> gostring passkey_desk" where
  "ada_registered = FinishRegistration sample_webauthn passkey_ada passkey_noon 1 sample_party ''r'' [] () ada_asked"

definition ada_signs_in :: "user result \<times> gostring passkey_desk" where
  "ada_signs_in = passkey_FinishLogin sample_webauthn passkey_ada passkey_noon sample_party ''s'' ()
     (snd (passkey_BeginLogin sample_webauthn passkey_noon (''d'', ''s'') sample_party (snd ada_registered)))"

lemma ada_found: "user_GetByID (db_roles passkey_ada) 1 (db_users passkey_ada) = Inr sample_user"
  by (simp add: user_GetByID_def store_get_def sample_with_def store_find_def withRoleName_def sample_user_def
      blank_user_def no_role sample_db_def new_db_def)

lemma ada_id: "us_ID sample_user = 1" "\<not> us_IsSystem sample_user" "\<not> us_IsExternal sample_user"
  by (simp_all add: sample_user_def blank_user_def)

lemmas ceremony = takePending_def pending_take_def pending_put_def storePending_def webAuthnFor_def Let_def
  later_def map_of_update map_of_delete

lemma ada_asks: "ada_asked = NewPasskeyService\<lparr>kd_pending := pending_put ''r'' (webAuthnID 1) passkey_noon (kd_pending NewPasskeyService)\<rparr>"
  using ada_found ada_id
  by (simp add: ada_asked_def BeginRegistration_def storePending_def webAuthnFor_def Let_def)
     (simp add: sample_webauthn_def WebAuthnID_def storePending_def)

lemma ada_registers: "\<exists>x k. ada_registered = (Inr x, k) \<and> pt_rows (kd_passkeys k) = [x] \<and> pk_UserID x = 1 \<and> pk_CredentialID x = ''key''"
  using ada_found ada_id
  by (simp add: ada_registered_def FinishRegistration_def ada_asks ceremony NewPasskeyService_def pending_none_def challengeLifetime_def)
     (simp add: sample_webauthn_def passkey_Save_def new_passkey_def Let_def)

lemma ada_signed_in: "\<exists>k. ada_signs_in = (Inr sample_user, k)"
proof -
  obtain x k where k: "ada_registered = (Inr x, k)" "pt_rows (kd_passkeys k) = [x]" "pk_UserID x = 1" "pk_CredentialID x = ''key''"
    using ada_registers by auto
  have begun: "snd (passkey_BeginLogin sample_webauthn passkey_noon (''d'', ''s'') sample_party k) = storePending ''s'' passkey_noon [] k"
    by (simp add: passkey_BeginLogin_def webAuthnFor_def Let_def) (simp add: sample_webauthn_def)
  have life: "ps_lifetime (kd_pending k) = challengeLifetime"
    using k(1) by (auto simp: ada_registered_def FinishRegistration_def ada_asks ceremony NewPasskeyService_def pending_none_def
        split: sum.splits prod.splits option.splits)
  have taken: "fst (takePending ''s'' passkey_noon (storePending ''s'' passkey_noon [] k)) = Inr []"
    by (simp add: ceremony life challengeLifetime_def)
  then obtain k1 where k1: "takePending ''s'' passkey_noon (storePending ''s'' passkey_noon [] k) = (Inr [], k1)"
    by (metis prod.collapse)
  then have same: "kd_passkeys k1 = kd_passkeys k" by (auto simp: takePending_def storePending_def split: prod.splits)
  have "\<exists>y. ValidateDiscoverableLogin sample_webauthn c passkey_ada (kd_passkeys k) [] () = Some (x, y)" for c
    using k ada_found by (simp add: ValidateDiscoverableLogin_def sample_webauthn_def discovered_def passkey_GetByCredentialID_def)
  moreover have "webAuthnFor sample_webauthn sample_party = Inr (sample_party\<lparr>rp_DisplayName := FallbackAppTitle\<rparr>)"
    by (simp add: webAuthnFor_def sample_webauthn_def sample_party_def)
  moreover obtain y where
    "ValidateDiscoverableLogin sample_webauthn (sample_party\<lparr>rp_DisplayName := FallbackAppTitle\<rparr>) passkey_ada (kd_passkeys k) [] ()
     = Some (x, y)" using calculation(1) by blast
  ultimately show ?thesis
    using k(3) ada_found [unfolded One_nat_def] ada_id
    by (simp add: ada_signs_in_def k(1) begun passkey_FinishLogin_def k1 same)
qed

lemma passkey_signs_in_its_owner_witness:
  "fst (passkey_FinishLogin sample_webauthn passkey_ada passkey_noon sample_party ''s'' () (snd ada_signs_in))
   = Inl (WithCode Invalidf ''attemptExpired'' [])"
proof -
  have keyed: "users_keyed (db_users passkey_ada)"
    using sample_with_valid [of sample_user] by (simp add: db_valid_def sample_user_def)
  obtain x k where k: "ada_registered = (Inr x, k)" using ada_registers by auto
  obtain k' where fin: "ada_signs_in = (Inr sample_user, k')" using ada_signed_in by auto
  have asked: "passkey_runs sample_webauthn ([] @ [AskedToRegister 1 (snd (''c'', ''r''))]) ada_asked"
    unfolding ada_asked_def by (rule passkey_runs.ask [OF passkey_runs.opened keyed]) simp
  have made: "passkey_runs sample_webauthn (([] @ [AskedToRegister 1 (snd (''c'', ''r''))]) @ [PasskeyMade 1 x]) k"
    by (rule passkey_runs.made [OF asked keyed _ k [unfolded ada_registered_def]]) simp
  note begun = passkey_runs.sign_in [OF made]
  show ?thesis
    using passkey_signs_in_its_owner [OF begun sample_names keyed fin [unfolded ada_signs_in_def k snd_conv]]
    by (simp only: fin snd_conv simp_thms)
qed

end
