(* ===== verification/Templates.thy ===== *)
theory Templates
  imports Requests
begin

text \<open>
  Bookings kept to fill the booking form with: \<^verbatim>\<open>domain/model/template_model.go\<close>, the in-memory
  repository \<^verbatim>\<open>persistence/memory/template.go\<close>, the service
  \<^verbatim>\<open>application/v1/service/template_application_service.go\<close> and the routes of
  \<^verbatim>\<open>interface/api/v1/rest/template_handler.go\<close>.

  Two absent fields are the same, and two present ones where their values are; hours compare as
  numbers, so none is the same as NaN - which no template holds.
\<close>

section \<open>Templates and where they are kept\<close>

record entry_template =
  et_ID :: uint
  et_UserID :: uint
  et_ProjectID :: "uint option"
  et_DurationHours :: "float64 option"
  et_Description :: "gostring option"

record template_repo =
  er_templates :: "entry_template list"
  er_nextID :: uint

definition NewTemplateRepository :: template_repo where
  "NewTemplateRepository = \<lparr>er_templates = [], er_nextID = 1\<rparr>"

definition template_ForUser :: "uint \<Rightarrow> template_repo \<Rightarrow> entry_template list" where
  "template_ForUser userID r = List.filter (\<lambda>t. et_UserID t = userID) (er_templates r)"

definition template_Save :: "entry_template \<Rightarrow> template_repo \<Rightarrow> entry_template \<times> template_repo" where
  "template_Save t r =
     (let stored = t\<lparr>et_ID := er_nextID r\<rparr>
      in (stored, \<lparr>er_templates = er_templates r @ [stored], er_nextID = uint_succ (er_nextID r)\<rparr>))"

fun remove_template :: "uint \<Rightarrow> uint \<Rightarrow> entry_template list \<Rightarrow> bool \<times> entry_template list" where
  "remove_template i userID [] = (False, [])"
| "remove_template i userID (t # ts) =
     (if et_ID t = i \<and> et_UserID t = userID then (True, ts)
      else let (found, rest) = remove_template i userID ts in (found, t # rest))"

definition template_Delete :: "uint \<Rightarrow> uint \<Rightarrow> template_repo \<Rightarrow> bool \<times> template_repo" where
  "template_Delete i userID r =
     (let (found, rest) = remove_template i userID (er_templates r) in (found, r\<lparr>er_templates := rest\<rparr>))"

section \<open>Keeping and removing them\<close>

definition maxTemplatesPerUser :: nat where "maxTemplatesPerUser = 50"

definition samePointee :: "('a \<Rightarrow> 'a \<Rightarrow> bool) \<Rightarrow> 'a option \<Rightarrow> 'a option \<Rightarrow> bool" where
  "samePointee same a b =
     (case a of None \<Rightarrow> b = None | Some x \<Rightarrow> (case b of None \<Rightarrow> False | Some y \<Rightarrow> same x y))"

definition same_template :: "entry_template \<Rightarrow> entry_template \<Rightarrow> bool" where
  "same_template a b \<longleftrightarrow> samePointee (=) (et_ProjectID a) (et_ProjectID b)
     \<and> samePointee feq (et_DurationHours a) (et_DurationHours b)
     \<and> samePointee (=) (et_Description a) (et_Description b)"

definition normalised_template :: "entry_template \<Rightarrow> entry_template" where
  "normalised_template t = t
     \<lparr>et_ProjectID := (if et_ProjectID t = Some 0 then None else et_ProjectID t),
      et_Description := (case et_Description t of None \<Rightarrow> None
        | Some d \<Rightarrow> let written = TrimSpace d in if written = [] then None else Some written)\<rparr>"

text \<open>What a template is held to before it is compared with those already kept.\<close>

definition checked_template :: "entry_template \<Rightarrow> db \<Rightarrow> unit result" where
  "checked_template t d =
     bind_res (refuse_fields
       (field_if (case et_DurationHours t of None \<Rightarrow> False
          | Some h \<Rightarrow> \<not> (fle MinBookableHours h \<and> fle h HoursPerDay)) ''durationHours''
        @ field_if (case et_Description t of None \<Rightarrow> False
          | Some x \<Rightarrow> TooLong x MaxDescriptionLength) ''description'')) (\<lambda>_.
     if et_ProjectID t = None \<and> et_DurationHours t = None \<and> et_Description t = None
     then Inl (WithCode Invalidf ''templateEmpty'' [])
     else case et_ProjectID t of
       None \<Rightarrow> Inr ()
     | Some i \<Rightarrow> bind_res (store_get i (db_projects d)) (\<lambda>project.
         bind_res (RequireVisible project (et_UserID t)) (\<lambda>_.
         if pr_Status project \<noteq> ProjectStatusActive
         then Inl (WithCode Conflictf ''projectClosedForBooking'' [VString (pr_Name project), VString (pr_Status project)])
         else Inr ())))"

definition Keep :: "entry_template \<Rightarrow> db \<Rightarrow> template_repo \<Rightarrow> entry_template result \<times> template_repo" where
  "Keep sent d r =
     (let template = normalised_template sent
      in case checked_template template d of
           Inl err \<Rightarrow> (Inl err, r)
         | Inr _ \<Rightarrow>
             let kept = template_ForUser (et_UserID template) r
             in case List.find (\<lambda>existing. same_template existing template) kept of
                  Some existing \<Rightarrow> (Inr existing, r)
                | None \<Rightarrow>
                    if length kept \<ge> maxTemplatesPerUser
                    then (Inl (WithCode Conflictf ''tooManyTemplates'' [VInt (int maxTemplatesPerUser)]), r)
                    else let (stored, r') = template_Save template r in (Inr stored, r'))"

definition RemoveTemplate :: "uint \<Rightarrow> uint \<Rightarrow> template_repo \<Rightarrow> unit result \<times> template_repo" where
  "RemoveTemplate i userID r =
     (let (found, r') = template_Delete i userID r
      in (if found then Inr () else Inl (NotFound ''template'' (format_uint i)), r'))"

section \<open>The routes\<close>

record template_response =
  em_ID :: uint
  em_ProjectID :: "uint option"
  em_DurationHours :: "float64 option"
  em_Description :: "gostring option"

record template_request =
  eq_ProjectID :: "uint option"
  eq_DurationHours :: "float64 option"
  eq_Description :: "gostring option"

definition newTemplateResponse :: "entry_template \<Rightarrow> template_response" where
  "newTemplateResponse t =
     \<lparr>em_ID = et_ID t, em_ProjectID = et_ProjectID t, em_DurationHours = et_DurationHours t,
      em_Description = et_Description t\<rparr>"

definition handle_template_List ::
  "authorizer \<Rightarrow> request \<Rightarrow> template_repo \<Rightarrow> template_response list_response answer" where
  "handle_template_List a r k =
     bind_res (Require a r PermTimesheetWriteOwn) (\<lambda>p.
     let kept = template_ForUser (caller_id p) k
     in Inr \<lparr>lr_Items = map newTemplateResponse kept, lr_TotalCount = length kept, lr_PageSize = 0\<rparr>)"

definition handle_template_Save ::
  "authorizer \<Rightarrow> request \<Rightarrow> template_request option \<Rightarrow> db \<Rightarrow> template_repo
     \<Rightarrow> template_response answer \<times> template_repo" where
  "handle_template_Save a r body d k =
     (case bind_res (Require a r PermTimesheetWriteOwn) (\<lambda>p.
           bind_res (answer (bind_body body)) (\<lambda>req. Inr (caller_id p, req))) of
        Inl refusal \<Rightarrow> (Inl refusal, k)
      | Inr (u, req) \<Rightarrow>
          let (res, k') = Keep \<lparr>et_ID = 0, et_UserID = u, et_ProjectID = eq_ProjectID req,
                et_DurationHours = eq_DurationHours req, et_Description = eq_Description req\<rparr> d k
          in (bind_res (answer res) (\<lambda>t. Inr (newTemplateResponse t)), k'))"

definition handle_template_Delete ::
  "authorizer \<Rightarrow> request \<Rightarrow> template_repo \<Rightarrow> unit answer \<times> template_repo" where
  "handle_template_Delete a r k =
     (case bind_res (Require a r PermTimesheetWriteOwn) (\<lambda>p.
           bind_res (answer (pathID r)) (\<lambda>i. Inr (caller_id p, i))) of
        Inl refusal \<Rightarrow> (Inl refusal, k)
      | Inr (u, i) \<Rightarrow> let (res, k') = RemoveTemplate i u k in (answer res, k'))"

end
