(* ===== verification/TemplateRules.thy ===== *)
theory TemplateRules
  imports Templates Trim Sample
begin

text \<open>
  Templates kept for the booking form: whatever is kept and removed, everybody has at most fifty, each of
  which could be booked as it stands, and no two of which fill the form the same way; and nobody's are
  touched by anybody else.
\<close>

datatype template_step = KeepTemplate entry_template db | DropTemplate uint uint

fun take_step :: "template_step \<Rightarrow> template_repo \<Rightarrow> template_repo" where
  "take_step (KeepTemplate t d) r = snd (Keep t d r)"
| "take_step (DropTemplate i u) r = snd (RemoveTemplate i u r)"

fun step_of :: "template_step \<Rightarrow> uint" where
  "step_of (KeepTemplate t d) = et_UserID t"
| "step_of (DropTemplate i u) = u"

definition kept_after :: "template_step list \<Rightarrow> template_repo" where
  "kept_after steps = fold take_step steps NewTemplateRepository"

text \<open>A template that could be booked as it stands.\<close>

definition template_ok :: "entry_template \<Rightarrow> bool" where
  "template_ok t \<longleftrightarrow> et_ProjectID t \<noteq> Some 0
     \<and> (case et_DurationHours t of None \<Rightarrow> True | Some h \<Rightarrow> fle MinBookableHours h \<and> fle h HoursPerDay)
     \<and> (case et_Description t of None \<Rightarrow> True | Some x \<Rightarrow> x \<noteq> [] \<and> TrimSpace x = x \<and> \<not> TooLong x MaxDescriptionLength)
     \<and> (et_ProjectID t \<noteq> None \<or> et_DurationHours t \<noteq> None \<or> et_Description t \<noteq> None)"

definition templates_ok :: "template_repo \<Rightarrow> bool" where
  "templates_ok r \<longleftrightarrow> (\<forall>t \<in> set (er_templates r). template_ok t \<and> et_ID t < er_nextID r)
     \<and> distinct (map et_ID (er_templates r))
     \<and> (\<forall>u. length (template_ForUser u r) \<le> maxTemplatesPerUser)
     \<and> sorted_wrt (\<lambda>a b. et_UserID a = et_UserID b \<longrightarrow> \<not> same_template a b) (er_templates r)"

lemma checked_template_ok:
  "checked_template (normalised_template t) d = Inr x \<Longrightarrow> template_ok (normalised_template t)"
  by (auto simp: checked_template_def template_ok_def bind_res_Inr normalised_template_def Let_def
      split: option.splits if_splits)

lemma Keep_cases:
  assumes "Keep t d r = (res, r')"
  obtains (refused) err where "res = Inl err" "r' = r"
  | (known) x where "res = Inr x" "r' = r" "x \<in> set (template_ForUser (et_UserID t) r)"
      "same_template x (normalised_template t)" "checked_template (normalised_template t) d = Inr ()"
      "List.find (\<lambda>x. same_template x (normalised_template t)) (template_ForUser (et_UserID t) r) = Some x"
  | (new) "template_ok (normalised_template t)" "length (template_ForUser (et_UserID t) r) < maxTemplatesPerUser"
      "\<forall>x \<in> set (template_ForUser (et_UserID t) r). \<not> same_template x (normalised_template t)"
      "res = Inr ((normalised_template t)\<lparr>et_ID := er_nextID r\<rparr>)"
      "r' = \<lparr>er_templates = er_templates r @ [(normalised_template t)\<lparr>et_ID := er_nextID r\<rparr>],
             er_nextID = uint_succ (er_nextID r)\<rparr>"
      "checked_template (normalised_template t) d = Inr ()"
proof -
  have user: "et_UserID (normalised_template t) = et_UserID t" by (simp add: normalised_template_def)
  show thesis
  proof (cases "checked_template (normalised_template t) d")
    case (Inl err)
    then have "res = Inl err" "r' = r" using assms by (simp_all add: Keep_def Let_def)
    then show thesis by (rule refused)
  next
    case (Inr x)
    show thesis
    proof (cases "List.find (\<lambda>x. same_template x (normalised_template t)) (template_ForUser (et_UserID t) r)")
      case (Some y)
      then have y: "y \<in> set (template_ForUser (et_UserID t) r)" "same_template y (normalised_template t)"
        by (auto simp: find_Some_iff in_set_conv_nth)
      have res: "res = Inr y" "r' = r" using assms Inr Some by (simp_all add: Keep_def Let_def user)
      have "checked_template (normalised_template t) d = Inr ()" using Inr by simp
      then show thesis by (rule known [OF res y _ Some])
    next
      case None
      then have unlike: "\<forall>x \<in> set (template_ForUser (et_UserID t) r). \<not> same_template x (normalised_template t)"
        by (simp add: find_None_iff)
      have checked: "checked_template (normalised_template t) d = Inr ()" using Inr by simp
      show thesis
      proof (cases "length (template_ForUser (et_UserID t) r) < maxTemplatesPerUser")
        case True
        with assms checked None show thesis
          by (intro new [OF checked_template_ok [OF Inr] True unlike _ _ checked]) (auto simp: Keep_def Let_def user template_Save_def)
      next
        case False
        then have "res = Inl (WithCode Conflictf ''tooManyTemplates'' [VInt (int maxTemplatesPerUser)])" "r' = r"
          using assms checked None by (simp_all add: Keep_def Let_def user)
        then show thesis by (rule refused)
      qed
    qed
  qed
qed

lemma same_template_ID [simp]: "same_template a (b\<lparr>et_ID := i\<rparr>) = same_template a b"
  by (simp add: same_template_def)

lemma ForUser_append: "template_ForUser u \<lparr>er_templates = xs @ [t], er_nextID = n\<rparr>
    = template_ForUser u \<lparr>er_templates = xs, er_nextID = m\<rparr> @ (if et_UserID t = u then [t] else [])"
  by (simp add: template_ForUser_def)

lemma ForUser_next: "template_ForUser u \<lparr>er_templates = er_templates r, er_nextID = m\<rparr> = template_ForUser u r"
  by (simp add: template_ForUser_def)

lemma Keep_ok:
  assumes "templates_ok r" "er_nextID r < uint_max" "Keep t d r = (res, r')"
  shows "templates_ok r' \<and> er_nextID r' \<le> Suc (er_nextID r)
    \<and> (\<forall>u. u \<noteq> et_UserID t \<longrightarrow> template_ForUser u r' = template_ForUser u r)"
  using assms(3)
proof (cases rule: Keep_cases)
  case new
  define x where "x = (normalised_template t)\<lparr>et_ID := er_nextID r\<rparr>"
  have x: "et_UserID x = et_UserID t" "et_ID x = er_nextID r" "template_ok x" "er_nextID r' = Suc (er_nextID r)"
    "er_templates r' = er_templates r @ [x]"
    using new(1,5) assms(2) by (simp_all add: x_def normalised_template_def template_ok_def)
  have users: "template_ForUser u r' = template_ForUser u r @ (if et_UserID t = u then [x] else [])" for u
    by (simp add: template_ForUser_def x)
  have "\<not> same_template y x" if "y \<in> set (er_templates r)" "et_UserID y = et_UserID t" for y
    using new(3) that by (simp add: x_def template_ForUser_def)
  then have "templates_ok r'"
    using assms(1) new(2) unfolding templates_ok_def users by (auto simp: x sorted_wrt_append less_Suc_eq)
  then show ?thesis by (simp add: users x)
qed (use assms(1) in auto)

lemma remove_template_filter:
  "distinct (map et_ID ts) \<Longrightarrow> snd (remove_template i u ts) = List.filter (\<lambda>t. \<not> (et_ID t = i \<and> et_UserID t = u)) ts"
proof (induction ts)
  case (Cons t ts)
  have "et_ID t \<notin> et_ID ` set ts" using Cons.prems by simp
  then have "et_ID t = i \<Longrightarrow> List.filter (\<lambda>t. \<not> (et_ID t = i \<and> et_UserID t = u)) ts = ts" by (force simp: filter_id_conv image_iff)
  then show ?case using Cons by (cases "et_ID t = i \<and> et_UserID t = u") (auto simp: case_prod_beta Let_def)
qed simp

lemma RemoveTemplate_repo: "templates_ok r \<Longrightarrow> snd (RemoveTemplate i u r)
    = r\<lparr>er_templates := List.filter (\<lambda>t. \<not> (et_ID t = i \<and> et_UserID t = u)) (er_templates r)\<rparr>"
  by (simp add: RemoveTemplate_def template_Delete_def Let_def case_prod_beta remove_template_filter templates_ok_def)

lemma RemoveTemplate_ok:
  assumes "templates_ok r"
  shows "templates_ok (snd (RemoveTemplate i u r)) \<and> er_nextID (snd (RemoveTemplate i u r)) = er_nextID r
    \<and> (\<forall>v. v \<noteq> u \<longrightarrow> template_ForUser v (snd (RemoveTemplate i u r)) = template_ForUser v r)"
proof -
  have "length (List.filter (\<lambda>t. et_UserID t = v \<and> \<not> (et_ID t = i \<and> et_UserID t = u)) (er_templates r))
      \<le> length (template_ForUser v r)" for v
    by (simp add: template_ForUser_def flip: filter_filter)
  then have "length (List.filter (\<lambda>t. et_UserID t = v \<and> \<not> (et_ID t = i \<and> et_UserID t = u)) (er_templates r))
      \<le> maxTemplatesPerUser" for v
    using assms le_trans unfolding templates_ok_def by blast
  then have "length (template_ForUser v (snd (RemoveTemplate i u r))) \<le> maxTemplatesPerUser" for v
    by (simp add: RemoveTemplate_repo [OF assms] template_ForUser_def conj_commute)
  moreover have "template_ForUser v (snd (RemoveTemplate i u r)) = template_ForUser v r" if "v \<noteq> u" for v
    using that by (auto simp: RemoveTemplate_repo [OF assms] template_ForUser_def intro: filter_cong)
  moreover have "er_nextID (snd (RemoveTemplate i u r)) = er_nextID r" by (simp add: RemoveTemplate_repo [OF assms])
  ultimately show ?thesis using assms unfolding templates_ok_def
    by (auto simp: RemoveTemplate_repo [OF assms] sorted_wrt_filter distinct_map_filter)
qed

lemma step_ok:
  assumes "templates_ok r" "er_nextID r < uint_max"
  shows "templates_ok (take_step x r) \<and> er_nextID (take_step x r) \<le> Suc (er_nextID r)
    \<and> (\<forall>u. u \<noteq> step_of x \<longrightarrow> template_ForUser u (take_step x r) = template_ForUser u r)"
proof (cases x)
  case (KeepTemplate t d)
  then show ?thesis using Keep_ok [OF assms, of t d "fst (Keep t d r)" "snd (Keep t d r)"] by simp
next
  case (DropTemplate i u)
  then show ?thesis using RemoveTemplate_ok [OF assms(1), of i u] by simp
qed

lemma kept_after_ok: "Suc (length steps) < uint_max \<Longrightarrow> templates_ok (kept_after steps) \<and> er_nextID (kept_after steps) \<le> Suc (length steps)"
proof (induction steps rule: rev_induct)
  case Nil
  then show ?case by (simp add: kept_after_def NewTemplateRepository_def templates_ok_def template_ForUser_def)
next
  case (snoc x steps)
  then show ?case using step_ok [of "kept_after steps" x] by (simp add: kept_after_def)
qed

lemma feq_refl: "fle h (Fin b) \<Longrightarrow> feq h h"
  by (cases h) simp_all

lemma same_template_refl: "template_ok t \<Longrightarrow> same_template t t"
  by (auto simp: template_ok_def same_template_def samePointee_def HoursPerDay_def
      split: option.splits intro: feq_refl)

lemma find_last: "List.find P xs = None \<Longrightarrow> P x \<Longrightarrow> List.find P (xs @ [x]) = Some x"
  by (induction xs) (auto split: if_splits)

lemma Keep_again:
  assumes "Keep t d r = (Inr x, r')"
  shows "x \<in> set (template_ForUser (et_UserID t) r') \<and> same_template x (normalised_template t) \<and> Keep t d r' = (Inr x, r')"
  using assms
proof (cases rule: Keep_cases)
  case (known y)
  then show ?thesis using assms by simp
next
  case new
  have user: "et_UserID (normalised_template t) = et_UserID t" by (simp add: normalised_template_def)
  have users: "template_ForUser (et_UserID t) r' = template_ForUser (et_UserID t) r @ [x]"
    using new(4,5) by (simp add: template_ForUser_def user)
  have same: "same_template x (normalised_template t)"
    using same_template_refl [OF new(1)] new(4) by (simp add: same_template_def)
  then have "List.find (\<lambda>x. same_template x (normalised_template t)) (template_ForUser (et_UserID t) r') = Some x"
    unfolding users using new(3) by (intro find_last) (auto simp: find_None_iff)
  then show ?thesis using new(6) same by (simp add: Keep_def Let_def user users)
qed simp

text \<open>Templates are kept within their rules, whatever is kept and removed by whom: nobody has more than
  fifty; each fills in something and could be booked as it stands, with hours one entry can hold and a
  trimmed description of its length; no two of one person fill the form the same way; keeping or removing
  one leaves everybody else's as they are; and a template kept is the one answered with, also when it is
  kept again, which changes nothing.\<close>

lemma templates_kept:
  assumes "Suc (length steps) < uint_max" "r = kept_after steps"
  shows "(\<forall>u. length (template_ForUser u r) \<le> maxTemplatesPerUser)
    \<and> (\<forall>t \<in> set (er_templates r). template_ok t)
    \<and> sorted_wrt (\<lambda>a b. et_UserID a = et_UserID b \<longrightarrow> \<not> same_template a b) (er_templates r)
    \<and> (\<forall>x u. u \<noteq> step_of x \<longrightarrow> template_ForUser u (take_step x r) = template_ForUser u r)
    \<and> (\<forall>t d x r'. Keep t d r = (Inr x, r') \<longrightarrow> x \<in> set (template_ForUser (et_UserID t) r')
          \<and> same_template x (normalised_template t) \<and> Keep t d r' = (Inr x, r'))"
proof -
  have "templates_ok r" "er_nextID r < uint_max" using kept_after_ok [OF assms(1)] assms by simp_all
  note ok = this(1) and step = step_ok [OF this]
  show ?thesis using ok [unfolded templates_ok_def] step Keep_again [of _ _ r] by blast
qed

definition sample_template :: entry_template where
  "sample_template = \<lparr>et_ID = 0, et_UserID = 1, et_ProjectID = Some 1, et_DurationHours = None, et_Description = None\<rparr>"

lemma templates_kept_instance:
  "\<exists>x. Keep sample_template sample_db NewTemplateRepository = (Inr x, kept_after [KeepTemplate sample_template sample_db])
    \<and> et_ID x = 1 \<and> Keep sample_template sample_db (kept_after [KeepTemplate sample_template sample_db])
        = (Inr x, kept_after [KeepTemplate sample_template sample_db])"
proof -
  have "normalised_template sample_template = sample_template"
    by (simp add: normalised_template_def sample_template_def)
  moreover have "RequireVisible sample_project 1 = Inr ()" "pr_Status sample_project = ProjectStatusActive"
    by (simp_all add: sample_project_def)
  then have "checked_template sample_template sample_db = Inr ()"
    by (simp add: checked_template_def sample_template_def store_get_def sample_project_at refuse_fields_def field_if_def
        bind_res_def RequireVisible_def VisibleTo_def)
  ultimately have keep: "Keep sample_template sample_db NewTemplateRepository = (Inr (sample_template\<lparr>et_ID := 1\<rparr>),
      \<lparr>er_templates = [sample_template\<lparr>et_ID := 1\<rparr>], er_nextID = 2\<rparr>)"
    by (simp add: Keep_def Let_def NewTemplateRepository_def template_ForUser_def maxTemplatesPerUser_def
        template_Save_def uint_succ_def)
  then have after: "kept_after [KeepTemplate sample_template sample_db] = \<lparr>er_templates = [sample_template\<lparr>et_ID := 1\<rparr>], er_nextID = 2\<rparr>"
    by (simp add: kept_after_def)
  have "Suc (length ([] :: template_step list)) < uint_max" "NewTemplateRepository = kept_after []"
    by (simp_all add: uint_max_def kept_after_def)
  note kept = templates_kept [OF this]
  have "Keep sample_template sample_db (snd (Keep sample_template sample_db NewTemplateRepository))
      = Keep sample_template sample_db NewTemplateRepository"
    unfolding keep snd_conv by (rule conjunct2 [OF conjunct2 [OF kept [THEN conjunct2, THEN conjunct2, THEN conjunct2, THEN conjunct2, rule_format, OF keep]]])
  then show ?thesis unfolding after keep by simp
qed

end
