(* ===== verification/Evaluation.thy ===== *)
theory Evaluation
  imports OwnTime Tags
begin

text \<open>
  What recorded time adds up to: somebody's own figures
  (\<^verbatim>\<open>application/v1/service/statistics_application_service.go\<close>) and the statement of what is
  charged for (\<^verbatim>\<open>statement_application_service.go\<close>), with their routes
  (\<^verbatim>\<open>statistics_handler.go\<close>, \<^verbatim>\<open>statement_handler.go\<close>).

  The totals per project and per activity come out of a map, in the order it gives them: arguments
  stand for that order.  The loop over the days of a range is written as it is, and may not end: \<open>None\<close>
  is a request that never returns.  The workbook of a statement is left out.
\<close>

section \<open>Figures\<close>

record day_total =
  dt_Date :: gotime
  dt_Hours :: float64

record project_total =
  pt_ProjectID :: "uint option"
  pt_Name :: gostring
  pt_Hours :: float64

record tag_total =
  tt_Tag :: "rune list"
  tt_Hours :: float64

record own_statistics =
  os_From :: gotime
  os_To :: gotime
  os_TotalHours :: float64
  os_Days :: "day_total list"
  os_Projects :: "project_total list"
  os_Tags :: "tag_total list"
  os_UntaggedHours :: float64

definition added :: "'k \<Rightarrow> float64 \<Rightarrow> ('k \<times> float64) list \<Rightarrow> ('k \<times> float64) list" where
  "added k h m = AList.update k (fadd (case map_of m k of None \<Rightarrow> Fin 0 | Some x \<Rightarrow> x) h) m"

record figures =
  fg_Total :: float64
  fg_perDay :: "(day \<times> float64) list"
  fg_perProject :: "(uint \<times> float64) list"
  fg_perTag :: "(rune list \<times> float64) list"
  fg_withoutProject :: float64
  fg_untagged :: float64

definition no_figures :: figures where
  "no_figures = \<lparr>fg_Total = Fin 0, fg_perDay = [], fg_perProject = [], fg_perTag = [],
     fg_withoutProject = Fin 0, fg_untagged = Fin 0\<rparr>"

definition tags_of :: "unicode_tables \<Rightarrow> timesheet \<Rightarrow> rune list list" where
  "tags_of u t = (case ts_Description t of None \<Rightarrow> [] | Some d \<Rightarrow> Tags u d)"

text \<open>One entry of the loop.  The days are keyed by their date as text, which tells them apart as the
  days themselves do.\<close>

definition add_entry :: "unicode_tables \<Rightarrow> timesheet \<Rightarrow> figures \<Rightarrow> figures" where
  "add_entry u t s =
     (let h = ts_DurationHours t; tags = tags_of u t;
          s = s\<lparr>fg_Total := fadd (fg_Total s) h, fg_perDay := added (local_day (ts_Date t)) h (fg_perDay s)\<rparr>;
          s = (if HasProject t then s\<lparr>fg_perProject := added (the (ts_ProjectID t)) h (fg_perProject s)\<rparr>
               else s\<lparr>fg_withoutProject := fadd (fg_withoutProject s) h\<rparr>);
          s = (if tags = [] then s\<lparr>fg_untagged := fadd (fg_untagged s) h\<rparr> else s)
      in s\<lparr>fg_perTag := fold (\<lambda>tag. added tag h) tags (fg_perTag s)\<rparr>)"

definition figures_of :: "unicode_tables \<Rightarrow> timesheet list \<Rightarrow> figures" where
  "figures_of u entries = fold (add_entry u) entries no_figures"

text \<open>\<^verbatim>\<open>cmp.Compare\<close> of two numbers: NaN comes before every other and equals itself.\<close>

definition fcompare :: "float64 \<Rightarrow> float64 \<Rightarrow> int" where
  "fcompare x y =
     (if x = NaN then if y = NaN then 0 else - 1
      else if y = NaN then 1 else if fless x y then - 1 else if fless y x then 1 else 0)"

text \<open>Tags compare as the bytes of their text, which for two texts of runes is how the runes compare.\<close>

fun runes_le :: "rune list \<Rightarrow> rune list \<Rightarrow> bool" where
  "runes_le [] ys = True"
| "runes_le (x # xs) [] = False"
| "runes_le (x # xs) (y # ys) = (x < y \<or> (x = y \<and> runes_le xs ys))"

definition tag_before :: "tag_total \<Rightarrow> tag_total \<Rightarrow> bool" where
  "tag_before a b \<longleftrightarrow> fcompare (tt_Hours b) (tt_Hours a) < 0
     \<or> fcompare (tt_Hours b) (tt_Hours a) = 0 \<and> runes_le (tt_Tag a) (tt_Tag b)"

definition tagTotals :: "((rune list \<times> float64) list \<Rightarrow> (rune list \<times> float64) list)
    \<Rightarrow> (rune list \<times> float64) list \<Rightarrow> tag_total list" where
  "tagTotals order perTag =
     sort_by tag_before (map (\<lambda>(tag, hours). \<lparr>tt_Tag = tag, tt_Hours = settled hours\<rparr>) (order perTag))"

text \<open>Every day of a range, from the first midnight to the last, a day further each time.\<close>

partial_function (option) every_day ::
  "gotime \<Rightarrow> gotime \<Rightarrow> (day \<times> float64) list \<Rightarrow> day_total list \<Rightarrow> day_total list option" where
  "every_day day until totals days =
     (if ns until < ns day then Some days
      else every_day (AddDays day 1) until totals
             (days @ [\<lparr>dt_Date = day,
                dt_Hours = (case map_of totals (local_day day) of None \<Rightarrow> Fin 0 | Some h \<Rightarrow> h)\<rparr>]))"

definition everyDayInRange :: "gotime \<Rightarrow> gotime \<Rightarrow> (day \<times> float64) list \<Rightarrow> day_total list option" where
  "everyDayInRange from to totals = every_day (startOfDay from) (startOfDay to) totals []"

text \<open>Most hours first; the sort is not a stable one, so what is level keeps any order.\<close>

definition project_before :: "project_total \<Rightarrow> project_total \<Rightarrow> bool" where
  "project_before a b \<longleftrightarrow> \<not> fless (pt_Hours a) (pt_Hours b)"

definition projectTotals :: "((uint \<times> float64) list \<Rightarrow> (uint \<times> float64) list) \<Rightarrow> db
    \<Rightarrow> (uint \<times> float64) list \<Rightarrow> float64 \<Rightarrow> project_total list" where
  "projectTotals order d perProject withoutProject =
     sort_by project_before (map (\<lambda>(i, hours). \<lparr>pt_ProjectID = Some i,
         pt_Name = (case store_get i (db_projects d) of Inl _ \<Rightarrow> [] | Inr p \<Rightarrow> pr_Name p),
         pt_Hours = hours\<rparr>) (order perProject))
     @ (if fless (Fin 0) withoutProject
        then [\<lparr>pt_ProjectID = None, pt_Name = [], pt_Hours = withoutProject\<rparr>] else [])"

text \<open>The orders two maps are read in.\<close>

record map_orders =
  mo_projects :: "(uint \<times> float64) list \<Rightarrow> (uint \<times> float64) list"
  mo_tags :: "(rune list \<times> float64) list \<Rightarrow> (rune list \<times> float64) list"

definition own_entries :: "env \<Rightarrow> uint \<Rightarrow> gotime \<Rightarrow> gotime \<Rightarrow> project_scope \<Rightarrow> db \<Rightarrow> timesheet list result" where
  "own_entries e userID from to scope d =
     (if userID = 0 then Inl (InvalidFields [''userId''])
      else if ns to < ns from then Inl rangeInverted
      else bind_res (scope_RequireVisible scope userID d) (\<lambda>_.
           ts_GetByFilter (lower e) ((over_days userID from to)
             \<lparr>fi_ProjectID := sc_ProjectID scope,
              fi_WithoutProject := (sc_ProjectID scope = 0 \<and> sc_Unassigned scope)\<rparr>) (db_timesheets d)))"

definition OwnStatistics :: "unicode_tables \<Rightarrow> map_orders \<Rightarrow> env \<Rightarrow> uint \<Rightarrow> gotime \<Rightarrow> gotime
    \<Rightarrow> project_scope \<Rightarrow> db \<Rightarrow> own_statistics result option" where
  "OwnStatistics u order e userID from to scope d =
     (case own_entries e userID from to scope d of
        Inl err \<Rightarrow> Some (Inl err)
      | Inr entries \<Rightarrow>
          let s = figures_of u entries
          in map_option (\<lambda>days. Inr
               \<lparr>os_From = from, os_To = to, os_TotalHours = fg_Total s, os_Days = days,
                os_Projects = projectTotals (mo_projects order) d (fg_perProject s) (fg_withoutProject s),
                os_Tags = tagTotals (mo_tags order) (fg_perTag s), os_UntaggedHours = settled (fg_untagged s)\<rparr>)
             (everyDayInRange from to (fg_perDay s)))"

section \<open>What is charged for\<close>

record statement_line =
  sl_ProjectID :: uint
  sl_Name :: gostring
  sl_Hours :: float64
  sl_Currency :: gostring
  sl_HourlyRate :: "int option"
  sl_Amount :: "int option"

record statement_total =
  so_Currency :: gostring
  so_Hours :: float64
  so_Amount :: int

record work_statement =
  wt_From :: gotime
  wt_To :: gotime
  wt_Lines :: "statement_line list"
  wt_Totals :: "statement_total list"

fun booked_per_project :: "timesheet list \<Rightarrow> (uint \<times> float64) list \<Rightarrow> (uint \<times> float64) list" where
  "booked_per_project [] perProject = perProject"
| "booked_per_project (t # ts) perProject =
     booked_per_project ts (if HasProject t then added (the (ts_ProjectID t)) (ts_DurationHours t) perProject
                            else perProject)"

text \<open>An amount that an int64 does not hold is the most negative one on the platforms the program is built
  for.\<close>

definition statement_line_of :: "uint \<Rightarrow> project \<Rightarrow> float64 \<Rightarrow> statement_line" where
  "statement_line_of i p hours =
     (let (amount, charged) = Charge p hours
      in \<lparr>sl_ProjectID = i, sl_Name = pr_Name p, sl_Hours = settled hours, sl_Currency = pr_Currency p,
          sl_HourlyRate = pr_HourlyRate p,
          sl_Amount = (if charged then Some (case amount of Some x \<Rightarrow> x | None \<Rightarrow> - (2 ^ 63)) else None)\<rparr>)"

fun statement_lines :: "db \<Rightarrow> uint \<Rightarrow> (uint \<times> float64) list \<Rightarrow> statement_line list result" where
  "statement_lines d userID [] = Inr []"
| "statement_lines d userID ((i, hours) # rest) =
     bind_res (store_get i (db_projects d)) (\<lambda>p.
     bind_res (statement_lines d userID rest) (\<lambda>lines.
     Inr (if \<not> VisibleTo p userID \<or> \<not> pr_Billable p then lines else statement_line_of i p hours # lines)))"

definition line_before :: "statement_line \<Rightarrow> statement_line \<Rightarrow> bool" where
  "line_before a b \<longleftrightarrow> (sl_Name a \<noteq> sl_Name b \<and> string_le (sl_Name a) (sl_Name b))
     \<or> (sl_Name a = sl_Name b \<and> sl_ProjectID a \<le> sl_ProjectID b)"

text \<open>An int64 wraps around.\<close>

definition wrap64 :: "int \<Rightarrow> int" where
  "wrap64 x = (x + 2 ^ 63) mod 2 ^ 64 - 2 ^ 63"

fun add_to_currency :: "gostring \<Rightarrow> float64 \<Rightarrow> int \<Rightarrow> statement_total list \<Rightarrow> statement_total list" where
  "add_to_currency c hours amount [] =
     [\<lparr>so_Currency = c, so_Hours = settled (fadd (Fin 0) hours), so_Amount = wrap64 amount\<rparr>]"
| "add_to_currency c hours amount (x # xs) =
     (if so_Currency x = c
      then x\<lparr>so_Hours := settled (fadd (so_Hours x) hours), so_Amount := wrap64 (so_Amount x + amount)\<rparr> # xs
      else x # add_to_currency c hours amount xs)"

fun currency_totals :: "statement_line list \<Rightarrow> statement_total list \<Rightarrow> statement_total list" where
  "currency_totals [] totals = totals"
| "currency_totals (l # ls) totals =
     currency_totals ls (case sl_Amount l of None \<Rightarrow> totals
       | Some amount \<Rightarrow> add_to_currency (sl_Currency l) (sl_Hours l) amount totals)"

definition currency_before :: "statement_total \<Rightarrow> statement_total \<Rightarrow> bool" where
  "currency_before a b \<longleftrightarrow> string_le (so_Currency a) (so_Currency b)"

definition totalsPerCurrency :: "statement_line list \<Rightarrow> statement_total list" where
  "totalsPerCurrency ls = sort_by currency_before (currency_totals ls [])"

definition Statement :: "((uint \<times> float64) list \<Rightarrow> (uint \<times> float64) list) \<Rightarrow> env \<Rightarrow> uint \<Rightarrow> gotime \<Rightarrow> gotime
    \<Rightarrow> db \<Rightarrow> work_statement result" where
  "Statement order e userID from to d =
     (if userID = 0 then Inl (InvalidFields [''userId''])
      else if ns to < ns from then Inl rangeInverted
      else bind_res (ts_GetByFilter (lower e) (over_days userID from to) (db_timesheets d)) (\<lambda>entries.
           bind_res (statement_lines d userID (order (booked_per_project entries []))) (\<lambda>found.
           let ls = sort_by line_before found
           in Inr \<lparr>wt_From = from, wt_To = to, wt_Lines = ls, wt_Totals = totalsPerCurrency ls\<rparr>)))"

section \<open>The routes\<close>

definition handle_Own :: "unicode_tables \<Rightarrow> map_orders \<Rightarrow> authorizer \<Rightarrow> env \<Rightarrow> request \<Rightarrow> site
    \<Rightarrow> own_statistics answer option" where
  "handle_Own u order a e r s =
     (case bind_res (Require a r PermTimesheetReadOwn) (\<lambda>p.
           bind_res (reportAccount a r p s) (\<lambda>account.
           bind_res (answer (overtimeRange e r (TimezoneOf r account))) (\<lambda>(from, to).
           bind_res (answer (reportScope r)) (\<lambda>scope. Inr (us_ID account, from, to, scope))))) of
        Inl refusal \<Rightarrow> Some (Inl refusal)
      | Inr (userID, from, to, scope) \<Rightarrow>
          map_option answer (OwnStatistics u order e userID from to scope (site_db s)))"

record statement_line_response =
  sn_ProjectID :: uint
  sn_Name :: gostring
  sn_Hours :: float64
  sn_Currency :: gostring
  sn_HourlyRate :: "float64 option"
  sn_Amount :: "float64 option"

record statement_total_response =
  sv_Currency :: gostring
  sv_Hours :: float64
  sv_Amount :: float64

record statement_response =
  sz_From :: gotime
  sz_To :: gotime
  sz_Lines :: "statement_line_response list"
  sz_Totals :: "statement_total_response list"

definition statement_read :: "((uint \<times> float64) list \<Rightarrow> (uint \<times> float64) list) \<Rightarrow> authorizer \<Rightarrow> env \<Rightarrow> request
    \<Rightarrow> site \<Rightarrow> work_statement answer" where
  "statement_read order a e r s =
     bind_res (Require a r PermReportReadOwn) (\<lambda>p.
     bind_res (reportAccount a r p s) (\<lambda>account.
     bind_res (answer (overtimeRange e r (TimezoneOf r account))) (\<lambda>(from, to).
     answer (Statement order e (us_ID account) from to (site_db s)))))"

definition handle_Statement :: "((uint \<times> float64) list \<Rightarrow> (uint \<times> float64) list) \<Rightarrow> authorizer \<Rightarrow> env \<Rightarrow> request
    \<Rightarrow> site \<Rightarrow> statement_response answer" where
  "handle_Statement order a e r s =
     bind_res (statement_read order a e r s) (\<lambda>w.
     Inr \<lparr>sz_From = wt_From w, sz_To = wt_To w,
          sz_Lines = map (\<lambda>l. \<lparr>sn_ProjectID = sl_ProjectID l, sn_Name = sl_Name l, sn_Hours = sl_Hours l,
            sn_Currency = sl_Currency l, sn_HourlyRate = UnitsOf (sl_HourlyRate l),
            sn_Amount = UnitsOf (sl_Amount l)\<rparr>) (wt_Lines w),
          sz_Totals = map (\<lambda>x. \<lparr>sv_Currency = so_Currency x, sv_Hours = so_Hours x,
            sv_Amount = fdiv (float_of_int (so_Amount x)) (Fin 100)\<rparr>) (wt_Totals w)\<rparr>)"

end
