(* ===== verification/EvaluationRules.thy ===== *)
theory EvaluationRules
  imports Evaluation RangeRules Sample
begin

text \<open>
  Figures of recorded time: the loop over the days of a range ends wherever every day has a midnight,
  and lists each day once with what was booked on it, each project and activity with what came to it.
  projects that are the person's own, whatever order a map is read in.
\<close>

section \<open>The days of a range\<close>

lemma offset_bounded: "\<exists>m. \<forall>s. offset_at l s \<le> m"
proof -
  have "fst (lookup_from off start ts s) \<in> insert off (snd ` set ts)" for off start ts s
    by (induction off start ts s rule: lookup_from.induct) auto
  then have "offset_at l s \<in> insert (base_offset l) (snd ` set (transitions l))" for s
    by (simp add: offset_at_def lookup_def)
  then have "offset_at l s \<le> Max (insert (base_offset l) (snd ` set (transitions l)))" for s by simp
  then show ?thesis by blast
qed

lemma date_in_unbounded: "\<exists>n. t < ns (date_in (d + int n) l)"
proof -
  obtain m where m: "\<And>s. offset_at l s \<le> m" using offset_bounded by blast
  have below: "(x * 86400 - m) * 10 ^ 9 \<le> ns (date_in x l)" for x
    using m [of "x * 86400"] m [of "x * 86400 - offset_at l (x * 86400)"]
    by (auto simp: date_in_def Let_def offset_at_def split: prod.split)
  have "t < ((d + int (nat (\<bar>t\<bar> + \<bar>d\<bar> + \<bar>m\<bar> + 1))) * 86400 - m) * 10 ^ 9" by (simp add: algebra_simps)
  also note below
  finally show ?thesis by blast
qed

definition day_entry :: "(day \<times> float64) list \<Rightarrow> gotime \<Rightarrow> day_total" where
  "day_entry totals day = \<lparr>dt_Date = day,
     dt_Hours = (case map_of totals (local_day day) of None \<Rightarrow> Fin 0 | Some h \<Rightarrow> h)\<rparr>"

lemma every_day_runs:
  assumes "whole_days l" "\<forall>i < n. ns (date_in (d + int i) l) \<le> ns until" "ns until < ns (date_in (d + int n) l)"
  shows "every_day (date_in d l) until totals days
    = Some (days @ map (\<lambda>i. day_entry totals (date_in (d + int i) l)) [0..<n])"
  using assms(2,3)
proof (induction n arbitrary: d days)
  case 0
  then show ?case by (simp add: every_day.simps)
next
  case (Suc n)
  have "\<forall>i < n. ns (date_in (d + 1 + int i) l) \<le> ns until"
    using Suc.prems(1) by (metis Suc_less_eq add.assoc add.commute of_nat_Suc)
  moreover have "ns until < ns (date_in (d + 1 + int n) l)" using Suc.prems(2) by (simp add: ac_simps)
  moreover have "\<not> ns until < ns (date_in d l)" using Suc.prems(1) by auto
  ultimately show ?case
    by (subst every_day.simps)
      (simp add: AddDays_midnight [OF assms(1)] Suc.IH upt_conv_Cons map_Suc_upt [symmetric] day_entry_def
        ac_simps o_def del: upt_Suc)
qed

lemma everyDayInRange_ends:
  assumes "whole_days (loc from)"
  obtains n where "everyDayInRange from to totals
      = Some (map (\<lambda>i. day_entry totals (date_in (local_day from + int i) (loc from))) [0..<n])"
    "\<forall>i < n. ns (date_in (local_day from + int i) (loc from)) \<le> ns (startOfDay to)"
    "ns (startOfDay to) < ns (date_in (local_day from + int n) (loc from))"
proof -
  define n where "n = (LEAST n. ns (startOfDay to) < ns (date_in (local_day from + int n) (loc from)))"
  have after: "ns (startOfDay to) < ns (date_in (local_day from + int n) (loc from))"
    unfolding n_def by (rule LeastI_ex) (rule date_in_unbounded)
  moreover have "\<forall>i < n. ns (date_in (local_day from + int i) (loc from)) \<le> ns (startOfDay to)"
    unfolding n_def using not_less_Least by fastforce
  ultimately show ?thesis
    using every_day_runs [OF assms, of n "local_day from" "startOfDay to" totals "[]"] that
    by (simp add: everyDayInRange_def startOfDay_def)
qed

text \<open>Samoa left out the 30th of December 2011.  The midnight asked for on that day is the one of the day
  before, so the loop stays where it is, and a range that goes past it is never answered.\<close>

definition Apia :: location where
  "Apia = \<lparr>base_offset = - 36000, transitions = [(1325239200, 50400)]\<rparr>"

lemma Apia_stays: "AddDays (date_in 15337 Apia) 1 = date_in 15337 Apia"
  by (simp add: AddDays_def wall_in_def date_in_def Apia_def lookup_def offset_at_def Let_def local_day_def
      unix_def CalendarDay_def)

lemma standing_loop_never_ends:
  assumes "AddDays day 1 = day" "\<not> ns until < ns day"
  shows "every_day day until totals days = None"
proof (rule ccontr)
  assume "every_day day until totals days \<noteq> None"
  then obtain found where found: "every_day day until totals days = Some found" by blast
  have "\<not> (AddDays day 1 = day \<and> \<not> ns until < ns day)"
    by (rule every_day.raw_induct [OF _ found, where P = "\<lambda>day until totals days found. \<not> (AddDays day 1 = day \<and> \<not> ns until < ns day)"])
      (auto split: if_splits)
  then show False using assms by simp
qed

lemma skipped_day_never_comes_back:
  assumes "own_entries e userID (date_in 15337 Apia) (midnight 15345) scope d = Inr entries"
  shows "OwnStatistics u order e userID (date_in 15337 Apia) (midnight 15345) scope d = None"
proof -
  have start: "startOfDay (date_in 15337 Apia) = date_in 15337 Apia" "ns (date_in 15337 Apia) < ns (midnight 15345)"
    by (simp_all add: startOfDay_def date_in_def Apia_def lookup_def offset_at_def Let_def local_day_def unix_def)
  then have "everyDayInRange (date_in 15337 Apia) (midnight 15345) totals = None" for totals
    using standing_loop_never_ends [OF Apia_stays] by (simp add: everyDayInRange_def)
  then show ?thesis using assms by (simp add: OwnStatistics_def Let_def)
qed

section \<open>What the entries add up to\<close>

definition hours_where :: "(timesheet \<Rightarrow> bool) \<Rightarrow> timesheet list \<Rightarrow> float64" where
  "hours_where P entries = sum_hours (List.filter P entries) (Fin 0)"

lemma sum_hours_snoc: "sum_hours (ts @ [t]) a = fadd (sum_hours ts a) (ts_DurationHours t)"
  by (induction ts arbitrary: a) simp_all

lemma hours_where_Nil [simp]: "hours_where P [] = Fin 0"
  by (simp add: hours_where_def)

lemma hours_where_snoc [simp]:
  "hours_where P (ts @ [t]) = (if P t then fadd (hours_where P ts) (ts_DurationHours t) else hours_where P ts)"
  by (simp add: hours_where_def sum_hours_snoc)

lemma hours_where_none: "\<forall>t \<in> set ts. \<not> P t \<Longrightarrow> hours_where P ts = Fin 0"
  by (simp add: hours_where_def filter_False)

text \<open>A map that holds, for each key, the hours of the entries that count towards it.\<close>

definition adds_up :: "('k \<times> float64) list \<Rightarrow> ('k \<Rightarrow> timesheet \<Rightarrow> bool) \<Rightarrow> timesheet list \<Rightarrow> bool" where
  "adds_up m counts entries \<longleftrightarrow> distinct (map fst m)
     \<and> map_of m = (\<lambda>k. if \<exists>t \<in> set entries. counts k t then Some (hours_where (counts k) entries) else None)"

lemma adds_up_Nil: "adds_up [] counts []"
  by (simp add: adds_up_def fun_eq_iff)

lemma adds_up_skip: "adds_up m counts ts \<Longrightarrow> \<forall>k. \<not> counts k t \<Longrightarrow> adds_up m counts (ts @ [t])"
  by (auto simp: adds_up_def fun_eq_iff)

lemma map_of_added: "map_of (added k h m) = (map_of m)(k \<mapsto> fadd (case map_of m k of None \<Rightarrow> Fin 0 | Some x \<Rightarrow> x) h)"
  by (simp add: added_def map_of_update)

lemma adds_up_each:
  assumes "adds_up m counts ts" "distinct ks" "\<forall>k. counts k t \<longleftrightarrow> k \<in> set ks"
  shows "adds_up (fold (\<lambda>k. added k (ts_DurationHours t)) ks m) counts (ts @ [t])"
proof -
  let ?h = "ts_DurationHours t"
  have d: "distinct (map fst (fold (\<lambda>k. added k ?h) ks m))" if "distinct (map fst m)" for m ks
    using that by (induction ks arbitrary: m) (simp_all add: added_def)
  have "map_of (fold (\<lambda>k. added k ?h) ks m) k = (if k \<in> set ks
      then Some (fadd (case map_of m k of None \<Rightarrow> Fin 0 | Some x \<Rightarrow> x) ?h) else map_of m k)" for k
    using assms(2) by (induction ks arbitrary: m) (auto simp: map_of_added)
  then show ?thesis using assms(1,3) d hours_where_none [of ts]
    by (auto simp: adds_up_def fun_eq_iff)
qed

lemmas adds_up_one = adds_up_each [of _ _ _ "[k]" for k, simplified]

lemma tags_distinct: "\<not> wordRune u 35 \<Longrightarrow> distinct (tags_of u t)"
  using Tags_exact [of u] by (auto simp: tags_of_def split: option.split)

lemma figures_right:
  assumes "\<not> wordRune u 35"
  shows "fg_Total (figures_of u ts) = sum_hours ts (Fin 0)
    \<and> adds_up (fg_perDay (figures_of u ts)) (\<lambda>x t. local_day (ts_Date t) = x) ts
    \<and> adds_up (fg_perProject (figures_of u ts)) (\<lambda>p t. HasProject t \<and> ts_ProjectID t = Some p) ts
    \<and> adds_up (fg_perTag (figures_of u ts)) (\<lambda>tag t. tag \<in> set (tags_of u t)) ts
    \<and> fg_withoutProject (figures_of u ts) = hours_where (\<lambda>t. \<not> HasProject t) ts
    \<and> fg_untagged (figures_of u ts) = hours_where (\<lambda>t. tags_of u t = []) ts"
proof (induction ts rule: rev_induct)
  case Nil
  then show ?case by (simp add: figures_of_def no_figures_def adds_up_Nil)
next
  case (snoc t ts)
  define s where "s = figures_of u ts"
  have step: "figures_of u (ts @ [t]) = add_entry u t s" by (simp add: figures_of_def s_def)
  have projects: "adds_up (if HasProject t then added (the (ts_ProjectID t)) (ts_DurationHours t) (fg_perProject s)
      else fg_perProject s) (\<lambda>p t. HasProject t \<and> ts_ProjectID t = Some p) (ts @ [t])"
    if "adds_up (fg_perProject s) (\<lambda>p t. HasProject t \<and> ts_ProjectID t = Some p) ts"
  proof (cases "HasProject t")
    case True
    then have "\<forall>p. (HasProject t \<and> ts_ProjectID t = Some p) = (p = the (ts_ProjectID t))"
      by (auto simp: HasProject_def split: option.splits)
    then show ?thesis using True by (simp add: adds_up_one [OF that])
  next
    case False
    then show ?thesis by (simp add: adds_up_skip [OF that])
  qed
  note IH = snoc.IH [folded s_def]
  show ?case unfolding step using IH projects
      adds_up_each [OF _ tags_distinct [OF assms], of "fg_perTag s" "\<lambda>tag t. tag \<in> set (tags_of u t)" ts t t]
      adds_up_one [of "fg_perDay s" "\<lambda>x t. local_day (ts_Date t) = x" ts t "local_day (ts_Date t)"]
    by (auto simp: add_entry_def Let_def sum_hours_snoc)
qed

text \<open>Reading a map gives each of its entries once, in some order.\<close>

definition reads_all :: "('a list \<Rightarrow> 'a list) \<Rightarrow> bool" where
  "reads_all order \<longleftrightarrow> (\<forall>m. set (order m) = set m \<and> length (order m) = length m)"

lemma reads_all_id [simp]: "reads_all (\<lambda>m. m)" "reads_all rev"
  by (simp_all add: reads_all_def)

lemma read_map:
  assumes "reads_all order" "adds_up m counts ts"
  shows "distinct (map fst (order m))"
    "set (order m) = {(k, hours_where (counts k) ts) | k. \<exists>t \<in> set ts. counts k t}"
proof -
  have m: "distinct (map fst m)" and all: "set (order m) = set m" "length (order m) = length m"
    using assms by (simp_all add: adds_up_def reads_all_def)
  then have "card (set (order m)) = length (order m)" using distinct_card [of m] by (simp add: distinct_map)
  then show "distinct (map fst (order m))" using m all by (simp add: distinct_map card_distinct)
  have "(k, v) \<in> set (order m) \<longleftrightarrow> map_of m k = Some v" for k v using m all by simp
  then show "set (order m) = {(k, hours_where (counts k) ts) | k. \<exists>t \<in> set ts. counts k t}"
    using assms(2) by (auto simp: adds_up_def split: if_splits)
qed

lemma image_graph: "(\<lambda>(k, h). f k h) ` {(k, hours k) | k. P k} = {f k (hours k) | k. P k}"
proof -
  have "{(k, hours k) | k. P k} = (\<lambda>k. (k, hours k)) ` {k. P k}" by blast
  then show ?thesis by (simp add: image_image image_def) blast
qed

lemma tags_listed:
  assumes "reads_all order" "adds_up m counts ts"
  shows "distinct (map tt_Tag (tagTotals order m))
    \<and> set (tagTotals order m) = {\<lparr>tt_Tag = tag, tt_Hours = settled (hours_where (counts tag) ts)\<rparr> | tag. \<exists>t \<in> set ts. counts tag t}"
proof -
  let ?x = "map (\<lambda>(tag, hours). \<lparr>tt_Tag = tag, tt_Hours = settled hours\<rparr>) (order m)"
  have "map tt_Tag ?x = map fst (order m)" by (simp add: o_def case_prod_beta)
  then have "distinct ?x" "inj_on tt_Tag (set ?x)" using read_map(1) [OF assms] by (metis distinct_map)+
  then have "distinct (map tt_Tag (tagTotals order m))" by (simp add: tagTotals_def distinct_map)
  then show ?thesis using read_map(2) [OF assms] by (simp only: tagTotals_def set_sort_by set_map image_graph)
qed

text \<open>The name a project is shown under: none once it is gone.\<close>

definition shown_name :: "db \<Rightarrow> uint \<Rightarrow> gostring" where
  "shown_name d p = (case store_get p (db_projects d) of Inl _ \<Rightarrow> [] | Inr x \<Rightarrow> pr_Name x)"

lemma projects_listed:
  assumes "reads_all order" "adds_up m counts ts"
  shows "distinct (map pt_ProjectID (projectTotals order d m without))
    \<and> set (projectTotals order d m without)
      = {\<lparr>pt_ProjectID = Some p, pt_Name = shown_name d p, pt_Hours = hours_where (counts p) ts\<rparr> | p. \<exists>t \<in> set ts. counts p t}
        \<union> {x. fless (Fin 0) without \<and> x = \<lparr>pt_ProjectID = None, pt_Name = [], pt_Hours = without\<rparr>}"
proof -
  let ?x = "map (\<lambda>(i, hours). \<lparr>pt_ProjectID = Some i, pt_Name = shown_name d i, pt_Hours = hours\<rparr>) (order m)"
  have x: "projectTotals order d m without = sort_by project_before ?x
      @ (if fless (Fin 0) without then [\<lparr>pt_ProjectID = None, pt_Name = [], pt_Hours = without\<rparr>] else [])"
    by (simp add: projectTotals_def shown_name_def)
  have "map pt_ProjectID ?x = map Some (map fst (order m))" by (simp add: o_def case_prod_beta)
  moreover have "distinct (map Some (map fst (order m)))" using read_map(1) [OF assms] by (simp only: distinct_map) simp
  ultimately have "distinct (map pt_ProjectID ?x)" by (simp only:)
  then have "distinct ?x" "inj_on pt_ProjectID (set ?x)" by (metis distinct_map)+
  then have "distinct (map pt_ProjectID (projectTotals order d m without))"
    unfolding x by (auto simp: distinct_map)
  moreover have "set ?x = {\<lparr>pt_ProjectID = Some p, pt_Name = shown_name d p, pt_Hours = hours_where (counts p) ts\<rparr>
      | p. \<exists>t \<in> set ts. counts p t}"
    using read_map(2) [OF assms] by (simp only: set_map image_graph)
  ultimately show ?thesis unfolding x set_append set_sort_by by (simp split: if_split)
qed

text \<open>C38: somebody's own figures come back and are right: wherever every day has a midnight the loop over the
  days of a range ends, and the answer is a refusal or lists every day from the first on, one after the
  other until the range is over - those without an entry too -, each with what is booked on it; every
  project and every activity of the entries once, with the hours of the entries on it; and the hours of
  all entries and of those without a project or an activity - whatever order the maps are read in.\<close>

theorem statistics_come_back:
  assumes "whole_days (loc from)" "\<not> wordRune u 35" "reads_all (mo_projects order)" "reads_all (mo_tags order)"
  shows "\<exists>res. OwnStatistics u order e userID from to scope d = Some res
    \<and> (case own_entries e userID from to scope d of
         Inl err \<Rightarrow> res = Inl err
       | Inr ts \<Rightarrow> \<exists>st n. res = Inr st \<and> os_TotalHours st = sum_hours ts (Fin 0)
           \<and> map dt_Date (os_Days st) = map (\<lambda>i. date_in (local_day from + int i) (loc from)) [0..<n]
           \<and> (\<forall>i < n. ns (date_in (local_day from + int i) (loc from)) \<le> ns (startOfDay to))
           \<and> ns (startOfDay to) < ns (date_in (local_day from + int n) (loc from))
           \<and> (\<forall>x \<in> set (os_Days st). dt_Hours x = hours_where (\<lambda>t. local_day (ts_Date t) = local_day (dt_Date x)) ts)
           \<and> distinct (map pt_ProjectID (os_Projects st))
           \<and> set (os_Projects st) = {\<lparr>pt_ProjectID = Some p, pt_Name = shown_name d p,
                 pt_Hours = hours_where (\<lambda>t. HasProject t \<and> ts_ProjectID t = Some p) ts\<rparr> | p. \<exists>t \<in> set ts. HasProject t \<and> ts_ProjectID t = Some p}
               \<union> {x. fless (Fin 0) (hours_where (\<lambda>t. \<not> HasProject t) ts)
                   \<and> x = \<lparr>pt_ProjectID = None, pt_Name = [], pt_Hours = hours_where (\<lambda>t. \<not> HasProject t) ts\<rparr>}
           \<and> distinct (map tt_Tag (os_Tags st))
           \<and> set (os_Tags st) = {\<lparr>tt_Tag = tag, tt_Hours = settled (hours_where (\<lambda>t. tag \<in> set (tags_of u t)) ts)\<rparr>
                 | tag. \<exists>t \<in> set ts. tag \<in> set (tags_of u t)}
           \<and> os_UntaggedHours st = settled (hours_where (\<lambda>t. tags_of u t = []) ts))"
proof (cases "own_entries e userID from to scope d")
  case (Inl err)
  then show ?thesis by (simp add: OwnStatistics_def)
next
  case (Inr ts)
  define s where "s = figures_of u ts"
  note right = figures_right [OF assms(2), of ts, folded s_def]
  obtain n where n: "everyDayInRange from to (fg_perDay s)
      = Some (map (\<lambda>i. day_entry (fg_perDay s) (date_in (local_day from + int i) (loc from))) [0..<n])"
    "\<forall>i < n. ns (date_in (local_day from + int i) (loc from)) \<le> ns (startOfDay to)"
    "ns (startOfDay to) < ns (date_in (local_day from + int n) (loc from))"
    using everyDayInRange_ends [OF assms(1)] .
  have day: "dt_Hours (day_entry (fg_perDay s) x) = hours_where (\<lambda>t. local_day (ts_Date t) = local_day x) ts" for x
    using right hours_where_none [of ts "\<lambda>t. local_day (ts_Date t) = local_day x"] by (simp add: day_entry_def adds_up_def)
  have date: "dt_Date (day_entry (fg_perDay s) x) = x" for x by (simp add: day_entry_def)
  have res: "OwnStatistics u order e userID from to scope d = Some (Inr
      \<lparr>os_From = from, os_To = to, os_TotalHours = fg_Total s,
       os_Days = map (\<lambda>i. day_entry (fg_perDay s) (date_in (local_day from + int i) (loc from))) [0..<n],
       os_Projects = projectTotals (mo_projects order) d (fg_perProject s) (fg_withoutProject s),
       os_Tags = tagTotals (mo_tags order) (fg_perTag s), os_UntaggedHours = settled (fg_untagged s)\<rparr>)"
    by (simp add: OwnStatistics_def Inr s_def [symmetric] n(1) Let_def)
  note projects = projects_listed [OF assms(3), of "fg_perProject s" _ ts d "fg_withoutProject s"]
  note tags = tags_listed [OF assms(4), of "fg_perTag s" _ ts]
  show ?thesis unfolding res Inr using right n(2,3) projects tags
    by (auto simp: day date intro!: exI [of _ n])
qed

text \<open>Ada has booked two hours on her project, which she charges for.\<close>

definition charged_entry :: timesheet where
  "charged_entry = \<lparr>ts_ID = 1, ts_UserID = 1, ts_ProjectID = Some 1, ts_Date = midnight 20000, ts_DurationHours = Fin 2,
     ts_Description = None, ts_CreatedAt = zero_time, ts_UpdatedAt = zero_time, ts_RecordedBy = None, ts_UpdatedBy = None\<rparr>"

definition charged_project :: project where
  "charged_project = sample_project\<lparr>pr_Billable := True, pr_HourlyRate := Some 8000\<rparr>"

definition charged_db :: db where
  "charged_db = sample_db
     \<lparr>db_projects := \<lparr>st_items = [(1, charged_project)], st_nextID = 2, st_entity = ''project''\<rparr>,
      db_timesheets := \<lparr>tr_store = \<lparr>st_items = [(1, charged_entry)], st_nextID = 2, st_entity = ''timesheet''\<rparr>,
        tr_revisions = [], tr_nextRevision = 0\<rparr>\<rparr>"

lemma charged_project_at: "project_at charged_db i = (if i = 1 then Some charged_project else None)"
  by (simp add: charged_db_def store_find_def)

lemma charged_listed:
  assumes "a \<le> 20000" "20000 \<le> b"
  shows "ts_GetByFilter low (over_days 1 (midnight a) (midnight b)) (db_timesheets charged_db) = Inr [charged_entry]"
proof -
  have all: "store_all (tr_store (db_timesheets charged_db)) = [charged_entry]"
    by (simp add: store_all_def charged_db_def store_find_def List.map_filter_def upt_rec)
  have "matchesFilter low charged_entry (OverWholeDays (over_days 1 (midnight a) (midnight b)))"
    using assms by (simp add: matchesFilter_def OverWholeDays_def over_days_def all_of_def charged_entry_def)
  then show ?thesis by (simp add: ts_GetByFilter_def matching_def all page_def Let_def) (simp add: over_days_def all_of_def)
qed

lemma one_project: "distinct (map pt_ProjectID xs) \<Longrightarrow> pt_ProjectID ` set xs = {p} \<Longrightarrow> map pt_ProjectID xs = [p]"
  by (cases xs; cases "tl xs") auto

lemma image_of_set: "set xs = A \<Longrightarrow> f ` A = B \<Longrightarrow> f ` set xs = B"
  by simp

theorem statistics_come_back_witness:
  "\<exists>st. OwnStatistics ascii_tables \<lparr>mo_projects = rev, mo_tags = rev\<rparr> sample_env 1 (midnight 20000) (midnight 20002)
      \<lparr>sc_ProjectID = 0, sc_Unassigned = False\<rparr> charged_db = Some (Inr st)
    \<and> length (os_Days st) = 3 \<and> map pt_ProjectID (os_Projects st) = [Some 1]"
proof -
  let ?scope = "\<lparr>sc_ProjectID = 0, sc_Unassigned = False\<rparr>" and ?order = "\<lparr>mo_projects = rev, mo_tags = rev\<rparr>"
  have "(over_days 1 (midnight 20000) (midnight 20002))\<lparr>fi_ProjectID := 0, fi_WithoutProject := False\<rparr>
      = over_days 1 (midnight 20000) (midnight 20002)" by (simp add: over_days_def all_of_def)
  then have entries: "own_entries sample_env 1 (midnight 20000) (midnight 20002) ?scope charged_db = Inr [charged_entry]"
    using charged_listed [of 20000 20002] by (simp add: own_entries_def scope_RequireVisible_def)
  have "whole_days (loc (midnight 20000))" "\<not> wordRune ascii_tables 35" "reads_all (mo_projects ?order)" "reads_all (mo_tags ?order)"
    by (simp_all add: whole_days_UTC wordRune_def ascii_tables_def)
  note right = statistics_come_back [OF this, of sample_env 1 "midnight 20002" ?scope charged_db, unfolded entries sum.case]
  have day: "date_in d UTC = midnight d" for d by (simp add: date_in_def midnight_def)
  have counted: "n = 3" if "\<forall>i < n. ns (date_in (local_day (midnight 20000) + int i) (loc (midnight 20000))) \<le> ns (startOfDay (midnight 20002))"
      "ns (startOfDay (midnight 20002)) < ns (date_in (local_day (midnight 20000) + int n) (loc (midnight 20000)))" for n
  proof -
    have "n \<noteq> 0 \<Longrightarrow> int (n - 1) \<le> 2" using that(1) by (auto simp: day dest: spec [of _ "n - 1"])
    moreover have "2 < int n" using that(2) by (simp add: day)
    ultimately show ?thesis by simp
  qed
  have "HasProject charged_entry" "ts_ProjectID charged_entry = Some 1" by (simp_all add: HasProject_def charged_entry_def)
  note on = this
  have projects: "pt_ProjectID ` ({\<lparr>pt_ProjectID = Some p, pt_Name = shown_name charged_db p,
      pt_Hours = hours_where (\<lambda>t. HasProject t \<and> ts_ProjectID t = Some p) [charged_entry]\<rparr> | p.
        \<exists>t \<in> set [charged_entry]. HasProject t \<and> ts_ProjectID t = Some p}
      \<union> {x. fless (Fin 0) (hours_where (\<lambda>t. \<not> HasProject t) [charged_entry])
          \<and> x = \<lparr>pt_ProjectID = None, pt_Name = [], pt_Hours = hours_where (\<lambda>t. \<not> HasProject t) [charged_entry]\<rparr>}) = {Some 1}"
  proof -
    have "{p. \<exists>t \<in> set [charged_entry]. HasProject t \<and> ts_ProjectID t = Some p} = {1}" using on by simp
    then show ?thesis using on by (simp add: hours_where_none image_Un setcompr_eq_image image_image)
  qed
  from right obtain res st n where st: "OwnStatistics ascii_tables ?order sample_env 1 (midnight 20000) (midnight 20002)
      ?scope charged_db = Some res" "res = Inr st" and dates: "map dt_Date (os_Days st)
        = map (\<lambda>i. date_in (local_day (midnight 20000) + int i) (loc (midnight 20000))) [0..<n]" and "n = 3"
    and listed: "distinct (map pt_ProjectID (os_Projects st))" "pt_ProjectID ` set (os_Projects st) = {Some 1}"
    by - (elim exE conjE, rule that, assumption, assumption, assumption, erule (1) counted, assumption,
      rule image_of_set [OF _ projects], assumption)
  have "length (os_Days st) = 3" using arg_cong [OF dates, of length] \<open>n = 3\<close> by simp
  then show ?thesis using st one_project [OF listed] by simp
qed

end
