(* ===== verification/StatementRules.thy ===== *)
theory StatementRules
  imports EvaluationRules
begin

text \<open>
  A statement of work charges for exactly the billable projects that are the person's own, each once, at its
  rate, and totals each currency by itself - whatever order the map of the hours is read in.
\<close>

section \<open>Lists that an order determines\<close>

lemma sorted_unique:
  assumes "sorted_wrt le xs" "sorted_wrt le ys" "distinct xs" "distinct ys" "set xs = set ys"
    and "\<And>x y. x \<in> set xs \<Longrightarrow> y \<in> set xs \<Longrightarrow> le x y \<Longrightarrow> le y x \<Longrightarrow> x = y"
  shows "xs = ys"
  using assms
proof (induction xs arbitrary: ys)
  case (Cons x xs)
  then obtain y ys' where ys: "ys = y # ys'" by (cases ys) auto
  have "x = y"
  proof (rule ccontr)
    assume "x \<noteq> y"
    then have "x \<in> set ys'" "y \<in> set xs" using Cons.prems(5) unfolding ys by auto
    then show False using Cons.prems(1,2) Cons.prems(6) [of x y] \<open>x \<noteq> y\<close> unfolding ys by simp
  qed
  moreover have "xs = ys'"
  proof (rule Cons.IH)
    show "set xs = set ys'" using Cons.prems(3-5) unfolding ys \<open>x = y\<close> by (auto simp: set_eq_iff)
    show "a = b" if "a \<in> set xs" "b \<in> set xs" "le a b" "le b a" for a b
      using Cons.prems(6) [of a b] that by simp
  qed (use Cons.prems(1-4) in \<open>simp_all add: ys\<close>)
  ultimately show ?case using ys by simp
qed simp

lemma byte_inject [simp]: "byte c = byte d \<longleftrightarrow> c = d"
  by (simp add: byte_def)

lemma string_le_antisym: "string_le xs ys \<Longrightarrow> string_le ys xs \<Longrightarrow> xs = ys"
proof (induction xs ys rule: string_le.induct)
  case (1 ys)
  then show ?case by (cases ys) simp_all
qed auto

interpretation line_order: comparison line_before
proof
  show "line_before x y \<or> line_before y x" for x y
  proof (cases "sl_Name x = sl_Name y")
    case False
    then show ?thesis using string_le_total [of "sl_Name x" "sl_Name y"] by (auto simp: line_before_def)
  qed (auto simp: line_before_def)
next
  fix x y z assume xy: "line_before x y" and yz: "line_before y z"
  show "line_before x z"
  proof (cases "sl_Name x = sl_Name y \<or> sl_Name y = sl_Name z")
    case True
    then show ?thesis using xy yz by (auto simp: line_before_def)
  next
    case False
    then have "string_le (sl_Name x) (sl_Name y)" "string_le (sl_Name y) (sl_Name z)"
      using xy yz by (simp_all add: line_before_def)
    moreover from this have "sl_Name x \<noteq> sl_Name z" using False string_le_antisym by metis
    ultimately show ?thesis using string_le_trans by (auto simp: line_before_def)
  qed
qed

interpretation currency_order: comparison currency_before
  by unfold_locales (use string_le_total string_le_trans in \<open>unfold currency_before_def, blast+\<close>)

section \<open>Totals\<close>

lemma wrap64_add: "wrap64 (wrap64 x + y) = wrap64 (x + y)"
proof -
  have "((x + 2 ^ 63) mod 2 ^ 64 + y) mod 2 ^ 64 = (x + 2 ^ 63 + y) mod 2 ^ 64" by (rule mod_add_left_eq)
  then show ?thesis by (simp add: wrap64_def algebra_simps)
qed

definition amounts :: "statement_total list \<Rightarrow> gostring \<Rightarrow> int option" where
  "amounts totals = map_of (map (\<lambda>x. (so_Currency x, so_Amount x)) totals)"

lemma amounts_add: "amounts (add_to_currency c hours amount totals)
    = (amounts totals)(c \<mapsto> wrap64 ((case amounts totals c of None \<Rightarrow> 0 | Some x \<Rightarrow> x) + amount))"
  by (induction totals) (auto simp: amounts_def fun_eq_iff)

lemma currencies_add: "so_Currency ` set (add_to_currency c hours amount totals) = insert c (so_Currency ` set totals)"
  by (induction totals) auto

lemma distinct_add: "distinct (map so_Currency totals) \<Longrightarrow> distinct (map so_Currency (add_to_currency c hours amount totals))"
proof (induction totals)
  case (Cons x totals)
  then show ?case by (cases "so_Currency x = c") (simp_all add: currencies_add)
qed simp

text \<open>What the priced lines of a currency come to.\<close>

definition priced :: "gostring \<Rightarrow> statement_line list \<Rightarrow> int list" where
  "priced c ls = List.map_filter (\<lambda>l. if sl_Currency l = c then sl_Amount l else None) ls"

lemma priced_simps [simp]:
  "priced c [] = []"
  "priced c (l # ls) = (if sl_Currency l = c \<and> sl_Amount l \<noteq> None then the (sl_Amount l) # priced c ls else priced c ls)"
  by (auto simp: priced_def List.map_filter_def)

lemma amounts_totals: "amounts (currency_totals ls totals) c
    = (if priced c ls = [] then amounts totals c
       else Some (wrap64 ((case amounts totals c of None \<Rightarrow> 0 | Some x \<Rightarrow> x) + sum_list (priced c ls))))"
  by (induction ls arbitrary: totals) (auto simp: amounts_add wrap64_add algebra_simps split: option.split)

lemma distinct_totals: "distinct (map so_Currency totals) \<Longrightarrow> distinct (map so_Currency (currency_totals ls totals))"
  by (induction ls arbitrary: totals) (auto simp: distinct_add split: option.split)

lemma totals_per_currency:
  "distinct (map so_Currency (totalsPerCurrency ls)) \<and> sorted_wrt currency_before (totalsPerCurrency ls)
   \<and> {(so_Currency x, so_Amount x) | x. x \<in> set (totalsPerCurrency ls)}
     = {(c, wrap64 (sum_list (priced c ls))) | c. priced c ls \<noteq> []}"
proof -
  let ?t = "currency_totals ls []"
  have d: "distinct (map so_Currency ?t)" by (rule distinct_totals) simp
  then have "distinct (map so_Currency (totalsPerCurrency ls))" by (simp add: totalsPerCurrency_def distinct_map)
  moreover have "(c, a) \<in> (\<lambda>x. (so_Currency x, so_Amount x)) ` set ?t \<longleftrightarrow> amounts ?t c = Some a" for c a
    using map_of_eq_Some_iff [of "map (\<lambda>x. (so_Currency x, so_Amount x)) ?t" c a] d by (simp add: amounts_def o_def)
  then have "(\<lambda>x. (so_Currency x, so_Amount x)) ` set ?t = {(c, wrap64 (sum_list (priced c ls))) | c. priced c ls \<noteq> []}"
    unfolding amounts_totals by (simp add: amounts_def set_eq_iff) blast
  moreover have "{(so_Currency x, so_Amount x) | x. x \<in> set (totalsPerCurrency ls)} = (\<lambda>x. (so_Currency x, so_Amount x)) ` set ?t"
    by (auto simp: totalsPerCurrency_def)
  ultimately show ?thesis by (simp add: totalsPerCurrency_def currency_order.sorted_sort)
qed

section \<open>Lines\<close>

lemma booked_per_project_snoc: "booked_per_project (ts @ [t]) m
    = (if HasProject t then added (the (ts_ProjectID t)) (ts_DurationHours t) (booked_per_project ts m) else booked_per_project ts m)"
  by (induction ts arbitrary: m) simp_all

definition on_project :: "uint \<Rightarrow> timesheet \<Rightarrow> bool" where
  "on_project p t \<longleftrightarrow> HasProject t \<and> ts_ProjectID t = Some p"

lemma booked_per_project_right: "adds_up (booked_per_project ts []) on_project ts"
proof (induction ts rule: rev_induct)
  case (snoc t ts)
  show ?case
  proof (cases "HasProject t")
    case True
    then have "\<forall>p. on_project p t \<longleftrightarrow> p = the (ts_ProjectID t)"
      by (auto simp: on_project_def HasProject_def split: option.splits)
    then show ?thesis using True by (simp add: booked_per_project_snoc adds_up_one [OF snoc.IH])
  next
    case False
    then have "\<forall>p. \<not> on_project p t" by (simp add: on_project_def)
    with False show ?thesis by (simp add: booked_per_project_snoc adds_up_skip [OF snoc.IH])
  qed
qed (simp add: adds_up_Nil)

lemma line_of_fields [simp]: "sl_ProjectID (statement_line_of i p h) = i" "sl_Name (statement_line_of i p h) = pr_Name p"
  by (simp_all add: statement_line_of_def Let_def case_prod_beta)

lemma statement_lines_found:
  "(\<exists>ls. statement_lines d userID m = Inr ls) \<longleftrightarrow> (\<forall>i \<in> fst ` set m. \<exists>p. store_get i (db_projects d) = Inr p)"
proof (induction m)
  case (Cons x m)
  obtain i h where "x = (i, h)" by force
  moreover have "(\<exists>ls. statement_lines d userID ((i, h) # m) = Inr ls)
      \<longleftrightarrow> (\<exists>p. store_get i (db_projects d) = Inr p) \<and> (\<exists>ls. statement_lines d userID m = Inr ls)"
    by (cases "store_get i (db_projects d)"; cases "statement_lines d userID m") (auto simp: bind_res_Inr)
  ultimately show ?case using Cons by simp
qed simp

lemma statement_lines_set:
  assumes "statement_lines d userID m = Inr ls"
  shows "set ls = {statement_line_of i p h | i p h. (i, h) \<in> set m \<and> store_get i (db_projects d) = Inr p
      \<and> VisibleTo p userID \<and> pr_Billable p}"
  using assms
proof (induction m arbitrary: ls)
  case (Cons x m)
  obtain i h where x: "x = (i, h)" by force
  from Cons.prems obtain p rest where p: "store_get i (db_projects d) = Inr p" "statement_lines d userID m = Inr rest"
    "ls = (if \<not> VisibleTo p userID \<or> \<not> pr_Billable p then rest else statement_line_of i p h # rest)"
    by (auto simp: x bind_res_Inr)
  show ?case
  proof (cases "VisibleTo p userID \<and> pr_Billable p")
    case True
    then show ?thesis using p(1,3) by (auto simp: x Cons.IH [OF p(2)])
  next
    case False
    then show ?thesis using p(1,3) by (auto simp: x Cons.IH [OF p(2)])
  qed
qed simp

lemma statement_lines_ids:
  "statement_lines d userID m = Inr ls \<Longrightarrow> distinct (map fst m) \<Longrightarrow> distinct (map sl_ProjectID ls)"
proof (induction m arbitrary: ls)
  case (Cons x m)
  obtain i h where x: "x = (i, h)" by force
  from Cons.prems obtain p rest where p: "store_get i (db_projects d) = Inr p" "statement_lines d userID m = Inr rest"
    "ls = (if \<not> VisibleTo p userID \<or> \<not> pr_Billable p then rest else statement_line_of i p h # rest)"
    by (auto simp: x bind_res_Inr)
  have "i \<notin> sl_ProjectID ` set rest"
    using statement_lines_set [OF p(2)] Cons.prems(2) by (force simp: x)
  then show ?case using Cons.IH [OF p(2)] Cons.prems(2) p(3) by simp
qed simp

text \<open>The entries a statement is about.\<close>

definition statement_entries :: "env \<Rightarrow> uint \<Rightarrow> gotime \<Rightarrow> gotime \<Rightarrow> db \<Rightarrow> timesheet list" where
  "statement_entries e userID from to d = projr (ts_GetByFilter (lower e) (over_days userID from to) (db_timesheets d))"

lemma all_days_listed: "\<exists>ts. ts_GetByFilter low (over_days userID from to) r = Inr ts"
  by (simp add: ts_GetByFilter_def page_def over_days_def all_of_def)

lemma Statement_Inr:
  assumes "Statement order e userID from to d = Inr w"
  obtains found where
    "statement_lines d userID (order (booked_per_project (statement_entries e userID from to d) [])) = Inr found"
    "w = \<lparr>wt_From = from, wt_To = to, wt_Lines = sort_by line_before found,
      wt_Totals = totalsPerCurrency (sort_by line_before found)\<rparr>"
    "userID \<noteq> 0" "ns from \<le> ns to"
  using assms all_days_listed [of "lower e" userID "from" to "db_timesheets d"]
  by (auto simp: Statement_def statement_entries_def bind_res_Inr Let_def split: if_splits)

lemma lines_right:
  assumes "reads_all order" "adds_up m on_project ts" "statement_lines d userID (order m) = Inr found"
  shows "distinct (map sl_ProjectID found)
    \<and> set found = {statement_line_of i p (hours_where (on_project i) ts) | i p. (\<exists>t \<in> set ts. on_project i t)
        \<and> store_get i (db_projects d) = Inr p \<and> VisibleTo p userID \<and> pr_Billable p}"
proof -
  note read = read_map [OF assms(1,2)]
  have "set found = {statement_line_of i p h | i p h. (i, h) \<in> set (order m) \<and> store_get i (db_projects d) = Inr p
      \<and> VisibleTo p userID \<and> pr_Billable p}" by (rule statement_lines_set [OF assms(3)])
  then show ?thesis using statement_lines_ids [OF assms(3) read(1)] unfolding read(2) by auto
qed

lemma sorted_lines_unique:
  assumes "distinct (map sl_ProjectID xs)" "distinct (map sl_ProjectID ys)" "set xs = set ys"
  shows "sort_by line_before xs = sort_by line_before ys"
proof (rule sorted_unique [of line_before])
  show "x = y" if "x \<in> set (sort_by line_before xs)" "y \<in> set (sort_by line_before xs)" "line_before x y" "line_before y x" for x y
  proof -
    have "sl_ProjectID x = sl_ProjectID y" using that(3,4) string_le_antisym by (auto simp: line_before_def)
    then show ?thesis using that(1,2) assms(1) by (auto simp: distinct_map dest: inj_onD)
  qed
qed (use assms in \<open>simp_all add: line_order.sorted_sort distinct_map\<close>)



end
