(* ===== verification/Ical.thy ===== *)
theory Ical
  imports Leave
begin

text \<open>
  The calendar format a feed is written in, \<^verbatim>\<open>support/ical/ical.go\<close>: escaping a text, folding a line
  and writing a calendar.

  Folding looks for the start of a character from the width of a line backwards.  A line that is no text
  could send it past the front, which ends the program, or leave it standing; both are \<open>None\<close>.
\<close>

definition CR :: char where "CR = char_of (13 :: nat)"
definition LF :: char where "LF = char_of (10 :: nat)"
definition SP :: char where "SP = char_of (32 :: nat)"
definition backslash :: char where "backslash = char_of (92 :: nat)"
definition CRLF :: gostring where "CRLF = [CR, LF]"

lemmas format_chars = CR_def LF_def SP_def backslash_def

section \<open>Text\<close>

text \<open>\<^verbatim>\<open>Builder.WriteRune\<close>.\<close>

definition encode_rune :: "rune \<Rightarrow> gostring" where
  "encode_rune r =
     (if r < 128 then [char_of r]
      else if r < 2048 then [char_of (192 + r div 64), char_of (128 + r mod 64)]
      else if r < 65536 then [char_of (224 + r div 4096), char_of (128 + r div 64 mod 64), char_of (128 + r mod 64)]
      else [char_of (240 + r div 262144), char_of (128 + r div 4096 mod 64), char_of (128 + r div 64 mod 64),
            char_of (128 + r mod 64)])"

text \<open>\<^verbatim>\<open>strings.ReplaceAll\<close> of a carriage return with a line feed by the line feed.\<close>

fun line_feeds :: "gostring \<Rightarrow> gostring" where
  "line_feeds (a # b # s) = (if a = CR \<and> b = LF then LF # line_feeds s else a # line_feeds (b # s))"
| "line_feeds s = s"

definition text_rune :: "rune \<Rightarrow> gostring" where
  "text_rune r =
     (if r = 92 then [backslash, backslash]
      else if r = 59 then [backslash, CHR '';'']
      else if r = 44 then [backslash, CHR '','']
      else if r = 10 then [backslash, CHR ''n'']
      else if r = 9 then encode_rune r
      else if r < 32 \<or> r = 127 then []
      else encode_rune r)"

definition ical_text :: "gostring \<Rightarrow> gostring" where
  "ical_text s = concat (map text_rune (runes (line_feeds s)))"

section \<open>Folding\<close>

definition maxLineOctets :: nat where "maxLineOctets = 75"

definition RuneStart :: "char \<Rightarrow> bool" where
  "RuneStart c \<longleftrightarrow> \<not> continues (byte c)"

text \<open>From a position back to the start of a character; \<open>None\<close> is running past the front.\<close>

fun rune_cut :: "gostring \<Rightarrow> nat \<Rightarrow> nat option" where
  "rune_cut line 0 = (if RuneStart (line ! 0) then Some 0 else None)"
| "rune_cut line (Suc k) = (if RuneStart (line ! Suc k) then Some (Suc k) else rune_cut line k)"

partial_function (option) fold_rest :: "nat \<Rightarrow> gostring \<Rightarrow> gostring \<Rightarrow> gostring option" where
  "fold_rest width line out =
     (if length line \<le> width then Some (out @ line)
      else case rune_cut line width of
             None \<Rightarrow> None
           | Some k \<Rightarrow> fold_rest (maxLineOctets - 1) (drop k line) (out @ take k line @ CRLF @ [SP]))"

definition fold_line :: "gostring \<Rightarrow> gostring option" where
  "fold_line line = (if length line \<le> maxLineOctets then Some line else fold_rest maxLineOctets line [])"

section \<open>A calendar\<close>

record ical_event =
  ie_UID :: gostring
  ie_Day :: day
  ie_Summary :: gostring
  ie_Description :: gostring

record ical_calendar =
  ic_Name :: gostring
  ic_Stamp :: gotime
  ic_Events :: "ical_event list"

definition productID :: gostring where "productID = ''-//Go-Time-Recording//Calendar feed//EN''"
definition ical_refresh :: gostring where "ical_refresh = ''PT1H''"

text \<open>\<^verbatim>\<open>Format("20060102")\<close>, and with the time of day in UTC.\<close>

definition compact_day :: "day \<Rightarrow> gostring" where
  "compact_day d = padded 4 (year_of d) @ padded 2 (month_of d) @ padded 2 (month_day d)"

definition compact_moment :: "gotime \<Rightarrow> gostring" where
  "compact_moment t =
     (let d = local_day (in_zone t UTC); s = unix t mod 86400
      in compact_day d @ ''T'' @ padded 2 (s div 3600) @ padded 2 (s div 60 mod 60) @ padded 2 (s mod 60) @ ''Z'')"

definition event_lines :: "gostring \<Rightarrow> ical_event \<Rightarrow> gostring list" where
  "event_lines written x =
     [''BEGIN:VEVENT'', ''UID:'' @ ical_text (ie_UID x), ''DTSTAMP:'' @ written,
      ''DTSTART;VALUE=DATE:'' @ compact_day (ie_Day x), ''DTEND;VALUE=DATE:'' @ compact_day (ie_Day x + 1),
      ''SUMMARY:'' @ ical_text (ie_Summary x)]
     @ (if ie_Description x \<noteq> [] then [''DESCRIPTION:'' @ ical_text (ie_Description x)] else [])
     @ [''TRANSP:TRANSPARENT'', ''END:VEVENT'']"

definition calendar_lines :: "ical_calendar \<Rightarrow> gostring list" where
  "calendar_lines c =
     [''BEGIN:VCALENDAR'', ''VERSION:2.0'', ''PRODID:'' @ productID, ''CALSCALE:GREGORIAN'', ''METHOD:PUBLISH'']
     @ (if ic_Name c \<noteq> [] then [''NAME:'' @ ical_text (ic_Name c), ''X-WR-CALNAME:'' @ ical_text (ic_Name c)] else [])
     @ [''REFRESH-INTERVAL;VALUE=DURATION:'' @ ical_refresh, ''X-PUBLISHED-TTL:'' @ ical_refresh]
     @ concat (map (event_lines (compact_moment (ic_Stamp c))) (ic_Events c))
     @ [''END:VCALENDAR'']"

fun write_lines :: "gostring list \<Rightarrow> gostring option" where
  "write_lines [] = Some []"
| "write_lines (l # ls) =
     Option.bind (fold_line l) (\<lambda>folded. map_option (\<lambda>rest. folded @ CRLF @ rest) (write_lines ls))"

definition ical_Write :: "ical_calendar \<Rightarrow> gostring option" where
  "ical_Write c = write_lines (calendar_lines c)"

end
