(* ===== verification/I18n.thy ===== *)
theory I18n
  imports Leave
begin

text \<open>
  Saying things in a language, \<^verbatim>\<open>support/i18n/i18n.go\<close>: filling values into a sentence and writing a figure.
  The dictionaries are files beside the code, an argument here: for each language its words.  Days and
  moments in a language's own layout are left out.
\<close>

record translator =
  tl_language :: gostring
  tl_words :: "(gostring \<times> gostring) list"

text \<open>The dictionaries the program is built with; none for English or a language there is none of.\<close>

type_synonym dictionaries = "gostring \<Rightarrow> (gostring \<times> gostring) list"

definition English :: gostring where "English = ''en''"

text \<open>\<^verbatim>\<open>strings.Trim(language, "a..z-") != ""\<close>: anything but small letters and hyphens.\<close>

definition names_dictionary :: "gostring \<Rightarrow> bool" where
  "names_dictionary language \<longleftrightarrow> language \<noteq> English \<and> language \<noteq> []
     \<and> list_all (\<lambda>c. 97 \<le> byte c \<and> byte c \<le> 122 \<or> c = CHR ''-'') language"

definition Dictionary :: "dictionaries \<Rightarrow> gostring \<Rightarrow> (gostring \<times> gostring) list" where
  "Dictionary files language = (if names_dictionary language then files language else [])"

definition i18n_For :: "dictionaries \<Rightarrow> gostring \<Rightarrow> translator" where
  "i18n_For files language = \<lparr>tl_language = language, tl_words = Dictionary files language\<rparr>"

definition i18n_Name :: "dictionaries \<Rightarrow> gostring \<Rightarrow> gostring" where
  "i18n_Name files language =
     (if language = English then ''English''
      else case map_of (Dictionary files language) ''language.name'' of
             None \<Rightarrow> language | Some name \<Rightarrow> if name \<noteq> [] then name else language)"

lemma cut_at_shorter: "cut_at c s = (b, a, True) \<Longrightarrow> length a < length s"
  using cut_at_found by fastforce

lemma cut_at_rest: "cut_at c s = (b, a, f) \<Longrightarrow> length a \<le> length s"
  using cut_at_found [of c s b a] cut_at_missing [of c s b a] by (cases f) auto

text \<open>The loop over what is left of the sentence: what is written, and the values.\<close>

function fill_rest :: "gostring list \<Rightarrow> gostring \<Rightarrow> gostring" where
  "fill_rest given rest =
     (if rest = [] then []
      else let (before, after, found) = cut_at (CHR ''{'') rest
           in before @
              (if \<not> found then []
               else let (digits, tail, closed) = cut_at (CHR ''}'') after
                    in case Atoi digits of
                         None \<Rightarrow> CHR ''{'' # fill_rest given after
                       | Some k \<Rightarrow> if \<not> closed \<or> k < 0 \<or> k \<ge> int (length given) then CHR ''{'' # fill_rest given after
                                   else given ! nat k @ fill_rest given tail))"
  by pat_completeness auto

termination
proof (relation "measure (\<lambda>(given, rest). length rest)", goal_cases)
  case 1
  then show ?case by simp
qed (fastforce dest: cut_at_shorter [OF sym] cut_at_rest [OF sym])+

declare fill_rest.simps [simp del]

definition Fill :: "gostring \<Rightarrow> gostring list \<Rightarrow> gostring" where
  "Fill sentence given = (if given = [] then sentence else fill_rest given sentence)"

definition Text :: "translator \<Rightarrow> gostring \<Rightarrow> gostring \<Rightarrow> gostring list \<Rightarrow> gostring" where
  "Text t key english given =
     Fill (case map_of (tl_words t) key of None \<Rightarrow> english | Some sentence \<Rightarrow> sentence) given"

definition Lookup :: "translator \<Rightarrow> gostring \<Rightarrow> gostring option" where
  "Lookup t key = map_of (tl_words t) key"

text \<open>\<^verbatim>\<open>strconv.FormatFloat(math.Abs(v), 'f', 2, 64)\<close>: the exact value to two places, halves to even.\<close>

fun two_places :: "float64 \<Rightarrow> gostring" where
  "two_places NaN = ''NaN''"
| "two_places (Inf s) = ''+Inf''"
| "two_places (Fin x) =
     (let n = nat (round_even (\<bar>x\<bar> * 100))
      in format_uint (n div 100) @ ''.'' @ padded 2 (int (n mod 100)))"

text \<open>The digits of the whole part, with the group separator before every third from the end.\<close>

fun grouped :: "gostring \<Rightarrow> bool \<Rightarrow> gostring \<Rightarrow> gostring" where
  "grouped separator first [] = []"
| "grouped separator first (d # ds) =
     (if \<not> first \<and> length (d # ds) mod 3 = 0 then separator else []) @ d # grouped separator False ds"

definition Number :: "translator \<Rightarrow> float64 \<Rightarrow> gostring" where
  "Number t v =
     (let point = Text t ''number.point'' ''.'' []; separator = Text t ''number.group'' '','' [];
          (whole, fraction, found) = cut_at (CHR ''.'') (two_places v);
          sign = (if fless v (Fin 0) \<and> (whole \<noteq> ''0'' \<or> fraction \<noteq> ''00'') then ''-'' else [])
      in sign @ grouped separator True whole @ point @ fraction)"

end
