(* ===== verification/CalendarFeed.thy ===== *)
theory CalendarFeed
  imports Ical I18n Gateway
begin

text \<open>
  The address somebody's calendar program reads their days from: \<^verbatim>\<open>domain/model/calendar_feed_model.go\<close>,
  the in-memory repository \<^verbatim>\<open>persistence/memory/calendar_feed.go\<close>, the service
  \<^verbatim>\<open>application/v1/service/calendar_feed_application_service.go\<close> and the routes of
  \<^verbatim>\<open>calendar_feed_handler.go\<close>.

  A key is looked for by its hash; no two feeds have one hash, so the order the map of them is searched in
  does not matter.  What the calendar is called is the installation's, an argument.
\<close>

section \<open>Feeds\<close>

record calendar_feed =
  cf_ID :: uint
  cf_UserID :: uint
  cf_KeyHash :: gostring
  cf_Prefix :: gostring
  cf_CreatedAt :: gotime
  cf_LastReadAt :: "gotime option"

record feed_repo =
  fr_feeds :: "(uint \<times> calendar_feed) list"
  fr_nextID :: uint

definition NewCalendarFeedRepository :: feed_repo where
  "NewCalendarFeedRepository = \<lparr>fr_feeds = [], fr_nextID = 0\<rparr>"

definition feed_ForUser :: "uint \<Rightarrow> feed_repo \<Rightarrow> calendar_feed result" where
  "feed_ForUser userID r = (case map_of (fr_feeds r) userID of
     None \<Rightarrow> Inl (NotFound ''feed'' (format_uint userID)) | Some x \<Rightarrow> Inr x)"

definition feed_ByHash :: "gostring \<Rightarrow> feed_repo \<Rightarrow> calendar_feed result" where
  "feed_ByHash h r = (case List.find (\<lambda>x. cf_KeyHash x = h) (map snd (fr_feeds r)) of
     None \<Rightarrow> Inl (NotFound ''feed'' []) | Some x \<Rightarrow> Inr x)"

definition feed_Replace :: "calendar_feed \<Rightarrow> feed_repo \<Rightarrow> feed_repo" where
  "feed_Replace x r =
     (let next_id = uint_succ (fr_nextID r)
      in \<lparr>fr_feeds = AList.update (cf_UserID x) (x\<lparr>cf_ID := next_id, cf_LastReadAt := None\<rparr>) (fr_feeds r), fr_nextID = next_id\<rparr>)"

definition feed_Delete :: "uint \<Rightarrow> feed_repo \<Rightarrow> bool \<times> feed_repo" where
  "feed_Delete userID r = (map_of (fr_feeds r) userID \<noteq> None, r\<lparr>fr_feeds := AList.delete userID (fr_feeds r)\<rparr>)"

definition TouchLastRead :: "uint \<Rightarrow> gotime \<Rightarrow> feed_repo \<Rightarrow> feed_repo" where
  "TouchLastRead userID t r = (case map_of (fr_feeds r) userID of
     None \<Rightarrow> r | Some x \<Rightarrow> r\<lparr>fr_feeds := AList.update userID (x\<lparr>cf_LastReadAt := Some t\<rparr>) (fr_feeds r)\<rparr>)"

definition CalendarFeedKeyPrefix :: gostring where "CalendarFeedKeyPrefix = ''gtrcal_''"
definition calendarFeedYears :: int where "calendarFeedYears = 1"

definition feed_Create :: "env \<Rightarrow> crypto \<Rightarrow> uint \<Rightarrow> feed_repo \<Rightarrow> (calendar_feed \<times> gostring) \<times> feed_repo" where
  "feed_Create e c userID r =
     (let key = CalendarFeedKeyPrefix @ fresh_token c;
          x = \<lparr>cf_ID = 0, cf_UserID = userID, cf_KeyHash = HashToken c key,
               cf_Prefix = take (length CalendarFeedKeyPrefix + 6) key, cf_CreatedAt = now e, cf_LastReadAt = None\<rparr>
      in ((x, key), feed_Replace x r))"

definition feed_Feed :: "uint \<Rightarrow> feed_repo \<Rightarrow> calendar_feed option result" where
  "feed_Feed userID r = (case feed_ForUser userID r of
     Inl err \<Rightarrow> if err_kind err = KindNotFound then Inr None else Inl err
   | Inr x \<Rightarrow> Inr (Some x))"

definition feed_Remove :: "uint \<Rightarrow> feed_repo \<Rightarrow> unit result \<times> feed_repo" where
  "feed_Remove userID r =
     (let (removed, r') = feed_Delete userID r
      in (if removed then Inr () else Inl (NotFound ''feed'' (format_uint userID)), r'))"

section \<open>Whose days a key opens\<close>

definition trim_suffix :: "gostring \<Rightarrow> gostring \<Rightarrow> gostring" where
  "trim_suffix s suffix =
     (if length suffix \<le> length s \<and> drop (length s - length suffix) s = suffix
      then take (length s - length suffix) s else s)"

definition gone :: app_error where "gone = NotFound ''feed'' []"

definition feed_owner :: "env \<Rightarrow> crypto \<Rightarrow> gostring \<Rightarrow> db \<Rightarrow> feed_repo \<Rightarrow> (calendar_feed \<times> user) result \<times> feed_repo" where
  "feed_owner e c asked d r =
     (let key = trim_suffix asked ''.ics''
      in if \<not> has_prefix key CalendarFeedKeyPrefix then (Inl gone, r)
         else case feed_ByHash (HashToken c key) r of
                Inl err \<Rightarrow> (Inl (missingOr err gone), r)
              | Inr feed \<Rightarrow>
                  (case user_GetByID (db_roles d) (cf_UserID feed) (db_users d) of
                     Inl err \<Rightarrow> (Inl (missingOr err gone), r)
                   | Inr user \<Rightarrow>
                       if us_MustChangePassword user then (Inl gone, r)
                       else if \<not> Can (principalFor d user) PermTimesheetReadOwn then (Inl gone, r)
                       else (Inr (feed, user),
                             if (case cf_LastReadAt feed of None \<Rightarrow> True | Some t \<Rightarrow> time_sub (now e) t \<ge> maxTouchInterval)
                             then TouchLastRead (us_ID user) (now e) r else r)))"

section \<open>The calendar\<close>

fun feed_names :: "db \<Rightarrow> uint \<Rightarrow> timesheet list \<Rightarrow> uint list \<Rightarrow> (uint \<times> gostring) list \<Rightarrow> (uint \<times> gostring) list result" where
  "feed_names d userID [] looked names = Inr names"
| "feed_names d userID (t # ts) looked names =
     (case ts_ProjectID t of
        None \<Rightarrow> feed_names d userID ts looked names
      | Some p \<Rightarrow>
          if p \<in> set looked then feed_names d userID ts looked names
          else case store_get p (db_projects d) of
                 Inl err \<Rightarrow> if err_kind err = KindNotFound then feed_names d userID ts (p # looked) names else Inl err
               | Inr project \<Rightarrow>
                   feed_names d userID ts (p # looked)
                     (if RequireVisible project userID = Inr () then AList.update (pr_ID project) (pr_Name project) names
                      else names))"

fun by_days :: "timesheet list \<Rightarrow> (day \<times> timesheet list) list \<Rightarrow> (day \<times> timesheet list) list" where
  "by_days [] m = m"
| "by_days (t # ts) m =
     by_days ts (AList.update (CalendarDay (ts_Date t))
       ((case map_of m (CalendarDay (ts_Date t)) of None \<Rightarrow> [] | Some own \<Rightarrow> own) @ [t]) m)"

definition bookedDays :: "timesheet list \<Rightarrow> (day \<times> timesheet list) list" where
  "bookedDays entries =
     sort_by (by_key fst) (map (\<lambda>(d, own). (d, sort_by (by_key (\<lambda>t. int (ts_ID t))) own)) (by_days entries []))"

definition absenceEnglish :: "(gostring \<times> gostring) list" where
  "absenceEnglish =
     [(AbsenceVacation, ''Leave''), (AbsenceHalfVacation, ''Half a day of leave''), (AbsenceSick, ''Sick''),
      (AbsenceFlexDay, ''Day off against overtime''), (AbsenceLocalHoliday, ''Holiday where I work'')]"

definition hoursOf :: "translator \<Rightarrow> float64 \<Rightarrow> gostring" where
  "hoursOf w hours = Number w hours @ '' '' @ Text w ''unit.hours'' ''h'' []"

definition feed_booked :: "translator \<Rightarrow> float64 \<Rightarrow> gostring" where
  "feed_booked w hours = Text w ''calendarFeed.booked'' ''{0} booked'' [hoursOf w hours]"

definition middle_dot :: gostring where
  "middle_dot = '' '' @ [char_of (194 :: nat), char_of (183 :: nat)] @ '' ''"

fun joined_with :: "gostring \<Rightarrow> gostring list \<Rightarrow> gostring" where
  "joined_with sep [] = []"
| "joined_with sep [x] = x"
| "joined_with sep (x # y # xs) = x @ sep @ joined_with sep (y # xs)"

definition entryLine :: "translator \<Rightarrow> timesheet \<Rightarrow> (uint \<times> gostring) list \<Rightarrow> gostring" where
  "entryLine w t names =
     joined_with middle_dot
       ([hoursOf w (ts_DurationHours t)]
        @ (case ts_ProjectID t of
             None \<Rightarrow> [Text w ''ts.noProject'' ''No project'' []]
           | Some p \<Rightarrow> (case map_of names p of None \<Rightarrow> [] | Some name \<Rightarrow> [name]))
        @ (case ts_Description t of
             None \<Rightarrow> []
           | Some x \<Rightarrow> if TrimSpace x \<noteq> [] then [TrimSpace x] else []))"

definition absenceName :: "translator \<Rightarrow> gostring \<Rightarrow> gostring" where
  "absenceName w kind =
     Text w (''absence.'' @ kind) (case map_of absenceEnglish kind of None \<Rightarrow> kind | Some english \<Rightarrow> english) []"

definition feed_uid :: "calendar_feed \<Rightarrow> day \<Rightarrow> gostring \<Rightarrow> gostring" where
  "feed_uid feed d what = compact_day d @ ''-'' @ what @ ''-'' @ cf_Prefix feed @ ''@go-time-recording''"

definition booked_event :: "translator \<Rightarrow> calendar_feed \<Rightarrow> (uint \<times> gostring) list \<Rightarrow> day \<times> timesheet list \<Rightarrow> ical_event" where
  "booked_event w feed names = (\<lambda>(d, own).
     \<lparr>ie_UID = feed_uid feed d ''booked'', ie_Day = d, ie_Summary = feed_booked w (sum_hours own (Fin 0)),
      ie_Description = joined_with [LF] (map (\<lambda>t. entryLine w t names) own)\<rparr>)"

definition away_event :: "translator \<Rightarrow> calendar_feed \<Rightarrow> absence \<Rightarrow> ical_event" where
  "away_event w feed x =
     \<lparr>ie_UID = feed_uid feed (ab_day x) ''away'', ie_Day = ab_day x, ie_Summary = absenceName w (ab_kind x),
      ie_Description = []\<rparr>"

text \<open>The same day so many years on.\<close>

definition years_on :: "day \<Rightarrow> int \<Rightarrow> day" where
  "years_on d n = date (year_of d + n) (month_of d) (month_day d)"

record feed_surroundings =
  fs_calendar :: calendar
  fs_files :: dictionaries
  fs_name :: "(gostring \<Rightarrow> gostring) option"

definition feed_calendar :: "env \<Rightarrow> feed_surroundings \<Rightarrow> db \<Rightarrow> calendar_feed \<Rightarrow> user \<Rightarrow> ical_calendar result" where
  "feed_calendar e w d feed user =
     (let today = todayOf e (fs_calendar w) user;
          from = years_on today (- calendarFeedYears); until = years_on today calendarFeedYears;
          language = EffectiveLanguage user; words = i18n_For (fs_files w) language
      in bind_res (ts_GetByFilter (lower e) (over_days (us_ID user) (midnight from) (midnight until)) (db_timesheets d)) (\<lambda>entries.
         let away = absence_Between (us_ID user) from until (db_absences d)
         in bind_res (feed_names d (us_ID user) entries [] []) (\<lambda>names.
            Inr \<lparr>ic_Name = (case fs_name w of None \<Rightarrow> [] | Some called \<Rightarrow> called language), ic_Stamp = now e,
                 ic_Events = sort_by (by_key ie_Day)
                   (map (booked_event words feed names) (bookedDays entries) @ map (away_event words feed) away)\<rparr>)))"

text \<open>What is read, and whether writing it ends.\<close>

definition feed_Read :: "env \<Rightarrow> crypto \<Rightarrow> feed_surroundings \<Rightarrow> gostring \<Rightarrow> db \<Rightarrow> feed_repo \<Rightarrow> gostring option result \<times> feed_repo" where
  "feed_Read e c w key d r =
     (case feed_owner e c key d r of
        (Inl err, r') \<Rightarrow> (Inl err, r')
      | (Inr (feed, user), r') \<Rightarrow> (bind_res (feed_calendar e w d feed user) (\<lambda>x. Inr (ical_Write x)), r'))"

section \<open>The routes\<close>

definition CalendarFeedPath :: gostring where "CalendarFeedPath = ''/api/v1/calendar-feed/''"

record feed_response =
  cg_Active :: bool
  cg_Prefix :: gostring
  cg_CreatedAt :: "gotime option"
  cg_LastReadAt :: "gotime option"
  cg_Path :: "gostring option"
  cg_QR :: "gostring option"

definition newCalendarFeedResponse :: "calendar_feed option \<Rightarrow> gostring option \<Rightarrow> feed_response" where
  "newCalendarFeedResponse feed path =
     (case feed of
        None \<Rightarrow> \<lparr>cg_Active = False, cg_Prefix = [], cg_CreatedAt = None, cg_LastReadAt = None, cg_Path = None, cg_QR = None\<rparr>
      | Some x \<Rightarrow> \<lparr>cg_Active = True, cg_Prefix = cf_Prefix x, cg_CreatedAt = momentOrNil (cf_CreatedAt x),
                   cg_LastReadAt = Option.bind (cf_LastReadAt x) momentOrNil, cg_Path = path, cg_QR = None\<rparr>)"

definition handle_feed_Get :: "authorizer \<Rightarrow> request \<Rightarrow> feed_repo \<Rightarrow> feed_response answer" where
  "handle_feed_Get a r k =
     bind_res (Require a r PermTimesheetReadOwn) (\<lambda>p.
     bind_res (answer (feed_Feed (caller_id p) k)) (\<lambda>x. Inr (newCalendarFeedResponse x None)))"

text \<open>The address as the browser sees it, where there is a request, and the code that draws it.\<close>

definition handle_feed_Create ::
  "authorizer \<Rightarrow> env \<Rightarrow> crypto \<Rightarrow> gostring option \<Rightarrow> (gostring \<Rightarrow> gostring option) \<Rightarrow> request \<Rightarrow> feed_repo
     \<Rightarrow> feed_response answer \<times> feed_repo" where
  "handle_feed_Create a e c seen_at draw r k =
     (case Require a r PermTimesheetReadOwn of
        Inl refusal \<Rightarrow> (Inl refusal, k)
      | Inr p \<Rightarrow>
          let ((x, key), k') = feed_Create e c (caller_id p) k; path = CalendarFeedPath @ key @ ''.ics''
          in (Inr ((newCalendarFeedResponse (Some x) (Some path))
                 \<lparr>cg_QR := Option.bind seen_at (\<lambda>address. draw (address @ path))\<rparr>), k'))"

definition handle_feed_Remove :: "authorizer \<Rightarrow> request \<Rightarrow> feed_repo \<Rightarrow> unit answer \<times> feed_repo" where
  "handle_feed_Remove a r k =
     (case authz_Principal a r of
        Inl refusal \<Rightarrow> (Inl refusal, k)
      | Inr p \<Rightarrow> let (res, k') = feed_Remove (caller_id p) k in (answer res, k'))"

definition handle_feed_Read ::
  "env \<Rightarrow> crypto \<Rightarrow> feed_surroundings \<Rightarrow> gostring \<Rightarrow> db \<Rightarrow> feed_repo \<Rightarrow> gostring option answer \<times> feed_repo" where
  "handle_feed_Read e c w key d k = (let (res, k') = feed_Read e c w key d k in (answer res, k'))"

end
