(* ===== verification/IcalRules.thy ===== *)
theory IcalRules
  imports Ical
begin

text \<open>
  A calendar that is written is read back: folding ends, keeps every line within the width of the format
  and cuts only between characters, and a reader that joins the lines again and undoes the escaping finds
  every line and every text as it was.
\<close>

section \<open>Bytes\<close>

lemma char_of_byte: "c = char_of n \<longleftrightarrow> byte c = n" if "n < 256"
proof
  assume "byte c = n"
  then have "char_of n = (char_of (of_char c :: nat) :: char)" by (simp add: byte_def)
  then show "c = char_of n" by simp
qed (use that in \<open>simp add: byte_def\<close>)

lemma format_bytes: "c = CR \<longleftrightarrow> byte c = 13" "CR = c \<longleftrightarrow> byte c = 13" "c = LF \<longleftrightarrow> byte c = 10" "LF = c \<longleftrightarrow> byte c = 10"
  "c = SP \<longleftrightarrow> byte c = 32" "SP = c \<longleftrightarrow> byte c = 32" "c = backslash \<longleftrightarrow> byte c = 92" "backslash = c \<longleftrightarrow> byte c = 92"
  "byte CR = 13" "byte LF = 10" "byte SP = 32" "byte backslash = 92"
  using char_of_byte [of 13 c] char_of_byte [of 10 c] char_of_byte [of 32 c] char_of_byte [of 92 c]
  by (auto simp: format_chars byte_def)

section \<open>Texts made of characters\<close>

definition is_char :: "gostring \<Rightarrow> bool" where
  "is_char s \<longleftrightarrow> (case s of [] \<Rightarrow> False
     | b # bs \<Rightarrow> if byte b < 128 then bs = []
         else RuneStart b \<and> length bs \<le> 3 \<and> (\<forall>c \<in> set bs. \<not> RuneStart c))"

definition is_text :: "gostring \<Rightarrow> bool" where
  "is_text s \<longleftrightarrow> (\<exists>chars. s = concat chars \<and> (\<forall>c \<in> set chars. is_char c))"

lemma is_text_Nil [simp]: "is_text []"
  by (auto simp: is_text_def intro!: exI [of _ "[]"])

lemma is_text_append [intro]: "is_text a \<Longrightarrow> is_text b \<Longrightarrow> is_text (a @ b)"
  unfolding is_text_def by (metis concat_append in_set_conv_decomp_first set_append Un_iff)

lemma is_text_concat: "\<forall>x \<in> set xs. is_text x \<Longrightarrow> is_text (concat xs)"
  by (induction xs) auto

lemma is_text_char: "is_char c \<Longrightarrow> is_text c"
  by (auto simp: is_text_def intro!: exI [of _ "[c]"])

lemma is_text_ascii: "\<forall>c \<in> set s. byte c < 128 \<Longrightarrow> is_text s"
proof (induction s)
  case (Cons c s)
  have "is_text [c]" using Cons.prems by (intro is_text_char) (simp add: is_char_def)
  moreover have "is_text s" using Cons by simp
  ultimately show ?case using is_text_append [of "[c]" s] by simp
qed simp

lemma is_text_Cons: "is_text (c # s) \<Longrightarrow> byte c < 128 \<Longrightarrow> is_text s"
  unfolding is_text_def
proof (elim exE conjE)
  fix chars assume c: "c # s = concat chars" "\<forall>x \<in> set chars. is_char x" "byte c < 128"
  then obtain x xs where x: "chars = x # xs" "is_char x" by (cases chars) auto
  then have "x = [c]" using c by (cases x) (auto simp: is_char_def split: if_splits)
  then show "\<exists>chars. s = concat chars \<and> (\<forall>c \<in> set chars. is_char c)" using c x by (auto intro!: exI [of _ xs])
qed

text \<open>Going back at most three bytes finds the start of a character, where the text can be cut.\<close>

lemma start_near:
  assumes "is_text s" "k < length s"
  obtains j where "j \<le> k" "k \<le> j + 3" "RuneStart (s ! j)"
proof -
  obtain chars where "s = concat chars" "\<forall>c \<in> set chars. is_char c" using assms(1) unfolding is_text_def by blast
  then have "\<exists>j. j \<le> k \<and> k \<le> j + 3 \<and> RuneStart (s ! j)"
    using assms(2)
  proof (induction chars arbitrary: s k)
    case (Cons c cs)
    then have start: "c \<noteq> []" "RuneStart (c ! 0)" "length c \<le> 4"
      by (auto simp: is_char_def RuneStart_def continues_def split: list.splits if_splits)
    show ?case
    proof (cases "k < length c")
      case True
      then show ?thesis using start Cons.prems(1) by (intro exI [of _ 0]) (auto simp: nth_append)
    next
      case False
      then have "k - length c < length (concat cs)" using Cons.prems(1,3) by (simp add: less_diff_conv2)
      then obtain j where "j \<le> k - length c" "k - length c \<le> j + 3" "RuneStart (concat cs ! j)"
        using Cons.IH [of "concat cs" "k - length c"] Cons.prems by auto
      then show ?thesis using False Cons.prems(1) by (intro exI [of _ "length c + j"]) (auto simp: nth_append)
    qed
  qed simp
  then show ?thesis using that by blast
qed

lemma rune_cut_Some: "rune_cut line k = Some j \<Longrightarrow> j \<le> k \<and> RuneStart (line ! j) \<and> (\<forall>i. j < i \<and> i \<le> k \<longrightarrow> \<not> RuneStart (line ! i))"
  by (induction k) (auto split: if_splits simp: le_Suc_eq)

lemma rune_cut_None: "rune_cut line k = None \<Longrightarrow> i \<le> k \<Longrightarrow> \<not> RuneStart (line ! i)"
  by (induction k) (auto split: if_splits simp: le_Suc_eq)

lemma is_text_cut: "is_text s \<Longrightarrow> j < length s \<Longrightarrow> RuneStart (s ! j) \<Longrightarrow> is_text (take j s) \<and> is_text (drop j s)"
proof -
  assume s: "is_text s" "j < length s" "RuneStart (s ! j)"
  obtain chars where "s = concat chars" "\<forall>c \<in> set chars. is_char c" using s(1) unfolding is_text_def by blast
  then show ?thesis using s(2,3)
  proof (induction chars arbitrary: s j)
    case (Cons c cs)
    then have c: "is_char c" and cs: "is_text (concat cs)" by (auto simp: is_text_def)
    show ?case
    proof (cases "j < length c")
      case True
      have "j = 0"
      proof (rule ccontr)
        assume "j \<noteq> 0"
        then have "c ! j \<in> set (tl c)" using True by (cases c) (auto simp: nth_Cons')
        then show False using c Cons.prems(1,4) True
          by (auto simp: is_char_def nth_append split: list.splits if_splits)
      qed
      then show ?thesis using Cons.prems(1) c cs by (auto intro: is_text_char)
    next
      case False
      then have "is_text (take (j - length c) (concat cs)) \<and> is_text (drop (j - length c) (concat cs))"
        using Cons.IH [of "concat cs" "j - length c"] Cons.prems by (auto simp: nth_append)
      then show ?thesis using False Cons.prems(1) c by (auto intro: is_text_char)
    qed
  qed simp
qed

lemma rune_cut_text:
  assumes "is_text s" "k < length s"
  obtains j where "rune_cut s k = Some j" "j \<le> k" "k \<le> j + 3" "is_text (take j s)" "is_text (drop j s)"
proof -
  obtain i where i: "i \<le> k" "k \<le> i + 3" "RuneStart (s ! i)" using start_near [OF assms] .
  then obtain j where j: "rune_cut s k = Some j" using rune_cut_None [of s k i] by (cases "rune_cut s k") auto
  then have "i \<le> j" using rune_cut_Some [OF j] i by (meson leI)
  then show ?thesis using that [OF j] rune_cut_Some [OF j] i is_text_cut [OF assms(1), of j] assms(2) by simp
qed

section \<open>Folding ends and is undone\<close>

text \<open>The pieces of a folded line: the first as wide as a line, the others after a blank.\<close>

definition folded :: "gostring list \<Rightarrow> gostring list" where
  "folded ps = (case ps of [] \<Rightarrow> [] | p # qs \<Rightarrow> p # map (\<lambda>q. SP # q) qs)"

definition crlf_lines :: "gostring list \<Rightarrow> gostring" where
  "crlf_lines ls = concat (map (\<lambda>l. l @ CRLF) ls)"

lemma crlf_lines_simps [simp]:
  "crlf_lines [] = []" "crlf_lines (l # ls) = l @ CRLF @ crlf_lines ls" "crlf_lines (a @ b) = crlf_lines a @ crlf_lines b"
  by (simp_all add: crlf_lines_def)

lemma folded_Cons: "folded (p # q # qs) = p # (SP # q) # map (\<lambda>q. SP # q) qs"
  by (simp add: folded_def)

lemma fold_rest_pieces:
  assumes "is_text line" "width = maxLineOctets \<or> width = maxLineOctets - 1"
  shows "\<exists>p ps r. fold_rest width line out = Some (out @ r) \<and> r @ CRLF = crlf_lines (folded (p # ps))
    \<and> p @ concat ps = line \<and> length p \<le> width \<and> (\<forall>q \<in> set ps. length q \<le> maxLineOctets - 1)
    \<and> (\<forall>q \<in> set (p # ps). is_text q)"
  using assms
proof (induction "length line" arbitrary: line out width rule: less_induct)
  case less
  show ?case
  proof (cases "length line \<le> width")
    case True
    then show ?thesis using less.prems(1)
      by (intro exI [of _ line] exI [of _ "[]"]) (simp add: fold_rest.simps folded_def)
  next
    case False
    then obtain j where j: "rune_cut line width = Some j" "j \<le> width" "width \<le> j + 3"
      "is_text (take j line)" "is_text (drop j line)"
      using rune_cut_text [OF less.prems(1), of width] by auto
    have "4 \<le> width" using less.prems(2) by (auto simp: maxLineOctets_def)
    then have "length (drop j line) < length line" using j(2,3) False by simp
    from less.hyps [OF this j(5), of "maxLineOctets - 1" "out @ take j line @ CRLF @ [SP]"] obtain p ps r where p:
      "fold_rest (maxLineOctets - 1) (drop j line) (out @ take j line @ CRLF @ [SP]) = Some ((out @ take j line @ CRLF @ [SP]) @ r)"
      "r @ CRLF = crlf_lines (folded (p # ps))" "p @ concat ps = drop j line" "length p \<le> maxLineOctets - 1"
      "\<forall>q \<in> set ps. length q \<le> maxLineOctets - 1" "\<forall>q \<in> set (p # ps). is_text q" by auto
    have "fold_rest width line out = Some (out @ take j line @ CRLF @ SP # r)"
      using False p(1) by (subst fold_rest.simps) (simp add: j(1))
    moreover have "(take j line @ CRLF @ SP # r) @ CRLF = crlf_lines (folded (take j line # p # ps))"
      using p(2) by (simp add: folded_def)
    moreover have "take j line @ concat (p # ps) = line" using p(3) by simp
    moreover have "length (take j line) \<le> width" using j(2) by simp
    ultimately show ?thesis using p(4-6) j(4)
      by (intro exI [of _ "take j line"] exI [of _ "p # ps"] exI [of _ "take j line @ CRLF @ SP # r"]) simp
  qed
qed

lemma fold_line_pieces:
  assumes "is_text line"
  obtains p ps r where "fold_line line = Some r" "r @ CRLF = crlf_lines (folded (p # ps))" "p @ concat ps = line"
    "\<forall>l \<in> set (folded (p # ps)). length l \<le> maxLineOctets \<and> is_text l"
proof -
  have cont: "is_text (SP # q)" if "is_text q" for q
    using is_text_append [OF is_text_ascii [of "[SP]"] that] by (simp add: SP_def byte_def)
  obtain p ps r where p: "fold_rest maxLineOctets line [] = Some r" "r @ CRLF = crlf_lines (folded (p # ps))"
    "p @ concat ps = line" "length p \<le> maxLineOctets" "\<forall>q \<in> set ps. length q \<le> maxLineOctets - 1" "\<forall>q \<in> set (p # ps). is_text q"
    using fold_rest_pieces [OF assms, of maxLineOctets "[]"] by auto
  have "fold_line line = fold_rest maxLineOctets line []"
    by (simp add: fold_line_def fold_rest.simps)
  moreover have "\<forall>l \<in> set (folded (p # ps)). length l \<le> maxLineOctets \<and> is_text l"
    using p(4-6) cont by (auto simp: folded_def maxLineOctets_def)
  ultimately show ?thesis using that p(1-3) by simp
qed

text \<open>What a reader does: lines end at a carriage return with a line feed, and a line that starts with a blank
  goes on the one before.\<close>

fun split_crlf :: "gostring \<Rightarrow> gostring \<Rightarrow> gostring list" where
  "split_crlf cur (a # b # s) = (if a = CR \<and> b = LF then cur # split_crlf [] s else split_crlf (cur @ [a]) (b # s))"
| "split_crlf cur s = (if cur @ s = [] then [] else [cur @ s])"

definition physical_lines :: "gostring \<Rightarrow> gostring list" where
  "physical_lines s = split_crlf [] s"

fun join_from :: "gostring \<Rightarrow> gostring list \<Rightarrow> gostring list" where
  "join_from cur [] = [cur]"
| "join_from cur (l # ls) = (if l \<noteq> [] \<and> hd l = SP then join_from (cur @ tl l) ls else cur # join_from l ls)"

definition read_lines :: "gostring \<Rightarrow> gostring list" where
  "read_lines s = (case physical_lines s of [] \<Rightarrow> [] | l # ls \<Rightarrow> join_from l ls)"

lemma split_crlf_line: "CR \<notin> set l \<Longrightarrow> split_crlf cur (l @ CRLF @ s) = (cur @ l) # split_crlf [] s"
proof (induction l arbitrary: cur)
  case (Cons c l)
  have "\<exists>b t. l @ CRLF @ s = b # t" by (cases l) (auto simp: CRLF_def)
  then obtain b t where t: "l @ CRLF @ s = b # t" by blast
  then have "split_crlf cur (c # (l @ CRLF @ s)) = split_crlf (cur @ [c]) (l @ CRLF @ s)" using Cons.prems by auto
  then show ?case using Cons by simp
qed (simp add: CRLF_def)

lemma physical_crlf: "\<forall>l \<in> set ls. CR \<notin> set l \<Longrightarrow> physical_lines (crlf_lines ls) = ls"
  unfolding physical_lines_def by (induction ls) (simp_all add: split_crlf_line)

lemma join_pieces: "join_from cur (map (\<lambda>q. SP # q) ps @ rest) = join_from (cur @ concat ps) rest"
  by (induction ps arbitrary: cur) simp_all

lemma join_all:
  assumes "\<forall>(p, ps) \<in> set xs. p @ concat ps \<noteq> [] \<and> hd (p @ concat ps) \<noteq> SP"
  shows "join_from cur (concat (map (\<lambda>(p, ps). folded (p # ps)) xs)) = cur # map (\<lambda>(p, ps). p @ concat ps) xs"
  using assms
proof (induction xs arbitrary: cur)
  case (Cons x xs)
  then show ?case by (cases x) (auto simp: folded_def join_pieces)
qed simp

definition line_ok :: "gostring \<Rightarrow> bool" where
  "line_ok l \<longleftrightarrow> is_text l \<and> CR \<notin> set l \<and> l \<noteq> [] \<and> hd l \<noteq> SP"

lemma write_lines_pieces:
  assumes "\<forall>l \<in> set ls. line_ok l"
  shows "\<exists>xs. write_lines ls = Some (crlf_lines (concat (map (\<lambda>(p, ps). folded (p # ps)) xs)))
    \<and> map (\<lambda>(p, ps). p @ concat ps) xs = ls
    \<and> (\<forall>l \<in> set (concat (map (\<lambda>(p, ps). folded (p # ps)) xs)). length l \<le> maxLineOctets \<and> is_text l)"
  using assms
proof (induction ls)
  case (Cons l ls)
  then obtain xs where xs: "write_lines ls = Some (crlf_lines (concat (map (\<lambda>(p, ps). folded (p # ps)) xs)))"
    "map (\<lambda>(p, ps). p @ concat ps) xs = ls"
    "\<forall>l \<in> set (concat (map (\<lambda>(p, ps). folded (p # ps)) xs)). length l \<le> maxLineOctets \<and> is_text l" by auto
  obtain p ps r where p: "fold_line l = Some r" "r @ CRLF = crlf_lines (folded (p # ps))" "p @ concat ps = l"
    "\<forall>l \<in> set (folded (p # ps)). length l \<le> maxLineOctets \<and> is_text l"
    using fold_line_pieces [of l] Cons.prems [unfolded line_ok_def] by (metis list.set_intros(1))
  have "r @ CRLF @ rest = crlf_lines (folded (p # ps)) @ rest" for rest using p(2) by (metis append_assoc)
  then show ?case using p xs by (intro exI [of _ "(p, ps) # xs"]) auto
qed (auto intro!: exI [of _ "[]"])

lemma written_lines_read:
  assumes "\<forall>l \<in> set ls. line_ok l"
  obtains out where "write_lines ls = Some out" "read_lines out = ls"
    "\<forall>l \<in> set (physical_lines out). length l \<le> maxLineOctets \<and> is_text l"
proof -
  obtain xs where xs: "write_lines ls = Some (crlf_lines (concat (map (\<lambda>(p, ps). folded (p # ps)) xs)))"
    "map (\<lambda>(p, ps). p @ concat ps) xs = ls"
    "\<forall>l \<in> set (concat (map (\<lambda>(p, ps). folded (p # ps)) xs)). length l \<le> maxLineOctets \<and> is_text l"
    using write_lines_pieces [OF assms] by blast
  let ?ls = "concat (map (\<lambda>(p, ps). folded (p # ps)) xs)"
  have ok: "line_ok (p @ concat ps)" if "(p, ps) \<in> set xs" for p ps
    using assms that unfolding xs(2) [symmetric] by force
  have "CR \<noteq> SP" by (simp add: format_chars)
  then have "\<forall>l \<in> set ?ls. CR \<notin> set l" using ok by (fastforce simp: folded_def line_ok_def)
  then have physical: "physical_lines (crlf_lines ?ls) = ?ls" by (rule physical_crlf)
  have "read_lines (crlf_lines ?ls) = ls"
  proof (cases xs)
    case Nil
    then show ?thesis using xs(2) physical by (simp add: read_lines_def)
  next
    case (Cons x ys)
    obtain p ps where x: "x = (p, ps)" by force
    have "\<forall>(p, ps) \<in> set ys. p @ concat ps \<noteq> [] \<and> hd (p @ concat ps) \<noteq> SP"
      using ok Cons by (auto simp: line_ok_def)
    from join_all [OF this, of "p @ concat ps"] show ?thesis
      using xs(2) physical by (simp add: read_lines_def Cons x folded_def join_pieces)
  qed
  then show ?thesis using that [OF xs(1)] xs(3) physical by simp
qed

section \<open>Every line of a calendar is one\<close>

lemma encode_rune_char: "r < 1114112 \<Longrightarrow> is_char (encode_rune r)"
  by (auto simp: encode_rune_def is_char_def RuneStart_def continues_def byte_def)

lemma encode_rune_bytes: "r < 1114112 \<Longrightarrow> c \<in> set (encode_rune r) \<Longrightarrow> byte c = r \<or> 128 \<le> byte c"
  by (auto simp: encode_rune_def byte_def split: if_splits)

lemma decode_rune_bound: "fst (decode_rune bs) < 1114112"
  by (cases bs rule: decode_rune.cases) (auto simp: rune_error_def continues_def split: list.splits)

lemma runes_bound: "r \<in> set (runes s) \<Longrightarrow> r < 1114112"
proof (induction s rule: rune_chunks.induct)
  case (1 s)
  obtain x w where d: "decode_rune (map byte s) = (x, w)" by force
  show ?case
  proof (cases "s = []")
    case False
    then have "runes s = x # runes (drop w s)" using d by (simp add: runes_def rune_chunks.simps [of s])
    then show ?thesis using 1 False d decode_rune_bound [of "map byte s"] by (auto simp: runes_def)
  qed (use 1 in simp)
qed

lemma text_rune_ok:
  assumes "r < 1114112"
  shows "is_text (text_rune r)" "CR \<notin> set (text_rune r)" "LF \<notin> set (text_rune r)"
proof -
  have "is_text (encode_rune r)" using encode_rune_char [OF assms] by (rule is_text_char)
  then show "is_text (text_rune r)" by (auto simp: text_rune_def format_bytes intro!: is_text_ascii) (auto simp: byte_def)
  have "CR \<noteq> c \<and> LF \<noteq> c" if "c \<in> set (encode_rune r)" "r \<noteq> 10" "r \<noteq> 13" for c
    using encode_rune_bytes [OF assms that(1)] that(2,3) by (auto simp: format_bytes)
  then have "CR \<notin> set (encode_rune r) \<and> LF \<notin> set (encode_rune r)" if "r \<noteq> 10" "r \<noteq> 13" using that by blast
  moreover have "CR \<notin> {backslash, CHR '';'', CHR '','', CHR ''n''}" "LF \<notin> {backslash, CHR '';'', CHR '','', CHR ''n''}"
    by (simp_all add: format_bytes) (simp_all add: byte_def)
  ultimately show "CR \<notin> set (text_rune r)" "LF \<notin> set (text_rune r)"
    by (auto simp: text_rune_def)
qed

lemma ical_text_ok: "is_text (ical_text s)" "CR \<notin> set (ical_text s)"
  using text_rune_ok runes_bound by (auto simp: ical_text_def intro!: is_text_concat)

lemma ascii_ok: "\<forall>c \<in> set l. byte c < 128 \<and> c \<noteq> CR \<Longrightarrow> is_text l \<and> CR \<notin> set l"
  by (auto intro: is_text_ascii)

lemma padded_ok: "\<forall>c \<in> set (padded n x). byte c < 128 \<and> c \<noteq> CR"
proof -
  have "\<forall>c \<in> set (format_uint m). is_digit_char c" for m using format_uint_digits [of m] by (simp add: list_all_iff)
  then have "\<forall>c \<in> set (format_uint m). byte c < 128 \<and> c \<noteq> CR" for m
    by (fastforce simp: is_digit_char_def format_bytes)
  moreover have "byte (CHR ''-'') < 128 \<and> CHR ''-'' \<noteq> CR" "byte (CHR ''0'') < 128 \<and> CHR ''0'' \<noteq> CR"
    by (simp_all add: format_bytes) (simp_all add: byte_def)
  ultimately show ?thesis by (auto simp: padded_def Let_def)
qed

lemma compact_ok: "\<forall>c \<in> set (compact_day d). byte c < 128 \<and> c \<noteq> CR" "\<forall>c \<in> set (compact_moment t). byte c < 128 \<and> c \<noteq> CR"
proof -
  have "byte (CHR ''T'') < 128 \<and> CHR ''T'' \<noteq> CR" "byte (CHR ''Z'') < 128 \<and> CHR ''Z'' \<noteq> CR"
    by (simp_all add: format_bytes) (simp_all add: byte_def)
  then show "\<forall>c \<in> set (compact_day d). byte c < 128 \<and> c \<noteq> CR" "\<forall>c \<in> set (compact_moment t). byte c < 128 \<and> c \<noteq> CR"
    using padded_ok by (auto simp: compact_day_def compact_moment_def Let_def)
qed

text \<open>The name of a property and what follows it.\<close>

definition plain :: "gostring \<Rightarrow> bool" where
  "plain p \<longleftrightarrow> p \<noteq> [] \<and> byte (hd p) \<noteq> 32 \<and> list_all (\<lambda>c. byte c < 128 \<and> byte c \<noteq> 13) p"

lemma line_okI: "plain p \<Longrightarrow> is_text l \<and> CR \<notin> set l \<Longrightarrow> line_ok (p @ l)"
  using ascii_ok [of p] by (auto simp: line_ok_def plain_def list_all_iff format_bytes)

lemma line_ok_plain: "plain p \<Longrightarrow> line_ok p"
  using line_okI [of p "[]"] by simp

lemma event_lines_ok: "l \<in> set (event_lines (compact_moment t) x) \<Longrightarrow> line_ok l"
proof -
  have "plain ''BEGIN:VEVENT''" "plain ''TRANSP:TRANSPARENT''" "plain ''END:VEVENT''" "plain ''UID:''" "plain ''DTSTAMP:''"
    "plain ''DTSTART;VALUE=DATE:''" "plain ''DTEND;VALUE=DATE:''" "plain ''SUMMARY:''" "plain ''DESCRIPTION:''"
    by (simp_all add: plain_def byte_def)
  note plain = this
  assume "l \<in> set (event_lines (compact_moment t) x)"
  then consider "l \<in> {''BEGIN:VEVENT'', ''TRANSP:TRANSPARENT'', ''END:VEVENT''}"
    | p s where "l = p @ ical_text s" "p \<in> {''UID:'', ''SUMMARY:'', ''DESCRIPTION:''}"
    | p where "l = p @ compact_moment t" "p = ''DTSTAMP:''"
    | p d where "l = p @ compact_day d" "p \<in> {''DTSTART;VALUE=DATE:'', ''DTEND;VALUE=DATE:''}"
    unfolding event_lines_def by (auto split: if_splits simp del: append.simps)
  then show ?thesis
  proof cases
    case 1
    then show ?thesis using plain line_ok_plain by auto
  next
    case 2
    then have "plain p" using plain by auto
    then show ?thesis unfolding 2(1) using ical_text_ok by (intro line_okI) auto
  next
    case 3
    then show ?thesis using plain ascii_ok [OF compact_ok(2)] by (auto intro!: line_okI simp del: append.simps)
  next
    case 4
    then have "plain p" using plain by auto
    then show ?thesis unfolding 4(1) using ascii_ok [OF compact_ok(1)] by (rule line_okI)
  qed
qed

lemma calendar_lines_ok: "\<forall>l \<in> set (calendar_lines c). line_ok l"
proof
  fix l
  have plain: "plain ''BEGIN:VCALENDAR''" "plain ''VERSION:2.0''" "plain (''PRODID:'' @ productID)" "plain ''CALSCALE:GREGORIAN''"
    "plain ''METHOD:PUBLISH''" "plain ''NAME:''" "plain ''X-WR-CALNAME:''" "plain (''REFRESH-INTERVAL;VALUE=DURATION:'' @ ical_refresh)"
    "plain (''X-PUBLISHED-TTL:'' @ ical_refresh)" "plain ''END:VCALENDAR''"
    by (simp_all add: plain_def byte_def productID_def ical_refresh_def)
  assume "l \<in> set (calendar_lines c)"
  then consider "plain l" | x where "l \<in> set (event_lines (compact_moment (ic_Stamp c)) x)"
    | p s where "l = p @ ical_text s" "plain p"
    unfolding calendar_lines_def using plain by (auto split: if_splits simp del: append.simps)
  then show "line_ok l"
  proof cases
    case 3
    then show ?thesis using ical_text_ok by (auto intro: line_okI)
  qed (auto intro: line_ok_plain event_lines_ok)
qed

section \<open>Escaping is undone\<close>

fun read_text :: "gostring \<Rightarrow> gostring" where
  "read_text (a # b # s) = (if a = backslash then (if b = CHR ''n'' then LF else b) # read_text s else a # read_text (b # s))"
| "read_text s = s"

definition clean_rune :: "rune \<Rightarrow> gostring" where
  "clean_rune r = (if r = 9 \<or> r = 10 \<or> (32 \<le> r \<and> r \<noteq> 127) then encode_rune r else [])"

lemma read_text_plain: "\<forall>c \<in> set p. c \<noteq> backslash \<Longrightarrow> read_text (p @ s) = p @ read_text s"
proof (induction p)
  case (Cons c p)
  then show ?case by (cases "p @ s") auto
qed simp

lemma read_text_rune: "r < 1114112 \<Longrightarrow> read_text (text_rune r @ s) = clean_rune r @ read_text s"
proof -
  assume r: "r < 1114112"
  have "c \<noteq> backslash" if "c \<in> set (encode_rune r)" "r \<noteq> 92" for c
    using encode_rune_bytes [OF r that(1)] that(2) by (auto simp: format_bytes)
  then have plain: "r \<noteq> 92 \<Longrightarrow> read_text (encode_rune r @ s) = encode_rune r @ read_text s" by (intro read_text_plain) blast
  have escaped: "read_text (backslash # b # s) = (if b = CHR ''n'' then LF else b) # read_text s" for b by simp
  have "backslash \<noteq> CHR ''n''" by (simp add: format_bytes) (simp add: byte_def)
  moreover have "CHR '';'' = char_of (59 :: nat)" "CHR '','' = char_of (44 :: nat)" "char_of (10 :: nat) = LF"
    using char_of_byte [of 59 "CHR '';''"] char_of_byte [of 44 "CHR '',''"] by (simp_all add: byte_def LF_def)
  ultimately show ?thesis using plain escaped
    by (auto simp: text_rune_def clean_rune_def encode_rune_def backslash_def [symmetric] simp del: read_text.simps)
qed

text \<open>A text with its line breaks as line feeds and without the control characters the format does not
  know.\<close>

definition clean_text :: "gostring \<Rightarrow> gostring" where
  "clean_text s = concat (map clean_rune (runes (line_feeds s)))"

lemma read_ical_text: "read_text (ical_text s) = clean_text s"
proof -
  have "\<forall>r \<in> set rs. r < 1114112 \<Longrightarrow> read_text (concat (map text_rune rs)) = concat (map clean_rune rs)" for rs
    by (induction rs) (simp_all add: read_text_rune)
  then show ?thesis using runes_bound by (auto simp: ical_text_def clean_text_def)
qed

text \<open>C40: a calendar that is written is read back: writing it always ends, whatever its texts hold; every line it
  writes is at most 75 bytes wide, none starting or ending inside a character; joining the lines again,
  as a reader does, gives exactly the lines of the calendar; and undoing the escaping gives every text as
  it was, line breaks as line feeds and without control characters.\<close>

theorem calendar_reads_back:
  "\<exists>out. ical_Write c = Some out \<and> read_lines out = calendar_lines c
    \<and> (\<forall>l \<in> set (physical_lines out). length l \<le> 75 \<and> is_text l)
    \<and> (\<forall>s. read_text (ical_text s) = clean_text s)"
  using written_lines_read [OF calendar_lines_ok, of c] read_ical_text
  unfolding ical_Write_def maxLineOctets_def by metis

text \<open>A name with a comma and a line that has to be folded.\<close>

definition sample_calendar :: ical_calendar where
  "sample_calendar = \<lparr>ic_Name = ''Ada, at work'', ic_Stamp = midnight 20000,
     ic_Events = [\<lparr>ie_UID = ''20241004'', ie_Day = 20000, ie_Summary = ''8.00 h booked'',
        ie_Description = replicate 100 (CHR ''a'')\<rparr>]\<rparr>"

theorem calendar_reads_back_witness:
  "\<exists>out. ical_Write sample_calendar = Some out \<and> read_lines out = calendar_lines sample_calendar
    \<and> ''DESCRIPTION:'' @ ical_text (replicate 100 (CHR ''a'')) \<in> set (read_lines out)
    \<and> list_all (\<lambda>l. length l \<le> 75) (physical_lines out)"
proof -
  have "''DESCRIPTION:'' @ ical_text (replicate 100 (CHR ''a'')) \<in> set (calendar_lines sample_calendar)"
    by (simp add: calendar_lines_def event_lines_def sample_calendar_def)
  moreover obtain out where "ical_Write sample_calendar = Some out" "read_lines out = calendar_lines sample_calendar"
    "\<forall>l \<in> set (physical_lines out). length l \<le> 75 \<and> is_text l"
    using calendar_reads_back [of sample_calendar] by blast
  ultimately show ?thesis by (simp add: list_all_iff)
qed

end
