(* ===== verification/FeedRules.thy ===== *)
theory FeedRules
  imports CalendarFeed IcalRules SessionRules
begin

text \<open>
  Calendar addresses: a key opens the days of the one account it stands for, as long as that account could
  read them on its own screen, and a key that was replaced or taken back opens nothing.
\<close>

section \<open>The key that stands for an account\<close>

datatype feed_step = MakeFeed env crypto uint | DropFeed uint | ReadFeed env crypto feed_surroundings gostring db

fun take_feed_step :: "feed_step \<Rightarrow> feed_repo \<Rightarrow> feed_repo" where
  "take_feed_step (MakeFeed e c u) r = snd (feed_Create e c u r)"
| "take_feed_step (DropFeed u) r = snd (feed_Remove u r)"
| "take_feed_step (ReadFeed e c w key d) r = snd (feed_Read e c w key d r)"

definition feeds_after :: "feed_step list \<Rightarrow> feed_repo" where
  "feeds_after steps = fold take_feed_step steps NewCalendarFeedRepository"

fun stands :: "uint \<Rightarrow> feed_step \<Rightarrow> gostring option \<Rightarrow> gostring option" where
  "stands u (MakeFeed e c v) h = (if v = u then Some (HashToken c (CalendarFeedKeyPrefix @ fresh_token c)) else h)"
| "stands u (DropFeed v) h = (if v = u then None else h)"
| "stands u (ReadFeed e c w key d) h = h"

definition standing :: "uint \<Rightarrow> feed_step list \<Rightarrow> gostring option" where
  "standing u steps = fold (stands u) steps None"

definition key_of :: "feed_repo \<Rightarrow> uint \<Rightarrow> gostring option" where
  "key_of r u = map_option cf_KeyHash (map_of (fr_feeds r) u)"

definition feeds_keyed :: "feed_repo \<Rightarrow> bool" where
  "feeds_keyed r \<longleftrightarrow> distinct (map fst (fr_feeds r)) \<and> (\<forall>u x. map_of (fr_feeds r) u = Some x \<longrightarrow> cf_UserID x = u)"

lemma touch_keeps: "key_of (TouchLastRead u t r) = key_of r \<and> (feeds_keyed r \<longrightarrow> feeds_keyed (TouchLastRead u t r))"
  by (auto simp: TouchLastRead_def key_of_def feeds_keyed_def map_of_update fun_eq_iff
      simp del: map_of_eq_Some_iff split: option.split)

lemma owner_keeps: "feed_owner e c key d r = (res, r') \<Longrightarrow> key_of r' = key_of r \<and> (feeds_keyed r \<longrightarrow> feeds_keyed r')"
  using touch_keeps by (auto simp: feed_owner_def Let_def split: if_splits sum.splits)

lemma read_keeps: "key_of (snd (feed_Read e c w key d r)) = key_of r \<and> (feeds_keyed r \<longrightarrow> feeds_keyed (snd (feed_Read e c w key d r)))"
  using owner_keeps [of e c key d r "fst (feed_owner e c key d r)" "snd (feed_owner e c key d r)"]
  by (auto simp: feed_Read_def split: prod.splits sum.splits)

lemma step_keeps: "(\<forall>u. key_of (take_feed_step x r) u = stands u x (key_of r u)) \<and> (feeds_keyed r \<longrightarrow> feeds_keyed (take_feed_step x r))"
proof (cases x)
  case (ReadFeed e c w key d)
  then show ?thesis using read_keeps [of e c w key d r] by simp
qed (auto simp: feed_Create_def feed_Replace_def feed_Remove_def feed_Delete_def Let_def key_of_def feeds_keyed_def
      map_of_update map_of_delete)

lemma feeds_after_right: "key_of (feeds_after steps) u = standing u steps \<and> feeds_keyed (feeds_after steps)"
proof (induction steps rule: rev_induct)
  case Nil
  then show ?case by (simp add: feeds_after_def standing_def NewCalendarFeedRepository_def key_of_def feeds_keyed_def)
next
  case (snoc x steps)
  then show ?case using step_keeps [of x "feeds_after steps"] by (simp add: feeds_after_def standing_def)
qed

lemma owner_Inr:
  assumes "feed_owner e c key d r = (Inr (feed, user), r')" "feeds_keyed r"
  shows "key_of r (cf_UserID feed) = Some (HashToken c (trim_suffix key ''.ics''))
    \<and> user_GetByID (db_roles d) (cf_UserID feed) (db_users d) = Inr user
    \<and> \<not> us_MustChangePassword user \<and> Can (principalFor d user) PermTimesheetReadOwn"
proof -
  obtain x where x: "feed_ByHash (HashToken c (trim_suffix key ''.ics'')) r = Inr x" "x = feed"
    "user_GetByID (db_roles d) (cf_UserID feed) (db_users d) = Inr user" "\<not> us_MustChangePassword user"
    "Can (principalFor d user) PermTimesheetReadOwn"
    using assms(1) by (auto simp: feed_owner_def Let_def split: if_splits sum.splits)
  then have "cf_KeyHash feed = HashToken c (trim_suffix key ''.ics'')" "feed \<in> snd ` set (fr_feeds r)"
    by (auto simp: feed_ByHash_def find_Some_iff split: option.splits dest: nth_mem)
  then obtain u where "(u, feed) \<in> set (fr_feeds r)" by force
  then have "map_of (fr_feeds r) u = Some feed" using assms(2) by (simp add: feeds_keyed_def)
  then show ?thesis using assms(2) x \<open>cf_KeyHash feed = _\<close> by (auto simp: feeds_keyed_def key_of_def)
qed

lemma owner_gone:
  assumes "\<forall>u. key_of r u \<noteq> Some (HashToken c (trim_suffix key ''.ics''))" "feeds_keyed r"
  shows "feed_owner e c key d r = (Inl gone, r)"
proof -
  have "feed_ByHash (HashToken c (trim_suffix key ''.ics'')) r = Inl (NotFound ''feed'' [])"
    using assms by (fastforce simp: feed_ByHash_def key_of_def feeds_keyed_def find_None_iff split: option.split)
  then show ?thesis by (simp add: feed_owner_def Let_def missingOr_def KindOf_def)
qed

section \<open>What is on the calendar\<close>

lemma by_days_keys: "fst ` set (by_days ts m) = fst ` set m \<union> (\<lambda>t. CalendarDay (ts_Date t)) ` set ts"
  by (induction ts arbitrary: m) (auto simp: keys_update)

lemma bookedDays_days: "fst ` set (bookedDays ts) = (\<lambda>t. CalendarDay (ts_Date t)) ` set ts"
  using by_days_keys [of ts "[]"] by (force simp: bookedDays_def image_image case_prod_beta)

lemma calendar_events:
  assumes "feed_calendar e w d feed user = Inr cal"
  obtains entries where
    "ts_GetByFilter (lower e) (over_days (us_ID user) (midnight (years_on (todayOf e (fs_calendar w) user) (- calendarFeedYears)))
        (midnight (years_on (todayOf e (fs_calendar w) user) calendarFeedYears))) (db_timesheets d) = Inr entries"
    "ie_Day ` set (ic_Events cal) = (\<lambda>t. CalendarDay (ts_Date t)) ` set entries
      \<union> ab_day ` set (absence_Between (us_ID user) (years_on (todayOf e (fs_calendar w) user) (- calendarFeedYears))
           (years_on (todayOf e (fs_calendar w) user) calendarFeedYears) (db_absences d))"
    "sorted (map ie_Day (ic_Events cal))"
proof -
  let ?today = "todayOf e (fs_calendar w) user" and ?words = "i18n_For (fs_files w) (EffectiveLanguage user)"
  obtain entries names where f: "ts_GetByFilter (lower e) (over_days (us_ID user) (midnight (years_on ?today (- calendarFeedYears)))
        (midnight (years_on ?today calendarFeedYears))) (db_timesheets d) = Inr entries"
    "ic_Events cal = sort_by (by_key ie_Day) (map (booked_event ?words feed names) (bookedDays entries)
       @ map (away_event ?words feed) (absence_Between (us_ID user) (years_on ?today (- calendarFeedYears))
           (years_on ?today calendarFeedYears) (db_absences d)))"
    using assms by (auto simp: feed_calendar_def Let_def bind_res_Inr)
  have "ie_Day (booked_event ?words feed names x) = fst x" for x by (cases x) (simp add: booked_event_def)
  moreover have "ie_Day (away_event ?words feed y) = ab_day y" for y by (simp add: away_event_def)
  ultimately have "ie_Day ` set (ic_Events cal) = (\<lambda>t. CalendarDay (ts_Date t)) ` set entries
      \<union> ab_day ` set (absence_Between (us_ID user) (years_on ?today (- calendarFeedYears)) (years_on ?today calendarFeedYears) (db_absences d))"
    unfolding f(2) bookedDays_days [symmetric] by (simp add: image_Un image_image)
  moreover have "sorted (map ie_Day (ic_Events cal))" unfolding f(2) by (rule sort_by_key_sorted)
  ultimately show ?thesis using that f(1) by blast
qed

lemma listed_entries:
  assumes "ts_GetByFilter low (over_days u (midnight a) (midnight b)) r = Inr entries" "u \<noteq> 0"
  shows "(\<forall>t \<in> set entries. t \<in> set (store_all (tr_store r)) \<and> ts_UserID t = u)
    \<and> (\<forall>t \<in> set (store_all (tr_store r)). ts_UserID t = u \<and> ns (midnight a) \<le> ns (ts_Date t) \<and> ns (ts_Date t) \<le> ns (midnight b) \<longrightarrow> t \<in> set entries)"
proof -
  have "set entries = set (matching low (over_days u (midnight a) (midnight b)) r)"
    using assms(1) by (auto simp: ts_GetByFilter_def page_def over_days_def all_of_def)
  then show ?thesis using assms(2)
    by (auto simp: matching_def Let_def matchesFilter_def OverWholeDays_def over_days_def all_of_def split: if_splits)
qed

lemma names_found: "\<exists>names. feed_names d u ts looked known = Inr names"
proof (induction ts arbitrary: looked known)
  case (Cons t ts)
  have "err_kind err = KindNotFound" if "store_get p (db_projects d) = Inl err" for p err
    using that by (auto simp: store_get_def NotFound_def blank_error_def split: option.splits)
  then show ?case using Cons by (auto split: option.split sum.split)
qed simp

lemma calendar_found: "\<exists>cal. feed_calendar e w d feed user = Inr cal"
proof -
  have "\<exists>ts. ts_GetByFilter low (over_days u a b) r = Inr ts" for low u a b r
    by (simp add: ts_GetByFilter_def page_def over_days_def all_of_def)
  then obtain ts where "ts_GetByFilter (lower e) (over_days (us_ID user) (midnight (years_on (todayOf e (fs_calendar w) user) (- calendarFeedYears)))
      (midnight (years_on (todayOf e (fs_calendar w) user) calendarFeedYears))) (db_timesheets d) = Inr ts" by blast
  then show ?thesis using names_found [of d "us_ID user" ts "[]" "[]"] by (auto simp: feed_calendar_def Let_def)
qed

text \<open>A calendar in order, of the days somebody booked on or was away on and no others, with every day they
  booked on in the year either side of today.\<close>

definition own_days :: "env \<Rightarrow> feed_surroundings \<Rightarrow> db \<Rightarrow> user \<Rightarrow> ical_calendar \<Rightarrow> bool" where
  "own_days e w d user cal \<longleftrightarrow> sorted (map ie_Day (ic_Events cal))
     \<and> (\<forall>x \<in> set (ic_Events cal).
          (\<exists>t \<in> set (store_all (tr_store (db_timesheets d))). ts_UserID t = us_ID user \<and> CalendarDay (ts_Date t) = ie_Day x)
          \<or> (\<exists>y \<in> set (db_absences d). ab_user y = us_ID user \<and> ab_day y = ie_Day x))
     \<and> (\<forall>t \<in> set (store_all (tr_store (db_timesheets d))). ts_UserID t = us_ID user
          \<and> ns (midnight (years_on (todayOf e (fs_calendar w) user) (- 1))) \<le> ns (ts_Date t)
          \<and> ns (ts_Date t) \<le> ns (midnight (years_on (todayOf e (fs_calendar w) user) 1))
          \<longrightarrow> CalendarDay (ts_Date t) \<in> ie_Day ` set (ic_Events cal))"

lemma calendar_own_days:
  assumes "feed_calendar e w d feed user = Inr cal" "us_ID user \<noteq> 0"
  shows "own_days e w d user cal"
proof -
  let ?today = "todayOf e (fs_calendar w) user"
  obtain entries where entries: "ts_GetByFilter (lower e) (over_days (us_ID user) (midnight (years_on ?today (- 1)))
      (midnight (years_on ?today 1))) (db_timesheets d) = Inr entries"
    and events: "ie_Day ` set (ic_Events cal) = (\<lambda>t. CalendarDay (ts_Date t)) ` set entries
      \<union> ab_day ` set (absence_Between (us_ID user) (years_on ?today (- 1)) (years_on ?today 1) (db_absences d))"
    and ordered: "sorted (map ie_Day (ic_Events cal))"
    using calendar_events [OF assms(1)] unfolding calendarFeedYears_def .
  note listed = listed_entries [OF entries assms(2)]
  have away: "y \<in> set (db_absences d) \<and> ab_user y = us_ID user" if "y \<in> set (absence_Between (us_ID user) a b (db_absences d))" for y a b
    using that by (auto simp: absence_Between_def dated_between_def absence_key_def)
  have "(\<exists>t \<in> set (store_all (tr_store (db_timesheets d))). ts_UserID t = us_ID user \<and> CalendarDay (ts_Date t) = ie_Day x)
      \<or> (\<exists>y \<in> set (db_absences d). ab_user y = us_ID user \<and> ab_day y = ie_Day x)" if "x \<in> set (ic_Events cal)" for x
  proof -
    have "ie_Day x \<in> ie_Day ` set (ic_Events cal)" using that by blast
    then show ?thesis unfolding events using listed by (auto dest: away)
  qed
  then show ?thesis unfolding own_days_def events using ordered listed by blast
qed

text \<open>C39: a calendar address opens the days of one account and nothing else: whatever addresses are made, taken
  back and read, a key that reads anything is the one that stands for an account - the last made for it
  and not taken back -, which exists, has chosen its password and may read its own entries at that
  moment; what is read is a calendar of that account's own days, and reading changes no key; and a key
  that stands for nobody, having been replaced or taken back, answers as one that never was.\<close>

theorem feed_opens_own_days:
  assumes "r = feeds_after steps" "db_valid d"
  shows "(\<forall>out r'. feed_Read e c w key d r = (Inr out, r') \<longrightarrow>
      (\<exists>u user cal. standing u steps = Some (HashToken c (trim_suffix key ''.ics''))
        \<and> user_GetByID (db_roles d) u (db_users d) = Inr user \<and> us_ID user = u \<and> \<not> us_MustChangePassword user
        \<and> Can (principalFor d user) PermTimesheetReadOwn
        \<and> out = ical_Write cal \<and> out \<noteq> None \<and> own_days e w d user cal \<and> (\<forall>v. key_of r' v = standing v steps)))
    \<and> ((\<forall>u. standing u steps \<noteq> Some (HashToken c (trim_suffix key ''.ics''))) \<longrightarrow> feed_Read e c w key d r = (Inl gone, r))"
proof (intro conjI allI impI)
  have keyed: "feeds_keyed r" and key: "key_of r v = standing v steps" for v
    using feeds_after_right [of steps] by (simp_all add: assms(1))
  show "feed_Read e c w key d r = (Inl gone, r)" if "\<forall>u. standing u steps \<noteq> Some (HashToken c (trim_suffix key ''.ics''))"
    using owner_gone [OF _ keyed, of c key e d] that by (simp add: feed_Read_def key)
  fix out r' assume read: "feed_Read e c w key d r = (Inr out, r')"
  then obtain feed user cal where own: "feed_owner e c key d r = (Inr (feed, user), r')"
    and cal: "feed_calendar e w d feed user = Inr cal" "out = ical_Write cal"
    by (auto simp: feed_Read_def bind_res_Inr split: prod.splits sum.splits)
  note owner = owner_Inr [OF own keyed]
  have id: "us_ID user = cf_UserID feed" "us_ID user \<noteq> 0"
    using owner assms(2) by (auto simp: user_GetByID_Inr db_valid_def users_keyed_def store_valid_def)
  have "out \<noteq> None" using written_lines_read [OF calendar_lines_ok, of cal] cal(2) by (auto simp: ical_Write_def)
  moreover have "\<forall>v. key_of r' v = standing v steps" using owner_keeps [OF own] key by simp
  ultimately show "\<exists>u user cal. standing u steps = Some (HashToken c (trim_suffix key ''.ics''))
        \<and> user_GetByID (db_roles d) u (db_users d) = Inr user \<and> us_ID user = u \<and> \<not> us_MustChangePassword user
        \<and> Can (principalFor d user) PermTimesheetReadOwn
        \<and> out = ical_Write cal \<and> out \<noteq> None \<and> own_days e w d user cal \<and> (\<forall>v. key_of r' v = standing v steps)"
    using owner key cal(2) id(1) calendar_own_days [OF cal(1) id(2)] by metis
qed

text \<open>Ada makes an address and then another: the first reads nothing any more, the second does.\<close>

definition feed_user :: user where "feed_user = sample_user\<lparr>us_RoleID := 2\<rparr>"

lemma feed_user_may_read: "Can (principalFor (sample_with feed_user) (withRoleName (db_roles (sample_with feed_user)) feed_user)) PermTimesheetReadOwn"
  by (simp add: Can_def principalFor_def feed_user_def sample_user_def blank_user_def sample_with_def sample_db_def new_db_def
      NewRoleRepository_def DefaultRoles_def store_get_def store_add_def store_find_def newStore_def Let_def uint_succ_def
      uint_max_def SystemAdminPermissions_def UserPermissions_def role_with_id_def)

theorem feed_opens_own_days_witness:
  "\<exists>out r'. feed_Read sample_env sample_crypto \<lparr>fs_calendar = \<lparr>cal_place = None, cal_today = None\<rparr>, fs_files = (\<lambda>_. []), fs_name = None\<rparr>
      ''gtrcal_token.ics'' (sample_with feed_user) (feeds_after [MakeFeed sample_env (sample_crypto\<lparr>fresh_token := ''first''\<rparr>) 1,
        MakeFeed sample_env sample_crypto 1]) = (Inr out, r')
    \<and> out \<noteq> None
    \<and> feed_Read sample_env sample_crypto \<lparr>fs_calendar = \<lparr>cal_place = None, cal_today = None\<rparr>, fs_files = (\<lambda>_. []), fs_name = None\<rparr>
        ''gtrcal_first'' (sample_with feed_user) (feeds_after [MakeFeed sample_env (sample_crypto\<lparr>fresh_token := ''first''\<rparr>) 1,
          MakeFeed sample_env sample_crypto 1])
      = (Inl gone, feeds_after [MakeFeed sample_env (sample_crypto\<lparr>fresh_token := ''first''\<rparr>) 1, MakeFeed sample_env sample_crypto 1])"
proof -
  let ?steps = "[MakeFeed sample_env (sample_crypto\<lparr>fresh_token := ''first''\<rparr>) 1, MakeFeed sample_env sample_crypto 1]"
  let ?d = "sample_with feed_user"
  let ?w = "\<lparr>fs_calendar = \<lparr>cal_place = None, cal_today = None\<rparr>, fs_files = (\<lambda>_. []), fs_name = None\<rparr>"
  have valid: "db_valid ?d" by (rule sample_with_valid) (simp add: feed_user_def sample_user_def)
  note opens = feed_opens_own_days [OF refl valid, of sample_env sample_crypto ?w _ ?steps]
  have sha: "HashToken sample_crypto s = s" "HashToken (sample_crypto\<lparr>fresh_token := t\<rparr>) s = s" for s t
    by (simp_all add: HashToken_def sample_crypto_def)
  have stands: "standing u ?steps = (if u = 1 then Some ''gtrcal_token'' else None)" for u
    by (simp add: standing_def sha CalendarFeedKeyPrefix_def) (simp add: sample_crypto_def)
  have old: "feed_Read sample_env sample_crypto ?w ''gtrcal_first'' ?d (feeds_after ?steps) = (Inl gone, feeds_after ?steps)"
    using opens [of "''gtrcal_first''"] by (simp only: stands) (simp add: sha trim_suffix_def)
  have "\<exists>out r'. feed_Read sample_env sample_crypto ?w ''gtrcal_token.ics'' ?d (feeds_after ?steps) = (Inr out, r')"
  proof -
    have "map snd (fr_feeds (feeds_after ?steps)) = [\<lparr>cf_ID = 2, cf_UserID = 1, cf_KeyHash = ''gtrcal_token'', cf_Prefix = ''gtrcal_token'',
        cf_CreatedAt = now sample_env, cf_LastReadAt = None\<rparr>]"
      by (simp add: feeds_after_def NewCalendarFeedRepository_def feed_Create_def feed_Replace_def Let_def sha
          CalendarFeedKeyPrefix_def uint_succ_def) (simp add: sample_crypto_def)
    then obtain feed where feed: "feed_ByHash ''gtrcal_token'' (feeds_after ?steps) = Inr feed" "cf_UserID feed = 1"
      by (simp add: feed_ByHash_def)
    have user: "user_GetByID (db_roles ?d) 1 (db_users ?d) = Inr (withRoleName (db_roles ?d) feed_user)"
      by (simp add: user_GetByID_Inr sample_with_at)
    have "\<not> us_MustChangePassword (withRoleName (db_roles ?d) feed_user)"
      by (simp add: withRoleName_def feed_user_def sample_user_def blank_user_def split: option.split)
    moreover have "trim_suffix ''gtrcal_token.ics'' ''.ics'' = ''gtrcal_token''" by (simp add: trim_suffix_def)
    moreover have "has_prefix ''gtrcal_token'' CalendarFeedKeyPrefix" by (simp add: has_prefix_def CalendarFeedKeyPrefix_def)
    ultimately have "\<exists>r'. feed_owner sample_env sample_crypto ''gtrcal_token.ics'' ?d (feeds_after ?steps)
        = (Inr (feed, withRoleName (db_roles ?d) feed_user), r')"
      using feed user feed_user_may_read by (simp add: feed_owner_def Let_def sha del: One_nat_def)
    then show ?thesis using calendar_found [of sample_env ?w ?d feed "withRoleName (db_roles ?d) feed_user"]
      by (auto simp: feed_Read_def)
  qed
  then show ?thesis using old opens [of "''gtrcal_token.ics''"] by blast
qed

end
