(* ===== verification/Spec2Isabelle.thy ===== *)
theory Spec2Isabelle
  imports Holidays WorkWeek WorkDay CronSchedule Tags ClockRules OvertimeRules LeaveRules RoleRules SyncRules LimitRules GatewayRules WireRules OwnTimeRules RangeRules AdministrationRules AdminRights SettingsRules AdminLogRules PasskeyRules TemplateRules StatementRules FeedRules
begin

section \<open>The program\<close>

text \<open>
  A verification development for the server of a time-recording application written in Go: people book
  hours on projects of their own, run a stopwatch, record working days, absences and leave, and read a
  balance of their hours; an installation is administered, people sign in with a password, a code, a
  directory, a ticket, a provider or a passkey, and everything is reached over a REST interface.

  The source has four layers under \<^verbatim>\<open>src/internal\<close>, and the theories follow them.  The domain
  (\<^verbatim>\<open>domain/model\<close>, \<^verbatim>\<open>domain/service\<close>) holds the data and its rules; the application services
  (\<^verbatim>\<open>application/v1/service\<close>) hold the operations; the repositories
  (\<^verbatim>\<open>infrastructure/persistence\<close>) keep the data; the handlers (\<^verbatim>\<open>interface/api/v1/rest\<close>) decide who
  may ask for what and call the services.  \<^verbatim>\<open>support\<close> holds what all of them use.

  A theory named after a part holds its definitions in the order of the code; the theory of the same name
  with \<open>Rules\<close> (or \<open>Safety\<close>, \<open>Rights\<close>) holds what is proved of it.  Definitions keep the
  names of the source; a prefix (\<open>project_\<close>, \<open>handle_absence_\<close>) tells apart methods that share one.
\<close>

section \<open>How the program is modelled\<close>

text \<open>
  Values.  A Go string is its bytes (\<open>gostring\<close>), decoded as UTF-8 where the program reads characters
  (GoString); an unsigned integer is a natural number, with the wrap written out where the program counts
  past the end of its word; \<open>float64\<close> is a dyadic rational with Go's rounding after every operation
  (Float64), so that sums of hours round as they do in the program; a moment is its nanoseconds with the
  zone it is read in (GoTime), and a zone is a function from instants to offsets.

  Failure.  An operation that may fail returns \<open>app_error + 'a\<close> (AppError: kind, code, values); every
  early return of the source is a branch.  What a handler answers is \<open>http_error + 'a\<close>.

  State.  What a service works on is passed in and returned: \<open>db\<close> (Database) holds the repositories
  of one installation, \<open>site\<close> (People) adds the sessions, the stored settings and the codes that were spent; \<open>env\<close> holds the
  moment of the call, the limits in force and the string functions whose tables are not part of the program
  (lower and upper case, case folding).  A repository is a dictionary with a next number (Store), as the in-memory repositories
  have it; an operation that leaves the state alone returns only its value.

  Loops.  Recursion follows the data.  Where the program loops until a condition holds, the model is a
  \<open>partial_function (option)\<close> whose \<open>None\<close> is a loop that never ends: \<open>every_day\<close> (Evaluation)
  walks the midnights of a range and is shown to end wherever every day has one, and \<open>fold_rest\<close> (Ical)
  cuts a line and is shown to end on every line.  Reading a log page by page (AdminLogRules) is given
  fuel; any more than there are changes on record is enough, as its theorem says.

  Order.  Go reads a map in any order.  Where that order could matter it is a parameter (\<open>shuffled\<close>,
  \<open>map_orders\<close>), and what is proved holds for every order.

  Outside.  Code that is not part of the repository is a parameter: the digests, ciphers and random
  numbers (\<open>crypto\<close>, \<open>sealer\<close>), the parsers of addresses and URLs (\<open>net\<close>), the image codecs,
  what a directory, a provider, a Kerberos ticket or the WebAuthn library answers, the dictionaries, the
  zone tables.  Where a theorem needs something of them it is a hypothesis that states what they document,
  and the theorem's witness gives concrete functions that satisfy it.

  Concurrency.  A request is one step, as a handler runs against a database that serialises it; where the
  program itself interleaves (signing in while a password is changed, a limit that is saved while it is
  being read, work at two halves of a ceremony) the operations are separate steps of an inductive
  relation, and the theorem is about every sequence of them.
\<close>

section \<open>The parts and what is proved of them\<close>

text \<open>
  Ground (Prelude, Float64, GoTime, GoString, Trim, AppError, Store, Operational, Tags).  The result type
  and its sequencing, floating-point numbers with exactness of sums and the error of rounding, days and
  instants, strings, the refusals, the dictionaries behind the repositories, lengths and limits, the activities in a description.

  Calendar (HolidayRules, Holidays: \<^verbatim>\<open>holiday_*.go\<close>).  Easter, the rules of every country and its
  regions: the holidays of a year are those of the rules, in order, one a day.

  Recorded time (Timesheets, Projects, Accounts, Database: the models with \<^verbatim>\<open>persistence/memory\<close>).  Pages
  of a listing cover it without a gap or a repetition.

  Booking (Booking, BookingRules, Sample, BookingSafety), projects (ProjectService, ProjectRules), moving,
  copying and the stopwatch (TimeMoves, TimeRules, ClockRules).  A refused booking changes nothing and an
  accepted one stores exactly what it says; the daily cap decides by the exact sum up to the slack of
  rounding; through any interleaving of these operations every entry stays within its rules, on a project
  of its owner, and no day exceeds the cap; a stopped clock books its hours once; a project of somebody
  else answers as one that does not exist.

  Days (WorkWeek, WorkDay, Leave, Overtime, Diary, LeaveRules, OvertimeRules).  Planned weeks, working
  days joined to shifts and the notices they give, absences, leave carried over from year to year and
  counted exactly, the balance and the picture it is the sum of, the reminder; why somebody was away is
  told to nobody else.

  People (Access, People, Teams, AccessRules, RoleRules).  Passwords, codes, roles and accounts, managers:
  an account that is deleted takes everything of its own along, and the built-in administrator and the
  shipped roles survive every sequence of operations.

  Signing in (SignIn, SignInRules, SessionRules, LimitRules, DirectorySync, SyncRules, OpenID, OpenIDRules,
  Passkeys, PasskeyRules).  Sessions, second factors, accounts of a directory and their synchronisation,
  providers and passkeys: a code opens one sign-in, no session outlives its password, a directory never
  reaches an administrator, a synchronisation removes only who left, a provider or a passkey signs in only
  who linked it, and a ceremony ends at most once.  LimitRules has the refinement of the administered
  limits by the cache in front of them.

  The interface (Wire, WireRules, Gateway, GatewayRules, Requests, RequestRules, OwnTime, OwnTimeRules,
  RangeRules, Administration, AdministrationRules, AdminRights).  Bodies, pages, refusals, limits on
  attempts, personal tokens, and the handlers with their guards: through any sequence of requests by
  others somebody's hours and days stay as they are, what is out of reach answers as if it were not there,
  nobody without the right to administer gains one, and maintenance shuts the door.

  Administration (Settings, SettingsRoutes, SettingsRules, Imaging, AdminLog, AdminLogRules).  What an
  administrator sets up, sealed passwords, the logo, the log of administrative changes: settings are read
  back as they were accepted and every change is on record once.

  What is made of recorded time (Templates, TemplateRules, Evaluation, EvaluationRules, StatementRules,
  I18n, Ical, IcalRules, CalendarFeed, FeedRules).  Templates of bookings, figures, statements of work,
  calendars and the addresses they are read under: figures come back and are exact, a statement charges
  for the billable projects of its owner and nothing else, a calendar is read back as it was written, and
  an address opens the days of one account while it is allowed to.

  Interfaces are locales, interpreted on the definitions of the model by the theories that provide them:
  stores of numbered records (\<open>id_store\<close>, \<open>keyed_store\<close>: accounts, roles, projects, entries) and of dated
  ones (\<open>dated_store\<close>: absences, working days), orders that lists are sorted by (\<open>comparison\<close>: days,
  entries, lines of a statement, strings), and rounding (\<open>rounding\<close>: the nearest double).
\<close>

section \<open>Not modelled\<close>

text \<open>
  The relational repositories are SQL and run in a database; what the services rely on of a repository is
  modelled on the in-memory implementation, and on the relational one where there is no other (personal
  tokens, passkeys, the removal of an account).  Migrations, configuration, telemetry, the log, updates,
  restarts, TLS and the wiring of the router are input and output around the program.  Documents, workbooks,
  QR codes, the web interface, the installer and the terminal client are presentation or clients of the
  interface.  The clients of LDAP, Kerberos and OpenID speak network protocols of libraries; what they
  answer is a parameter.  Repository interfaces carry no behaviour.

  Of the parts that are modelled, the following is left out: traces and metrics; sentences in the language
  of the reader beside their codes; JSON and multipart decoding (a body is what was decoded, or that it was
  not); cancellation; locks, except where their order is what is proved.
\<close>

end
